(* ===== verification/Prelude.thy ===== *)
theory Prelude
  imports Main "HOL-Library.Word"
begin

text \<open>
  Shared vocabulary of the development: bytes and 32-bit machine integers, the little-endian
  layout of an integer in a packed struct, fixed slices of a byte list, C strings in fixed
  fields, single-precision comparison on bit patterns, and the outcome type of code that may
  fail, run into undefined behaviour or not return within the given fuel.
\<close>

unbundle bit_operations_syntax

named_theorems lens \<open>lengths of encoded structs and fields\<close>
named_theorems slices \<open>reading a field back out of an encoded struct\<close>

section \<open>Bytes and 32-bit integers\<close>

type_synonym byte = "8 word"
type_synonym u32 = "32 word"
type_synonym bytes = "byte list"

definition le32 :: "u32 \<Rightarrow> bytes" where
  "le32 w = [ucast w, ucast (drop_bit 8 w), ucast (drop_bit 16 w), ucast (drop_bit 24 w)]"

definition of_le32 :: "bytes \<Rightarrow> u32" where
  "of_le32 bs = (case bs of
      a # b # c # d # _ \<Rightarrow> ucast a OR push_bit 8 (ucast b) OR push_bit 16 (ucast c) OR push_bit 24 (ucast d)
    | _ \<Rightarrow> 0)"

lemma length_le32 [simp, lens]: "length (le32 w) = 4"
  by (simp add: le32_def)

lemma of_le32_le32 [simp]: "of_le32 (le32 w) = w"
proof (rule bit_word_eqI)
  fix n assume "n < LENGTH(32)"
  then have n: "n < 32" by simp
  then consider "n < 8" | "8 \<le> n" "n < 16" | "16 \<le> n" "n < 24" | "24 \<le> n" by linarith
  then show "bit (of_le32 (le32 w)) n \<longleftrightarrow> bit w n"
    using n by cases (auto simp: of_le32_def le32_def bit_simps less_diff_conv2)
qed

lemma of_le32_le32_append [simp]: "of_le32 (le32 w @ r) = w"
proof -
  have "of_le32 (le32 w @ r) = of_le32 (le32 w)"
    by (simp add: of_le32_def le32_def)
  then show ?thesis by simp
qed

lemma le32_inj [simp]: "le32 a = le32 b \<longleftrightarrow> a = b"
  by (metis of_le32_le32)

lemma unat_of_nat32: "n < 2 ^ 32 \<Longrightarrow> unat (of_nat n :: u32) = n"
  by (simp add: unat_of_nat)

text \<open>An array of 32-bit integers in memory, and reading one of a given count back.\<close>

definition words_bytes :: "u32 list \<Rightarrow> bytes" where
  "words_bytes ws = concat (map le32 ws)"

fun bytes_words :: "nat \<Rightarrow> bytes \<Rightarrow> u32 list" where
  "bytes_words 0 bs = []"
| "bytes_words (Suc n) bs = of_le32 bs # bytes_words n (drop 4 bs)"

lemma length_words_bytes [simp, lens]: "length (words_bytes ws) = 4 * length ws"
  by (induction ws) (simp_all add: words_bytes_def)

lemma length_bytes_words [simp]: "length (bytes_words n bs) = n"
  by (induction n arbitrary: bs) simp_all

lemma bytes_words_words_bytes [simp]:
  "bytes_words (length ws) (words_bytes ws @ r) = ws"
  by (induction ws) (simp_all add: words_bytes_def)

lemma bytes_words_exact [simp]: "n = length ws \<Longrightarrow> bytes_words n (words_bytes ws) = ws"
  using bytes_words_words_bytes [of ws "[]"] by simp

section \<open>Slices of a byte list\<close>

definition bslice :: "nat \<Rightarrow> nat \<Rightarrow> 'a list \<Rightarrow> 'a list" where
  "bslice off n xs = take n (drop off xs)"

lemma length_bslice [simp]: "length (bslice off n xs) = min n (length xs - off)"
  by (simp add: bslice_def)

lemma bslice_0 [slices]: "length xs = n \<Longrightarrow> bslice 0 n (xs @ ys) = xs"
  by (simp add: bslice_def)

lemma bslice_skip [slices]: "length xs \<le> off \<Longrightarrow> bslice off n (xs @ ys) = bslice (off - length xs) n ys"
  by (simp add: bslice_def)

lemma bslice_all [slices]: "length xs = n \<Longrightarrow> bslice 0 n xs = xs"
  by (simp add: bslice_def)

lemma bslice_mid: "bslice (length a) (length b) (a @ b @ c) = b"
  by (simp add: bslice_def)

text \<open>Overwriting bytes in place, as a write inside a file does; a write past the end extends it.\<close>

definition overwrite :: "nat \<Rightarrow> bytes \<Rightarrow> bytes \<Rightarrow> bytes" where
  "overwrite pos bs d =
     take pos d @ replicate (pos - length d) 0 @ bs @ drop (pos + length bs) d"

lemma overwrite_end [simp]: "pos = length d \<Longrightarrow> overwrite pos bs d = d @ bs"
  by (simp add: overwrite_def)

lemma overwrite_mid:
  "pos = length a \<Longrightarrow> length b = length b' \<Longrightarrow> overwrite pos b' (a @ b @ c) = a @ b' @ c"
  by (simp add: overwrite_def)

section \<open>C strings\<close>

text \<open>
  The characters before the first NUL (\<open>c_str\<close> and every \<open>char*\<close> conversion stop there);
  \<open>cstr_at off bs\<close> reads the C string that starts at offset \<open>off\<close> of a struct, and is
  None when no NUL occurs up to the end of the struct, where the read leaves it.
\<close>

definition c_str :: "bytes \<Rightarrow> bytes" where
  "c_str s = takeWhile (\<lambda>b. b \<noteq> 0) s"

definition strncpy :: "nat \<Rightarrow> bytes \<Rightarrow> bytes" where
  "strncpy n s = take n (c_str s @ replicate n 0)"

definition cstr_at :: "nat \<Rightarrow> bytes \<Rightarrow> bytes option" where
  "cstr_at off bs = (if 0 \<in> set (drop off bs) then Some (c_str (drop off bs)) else None)"

definition name_ok :: "nat \<Rightarrow> bytes \<Rightarrow> bool" where
  "name_ok n s \<longleftrightarrow> length s < n \<and> 0 \<notin> set s"

lemma length_strncpy [simp, lens]: "length (strncpy n s) = n"
  by (simp add: strncpy_def)

lemma c_str_id [simp]: "0 \<notin> set s \<Longrightarrow> c_str s = s"
  by (auto simp: c_str_def)

lemma c_str_append_NUL: "0 \<notin> set s \<Longrightarrow> c_str (s @ 0 # r) = s"
  by (induction s) (auto simp: c_str_def)

lemma strncpy_split:
  assumes "name_ok n s"
  obtains z where "strncpy n s = s @ 0 # z"
proof -
  from assms have l: "length s < n" and nz: "0 \<notin> set s" by (auto simp: name_ok_def)
  then obtain k where k: "n - length s = Suc k" by (metis Suc_diff_Suc)
  have "strncpy n s = s @ take (n - length s) (replicate n 0)"
    using l nz by (simp add: strncpy_def)
  also have "take (n - length s) (replicate n (0::byte)) = replicate (Suc k) 0"
  proof -
    have "replicate n (0::byte) = replicate (Suc k + (n - Suc k)) 0" using l k by simp
    also have "\<dots> = replicate (Suc k) 0 @ replicate (n - Suc k) 0" by (rule replicate_add)
    finally show ?thesis using k by (simp del: replicate.simps)
  qed
  finally show ?thesis by (intro that) simp
qed

lemma cstr_at_strncpy:
  assumes "name_ok n s" "length a = off"
  shows "cstr_at off (a @ strncpy n s @ r) = Some s"
proof -
  obtain z where "strncpy n s = s @ 0 # z" using strncpy_split assms(1) by blast
  then show ?thesis using assms by (simp add: cstr_at_def c_str_append_NUL name_ok_def)
qed

lemma cstr_at_skip [slices]:
  "length a \<le> off \<Longrightarrow> cstr_at off (a @ r) = cstr_at (off - length a) r"
  by (simp add: cstr_at_def)

lemma cstr_at_0 [slices]: "name_ok n s \<Longrightarrow> cstr_at 0 (strncpy n s @ r) = Some s"
  using cstr_at_strncpy [of n s "[]" 0 r] by simp

section \<open>Single-precision comparison\<close>

text \<open>
  A C++ \<open>float\<close> is kept as its 32 bits. A NaN compares false with everything; otherwise the
  order is the one of the sign-magnitude value (so the two zeros are equal).
\<close>

definition f_nan :: "u32 \<Rightarrow> bool" where
  "f_nan w \<longleftrightarrow> 0x7F800000 < w AND 0x7FFFFFFF"

definition f_key :: "u32 \<Rightarrow> int" where
  "f_key w = (if bit w 31 then - uint (w AND 0x7FFFFFFF) else uint (w AND 0x7FFFFFFF))"

definition f_less :: "u32 \<Rightarrow> u32 \<Rightarrow> bool" where
  "f_less a b \<longleftrightarrow> \<not> f_nan a \<and> \<not> f_nan b \<and> f_key a < f_key b"

lemma f_less_irrefl [simp]: "\<not> f_less a a"
  by (simp add: f_less_def)

lemma f_less_trans: "f_less a b \<Longrightarrow> f_less b c \<Longrightarrow> f_less a c"
  by (simp add: f_less_def)

lemma f_less_asym: "f_less a b \<Longrightarrow> \<not> f_less b a"
  by (simp add: f_less_def)

section \<open>Outcomes\<close>

text \<open>
  \<open>Done\<close> a value, \<open>Fail\<close> the error return of the code, \<open>UB\<close> an access outside its buffer
  (undefined behaviour in C++), \<open>NoFuel\<close> the loop did not end within the fuel.
\<close>

datatype 'a outcome = Done 'a | Fail | UB | NoFuel

fun obind :: "'a outcome \<Rightarrow> ('a \<Rightarrow> 'b outcome) \<Rightarrow> 'b outcome" where
  "obind (Done a) f = f a"
| "obind Fail f = Fail"
| "obind UB f = UB"
| "obind NoFuel f = NoFuel"

lemma obind_eq_Done: "obind m f = Done b \<longleftrightarrow> (\<exists>a. m = Done a \<and> f a = Done b)"
  by (cases m) auto

lemma obind_DoneE: "obind m f = Done b \<Longrightarrow> (\<And>a. m = Done a \<Longrightarrow> f a = Done b \<Longrightarrow> P) \<Longrightarrow> P"
  by (cases m) auto

end
