(* ===== verification/StdMap.thy ===== *)
theory StdMap
  imports Main "HOL-Library.List_Lexorder" "HOL-Library.Char_ord"
begin

text \<open>
  \<open>std::map\<close>: the association list in key order that an iteration over the map visits. The
  locale \<open>key_map\<close> is the contract the components rely on (what a lookup returns after an
  insertion, that insertion keeps the order); the interpretation shows the ordered list meets it.
\<close>

fun smap_put :: "'k::linorder \<Rightarrow> 'v \<Rightarrow> ('k \<times> 'v) list \<Rightarrow> ('k \<times> 'v) list" where
  "smap_put k v [] = [(k, v)]"
| "smap_put k v ((k', v') # m) =
     (if k = k' then (k, v) # m
      else if k < k' then (k, v) # (k', v') # m
      else (k', v') # smap_put k v m)"

definition smap_get :: "('k \<times> 'v) list \<Rightarrow> 'k \<Rightarrow> 'v option" where
  "smap_get m k = map_of m k"

definition smap_inv :: "('k::linorder \<times> 'v) list \<Rightarrow> bool" where
  "smap_inv m \<longleftrightarrow> sorted_wrt (<) (map fst m)"

lemma smap_put_get: "map_of (smap_put k v m) = (map_of m)(k \<mapsto> v)"
  by (induction m) auto

lemma set_smap_put: "set (map fst (smap_put k v m)) = insert k (set (map fst m))"
proof -
  have "dom (map_of (smap_put k v m)) = insert k (dom (map_of m))"
    by (simp add: smap_put_get)
  then show ?thesis by (simp add: dom_map_of_conv_image_fst)
qed

lemma set_smap_put_subset: "set (smap_put k v m) \<subseteq> insert (k, v) (set m)"
  by (induction m) (auto split: if_splits)

lemma smap_put_inv: "smap_inv m \<Longrightarrow> smap_inv (smap_put k v m)"
proof (induction m)
  case Nil
  then show ?case by (simp add: smap_inv_def)
next
  case (Cons a m)
  obtain k' v' where a: "a = (k', v')" by (cases a)
  have m: "\<forall>x\<in>set (map fst m). k' < x" "smap_inv m"
    using Cons.prems by (simp_all add: smap_inv_def a)
  consider "k = k'" | "k < k'" | "k' < k" by (meson linorder_neqE)
  then show ?case
  proof cases
    case 3
    have "\<forall>x\<in>set (map fst (smap_put k v m)). k' < x"
      unfolding set_smap_put using m 3 by simp
    then show ?thesis using 3 Cons.IH m a by (auto simp: smap_inv_def)
  qed (use m a in \<open>auto simp: smap_inv_def intro: order.strict_trans\<close>)
qed

lemma smap_put_end: "\<forall>x\<in>set m. fst x < k \<Longrightarrow> smap_put k v m = m @ [(k, v)]"
  by (induction m) auto

locale key_map =
  fixes empty :: 'm
    and put :: "'k \<Rightarrow> 'v \<Rightarrow> 'm \<Rightarrow> 'm"
    and get :: "'m \<Rightarrow> 'k \<Rightarrow> 'v option"
    and inv :: "'m \<Rightarrow> bool"
  assumes get_empty: "get empty k = None"
    and get_put: "inv m \<Longrightarrow> get (put k v m) k' = (if k' = k then Some v else get m k')"
    and inv_empty: "inv empty"
    and inv_put: "inv m \<Longrightarrow> inv (put k v m)"
begin

text \<open>A loop that inserts one pair after the other: the invariant, and that the last one wins.\<close>

lemma inv_fold: "inv m \<Longrightarrow> inv (fold (\<lambda>(k, v). put k v) kvs m)"
  by (induction kvs arbitrary: m) (auto simp: inv_put)

lemma get_fold:
  "inv m \<Longrightarrow> get (fold (\<lambda>(k, v). put k v) kvs m) k =
     (case map_of (rev kvs) k of None \<Rightarrow> get m k | Some v \<Rightarrow> Some v)"
  by (induction kvs arbitrary: m) (auto simp: inv_put get_put map_add_def split: option.splits)

lemma put_same: "inv m \<Longrightarrow> get (put k v (put k v' m)) k' = get (put k v m) k'"
  by (simp add: get_put inv_put)

end

interpretation smap: key_map "[]" smap_put smap_get smap_inv
  by unfold_locales (simp_all add: smap_get_def smap_put_get smap_put_inv, simp add: smap_inv_def)

end
