(* ===== verification/ScanFormat.thy ===== *)
theory ScanFormat
  imports Prelude StdMap
begin

text \<open>
  The 3dscan file format (Common/3DScanFmt.h) and the in-memory model (Common/3DScanModel.h).
  Each packed struct is a record with an encoder to its bytes and a decoder from them; floats
  are bit patterns. The locale \<open>file_struct\<close> states what the loader needs of a struct: its
  size, and that decoding its bytes gives it back.
\<close>

section \<open>Vertex and colour types (BaseTypes.h)\<close>

record float3 =
  f3_x :: u32
  f3_y :: u32
  f3_z :: u32

record float4_rgba =
  clr_r :: u32
  clr_g :: u32
  clr_b :: u32
  clr_a :: u32

definition enc_rgba :: "float4_rgba \<Rightarrow> bytes" where
  "enc_rgba c = le32 (clr_r c) @ le32 (clr_g c) @ le32 (clr_b c) @ le32 (clr_a c)"

definition dec_rgba :: "bytes \<Rightarrow> float4_rgba" where
  "dec_rgba bs = \<lparr>clr_r = of_le32 bs, clr_g = of_le32 (drop 4 bs), clr_b = of_le32 (drop 8 bs),
     clr_a = of_le32 (drop 12 bs)\<rparr>"

definition dec_float3 :: "bytes \<Rightarrow> float3" where
  "dec_float3 bs = \<lparr>f3_x = of_le32 bs, f3_y = of_le32 (drop 4 bs), f3_z = of_le32 (drop 8 bs)\<rparr>"

lemma length_enc_rgba [simp, lens]: "length (enc_rgba c) = 16"
  by (simp add: enc_rgba_def)

lemma dec_enc_rgba [simp]: "dec_rgba (enc_rgba c) = c"
  by (simp add: dec_rgba_def enc_rgba_def)

section \<open>Flags\<close>

definition TDS_FLAG_NONE :: u32 where "TDS_FLAG_NONE = 0"
definition TDS_FLAG_COMPRESSED :: u32 where "TDS_FLAG_COMPRESSED = 1"
definition TDS_FLAG_ENCRYPTED :: u32 where "TDS_FLAG_ENCRYPTED = 2"

definition VF_POSITIION :: u32 where "VF_POSITIION = 1"
definition VF_NORMAL :: u32 where "VF_NORMAL = 2"
definition VF_UV :: u32 where "VF_UV = 4"

lemmas flag_defs = TDS_FLAG_NONE_def TDS_FLAG_COMPRESSED_def TDS_FLAG_ENCRYPTED_def
  VF_POSITIION_def VF_NORMAL_def VF_UV_def

text \<open>Texture formats: the enum has an \<open>int\<close> representation; any 32-bit value can be read.\<close>

datatype TEXTURE_FORMAT = TEX_UNKNWON | TEX_JPG | TEX_PNG | TEX_DDS | TEX_BMP | TEX_TIFF
  | TEX_JP2 | TEX_TGA | TEX_ETC1 | TEX_ETC2 | TEX_EAC

definition tex_formats :: "TEXTURE_FORMAT list" where
  "tex_formats = [TEX_UNKNWON, TEX_JPG, TEX_PNG, TEX_DDS, TEX_BMP, TEX_TIFF, TEX_JP2, TEX_TGA,
     TEX_ETC1, TEX_ETC2, TEX_EAC]"

fun tex_format_value :: "TEXTURE_FORMAT \<Rightarrow> u32" where
  "tex_format_value TEX_UNKNWON = 0" | "tex_format_value TEX_JPG = 1"
| "tex_format_value TEX_PNG = 2" | "tex_format_value TEX_DDS = 3" | "tex_format_value TEX_BMP = 4"
| "tex_format_value TEX_TIFF = 5" | "tex_format_value TEX_JP2 = 6" | "tex_format_value TEX_TGA = 7"
| "tex_format_value TEX_ETC1 = 8" | "tex_format_value TEX_ETC2 = 9" | "tex_format_value TEX_EAC = 10"

text \<open>Enumerators compare by their values, which number them in the order they are declared.\<close>

lemma tex_format_value_inj: "tex_format_value a = tex_format_value b \<Longrightarrow> a = b"
  by (cases a; cases b) simp_all

instantiation TEXTURE_FORMAT :: linorder
begin

definition less_eq_TEXTURE_FORMAT :: "TEXTURE_FORMAT \<Rightarrow> TEXTURE_FORMAT \<Rightarrow> bool" where
  "less_eq_TEXTURE_FORMAT a b \<longleftrightarrow> tex_format_value a \<le> tex_format_value b"

definition less_TEXTURE_FORMAT :: "TEXTURE_FORMAT \<Rightarrow> TEXTURE_FORMAT \<Rightarrow> bool" where
  "less_TEXTURE_FORMAT a b \<longleftrightarrow> tex_format_value a < tex_format_value b"

instance
  by standard (auto simp: less_eq_TEXTURE_FORMAT_def less_TEXTURE_FORMAT_def intro: tex_format_value_inj)

end

lemma tex_formats_in_order: "sorted tex_formats" "distinct tex_formats" "map tex_format_value tex_formats = map of_nat [0..<11]"
  by (simp_all add: tex_formats_def less_eq_TEXTURE_FORMAT_def upt_rec)

section \<open>File structs\<close>

record TDSCAN_FILE_HEADER =
  hdr_szSign :: bytes
  hdr_uiVersion :: u32
  hdr_uiTotalTriCount :: u32
  hdr_iFirstPartOfs :: u32
  hdr_iMaterialLibOfs :: u32
  hdr_iTexLibOfs :: u32
  hdr_uiCrc :: u32
  hdr_uiPadding :: bytes

definition enc_header :: "TDSCAN_FILE_HEADER \<Rightarrow> bytes" where
  "enc_header h = hdr_szSign h @ le32 (hdr_uiVersion h) @ le32 (hdr_uiTotalTriCount h) @
     le32 (hdr_iFirstPartOfs h) @ le32 (hdr_iMaterialLibOfs h) @ le32 (hdr_iTexLibOfs h) @
     le32 (hdr_uiCrc h) @ hdr_uiPadding h"

definition dec_header :: "bytes \<Rightarrow> TDSCAN_FILE_HEADER" where
  "dec_header bs = \<lparr>hdr_szSign = bslice 0 17 bs, hdr_uiVersion = of_le32 (bslice 17 4 bs),
     hdr_uiTotalTriCount = of_le32 (bslice 21 4 bs), hdr_iFirstPartOfs = of_le32 (bslice 25 4 bs),
     hdr_iMaterialLibOfs = of_le32 (bslice 29 4 bs), hdr_iTexLibOfs = of_le32 (bslice 33 4 bs),
     hdr_uiCrc = of_le32 (bslice 37 4 bs), hdr_uiPadding = bslice 41 5 bs\<rparr>"

record TDSCAN_FILE_PART =
  part_szSign :: bytes
  part_szName :: bytes
  part_iNextPartOfs :: u32
  part_iFirstSubset :: u32

definition enc_part :: "TDSCAN_FILE_PART \<Rightarrow> bytes" where
  "enc_part p = part_szSign p @ part_szName p @ le32 (part_iNextPartOfs p) @ le32 (part_iFirstSubset p)"

definition dec_part :: "bytes \<Rightarrow> TDSCAN_FILE_PART" where
  "dec_part bs = \<lparr>part_szSign = bslice 0 4 bs, part_szName = bslice 4 32 bs,
     part_iNextPartOfs = of_le32 (bslice 36 4 bs), part_iFirstSubset = of_le32 (bslice 40 4 bs)\<rparr>"

record TDSCAN_FILE_MATERIAL =
  mat_szSign :: bytes
  mat_szName :: bytes
  mat_iNextMaterialOfs :: u32
  mat_f4Diffuse :: float4_rgba
  mat_f4Ambient :: float4_rgba
  mat_fGlossiness :: u32
  mat_fSpecIntensity :: u32
  mat_fAlpha :: u32
  mat_fReflectionFactor :: u32
  mat_uiFlags :: u32
  mat_szDiffuseTex :: bytes
  mat_szAlphaTex :: bytes
  mat_szReflectionTex :: bytes
  mat_szSpecularTex :: bytes
  mat_szNormalTex :: bytes
  mat_uiPadding :: bytes

definition enc_material :: "TDSCAN_FILE_MATERIAL \<Rightarrow> bytes" where
  "enc_material m = mat_szSign m @ mat_szName m @ le32 (mat_iNextMaterialOfs m) @
     enc_rgba (mat_f4Diffuse m) @ enc_rgba (mat_f4Ambient m) @ le32 (mat_fGlossiness m) @
     le32 (mat_fSpecIntensity m) @ le32 (mat_fAlpha m) @ le32 (mat_fReflectionFactor m) @
     le32 (mat_uiFlags m) @ mat_szDiffuseTex m @ mat_szAlphaTex m @ mat_szReflectionTex m @
     mat_szSpecularTex m @ mat_szNormalTex m @ mat_uiPadding m"

definition dec_material :: "bytes \<Rightarrow> TDSCAN_FILE_MATERIAL" where
  "dec_material bs = \<lparr>mat_szSign = bslice 0 8 bs, mat_szName = bslice 8 32 bs,
     mat_iNextMaterialOfs = of_le32 (bslice 40 4 bs), mat_f4Diffuse = dec_rgba (bslice 44 16 bs),
     mat_f4Ambient = dec_rgba (bslice 60 16 bs), mat_fGlossiness = of_le32 (bslice 76 4 bs),
     mat_fSpecIntensity = of_le32 (bslice 80 4 bs), mat_fAlpha = of_le32 (bslice 84 4 bs),
     mat_fReflectionFactor = of_le32 (bslice 88 4 bs), mat_uiFlags = of_le32 (bslice 92 4 bs),
     mat_szDiffuseTex = bslice 96 32 bs, mat_szAlphaTex = bslice 128 32 bs,
     mat_szReflectionTex = bslice 160 32 bs, mat_szSpecularTex = bslice 192 32 bs,
     mat_szNormalTex = bslice 224 32 bs, mat_uiPadding = bslice 256 64 bs\<rparr>"

record TDSCAN_FILE_TEXTURE =
  tex_szSign :: bytes
  tex_szName :: bytes
  tex_iNextTexOfs :: u32
  tex_eTexFormat :: u32
  tex_uiDataSize :: u32
  tex_uiCompressedSize :: u32
  tex_uiFlags :: u32
  tex_clrAvgColor :: float4_rgba
  tex_uiPadding :: bytes

definition enc_texture :: "TDSCAN_FILE_TEXTURE \<Rightarrow> bytes" where
  "enc_texture t = tex_szSign t @ tex_szName t @ le32 (tex_iNextTexOfs t) @ le32 (tex_eTexFormat t) @
     le32 (tex_uiDataSize t) @ le32 (tex_uiCompressedSize t) @ le32 (tex_uiFlags t) @
     enc_rgba (tex_clrAvgColor t) @ tex_uiPadding t"

definition dec_texture :: "bytes \<Rightarrow> TDSCAN_FILE_TEXTURE" where
  "dec_texture bs = \<lparr>tex_szSign = bslice 0 3 bs, tex_szName = bslice 3 32 bs,
     tex_iNextTexOfs = of_le32 (bslice 35 4 bs), tex_eTexFormat = of_le32 (bslice 39 4 bs),
     tex_uiDataSize = of_le32 (bslice 43 4 bs), tex_uiCompressedSize = of_le32 (bslice 47 4 bs),
     tex_uiFlags = of_le32 (bslice 51 4 bs), tex_clrAvgColor = dec_rgba (bslice 55 16 bs),
     tex_uiPadding = bslice 71 5 bs\<rparr>"

record TDSCAN_FILE_SUBSET =
  sub_szSign :: bytes
  sub_iNextSubsetOfs :: u32
  sub_szMatName :: bytes
  sub_uiVertexCount :: u32
  sub_uiTriCount :: u32
  sub_uiVertexFormat :: u32
  sub_uiDataSize :: u32
  sub_uiCompressedSize :: u32
  sub_uiFlags :: u32
  sub_uiPadding :: bytes

definition enc_subset :: "TDSCAN_FILE_SUBSET \<Rightarrow> bytes" where
  "enc_subset s = sub_szSign s @ le32 (sub_iNextSubsetOfs s) @ sub_szMatName s @
     le32 (sub_uiVertexCount s) @ le32 (sub_uiTriCount s) @ le32 (sub_uiVertexFormat s) @
     le32 (sub_uiDataSize s) @ le32 (sub_uiCompressedSize s) @ le32 (sub_uiFlags s) @ sub_uiPadding s"

definition dec_subset :: "bytes \<Rightarrow> TDSCAN_FILE_SUBSET" where
  "dec_subset bs = \<lparr>sub_szSign = bslice 0 6 bs, sub_iNextSubsetOfs = of_le32 (bslice 6 4 bs),
     sub_szMatName = bslice 10 32 bs, sub_uiVertexCount = of_le32 (bslice 42 4 bs),
     sub_uiTriCount = of_le32 (bslice 46 4 bs), sub_uiVertexFormat = of_le32 (bslice 50 4 bs),
     sub_uiDataSize = of_le32 (bslice 54 4 bs), sub_uiCompressedSize = of_le32 (bslice 58 4 bs),
     sub_uiFlags = of_le32 (bslice 62 4 bs), sub_uiPadding = bslice 66 10 bs\<rparr>"

definition sizeof_HEADER :: nat where "sizeof_HEADER = 46"
definition sizeof_PART :: nat where "sizeof_PART = 44"
definition sizeof_MATERIAL :: nat where "sizeof_MATERIAL = 320"
definition sizeof_TEXTURE :: nat where "sizeof_TEXTURE = 76"
definition sizeof_SUBSET :: nat where "sizeof_SUBSET = 76"

lemmas sizeof_defs [simp] = sizeof_HEADER_def sizeof_PART_def sizeof_MATERIAL_def
  sizeof_TEXTURE_def sizeof_SUBSET_def

text \<open>A record stands for a struct in memory when its arrays have the declared lengths.\<close>

definition header_wf :: "TDSCAN_FILE_HEADER \<Rightarrow> bool" where
  "header_wf h \<longleftrightarrow> length (hdr_szSign h) = 17 \<and> length (hdr_uiPadding h) = 5"

definition part_wf :: "TDSCAN_FILE_PART \<Rightarrow> bool" where
  "part_wf p \<longleftrightarrow> length (part_szSign p) = 4 \<and> length (part_szName p) = 32"

definition material_wf :: "TDSCAN_FILE_MATERIAL \<Rightarrow> bool" where
  "material_wf m \<longleftrightarrow> length (mat_szSign m) = 8 \<and> length (mat_szName m) = 32 \<and>
     length (mat_szDiffuseTex m) = 32 \<and> length (mat_szAlphaTex m) = 32 \<and>
     length (mat_szReflectionTex m) = 32 \<and> length (mat_szSpecularTex m) = 32 \<and>
     length (mat_szNormalTex m) = 32 \<and> length (mat_uiPadding m) = 64"

definition texture_wf :: "TDSCAN_FILE_TEXTURE \<Rightarrow> bool" where
  "texture_wf t \<longleftrightarrow> length (tex_szSign t) = 3 \<and> length (tex_szName t) = 32 \<and> length (tex_uiPadding t) = 5"

definition subset_wf :: "TDSCAN_FILE_SUBSET \<Rightarrow> bool" where
  "subset_wf s \<longleftrightarrow> length (sub_szSign s) = 6 \<and> length (sub_szMatName s) = 32 \<and> length (sub_uiPadding s) = 10"

section \<open>What the loader needs of a struct\<close>

locale file_struct =
  fixes enc :: "'r \<Rightarrow> bytes" and dec :: "bytes \<Rightarrow> 'r" and size :: nat and wf :: "'r \<Rightarrow> bool"
  assumes enc_size: "wf r \<Longrightarrow> length (enc r) = size"
    and dec_enc: "wf r \<Longrightarrow> dec (enc r) = r"
    and size_pos: "0 < size" and size_small: "size < 2 ^ 32"
begin

lemma enc_inj: "wf r \<Longrightarrow> wf r' \<Longrightarrow> enc r = enc r' \<Longrightarrow> r = r'"
  using dec_enc by metis

lemma enc_ne: "wf r \<Longrightarrow> enc r \<noteq> []"
  using enc_size size_pos by fastforce

lemma unat_size: "wf r \<Longrightarrow> unat (of_nat size :: u32) = length (enc r)"
  using size_small enc_size by (simp add: unat_of_nat32)

end

interpretation hdr: file_struct enc_header dec_header sizeof_HEADER header_wf
  by unfold_locales (simp_all add: enc_header_def dec_header_def header_wf_def slices)

interpretation prt: file_struct enc_part dec_part sizeof_PART part_wf
  by unfold_locales (simp_all add: enc_part_def dec_part_def part_wf_def slices)

interpretation mtl: file_struct enc_material dec_material sizeof_MATERIAL material_wf
  by unfold_locales (simp_all add: enc_material_def dec_material_def material_wf_def slices)

interpretation txr: file_struct enc_texture dec_texture sizeof_TEXTURE texture_wf
  by unfold_locales (simp_all add: enc_texture_def dec_texture_def texture_wf_def slices)

interpretation sbs: file_struct enc_subset dec_subset sizeof_SUBSET subset_wf
  by unfold_locales (simp_all add: enc_subset_def dec_subset_def subset_wf_def slices)

end
