(* ===== verification/ScanModel.thy ===== *)
theory ScanModel
  imports ScanFormat
begin

text \<open>
  The in-memory model (Common/3DScanModel.h), the vertex size (C3DScanFileUtils.cpp), releasing a
  model (C3DModelUtils.cpp), and when a model is well formed for saving. A vertex or index
  buffer is the list of what the pointer points to; \<open>std::string\<close> is a byte list and
  \<open>std::map\<close> the ordered association list of StdMap.
\<close>

record TD_MODEL_SUBSET =
  pVB :: bytes
  pIB :: "u32 list"
  ss_uiVertCount :: u32
  ss_uiTriCount :: u32
  ss_sMatName :: bytes
  ss_uiVertexFmt :: u32

record TD_MODEL_PART =
  mp_sName :: bytes
  mp_Subsets :: "TD_MODEL_SUBSET list"

record TD_MODEL_MATERIAL =
  mm_sName :: bytes
  mm_clrAmbient :: float4_rgba
  mm_clrDiffuse :: float4_rgba
  mm_fTransparency :: u32
  mm_fSpecIntensity :: u32
  mm_fGlossiness :: u32
  mm_fReflectionFactor :: u32
  mm_sDiffuseTextureName :: bytes
  mm_sNormalTextureName :: bytes
  mm_sSpecularTextureName :: bytes
  mm_sAlphaTextureName :: bytes
  mm_sReflectionTextureName :: bytes

record TD_MODEL_TEXTURE_SLOT =
  ts_sName :: bytes
  ts_uiSize :: u32
  ts_pData :: bytes
  ts_eFormat :: u32
  ts_clrAvgColor :: float4_rgba

record TD_SCAN_MODEL =
  Parts :: "TD_MODEL_PART list"
  Materials :: "(bytes \<times> TD_MODEL_MATERIAL) list"
  Textures :: "(bytes \<times> TD_MODEL_TEXTURE_SLOT) list"
  ptMin :: float3
  ptMax :: float3

definition empty_subset :: TD_MODEL_SUBSET where
  "empty_subset = \<lparr>pVB = [], pIB = [], ss_uiVertCount = 0, ss_uiTriCount = 0, ss_sMatName = [],
     ss_uiVertexFmt = 0\<rparr>"

section \<open>C3DScanFileUtils::GetVertexSize\<close>

definition GetVertexSize :: "u32 \<Rightarrow> u32" where
  "GetVertexSize uiVertexFmt =
     (let s0 = 0;
          s1 = (if uiVertexFmt AND VF_POSITIION \<noteq> 0 then s0 + 12 else s0);
          s2 = (if uiVertexFmt AND VF_NORMAL \<noteq> 0 then s1 + 12 else s1)
      in if uiVertexFmt AND VF_UV \<noteq> 0 then s2 + 8 else s2)"

lemma GetVertexSize_le: "unat (GetVertexSize f) \<le> 32"
  by (simp add: GetVertexSize_def Let_def)

lemma GetVertexSize_position: "f AND VF_POSITIION \<noteq> 0 \<Longrightarrow> 12 \<le> unat (GetVertexSize f)"
  by (simp add: GetVertexSize_def Let_def)

section \<open>C3DModelUtils::FreeModel\<close>

text \<open>
  The buffers of every subset are released and the part list is emptied; the result is the model
  afterwards and the number of buffers deleted. The texture data is not released.
\<close>

definition free_subset :: "TD_MODEL_SUBSET \<Rightarrow> TD_MODEL_SUBSET \<times> nat" where
  "free_subset s = (s\<lparr>pVB := [], pIB := [], ss_sMatName := [], ss_uiVertexFmt := 0, ss_uiTriCount := 0\<rparr>,
     (if pVB s \<noteq> [] then 1 else 0) + (if pIB s \<noteq> [] then 1 else 0))"

definition free_part :: "TD_MODEL_PART \<Rightarrow> TD_MODEL_PART \<times> nat" where
  "free_part p = (p\<lparr>mp_sName := [], mp_Subsets := []\<rparr>, sum_list (map (snd \<circ> free_subset) (mp_Subsets p)))"

definition FreeModel :: "TD_SCAN_MODEL \<Rightarrow> TD_SCAN_MODEL \<times> nat" where
  "FreeModel m = (m\<lparr>Parts := []\<rparr>, sum_list (map (snd \<circ> free_part) (Parts m)))"

section \<open>Well-formed models\<close>

text \<open>
  What the code keeps true of a model it builds: the buffers have the sizes the counts say, the
  vertices have a position, names fit the fixed fields of the file, no part is empty, and the maps
  are in order with each entry stored under its own name.
\<close>

definition subset_ok :: "TD_MODEL_SUBSET \<Rightarrow> bool" where
  "subset_ok s \<longleftrightarrow>
     ss_uiVertexFmt s AND VF_POSITIION \<noteq> 0 \<and>
     length (pVB s) = unat (GetVertexSize (ss_uiVertexFmt s)) * unat (ss_uiVertCount s) \<and>
     length (pIB s) = 3 * unat (ss_uiTriCount s) \<and>
     length (pVB s) + 4 * length (pIB s) \<le> 0x7E000000 \<and>
     name_ok 32 (ss_sMatName s)"

definition part_ok :: "TD_MODEL_PART \<Rightarrow> bool" where
  "part_ok p \<longleftrightarrow> name_ok 32 (mp_sName p) \<and> mp_Subsets p \<noteq> [] \<and> (\<forall>s\<in>set (mp_Subsets p). subset_ok s)"

definition material_ok :: "bytes \<times> TD_MODEL_MATERIAL \<Rightarrow> bool" where
  "material_ok km \<longleftrightarrow> mm_sName (snd km) = fst km \<and>
     (\<forall>n\<in>{fst km, mm_sDiffuseTextureName (snd km), mm_sNormalTextureName (snd km),
        mm_sSpecularTextureName (snd km), mm_sAlphaTextureName (snd km),
        mm_sReflectionTextureName (snd km)}. name_ok 32 n)"

definition texture_ok :: "bytes \<times> TD_MODEL_TEXTURE_SLOT \<Rightarrow> bool" where
  "texture_ok kt \<longleftrightarrow> ts_sName (snd kt) = fst kt \<and> name_ok 32 (fst kt) \<and>
     length (ts_pData (snd kt)) = unat (ts_uiSize (snd kt)) \<and>
     length (ts_pData (snd kt)) \<le> 0x7E000000"

definition model_ok :: "TD_SCAN_MODEL \<Rightarrow> bool" where
  "model_ok m \<longleftrightarrow> Parts m \<noteq> [] \<and> (\<forall>p\<in>set (Parts m). part_ok p) \<and>
     smap_inv (Materials m) \<and> (\<forall>km\<in>set (Materials m). material_ok km) \<and>
     smap_inv (Textures m) \<and> (\<forall>kt\<in>set (Textures m). texture_ok kt)"

end
