(* ===== verification/ScanStream.thy ===== *)
theory ScanStream
  imports Prelude
begin

text \<open>
  The byte streams of ClientSide/Common: \<open>FILE\<close> with the calls the code makes of it, and
  the two implementations of \<open>CBaseStream\<close>, \<open>CFileStream\<close> (over a FILE) and
  \<open>CMemStream\<close> (over a memory block, with its 32-bit position arithmetic). The locale
  \<open>byte_stream\<close> is the interface \<open>CBaseStream\<close> as the model loader uses it (Seek from the
  start, Read); both implementations interpret it.
\<close>

section \<open>FILE\<close>

record CFILE =
  f_data :: bytes
  f_pos :: nat

abbreviation SEEK_SET :: u32 where "SEEK_SET \<equiv> 0"
abbreviation SEEK_CUR :: u32 where "SEEK_CUR \<equiv> 1"
abbreviation SEEK_END :: u32 where "SEEK_END \<equiv> 2"

definition fopen_wb :: CFILE where
  "fopen_wb = \<lparr>f_data = [], f_pos = 0\<rparr>"

definition fopen_rb :: "bytes \<Rightarrow> CFILE" where
  "fopen_rb d = \<lparr>f_data = d, f_pos = 0\<rparr>"

definition fread :: "nat \<Rightarrow> CFILE \<Rightarrow> bytes \<times> CFILE" where
  "fread n f = (let got = bslice (f_pos f) n (f_data f) in (got, f\<lparr>f_pos := f_pos f + length got\<rparr>))"

definition fwrite :: "bytes \<Rightarrow> CFILE \<Rightarrow> CFILE" where
  "fwrite bs f = (if bs = [] then f else
     f\<lparr>f_data := overwrite (f_pos f) bs (f_data f), f_pos := f_pos f + length bs\<rparr>)"

text \<open>fseek: the new position, and 0 on success; a negative target fails and moves nothing.\<close>

definition fseek :: "int \<Rightarrow> u32 \<Rightarrow> CFILE \<Rightarrow> u32 \<times> CFILE" where
  "fseek ofs orig f =
     (let t = (if orig = SEEK_SET then ofs
               else if orig = SEEK_CUR then int (f_pos f) + ofs
               else int (length (f_data f)) + ofs)
      in if t < 0 then (-1, f) else (0, f\<lparr>f_pos := nat t\<rparr>))"

lemma fwrite_end [simp]:
  "f_pos f = length (f_data f) \<Longrightarrow> fwrite bs f = \<lparr>f_data = f_data f @ bs, f_pos = length (f_data f @ bs)\<rparr>"
  by (cases f) (simp add: fwrite_def)

section \<open>CFileStream\<close>

record CFileStream =
  m_pFile :: "CFILE option"

definition CFileStream_new :: CFileStream where
  "CFileStream_new = \<lparr>m_pFile = None\<rparr>"

text \<open>\<open>fs\<close> is the file system: the bytes of a file that can be opened for reading.\<close>

definition CFileStream_Open :: "(string \<Rightarrow> bytes option) \<Rightarrow> string option \<Rightarrow> CFileStream \<Rightarrow> bool \<times> CFileStream" where
  "CFileStream_Open fs pszFilename s = (case pszFilename of
      None \<Rightarrow> (False, s)
    | Some name \<Rightarrow> (case fs name of
          None \<Rightarrow> (False, s\<lparr>m_pFile := None\<rparr>)
        | Some d \<Rightarrow> (True, s\<lparr>m_pFile := Some (fopen_rb d)\<rparr>)))"

definition CFileStream_Seek :: "u32 \<Rightarrow> u32 \<Rightarrow> CFileStream \<Rightarrow> u32 \<times> CFileStream" where
  "CFileStream_Seek iOfs uiOrig s = (case m_pFile s of
      None \<Rightarrow> (0, s)
    | Some f \<Rightarrow> (case fseek (sint iOfs) uiOrig f of (r, f') \<Rightarrow> (r, s\<lparr>m_pFile := Some f'\<rparr>)))"

definition CFileStream_Tell :: "CFileStream \<Rightarrow> u32 outcome" where
  "CFileStream_Tell s = (case m_pFile s of None \<Rightarrow> UB | Some f \<Rightarrow> Done (of_nat (f_pos f)))"

definition CFileStream_Close :: "CFileStream \<Rightarrow> CFileStream" where
  "CFileStream_Close s = s\<lparr>m_pFile := None\<rparr>"

text \<open>
  Read stores the bytes in the caller's buffer and returns the number of items of size
  \<open>uiSize\<close>, 0 or 1 (fread with count 1), not the number of bytes. The result here is the bytes
  stored, the returned count and the new state.
\<close>

definition CFileStream_Read :: "u32 \<Rightarrow> CFileStream \<Rightarrow> bytes \<times> u32 \<times> CFileStream" where
  "CFileStream_Read uiSize s = (case m_pFile s of
      None \<Rightarrow> ([], 0, s)
    | Some f \<Rightarrow> (case fread (unat uiSize) f of (got, f') \<Rightarrow>
         (got, if uiSize \<noteq> 0 \<and> length got = unat uiSize then 1 else 0, s\<lparr>m_pFile := Some f'\<rparr>)))"

text \<open>The FILE is opened in mode rb, so fwrite stores nothing and returns 0 items.\<close>

definition CFileStream_Write :: "bytes \<Rightarrow> CFileStream \<Rightarrow> u32 \<times> CFileStream" where
  "CFileStream_Write bs s = (case m_pFile s of
      None \<Rightarrow> (0, s)
    | Some f \<Rightarrow> (0, s))"

section \<open>CMemStream\<close>

record CMemStream =
  m_pMem :: "bytes option"
  m_uiSize :: u32
  m_uiCurPos :: u32

definition CMemStream_new :: CMemStream where
  "CMemStream_new = \<lparr>m_pMem = None, m_uiSize = 0, m_uiCurPos = 0\<rparr>"

definition CMemStream_Bind :: "bytes option \<Rightarrow> u32 \<Rightarrow> CMemStream \<Rightarrow> bool \<times> CMemStream" where
  "CMemStream_Bind pMem uiSize s = (case pMem of
      None \<Rightarrow> (False, s)
    | Some mem \<Rightarrow> (True, s\<lparr>m_pMem := Some mem, m_uiSize := uiSize, m_uiCurPos := 0\<rparr>))"

definition CMemStream_Seek :: "u32 \<Rightarrow> u32 \<Rightarrow> CMemStream \<Rightarrow> u32 \<times> CMemStream" where
  "CMemStream_Seek iOfs uiOrig s = (case m_pMem s of
      None \<Rightarrow> (0, s)
    | Some _ \<Rightarrow>
       (let p0 = (if uiOrig = SEEK_SET then iOfs
                  else if uiOrig = SEEK_END then m_uiSize s + iOfs
                  else if uiOrig = SEEK_CUR then m_uiCurPos s + iOfs
                  else 0);
            p1 = (if sint p0 < 0 then 0 else p0);
            p2 = (if sint p1 \<ge> sint (m_uiSize s) then m_uiSize s - 1 else p1)
        in (p2, s\<lparr>m_uiCurPos := p2\<rparr>)))"

definition CMemStream_Tell :: "CMemStream \<Rightarrow> u32" where
  "CMemStream_Tell s = m_uiCurPos s"

definition CMemStream_Close :: "CMemStream \<Rightarrow> CMemStream" where
  "CMemStream_Close s = s\<lparr>m_pMem := None, m_uiSize := 0, m_uiCurPos := 0\<rparr>"

text \<open>
  The number of bytes a Read or Write of \<open>uiSize\<close> bytes copies: \<open>uiEnd\<close> is computed in 32 bits
  and may wrap.
\<close>

definition CMemStream_clip :: "u32 \<Rightarrow> CMemStream \<Rightarrow> u32" where
  "CMemStream_clip uiSize s =
     (let uiEnd = m_uiCurPos s + uiSize
      in if uiEnd \<ge> m_uiSize s then m_uiSize s - m_uiCurPos s else uiSize)"

definition CMemStream_Read :: "u32 \<Rightarrow> CMemStream \<Rightarrow> (bytes \<times> u32 \<times> CMemStream) outcome" where
  "CMemStream_Read uiSize s = (case m_pMem s of
      None \<Rightarrow> Done ([], 0, s)
    | Some mem \<Rightarrow>
       (let n = CMemStream_clip uiSize s
        in if unat (m_uiCurPos s) + unat n \<le> length mem
           then Done (bslice (unat (m_uiCurPos s)) (unat n) mem, n, s\<lparr>m_uiCurPos := m_uiCurPos s + n\<rparr>)
           else UB))"

definition CMemStream_Write :: "bytes \<Rightarrow> CMemStream \<Rightarrow> (u32 \<times> CMemStream) outcome" where
  "CMemStream_Write bs s = (case m_pMem s of
      None \<Rightarrow> Done (0, s)
    | Some mem \<Rightarrow>
       (let n = CMemStream_clip (of_nat (length bs)) s
        in if unat (m_uiCurPos s) + unat n \<le> length mem \<and> unat n \<le> length bs
           then Done (n, s\<lparr>m_pMem := Some (overwrite (unat (m_uiCurPos s)) (take (unat n) bs) mem),
                           m_uiCurPos := m_uiCurPos s + n\<rparr>)
           else UB))"

section \<open>The interface the loader relies on\<close>

text \<open>
  What \<open>Load3DScanModel\<close> uses of a stream: \<open>sk ofs\<close> is \<open>Seek ( ofs, SEEK_SET )\<close> and
  \<open>rd n\<close> the bytes a \<open>Read\<close> of \<open>n\<close> bytes stores. A seek inside the content moves there;
  a read returns the bytes at the position, as far as the content goes, and advances past them.
\<close>

locale byte_stream =
  fixes rd :: "u32 \<Rightarrow> 's \<Rightarrow> (bytes \<times> 's) outcome"
    and sk :: "u32 \<Rightarrow> 's \<Rightarrow> 's"
    and content :: "'s \<Rightarrow> bytes"
    and tell :: "'s \<Rightarrow> nat"
    and inv :: "'s \<Rightarrow> bool"
  assumes size_bound: "inv s \<Longrightarrow> length (content s) < 2 ^ 31"
    and seek_inv: "inv s \<Longrightarrow> unat ofs < length (content s) \<Longrightarrow> inv (sk ofs s)"
    and seek_content: "inv s \<Longrightarrow> content (sk ofs s) = content s"
    and seek_tell: "inv s \<Longrightarrow> unat ofs < length (content s) \<Longrightarrow> tell (sk ofs s) = unat ofs"
    and read_slice: "inv s \<Longrightarrow> unat n < 2 ^ 31 \<Longrightarrow>
       \<exists>s'. rd n s = Done (bslice (tell s) (unat n) (content s), s') \<and> inv s' \<and>
            content s' = content s \<and> tell s' = min (length (content s)) (tell s + unat n)"
begin

text \<open>A read that stays inside the content, in the form the loader's proofs use.\<close>

lemma read_exact:
  assumes "inv s" "content s = pre @ mid @ post" "tell s = length pre" "unat n = length mid"
  obtains s' where "rd n s = Done (mid, s')" "inv s'" "content s' = content s"
    "tell s' = length (pre @ mid)"
proof -
  have l: "length (content s) < 2 ^ 31" using size_bound assms(1) .
  then have "unat n < 2 ^ 31" using assms by simp
  from read_slice [OF assms(1) this] obtain s' where s':
    "rd n s = Done (bslice (tell s) (unat n) (content s), s')" "inv s'" "content s' = content s"
    "tell s' = min (length (content s)) (tell s + unat n)" by blast
  moreover have "bslice (tell s) (unat n) (content s) = mid"
    using assms by (simp add: bslice_def)
  ultimately show ?thesis using assms by (intro that [of s']) simp_all
qed

lemma seek_read:
  assumes "inv s" "content s = pre @ mid @ post" "unat ofs = length pre" "unat n = length mid"
    "mid \<noteq> []"
  obtains s' where "rd n (sk ofs s) = Done (mid, s')" "inv s'" "content s' = content s"
    "tell s' = length (pre @ mid)"
proof -
  have in_range: "unat ofs < length (content s)" using assms by simp
  from read_exact [OF seek_inv [OF assms(1) in_range], of pre mid post n]
  show ?thesis
    using that seek_content [OF assms(1), of ofs] seek_tell [OF assms(1) in_range] assms(2-4)
    by metis
qed

end

section \<open>Both streams implement the interface\<close>

definition mem_rd :: "u32 \<Rightarrow> CMemStream \<Rightarrow> (bytes \<times> CMemStream) outcome" where
  "mem_rd n s = obind (CMemStream_Read n s) (\<lambda>(bs, _, s'). Done (bs, s'))"

definition mem_sk :: "u32 \<Rightarrow> CMemStream \<Rightarrow> CMemStream" where
  "mem_sk ofs s = snd (CMemStream_Seek ofs SEEK_SET s)"

definition mem_content :: "CMemStream \<Rightarrow> bytes" where
  "mem_content s = (case m_pMem s of None \<Rightarrow> [] | Some mem \<Rightarrow> mem)"

definition mem_inv :: "CMemStream \<Rightarrow> bool" where
  "mem_inv s \<longleftrightarrow> m_pMem s \<noteq> None \<and> 0 < m_uiSize s \<and> unat (m_uiSize s) = length (mem_content s) \<and>
     length (mem_content s) < 2 ^ 31 \<and> m_uiCurPos s \<le> m_uiSize s"

definition file_rd :: "u32 \<Rightarrow> CFileStream \<Rightarrow> (bytes \<times> CFileStream) outcome" where
  "file_rd n s = (case CFileStream_Read n s of (bs, _, s') \<Rightarrow> Done (bs, s'))"

definition file_sk :: "u32 \<Rightarrow> CFileStream \<Rightarrow> CFileStream" where
  "file_sk ofs s = snd (CFileStream_Seek ofs SEEK_SET s)"

definition file_content :: "CFileStream \<Rightarrow> bytes" where
  "file_content s = (case m_pFile s of None \<Rightarrow> [] | Some f \<Rightarrow> f_data f)"

definition file_tell :: "CFileStream \<Rightarrow> nat" where
  "file_tell s = (case m_pFile s of None \<Rightarrow> 0 | Some f \<Rightarrow> f_pos f)"

definition file_inv :: "CFileStream \<Rightarrow> bool" where
  "file_inv s \<longleftrightarrow> m_pFile s \<noteq> None \<and> length (file_content s) < 2 ^ 31 \<and>
     file_tell s \<le> length (file_content s)"

text \<open>Signed reading of a 32-bit word below \<open>2 ^ 31\<close> is the unsigned one.\<close>

lemma sint_small:
  assumes "unat (w::u32) < 2 ^ 31"
  shows "sint w = uint w"
proof -
  have "int (unat w) < int (2 ^ 31)" using assms by (simp only: of_nat_less_iff)
  then have "uint w < 2 ^ 31" by simp
  then have "signed_take_bit 31 (uint w) = uint w"
    by (intro signed_take_bit_int_eq_self) (auto intro: order_trans [of _ 0])
  then show ?thesis by (simp add: sint_uint)
qed

lemma mem_seek_in_range:
  assumes "mem_inv s" "unat ofs < length (mem_content s)"
  shows "mem_sk ofs s = s\<lparr>m_uiCurPos := ofs\<rparr>"
proof -
  have "unat (m_uiSize s) < 2 ^ 31" "unat ofs < unat (m_uiSize s)" using assms by (auto simp: mem_inv_def)
  then have "sint ofs = uint ofs" "sint (m_uiSize s) = uint (m_uiSize s)" "ofs < m_uiSize s"
    by (auto intro!: sint_small simp: word_less_nat_alt)
  then show ?thesis
    using assms
    by (auto simp: mem_sk_def CMemStream_Seek_def mem_inv_def Let_def word_less_def not_less [symmetric])
qed

text \<open>
  Without wrap-around a Read clips the request to what is left of the block.
\<close>

lemma mem_clip:
  assumes "mem_inv s" "unat n < 2 ^ 31"
  shows "unat (CMemStream_clip n s) = min (unat n) (length (mem_content s) - unat (m_uiCurPos s))"
proof -
  let ?c = "m_uiCurPos s" and ?z = "m_uiSize s"
  have z: "unat ?z = length (mem_content s)" "unat ?z < 2 ^ 31" and c: "?c \<le> ?z"
    using assms by (auto simp: mem_inv_def)
  have "unat ?c \<le> unat ?z" using c by (simp add: word_le_nat_alt)
  then have e: "unat (?c + n) = unat ?c + unat n"
    using z assms(2) by (intro unat_add_lem [THEN iffD1]) simp
  have d: "unat (?z - ?c) = unat ?z - unat ?c" using c by (rule unat_sub)
  show ?thesis
    using z e d by (auto simp: CMemStream_clip_def Let_def word_le_nat_alt)
qed

lemma mem_read_slice:
  assumes "mem_inv s" "unat n < 2 ^ 31"
  shows "\<exists>s'. mem_rd n s = Done (bslice (unat (m_uiCurPos s)) (unat n) (mem_content s), s') \<and> mem_inv s' \<and>
    mem_content s' = mem_content s \<and>
    unat (m_uiCurPos s') = min (length (mem_content s)) (unat (m_uiCurPos s) + unat n)"
proof -
  let ?c = "m_uiCurPos s" and ?k = "CMemStream_clip n s"
  obtain mem where mem: "m_pMem s = Some mem" using assms by (auto simp: mem_inv_def)
  have c: "unat ?c \<le> length mem" and small: "length mem < 2 ^ 31"
    using assms mem by (auto simp: mem_inv_def mem_content_def word_le_nat_alt)
  have k: "unat ?k = min (unat n) (length mem - unat ?c)"
    using mem_clip [OF assms] mem by (simp add: mem_content_def)
  have add: "unat (?c + ?k) = unat ?c + unat ?k"
    using c k small by (intro unat_add_lem [THEN iffD1]) simp
  have "bslice (unat ?c) (unat ?k) mem = bslice (unat ?c) (unat n) mem"
    by (simp add: k bslice_def min_def)
  then show ?thesis
    using assms mem c k add
    by (auto simp: mem_rd_def CMemStream_Read_def Let_def mem_content_def mem_inv_def word_le_nat_alt)
qed

interpretation mem: byte_stream mem_rd mem_sk mem_content "\<lambda>s. unat (m_uiCurPos s)" mem_inv
proof unfold_locales
  show "mem_content (mem_sk ofs s) = mem_content s" if "mem_inv s" for ofs s
    by (simp add: mem_sk_def CMemStream_Seek_def mem_content_def Let_def split: option.splits)
  show "mem_inv (mem_sk ofs s)" if "mem_inv s" "unat ofs < length (mem_content s)" for ofs s
    using that by (simp add: mem_seek_in_range) (auto simp: mem_inv_def mem_content_def word_le_nat_alt)
  show "length (mem_content s) < 2 ^ 31" if "mem_inv s" for s using that by (simp add: mem_inv_def)
qed (simp_all add: mem_seek_in_range mem_read_slice)

lemma fseek_set:
  assumes "unat (ofs::u32) < 2 ^ 31"
  shows "fseek (sint ofs) SEEK_SET f = (0, f\<lparr>f_pos := unat ofs\<rparr>)"
  using assms by (simp add: fseek_def sint_small)

interpretation fil: byte_stream file_rd file_sk file_content file_tell file_inv
proof unfold_locales
  fix s and ofs n :: u32
  assume inv: "file_inv s"
  then obtain f where f: "m_pFile s = Some f" by (auto simp: file_inv_def)
  have small: "length (f_data f) < 2 ^ 31" "f_pos f \<le> length (f_data f)"
    using inv f by (auto simp: file_inv_def file_content_def file_tell_def)
  show "length (file_content s) < 2 ^ 31" using f small by (simp add: file_content_def)
  show "file_content (file_sk ofs s) = file_content s"
    using f by (simp add: file_sk_def CFileStream_Seek_def file_content_def fseek_def Let_def)
  show "file_inv (file_sk ofs s)" "file_tell (file_sk ofs s) = unat ofs"
    if "unat ofs < length (file_content s)"
  proof -
    have "fseek (sint ofs) SEEK_SET f = (0, f\<lparr>f_pos := unat ofs\<rparr>)"
      using that small f by (intro fseek_set) (simp add: file_content_def)
    then show "file_inv (file_sk ofs s)" "file_tell (file_sk ofs s) = unat ofs"
      using that f small
      by (simp_all add: file_sk_def CFileStream_Seek_def file_inv_def file_content_def file_tell_def)
  qed
  show "\<exists>s'. file_rd n s = Done (bslice (file_tell s) (unat n) (file_content s), s') \<and> file_inv s' \<and>
      file_content s' = file_content s \<and>
      file_tell s' = min (length (file_content s)) (file_tell s + unat n)"
    using f small
    by (auto simp: file_rd_def CFileStream_Read_def fread_def Let_def file_inv_def file_content_def
        file_tell_def)
qed

end
