(* ===== verification/ScanSave.thy ===== *)
theory ScanSave
  imports ScanModel ScanStream "HOL-Library.Signed_Division"
begin

text \<open>
  \<open>C3DScanFile::Save3DScanModel\<close>: the header, the parts with their subsets, the materials and
  the textures are written one after the other; each part header is written twice, the second
  time with the offset of the next part, and the file header is rewritten last. LZ4 is a library
  the code calls: \<open>lz4_api\<close> is its interface, a parameter of the model.
\<close>

section \<open>The LZ4 library\<close>

text \<open>
  \<open>compress_HC src dstCapacity\<close> is the compressed block (empty when it fails, where the C function
  returns 0), \<open>decompress_fast src originalSize\<close> the decompressed data, None when the block is
  malformed (the C function then reads or writes as the block says).
\<close>

record lz4_api =
  compressBound :: "u32 \<Rightarrow> u32"
  compress_HC :: "bytes \<Rightarrow> u32 \<Rightarrow> bytes"
  decompress_fast :: "bytes \<Rightarrow> nat \<Rightarrow> bytes option"

text \<open>
  What lz4.h and lz4hc.h document: for an input of at most LZ4_MAX_INPUT_SIZE bytes and a
  destination of \<open>LZ4_compressBound\<close> bytes compression succeeds, and decompressing the block gives
  the input back.
\<close>

definition lz4_contract :: "lz4_api \<Rightarrow> bool" where
  "lz4_contract lz \<longleftrightarrow> (\<forall>src. length src \<le> 0x7E000000 \<longrightarrow>
     (let blk = compress_HC lz src (compressBound lz (of_nat (length src)))
      in length blk \<le> unat (compressBound lz (of_nat (length src))) \<and>
         decompress_fast lz blk (length src) = Some src))"

section \<open>Choosing the compressed form\<close>

definition TD_SAVE_FLAG_NO_COMPRESSION :: u32 where "TD_SAVE_FLAG_NO_COMPRESSION = 1"

definition use_compressed :: "u32 \<Rightarrow> u32 \<Rightarrow> u32 \<Rightarrow> bool" where
  "use_compressed uiFlags iCompressedSize iSize =
     (if uiFlags AND TD_SAVE_FLAG_NO_COMPRESSION \<noteq> 0 then False
      else sint iCompressedSize < sint (iSize * 8) sdiv 10)"

definition compress_block :: "lz4_api \<Rightarrow> u32 \<Rightarrow> bytes \<Rightarrow> u32 \<Rightarrow> bytes" where
  "compress_block lz uiFlags pSrc iSize =
     (if uiFlags AND TD_SAVE_FLAG_NO_COMPRESSION = 0
      then compress_HC lz pSrc (compressBound lz iSize) else [])"

section \<open>Subsets\<close>

definition subset_data_size :: "TD_MODEL_SUBSET \<Rightarrow> u32" where
  "subset_data_size s = ss_uiVertCount s * GetVertexSize (ss_uiVertexFmt s) + ss_uiTriCount s * 3 * 4"

text \<open>The vertex and index bytes copied into \<open>pSrc\<close>; the copies stay inside the three buffers.\<close>

definition subset_vb_bytes :: "TD_MODEL_SUBSET \<Rightarrow> bytes" where
  "subset_vb_bytes s = take (unat (GetVertexSize (ss_uiVertexFmt s) * ss_uiVertCount s)) (pVB s)"

definition subset_ib_bytes :: "TD_MODEL_SUBSET \<Rightarrow> bytes" where
  "subset_ib_bytes s = take (unat (4 * ss_uiTriCount s * 3)) (words_bytes (pIB s))"

definition subset_buffers_ok :: "TD_MODEL_SUBSET \<Rightarrow> bool" where
  "subset_buffers_ok s \<longleftrightarrow>
     unat (GetVertexSize (ss_uiVertexFmt s)) * unat (ss_uiVertCount s) \<le> length (pVB s) \<and>
     3 * unat (ss_uiTriCount s) \<le> length (pIB s) \<and>
     length (subset_vb_bytes s @ subset_ib_bytes s) = unat (subset_data_size s)"

definition subset_comp :: "lz4_api \<Rightarrow> u32 \<Rightarrow> TD_MODEL_SUBSET \<Rightarrow> bytes" where
  "subset_comp lz uiFlags s =
     compress_block lz uiFlags (subset_vb_bytes s @ subset_ib_bytes s) (subset_data_size s)"

definition subset_use :: "lz4_api \<Rightarrow> u32 \<Rightarrow> TD_MODEL_SUBSET \<Rightarrow> bool" where
  "subset_use lz uiFlags s =
     use_compressed uiFlags (of_nat (length (subset_comp lz uiFlags s))) (subset_data_size s)"

definition subset_hdr :: "lz4_api \<Rightarrow> u32 \<Rightarrow> u32 \<Rightarrow> bool \<Rightarrow> TD_MODEL_SUBSET \<Rightarrow> TDSCAN_FILE_SUBSET" where
  "subset_hdr lz uiFlags uiFileOfs is_last s =
     (let bUse = subset_use lz uiFlags s;
          csize = (if bUse then of_nat (length (subset_comp lz uiFlags s)) else subset_data_size s)
      in \<lparr>sub_szSign = [0x53, 0x55, 0x42, 0x53, 0x45, 0x54],
          sub_iNextSubsetOfs = (if is_last then -1 else uiFileOfs + csize + of_nat sizeof_SUBSET),
          sub_szMatName = strncpy 32 (ss_sMatName s),
          sub_uiVertexCount = ss_uiVertCount s, sub_uiTriCount = ss_uiTriCount s,
          sub_uiVertexFormat = ss_uiVertexFmt s, sub_uiDataSize = subset_data_size s,
          sub_uiCompressedSize = csize,
          sub_uiFlags = (if bUse then TDS_FLAG_COMPRESSED else 0),
          sub_uiPadding = replicate 10 0\<rparr>)"

record save_state =
  sv_file :: CFILE
  sv_ofs :: u32
  sv_hdr :: TDSCAN_FILE_HEADER

definition save_subset :: "lz4_api \<Rightarrow> u32 \<Rightarrow> bool \<Rightarrow> TD_MODEL_SUBSET \<Rightarrow> save_state \<Rightarrow> save_state outcome" where
  "save_subset lz uiFlags is_last s st =
     (if \<not> subset_buffers_ok s then UB
      else let h = subset_hdr lz uiFlags (sv_ofs st) is_last s;
               f1 = fwrite (enc_subset h) (sv_file st);
               f2 = (if subset_use lz uiFlags s then fwrite (subset_comp lz uiFlags s) f1
                     else fwrite (subset_ib_bytes s) (fwrite (subset_vb_bytes s) f1))
           in Done \<lparr>sv_file = f2,
                    sv_ofs = sv_ofs st + (sub_uiCompressedSize h + of_nat sizeof_SUBSET),
                    sv_hdr = (sv_hdr st)\<lparr>hdr_uiTotalTriCount := hdr_uiTotalTriCount (sv_hdr st) + ss_uiTriCount s\<rparr>\<rparr>)"

fun save_subsets :: "lz4_api \<Rightarrow> u32 \<Rightarrow> TD_MODEL_SUBSET list \<Rightarrow> save_state \<Rightarrow> save_state outcome" where
  "save_subsets lz uiFlags [] st = Done st"
| "save_subsets lz uiFlags (s # ss) st =
     obind (save_subset lz uiFlags (ss = []) s st) (save_subsets lz uiFlags ss)"

section \<open>Parts\<close>

definition part_hdr :: "u32 \<Rightarrow> u32 \<Rightarrow> TD_MODEL_PART \<Rightarrow> TDSCAN_FILE_PART" where
  "part_hdr uiFileOfs iNext p =
     \<lparr>part_szSign = [0x50, 0x41, 0x52, 0x54], part_szName = strncpy 32 (mp_sName p),
      part_iNextPartOfs = iNext, part_iFirstSubset = uiFileOfs + of_nat sizeof_PART\<rparr>"

definition save_part :: "lz4_api \<Rightarrow> u32 \<Rightarrow> bool \<Rightarrow> TD_MODEL_PART \<Rightarrow> save_state \<Rightarrow> save_state outcome" where
  "save_part lz uiFlags is_last p st =
     (let uiPartOfs = sv_ofs st;
          st1 = st\<lparr>sv_file := fwrite (enc_part (part_hdr uiPartOfs (-1) p)) (sv_file st),
                   sv_ofs := sv_ofs st + of_nat sizeof_PART\<rparr>
      in obind (save_subsets lz uiFlags (mp_Subsets p) st1) (\<lambda>st2.
           let iNext = (if is_last then -1 else sv_ofs st2);
               f1 = snd (fseek (sint uiPartOfs) SEEK_SET (sv_file st2));
               f2 = fwrite (enc_part (part_hdr uiPartOfs iNext p)) f1;
               f3 = snd (fseek (sint (sv_ofs st2)) SEEK_SET f2)
           in Done (st2\<lparr>sv_file := f3\<rparr>)))"

fun save_parts :: "lz4_api \<Rightarrow> u32 \<Rightarrow> TD_MODEL_PART list \<Rightarrow> save_state \<Rightarrow> save_state outcome" where
  "save_parts lz uiFlags [] st = Done st"
| "save_parts lz uiFlags (p # ps) st =
     obind (save_part lz uiFlags (ps = []) p st) (save_parts lz uiFlags ps)"

section \<open>Materials\<close>

definition material_hdr :: "u32 \<Rightarrow> bool \<Rightarrow> TD_MODEL_MATERIAL \<Rightarrow> TDSCAN_FILE_MATERIAL" where
  "material_hdr uiFileOfs is_last m =
     \<lparr>mat_szSign = [0x4D, 0x41, 0x54, 0x45, 0x52, 0x49, 0x41, 0x4C],
      mat_szName = strncpy 32 (mm_sName m),
      mat_iNextMaterialOfs = (if is_last then -1 else uiFileOfs + of_nat sizeof_MATERIAL),
      mat_f4Diffuse = mm_clrDiffuse m, mat_f4Ambient = mm_clrAmbient m,
      mat_fGlossiness = mm_fGlossiness m, mat_fSpecIntensity = mm_fSpecIntensity m,
      mat_fAlpha = mm_fTransparency m, mat_fReflectionFactor = mm_fReflectionFactor m,
      mat_uiFlags = 0,
      mat_szDiffuseTex = strncpy 32 (mm_sDiffuseTextureName m),
      mat_szAlphaTex = strncpy 32 (mm_sAlphaTextureName m),
      mat_szReflectionTex = strncpy 32 (mm_sReflectionTextureName m),
      mat_szSpecularTex = strncpy 32 (mm_sSpecularTextureName m),
      mat_szNormalTex = strncpy 32 (mm_sNormalTextureName m),
      mat_uiPadding = replicate 64 0\<rparr>"

definition save_material :: "bool \<Rightarrow> TD_MODEL_MATERIAL \<Rightarrow> save_state \<Rightarrow> save_state" where
  "save_material is_last m st =
     st\<lparr>sv_file := fwrite (enc_material (material_hdr (sv_ofs st) is_last m)) (sv_file st),
        sv_ofs := sv_ofs st + of_nat sizeof_MATERIAL\<rparr>"

fun save_materials :: "(bytes \<times> TD_MODEL_MATERIAL) list \<Rightarrow> save_state \<Rightarrow> save_state" where
  "save_materials [] st = st"
| "save_materials (km # kms) st = save_materials kms (save_material (kms = []) (snd km) st)"

section \<open>Textures\<close>

definition texture_comp :: "lz4_api \<Rightarrow> u32 \<Rightarrow> TD_MODEL_TEXTURE_SLOT \<Rightarrow> bytes" where
  "texture_comp lz uiFlags t =
     compress_block lz uiFlags (take (unat (ts_uiSize t)) (ts_pData t)) (ts_uiSize t)"

definition texture_use :: "lz4_api \<Rightarrow> u32 \<Rightarrow> TD_MODEL_TEXTURE_SLOT \<Rightarrow> bool" where
  "texture_use lz uiFlags t =
     use_compressed uiFlags (of_nat (length (texture_comp lz uiFlags t))) (ts_uiSize t)"

definition texture_hdr :: "lz4_api \<Rightarrow> u32 \<Rightarrow> u32 \<Rightarrow> bool \<Rightarrow> TD_MODEL_TEXTURE_SLOT \<Rightarrow> TDSCAN_FILE_TEXTURE" where
  "texture_hdr lz uiFlags uiFileOfs is_last t =
     (let bUse = texture_use lz uiFlags t;
          csize = (if bUse then of_nat (length (texture_comp lz uiFlags t)) else ts_uiSize t)
      in \<lparr>tex_szSign = [0x54, 0x45, 0x58], tex_szName = strncpy 32 (ts_sName t),
          tex_iNextTexOfs = (if is_last then -1 else uiFileOfs + of_nat sizeof_TEXTURE + csize),
          tex_eTexFormat = ts_eFormat t, tex_uiDataSize = ts_uiSize t,
          tex_uiCompressedSize = csize,
          tex_uiFlags = (if bUse then TDS_FLAG_COMPRESSED else 0),
          tex_clrAvgColor = ts_clrAvgColor t, tex_uiPadding = replicate 5 0\<rparr>)"

definition save_texture :: "lz4_api \<Rightarrow> u32 \<Rightarrow> bool \<Rightarrow> TD_MODEL_TEXTURE_SLOT \<Rightarrow> save_state \<Rightarrow> save_state outcome" where
  "save_texture lz uiFlags is_last t st =
     (if length (ts_pData t) < unat (ts_uiSize t) then UB
      else let h = texture_hdr lz uiFlags (sv_ofs st) is_last t;
               f1 = fwrite (enc_texture h) (sv_file st);
               f2 = (if texture_use lz uiFlags t then fwrite (texture_comp lz uiFlags t) f1
                     else fwrite (take (unat (tex_uiCompressedSize h)) (ts_pData t)) f1)
           in Done (st\<lparr>sv_file := f2,
                       sv_ofs := sv_ofs st + of_nat sizeof_TEXTURE + tex_uiCompressedSize h\<rparr>))"

fun save_textures :: "lz4_api \<Rightarrow> u32 \<Rightarrow> (bytes \<times> TD_MODEL_TEXTURE_SLOT) list \<Rightarrow> save_state \<Rightarrow> save_state outcome" where
  "save_textures lz uiFlags [] st = Done st"
| "save_textures lz uiFlags (kt # kts) st =
     obind (save_texture lz uiFlags (kts = []) (snd kt) st) (save_textures lz uiFlags kts)"

section \<open>The whole file\<close>

text \<open>The 17 characters of \<open>SEYEDOF 3D FORMAT\<close>.\<close>

definition scan_sign :: bytes where
  "scan_sign = [0x53, 0x45, 0x59, 0x45, 0x44, 0x4F, 0x46, 0x20, 0x33, 0x44, 0x20, 0x46, 0x4F, 0x52,
     0x4D, 0x41, 0x54]"

definition init_header :: TDSCAN_FILE_HEADER where
  "init_header = \<lparr>hdr_szSign = scan_sign, hdr_uiVersion = 0x10000, hdr_uiTotalTriCount = 0,
     hdr_iFirstPartOfs = of_nat sizeof_HEADER, hdr_iMaterialLibOfs = 0, hdr_iTexLibOfs = 0,
     hdr_uiCrc = 0, hdr_uiPadding = replicate 5 0\<rparr>"

definition save_model :: "lz4_api \<Rightarrow> u32 \<Rightarrow> TD_SCAN_MODEL \<Rightarrow> bytes outcome" where
  "save_model lz uiFlags m =
     (let st0 = \<lparr>sv_file = fwrite (enc_header init_header) fopen_wb, sv_ofs = of_nat sizeof_HEADER,
                 sv_hdr = init_header\<rparr>
      in obind (save_parts lz uiFlags (Parts m) st0) (\<lambda>st1.
           let st2 = st1\<lparr>sv_hdr := (sv_hdr st1)\<lparr>hdr_iMaterialLibOfs :=
                       (if Materials m \<noteq> [] then sv_ofs st1 else -1)\<rparr>\<rparr>;
               st3 = save_materials (Materials m) st2;
               st4 = st3\<lparr>sv_hdr := (sv_hdr st3)\<lparr>hdr_iTexLibOfs :=
                       (if Textures m \<noteq> [] then sv_ofs st3 else -1)\<rparr>\<rparr>
           in obind (save_textures lz uiFlags (Textures m) st4) (\<lambda>st5.
                let f1 = snd (fseek 0 SEEK_SET (sv_file st5));
                    f2 = fwrite (enc_header (sv_hdr st5)) f1
                in Done (f_data f2))))"

text \<open>
  The entry point: the NULL checks, the failing open, and the file written; the result is what
  the function returns and the contents of the file if one was created.
\<close>

definition Save3DScanModel ::
  "lz4_api \<Rightarrow> bool \<Rightarrow> string option \<Rightarrow> TD_SCAN_MODEL option \<Rightarrow> u32 \<Rightarrow> (bool \<times> bytes option) outcome" where
  "Save3DScanModel lz can_open pszFilename pModel uiFlags =
     (case (pszFilename, pModel) of
        (Some _, Some m) \<Rightarrow>
           if \<not> can_open then Done (False, None)
           else obind (save_model lz uiFlags m) (\<lambda>d. Done (True, Some d))
      | _ \<Rightarrow> Done (False, None))"

end
