(* ===== verification/ScanLoad.thy ===== *)
theory ScanLoad
  imports ScanSave
begin

text \<open>
  \<open>C3DScanFile::Load3DScanModel\<close> and its two entry points. The loader is generic in the stream,
  as the code is in \<open>CBaseStream&\<close>: \<open>load_env\<close> holds the stream's Read and Seek, the LZ4 library
  and the contents of a buffer before a read (\<open>ev_junk s i\<close> is byte \<open>i\<close> of the buffer that a
  read in stream state \<open>s\<close> fills: what a short read leaves there). The loops follow file offsets and may not
  end, so each takes fuel; \<open>UB\<close> is an access outside a buffer, a C string without end, or an
  array allocation whose size overflows \<open>size_t\<close>.
\<close>

record 's load_env =
  ev_rd :: "u32 \<Rightarrow> 's \<Rightarrow> (bytes \<times> 's) outcome"
  ev_sk :: "u32 \<Rightarrow> 's \<Rightarrow> 's"
  ev_lz :: lz4_api
  ev_junk :: "'s \<Rightarrow> nat \<Rightarrow> byte"

section \<open>Reading buffers\<close>

definition read_buf :: "'s load_env \<Rightarrow> u32 \<Rightarrow> 's \<Rightarrow> (bytes \<times> 's) outcome" where
  "read_buf e n s = obind (ev_rd e n s) (\<lambda>(bs, s').
     if length bs > unat n then UB
     else Done (bs @ map (ev_junk e s) [length bs..<unat n], s'))"

text \<open>\<open>LZ4_decompress_fast\<close> takes the size as an \<open>int\<close>.\<close>

definition unlz4 :: "lz4_api \<Rightarrow> bytes \<Rightarrow> u32 \<Rightarrow> bytes outcome" where
  "unlz4 lz src n =
     (if 2 ^ 31 \<le> unat n then UB
      else case decompress_fast lz src (unat n) of
        None \<Rightarrow> UB
      | Some d \<Rightarrow> if length d = unat n then Done d else UB)"

definition c_name :: "nat \<Rightarrow> bytes \<Rightarrow> bytes outcome" where
  "c_name off raw = (case cstr_at off raw of None \<Rightarrow> UB | Some s \<Rightarrow> Done s)"

section \<open>The bounding box\<close>

definition FLT_MAX :: u32 where "FLT_MAX = 0x7F7FFFFF"
definition minus_FLT_MAX :: u32 where "minus_FLT_MAX = 0xFF7FFFFF"

type_synonym box = "float3 \<times> float3"

definition init_box :: box where
  "init_box = (\<lparr>f3_x = FLT_MAX, f3_y = FLT_MAX, f3_z = FLT_MAX\<rparr>,
     \<lparr>f3_x = minus_FLT_MAX, f3_y = minus_FLT_MAX, f3_z = minus_FLT_MAX\<rparr>)"

definition f_lower :: "u32 \<Rightarrow> u32 \<Rightarrow> u32" where
  "f_lower p m = (if f_less p m then p else m)"

definition f_upper :: "u32 \<Rightarrow> u32 \<Rightarrow> u32" where
  "f_upper p m = (if f_less m p then p else m)"

definition upd_box :: "float3 \<Rightarrow> box \<Rightarrow> box" where
  "upd_box p b = (case b of (mn, mx) \<Rightarrow>
     (\<lparr>f3_x = f_lower (f3_x p) (f3_x mn), f3_y = f_lower (f3_y p) (f3_y mn),
       f3_z = f_lower (f3_z p) (f3_z mn)\<rparr>,
      \<lparr>f3_x = f_upper (f3_x p) (f3_x mx), f3_y = f_upper (f3_y p) (f3_y mx),
       f3_z = f_upper (f3_z p) (f3_z mx)\<rparr>))"

text \<open>The loop over the vertices: \<open>pVertex\<close> advances by the vertex size, 12 bytes are read.\<close>

fun upd_bounds :: "nat \<Rightarrow> nat \<Rightarrow> bytes \<Rightarrow> box \<Rightarrow> box outcome" where
  "upd_bounds vs 0 pVertex b = Done b"
| "upd_bounds vs (Suc n) pVertex b =
     (if length pVertex < 12 then UB
      else upd_bounds vs n (drop vs pVertex) (upd_box (dec_float3 pVertex) b))"

section \<open>Subsets\<close>

definition sign_SUBSET :: bytes where "sign_SUBSET = [0x53, 0x55, 0x42, 0x53, 0x45, 0x54]"
definition sign_PART :: bytes where "sign_PART = [0x50, 0x41, 0x52, 0x54]"
definition sign_MATERIAL :: bytes where
  "sign_MATERIAL = [0x4D, 0x41, 0x54, 0x45, 0x52, 0x49, 0x41, 0x4C]"
definition sign_TEX :: bytes where "sign_TEX = [0x54, 0x45, 0x58]"

lemmas sign_defs = sign_SUBSET_def sign_PART_def sign_MATERIAL_def sign_TEX_def

text \<open>The vertex and index bytes of a compressed subset, then of a plain one.\<close>

definition load_compressed ::
  "'s load_env \<Rightarrow> TDSCAN_FILE_SUBSET \<Rightarrow> u32 \<Rightarrow> u32 \<Rightarrow> 's \<Rightarrow> (bytes \<times> bytes \<times> 's) outcome" where
  "load_compressed e h vbn ibn s =
     obind (read_buf e (sub_uiCompressedSize h) s) (\<lambda>(src, s').
     obind (unlz4 (ev_lz e) src (sub_uiDataSize h)) (\<lambda>d.
       if length d < unat vbn + unat ibn then UB
       else Done (bslice 0 (unat vbn) d, bslice (unat vbn) (unat ibn) d, s')))"

definition load_plain ::
  "'s load_env \<Rightarrow> u32 \<Rightarrow> u32 \<Rightarrow> 's \<Rightarrow> (bytes \<times> bytes \<times> 's) outcome" where
  "load_plain e vbn ibn s =
     obind (read_buf e vbn s) (\<lambda>(vb, s').
     obind (read_buf e ibn s') (\<lambda>(ib, s''). Done (vb, ib, s'')))"

definition load_subset ::
  "'s load_env \<Rightarrow> u32 \<Rightarrow> box \<Rightarrow> 's \<Rightarrow> (TD_MODEL_SUBSET \<times> u32 \<times> box \<times> 's) outcome" where
  "load_subset e ofs b s =
     obind (read_buf e (of_nat sizeof_SUBSET) (ev_sk e ofs s)) (\<lambda>(raw, s1).
       let h = dec_subset raw;
           vs = GetVertexSize (sub_uiVertexFormat h);
           vc = sub_uiVertexCount h;
           tc = sub_uiTriCount h
       in if sub_szSign h \<noteq> sign_SUBSET then Fail
          else if sub_uiDataSize h \<noteq> vs * vc + tc * 3 * 4 then Fail
          else if 2 ^ 32 \<le> 4 * unat (tc * 3) then UB
          else obind (if sub_uiFlags h AND TDS_FLAG_COMPRESSED \<noteq> 0
                      then load_compressed e h (vs * vc) (4 * tc * 3) s1
                      else load_plain e (vs * vc) (4 * tc * 3) s1) (\<lambda>(vb, ib, s2).
               obind (upd_bounds (unat vs) (unat vc) vb b) (\<lambda>b'.
               obind (c_name 10 raw) (\<lambda>nm.
                 Done (\<lparr>pVB = vb, pIB = bytes_words (unat (tc * 3)) ib, ss_uiVertCount = vc,
                        ss_uiTriCount = tc, ss_sMatName = nm,
                        ss_uiVertexFmt = sub_uiVertexFormat h\<rparr>,
                       sub_iNextSubsetOfs h, b', s2)))))"

fun load_subsets ::
  "'s load_env \<Rightarrow> nat \<Rightarrow> u32 \<Rightarrow> box \<Rightarrow> 's \<Rightarrow> (TD_MODEL_SUBSET list \<times> box \<times> 's) outcome" where
  "load_subsets e fuel ofs b s =
     (if sint ofs \<le> 0 then Done ([], b, s)
      else case fuel of 0 \<Rightarrow> NoFuel
        | Suc k \<Rightarrow> obind (load_subset e ofs b s) (\<lambda>(x, nxt, b1, s1).
             obind (load_subsets e k nxt b1 s1) (\<lambda>(xs, b2, s2). Done (x # xs, b2, s2))))"

section \<open>Parts\<close>

definition load_part ::
  "'s load_env \<Rightarrow> nat \<Rightarrow> u32 \<Rightarrow> box \<Rightarrow> 's \<Rightarrow> (TD_MODEL_PART \<times> u32 \<times> box \<times> 's) outcome" where
  "load_part e fuel ofs b s =
     obind (read_buf e (of_nat sizeof_PART) (ev_sk e ofs s)) (\<lambda>(raw, s1).
       let h = dec_part raw
       in if part_szSign h \<noteq> sign_PART then Fail
          else obind (c_name 4 raw) (\<lambda>nm.
               obind (load_subsets e fuel (part_iFirstSubset h) b s1) (\<lambda>(xs, b', s2).
                 Done (\<lparr>mp_sName = nm, mp_Subsets = xs\<rparr>, part_iNextPartOfs h, b', s2))))"

fun load_parts ::
  "'s load_env \<Rightarrow> nat \<Rightarrow> nat \<Rightarrow> u32 \<Rightarrow> box \<Rightarrow> 's \<Rightarrow> (TD_MODEL_PART list \<times> box \<times> 's) outcome" where
  "load_parts e sfuel fuel ofs b s =
     (if sint ofs \<le> 0 then Done ([], b, s)
      else case fuel of 0 \<Rightarrow> NoFuel
        | Suc k \<Rightarrow> obind (load_part e sfuel ofs b s) (\<lambda>(x, nxt, b1, s1).
             obind (load_parts e sfuel k nxt b1 s1) (\<lambda>(xs, b2, s2). Done (x # xs, b2, s2))))"

section \<open>Materials\<close>

definition load_material ::
  "'s load_env \<Rightarrow> u32 \<Rightarrow> 's \<Rightarrow> (bytes \<times> TD_MODEL_MATERIAL \<times> u32 \<times> 's) outcome" where
  "load_material e ofs s =
     obind (read_buf e (of_nat sizeof_MATERIAL) (ev_sk e ofs s)) (\<lambda>(raw, s1).
       let h = dec_material raw
       in if mat_szSign h \<noteq> sign_MATERIAL then Fail
          else obind (c_name 8 raw) (\<lambda>nm.
               obind (c_name 96 raw) (\<lambda>dif.
               obind (c_name 224 raw) (\<lambda>nrm.
               obind (c_name 128 raw) (\<lambda>alp.
               obind (c_name 192 raw) (\<lambda>spc.
               obind (c_name 160 raw) (\<lambda>rfl.
                 Done (nm, \<lparr>mm_sName = nm, mm_clrAmbient = mat_f4Ambient h,
                   mm_clrDiffuse = mat_f4Diffuse h, mm_fTransparency = mat_fAlpha h,
                   mm_fSpecIntensity = mat_fSpecIntensity h, mm_fGlossiness = mat_fGlossiness h,
                   mm_fReflectionFactor = mat_fReflectionFactor h, mm_sDiffuseTextureName = dif,
                   mm_sNormalTextureName = nrm, mm_sSpecularTextureName = spc,
                   mm_sAlphaTextureName = alp, mm_sReflectionTextureName = rfl\<rparr>,
                   mat_iNextMaterialOfs h, s1))))))))"

fun load_materials ::
  "'s load_env \<Rightarrow> nat \<Rightarrow> u32 \<Rightarrow> (bytes \<times> TD_MODEL_MATERIAL) list \<Rightarrow> 's \<Rightarrow>
     ((bytes \<times> TD_MODEL_MATERIAL) list \<times> 's) outcome" where
  "load_materials e fuel ofs m s =
     (if sint ofs \<le> 0 then Done (m, s)
      else case fuel of 0 \<Rightarrow> NoFuel
        | Suc k \<Rightarrow> obind (load_material e ofs s) (\<lambda>(nm, x, nxt, s1).
             load_materials e k nxt (smap_put nm x m) s1))"

section \<open>Textures\<close>

definition load_texture ::
  "'s load_env \<Rightarrow> u32 \<Rightarrow> 's \<Rightarrow> (bytes \<times> TD_MODEL_TEXTURE_SLOT \<times> u32 \<times> 's) outcome" where
  "load_texture e ofs s =
     obind (read_buf e (of_nat sizeof_TEXTURE) (ev_sk e ofs s)) (\<lambda>(raw, s1).
       let h = dec_texture raw
       in if tex_szSign h \<noteq> sign_TEX then Fail
          else obind (c_name 3 raw) (\<lambda>nm.
               obind (if tex_uiFlags h = TDS_FLAG_COMPRESSED
                      then obind (read_buf e (tex_uiCompressedSize h) s1) (\<lambda>(src, s2).
                           obind (unlz4 (ev_lz e) src (tex_uiDataSize h)) (\<lambda>d. Done (d, s2)))
                      else read_buf e (tex_uiDataSize h) s1) (\<lambda>(d, s3).
                 Done (nm, \<lparr>ts_sName = nm, ts_uiSize = tex_uiDataSize h, ts_pData = d,
                        ts_eFormat = tex_eTexFormat h, ts_clrAvgColor = tex_clrAvgColor h\<rparr>,
                       tex_iNextTexOfs h, s3))))"

fun load_textures ::
  "'s load_env \<Rightarrow> nat \<Rightarrow> u32 \<Rightarrow> (bytes \<times> TD_MODEL_TEXTURE_SLOT) list \<Rightarrow> 's \<Rightarrow>
     ((bytes \<times> TD_MODEL_TEXTURE_SLOT) list \<times> 's) outcome" where
  "load_textures e fuel ofs m s =
     (if sint ofs \<le> 0 then Done (m, s)
      else case fuel of 0 \<Rightarrow> NoFuel
        | Suc k \<Rightarrow> obind (load_texture e ofs s) (\<lambda>(nm, x, nxt, s1).
             load_textures e k nxt (smap_put nm x m) s1))"

section \<open>The whole model\<close>

definition Load3DScanModel :: "'s load_env \<Rightarrow> nat \<Rightarrow> 's \<Rightarrow> TD_SCAN_MODEL outcome" where
  "Load3DScanModel e fuel s =
     obind (read_buf e (of_nat sizeof_HEADER) s) (\<lambda>(raw, s1).
       let h = dec_header raw
       in if hdr_szSign h \<noteq> scan_sign then Fail
          else if hdr_uiVersion h \<noteq> 0x10000 then Fail
          else obind (load_parts e fuel fuel (hdr_iFirstPartOfs h) init_box s1) (\<lambda>(ps, b, s2).
               obind (load_materials e fuel (hdr_iMaterialLibOfs h) [] s2) (\<lambda>(ms, s3).
               obind (load_textures e fuel (hdr_iTexLibOfs h) [] s3) (\<lambda>(ts, s4).
                 Done \<lparr>Parts = ps, Materials = ms, Textures = ts, ptMin = fst b, ptMax = snd b\<rparr>))))"

definition mem_env :: "lz4_api \<Rightarrow> (CMemStream \<Rightarrow> nat \<Rightarrow> byte) \<Rightarrow> CMemStream load_env" where
  "mem_env lz junk = \<lparr>ev_rd = mem_rd, ev_sk = mem_sk, ev_lz = lz, ev_junk = junk\<rparr>"

definition file_env :: "lz4_api \<Rightarrow> (CFileStream \<Rightarrow> nat \<Rightarrow> byte) \<Rightarrow> CFileStream load_env" where
  "file_env lz junk = \<lparr>ev_rd = file_rd, ev_sk = file_sk, ev_lz = lz, ev_junk = junk\<rparr>"

definition Load3DScanModelFromMemory ::
  "lz4_api \<Rightarrow> (CMemStream \<Rightarrow> nat \<Rightarrow> byte) \<Rightarrow> nat \<Rightarrow> bytes option \<Rightarrow> u32 \<Rightarrow> TD_SCAN_MODEL outcome" where
  "Load3DScanModelFromMemory lz junk fuel pMem uiSize =
     (case CMemStream_Bind pMem uiSize CMemStream_new of
        (False, _) \<Rightarrow> Fail
      | (True, ms) \<Rightarrow> Load3DScanModel (mem_env lz junk) fuel ms)"

definition Load3DScanModelFromFile ::
  "lz4_api \<Rightarrow> (CFileStream \<Rightarrow> nat \<Rightarrow> byte) \<Rightarrow> nat \<Rightarrow> (string \<Rightarrow> bytes option) \<Rightarrow> string option \<Rightarrow>
     TD_SCAN_MODEL outcome" where
  "Load3DScanModelFromFile lz junk fuel fs pszFilename =
     (case CFileStream_Open fs pszFilename CFileStream_new of
        (False, _) \<Rightarrow> Fail
      | (True, st) \<Rightarrow> Load3DScanModel (file_env lz junk) fuel st)"

declare load_subsets.simps [simp del] load_parts.simps [simp del]
  load_materials.simps [simp del] load_textures.simps [simp del]

section \<open>Basic facts\<close>

lemma upd_bounds_fold:
  assumes "12 \<le> vs" "length pv = vs * n"
  shows "upd_bounds vs n pv b = Done (fold upd_box (map (\<lambda>i. dec_float3 (drop (i * vs) pv)) [0..<n]) b)"
  using assms(2)
proof (induction n arbitrary: pv b)
  case (Suc n)
  have l: "length (drop vs pv) = vs * n" using Suc.prems by simp
  have "map (\<lambda>i. dec_float3 (drop (i * vs) pv)) [0..<Suc n] =
      dec_float3 pv # map (\<lambda>i. dec_float3 (drop (i * vs) (drop vs pv))) [0..<n]"
    by (simp add: upt_conv_Cons map_Suc_upt [symmetric] add.commute del: upt_Suc)
  then show ?case using Suc.IH [OF l] Suc.prems assms(1) by simp
qed simp

lemma read_buf_exact:
  "ev_rd e n s = Done (bs, s') \<Longrightarrow> length bs = unat n \<Longrightarrow> read_buf e n s = Done (bs, s')"
  by (simp add: read_buf_def)

lemma unlz4_ok:
  "decompress_fast lz src (unat n) = Some d \<Longrightarrow> length d = unat n \<Longrightarrow> unat n < 2 ^ 31 \<Longrightarrow>
     unlz4 lz src n = Done d"
  by (simp add: unlz4_def)

end
