(* ===== verification/ScanImage.thy ===== *)
theory ScanImage
  imports ScanLoad
begin

text \<open>
  The specification of the file layout: \<open>model_img lz fl m\<close> is the file as one byte list, without
  state, seeks or back-patching. The lemmas show that \<open>save_model\<close> (whose parts are patched and
  whose header is rewritten in place) writes exactly that image, as long as it stays below 2 GB.
\<close>

section \<open>The image\<close>

definition subset_payload :: "lz4_api \<Rightarrow> u32 \<Rightarrow> TD_MODEL_SUBSET \<Rightarrow> bytes" where
  "subset_payload lz fl s =
     (if subset_use lz fl s then subset_comp lz fl s else subset_vb_bytes s @ subset_ib_bytes s)"

definition subset_img :: "lz4_api \<Rightarrow> u32 \<Rightarrow> nat \<Rightarrow> bool \<Rightarrow> TD_MODEL_SUBSET \<Rightarrow> bytes" where
  "subset_img lz fl ofs is_last s =
     enc_subset (subset_hdr lz fl (of_nat ofs) is_last s) @ subset_payload lz fl s"

fun subsets_img :: "lz4_api \<Rightarrow> u32 \<Rightarrow> nat \<Rightarrow> TD_MODEL_SUBSET list \<Rightarrow> bytes" where
  "subsets_img lz fl ofs [] = []"
| "subsets_img lz fl ofs (s # ss) =
     subset_img lz fl ofs (ss = []) s @
     subsets_img lz fl (ofs + length (subset_img lz fl ofs (ss = []) s)) ss"

definition part_img :: "lz4_api \<Rightarrow> u32 \<Rightarrow> nat \<Rightarrow> bool \<Rightarrow> TD_MODEL_PART \<Rightarrow> bytes" where
  "part_img lz fl ofs is_last p =
     (let body = subsets_img lz fl (ofs + sizeof_PART) (mp_Subsets p)
      in enc_part (part_hdr (of_nat ofs)
           (if is_last then -1 else of_nat (ofs + sizeof_PART + length body)) p) @ body)"

fun parts_img :: "lz4_api \<Rightarrow> u32 \<Rightarrow> nat \<Rightarrow> TD_MODEL_PART list \<Rightarrow> bytes" where
  "parts_img lz fl ofs [] = []"
| "parts_img lz fl ofs (p # ps) =
     part_img lz fl ofs (ps = []) p @ parts_img lz fl (ofs + length (part_img lz fl ofs (ps = []) p)) ps"

fun materials_img :: "nat \<Rightarrow> (bytes \<times> TD_MODEL_MATERIAL) list \<Rightarrow> bytes" where
  "materials_img ofs [] = []"
| "materials_img ofs (km # kms) =
     enc_material (material_hdr (of_nat ofs) (kms = []) (snd km)) @ materials_img (ofs + sizeof_MATERIAL) kms"

definition texture_payload :: "lz4_api \<Rightarrow> u32 \<Rightarrow> TD_MODEL_TEXTURE_SLOT \<Rightarrow> bytes" where
  "texture_payload lz fl t =
     (if texture_use lz fl t then texture_comp lz fl t else take (unat (ts_uiSize t)) (ts_pData t))"

definition texture_img :: "lz4_api \<Rightarrow> u32 \<Rightarrow> nat \<Rightarrow> bool \<Rightarrow> TD_MODEL_TEXTURE_SLOT \<Rightarrow> bytes" where
  "texture_img lz fl ofs is_last t =
     enc_texture (texture_hdr lz fl (of_nat ofs) is_last t) @ texture_payload lz fl t"

fun textures_img :: "lz4_api \<Rightarrow> u32 \<Rightarrow> nat \<Rightarrow> (bytes \<times> TD_MODEL_TEXTURE_SLOT) list \<Rightarrow> bytes" where
  "textures_img lz fl ofs [] = []"
| "textures_img lz fl ofs (kt # kts) =
     texture_img lz fl ofs (kts = []) (snd kt) @
     textures_img lz fl (ofs + length (texture_img lz fl ofs (kts = []) (snd kt))) kts"

definition total_tris :: "TD_MODEL_PART list \<Rightarrow> u32" where
  "total_tris ps = sum_list (map (\<lambda>p. sum_list (map ss_uiTriCount (mp_Subsets p))) ps)"

definition final_header :: "TD_SCAN_MODEL \<Rightarrow> nat \<Rightarrow> nat \<Rightarrow> TDSCAN_FILE_HEADER" where
  "final_header m mofs tofs = init_header\<lparr>hdr_uiTotalTriCount := total_tris (Parts m),
     hdr_iMaterialLibOfs := (if Materials m \<noteq> [] then of_nat mofs else -1),
     hdr_iTexLibOfs := (if Textures m \<noteq> [] then of_nat tofs else -1)\<rparr>"

definition model_img :: "lz4_api \<Rightarrow> u32 \<Rightarrow> TD_SCAN_MODEL \<Rightarrow> bytes" where
  "model_img lz fl m =
     (let ps = parts_img lz fl sizeof_HEADER (Parts m);
          mofs = sizeof_HEADER + length ps;
          ms = materials_img mofs (Materials m);
          tofs = mofs + length ms
      in enc_header (final_header m mofs tofs) @ ps @ ms @ textures_img lz fl tofs (Textures m))"

section \<open>Lengths\<close>

lemma subset_hdr_wf [simp]: "subset_wf (subset_hdr lz fl ofs l s)"
  by (simp add: subset_wf_def subset_hdr_def Let_def lens)

lemma part_hdr_wf [simp]: "part_wf (part_hdr ofs n p)"
  by (simp add: part_wf_def part_hdr_def lens)

lemma material_hdr_wf [simp]: "material_wf (material_hdr ofs l m)"
  by (simp add: material_wf_def material_hdr_def lens)

lemma texture_hdr_wf [simp]: "texture_wf (texture_hdr lz fl ofs l t)"
  by (simp add: texture_wf_def texture_hdr_def Let_def lens)

lemma init_header_wf [simp]: "header_wf init_header"
  by (simp add: header_wf_def init_header_def scan_sign_def)

lemma final_header_wf [simp]: "header_wf (final_header m a b)"
  by (simp add: header_wf_def final_header_def init_header_def scan_sign_def)

lemmas enc_lengths [lens, simp] =
  sbs.enc_size [OF subset_hdr_wf] prt.enc_size [OF part_hdr_wf] mtl.enc_size [OF material_hdr_wf]
  txr.enc_size [OF texture_hdr_wf] hdr.enc_size [OF init_header_wf] hdr.enc_size [OF final_header_wf]

lemma length_subset_img [lens]: "length (subset_img lz fl ofs l s) = 76 + length (subset_payload lz fl s)"
  by (simp add: subset_img_def)

lemma length_part_img [lens]:
  "length (part_img lz fl ofs l p) = 44 + length (subsets_img lz fl (ofs + 44) (mp_Subsets p))"
  by (simp add: part_img_def Let_def)

lemma length_texture_img [lens]: "length (texture_img lz fl ofs l t) = 76 + length (texture_payload lz fl t)"
  by (simp add: texture_img_def)

lemma length_materials_img [lens]: "length (materials_img ofs kms) = 320 * length kms"
  by (induction kms arbitrary: ofs) auto

section \<open>Saving writes the image\<close>

text \<open>The writer appends: its offset is the length of what is written, modulo \<open>2 ^ 32\<close>.\<close>

definition at_end :: "save_state \<Rightarrow> bool" where
  "at_end st \<longleftrightarrow> f_pos (sv_file st) = length (f_data (sv_file st)) \<and>
     sv_ofs st = of_nat (length (f_data (sv_file st)))"

definition appended :: "save_state \<Rightarrow> bytes \<Rightarrow> save_state \<Rightarrow> bool" where
  "appended st bs st' \<longleftrightarrow> at_end st' \<and> f_data (sv_file st') = f_data (sv_file st) @ bs"

lemma appended_trans: "appended a x b \<Longrightarrow> appended b y c \<Longrightarrow> appended a (x @ y) c"
  by (simp add: appended_def)

lemma appended_Nil: "at_end st \<Longrightarrow> appended st [] st"
  by (simp add: appended_def)

lemma fwrite_appends:
  "f_pos f = length (f_data f) \<Longrightarrow> f_data (fwrite bs f) = f_data f @ bs"
  "f_pos f = length (f_data f) \<Longrightarrow> f_pos (fwrite bs f) = length (f_data f) + length bs"
  by simp_all

lemma subset_csize:
  assumes "subset_buffers_ok s"
  shows "sub_uiCompressedSize (subset_hdr lz fl ofs l s) = of_nat (length (subset_payload lz fl s))"
proof -
  have "subset_data_size s = of_nat (length (subset_vb_bytes s @ subset_ib_bytes s))"
    using assms by (simp add: subset_buffers_ok_def del: length_append)
  then show ?thesis by (simp add: subset_hdr_def Let_def subset_payload_def)
qed

lemma texture_csize:
  assumes "length (ts_pData t) \<ge> unat (ts_uiSize t)"
  shows "tex_uiCompressedSize (texture_hdr lz fl ofs l t) = of_nat (length (texture_payload lz fl t))"
  using assms by (simp add: texture_hdr_def Let_def texture_payload_def min_def)

definition add_tris :: "u32 \<Rightarrow> TDSCAN_FILE_HEADER \<Rightarrow> TDSCAN_FILE_HEADER" where
  "add_tris n h = h\<lparr>hdr_uiTotalTriCount := hdr_uiTotalTriCount h + n\<rparr>"

lemma add_tris_add: "add_tris b (add_tris a h) = add_tris (a + b) h"
  by (simp add: add_tris_def add.assoc)

lemma add_tris_0 [simp]: "add_tris 0 h = h"
  by (simp add: add_tris_def)

lemma save_subset_img:
  assumes "at_end st" "subset_buffers_ok s"
  shows "\<exists>st'. save_subset lz fl l s st = Done st' \<and>
    appended st (subset_img lz fl (length (f_data (sv_file st))) l s) st' \<and>
    sv_hdr st' = add_tris (ss_uiTriCount s) (sv_hdr st)"
  using assms subset_csize [OF assms(2), of lz fl "sv_ofs st" l]
  by (simp add: save_subset_def Let_def at_end_def appended_def subset_img_def subset_payload_def
      add_tris_def)

lemma save_subsets_img:
  assumes "at_end st" "\<forall>s\<in>set ss. subset_buffers_ok s"
  shows "\<exists>st'. save_subsets lz fl ss st = Done st' \<and>
    appended st (subsets_img lz fl (length (f_data (sv_file st))) ss) st' \<and>
    sv_hdr st' = add_tris (sum_list (map ss_uiTriCount ss)) (sv_hdr st)"
  using assms
proof (induction ss arbitrary: st)
  case Nil
  then show ?case by (simp add: appended_Nil)
next
  case (Cons s ss)
  obtain st1 where st1: "save_subset lz fl (ss = []) s st = Done st1"
    "appended st (subset_img lz fl (length (f_data (sv_file st))) (ss = []) s) st1"
    "sv_hdr st1 = add_tris (ss_uiTriCount s) (sv_hdr st)"
    using save_subset_img Cons.prems by (metis list.set_intros(1))
  have "at_end st1" using st1(2) by (simp add: appended_def)
  then obtain st2 where st2: "save_subsets lz fl ss st1 = Done st2"
    "appended st1 (subsets_img lz fl (length (f_data (sv_file st1))) ss) st2"
    "sv_hdr st2 = add_tris (sum_list (map ss_uiTriCount ss)) (sv_hdr st1)"
    using Cons.IH [of st1] Cons.prems by auto
  have len: "length (f_data (sv_file st1)) = length (f_data (sv_file st)) +
      length (subset_img lz fl (length (f_data (sv_file st))) (ss = []) s)"
    using st1(2) by (simp add: appended_def)
  show ?case
    using st1 st2 appended_trans [OF st1(2) st2(2)] by (simp add: len add_tris_add)
qed

text \<open>The back-patch: seek to the part, write its header again, seek to the end.\<close>

lemma patch_bytes:
  assumes "length h = length h'" "h \<noteq> []" "length (pre @ h @ post) < 2 ^ 31"
    "uiPart = of_nat (length pre)" "uiEnd = of_nat (length (pre @ h @ post))"
    "f_data f = pre @ h @ post"
  shows "snd (fseek (sint (uiEnd :: u32)) SEEK_SET (fwrite h' (snd (fseek (sint (uiPart :: u32)) SEEK_SET f)))) =
    \<lparr>f_data = pre @ h' @ post, f_pos = length (pre @ h' @ post)\<rparr>"
proof -
  have "length (pre @ h @ post) < 2 ^ 32" "length pre < 2 ^ 32" using assms(3) by simp_all
  then have "unat uiPart = length pre" "unat uiEnd = length (pre @ h @ post)"
    unfolding assms(4,5) by (simp_all only: unat_of_nat32)
  moreover have "h' \<noteq> []" using assms(1,2) by auto
  ultimately show ?thesis
    using assms by (cases f) (simp add: fseek_set fwrite_def overwrite_mid)
qed

lemma save_part_img:
  assumes "at_end st" "\<forall>s\<in>set (mp_Subsets p). subset_buffers_ok s"
    "length (f_data (sv_file st) @ part_img lz fl (length (f_data (sv_file st))) l p) < 2 ^ 31"
  shows "\<exists>st'. save_part lz fl l p st = Done st' \<and>
    appended st (part_img lz fl (length (f_data (sv_file st))) l p) st' \<and>
    sv_hdr st' = add_tris (sum_list (map ss_uiTriCount (mp_Subsets p))) (sv_hdr st)"
proof -
  let ?d = "f_data (sv_file st)" and ?h = "enc_part (part_hdr (sv_ofs st) (-1) p)"
  let ?st1 = "st\<lparr>sv_file := fwrite ?h (sv_file st), sv_ofs := sv_ofs st + of_nat sizeof_PART\<rparr>"
  let ?body = "subsets_img lz fl (length ?d + sizeof_PART) (mp_Subsets p)"
  have ofs: "sv_ofs st = of_nat (length ?d)" using assms(1) by (simp add: at_end_def)
  have "at_end ?st1" using assms(1) by (simp add: at_end_def)
  from save_subsets_img [OF this assms(2), of lz fl] obtain st2
    where st2: "save_subsets lz fl (mp_Subsets p) ?st1 = Done st2"
    "appended ?st1 (subsets_img lz fl (length (f_data (sv_file ?st1))) (mp_Subsets p)) st2"
    "sv_hdr st2 = add_tris (sum_list (map ss_uiTriCount (mp_Subsets p))) (sv_hdr st)"
    by auto
  have d1: "f_data (sv_file ?st1) = ?d @ ?h" using assms(1) by (simp add: at_end_def)
  have d2: "f_data (sv_file st2) = ?d @ ?h @ ?body" and e2: "sv_ofs st2 = of_nat (length (?d @ ?h @ ?body))"
    using st2(2) unfolding appended_def at_end_def d1 by simp_all
  let ?h' = "enc_part (part_hdr (sv_ofs st) (if l then -1 else sv_ofs st2) p)"
  have small: "length (?d @ ?h @ ?body) < 2 ^ 31"
    using assms(3) by (simp add: part_img_def Let_def)
  have "?h \<noteq> []" by (metis prt.enc_ne part_hdr_wf)
  then have patched: "snd (fseek (sint (sv_ofs st2)) SEEK_SET (fwrite ?h' (snd (fseek (sint (sv_ofs st)) SEEK_SET (sv_file st2)))))
      = \<lparr>f_data = ?d @ ?h' @ ?body, f_pos = length (?d @ ?h' @ ?body)\<rparr>"
    using small ofs e2 d2 by (intro patch_bytes [where h = ?h]) simp_all
  have img: "part_img lz fl (length ?d) l p = ?h' @ ?body"
    by (simp add: part_img_def Let_def ofs e2 add.assoc)
  show ?thesis
    using st2(1,3) patched
    by (simp add: save_part_def Let_def appended_def at_end_def img e2 del: of_nat_add)
qed

lemma save_parts_img:
  assumes "at_end st" "\<forall>p\<in>set ps. \<forall>s\<in>set (mp_Subsets p). subset_buffers_ok s"
    "length (f_data (sv_file st) @ parts_img lz fl (length (f_data (sv_file st))) ps) < 2 ^ 31"
  shows "\<exists>st'. save_parts lz fl ps st = Done st' \<and>
    appended st (parts_img lz fl (length (f_data (sv_file st))) ps) st' \<and>
    sv_hdr st' = add_tris (total_tris ps) (sv_hdr st)"
  using assms
proof (induction ps arbitrary: st)
  case Nil
  then show ?case by (simp add: appended_Nil total_tris_def)
next
  case (Cons p ps)
  let ?i = "part_img lz fl (length (f_data (sv_file st))) (ps = []) p"
  have "length (f_data (sv_file st) @ ?i) < 2 ^ 31" using Cons.prems(3) by simp
  with save_part_img Cons.prems obtain st1 where st1: "save_part lz fl (ps = []) p st = Done st1"
    "appended st ?i st1"
    "sv_hdr st1 = add_tris (sum_list (map ss_uiTriCount (mp_Subsets p))) (sv_hdr st)"
    by (metis list.set_intros(1))
  have d1: "f_data (sv_file st1) = f_data (sv_file st) @ ?i" and "at_end st1"
    using st1(2) by (simp_all add: appended_def)
  then obtain st2 where st2: "save_parts lz fl ps st1 = Done st2"
    "appended st1 (parts_img lz fl (length (f_data (sv_file st1))) ps) st2"
    "sv_hdr st2 = add_tris (total_tris ps) (sv_hdr st1)"
    using Cons.IH [of st1] Cons.prems(2,3) by auto
  show ?case
    using st1 st2 appended_trans [OF st1(2) st2(2)] by (simp add: d1 add_tris_add total_tris_def)
qed

lemma save_materials_img:
  assumes "at_end st"
  shows "appended st (materials_img (length (f_data (sv_file st))) kms) (save_materials kms st) \<and>
    sv_hdr (save_materials kms st) = sv_hdr st"
  using assms
proof (induction kms arbitrary: st)
  case Nil
  then show ?case by (simp add: appended_Nil)
next
  case (Cons km kms)
  let ?st1 = "save_material (kms = []) (snd km) st"
  let ?h = "enc_material (material_hdr (of_nat (length (f_data (sv_file st)))) (kms = []) (snd km))"
  have 1: "appended st ?h ?st1" and 2: "sv_hdr ?st1 = sv_hdr st"
    using Cons.prems by (simp_all add: save_material_def appended_def at_end_def)
  then have "at_end ?st1" and l: "length (f_data (sv_file ?st1)) = length (f_data (sv_file st)) + sizeof_MATERIAL"
    by (simp_all add: appended_def)
  with Cons.IH [of ?st1] appended_trans [OF 1] 2 show ?case by (simp del: sizeof_MATERIAL_def)
qed

lemma save_textures_img:
  assumes "at_end st" "\<forall>kt\<in>set kts. unat (ts_uiSize (snd kt)) \<le> length (ts_pData (snd kt))"
  shows "\<exists>st'. save_textures lz fl kts st = Done st' \<and>
    appended st (textures_img lz fl (length (f_data (sv_file st))) kts) st' \<and> sv_hdr st' = sv_hdr st"
  using assms
proof (induction kts arbitrary: st)
  case Nil
  then show ?case by (simp add: appended_Nil)
next
  case (Cons kt kts)
  let ?i = "texture_img lz fl (length (f_data (sv_file st))) (kts = []) (snd kt)"
  have c: "unat (ts_uiSize (snd kt)) \<le> length (ts_pData (snd kt))" using Cons.prems by simp
  have "\<exists>st1. save_texture lz fl (kts = []) (snd kt) st = Done st1 \<and> appended st ?i st1 \<and> sv_hdr st1 = sv_hdr st"
    using Cons.prems(1) c texture_csize [OF c, of lz fl]
    by (simp add: save_texture_def Let_def at_end_def appended_def texture_img_def texture_payload_def min_def)
  then obtain st1 where st1: "save_texture lz fl (kts = []) (snd kt) st = Done st1" "appended st ?i st1"
    "sv_hdr st1 = sv_hdr st" by blast
  have d1: "f_data (sv_file st1) = f_data (sv_file st) @ ?i" and "at_end st1"
    using st1(2) by (simp_all add: appended_def)
  then obtain st2 where st2: "save_textures lz fl kts st1 = Done st2"
    "appended st1 (textures_img lz fl (length (f_data (sv_file st1))) kts) st2" "sv_hdr st2 = sv_hdr st1"
    using Cons.IH [of st1] Cons.prems(2) by auto
  show ?case
    using st1 st2 appended_trans [OF st1(2) st2(2)] by (simp add: d1)
qed

text \<open>When the buffers of every subset and texture are as long as the counts say.\<close>

definition model_buffers_ok :: "TD_SCAN_MODEL \<Rightarrow> bool" where
  "model_buffers_ok m \<longleftrightarrow> (\<forall>p\<in>set (Parts m). \<forall>s\<in>set (mp_Subsets p). subset_buffers_ok s) \<and>
     (\<forall>kt\<in>set (Textures m). unat (ts_uiSize (snd kt)) \<le> length (ts_pData (snd kt)))"

lemma save_model_img:
  assumes "model_buffers_ok m" "length (model_img lz fl m) < 2 ^ 31"
  shows "save_model lz fl m = Done (model_img lz fl m)"
proof -
  let ?st0 = "\<lparr>sv_file = fwrite (enc_header init_header) fopen_wb, sv_ofs = of_nat sizeof_HEADER,
     sv_hdr = init_header\<rparr>"
  let ?d0 = "enc_header init_header" and ?ps = "parts_img lz fl sizeof_HEADER (Parts m)"
  let ?mofs = "sizeof_HEADER + length ?ps"
  let ?ms = "materials_img ?mofs (Materials m)"
  let ?tofs = "?mofs + length ?ms"
  let ?ts = "textures_img lz fl ?tofs (Textures m)"
  have d0: "f_data (sv_file ?st0) = ?d0" and e0: "at_end ?st0"
    by (simp_all add: at_end_def fopen_wb_def)
  have l0: "length (f_data (sv_file ?st0)) = sizeof_HEADER" by (simp add: fopen_wb_def)
  have small: "length (f_data (sv_file ?st0) @ parts_img lz fl (length (f_data (sv_file ?st0))) (Parts m)) < 2 ^ 31"
    unfolding l0 d0 using assms(2) by (simp add: model_img_def Let_def)
  obtain st1 where st1: "save_parts lz fl (Parts m) ?st0 = Done st1"
      "appended ?st0 (parts_img lz fl (length (f_data (sv_file ?st0))) (Parts m)) st1"
      "sv_hdr st1 = add_tris (total_tris (Parts m)) (sv_hdr ?st0)"
    using save_parts_img [OF e0 _ small] assms(1) unfolding model_buffers_ok_def by blast
  have d1: "f_data (sv_file st1) = ?d0 @ ?ps" and e1: "at_end st1"
    using st1(2) by (simp_all add: appended_def fopen_wb_def)
  define st2 where "st2 = st1\<lparr>sv_hdr := (sv_hdr st1)\<lparr>hdr_iMaterialLibOfs :=
      (if Materials m \<noteq> [] then sv_ofs st1 else -1)\<rparr>\<rparr>"
  have d2: "f_data (sv_file st2) = ?d0 @ ?ps" and e2: "at_end st2"
    using d1 e1 by (simp_all add: st2_def at_end_def)
  define st3 where "st3 = save_materials (Materials m) st2"
  have d3: "f_data (sv_file st3) = ?d0 @ ?ps @ ?ms" and e3: "at_end st3" and h3: "sv_hdr st3 = sv_hdr st2"
    using save_materials_img [OF e2, of "Materials m"] by (simp_all add: appended_def d2 st3_def)
  define st4 where "st4 = st3\<lparr>sv_hdr := (sv_hdr st3)\<lparr>hdr_iTexLibOfs :=
      (if Textures m \<noteq> [] then sv_ofs st3 else -1)\<rparr>\<rparr>"
  have d4: "f_data (sv_file st4) = ?d0 @ ?ps @ ?ms" and e4: "at_end st4"
    using d3 e3 by (simp_all add: st4_def at_end_def)
  obtain st5 where st5: "save_textures lz fl (Textures m) st4 = Done st5"
      "appended st4 (textures_img lz fl (length (f_data (sv_file st4))) (Textures m)) st5"
      "sv_hdr st5 = sv_hdr st4"
    using save_textures_img [OF e4] assms(1) unfolding model_buffers_ok_def by blast
  have d5: "f_data (sv_file st5) = ?d0 @ ?ps @ ?ms @ ?ts" using st5(2) by (simp add: appended_def d4 add.assoc)
  have o1: "sv_ofs st1 = of_nat ?mofs" and o3: "sv_ofs st3 = of_nat ?tofs"
    using e1 e3 d1 d3 unfolding at_end_def by simp_all
  have h5: "sv_hdr st5 = final_header m ?mofs ?tofs"
    using st5(3) h3 st1(3) o1 o3 by (simp add: st4_def st2_def final_header_def add_tris_def init_header_def)
  have "f_data (fwrite (enc_header (sv_hdr st5)) (snd (fseek 0 SEEK_SET (sv_file st5)))) =
      enc_header (final_header m ?mofs ?tofs) @ ?ps @ ?ms @ ?ts"
    using overwrite_mid [of 0 "[]" ?d0 "enc_header (sv_hdr st5)" "?ps @ ?ms @ ?ts"] hdr.enc_ne [OF final_header_wf]
    by (simp add: fseek_def fwrite_def d5 h5)
  then show ?thesis
    by (simp only: save_model_def Let_def st1(1) obind.simps st2_def [symmetric] st3_def [symmetric]
        st4_def [symmetric] st5(1) model_img_def)
qed

text \<open>
  C12. The writer is correct: for a model whose buffers match its counts and whose image is smaller
  than 2 GB, \<open>Save3DScanModel\<close> (with its two-pass part headers and rewritten file header) produces
  exactly the specified file image.
\<close>

theorem save_model_writes_image:
  assumes "model_buffers_ok m" "length (model_img lz fl m) < 2 ^ 31"
  shows "Save3DScanModel lz True (Some name) (Some m) fl = Done (True, Some (model_img lz fl m))"
  using save_model_img [OF assms] by (simp add: Save3DScanModel_def)

end
