(* ===== verification/ScanRoundtrip.thy ===== *)
theory ScanRoundtrip
  imports ScanImage
begin

text \<open>
  Loading the image of a model gives the model back. The proof is made once, in the locale of the
  stream interface, and used for \<open>CMemStream\<close> and \<open>CFileStream\<close> through their interpretations.
\<close>

section \<open>Sizes of a well-formed subset\<close>

lemma unat_mult32: "unat a * unat b < 2 ^ 32 \<Longrightarrow> unat (a * b :: u32) = unat a * unat b"
  using unat_mult_lem [of a b] by simp

lemma unat_add32: "unat a + unat b < 2 ^ 32 \<Longrightarrow> unat (a + b :: u32) = unat a + unat b"
  using unat_add_lem [of a b] by simp

lemma subset_ok_sizes:
  assumes "subset_ok x"
  shows "unat (GetVertexSize (ss_uiVertexFmt x) * ss_uiVertCount x) = length (pVB x)"
    and "unat (ss_uiTriCount x * 3) = length (pIB x)"
    and "unat (4 * ss_uiTriCount x * 3) = 4 * length (pIB x)"
    and "unat (subset_data_size x) = length (pVB x) + 4 * length (pIB x)"
    and "length (pVB x) + 4 * length (pIB x) \<le> 0x7E000000"
proof -
  let ?v = "GetVertexSize (ss_uiVertexFmt x)" and ?c = "ss_uiVertCount x" and ?t = "ss_uiTriCount x"
  have l: "length (pVB x) = unat ?v * unat ?c" "length (pIB x) = 3 * unat ?t"
    and s: "length (pVB x) + 4 * length (pIB x) \<le> 0x7E000000"
    using assms by (auto simp: subset_ok_def)
  show vb: "unat (?v * ?c) = length (pVB x)" using l s by (simp add: unat_mult32)
  show t3: "unat (?t * 3) = length (pIB x)" using l s by (subst unat_mult32) simp_all
  have t4: "unat (4 * ?t) = 4 * unat ?t" using l s by (subst unat_mult32) simp_all
  show "unat (4 * ?t * 3) = 4 * length (pIB x)"
    using l s t4 by (subst unat_mult32) simp_all
  have t12: "unat (?t * 3 * 4) = 4 * length (pIB x)"
    using s t3 by (subst unat_mult32) simp_all
  have "unat (?c * ?v) = length (pVB x)" using vb by (simp add: mult.commute)
  then show "unat (subset_data_size x) = length (pVB x) + 4 * length (pIB x)"
    using s t12 unfolding subset_data_size_def by (subst unat_add32) simp_all
  show "length (pVB x) + 4 * length (pIB x) \<le> 0x7E000000" by (rule s)
qed

lemma subset_ok_bytes:
  assumes "subset_ok x"
  shows "subset_vb_bytes x = pVB x" "subset_ib_bytes x = words_bytes (pIB x)"
  using subset_ok_sizes [OF assms] by (simp_all add: subset_vb_bytes_def subset_ib_bytes_def)

lemma subset_ok_buffers: "subset_ok x \<Longrightarrow> subset_buffers_ok x"
  using subset_ok_sizes [of x] subset_ok_bytes [of x]
  by (simp add: subset_buffers_ok_def) (simp add: subset_ok_def)

lemma model_ok_buffers: "model_ok m \<Longrightarrow> model_buffers_ok m"
  by (auto simp: model_ok_def model_buffers_ok_def part_ok_def texture_ok_def subset_ok_buffers)

section \<open>The bounding box of a model\<close>

definition vertices :: "TD_MODEL_SUBSET \<Rightarrow> float3 list" where
  "vertices x = map (\<lambda>i. dec_float3 (drop (i * unat (GetVertexSize (ss_uiVertexFmt x))) (pVB x)))
     [0..<unat (ss_uiVertCount x)]"

definition part_vertices :: "TD_MODEL_PART \<Rightarrow> float3 list" where
  "part_vertices p = concat (map vertices (mp_Subsets p))"

definition model_vertices :: "TD_SCAN_MODEL \<Rightarrow> float3 list" where
  "model_vertices m = concat (map part_vertices (Parts m))"

definition model_box :: "TD_SCAN_MODEL \<Rightarrow> box" where
  "model_box m = fold upd_box (model_vertices m) init_box"

lemma upd_bounds_vertices:
  assumes "subset_ok x"
  shows "upd_bounds (unat (GetVertexSize (ss_uiVertexFmt x))) (unat (ss_uiVertCount x)) (pVB x) b =
    Done (fold upd_box (vertices x) b)"
  using assms GetVertexSize_position [of "ss_uiVertexFmt x"]
  by (simp add: subset_ok_def vertices_def upd_bounds_fold)

section \<open>Names in the encoded structs\<close>

lemma cstr_subset:
  "subset_wf h \<Longrightarrow> name_ok 32 s \<Longrightarrow> sub_szMatName h = strncpy 32 s \<Longrightarrow> cstr_at 10 (enc_subset h) = Some s"
  by (simp add: enc_subset_def subset_wf_def slices)

lemma cstr_part:
  "part_wf h \<Longrightarrow> name_ok 32 s \<Longrightarrow> part_szName h = strncpy 32 s \<Longrightarrow> cstr_at 4 (enc_part h) = Some s"
  by (simp add: enc_part_def part_wf_def slices)

lemma cstr_material:
  assumes "material_wf h" "name_ok 32 s"
  shows "mat_szName h = strncpy 32 s \<Longrightarrow> cstr_at 8 (enc_material h) = Some s"
    "mat_szDiffuseTex h = strncpy 32 s \<Longrightarrow> cstr_at 96 (enc_material h) = Some s"
    "mat_szNormalTex h = strncpy 32 s \<Longrightarrow> cstr_at 224 (enc_material h) = Some s"
    "mat_szAlphaTex h = strncpy 32 s \<Longrightarrow> cstr_at 128 (enc_material h) = Some s"
    "mat_szSpecularTex h = strncpy 32 s \<Longrightarrow> cstr_at 192 (enc_material h) = Some s"
    "mat_szReflectionTex h = strncpy 32 s \<Longrightarrow> cstr_at 160 (enc_material h) = Some s"
  using assms by (simp_all add: enc_material_def material_wf_def slices)

lemma cstr_texture:
  "texture_wf h \<Longrightarrow> name_ok 32 s \<Longrightarrow> tex_szName h = strncpy 32 s \<Longrightarrow> cstr_at 3 (enc_texture h) = Some s"
  by (simp add: enc_texture_def texture_wf_def slices)

lemma c_name_subset:
  "name_ok 32 (ss_sMatName x) \<Longrightarrow> c_name 10 (enc_subset (subset_hdr lz fl o1 l x)) = Done (ss_sMatName x)"
  using cstr_subset [OF subset_hdr_wf, of "ss_sMatName x" lz fl o1 l x]
  by (simp add: c_name_def subset_hdr_def Let_def)

lemma c_name_part:
  "name_ok 32 (mp_sName p) \<Longrightarrow> c_name 4 (enc_part (part_hdr o1 n p)) = Done (mp_sName p)"
  using cstr_part [OF part_hdr_wf, of "mp_sName p" o1 n p] by (simp add: c_name_def part_hdr_def)

lemma material_hdr_names:
  "mat_szName (material_hdr o1 l m) = strncpy 32 (mm_sName m)"
  "mat_szDiffuseTex (material_hdr o1 l m) = strncpy 32 (mm_sDiffuseTextureName m)"
  "mat_szNormalTex (material_hdr o1 l m) = strncpy 32 (mm_sNormalTextureName m)"
  "mat_szAlphaTex (material_hdr o1 l m) = strncpy 32 (mm_sAlphaTextureName m)"
  "mat_szSpecularTex (material_hdr o1 l m) = strncpy 32 (mm_sSpecularTextureName m)"
  "mat_szReflectionTex (material_hdr o1 l m) = strncpy 32 (mm_sReflectionTextureName m)"
  by (simp_all add: material_hdr_def)

lemma c_name_material:
  assumes "material_ok (k, m)"
  shows "c_name 8 (enc_material (material_hdr o1 l m)) = Done k"
    "c_name 96 (enc_material (material_hdr o1 l m)) = Done (mm_sDiffuseTextureName m)"
    "c_name 224 (enc_material (material_hdr o1 l m)) = Done (mm_sNormalTextureName m)"
    "c_name 128 (enc_material (material_hdr o1 l m)) = Done (mm_sAlphaTextureName m)"
    "c_name 192 (enc_material (material_hdr o1 l m)) = Done (mm_sSpecularTextureName m)"
    "c_name 160 (enc_material (material_hdr o1 l m)) = Done (mm_sReflectionTextureName m)"
  using assms cstr_material(1) [OF material_hdr_wf, of k o1 l m]
    cstr_material(2) [OF material_hdr_wf, of "mm_sDiffuseTextureName m" o1 l m]
    cstr_material(3) [OF material_hdr_wf, of "mm_sNormalTextureName m" o1 l m]
    cstr_material(4) [OF material_hdr_wf, of "mm_sAlphaTextureName m" o1 l m]
    cstr_material(5) [OF material_hdr_wf, of "mm_sSpecularTextureName m" o1 l m]
    cstr_material(6) [OF material_hdr_wf, of "mm_sReflectionTextureName m" o1 l m]
  by (simp_all add: material_ok_def c_name_def material_hdr_names)

lemma c_name_texture:
  "texture_ok (k, t) \<Longrightarrow> c_name 3 (enc_texture (texture_hdr lz fl o1 l t)) = Done k"
  using cstr_texture [OF texture_hdr_wf, of k lz fl o1 l t]
  by (simp add: texture_ok_def c_name_def texture_hdr_def Let_def)

section \<open>LZ4 blocks written by the saver decompress\<close>

text \<open>
  A positive offset below 2 GB is followed; \<open>-1\<close> ends a chain.
\<close>

lemma ofs_pos: "0 < n \<Longrightarrow> n < 2 ^ 31 \<Longrightarrow> \<not> sint (of_nat n :: u32) \<le> 0"
proof -
  assume n: "0 < n" "n < 2 ^ 31"
  then have u: "unat (of_nat n :: u32) = n" by (intro unat_of_nat32) simp
  then have "sint (of_nat n :: u32) = uint (of_nat n :: u32)" using n by (intro sint_small) simp
  also have "\<dots> = int n" using u by (metis uint_nat)
  finally show ?thesis using n by simp
qed

lemma ofs_end [simp]: "sint (- 1 :: u32) \<le> 0"
  by simp

lemma unlz4_comp:
  assumes "lz4_contract lz" "length src \<le> 0x7E000000" "unat n = length src"
    "fl AND TD_SAVE_FLAG_NO_COMPRESSION = 0"
  shows "unlz4 lz (compress_block lz fl src n) n = Done src"
proof -
  have n: "n = of_nat (length src)" using assms(3) by (metis of_nat_unat ucast_id)
  have "decompress_fast lz (compress_HC lz src (compressBound lz n)) (length src) = Some src"
    using assms(1,2) unfolding lz4_contract_def Let_def n by blast
  then show ?thesis
    using assms by (intro unlz4_ok) (simp_all add: compress_block_def)
qed

lemma subset_use_flag: "subset_use lz fl x \<Longrightarrow> fl AND TD_SAVE_FLAG_NO_COMPRESSION = 0"
  by (auto simp: subset_use_def use_compressed_def split: if_splits)

lemma texture_use_flag: "texture_use lz fl x \<Longrightarrow> fl AND TD_SAVE_FLAG_NO_COMPRESSION = 0"
  by (auto simp: texture_use_def use_compressed_def split: if_splits)

lemma unlz4_subset:
  assumes "lz4_contract lz" "subset_ok x" "subset_use lz fl x"
  shows "unlz4 lz (subset_comp lz fl x) (subset_data_size x) = Done (pVB x @ words_bytes (pIB x))"
  using subset_ok_sizes [OF assms(2)] assms
  by (simp add: subset_comp_def subset_ok_bytes unlz4_comp subset_use_flag)

lemma unlz4_texture:
  assumes "lz4_contract lz" "texture_ok (k, t)" "texture_use lz fl t"
  shows "unlz4 lz (texture_comp lz fl t) (ts_uiSize t) = Done (ts_pData t)"
  using assms by (simp add: texture_comp_def texture_ok_def unlz4_comp texture_use_flag)

section \<open>Chains of file offsets\<close>

lemma subset_next:
  assumes "subset_ok x"
  shows "sub_iNextSubsetOfs (subset_hdr lz fl (of_nat k) l x) =
    (if l then -1 else of_nat (k + length (subset_img lz fl k l x)))"
  using subset_csize [OF subset_ok_buffers [OF assms], of lz fl "of_nat k" l]
  by (simp add: subset_hdr_def Let_def length_subset_img)

lemma texture_next:
  assumes "texture_ok (kk, t)"
  shows "tex_iNextTexOfs (texture_hdr lz fl (of_nat k) l t) =
    (if l then -1 else of_nat (k + length (texture_img lz fl k l t)))"
  using assms texture_csize [of t lz fl "of_nat k" l]
  by (simp add: texture_hdr_def Let_def length_texture_img texture_ok_def)

lemma texture_comp_csize:
  assumes "texture_ok (kk, t)"
  shows "tex_uiCompressedSize (texture_hdr lz fl o1 l t) = of_nat (length (texture_payload lz fl t))"
  using assms by (intro texture_csize) (simp add: texture_ok_def)

lemma smap_inv_append_put:
  "smap_inv (m @ (k, v) # kms) \<Longrightarrow> smap_put k v m = m @ [(k, v)]"
  by (intro smap_put_end) (auto simp: smap_inv_def sorted_wrt_append)

section \<open>Loading the image, for any stream\<close>

text \<open>Fields of the headers the loader branches on.\<close>

lemma subset_hdr_fields:
  "sub_szSign (subset_hdr lz fl o1 l x) = sign_SUBSET"
  "sub_uiVertexFormat (subset_hdr lz fl o1 l x) = ss_uiVertexFmt x"
  "sub_uiVertexCount (subset_hdr lz fl o1 l x) = ss_uiVertCount x"
  "sub_uiTriCount (subset_hdr lz fl o1 l x) = ss_uiTriCount x"
  "sub_uiDataSize (subset_hdr lz fl o1 l x) = subset_data_size x"
  "sub_uiFlags (subset_hdr lz fl o1 l x) AND TDS_FLAG_COMPRESSED \<noteq> 0 \<longleftrightarrow> subset_use lz fl x"
  by (simp_all add: subset_hdr_def Let_def sign_SUBSET_def TDS_FLAG_COMPRESSED_def)

lemma part_hdr_fields:
  "part_szSign (part_hdr o1 n p) = sign_PART"
  "part_iNextPartOfs (part_hdr o1 n p) = n"
  "part_iFirstSubset (part_hdr o1 n p) = o1 + of_nat sizeof_PART"
  by (simp_all add: part_hdr_def sign_PART_def)

lemma texture_hdr_fields:
  "tex_szSign (texture_hdr lz fl o1 l t) = sign_TEX"
  "tex_eTexFormat (texture_hdr lz fl o1 l t) = ts_eFormat t"
  "tex_uiDataSize (texture_hdr lz fl o1 l t) = ts_uiSize t"
  "tex_clrAvgColor (texture_hdr lz fl o1 l t) = ts_clrAvgColor t"
  "tex_uiFlags (texture_hdr lz fl o1 l t) = TDS_FLAG_COMPRESSED \<longleftrightarrow> texture_use lz fl t"
  by (simp_all add: texture_hdr_def Let_def sign_TEX_def TDS_FLAG_COMPRESSED_def)

context byte_stream
begin

text \<open>Reading at an offset of the content, and reading on from there.\<close>

lemma env_seek_read:
  assumes "ev_rd e = rd" "ev_sk e = sk" "inv s" "content s = pre @ mid @ post" "mid \<noteq> []"
    "unat n = length mid"
  obtains s' where "read_buf e n (ev_sk e (of_nat (length pre)) s) = Done (mid, s')" "inv s'"
    "content s' = content s" "tell s' = length (pre @ mid)"
proof -
  have "length pre < 2 ^ 32" using size_bound [OF assms(3)] assms(4) by simp
  then have "unat (of_nat (length pre) :: u32) = length pre" by (rule unat_of_nat32)
  from seek_read [OF assms(3,4) this assms(6,5)] obtain s'
    where "rd n (sk (of_nat (length pre)) s) = Done (mid, s')" "inv s'" "content s' = content s"
      "tell s' = length (pre @ mid)" by blast
  then show ?thesis using assms by (intro that) (simp_all add: read_buf_exact)
qed

lemma env_read:
  assumes "ev_rd e = rd" "inv s" "content s = pre @ mid @ post" "tell s = length pre"
    "unat n = length mid"
  obtains s' where "read_buf e n s = Done (mid, s')" "inv s'" "content s' = content s"
    "tell s' = length (pre @ mid)"
  using read_exact [OF assms(2-5)] assms(1,5) that by (metis read_buf_exact)

lemma load_subset_image:
  assumes e: "ev_rd e = rd" "ev_sk e = sk" and lz: "lz4_contract (ev_lz e)"
    and inv: "inv s" and c: "content s = pre @ subset_img (ev_lz e) fl (length pre) l x @ post"
    and ok: "subset_ok x"
  shows "\<exists>s'. load_subset e (of_nat (length pre)) b s =
      Done (x, sub_iNextSubsetOfs (subset_hdr (ev_lz e) fl (of_nat (length pre)) l x),
            fold upd_box (vertices x) b, s') \<and> inv s' \<and> content s' = content s"
proof -
  let ?lz = "ev_lz e"
  let ?h = "subset_hdr ?lz fl (of_nat (length pre)) l x"
  let ?vbn = "GetVertexSize (ss_uiVertexFmt x) * ss_uiVertCount x" and ?ibn = "4 * ss_uiTriCount x * 3"
  have c1: "content s = pre @ enc_subset ?h @ (subset_payload ?lz fl x @ post)"
    using c by (simp add: subset_img_def)
  have n: "unat (of_nat sizeof_SUBSET :: u32) = length (enc_subset ?h)" by simp
  obtain s1 where s1: "read_buf e (of_nat sizeof_SUBSET) (ev_sk e (of_nat (length pre)) s) = Done (enc_subset ?h, s1)"
    "inv s1" "content s1 = content s" "tell s1 = length (pre @ enc_subset ?h)"
    using env_seek_read [OF e inv c1 sbs.enc_ne [OF subset_hdr_wf] n] by blast
  note sz = subset_ok_sizes [OF ok] and by1 = subset_ok_bytes [OF ok]
  have c2: "content s1 = (pre @ enc_subset ?h) @ subset_payload ?lz fl x @ post" using s1(3) c1 by simp
  have "\<exists>s2. (if subset_use ?lz fl x then load_compressed e ?h ?vbn ?ibn s1 else load_plain e ?vbn ?ibn s1) =
      Done (pVB x, words_bytes (pIB x), s2) \<and> inv s2 \<and> content s2 = content s"
  proof (cases "subset_use ?lz fl x")
    case True
    have "length (subset_payload ?lz fl x) < 2 ^ 32"
      using size_bound [OF inv] c1 by simp
    then have "unat (sub_uiCompressedSize ?h) = length (subset_payload ?lz fl x)"
      unfolding subset_csize [OF subset_ok_buffers [OF ok]] by (rule unat_of_nat32)
    from env_read [OF e(1) s1(2) c2 s1(4) this] obtain s2
      where s2: "read_buf e (sub_uiCompressedSize ?h) s1 = Done (subset_payload ?lz fl x, s2)" "inv s2"
        "content s2 = content s" using s1(3) by metis
    then show ?thesis
      using True sz by (simp add: load_compressed_def unlz4_subset [OF lz ok True] subset_payload_def
          subset_hdr_fields slices)
  next
    case False
    have c3: "content s1 = (pre @ enc_subset ?h) @ pVB x @ (words_bytes (pIB x) @ post)"
      using c2 False by (simp add: subset_payload_def by1)
    from env_read [OF e(1) s1(2) c3 s1(4) sz(1)] obtain s2
      where s2: "read_buf e ?vbn s1 = Done (pVB x, s2)" "inv s2" "content s2 = content s1"
        "tell s2 = length ((pre @ enc_subset ?h) @ pVB x)" by blast
    have c4: "content s2 = ((pre @ enc_subset ?h) @ pVB x) @ words_bytes (pIB x) @ post"
      using s2(3) c3 by simp
    have "unat ?ibn = length (words_bytes (pIB x))" using sz by simp
    from env_read [OF e(1) s2(2) c4 s2(4) this] obtain s3
      where "read_buf e ?ibn s2 = Done (words_bytes (pIB x), s3)" "inv s3" "content s3 = content s2"
      by blast
    with s2 s1(3) False show ?thesis by (simp add: load_plain_def)
  qed
  then obtain s2 where s2: "(if subset_use ?lz fl x then load_compressed e ?h ?vbn ?ibn s1
      else load_plain e ?vbn ?ibn s1) = Done (pVB x, words_bytes (pIB x), s2)" "inv s2"
      "content s2 = content s" by blast
  have dec: "dec_subset (enc_subset ?h) = ?h" by (simp add: sbs.dec_enc)
  have size: "subset_data_size x = ?vbn + ss_uiTriCount x * 3 * 4"
    by (simp add: subset_data_size_def mult.commute)
  have nm: "c_name 10 (enc_subset ?h) = Done (ss_sMatName x)"
    using ok by (intro c_name_subset) (simp add: subset_ok_def)
  have alloc: "\<not> 2 ^ 32 \<le> 4 * unat (ss_uiTriCount x * 3)" using sz by simp
  have "load_subset e (of_nat (length pre)) b s =
      Done (x, sub_iNextSubsetOfs ?h, fold upd_box (vertices x) b, s2)"
    unfolding load_subset_def s1(1) obind.simps prod.case Let_def dec subset_hdr_fields
    using s2(1) alloc size nm sz(2) by (simp add: upd_bounds_vertices [OF ok])
  then show ?thesis using s2 by blast
qed

lemma load_subsets_image:
  assumes e: "ev_rd e = rd" "ev_sk e = sk" and lz: "lz4_contract (ev_lz e)"
  shows "inv s \<Longrightarrow> content s = pre @ subsets_img (ev_lz e) fl (length pre) ss @ post \<Longrightarrow> ss \<noteq> [] \<Longrightarrow>
    pre \<noteq> [] \<Longrightarrow> \<forall>x\<in>set ss. subset_ok x \<Longrightarrow> length ss \<le> fuel \<Longrightarrow>
    \<exists>s'. load_subsets e fuel (of_nat (length pre)) b s =
      Done (ss, fold upd_box (concat (map vertices ss)) b, s') \<and> inv s' \<and> content s' = content s"
proof (induction ss arbitrary: pre s fuel b)
  case (Cons x ss)
  let ?lz = "ev_lz e"
  let ?i = "subset_img ?lz fl (length pre) (ss = []) x"
  have ok: "subset_ok x" using Cons.prems by simp
  obtain k where k: "fuel = Suc k" "length ss \<le> k" using Cons.prems by (cases fuel) auto
  have c1: "content s = pre @ ?i @ (subsets_img ?lz fl (length (pre @ ?i)) ss @ post)"
    using Cons.prems by simp
  have "length pre < 2 ^ 31" using size_bound [OF Cons.prems(1)] Cons.prems(2) by simp
  with ofs_pos Cons.prems(4) have pos: "\<not> sint (of_nat (length pre) :: u32) \<le> 0" by simp
  from load_subset_image [OF e lz Cons.prems(1) c1 ok] obtain s1 where s1:
    "load_subset e (of_nat (length pre)) b s = Done (x, sub_iNextSubsetOfs (subset_hdr ?lz fl
       (of_nat (length pre)) (ss = []) x), fold upd_box (vertices x) b, s1)"
    "inv s1" "content s1 = content s" by blast
  show ?case
  proof (cases "ss = []")
    case True
    then show ?thesis using s1 pos k
      by (simp add: load_subsets.simps [of e "Suc k"] load_subsets.simps [of e k "-1"] subset_next [OF ok])
  next
    case False
    have "content s1 = (pre @ ?i) @ subsets_img ?lz fl (length (pre @ ?i)) ss @ post"
      using s1(3) c1 by simp
    from Cons.IH [OF s1(2) this False, of k "fold upd_box (vertices x) b"] Cons.prems k
    obtain s2 where "load_subsets e k (of_nat (length (pre @ ?i))) (fold upd_box (vertices x) b) s1 =
        Done (ss, fold upd_box (concat (map vertices ss)) (fold upd_box (vertices x) b), s2)"
      "inv s2" "content s2 = content s1" by auto
    then show ?thesis using s1 pos k False
      by (simp add: load_subsets.simps [of e "Suc k"] subset_next [OF ok])
  qed
qed simp

lemma load_part_image:
  assumes e: "ev_rd e = rd" "ev_sk e = sk" and lz: "lz4_contract (ev_lz e)"
    and inv: "inv s" and c: "content s = pre @ part_img (ev_lz e) fl (length pre) l p @ post"
    and ok: "part_ok p" and fuel: "length (mp_Subsets p) \<le> fuel"
  shows "\<exists>s'. load_part e fuel (of_nat (length pre)) b s =
      Done (p, if l then -1 else of_nat (length pre + length (part_img (ev_lz e) fl (length pre) l p)),
            fold upd_box (part_vertices p) b, s') \<and> inv s' \<and> content s' = content s"
proof -
  let ?lz = "ev_lz e"
  let ?body = "subsets_img ?lz fl (length pre + sizeof_PART) (mp_Subsets p)"
  let ?nxt = "if l then -1 else of_nat (length pre + sizeof_PART + length ?body) :: u32"
  let ?h = "part_hdr (of_nat (length pre)) ?nxt p"
  have img: "part_img ?lz fl (length pre) l p = enc_part ?h @ ?body" by (simp add: part_img_def Let_def)
  have c1: "content s = pre @ enc_part ?h @ (?body @ post)" using c img by simp
  have n: "unat (of_nat sizeof_PART :: u32) = length (enc_part ?h)" by simp
  obtain s1 where s1: "read_buf e (of_nat sizeof_PART) (ev_sk e (of_nat (length pre)) s) = Done (enc_part ?h, s1)"
    "inv s1" "content s1 = content s"
    using env_seek_read [OF e inv c1 prt.enc_ne [OF part_hdr_wf] n] by blast
  have c2: "content s1 = (pre @ enc_part ?h) @ subsets_img ?lz fl (length (pre @ enc_part ?h)) (mp_Subsets p) @ post"
    using s1(3) c1 by simp
  have okp: "mp_Subsets p \<noteq> []" "\<forall>x\<in>set (mp_Subsets p). subset_ok x" "name_ok 32 (mp_sName p)"
    using ok by (auto simp: part_ok_def)
  have "pre @ enc_part ?h \<noteq> []" using prt.enc_ne [OF part_hdr_wf] by blast
  from load_subsets_image [OF e lz s1(2) c2 okp(1) this okp(2) fuel, of b] obtain s2 where
    s2: "load_subsets e fuel (of_nat (length (pre @ enc_part ?h))) b s1 =
      Done (mp_Subsets p, fold upd_box (part_vertices p) b, s2)" "inv s2" "content s2 = content s1"
    unfolding part_vertices_def by blast
  have dec: "dec_part (enc_part ?h) = ?h" by (simp add: prt.dec_enc)
  have flds: "part_szSign ?h = sign_PART" "part_iNextPartOfs ?h = ?nxt"
    "part_iFirstSubset ?h = of_nat (length (pre @ enc_part ?h))"
    by (simp_all add: part_hdr_fields)
  have "load_part e fuel (of_nat (length pre)) b s = Done (p, ?nxt, fold upd_box (part_vertices p) b, s2)"
    unfolding load_part_def s1(1) obind.simps prod.case Let_def dec flds c_name_part [OF okp(3)] s2(1)
    by simp
  moreover have nxt: "(if l then -1 else of_nat (length pre + length (part_img ?lz fl (length pre) l p))) = ?nxt"
    by (simp add: length_part_img add.assoc)
  ultimately show ?thesis unfolding nxt using s2(2,3) unfolding s1(3) by blast
qed

lemma load_parts_image:
  assumes e: "ev_rd e = rd" "ev_sk e = sk" and lz: "lz4_contract (ev_lz e)"
  shows "inv s \<Longrightarrow> content s = pre @ parts_img (ev_lz e) fl (length pre) ps @ post \<Longrightarrow> ps \<noteq> [] \<Longrightarrow>
    pre \<noteq> [] \<Longrightarrow> \<forall>p\<in>set ps. part_ok p \<and> length (mp_Subsets p) \<le> sfuel \<Longrightarrow> length ps \<le> fuel \<Longrightarrow>
    \<exists>s'. load_parts e sfuel fuel (of_nat (length pre)) b s =
      Done (ps, fold upd_box (concat (map part_vertices ps)) b, s') \<and> inv s' \<and> content s' = content s"
proof (induction ps arbitrary: pre s fuel b)
  case (Cons p ps)
  let ?lz = "ev_lz e"
  let ?i = "part_img ?lz fl (length pre) (ps = []) p"
  have ok: "part_ok p" "length (mp_Subsets p) \<le> sfuel" using Cons.prems by simp_all
  obtain k where k: "fuel = Suc k" "length ps \<le> k" using Cons.prems by (cases fuel) auto
  have c1: "content s = pre @ ?i @ (parts_img ?lz fl (length (pre @ ?i)) ps @ post)"
    using Cons.prems by simp
  have "length pre < 2 ^ 31" using size_bound [OF Cons.prems(1)] Cons.prems(2) by simp
  with ofs_pos Cons.prems(4) have pos: "\<not> sint (of_nat (length pre) :: u32) \<le> 0" by simp
  from load_part_image [OF e lz Cons.prems(1) c1 ok] obtain s1 where s1:
    "load_part e sfuel (of_nat (length pre)) b s = Done (p, if ps = [] then -1
       else of_nat (length (pre @ ?i)), fold upd_box (part_vertices p) b, s1)"
    "inv s1" "content s1 = content s" unfolding length_append by blast
  show ?case
  proof (cases "ps = []")
    case True
    then show ?thesis using s1 pos k
      by (simp add: load_parts.simps [of e sfuel "Suc k"] load_parts.simps [of e sfuel k "-1"])
  next
    case False
    have "content s1 = (pre @ ?i) @ parts_img ?lz fl (length (pre @ ?i)) ps @ post"
      using s1(3) c1 by simp
    from Cons.IH [OF s1(2) this False, of k "fold upd_box (part_vertices p) b"] Cons.prems k
    obtain s2 where "load_parts e sfuel k (of_nat (length (pre @ ?i))) (fold upd_box (part_vertices p) b) s1 =
        Done (ps, fold upd_box (concat (map part_vertices ps)) (fold upd_box (part_vertices p) b), s2)"
      "inv s2" "content s2 = content s1" by auto
    then show ?thesis using s1 pos k False
      by (simp add: load_parts.simps [of e sfuel "Suc k"] del: of_nat_add)
  qed
qed simp

lemma load_material_image:
  assumes e: "ev_rd e = rd" "ev_sk e = sk" and inv: "inv s"
    and c: "content s = pre @ enc_material (material_hdr (of_nat (length pre)) l m) @ post"
    and ok: "material_ok (k, m)"
  shows "\<exists>s'. load_material e (of_nat (length pre)) s =
    Done (k, m, if l then -1 else of_nat (length pre + sizeof_MATERIAL), s') \<and> inv s' \<and>
    content s' = content s"
proof -
  let ?h = "material_hdr (of_nat (length pre)) l m"
  have n: "unat (of_nat sizeof_MATERIAL :: u32) = length (enc_material ?h)" by simp
  obtain s1 where s1: "read_buf e (of_nat sizeof_MATERIAL) (ev_sk e (of_nat (length pre)) s) = Done (enc_material ?h, s1)"
    "inv s1" "content s1 = content s"
    using env_seek_read [OF e inv c mtl.enc_ne [OF material_hdr_wf] n] by blast
  have dec: "dec_material (enc_material ?h) = ?h" by (simp add: mtl.dec_enc)
  have flds: "mat_szSign ?h = sign_MATERIAL" "mat_f4Ambient ?h = mm_clrAmbient m"
    "mat_f4Diffuse ?h = mm_clrDiffuse m" "mat_fAlpha ?h = mm_fTransparency m"
    "mat_fSpecIntensity ?h = mm_fSpecIntensity m" "mat_fGlossiness ?h = mm_fGlossiness m"
    "mat_fReflectionFactor ?h = mm_fReflectionFactor m"
    "mat_iNextMaterialOfs ?h = (if l then -1 else of_nat (length pre + sizeof_MATERIAL))"
    by (simp_all add: material_hdr_def sign_MATERIAL_def)
  have k: "k = mm_sName m" using ok by (simp add: material_ok_def)
  have "load_material e (of_nat (length pre)) s =
      Done (k, m, if l then -1 else of_nat (length pre + sizeof_MATERIAL), s1)"
    unfolding load_material_def s1(1) obind.simps prod.case Let_def dec flds c_name_material [OF ok]
    by (simp add: k)
  then show ?thesis using s1 by blast
qed

lemma load_materials_image:
  assumes e: "ev_rd e = rd" "ev_sk e = sk"
  shows "inv s \<Longrightarrow> content s = pre @ materials_img (length pre) kms @ post \<Longrightarrow> kms \<noteq> [] \<Longrightarrow> pre \<noteq> [] \<Longrightarrow>
    \<forall>km\<in>set kms. material_ok km \<Longrightarrow> smap_inv (acc @ kms) \<Longrightarrow> length kms \<le> fuel \<Longrightarrow>
    \<exists>s'. load_materials e fuel (of_nat (length pre)) acc s = Done (acc @ kms, s') \<and> inv s' \<and>
      content s' = content s"
proof (induction kms arbitrary: pre s fuel acc)
  case (Cons km kms)
  obtain key m where km: "km = (key, m)" by (cases km)
  let ?i = "enc_material (material_hdr (of_nat (length pre)) (kms = []) m)"
  have ok: "material_ok (key, m)" using Cons.prems km by simp
  obtain k where k: "fuel = Suc k" "length kms \<le> k" using Cons.prems by (cases fuel) auto
  have c1: "content s = pre @ ?i @ (materials_img (length (pre @ ?i)) kms @ post)"
    using Cons.prems km by simp
  have "length pre < 2 ^ 31" using size_bound [OF Cons.prems(1)] Cons.prems(2) by simp
  with ofs_pos Cons.prems(4) have pos: "\<not> sint (of_nat (length pre) :: u32) \<le> 0" by simp
  from load_material_image [OF e Cons.prems(1) c1 ok] obtain s1 where s1:
    "load_material e (of_nat (length pre)) s = Done (key, m, if kms = [] then -1
       else of_nat (length (pre @ ?i)), s1)" "inv s1" "content s1 = content s" by auto
  have put: "smap_put key m acc = acc @ [(key, m)]"
    using Cons.prems(6) km by (intro smap_inv_append_put) simp
  show ?case
  proof (cases "kms = []")
    case True
    then show ?thesis using s1 pos k km put
      by (simp add: load_materials.simps [of e "Suc k"] load_materials.simps [of e k "-1"])
  next
    case False
    have "content s1 = (pre @ ?i) @ materials_img (length (pre @ ?i)) kms @ post"
      using s1(3) c1 by simp
    from Cons.IH [OF s1(2) this False, of "acc @ [(key, m)]" k] Cons.prems k km
    obtain s2 where "load_materials e k (of_nat (length (pre @ ?i))) (acc @ [(key, m)]) s1 =
        Done ((acc @ [(key, m)]) @ kms, s2)" "inv s2" "content s2 = content s1" by auto
    then show ?thesis using s1 pos k False km put
      by (simp add: load_materials.simps [of e "Suc k"])
  qed
qed simp

lemma load_texture_image:
  assumes e: "ev_rd e = rd" "ev_sk e = sk" and lz: "lz4_contract (ev_lz e)" and inv: "inv s"
    and c: "content s = pre @ texture_img (ev_lz e) fl (length pre) l t @ post"
    and ok: "texture_ok (k, t)"
  shows "\<exists>s'. load_texture e (of_nat (length pre)) s = Done (k, t,
    if l then -1 else of_nat (length pre + length (texture_img (ev_lz e) fl (length pre) l t)), s') \<and>
    inv s' \<and> content s' = content s"
proof -
  let ?lz = "ev_lz e"
  let ?h = "texture_hdr ?lz fl (of_nat (length pre)) l t" and ?pl = "texture_payload ?lz fl t"
  have c1: "content s = pre @ enc_texture ?h @ (?pl @ post)" using c by (simp add: texture_img_def)
  have n: "unat (of_nat sizeof_TEXTURE :: u32) = length (enc_texture ?h)" by simp
  obtain s1 where s1: "read_buf e (of_nat sizeof_TEXTURE) (ev_sk e (of_nat (length pre)) s) = Done (enc_texture ?h, s1)"
    "inv s1" "content s1 = content s" "tell s1 = length (pre @ enc_texture ?h)"
    using env_seek_read [OF e inv c1 txr.enc_ne [OF texture_hdr_wf] n] by blast
  have c2: "content s1 = (pre @ enc_texture ?h) @ ?pl @ post" using s1(3) c1 by simp
  have l32: "length ?pl < 2 ^ 32" using size_bound [OF inv] c1 by simp
  have cs: "unat (tex_uiCompressedSize ?h) = length ?pl"
    unfolding texture_comp_csize [OF ok] using l32 by (rule unat_of_nat32)
  have ds: "length (ts_pData t) = unat (ts_uiSize t)" using ok by (simp add: texture_ok_def)
  have nm: "c_name 3 (enc_texture ?h) = Done k" by (rule c_name_texture [OF ok])
  have dec: "dec_texture (enc_texture ?h) = ?h" by (simp add: txr.dec_enc)
  have kt: "k = ts_sName t" using ok by (simp add: texture_ok_def)
  obtain s2 where s2: "(if texture_use ?lz fl t
      then obind (read_buf e (tex_uiCompressedSize ?h) s1) (\<lambda>(src, s2).
           obind (unlz4 ?lz src (ts_uiSize t)) (\<lambda>d. Done (d, s2)))
      else read_buf e (ts_uiSize t) s1) = Done (ts_pData t, s2)" "inv s2" "content s2 = content s"
  proof (cases "texture_use ?lz fl t")
    case True
    from env_read [OF e(1) s1(2) c2 s1(4) cs] obtain s2
      where "read_buf e (tex_uiCompressedSize ?h) s1 = Done (?pl, s2)" "inv s2" "content s2 = content s1"
      by blast
    then show ?thesis using that [of s2] True s1(3)
      by (simp add: texture_payload_def unlz4_texture [OF lz ok True])
  next
    case False
    then have "?pl = ts_pData t" using ds by (simp add: texture_payload_def)
    then have "unat (ts_uiSize t) = length ?pl" using ds by simp
    from env_read [OF e(1) s1(2) c2 s1(4) this] obtain s2
      where "read_buf e (ts_uiSize t) s1 = Done (?pl, s2)" "inv s2" "content s2 = content s1" by blast
    then show ?thesis using that [of s2] False s1(3) \<open>?pl = ts_pData t\<close> by simp
  qed
  have "load_texture e (of_nat (length pre)) s = Done (k, t, tex_iNextTexOfs ?h, s2)"
    unfolding load_texture_def s1(1) obind.simps prod.case Let_def dec texture_hdr_fields nm
    using s2(1) by (simp add: kt)
  then show ?thesis unfolding texture_next [OF ok, symmetric] using s2(2,3) by blast
qed

lemma load_textures_image:
  assumes e: "ev_rd e = rd" "ev_sk e = sk" and lz: "lz4_contract (ev_lz e)"
  shows "inv s \<Longrightarrow> content s = pre @ textures_img (ev_lz e) fl (length pre) kts @ post \<Longrightarrow> kts \<noteq> [] \<Longrightarrow>
    pre \<noteq> [] \<Longrightarrow> \<forall>kt\<in>set kts. texture_ok kt \<Longrightarrow> smap_inv (acc @ kts) \<Longrightarrow> length kts \<le> fuel \<Longrightarrow>
    \<exists>s'. load_textures e fuel (of_nat (length pre)) acc s = Done (acc @ kts, s') \<and> inv s' \<and>
      content s' = content s"
proof (induction kts arbitrary: pre s fuel acc)
  case (Cons kt kts)
  obtain key t where kt: "kt = (key, t)" by (cases kt)
  let ?i = "texture_img (ev_lz e) fl (length pre) (kts = []) t"
  have ok: "texture_ok (key, t)" using Cons.prems kt by simp
  obtain k where k: "fuel = Suc k" "length kts \<le> k" using Cons.prems by (cases fuel) auto
  have c1: "content s = pre @ ?i @ (textures_img (ev_lz e) fl (length (pre @ ?i)) kts @ post)"
    using Cons.prems kt by simp
  have "length pre < 2 ^ 31" using size_bound [OF Cons.prems(1)] Cons.prems(2) by simp
  with ofs_pos Cons.prems(4) have pos: "\<not> sint (of_nat (length pre) :: u32) \<le> 0" by simp
  from load_texture_image [OF e lz Cons.prems(1) c1 ok] obtain s1 where s1:
    "load_texture e (of_nat (length pre)) s = Done (key, t, if kts = [] then -1
       else of_nat (length (pre @ ?i)), s1)" "inv s1" "content s1 = content s"
    unfolding length_append by blast
  have put: "smap_put key t acc = acc @ [(key, t)]"
    using Cons.prems(6) kt by (intro smap_inv_append_put) simp
  show ?case
  proof (cases "kts = []")
    case True
    then show ?thesis using s1 pos k kt put
      by (simp add: load_textures.simps [of e "Suc k"] load_textures.simps [of e k "-1"])
  next
    case False
    have "content s1 = (pre @ ?i) @ textures_img (ev_lz e) fl (length (pre @ ?i)) kts @ post"
      using s1(3) c1 by simp
    from Cons.IH [OF s1(2) this False, of "acc @ [(key, t)]" k] Cons.prems k kt
    obtain s2 where "load_textures e k (of_nat (length (pre @ ?i))) (acc @ [(key, t)]) s1 =
        Done ((acc @ [(key, t)]) @ kts, s2)" "inv s2" "content s2 = content s1" by auto
    then show ?thesis using s1 pos k False kt put
      by (simp add: load_textures.simps [of e "Suc k"] del: of_nat_add)
  qed
qed simp

text \<open>The whole file, from any stream positioned at its start.\<close>

lemma load_model_image:
  assumes e: "ev_rd e = rd" "ev_sk e = sk" and lz: "lz4_contract (ev_lz e)"
    and inv: "inv s" and c: "content s = model_img (ev_lz e) fl m" and t0: "tell s = 0"
    and ok: "model_ok m"
    and fuel: "length (Parts m) \<le> fuel" "\<forall>p\<in>set (Parts m). length (mp_Subsets p) \<le> fuel"
      "length (Materials m) \<le> fuel" "length (Textures m) \<le> fuel"
  shows "Load3DScanModel e fuel s = Done (m\<lparr>ptMin := fst (model_box m), ptMax := snd (model_box m)\<rparr>)"
proof -
  let ?lz = "ev_lz e"
  let ?ps = "parts_img ?lz fl sizeof_HEADER (Parts m)"
  let ?mofs = "sizeof_HEADER + length ?ps"
  let ?ms = "materials_img ?mofs (Materials m)"
  let ?tofs = "?mofs + length ?ms"
  let ?ts = "textures_img ?lz fl ?tofs (Textures m)"
  let ?h = "final_header m ?mofs ?tofs"
  have okm: "Parts m \<noteq> []" "\<forall>p\<in>set (Parts m). part_ok p \<and> length (mp_Subsets p) \<le> fuel"
      "\<forall>km\<in>set (Materials m). material_ok km" "smap_inv ([] @ Materials m)"
      "\<forall>kt\<in>set (Textures m). texture_ok kt" "smap_inv ([] @ Textures m)"
    using ok fuel by (simp_all add: model_ok_def)
  have ne: "enc_header ?h \<noteq> []" by (rule hdr.enc_ne [OF final_header_wf])
  have lh: "length (enc_header ?h) = sizeof_HEADER" by simp
  have c0: "content s = [] @ enc_header ?h @ (?ps @ ?ms @ ?ts)" using c by (simp add: model_img_def Let_def)
  have "unat (of_nat sizeof_HEADER :: u32) = length (enc_header ?h)" by simp
  from env_read [OF e(1) inv c0 _ this] t0 obtain s1 where s1:
    "read_buf e (of_nat sizeof_HEADER) s = Done (enc_header ?h, s1)" "inv s1" "content s1 = content s"
    by auto
  have c1: "content s1 = enc_header ?h @ parts_img ?lz fl (length (enc_header ?h)) (Parts m) @ (?ms @ ?ts)"
    unfolding lh s1(3) c0 by simp
  from load_parts_image [OF e lz s1(2) c1 okm(1) ne okm(2) fuel(1), of init_box] obtain s2 where s2:
    "load_parts e fuel fuel (of_nat (length (enc_header ?h))) init_box s1 = Done (Parts m, model_box m, s2)"
    "inv s2" "content s2 = content s1" unfolding model_box_def model_vertices_def by blast
  have "content s2 = (enc_header ?h @ ?ps) @ materials_img (length (enc_header ?h @ ?ps)) (Materials m) @ ?ts"
    unfolding length_append lh s2(3) c1 by simp
  from load_materials_image [OF e s2(2) this _ _ okm(3,4) fuel(3)] ne
  have "Materials m \<noteq> [] \<Longrightarrow> \<exists>s3. load_materials e fuel (of_nat ?mofs) [] s2 = Done (Materials m, s3) \<and>
      inv s3 \<and> content s3 = content s2" unfolding length_append lh by simp
  then obtain s3 where s3: "load_materials e fuel (hdr_iMaterialLibOfs ?h) [] s2 = Done (Materials m, s3)"
    "inv s3" "content s3 = content s2"
    using s2(2) load_materials.simps [of e fuel "-1" "[]" s2]
    by (cases "Materials m = []") (auto simp: final_header_def simp del: of_nat_add)
  have c3: "content s3 = (enc_header ?h @ ?ps @ ?ms) @ textures_img ?lz fl (length (enc_header ?h @ ?ps @ ?ms)) (Textures m) @ []"
    unfolding length_append lh s2(3) s3(3) c1 by (simp add: add.assoc)
  have tofs: "length (enc_header ?h @ ?ps @ ?ms) = ?tofs" unfolding length_append lh by simp
  have ne3: "enc_header ?h @ ?ps @ ?ms \<noteq> []" using ne by blast
  from load_textures_image [OF e lz s3(2) c3 _ ne3 okm(5,6) fuel(4)]
  have "Textures m \<noteq> [] \<Longrightarrow> \<exists>s4. load_textures e fuel (of_nat ?tofs) [] s3 = Done (Textures m, s4)"
    unfolding tofs append_Nil by blast
  then obtain s4 where s4: "load_textures e fuel (hdr_iTexLibOfs ?h) [] s3 = Done (Textures m, s4)"
    using load_textures.simps [of e fuel "-1" "[]" s3]
    by (cases "Textures m = []") (auto simp: final_header_def simp del: of_nat_add)
  have dec: "dec_header (enc_header ?h) = ?h" by (simp add: hdr.dec_enc)
  have flds: "hdr_szSign ?h = scan_sign" "hdr_uiVersion ?h = 0x10000"
    "hdr_iFirstPartOfs ?h = of_nat (length (enc_header ?h))"
    unfolding lh by (simp_all add: final_header_def init_header_def)
  show ?thesis
    unfolding Load3DScanModel_def s1(1) obind.simps prod.case Let_def dec flds s2(1) s3(1) s4
    by simp
qed

end

section \<open>Round trips\<close>

text \<open>How much fuel loading a model takes: the longest of its chains.\<close>

definition model_fuel :: "TD_SCAN_MODEL \<Rightarrow> nat" where
  "model_fuel m = Max (set ([length (Parts m), length (Materials m), length (Textures m)] @
     map (\<lambda>p. length (mp_Subsets p)) (Parts m)))"

lemma model_fuel_ge:
  assumes "model_fuel m \<le> fuel"
  shows "length (Parts m) \<le> fuel" "length (Materials m) \<le> fuel" "length (Textures m) \<le> fuel"
    "\<forall>p\<in>set (Parts m). length (mp_Subsets p) \<le> fuel"
  using assms by (auto simp: model_fuel_def)

lemma model_img_ne [simp]: "model_img lz fl m \<noteq> []"
  by (simp add: model_img_def Let_def hdr.enc_ne [OF final_header_wf])

lemma mem_bind:
  assumes "length d < 2 ^ 31" "d \<noteq> []"
  shows "\<exists>s. CMemStream_Bind (Some d) (of_nat (length d)) CMemStream_new = (True, s) \<and> mem_inv s \<and>
    mem_content s = d \<and> m_uiCurPos s = 0"
proof -
  have "unat (of_nat (length d) :: u32) = length d" using assms(1) by (intro unat_of_nat32) simp
  moreover from this assms(2) have "0 < (of_nat (length d) :: u32)" by (simp add: word_less_nat_alt)
  ultimately show ?thesis
    using assms by (simp add: CMemStream_Bind_def mem_inv_def mem_content_def CMemStream_new_def)
qed

lemma save_load_run:
  assumes "lz4_contract lz" "model_ok m" "save_model lz fl m = Done d" "length (model_img lz fl m) < 2 ^ 31"
    "model_fuel m \<le> fuel"
  shows "Load3DScanModelFromMemory lz junk fuel (Some d) (of_nat (length d)) =
    Done (m\<lparr>ptMin := fst (model_box m), ptMax := snd (model_box m)\<rparr>)"
proof -
  have d: "d = model_img lz fl m"
    using save_model_img [OF model_ok_buffers [OF assms(2)] assms(4)] assms(3) by simp
  obtain s where s: "CMemStream_Bind (Some d) (of_nat (length d)) CMemStream_new = (True, s)"
    "mem_inv s" "mem_content s = d" "m_uiCurPos s = 0"
    using mem_bind [of d] assms(4) d by auto
  have "Load3DScanModel (mem_env lz junk) fuel s = Done (m\<lparr>ptMin := fst (model_box m), ptMax := snd (model_box m)\<rparr>)"
    using s d assms(1,2) model_fuel_ge [OF assms(5)]
    by (intro mem.load_model_image [where fl = fl]) (simp_all add: mem_env_def)
  then show ?thesis using s(1) by (simp add: Load3DScanModelFromMemory_def)
qed

text \<open>
  C1. Saving a model and loading the bytes back from memory returns the model, with its bounding
  box recomputed from the vertices: for every well-formed model whose file stays below 2 GB,
  with or without compression, whatever uninitialised memory holds, and with fuel for the
  longest of its chains.
\<close>

theorem save_load_memory:
  assumes "lz4_contract lz" "model_ok m" "save_model lz fl m = Done d" "length (model_img lz fl m) < 2 ^ 31"
    "model_fuel m \<le> fuel"
  shows "Load3DScanModelFromMemory lz junk fuel (Some d) (of_nat (length d)) =
    Done (m\<lparr>ptMin := fst (model_box m), ptMax := snd (model_box m)\<rparr>)"
  by (rule save_load_run [OF assms])

lemma load_file_run:
  assumes "lz4_contract lz" "model_ok m" "length (model_img lz fl m) < 2 ^ 31" "model_fuel m \<le> fuel" "fs name = Some (model_img lz fl m)"
  shows "Load3DScanModelFromFile lz junk fuel fs (Some name) = Done (m\<lparr>ptMin := fst (model_box m), ptMax := snd (model_box m)\<rparr>)"
proof -
  let ?s = "\<lparr>m_pFile = Some (fopen_rb (model_img lz fl m))\<rparr>"
  have "file_inv ?s" using assms(3) by (simp add: file_inv_def file_content_def file_tell_def fopen_rb_def)
  then have "Load3DScanModel (file_env lz junk) fuel ?s = Done (m\<lparr>ptMin := fst (model_box m), ptMax := snd (model_box m)\<rparr>)"
    using assms(1,2) model_fuel_ge [OF assms(4)]
    by (intro fil.load_model_image [where fl = fl])
      (simp_all add: file_env_def file_content_def file_tell_def fopen_rb_def)
  with assms(5) show ?thesis by (auto simp: Load3DScanModelFromFile_def CFileStream_Open_def CFileStream_new_def)
qed

text \<open>
  C2. The same through the file system: the file \<open>Save3DScanModel\<close> creates, opened and loaded by
  \<open>Load3DScanModelFromFile\<close>, is the model again.
\<close>

theorem save_load_file:
  assumes "lz4_contract lz" "model_ok m" "length (model_img lz fl m) < 2 ^ 31" "model_fuel m \<le> fuel"
  shows "\<exists>d. Save3DScanModel lz True (Some name) (Some m) fl = Done (True, Some d) \<and>
    Load3DScanModelFromFile lz junk fuel (\<lambda>n. if n = name then Some d else fs n) (Some name) =
      Done (m\<lparr>ptMin := fst (model_box m), ptMax := snd (model_box m)\<rparr>)"
proof -
  have "Save3DScanModel lz True (Some name) (Some m) fl = Done (True, Some (model_img lz fl m))"
    using save_model_img [OF model_ok_buffers [OF assms(2)] assms(3)] by (simp add: Save3DScanModel_def)
  then show ?thesis using load_file_run [OF assms] by simp
qed

end
