(* ===== verification/ScanProps.thy ===== *)
theory ScanProps
  imports ScanRoundtrip
begin

text \<open>
  What holds of the loader and the streams for every input, well formed or not: the loaded model is
  consistent with itself, its bounding box holds every vertex, a
  stream's operations keep its invariant; and the inputs on which the code goes wrong.
\<close>

section \<open>Extracting steps of a successful load\<close>

lemmas outcome_done = obind_eq_Done Let_def

lemma c_name_Done: "c_name off raw = Done s \<longleftrightarrow> cstr_at off raw = Some s"
  by (simp add: c_name_def split: option.splits)

lemma read_buf_length: "read_buf e n s = Done (bs, s') \<Longrightarrow> length bs = unat n"
  by (auto simp: read_buf_def obind_eq_Done split: if_splits)

lemma unlz4_length: "unlz4 lz src n = Done d \<Longrightarrow> length d = unat n"
  by (auto simp: unlz4_def split: if_splits option.splits)

lemma upd_bounds_Done:
  "upd_bounds vs n pv b = Done b' \<Longrightarrow>
     b' = fold upd_box (map (\<lambda>i. dec_float3 (drop (i * vs) pv)) [0..<n]) b"
proof (induction n arbitrary: pv b)
  case (Suc n)
  have "map (\<lambda>i. dec_float3 (drop (i * vs) pv)) [0..<Suc n] =
      dec_float3 pv # map (\<lambda>i. dec_float3 (drop (i * vs) (drop vs pv))) [0..<n]"
    by (simp add: upt_conv_Cons map_Suc_upt [symmetric] add.commute del: upt_Suc)
  moreover have "upd_bounds vs n (drop vs pv) (upd_box (dec_float3 pv) b) = Done b'"
    using Suc.prems by (simp split: if_splits)
  ultimately show ?case using Suc.IH by (simp only: fold.simps o_apply)
qed simp

section \<open>Consistency of a loaded model\<close>

text \<open>
  The buffers of a loaded subset have exactly the sizes the counts say (in 32-bit arithmetic).
\<close>

definition loaded_subset_ok :: "TD_MODEL_SUBSET \<Rightarrow> bool" where
  "loaded_subset_ok x \<longleftrightarrow>
     length (pVB x) = unat (GetVertexSize (ss_uiVertexFmt x) * ss_uiVertCount x) \<and>
     length (pIB x) = unat (ss_uiTriCount x * 3)"

definition loaded_ok :: "TD_SCAN_MODEL \<Rightarrow> bool" where
  "loaded_ok m \<longleftrightarrow> (\<forall>p\<in>set (Parts m). \<forall>x\<in>set (mp_Subsets p). loaded_subset_ok x) \<and>
     smap_inv (Materials m) \<and> (\<forall>(k, x)\<in>set (Materials m). mm_sName x = k) \<and>
     smap_inv (Textures m) \<and>
     (\<forall>(k, x)\<in>set (Textures m). ts_sName x = k \<and> length (ts_pData x) = unat (ts_uiSize x))"

lemma load_data_length:
  "load_compressed e h vbn ibn s = Done (vb, ib, s') \<Longrightarrow> length vb = unat vbn"
  "load_plain e vbn ibn s = Done (vb, ib, s') \<Longrightarrow> length vb = unat vbn"
  by (auto simp: load_compressed_def load_plain_def elim!: obind_DoneE split: prod.splits if_splits
      dest!: read_buf_length)

lemma load_subset_Done:
  assumes "load_subset e ofs b s = Done (x, nxt, b', s')"
  shows "loaded_subset_ok x \<and> b' = fold upd_box (vertices x) b"
  using assms unfolding load_subset_def Let_def
  by (auto elim!: obind_DoneE split: prod.splits if_splits simp: loaded_subset_ok_def vertices_def
      dest!: upd_bounds_Done load_data_length)

lemma load_subsets_Done:
  "load_subsets e fuel ofs b s = Done (xs, b', s') \<Longrightarrow>
     (\<forall>x\<in>set xs. loaded_subset_ok x) \<and> b' = fold upd_box (concat (map vertices xs)) b"
proof (induction fuel arbitrary: ofs b s xs b' s')
  case 0
  then show ?case by (auto simp: load_subsets.simps [of e 0] split: if_splits)
next
  case (Suc k)
  from Suc.prems show ?case
    by (fastforce simp: load_subsets.simps [of e "Suc k"] obind_eq_Done split: if_splits
        dest!: load_subset_Done Suc.IH)
qed

lemma load_parts_Done:
  "load_parts e sf fuel ofs b s = Done (ps, b', s') \<Longrightarrow>
     (\<forall>p\<in>set ps. \<forall>x\<in>set (mp_Subsets p). loaded_subset_ok x) \<and>
     b' = fold upd_box (concat (map part_vertices ps)) b"
proof (induction fuel arbitrary: ofs b s ps b' s')
  case 0
  then show ?case by (auto simp: load_parts.simps [of e sf 0] split: if_splits)
next
  case (Suc k)
  have part: "(\<forall>x\<in>set (mp_Subsets p). loaded_subset_ok x) \<and> b1 = fold upd_box (part_vertices p) b"
    if "load_part e sf ofs b s = Done (p, nxt, b1, s1)" for p nxt b1 s1
    using that by (auto simp: load_part_def outcome_done part_vertices_def split: if_splits
        dest!: load_subsets_Done)
  from Suc.prems show ?case
    by (fastforce simp: load_parts.simps [of e sf "Suc k"] obind_eq_Done split: if_splits
        dest!: part Suc.IH)
qed

definition entry_named :: "('v \<Rightarrow> bytes) \<Rightarrow> ('v \<Rightarrow> bool) \<Rightarrow> (bytes \<times> 'v) list \<Rightarrow> bool" where
  "entry_named nm P m \<longleftrightarrow> smap_inv m \<and> (\<forall>(k, x)\<in>set m. nm x = k \<and> P x)"

lemma entry_named_put: "entry_named nm P m \<Longrightarrow> nm x = k \<Longrightarrow> P x \<Longrightarrow> entry_named nm P (smap_put k x m)"
  using set_smap_put_subset [of k x m] by (fastforce simp: entry_named_def smap.inv_put)

lemma load_materials_Done:
  "load_materials e fuel ofs acc s = Done (ms, s') \<Longrightarrow> entry_named mm_sName (\<lambda>_. True) acc \<Longrightarrow>
     entry_named mm_sName (\<lambda>_. True) ms"
proof (induction fuel arbitrary: ofs acc s)
  case 0
  then show ?case by (auto simp: load_materials.simps [of e 0] split: if_splits)
next
  case (Suc k)
  have nm: "mm_sName x = nm" if "load_material e ofs s = Done (nm, x, r)" for nm x r
    using that unfolding load_material_def Let_def
    by (auto elim!: obind_DoneE split: prod.splits if_splits)
  show ?case
  proof (cases "sint ofs \<le> 0")
    case False
    with Suc.prems(1) obtain a x nxt s1 where
      1: "load_material e ofs s = Done (a, x, nxt, s1)" "load_materials e k nxt (smap_put a x acc) s1 = Done (ms, s')"
      by (auto simp: load_materials.simps [of e "Suc k"] elim!: obind_DoneE)
    show ?thesis by (rule Suc.IH [OF 1(2)]) (simp add: entry_named_put [OF Suc.prems(2)] nm [OF 1(1)])
  qed (use Suc.prems in \<open>simp add: load_materials.simps [of e "Suc k"]\<close>)
qed

lemma load_textures_Done:
  "load_textures e fuel ofs acc s = Done (ts, s') \<Longrightarrow>
     entry_named ts_sName (\<lambda>x. length (ts_pData x) = unat (ts_uiSize x)) acc \<Longrightarrow>
     entry_named ts_sName (\<lambda>x. length (ts_pData x) = unat (ts_uiSize x)) ts"
proof (induction fuel arbitrary: ofs acc s)
  case 0
  then show ?case by (auto simp: load_textures.simps [of e 0] split: if_splits)
next
  case (Suc k)
  have nm: "ts_sName x = nm \<and> length (ts_pData x) = unat (ts_uiSize x)"
    if "load_texture e ofs s = Done (nm, x, r)" for nm x r
    using that unfolding load_texture_def Let_def
    by (auto elim!: obind_DoneE split: prod.splits if_splits dest!: read_buf_length unlz4_length)
  show ?case
  proof (cases "sint ofs \<le> 0")
    case False
    with Suc.prems(1) obtain a x nxt s1 where
      1: "load_texture e ofs s = Done (a, x, nxt, s1)" "load_textures e k nxt (smap_put a x acc) s1 = Done (ts, s')"
      by (auto simp: load_textures.simps [of e "Suc k"] elim!: obind_DoneE)
    show ?thesis by (rule Suc.IH [OF 1(2)]) (simp add: entry_named_put [OF Suc.prems(2)] nm [OF 1(1)])
  qed (use Suc.prems in \<open>simp add: load_textures.simps [of e "Suc k"]\<close>)
qed

lemma Load_Done:
  assumes "Load3DScanModel e fuel s = Done m"
  shows "loaded_ok m \<and> (ptMin m, ptMax m) = model_box m"
proof -
  from assms obtain ps b s1 s2 ms s3 ts s4 o1 o2 o3 where
    p: "load_parts e fuel fuel o1 init_box s1 = Done (ps, b, s2)"
    and m: "load_materials e fuel o2 [] s2 = Done (ms, s3)"
    and t: "load_textures e fuel o3 [] s3 = Done (ts, s4)"
    and r: "m = \<lparr>Parts = ps, Materials = ms, Textures = ts, ptMin = fst b, ptMax = snd b\<rparr>"
    unfolding Load3DScanModel_def by (auto simp: outcome_done split: if_splits)
  have nil: "entry_named nm P []" for nm :: "'x \<Rightarrow> bytes" and P
    by (simp add: entry_named_def smap_inv_def)
  show ?thesis
    using load_parts_Done [OF p] load_materials_Done [OF m nil] load_textures_Done [OF t nil]
    by (simp add: r loaded_ok_def model_box_def model_vertices_def entry_named_def)
qed

text \<open>
  C3. Whatever the file holds, a model the loader returns is consistent: every vertex and index
  buffer has the size its counts say, both maps are in key order with each entry under its own
  name, and texture data has its recorded size.
\<close>

theorem loaded_model_consistent:
  assumes "Load3DScanModel e fuel s = Done m"
  shows "loaded_ok m"
  using Load_Done [OF assms] by simp

section \<open>The bounding box\<close>

definition in_box :: "float3 \<Rightarrow> box \<Rightarrow> bool" where
  "in_box v b \<longleftrightarrow> (\<forall>f\<in>{f3_x, f3_y, f3_z}. \<not> f_less (f v) (f (fst b)) \<and> \<not> f_less (f (snd b)) (f v))"

lemma f_lower_le: "\<not> f_less p (f_lower p m)" "\<not> f_less p m \<Longrightarrow> \<not> f_nan m \<Longrightarrow> \<not> f_less p (f_lower q m)"
  by (auto simp: f_lower_def f_less_def)

lemma f_upper_ge: "\<not> f_less (f_upper p m) p" "\<not> f_less m p \<Longrightarrow> \<not> f_nan m \<Longrightarrow> \<not> f_less (f_upper q m) p"
  by (auto simp: f_upper_def f_less_def)

lemma f_bound_not_nan:
  "\<not> f_nan m \<Longrightarrow> \<not> f_nan (f_lower q m)" "\<not> f_nan m \<Longrightarrow> \<not> f_nan (f_upper q m)"
  by (auto simp: f_lower_def f_upper_def f_less_def)

definition box_ok :: "box \<Rightarrow> bool" where
  "box_ok b \<longleftrightarrow> (\<forall>f\<in>{f3_x, f3_y, f3_z}. \<not> f_nan (f (fst b)) \<and> \<not> f_nan (f (snd b)))"

lemma upd_box_ok: "box_ok b \<Longrightarrow> box_ok (upd_box p b)"
  by (cases b) (auto simp: box_ok_def upd_box_def f_bound_not_nan)

lemma upd_box_in: "in_box p (upd_box p b)"
  by (cases b) (auto simp: in_box_def upd_box_def f_lower_le f_upper_ge)

lemma upd_box_keep: "in_box v b \<Longrightarrow> box_ok b \<Longrightarrow> in_box v (upd_box p b)"
  by (cases b) (auto simp: in_box_def box_ok_def upd_box_def f_lower_le f_upper_ge)

lemma fold_box_keep: "in_box v b \<Longrightarrow> box_ok b \<Longrightarrow> in_box v (fold upd_box ps b)"
  by (induction ps arbitrary: b) (auto simp: upd_box_keep upd_box_ok)

lemma fold_box_in: "v \<in> set ps \<Longrightarrow> box_ok b \<Longrightarrow> in_box v (fold upd_box ps b)"
proof (induction ps arbitrary: b)
  case (Cons p ps)
  then show ?case
    by (cases "v = p") (simp_all add: fold_box_keep upd_box_in upd_box_ok)
qed simp

lemma init_box_ok: "box_ok init_box"
  by (simp add: box_ok_def init_box_def f_nan_def FLT_MAX_def minus_FLT_MAX_def)

text \<open>
  C4. The bounding box the loader computes holds every vertex of the model: no vertex coordinate
  is below ptMin or above ptMax (in float comparison), for every file and every vertex format that loads.
\<close>

theorem bounding_box_holds_vertices:
  assumes "Load3DScanModel e fuel s = Done m" "v \<in> set (model_vertices m)"
  shows "in_box v (ptMin m, ptMax m)"
  using Load_Done [OF assms(1)] fold_box_in [OF assms(2) init_box_ok] by (simp add: model_box_def)

section \<open>Memory streams\<close>

text \<open>
  One operation on a bound memory stream: a Seek from any origin, or a Read or Write of less than
  2 GB. \<open>None\<close> is the state after an access outside the block.
\<close>

inductive mem_op :: "CMemStream \<Rightarrow> CMemStream option \<Rightarrow> bool" where
  sk: "CMemStream_Seek ofs orig s = (r, s') \<Longrightarrow> mem_op s (Some s')"
| rd: "unat n < 2 ^ 31 \<Longrightarrow> CMemStream_Read n s = Done (bs, r, s') \<Longrightarrow> mem_op s (Some s')"
| rd_UB: "unat n < 2 ^ 31 \<Longrightarrow> CMemStream_Read n s = UB \<Longrightarrow> mem_op s None"
| wr: "length bs < 2 ^ 31 \<Longrightarrow> CMemStream_Write bs s = Done (r, s') \<Longrightarrow> mem_op s (Some s')"
| wr_UB: "length bs < 2 ^ 31 \<Longrightarrow> CMemStream_Write bs s = UB \<Longrightarrow> mem_op s None"

inductive mem_run :: "CMemStream \<Rightarrow> CMemStream option \<Rightarrow> bool" where
  start: "mem_run s (Some s)"
| step: "mem_run s (Some s1) \<Longrightarrow> mem_op s1 r \<Longrightarrow> mem_run s r"

inductive_cases mem_opE: "mem_op s r"
inductive_simps mem_op_None: "mem_op s None"

lemma mem_seek_inv:
  assumes "mem_inv s" "CMemStream_Seek ofs orig s = (r, s')"
  shows "mem_inv s' \<and> length (mem_content s') = length (mem_content s)"
proof -
  have z: "0 < m_uiSize s" "unat (m_uiSize s) < 2 ^ 31" using assms(1) by (auto simp: mem_inv_def)
  have le: "p \<le> m_uiSize s" if "\<not> sint p < 0" "sint p < sint (m_uiSize s)" for p
  proof -
    have "sint (m_uiSize s) = uint (m_uiSize s)" using z(2) by (rule sint_small)
    have "sint p < 2 ^ 31" using sint_lt [of p] by simp
    moreover from this have "uint p = sint p"
    proof -
      have "take_bit LENGTH(32) (sint p) = sint p"
        by (rule take_bit_int_eq_self) (use that(1) \<open>sint p < 2 ^ 31\<close> in simp_all)
      then show ?thesis by (rule trans [OF uint_sint])
    qed
    ultimately show ?thesis using that(2) \<open>sint (m_uiSize s) = uint (m_uiSize s)\<close> by (simp add: word_le_def)
  qed
  have le1: "m_uiSize s - 1 \<le> m_uiSize s" using z(1) by (simp add: word_le_nat_alt unat_sub word_less_nat_alt)
  show ?thesis
    using assms le le1
    by (auto simp: CMemStream_Seek_def mem_inv_def mem_content_def Let_def split: option.splits if_splits)
qed

lemma mem_clip_inv:
  assumes "mem_inv s" "unat n < 2 ^ 31"
  shows "unat (m_uiCurPos s) + unat (CMemStream_clip n s) \<le> length (mem_content s)"
    "unat (CMemStream_clip n s) \<le> unat n"
    "m_uiCurPos s + CMemStream_clip n s \<le> m_uiSize s"
proof -
  have c: "unat (m_uiCurPos s) \<le> length (mem_content s)" "unat (m_uiSize s) = length (mem_content s)"
    "length (mem_content s) < 2 ^ 31"
    using assms(1) by (auto simp: mem_inv_def word_le_nat_alt)
  show 1: "unat (m_uiCurPos s) + unat (CMemStream_clip n s) \<le> length (mem_content s)"
    "unat (CMemStream_clip n s) \<le> unat n"
    using mem_clip [OF assms] c by simp_all
  then have "unat (m_uiCurPos s + CMemStream_clip n s) = unat (m_uiCurPos s) + unat (CMemStream_clip n s)"
    using c by (intro unat_add32) simp
  then show "m_uiCurPos s + CMemStream_clip n s \<le> m_uiSize s" using 1 c by (simp add: word_le_nat_alt)
qed

lemma length_overwrite_inside: "pos + length bs \<le> length d \<Longrightarrow> length (overwrite pos bs d) = length d"
  by (simp add: overwrite_def)

lemma mem_read_op:
  assumes "mem_inv s" "unat n < 2 ^ 31"
  shows "\<exists>bs r s'. CMemStream_Read n s = Done (bs, r, s') \<and> mem_inv s' \<and> mem_content s' = mem_content s"
proof -
  obtain mem where m: "m_pMem s = Some mem" using assms(1) by (auto simp: mem_inv_def)
  then show ?thesis
    using assms mem_clip_inv [OF assms]
    by (auto simp: CMemStream_Read_def Let_def mem_inv_def mem_content_def)
qed

lemma mem_write_op:
  assumes "mem_inv s" "length bs < 2 ^ 31"
  shows "\<exists>r s'. CMemStream_Write bs s = Done (r, s') \<and> mem_inv s' \<and>
    length (mem_content s') = length (mem_content s)"
proof -
  have n: "unat (of_nat (length bs) :: u32) = length bs" using assms(2) by (intro unat_of_nat32) simp
  then have "unat (of_nat (length bs) :: u32) < 2 ^ 31" using assms(2) by simp
  note clip = mem_clip_inv [OF assms(1) this] and n
  obtain mem where m: "m_pMem s = Some mem" using assms(1) by (auto simp: mem_inv_def)
  then show ?thesis
    using assms clip n
    by (auto simp: CMemStream_Write_def Let_def mem_inv_def mem_content_def length_overwrite_inside)
qed

lemma mem_op_safe:
  assumes "mem_op s r" "mem_inv s"
  shows "\<exists>s'. r = Some s' \<and> mem_inv s' \<and> length (mem_content s') = length (mem_content s)"
  using assms(1)
proof cases
  case (sk ofs orig r' s')
  then show ?thesis using mem_seek_inv [OF assms(2)] by blast
next
  case (rd n bs r' s')
  then show ?thesis using mem_read_op [OF assms(2), of n] by auto
next
  case (rd_UB n)
  then show ?thesis using mem_read_op [OF assms(2), of n] by auto
next
  case (wr bs r' s')
  then show ?thesis using mem_write_op [OF assms(2), of bs] by auto
next
  case (wr_UB bs)
  then show ?thesis using mem_write_op [OF assms(2), of bs] by auto
qed

lemma mem_run_safe:
  "mem_run s r \<Longrightarrow> mem_inv s \<Longrightarrow>
     \<exists>s'. r = Some s' \<and> mem_inv s' \<and> length (mem_content s') = length (mem_content s)"
  by (induction rule: mem_run.induct) (auto dest!: mem_op_safe)

text \<open>
  C5. A memory stream bound to a block of at least one byte and less than 2 GB never leaves it: after any sequence of seeks (from any
  origin, to any offset), reads and writes of less than 2 GB, no access was outside the block, the size is
  unchanged and the position is within it.
\<close>

theorem memory_stream_safe:
  assumes "d \<noteq> []" "length d < 2 ^ 31"
    "mem_run (snd (CMemStream_Bind (Some d) (of_nat (length d)) CMemStream_new)) r"
  shows "\<exists>s'. r = Some s' \<and> m_uiCurPos s' \<le> m_uiSize s' \<and> unat (m_uiSize s') = length d"
  using mem_run_safe [OF assms(3)] mem_bind [OF assms(2,1)] by (auto simp: mem_inv_def)

text \<open>
  An empty block is different: a seek, to whatever place, leaves the position at \<open>0xFFFFFFFF\<close>, and the next read, of whatever size,
  copies a byte from there.
\<close>

lemma seek_in_empty_block_overruns:
  "CMemStream_Read n (snd (CMemStream_Seek ofs orig (snd (CMemStream_Bind (Some []) 0 CMemStream_new)))) = UB"
proof -
  have p: "sint (if sint p < 0 then 0 else p) \<ge> sint (0 :: u32)" for p :: u32 by simp
  show ?thesis
    using p by (simp add: CMemStream_Read_def CMemStream_Seek_def CMemStream_Bind_def CMemStream_new_def CMemStream_clip_def Let_def)
qed

lemma sum_one_modulus:
  assumes "(a + b) mod M = (0::nat)" "0 < a" "a < M" "b < M"
  shows "a + b = M"
proof -
  obtain q where q: "a + b = M * q" using assms(1) by (auto elim: dvdE simp: mod_eq_0_iff_dvd)
  then have "M * q < M * 2" "0 < M * q" using assms(2-4) by linarith+
  then have "q = 1" by simp
  with q show ?thesis by simp
qed

text \<open>
  The 32-bit end position of a read wraps: from any position past the start, a request of
  \<open>2 ^ 32\<close> minus the position passes the bounds check and copies past the end of the block. A file
  can make the loader issue it (the compressed size of a subset is a field of the file).
\<close>

theorem memory_read_wraps:
  assumes "mem_inv s" "0 < m_uiCurPos s"
  shows "CMemStream_Read (- m_uiCurPos s) s = UB"
proof -
  obtain mem where m: "m_pMem s = Some mem" using assms(1) by (auto simp: mem_inv_def)
  have "unat (m_uiCurPos s) + unat (- m_uiCurPos s) = 2 ^ 32"
  proof -
    have "(unat (m_uiCurPos s) + unat (- m_uiCurPos s)) mod 2 ^ 32 = unat (m_uiCurPos s + - m_uiCurPos s)"
      by (simp only: unat_word_ariths) simp
    then have "(unat (m_uiCurPos s) + unat (- m_uiCurPos s)) mod 4294967296 = 0" by simp
    moreover have "0 < unat (m_uiCurPos s)" using assms(2) by (simp add: word_less_nat_alt)
    moreover have "unat (m_uiCurPos s) < 4294967296" "unat (- m_uiCurPos s) < 4294967296"
      using unsigned_less [of "m_uiCurPos s"] unsigned_less [of "- m_uiCurPos s"] by simp_all
    ultimately have "unat (m_uiCurPos s) + unat (- m_uiCurPos s) = 4294967296" by (rule sum_one_modulus)
    then show ?thesis by simp
  qed
  moreover have "length mem < 2 ^ 31" "\<not> m_uiSize s \<le> 0" using assms m by (auto simp: mem_inv_def mem_content_def)
  ultimately show ?thesis using m by (simp add: CMemStream_Read_def CMemStream_clip_def Let_def)
qed

section \<open>Inputs on which the loader goes wrong\<close>

lemma file_read_at:
  assumes "file_inv s" "file_content s = pre @ mid @ post" "mid \<noteq> []" "unat n = length mid"
  shows "\<exists>s'. read_buf (file_env lz junk) n (file_sk (of_nat (length pre)) s) = Done (mid, s') \<and>
    file_inv s' \<and> file_content s' = file_content s"
proof -
  have "ev_rd (file_env lz junk) = file_rd" "ev_sk (file_env lz junk) = file_sk" by (simp_all add: file_env_def)
  from fil.env_seek_read [OF this assms(1,2,3,4)] this(2) show ?thesis by metis
qed

text \<open>
  The part chain is not checked for cycles: when the part at offset \<open>k\<close> of a file names itself as
  the next part, the loading loop never ends, whatever the fuel.
\<close>

theorem cyclic_part_never_returns:
  assumes "file_inv s" "file_content s = pre @ enc_part h @ post" "pre \<noteq> []" "part_wf h"
    "part_szSign h = sign_PART" "part_szName h = strncpy 32 nm" "name_ok 32 nm"
    "part_iFirstSubset h = -1" "part_iNextPartOfs h = of_nat (length pre)"
  shows "load_parts (file_env lz junk) sf fuel (of_nat (length pre)) b s = NoFuel"
  using assms(1,2)
proof (induction fuel arbitrary: s)
  have small: "length pre < 2 ^ 31" using assms(1,2) by (simp add: file_inv_def)
  then have pos: "\<not> sint (of_nat (length pre) :: u32) \<le> 0" using ofs_pos assms(3) by simp
  {
    case 0
    show ?case using pos by (simp add: load_parts.simps [of _ _ 0])
  next
    case (Suc k)
    have "unat (of_nat sizeof_PART :: u32) = length (enc_part h)" using prt.enc_size [OF assms(4)] by simp
    from file_read_at [OF Suc.prems prt.enc_ne [OF assms(4)] this] obtain s1
      where s1: "read_buf (file_env lz junk) (of_nat sizeof_PART) (file_sk (of_nat (length pre)) s) = Done (enc_part h, s1)"
        "file_inv s1" "file_content s1 = file_content s" by blast
    have "c_name 4 (enc_part h) = Done nm" using cstr_part [OF assms(4,7,6)] by (simp add: c_name_def)
    then have "load_part (file_env lz junk) sf (of_nat (length pre)) b s =
        Done (\<lparr>mp_sName = nm, mp_Subsets = []\<rparr>, of_nat (length pre), b, s1)"
      using s1(1) assms(5,8,9) prt.dec_enc [OF assms(4)] load_subsets.simps [of "file_env lz junk" sf "-1" b s1]
      by (simp add: load_part_def file_env_def del: sizeof_PART_def)
    then show ?case using pos Suc.IH [OF s1(2)] s1(3) Suc.prems(2)
      by (simp add: load_parts.simps [of _ _ "Suc k"])
  }
qed

lemma mem_seek_end:
  assumes "mem_inv s" "unat ofs = length (mem_content s)"
  shows "mem_sk ofs s = s\<lparr>m_uiCurPos := m_uiSize s - 1\<rparr>"
proof -
  have "unat (m_uiSize s) < 2 ^ 31" "unat ofs = unat (m_uiSize s)" using assms by (auto simp: mem_inv_def)
  then have "sint (m_uiSize s) = uint (m_uiSize s)" "ofs = m_uiSize s"
    by (auto intro: sint_small simp: word_unat_eq_iff)
  moreover have "m_pMem s \<noteq> None" using assms(1) by (simp add: mem_inv_def)
  ultimately show ?thesis by (auto simp: mem_sk_def CMemStream_Seek_def Let_def)
qed

text \<open>What a read finds first, after a seek to the end of the content or inside it.\<close>

lemma mem_read_hd:
  assumes "mem_inv s" "unat (m_uiCurPos s) < length (mem_content s)" "0 < unat n" "unat n < 2 ^ 31"
  shows "\<exists>raw s'. read_buf (mem_env lz junk) n s = Done (raw, s') \<and> raw \<noteq> [] \<and>
    hd raw = mem_content s ! unat (m_uiCurPos s)"
proof -
  let ?got = "bslice (unat (m_uiCurPos s)) (unat n) (mem_content s)"
  have "?got \<noteq> []" "hd ?got = mem_content s ! unat (m_uiCurPos s)"
    using assms(2,3) by (simp_all add: bslice_def hd_drop_conv_nth hd_take)
  moreover obtain s' where "mem_rd n s = Done (?got, s')" using mem_read_slice [OF assms(1,4)] by blast
  ultimately show ?thesis by (simp add: read_buf_def mem_env_def)
qed

lemma mem_read_at_hd:
  assumes "mem_inv s" "unat ofs \<le> length (mem_content s)" "0 < unat n" "unat n < 2 ^ 31"
  shows "\<exists>raw s'. read_buf (mem_env lz junk) n (mem_sk ofs s) = Done (raw, s') \<and> raw \<noteq> [] \<and>
    hd raw = mem_content s ! (if unat ofs < length (mem_content s) then unat ofs else unat ofs - 1)"
proof (cases "unat ofs < length (mem_content s)")
  case True
  have "mem_inv (mem_sk ofs s)" "mem_content (mem_sk ofs s) = mem_content s"
    using mem.seek_inv [OF assms(1) True] mem.seek_content [OF assms(1)] by simp_all
  then show ?thesis
    using mem_read_hd [of "mem_sk ofs s" n lz junk] True assms mem_seek_in_range [OF assms(1) True] by simp
next
  case False
  then have e: "unat ofs = length (mem_content s)" using assms(2) by simp
  have z: "0 < m_uiSize s" "unat (m_uiSize s) = length (mem_content s)" using assms(1) by (auto simp: mem_inv_def)
  then have "1 \<le> m_uiSize s" by (auto simp: word_le_nat_alt word_less_nat_alt Suc_le_eq)
  from unat_sub [OF this] z have u: "unat (m_uiSize s - 1) = length (mem_content s) - 1" "0 < length (mem_content s)"
    by (auto simp: word_less_nat_alt)
  then have "m_uiSize s - 1 \<le> m_uiSize s" using z by (simp add: word_le_nat_alt)
  then have "mem_inv (mem_sk ofs s)" "mem_content (mem_sk ofs s) = mem_content s"
    "unat (m_uiCurPos (mem_sk ofs s)) = length (mem_content s) - 1"
    using assms(1) mem_seek_end [OF assms(1) e] u by (auto simp: mem_inv_def mem_content_def)
  then show ?thesis
    using mem_read_hd [of "mem_sk ofs s" n lz junk] assms e u(2) by simp
qed

lemma hd_materials_img: "kms \<noteq> [] \<Longrightarrow> \<exists>r. materials_img ofs kms = 0x4D # r"
  by (cases kms) (simp_all add: enc_material_def material_hdr_def)

lemma hd_textures_img: "kts \<noteq> [] \<Longrightarrow> \<exists>r. textures_img lz fl ofs kts = 0x54 # r"
  by (cases kts) (simp_all add: texture_img_def enc_texture_def texture_hdr_def Let_def)

lemma enc_header_last: "enc_header (final_header m a b) ! 45 = 0"
proof -
  obtain z where "enc_header (final_header m a b) = z @ replicate 5 0" "length z = 41"
  proof
    show "enc_header (final_header m a b) = take 41 (enc_header (final_header m a b)) @ replicate 5 0"
      by (simp add: enc_header_def final_header_def init_header_def scan_sign_def)
  qed simp
  then show ?thesis by (simp add: nth_append)
qed

text \<open>
  A model without parts is saved but cannot be read back: the header always points at the byte
  after it, where the loader then finds the end of the file, a material or a texture instead of a part.
\<close>

theorem empty_model_unreadable:
  assumes "Parts m = []" "model_buffers_ok m" "length (model_img lz fl m) < 2 ^ 31" "0 < fuel"
  shows "\<exists>d. Save3DScanModel lz True (Some name) (Some m) fl = Done (True, Some d) \<and>
    Load3DScanModelFromMemory lz junk fuel (Some d) (of_nat (length d)) = Fail"
proof -
  let ?d = "model_img lz fl m"
  obtain a b where h: "?d = enc_header (final_header m a b) @
      materials_img 46 (Materials m) @ textures_img lz fl b (Textures m)"
    using assms(1) by (auto simp: model_img_def Let_def)
  let ?h = "final_header m a b"
  obtain s where s: "CMemStream_Bind (Some ?d) (of_nat (length ?d)) CMemStream_new = (True, s)"
    "mem_inv s" "mem_content s = ?d" "m_uiCurPos s = 0"
    using mem_bind [of ?d] assms(3) by auto
  have env: "ev_rd (mem_env lz junk) = mem_rd" "ev_sk (mem_env lz junk) = mem_sk" by (simp_all add: mem_env_def)
  have "mem_content s = [] @ enc_header ?h @ (materials_img 46 (Materials m) @ textures_img lz fl b (Textures m))"
    using s h by simp
  from mem.env_read [OF env(1) s(2) this, of "of_nat sizeof_HEADER"] s(4) obtain s1 where s1:
    "read_buf (mem_env lz junk) (of_nat sizeof_HEADER) s = Done (enc_header ?h, s1)" "mem_inv s1"
    "mem_content s1 = ?d" using s(3) by auto
  have "unat (46 :: u32) \<le> length (mem_content s1)" using s1(3) h by simp
  from mem_read_at_hd [OF s1(2) this, of "of_nat sizeof_PART" lz junk] obtain raw s2 where raw:
    "read_buf (mem_env lz junk) (of_nat sizeof_PART) (mem_sk 46 s1) = Done (raw, s2)" "raw \<noteq> []"
    "hd raw = ?d ! (if 46 < length ?d then 46 else 45)" using s1(3) by auto
  have "hd raw \<noteq> 0x50"
  proof (cases "materials_img 46 (Materials m) @ textures_img lz fl b (Textures m) = []")
    case True
    then show ?thesis using raw(3) h by (simp add: enc_header_last)
  next
    case False
    then have "Materials m \<noteq> [] \<or> Textures m \<noteq> []" by auto
    then have "hd (materials_img 46 (Materials m) @ textures_img lz fl b (Textures m)) \<in> {0x4D, 0x54}"
      using hd_materials_img [of "Materials m" 46] hd_textures_img [of "Textures m" lz fl b]
      by (cases "Materials m = []") auto
    moreover have "hd raw = hd (materials_img 46 (Materials m) @ textures_img lz fl b (Textures m))"
      using raw(3) h False by (simp add: nth_append hd_conv_nth)
    ultimately show ?thesis by auto
  qed
  then have "bslice 0 4 raw \<noteq> sign_PART" using raw(2) by (cases raw) (auto simp: bslice_def sign_PART_def)
  then have part: "load_part (mem_env lz junk) fuel 46 init_box s1 = Fail"
    using raw(1) by (simp add: load_part_def env dec_part_def)
  have flds: "hdr_szSign ?h = scan_sign" "hdr_uiVersion ?h = 0x10000" "hdr_iFirstPartOfs ?h = 46"
    by (simp_all add: final_header_def init_header_def)
  obtain k where "fuel = Suc k" using assms(4) by (cases fuel) auto
  then have "Load3DScanModel (mem_env lz junk) fuel s = Fail"
    using s1(1) flds part hdr.dec_enc [OF final_header_wf, of m a b]
    by (simp add: Load3DScanModel_def load_parts.simps [of _ _ "Suc k"] del: sizeof_HEADER_def)
  then show ?thesis
    using save_model_img [OF assms(2,3)] s(1) by (simp add: Save3DScanModel_def Load3DScanModelFromMemory_def)
qed

text \<open>
  A vertex format without position and normal makes the bounding-box loop read past the vertex buffer: 12
  bytes are read per vertex, the last vertex has at most 8.
\<close>

theorem no_position_reads_out_of_bounds:
  assumes "fmt AND VF_POSITIION = 0" "fmt AND VF_NORMAL = 0" "0 < n"
    "length pv = unat (GetVertexSize fmt) * n"
  shows "upd_bounds (unat (GetVertexSize fmt)) n pv b = UB"
proof -
  have vs: "unat (GetVertexSize fmt) \<le> 8" using assms(1,2) by (simp add: GetVertexSize_def Let_def)
  show ?thesis using assms(3,4)
  proof (induction n arbitrary: pv b)
    case (Suc n)
    show ?case
    proof (cases n)
      case 0
      then show ?thesis using Suc.prems vs by simp
    next
      case (Suc j)
      have "length (drop (unat (GetVertexSize fmt)) pv) = unat (GetVertexSize fmt) * n"
        using Suc.prems by simp
      then show ?thesis using Suc.IH [of "drop (unat (GetVertexSize fmt)) pv"] Suc by simp
    qed
  qed simp
qed

lemma use_compressed_zero:
  assumes "2 \<le> unat n" "unat n < 2 ^ 28"
  shows "use_compressed 0 0 n"
proof -
  have u: "unat (n * 8) = unat n * 8" using assms(2) by (subst unat_mult32) simp_all
  have "sint (n * 8) = uint (n * 8)" using assms(2) u by (intro sint_small) simp
  also have "\<dots> = int (unat n * 8)" using u by (metis uint_nat)
  finally have "sint (n * 8) = int (unat n * 8)" .
  then have "sint (n * 8) sdiv 10 = int (unat n * 8) div 10"
    using assms(1) by (simp only: signed_divide_int_def sgn_if) simp
  also have "\<dots> = int (unat n * 8 div 10)" by (simp only: of_nat_div of_nat_numeral)
  finally have "sint (n * 8) sdiv 10 = int (unat n * 8 div 10)" .
  moreover have "0 < unat n * 8 div 10" using assms(1) by simp
  ultimately show ?thesis by (simp add: use_compressed_def)
qed

text \<open>
  A failing compression is taken for a good one: when LZ4 returns 0 the code finds 0 smaller than
  eight tenths of the data, marks the subset compressed and writes no data at all.
\<close>

theorem failed_compression_loses_data:
  assumes "subset_buffers_ok s" "subset_comp lz 0 s = []" "2 \<le> unat (subset_data_size s)"
    "unat (subset_data_size s) < 2 ^ 28" "at_end st"
  shows "\<exists>st'. save_subset lz 0 l s st = Done st' \<and>
    f_data (sv_file st') = f_data (sv_file st) @ enc_subset (subset_hdr lz 0 (sv_ofs st) l s) \<and>
    sub_uiFlags (subset_hdr lz 0 (sv_ofs st) l s) = TDS_FLAG_COMPRESSED"
proof -
  have u: "subset_use lz 0 s" using use_compressed_zero [OF assms(3,4)] assms(2) by (simp add: subset_use_def)
  show ?thesis
    using assms(1,2,5) u
    by (simp add: save_subset_def Let_def at_end_def fwrite_def [of "[]"] subset_hdr_def)
qed

end
