(* ===== verification/ScanWitness.thy ===== *)
theory ScanWitness
  imports ScanProps
begin

text \<open>
  Concrete inputs for the properties of the scan file: a codec that satisfies the LZ4 contract (a block
  of zeros is stored as one byte, anything else verbatim) and a small model with one part, one
  subset, a material and a texture.
\<close>

definition rle_lz :: lz4_api where
  "rle_lz = \<lparr>compressBound = (\<lambda>n. n + 1),
     compress_HC = (\<lambda>src cap. if src = replicate (length src) 0 then [0] else 1 # src),
     decompress_fast = (\<lambda>blk n. case blk of [] \<Rightarrow> None
       | b # bs \<Rightarrow> if b = 0 then Some (replicate n 0) else Some (take n bs))\<rparr>"

lemma rle_contract: "lz4_contract rle_lz"
proof -
  have "unat (of_nat (length src) + 1 :: u32) = length src + 1" if "length src \<le> 0x7E000000" for src :: bytes
    using that unat_of_nat32 [of "length src + 1"] by (simp add: add.commute)
  then show ?thesis by (auto simp: lz4_contract_def rle_lz_def Let_def)
qed

definition w_subset :: TD_MODEL_SUBSET where
  "w_subset = \<lparr>pVB = replicate 12 0, pIB = [0, 0, 0], ss_uiVertCount = 1, ss_uiTriCount = 1,
     ss_sMatName = [0x4D], ss_uiVertexFmt = 1\<rparr>"

definition w_black :: float4_rgba where
  "w_black = \<lparr>clr_r = 0, clr_g = 0, clr_b = 0, clr_a = 0\<rparr>"

definition w_material :: TD_MODEL_MATERIAL where
  "w_material = \<lparr>mm_sName = [0x4D], mm_clrAmbient = w_black, mm_clrDiffuse = w_black, mm_fTransparency = 0,
     mm_fSpecIntensity = 0, mm_fGlossiness = 0, mm_fReflectionFactor = 0, mm_sDiffuseTextureName = [0x54],
     mm_sNormalTextureName = [], mm_sSpecularTextureName = [], mm_sAlphaTextureName = [],
     mm_sReflectionTextureName = []\<rparr>"

definition w_texture :: TD_MODEL_TEXTURE_SLOT where
  "w_texture = \<lparr>ts_sName = [0x54], ts_uiSize = 2, ts_pData = [7, 8], ts_eFormat = 2, ts_clrAvgColor = w_black\<rparr>"

definition w_model :: TD_SCAN_MODEL where
  "w_model = \<lparr>Parts = [\<lparr>mp_sName = [0x50], mp_Subsets = [w_subset]\<rparr>], Materials = [([0x4D], w_material)],
     Textures = [([0x54], w_texture)], ptMin = fst init_box, ptMax = snd init_box\<rparr>"

definition w_empty :: TD_SCAN_MODEL where
  "w_empty = w_model\<lparr>Parts := []\<rparr>"

lemma w_model_ok: "model_ok w_model"
  by (simp add: model_ok_def part_ok_def subset_ok_def material_ok_def texture_ok_def name_ok_def smap_inv_def
      w_model_def w_subset_def w_material_def w_texture_def GetVertexSize_def flag_defs)

lemmas w_size = model_img_def Let_def length_part_img length_subset_img length_materials_img
  length_texture_img subset_payload_def texture_payload_def subset_comp_def texture_comp_def
  compress_block_def rle_lz_def subset_vb_bytes_def subset_ib_bytes_def w_subset_def w_texture_def
  w_empty_def w_model_def GetVertexSize_def flag_defs

lemma w_model_size: "length (model_img rle_lz 0 w_model) < 2 ^ 31"
  by (simp add: w_size)

lemma w_empty_size: "length (model_img rle_lz 0 w_empty) < 2 ^ 31"
  by (simp add: w_size)

lemma w_model_fuel: "model_fuel w_model \<le> 1"
  by (simp add: model_fuel_def w_model_def)

lemma w_model_save: "save_model rle_lz 0 w_model = Done (model_img rle_lz 0 w_model)"
  by (rule save_model_img [OF model_ok_buffers [OF w_model_ok] w_model_size])

section \<open>Witnesses of the round trips\<close>

lemma save_load_memory_witness:
  "Load3DScanModelFromMemory rle_lz (\<lambda>_ _. 0) 1 (Some (model_img rle_lz 0 w_model))
     (of_nat (length (model_img rle_lz 0 w_model))) =
   Done (w_model\<lparr>ptMin := fst (model_box w_model), ptMax := snd (model_box w_model)\<rparr>)"
  by (rule save_load_memory [OF rle_contract w_model_ok w_model_save w_model_size w_model_fuel])

lemma save_load_file_witness:
  "\<exists>d. Save3DScanModel rle_lz True (Some ''a.3dscan'') (Some w_model) 0 = Done (True, Some d) \<and>
    Load3DScanModelFromFile rle_lz (\<lambda>_ _. 0) 1 (\<lambda>n. if n = ''a.3dscan'' then Some d else None)
      (Some ''a.3dscan'') =
      Done (w_model\<lparr>ptMin := fst (model_box w_model), ptMax := snd (model_box w_model)\<rparr>)"
  by (rule save_load_file [OF rle_contract w_model_ok w_model_size w_model_fuel])

lemma save_model_writes_image_witness:
  "Save3DScanModel rle_lz True (Some ''a.3dscan'') (Some w_model) 0 =
     Done (True, Some (model_img rle_lz 0 w_model))"
  by (rule save_model_writes_image [OF model_ok_buffers [OF w_model_ok] w_model_size])

section \<open>Witnesses on a loaded model\<close>

definition w_stream :: CFileStream where
  "w_stream = \<lparr>m_pFile = Some (fopen_rb (model_img rle_lz 0 w_model))\<rparr>"

definition w_loaded :: TD_SCAN_MODEL where
  "w_loaded = w_model\<lparr>ptMin := fst (model_box w_model), ptMax := snd (model_box w_model)\<rparr>"

lemma w_load: "Load3DScanModel (file_env rle_lz (\<lambda>_ _. 0)) 1 w_stream = Done w_loaded"
  unfolding w_loaded_def
proof (rule fil.load_model_image [where fl = 0])
  show "file_inv w_stream"
    using w_model_size by (simp add: w_stream_def file_inv_def file_content_def file_tell_def fopen_rb_def)
qed (use rle_contract w_model_ok model_fuel_ge [OF w_model_fuel] in
    \<open>simp_all add: file_env_def w_stream_def file_content_def file_tell_def fopen_rb_def\<close>)

lemma w_vertices: "model_vertices w_loaded = [\<lparr>f3_x = 0, f3_y = 0, f3_z = 0\<rparr>]"
  by (simp add: model_vertices_def w_loaded_def w_model_def part_vertices_def vertices_def w_subset_def
      dec_float3_def of_le32_def numeral_eq_Suc)

lemma loaded_model_consistent_witness: "loaded_ok w_loaded"
  by (rule loaded_model_consistent [OF w_load])

lemma bounding_box_holds_vertices_witness:
  "in_box \<lparr>f3_x = 0, f3_y = 0, f3_z = 0\<rparr> (ptMin w_loaded, ptMax w_loaded)"
  by (rule bounding_box_holds_vertices [OF w_load]) (simp add: w_vertices)

section \<open>Witnesses on streams and bad inputs\<close>

definition w_bound :: CMemStream where
  "w_bound = \<lparr>m_pMem = Some [1, 2], m_uiSize = 2, m_uiCurPos = 0\<rparr>"

lemma w_bind: "snd (CMemStream_Bind (Some [1, 2]) (of_nat (length [1 :: byte, 2])) CMemStream_new) = w_bound"
  by (simp add: w_bound_def CMemStream_Bind_def CMemStream_new_def)

lemma memory_stream_safe_witness:
  "m_uiCurPos (snd (CMemStream_Seek 9 SEEK_SET w_bound)) \<le> 2"
proof -
  have "mem_op w_bound (Some (snd (CMemStream_Seek 9 SEEK_SET w_bound)))"
    by (rule mem_op.sk [of 9 SEEK_SET w_bound "fst (CMemStream_Seek 9 SEEK_SET w_bound)"]) simp
  then have "mem_run w_bound (Some (snd (CMemStream_Seek 9 SEEK_SET w_bound)))"
    by (rule mem_run.step [OF mem_run.start])
  from memory_stream_safe [of "[1, 2]", unfolded w_bind, OF _ _ this] show ?thesis
    by (simp add: w_bound_def CMemStream_Seek_def Let_def)
qed

lemma memory_read_wraps_witness:
  "CMemStream_Read (- 1) \<lparr>m_pMem = Some [1, 2], m_uiSize = 2, m_uiCurPos = 1\<rparr> = UB"
  using memory_read_wraps [of "\<lparr>m_pMem = Some [1, 2], m_uiSize = 2, m_uiCurPos = 1\<rparr>"]
  by (simp add: mem_inv_def mem_content_def)

definition w_loop_part :: TDSCAN_FILE_PART where
  "w_loop_part = \<lparr>part_szSign = sign_PART, part_szName = strncpy 32 [0x50], part_iNextPartOfs = 46,
     part_iFirstSubset = -1\<rparr>"

lemma cyclic_part_never_returns_witness:
  "load_parts (file_env rle_lz (\<lambda>_ _. 0)) 5 1000 46 init_box
     \<lparr>m_pFile = Some (fopen_rb (enc_header init_header @ enc_part w_loop_part))\<rparr> = NoFuel"
proof -
  have wf: "part_wf w_loop_part" by (simp add: w_loop_part_def part_wf_def sign_PART_def lens)
  show ?thesis
    using cyclic_part_never_returns [of "\<lparr>m_pFile = Some (fopen_rb (enc_header init_header @ enc_part w_loop_part))\<rparr>"
        "enc_header init_header" w_loop_part "[]" "[0x50]" rle_lz "\<lambda>_ _. 0" 5 1000 init_box]
      wf prt.enc_size [OF wf] hdr.enc_ne [OF init_header_wf]
    by (simp add: file_inv_def file_content_def file_tell_def fopen_rb_def name_ok_def w_loop_part_def)
qed

lemma w_empty_ok: "model_buffers_ok w_empty"
  by (simp add: model_buffers_ok_def w_empty_def w_model_def w_texture_def)

lemma empty_model_unreadable_witness:
  "\<exists>d. Save3DScanModel rle_lz True (Some ''a'') (Some w_empty) 0 = Done (True, Some d) \<and>
    Load3DScanModelFromMemory rle_lz (\<lambda>_ _. 0) 7 (Some d) (of_nat (length d)) = Fail"
  by (rule empty_model_unreadable [OF _ w_empty_ok w_empty_size]) (simp_all add: w_empty_def)

lemma no_position_reads_out_of_bounds_witness:
  "upd_bounds (unat (GetVertexSize VF_UV)) 3 (replicate 24 0) init_box = UB"
  by (rule no_position_reads_out_of_bounds) (simp_all add: GetVertexSize_def flag_defs)

definition fail_lz :: lz4_api where
  "fail_lz = rle_lz\<lparr>compress_HC := \<lambda>src cap. []\<rparr>"

lemma failed_compression_loses_data_witness:
  "\<exists>st'. save_subset fail_lz 0 True w_subset \<lparr>sv_file = fopen_wb, sv_ofs = 0, sv_hdr = init_header\<rparr> = Done st' \<and>
    f_data (sv_file st') = f_data fopen_wb @ enc_subset (subset_hdr fail_lz 0 0 True w_subset) \<and>
    sub_uiFlags (subset_hdr fail_lz 0 0 True w_subset) = TDS_FLAG_COMPRESSED"
proof -
  have "subset_buffers_ok w_subset"
    using w_model_ok by (intro subset_ok_buffers) (simp add: model_ok_def part_ok_def w_model_def)
  then show ?thesis
    using failed_compression_loses_data [of w_subset fail_lz
        "\<lparr>sv_file = fopen_wb, sv_ofs = 0, sv_hdr = init_header\<rparr>" True]
    by (simp add: subset_comp_def compress_block_def fail_lz_def subset_data_size_def w_subset_def
        GetVertexSize_def flag_defs at_end_def fopen_wb_def TD_SAVE_FLAG_NO_COMPRESSION_def)
qed

end
