(* ===== verification/ModelCache.thy ===== *)
theory ModelCache
  imports ScanFormat
begin

text \<open>
  The viewer's on-disk cache of downloaded models, \<open>CModelCache\<close> (ModelViewer/CModelCache.cpp):
  the table of entries kept in memory and in cache.dat, and the temporary files that hold models,
  advertisements and thumbnails. The Windows calls work on an explicit file system; what they
  decide (where the folder is, temporary names, sharing violations, a failing write) is the
  parameter \<open>win_os\<close>. A wide string is a list of 16-bit words; a path is such a list.
  \<open>UB\<close> is a \<open>wcscpy\<close> past the end of a MAX_PATH array, or a double delete.
\<close>

section \<open>Wide strings and the file system\<close>

type_synonym wchar = "16 word"
type_synonym wstr = "wchar list"

definition MAX_PATH :: nat where "MAX_PATH = 260"

definition wide :: "string \<Rightarrow> wstr" where
  "wide s = map of_char s"

definition wcs :: "wstr \<Rightarrow> wstr" where
  "wcs s = takeWhile (\<lambda>c. c \<noteq> 0) s"

text \<open>\<open>wcscpy\<close> into an array: the characters and a NUL, the rest of the array as it was.\<close>

definition wcscpy :: "wstr \<Rightarrow> wstr \<Rightarrow> wstr outcome" where
  "wcscpy arr s = (let t = wcs s in
     if length t < length arr then Done (t @ 0 # drop (length t + 1) arr) else UB)"

record filesys =
  fs_files :: "wstr \<Rightarrow> bytes option"
  fs_dirs :: "wstr list"

record win_os =
  os_LocalAppData :: "wstr option"
  os_temp :: "wstr \<Rightarrow> filesys \<Rightarrow> wstr option"
  os_access :: "wstr \<Rightarrow> bool"
  os_write :: "wstr \<Rightarrow> bool"
  os_time :: bytes

definition dir_of :: "wstr \<Rightarrow> wstr" where
  "dir_of p = rev (dropWhile (\<lambda>c. c \<noteq> 0x5C) (rev p))"

definition fs_put :: "wstr \<Rightarrow> bytes \<Rightarrow> filesys \<Rightarrow> filesys" where
  "fs_put p d fs = fs\<lparr>fs_files := (fs_files fs)(p \<mapsto> d)\<rparr>"

text \<open>CreateFileW with OPEN_EXISTING, and with OPEN_ALWAYS (which creates an empty file).\<close>

definition open_existing :: "win_os \<Rightarrow> filesys \<Rightarrow> wstr \<Rightarrow> bool" where
  "open_existing os fs p \<longleftrightarrow> fs_files fs p \<noteq> None \<and> os_access os p"

definition open_always :: "win_os \<Rightarrow> filesys \<Rightarrow> wstr \<Rightarrow> filesys option" where
  "open_always os fs p =
     (if dir_of p \<in> set (fs_dirs fs) \<and> os_access os p
      then Some (if fs_files fs p = None then fs_put p [] fs else fs) else None)"

text \<open>GetTempFileNameW with uUnique 0 chooses an unused name and creates the file.\<close>

definition GetTempFileName :: "win_os \<Rightarrow> wstr \<Rightarrow> filesys \<Rightarrow> (wstr \<times> filesys) option" where
  "GetTempFileName os dir fs = (case os_temp os dir fs of None \<Rightarrow> None | Some t \<Rightarrow> Some (t, fs_put t [] fs))"

text \<open>What the documentation of GetTempFileNameW promises of the name it returns.\<close>

definition os_ok :: "win_os \<Rightarrow> bool" where
  "os_ok os \<longleftrightarrow> length (os_time os) = 16 \<and> (\<forall>dir fs t. os_temp os dir fs = Some t \<longrightarrow>
     fs_files fs t = None \<and> length t < MAX_PATH \<and> 0 \<notin> set t \<and> os_access os t)"

section \<open>Cache entries\<close>

record CACHE_ENTRY =
  ce_szSibscriptionId :: wstr
  ce_DateTime :: bytes
  ce_dwHash :: u32
  ce_szModelFile :: wstr
  ce_szAdFile :: wstr
  ce_szThumbFile :: wstr
  ce_szAdUrl :: wstr

definition le16 :: "wchar \<Rightarrow> bytes" where
  "le16 w = [ucast w, ucast (drop_bit 8 w)]"

definition wbytes :: "wstr \<Rightarrow> bytes" where
  "wbytes s = concat (map le16 s)"

fun bytes_w :: "nat \<Rightarrow> bytes \<Rightarrow> wstr" where
  "bytes_w (Suc n) (a # b # bs) = (ucast a OR push_bit 8 (ucast b)) # bytes_w n bs"
| "bytes_w n bs = []"

definition enc_entry :: "CACHE_ENTRY \<Rightarrow> bytes" where
  "enc_entry e = wbytes (ce_szSibscriptionId e) @ ce_DateTime e @ le32 (ce_dwHash e) @
     wbytes (ce_szModelFile e) @ wbytes (ce_szAdFile e) @ wbytes (ce_szThumbFile e) @ wbytes (ce_szAdUrl e)"

definition sizeof_CACHE_ENTRY :: nat where "sizeof_CACHE_ENTRY = 2620"

definition dec_entry :: "bytes \<Rightarrow> CACHE_ENTRY" where
  "dec_entry bs = \<lparr>ce_szSibscriptionId = bytes_w MAX_PATH (bslice 0 520 bs),
     ce_DateTime = bslice 520 16 bs, ce_dwHash = of_le32 (bslice 536 4 bs),
     ce_szModelFile = bytes_w MAX_PATH (bslice 540 520 bs), ce_szAdFile = bytes_w MAX_PATH (bslice 1060 520 bs),
     ce_szThumbFile = bytes_w MAX_PATH (bslice 1580 520 bs), ce_szAdUrl = bytes_w MAX_PATH (bslice 2100 520 bs)\<rparr>"

definition entry_wf :: "CACHE_ENTRY \<Rightarrow> bool" where
  "entry_wf e \<longleftrightarrow> length (ce_DateTime e) = 16 \<and>
     (\<forall>f\<in>{ce_szSibscriptionId, ce_szModelFile, ce_szAdFile, ce_szThumbFile, ce_szAdUrl}. length (f e) = MAX_PATH)"

fun dec_entries :: "nat \<Rightarrow> bytes \<Rightarrow> CACHE_ENTRY list" where
  "dec_entries 0 bs = []"
| "dec_entries (Suc n) bs = dec_entry (take sizeof_CACHE_ENTRY bs) # dec_entries n (drop sizeof_CACHE_ENTRY bs)"

definition zero_entry :: CACHE_ENTRY where
  "zero_entry = (let z = replicate MAX_PATH 0 in
     \<lparr>ce_szSibscriptionId = z, ce_DateTime = replicate 16 0, ce_dwHash = 0, ce_szModelFile = z,
      ce_szAdFile = z, ce_szThumbFile = z, ce_szAdUrl = z\<rparr>)"

section \<open>The cache\<close>

record CModelCache =
  m_szCacheFolder :: wstr
  m_szCacheFullPath :: wstr
  m_hCacheFile :: "wstr option"
  m_bEnableCacheStore :: bool
  m_bEnableCacheRead :: bool
  m_CacheTable :: "CACHE_ENTRY list"

definition CModelCache_new :: CModelCache where
  "CModelCache_new = \<lparr>m_szCacheFolder = [], m_szCacheFullPath = [], m_hCacheFile = None,
     m_bEnableCacheStore = True, m_bEnableCacheRead = True, m_CacheTable = []\<rparr>"

definition CleanUp :: "CModelCache \<Rightarrow> CModelCache" where
  "CleanUp c = c\<lparr>m_szCacheFolder := [], m_szCacheFullPath := [], m_CacheTable := [], m_hCacheFile := None,
     m_bEnableCacheRead := True, m_bEnableCacheStore := True\<rparr>"

definition LoadFileToMem :: "win_os \<Rightarrow> filesys \<Rightarrow> wstr \<Rightarrow> bytes option" where
  "LoadFileToMem os fs pszFilename =
     (if open_existing os fs (wcs pszFilename) then fs_files fs (wcs pszFilename) else None)"

text \<open>
  \<open>pData\<close> is the \<open>iSize\<close> bytes written at the start of the file; an existing file is not truncated.
\<close>

definition SaveMemToFile :: "win_os \<Rightarrow> wstr \<Rightarrow> bytes \<Rightarrow> filesys \<Rightarrow> bool \<times> filesys" where
  "SaveMemToFile os pszFilename pData fs =
     (let p = wcs pszFilename in
      case open_always os fs p of
        None \<Rightarrow> (False, fs)
      | Some fs1 \<Rightarrow>
          if os_write os p
          then (True, fs_put p (overwrite 0 pData (case fs_files fs1 p of None \<Rightarrow> [] | Some d \<Rightarrow> d)) fs1)
          else (False, fs1))"

definition EnableCacheRead :: "bool \<Rightarrow> CModelCache \<Rightarrow> CModelCache" where
  "EnableCacheRead b c = c\<lparr>m_bEnableCacheRead := b\<rparr>"

definition EnableCacheStore :: "bool \<Rightarrow> CModelCache \<Rightarrow> CModelCache" where
  "EnableCacheStore b c = c\<lparr>m_bEnableCacheStore := b\<rparr>"

definition EnableCache :: "bool \<Rightarrow> CModelCache \<Rightarrow> CModelCache" where
  "EnableCache b c = EnableCacheStore b (EnableCacheRead b c)"

definition SetCacheFolder :: "wstr option \<Rightarrow> CModelCache \<Rightarrow> CModelCache outcome" where
  "SetCacheFolder pszFolder c = (case pszFolder of
      None \<Rightarrow> Done c
    | Some f \<Rightarrow> if length (wcs f) < MAX_PATH then Done (c\<lparr>m_szCacheFolder := wcs f\<rparr>) else UB)"

text \<open>GetEntry, with the entry count and index as the 32-bit \<open>int\<close> of the code.\<close>

definition GetEntryCount :: "CModelCache \<Rightarrow> int" where
  "GetEntryCount c = sint (of_nat (length (m_CacheTable c)) :: u32)"

definition GetEntry :: "int \<Rightarrow> CModelCache \<Rightarrow> CACHE_ENTRY option" where
  "GetEntry iEntry c =
     (if iEntry < 0 \<or> iEntry \<ge> GetEntryCount c then None else Some (m_CacheTable c ! nat iEntry))"

text \<open>
  Initialize: open cache.dat, creating the folder and an empty file when there is none, and read
  the whole entries it holds.
\<close>

definition init_path :: "wstr \<Rightarrow> CModelCache \<Rightarrow> wstr" where
  "init_path app c = app @ [0x5C] @ m_szCacheFolder c"

definition init_read :: "wstr \<Rightarrow> filesys \<Rightarrow> CModelCache \<Rightarrow> CModelCache" where
  "init_read szFile fs c =
     (let d = (case fs_files fs szFile of None \<Rightarrow> [] | Some d \<Rightarrow> d);
          iCount = length d div sizeof_CACHE_ENTRY
      in c\<lparr>m_hCacheFile := Some szFile,
           m_CacheTable := (if iCount \<noteq> 0 then dec_entries iCount d else m_CacheTable c)\<rparr>)"

definition Initialize :: "win_os \<Rightarrow> CModelCache \<Rightarrow> filesys \<Rightarrow> (bool \<times> CModelCache \<times> filesys) outcome" where
  "Initialize os c fs =
     (if m_hCacheFile c \<noteq> None then Done (False, c, fs)
      else case os_LocalAppData os of
        None \<Rightarrow> Done (False, c, fs)
      | Some app \<Rightarrow>
         (let path = init_path app c;
              szFile = path @ wide ''cache.dat'';
              c1 = c\<lparr>m_szCacheFullPath := path\<rparr>
          in if length szFile \<ge> MAX_PATH then UB
             else if open_existing os fs szFile then Done (True, init_read szFile fs c1, fs)
             else let fs1 = fs\<lparr>fs_dirs := List.insert path (fs_dirs fs)\<rparr>;
                      (ok, fs2) = SaveMemToFile os szFile [] fs1
                  in if \<not> ok then Done (False, c1, fs2)
                     else if \<not> open_existing os fs2 szFile then Done (False, c1, fs2)
                     else Done (True, init_read szFile fs2 c1, fs2)))"

fun search_from :: "nat \<Rightarrow> wstr \<Rightarrow> CACHE_ENTRY list \<Rightarrow> nat option" where
  "search_from i sub [] = None"
| "search_from i sub (e # es) =
     (if wcs (ce_szSibscriptionId e) = wcs sub then Some i else search_from (i + 1) sub es)"

text \<open>The index of the entry, None for the code's -1.\<close>

definition SearchInCache :: "wstr \<Rightarrow> CModelCache \<Rightarrow> nat option" where
  "SearchInCache strSubsid c =
     (if m_hCacheFile c = None then None
      else if \<not> m_bEnableCacheRead c then None
      else search_from 0 strSubsid (m_CacheTable c))"

definition make_entry :: "win_os \<Rightarrow> wstr \<Rightarrow> wstr \<Rightarrow> wstr \<Rightarrow> wstr \<Rightarrow> wstr \<Rightarrow> CACHE_ENTRY outcome" where
  "make_entry os sub mf af tf url =
     (let z = replicate MAX_PATH 0 in
      obind (wcscpy z sub) (\<lambda>a. obind (wcscpy z mf) (\<lambda>b. obind (wcscpy z af) (\<lambda>d.
      obind (wcscpy z tf) (\<lambda>e. obind (wcscpy z url) (\<lambda>f.
        Done \<lparr>ce_szSibscriptionId = a, ce_DateTime = os_time os, ce_dwHash = 0, ce_szModelFile = b,
              ce_szAdFile = d, ce_szThumbFile = e, ce_szAdUrl = f\<rparr>))))))"

definition save_opt :: "win_os \<Rightarrow> wstr \<Rightarrow> bytes option \<Rightarrow> filesys \<Rightarrow> bool \<times> filesys" where
  "save_opt os p d fs = (case d of None \<Rightarrow> (True, fs) | Some b \<Rightarrow> SaveMemToFile os p b fs)"

definition append_file :: "win_os \<Rightarrow> wstr \<Rightarrow> bytes \<Rightarrow> filesys \<Rightarrow> filesys" where
  "append_file os p bs fs =
     (if os_write os p then fs_put p ((case fs_files fs p of None \<Rightarrow> [] | Some d \<Rightarrow> d) @ bs) fs else fs)"

text \<open>The three files of a new entry: their names, then their contents.\<close>

definition temp3 :: "win_os \<Rightarrow> wstr \<Rightarrow> filesys \<Rightarrow> (wstr \<times> wstr \<times> wstr) option \<times> filesys" where
  "temp3 os dir fs = (case GetTempFileName os dir fs of
      None \<Rightarrow> (None, fs)
    | Some (mf, fs1) \<Rightarrow> (case GetTempFileName os dir fs1 of
          None \<Rightarrow> (None, fs1)
        | Some (af, fs2) \<Rightarrow> (case GetTempFileName os dir fs2 of
              None \<Rightarrow> (None, fs2)
            | Some (tf, fs3) \<Rightarrow> (Some (mf, af, tf), fs3))))"

definition save3 :: "win_os \<Rightarrow> (wstr \<times> wstr \<times> wstr) \<Rightarrow> bytes \<Rightarrow> bytes option \<Rightarrow> bytes option \<Rightarrow> filesys \<Rightarrow>
    bool \<times> filesys" where
  "save3 os names model ad thumb fs = (case names of (mf, af, tf) \<Rightarrow>
     (case SaveMemToFile os mf model fs of
        (False, fs1) \<Rightarrow> (False, fs1)
      | (True, fs1) \<Rightarrow> (case save_opt os af ad fs1 of
            (False, fs2) \<Rightarrow> (False, fs2)
          | (True, fs2) \<Rightarrow> save_opt os tf thumb fs2)))"

definition AddModelToCache :: "win_os \<Rightarrow> wstr \<Rightarrow> bytes option \<Rightarrow> bytes option \<Rightarrow> wstr \<Rightarrow> bytes option \<Rightarrow>
    CModelCache \<Rightarrow> filesys \<Rightarrow> (bool \<times> CModelCache \<times> filesys) outcome" where
  "AddModelToCache os strSubsid pModel pAd strAdUrl pThumb c fs =
     (case (m_hCacheFile c, pModel) of
        (Some h, Some model) \<Rightarrow>
          if \<not> m_bEnableCacheStore c then Done (False, c, fs)
          else if SearchInCache strSubsid c \<noteq> None then Done (False, c, fs)
          else (case temp3 os (m_szCacheFullPath c) fs of
              (None, fs1) \<Rightarrow> Done (False, c, fs1)
            | (Some (mf, af, tf), fs1) \<Rightarrow> (case save3 os (mf, af, tf) model pAd pThumb fs1 of
                  (False, fs2) \<Rightarrow> Done (False, c, fs2)
                | (True, fs2) \<Rightarrow> obind (make_entry os strSubsid mf af tf strAdUrl) (\<lambda>e.
                    Done (True, c\<lparr>m_CacheTable := m_CacheTable c @ [e]\<rparr>, append_file os h (enc_entry e) fs2))))
      | _ \<Rightarrow> Done (False, c, fs))"

text \<open>
  The caller's output variables of LoadModel: a buffer is NULL, allocated, or deleted with the
  pointer left in place.
\<close>

datatype buf = Null | Buf bytes | Freed

record load_out =
  lo_model :: buf
  lo_modelSize :: u32
  lo_ad :: buf
  lo_adSize :: u32
  lo_thumb :: buf
  lo_thumbSize :: u32

definition LoadModel :: "win_os \<Rightarrow> wstr \<Rightarrow> CModelCache \<Rightarrow> filesys \<Rightarrow> load_out option \<Rightarrow> (bool \<times> load_out option) outcome" where
  "LoadModel os strSubsid c fs outs =
     (if m_hCacheFile c = None then Done (False, outs)
      else case outs of None \<Rightarrow> Done (False, None)
      | Some o0 \<Rightarrow>
        if \<not> m_bEnableCacheRead c then Done (False, Some o0)
        else (case SearchInCache strSubsid c of
          None \<Rightarrow> Done (False, Some o0)
        | Some i \<Rightarrow>
          (let e = m_CacheTable c ! i in
           case LoadFileToMem os fs (ce_szModelFile e) of
             None \<Rightarrow> Done (False, Some o0)
           | Some m \<Rightarrow>
             (let o1 = o0\<lparr>lo_model := Buf m, lo_modelSize := of_nat (length m)\<rparr>;
                  o2 = (case LoadFileToMem os fs (ce_szAdFile e) of
                          None \<Rightarrow> o1\<lparr>lo_ad := Null, lo_adSize := 0\<rparr>
                        | Some a \<Rightarrow> o1\<lparr>lo_ad := Buf a, lo_adSize := of_nat (length a)\<rparr>)
              in case LoadFileToMem os fs (ce_szThumbFile e) of
                   Some t \<Rightarrow> Done (True, Some (o2\<lparr>lo_thumb := Buf t, lo_thumbSize := of_nat (length t)\<rparr>))
                 | None \<Rightarrow> (case lo_thumb o2 of
                       Freed \<Rightarrow> UB
                     | Null \<Rightarrow> Done (True, Some (o2\<lparr>lo_thumbSize := 0\<rparr>))
                     | Buf _ \<Rightarrow> Done (True, Some (o2\<lparr>lo_thumb := Freed, lo_thumbSize := 0\<rparr>)))))))"

definition AddAdToCache :: "win_os \<Rightarrow> wstr \<Rightarrow> bytes option \<Rightarrow> wstr \<Rightarrow> CModelCache \<Rightarrow> filesys \<Rightarrow>
    (bool \<times> CModelCache \<times> filesys) outcome" where
  "AddAdToCache os strSubsid pAd strAdUrl c fs =
     (case (m_hCacheFile c, pAd) of
        (Some h, Some ad) \<Rightarrow>
          if \<not> m_bEnableCacheStore c then Done (False, c, fs)
          else (case SearchInCache strSubsid c of
              None \<Rightarrow> Done (False, c, fs)
            | Some i \<Rightarrow>
              (let e = m_CacheTable c ! i in
               case SaveMemToFile os (ce_szAdFile e) ad fs of
                 (False, fs1) \<Rightarrow> Done (False, c, fs1)
               | (True, fs1) \<Rightarrow> obind (wcscpy (ce_szAdUrl e) strAdUrl) (\<lambda>url.
                   Done (True, c\<lparr>m_CacheTable := (m_CacheTable c)[i := e\<lparr>ce_szAdUrl := url\<rparr>]\<rparr>, fs1))))
      | _ \<Rightarrow> Done (False, c, fs))"

end
