(* ===== verification/ModelCacheProps.thy ===== *)
theory ModelCacheProps
  imports ModelCache
begin

text \<open>
  The cache keeps what was put into it. The locale \<open>write_once\<close> is the contract the viewer relies on
  (a stored download is found again and never changed by storing another); the
  interpretation shows that the cache with its files meets it. Then persistence: reopening
  cache.dat gives the table back, except for the URL of an advertisement added later.
\<close>

section \<open>The contract\<close>

locale write_once =
  fixes put :: "'k \<Rightarrow> 'v \<Rightarrow> 's \<Rightarrow> bool \<times> 's"
    and get :: "'s \<Rightarrow> 'k \<Rightarrow> 'w option"
    and stored :: "'v \<Rightarrow> 'w"
    and inv :: "'s \<Rightarrow> bool"
  assumes put_inv: "inv s \<Longrightarrow> inv (snd (put k v s))"
    and put_get: "inv s \<Longrightarrow> fst (put k v s) \<Longrightarrow> get (snd (put k v s)) k = Some (stored v)"
    and put_keep: "inv s \<Longrightarrow> get s k' = Some w \<Longrightarrow> get (snd (put k v s)) k' = Some w"
    and put_once: "inv s \<Longrightarrow> get s k = Some w \<Longrightarrow> \<not> fst (put k v s)"
begin

definition puts :: "('k \<times> 'v) list \<Rightarrow> 's \<Rightarrow> 's" where
  "puts kvs s = fold (\<lambda>(k, v) s. snd (put k v s)) kvs s"

lemma puts_inv: "inv s \<Longrightarrow> inv (puts kvs s)"
  unfolding puts_def by (induction kvs arbitrary: s) (auto simp: put_inv)

lemma puts_keep: "inv s \<Longrightarrow> get s k = Some w \<Longrightarrow> get (puts kvs s) k = Some w"
  unfolding puts_def by (induction kvs arbitrary: s) (auto simp: put_inv put_keep)

text \<open>The first successful store of a key wins, whatever is stored after it.\<close>

lemma first_put_wins:
  "inv s \<Longrightarrow> fst (put k v s) \<Longrightarrow> get (puts kvs (snd (put k v s))) k = Some (stored v)"
  by (simp add: puts_keep put_inv put_get)

lemma no_second_put: "inv s \<Longrightarrow> fst (put k v s) \<Longrightarrow> \<not> fst (put k v' (puts kvs (snd (put k v s))))"
  by (rule put_once [OF puts_inv [OF put_inv] first_put_wins])

end

section \<open>Encoding of entries\<close>

lemma length_wbytes [simp, lens]: "length (wbytes s) = 2 * length s"
  by (induction s) (simp_all add: wbytes_def le16_def)

lemma word16_split: "ucast (ucast w :: byte) OR push_bit 8 (ucast (ucast (drop_bit 8 w) :: byte)) = (w :: wchar)"
proof (rule bit_word_eqI)
  fix n assume "n < LENGTH(16)"
  then have n: "n < 16" by simp
  then consider "n < 8" | "8 \<le> n" by linarith
  then show "bit (ucast (ucast w :: byte) OR push_bit 8 (ucast (ucast (drop_bit 8 w) :: byte)) :: wchar) n \<longleftrightarrow> bit w n"
    using n by cases (auto simp: bit_simps less_diff_conv2)
qed

lemma bytes_w_wbytes [simp]: "n = length s \<Longrightarrow> bytes_w n (wbytes s) = s"
  by (induction s arbitrary: n) (simp_all add: wbytes_def le16_def word16_split)

interpretation ent: file_struct enc_entry dec_entry sizeof_CACHE_ENTRY entry_wf
  by unfold_locales
    (simp_all add: enc_entry_def dec_entry_def entry_wf_def sizeof_CACHE_ENTRY_def MAX_PATH_def slices)

definition table_bytes :: "CACHE_ENTRY list \<Rightarrow> bytes" where
  "table_bytes es = concat (map enc_entry es)"

lemma length_table_bytes: "\<forall>e\<in>set es. entry_wf e \<Longrightarrow> length (table_bytes es) = sizeof_CACHE_ENTRY * length es"
  by (induction es) (simp_all add: table_bytes_def ent.enc_size)

lemma dec_table: "\<forall>e\<in>set es. entry_wf e \<Longrightarrow> dec_entries (length es) (table_bytes es) = es"
  by (induction es) (simp_all add: table_bytes_def ent.enc_size ent.dec_enc)

section \<open>Strings and lookups\<close>

lemma wcs_no_NUL: "0 \<notin> set (wcs s)"
  by (auto simp: wcs_def dest: set_takeWhileD)

lemma wcs_id: "0 \<notin> set s \<Longrightarrow> wcs s = s"
  by (auto simp: wcs_def)

lemma wcs_append_NUL: "0 \<notin> set t \<Longrightarrow> wcs (t @ 0 # r) = t"
  by (induction t) (auto simp: wcs_def)

lemma wcscpy_Done: "wcscpy arr s = Done a \<Longrightarrow> wcs a = wcs s \<and> length a = length arr"
  by (auto simp: wcscpy_def Let_def wcs_append_NUL wcs_no_NUL split: if_splits)

lemma search_append:
  "search_from i sub (xs @ ys) =
     (case search_from i sub xs of Some j \<Rightarrow> Some j | None \<Rightarrow> search_from (i + length xs) sub ys)"
  by (induction xs arbitrary: i) (auto split: option.splits)

lemma search_Some:
  "search_from i sub es = Some j \<Longrightarrow> i \<le> j \<and> j < i + length es \<and> wcs (ce_szSibscriptionId (es ! (j - i))) = wcs sub"
proof (induction es arbitrary: i)
  case (Cons e es)
  show ?case
  proof (cases "wcs (ce_szSibscriptionId e) = wcs sub")
    case False
    with Cons have "search_from (i + 1) sub es = Some j" by simp
    from Cons.IH [OF this] show ?thesis by (auto simp: nth_Cons' Suc_diff_Suc)
  qed (use Cons.prems in auto)
qed simp

section \<open>The files of the entries\<close>

definition files_of :: "CACHE_ENTRY \<Rightarrow> wstr list" where
  "files_of e = [wcs (ce_szModelFile e), wcs (ce_szAdFile e), wcs (ce_szThumbFile e)]"

definition table_files :: "CModelCache \<Rightarrow> wstr list" where
  "table_files c = concat (map files_of (m_CacheTable c))"

definition cache_inv :: "win_os \<Rightarrow> CModelCache \<times> filesys \<Rightarrow> bool" where
  "cache_inv os s \<longleftrightarrow> (case s of (c, fs) \<Rightarrow>
     os_ok os \<and> m_bEnableCacheStore c \<and> m_bEnableCacheRead c \<and>
     (\<exists>h. m_hCacheFile c = Some h \<and> fs_files fs h \<noteq> None \<and> h \<notin> set (table_files c)) \<and>
     distinct (table_files c) \<and> (\<forall>p\<in>set (table_files c). open_existing os fs p) \<and>
     (\<forall>e\<in>set (m_CacheTable c). entry_wf e))"

text \<open>\<open>fs'\<close> has the files of \<open>fs\<close>, unchanged outside \<open>P\<close>.\<close>

definition fs_keeps :: "wstr set \<Rightarrow> filesys \<Rightarrow> filesys \<Rightarrow> bool" where
  "fs_keeps P fs fs' \<longleftrightarrow> (\<forall>p. fs_files fs p \<noteq> None \<longrightarrow> fs_files fs' p \<noteq> None \<and> (p \<notin> P \<longrightarrow> fs_files fs' p = fs_files fs p))"

lemma fs_keeps_refl: "fs_keeps P fs fs"
  by (simp add: fs_keeps_def)

lemma fs_keeps_trans: "fs_keeps P a b \<Longrightarrow> fs_keeps P b d \<Longrightarrow> fs_keeps P a d"
  by (auto simp: fs_keeps_def)

lemma fs_keeps_mono: "fs_keeps P a b \<Longrightarrow> P \<subseteq> Q \<Longrightarrow> fs_keeps Q a b"
  by (auto simp: fs_keeps_def)

lemma fs_keeps_fresh:
  "fs_keeps {} a b \<Longrightarrow> fs_keeps P b d \<Longrightarrow> \<forall>p\<in>P. fs_files a p = None \<Longrightarrow> fs_keeps {} a d"
  unfolding fs_keeps_def by (metis empty_iff)

lemma fs_keeps_put: "fs_keeps {p} fs (fs_put p d fs)"
  by (simp add: fs_keeps_def fs_put_def)

lemma save_keeps: "fs_keeps {wcs p} fs (snd (SaveMemToFile os p d fs))"
  by (auto simp: SaveMemToFile_def open_always_def Let_def fs_keeps_def fs_put_def split: option.splits)

lemma save_opt_keeps: "fs_keeps {wcs p} fs (snd (save_opt os p d fs))"
  by (cases d) (simp_all add: save_opt_def save_keeps fs_keeps_refl)

lemma save_True:
  "SaveMemToFile os p d fs = (True, fs') \<Longrightarrow>
     fs_files fs' = (fs_files fs)(wcs p \<mapsto> overwrite 0 d (case fs_files fs (wcs p) of None \<Rightarrow> [] | Some x \<Rightarrow> x))"
  by (auto simp: SaveMemToFile_def open_always_def Let_def fs_put_def split: option.splits if_splits)

text \<open>Saving over an existing file: the first bytes are replaced, the rest of a longer file stays.\<close>

lemma overwrite_0: "overwrite 0 d x = d @ drop (length d) x"
  by (simp add: overwrite_def)

definition fresh :: "win_os \<Rightarrow> filesys \<Rightarrow> wstr \<Rightarrow> bool" where
  "fresh os fs t \<longleftrightarrow> fs_files fs t = None \<and> length t < MAX_PATH \<and> wcs t = t \<and> os_access os t"

lemma temp_fresh:
  "os_ok os \<Longrightarrow> GetTempFileName os dir fs = Some (t, fs') \<Longrightarrow> fresh os fs t \<and> fs' = fs_put t [] fs"
  by (auto simp: GetTempFileName_def os_ok_def fresh_def wcs_id split: option.splits)

lemma fs_put_files: "fs_files (fs_put p d fs) = (fs_files fs)(p \<mapsto> d)"
  by (simp add: fs_put_def)

lemma temp3_fresh:
  assumes "os_ok os" "temp3 os dir fs = (Some (mf, af, tf), fs')"
  shows "distinct [mf, af, tf] \<and> fresh os fs mf \<and> fresh os fs af \<and> fresh os fs tf \<and>
    fs_files fs' = (fs_files fs)(mf \<mapsto> [], af \<mapsto> [], tf \<mapsto> [])"
proof -
  from assms(2) obtain fs1 fs2 where
    "GetTempFileName os dir fs = Some (mf, fs1)" "GetTempFileName os dir fs1 = Some (af, fs2)"
    "GetTempFileName os dir fs2 = Some (tf, fs')"
    by (auto simp: temp3_def split: option.splits prod.splits)
  note t = this [THEN temp_fresh [OF assms(1)]]
  then show ?thesis by (auto simp: fresh_def fs_put_files split: if_splits)
qed

lemma temp3_keeps:
  assumes "os_ok os" "temp3 os dir fs = (r, fs')"
  shows "fs_keeps {} fs fs'"
proof -
  have new: "fs_keeps {} a b" if "GetTempFileName os dir a = Some (t, b)" for a b t
    using temp_fresh [OF assms(1) that] by (auto simp: fs_keeps_def fresh_def fs_put_files)
  show ?thesis
    using assms(2) by (auto simp: temp3_def split: option.splits prod.splits
        dest!: new intro: fs_keeps_refl fs_keeps_trans)
qed

lemma save3_keeps:
  assumes "wcs mf = mf" "wcs af = af" "wcs tf = tf"
  shows "fs_keeps {mf, af, tf} fs (snd (save3 os (mf, af, tf) model ad thumb fs))"
proof -
  obtain b1 fs1 where 1: "SaveMemToFile os mf model fs = (b1, fs1)" by fastforce
  obtain b2 fs2 where 2: "save_opt os af ad fs1 = (b2, fs2)" by fastforce
  have k: "fs_keeps {mf, af, tf} fs fs1" "fs_keeps {mf, af, tf} fs1 fs2"
    "fs_keeps {mf, af, tf} fs2 (snd (save_opt os tf thumb fs2))"
    using save_keeps [of mf fs os model] save_opt_keeps [of af fs1 os ad] save_opt_keeps [of tf fs2 os thumb] 1 2 assms
    by (auto intro: fs_keeps_mono)
  then show ?thesis
    using 1 2 fs_keeps_trans [OF k(1,2)] fs_keeps_trans [OF fs_keeps_trans [OF k(1,2)] k(3)]
    by (auto simp: save3_def split: bool.splits)
qed

text \<open>What the three files hold after a successful store: an absent advertisement or thumbnail is empty.\<close>

lemma save_opt_True:
  "save_opt os p d fs = (True, fs') \<Longrightarrow> wcs p = p \<Longrightarrow> fs_files fs p = Some [] \<Longrightarrow>
     fs_files fs' = (fs_files fs)(p \<mapsto> case_option [] id d)"
  by (cases d) (auto simp: save_opt_def overwrite_0 dest!: save_True)

lemma save3_True:
  assumes "save3 os (mf, af, tf) model ad thumb fs = (True, fs')" "distinct [mf, af, tf]"
    "wcs mf = mf" "wcs af = af" "wcs tf = tf"
    "fs_files fs mf = Some []" "fs_files fs af = Some []" "fs_files fs tf = Some []"
  shows "fs_files fs' = (fs_files fs)(mf \<mapsto> model, af \<mapsto> case_option [] id ad, tf \<mapsto> case_option [] id thumb)"
proof -
  from assms(1) obtain fs1 fs2 where s: "SaveMemToFile os mf model fs = (True, fs1)"
    "save_opt os af ad fs1 = (True, fs2)" "save_opt os tf thumb fs2 = (True, fs')"
    by (auto simp: save3_def split: prod.splits bool.splits)
  have f1: "fs_files fs1 = (fs_files fs)(mf \<mapsto> model)"
    using save_True [OF s(1)] assms by (simp add: overwrite_0)
  have f2: "fs_files fs2 = (fs_files fs1)(af \<mapsto> case_option [] id ad)"
    using save_opt_True [OF s(2)] assms f1 by auto
  have "fs_files fs' = (fs_files fs2)(tf \<mapsto> case_option [] id thumb)"
    using save_opt_True [OF s(3)] assms f1 f2 by auto
  then show ?thesis using f1 f2 by simp
qed

section \<open>Adding a model\<close>

lemma make_entry_Done:
  assumes "make_entry os sub mf af tf url = Done e" "length (os_time os) = 16"
    "wcs mf = mf" "wcs af = af" "wcs tf = tf"
  shows "entry_wf e \<and> wcs (ce_szSibscriptionId e) = wcs sub \<and> files_of e = [mf, af, tf] \<and>
    wcs (ce_szAdUrl e) = wcs url"
  using assms unfolding make_entry_def Let_def
  by (auto simp: entry_wf_def files_of_def elim!: obind_DoneE dest!: wcscpy_Done)

lemma add_model_False:
  assumes "cache_inv os (c, fs)" "AddModelToCache os sub pM pA url pT c fs = Done (False, c', fs')"
  shows "c' = c \<and> fs_keeps {} fs fs'"
proof (cases "m_hCacheFile c = None \<or> pM = None \<or> \<not> m_bEnableCacheStore c \<or> SearchInCache sub c \<noteq> None")
  case True
  then show ?thesis using assms(2)
    by (auto simp: AddModelToCache_def fs_keeps_refl split: option.splits if_splits)
next
  case False
  have ok: "os_ok os" using assms(1) by (simp add: cache_inv_def)
  obtain r fs1 where t: "temp3 os (m_szCacheFullPath c) fs = (r, fs1)" by fastforce
  show ?thesis
  proof (cases r)
    case None
    then show ?thesis using assms(2) False t temp3_keeps [OF ok t]
      by (auto simp: AddModelToCache_def split: option.splits)
  next
    case (Some n)
    obtain mf af tf where n: "n = (mf, af, tf)" by (cases n)
    obtain model where m: "pM = Some model" using False by auto
    obtain b fs2 where s: "save3 os (mf, af, tf) model pA pT fs1 = (b, fs2)" by fastforce
    note fr = temp3_fresh [OF ok t [unfolded Some n]]
    have k3: "fs_keeps {mf, af, tf} fs1 fs2"
      using save3_keeps [of mf af tf fs1 os model pA pT] fr s by (simp add: fresh_def)
    have "\<forall>p\<in>{mf, af, tf}. fs_files fs p = None" using fr by (simp add: fresh_def)
    then have "fs_keeps {} fs fs2" by (rule fs_keeps_fresh [OF temp3_keeps [OF ok t] k3])
    then show ?thesis using assms(2) False t Some n m s
      by (cases b) (auto simp: AddModelToCache_def split: option.splits elim!: obind_DoneE)
  qed
qed

lemma add_model_True:
  assumes "cache_inv os (c, fs)" "AddModelToCache os sub pM pA url pT c fs = Done (True, c', fs')"
  obtains h model mf af tf e where "m_hCacheFile c = Some h" "pM = Some model" "SearchInCache sub c = None"
    "entry_wf e" "wcs (ce_szSibscriptionId e) = wcs sub" "files_of e = [mf, af, tf]"
    "wcs (ce_szAdUrl e) = wcs url"
    "distinct [mf, af, tf]" "fresh os fs mf" "fresh os fs af" "fresh os fs tf"
    "c' = c\<lparr>m_CacheTable := m_CacheTable c @ [e]\<rparr>"
    "fs_files fs' = (let f = (fs_files fs)(mf \<mapsto> model, af \<mapsto> case_option [] id pA, tf \<mapsto> case_option [] id pT)
       in if os_write os h then f(h \<mapsto> the (fs_files fs h) @ enc_entry e) else f)"
proof -
  have ok: "os_ok os" and h0: "\<exists>h. m_hCacheFile c = Some h \<and> fs_files fs h \<noteq> None"
    using assms(1) by (auto simp: cache_inv_def)
  from assms(2) obtain h model mf af tf fs1 fs2 e where
    h: "m_hCacheFile c = Some h" and m: "pM = Some model" and s: "SearchInCache sub c = None"
    and t: "temp3 os (m_szCacheFullPath c) fs = (Some (mf, af, tf), fs1)"
    and sv: "save3 os (mf, af, tf) model pA pT fs1 = (True, fs2)"
    and e: "make_entry os sub mf af tf url = Done e"
    and r: "c' = c\<lparr>m_CacheTable := m_CacheTable c @ [e]\<rparr>" "fs' = append_file os h (enc_entry e) fs2"
    by (auto simp: AddModelToCache_def split: option.splits if_splits prod.splits bool.splits elim!: obind_DoneE)
  note fr = temp3_fresh [OF ok t]
  have w: "wcs mf = mf" "wcs af = af" "wcs tf = tf" using fr by (simp_all add: fresh_def)
  have f2: "fs_files fs2 = (fs_files fs1)(mf \<mapsto> model, af \<mapsto> case_option [] id pA, tf \<mapsto> case_option [] id pT)"
    using save3_True [OF sv] fr w by auto
  have "h \<noteq> mf" "h \<noteq> af" "h \<noteq> tf" using h0 h fr by (auto simp: fresh_def)
  then have "fs_files fs2 h = fs_files fs h" using f2 fr by simp
  then have "fs_files fs' = (let f = (fs_files fs)(mf \<mapsto> model, af \<mapsto> case_option [] id pA, tf \<mapsto> case_option [] id pT)
       in if os_write os h then f(h \<mapsto> the (fs_files fs h) @ enc_entry e) else f)"
    using h0 h f2 fr r(2) by (auto simp: append_file_def fs_put_files Let_def fun_eq_iff)
  moreover have "length (os_time os) = 16" using ok by (simp add: os_ok_def)
  ultimately show ?thesis
    using that h m s r(1) fr make_entry_Done [OF e _ w] by blast
qed

text \<open>The table of a cache and what a lookup gives for each entry's key.\<close>

definition null_out :: load_out where
  "null_out = \<lparr>lo_model = Null, lo_modelSize = 0, lo_ad = Null, lo_adSize = 0, lo_thumb = Null, lo_thumbSize = 0\<rparr>"

definition cache_get :: "win_os \<Rightarrow> CModelCache \<times> filesys \<Rightarrow> wstr \<Rightarrow> (buf \<times> buf \<times> buf) option" where
  "cache_get os s sub = (case s of (c, fs) \<Rightarrow> (case LoadModel os sub c fs (Some null_out) of
      Done (True, Some r) \<Rightarrow> Some (lo_model r, lo_ad r, lo_thumb r)
    | _ \<Rightarrow> None))"

type_synonym cache_val = "bytes \<times> bytes option \<times> wstr \<times> bytes option"

definition cache_put :: "win_os \<Rightarrow> wstr \<Rightarrow> cache_val \<Rightarrow> CModelCache \<times> filesys \<Rightarrow> bool \<times> CModelCache \<times> filesys" where
  "cache_put os sub v s = (case v of (model, ad, url, thumb) \<Rightarrow> (case s of (c, fs) \<Rightarrow>
     (case AddModelToCache os sub (Some model) ad url thumb c fs of
        Done r \<Rightarrow> r
      | _ \<Rightarrow> (False, c, fs))))"

definition cache_stored :: "cache_val \<Rightarrow> buf \<times> buf \<times> buf" where
  "cache_stored v = (case v of (model, ad, url, thumb) \<Rightarrow>
     (Buf model, Buf (case_option [] id ad), Buf (case_option [] id thumb)))"

lemma table_files_nth:
  assumes "i < length (m_CacheTable c)"
  shows "set (files_of (m_CacheTable c ! i)) \<subseteq> set (table_files c)"
  using nth_mem [OF assms] by (auto simp: table_files_def)

lemma load_open: "open_existing os fs (wcs p) \<Longrightarrow> LoadFileToMem os fs p = Some (the (fs_files fs (wcs p)))"
  by (auto simp: LoadFileToMem_def open_existing_def)

lemma cache_get_entry:
  assumes "cache_inv os (c, fs)" "SearchInCache sub c = Some i"
  shows "cache_get os (c, fs) sub = (case m_CacheTable c ! i of e \<Rightarrow>
    Some (Buf (the (fs_files fs (wcs (ce_szModelFile e)))), Buf (the (fs_files fs (wcs (ce_szAdFile e)))),
      Buf (the (fs_files fs (wcs (ce_szThumbFile e))))))"
proof -
  have i: "i < length (m_CacheTable c)"
    using assms(2) search_Some [of 0 sub "m_CacheTable c" i] by (auto simp: SearchInCache_def split: if_splits)
  have "\<forall>p\<in>set (files_of (m_CacheTable c ! i)). open_existing os fs p"
    using table_files_nth [OF i] assms(1) by (auto simp: cache_inv_def)
  then show ?thesis
    using assms by (auto simp: cache_get_def LoadModel_def Let_def files_of_def load_open null_out_def cache_inv_def)
qed

lemma cache_get_None:
  "SearchInCache sub c = None \<Longrightarrow> cache_get os (c, fs) sub = None"
  by (auto simp: cache_get_def LoadModel_def split: option.splits if_splits)

lemma inv_search: "cache_inv os (c, fs) \<Longrightarrow> SearchInCache sub c = search_from 0 sub (m_CacheTable c)"
  by (auto simp: cache_inv_def SearchInCache_def)

lemma inv_keeps:
  assumes "cache_inv os (c, fs)" "fs_keeps {} fs fs'"
  shows "cache_inv os (c, fs')"
  using assms by (fastforce simp: cache_inv_def fs_keeps_def open_existing_def)

lemma get_keeps:
  assumes "cache_inv os (c, fs)" "fs_keeps {} fs fs'"
  shows "cache_get os (c, fs') k = cache_get os (c, fs) k"
proof (cases "SearchInCache k c")
  case (Some i)
  have i: "i < length (m_CacheTable c)"
    using Some search_Some [of 0 k "m_CacheTable c" i] by (auto simp: SearchInCache_def split: if_splits)
  have "\<forall>p\<in>set (files_of (m_CacheTable c ! i)). fs_files fs' p = fs_files fs p"
    using table_files_nth [OF i] assms by (fastforce simp: cache_inv_def fs_keeps_def open_existing_def)
  then show ?thesis
    using cache_get_entry [OF assms(1) Some] cache_get_entry [OF inv_keeps [OF assms] Some]
    by (simp add: files_of_def)
qed (simp add: cache_get_None)

lemma add_model_inv:
  assumes "cache_inv os (c, fs)" "AddModelToCache os sub pM pA url pT c fs = Done (True, c', fs')"
  shows "cache_inv os (c', fs')"
proof -
  from add_model_True [OF assms] obtain h model mf af tf e where
    h: "m_hCacheFile c = Some h" and e: "entry_wf e" "files_of e = [mf, af, tf]" "distinct [mf, af, tf]"
      "fresh os fs mf" "fresh os fs af" "fresh os fs tf"
    and c': "c' = c\<lparr>m_CacheTable := m_CacheTable c @ [e]\<rparr>"
    and f: "fs_files fs' = (let f = (fs_files fs)(mf \<mapsto> model, af \<mapsto> case_option [] id pA, tf \<mapsto> case_option [] id pT)
       in if os_write os h then f(h \<mapsto> the (fs_files fs h) @ enc_entry e) else f)"
    by metis
  have tf: "table_files c' = table_files c @ [mf, af, tf]" by (simp add: table_files_def c' e(2))
  have old: "\<forall>p\<in>set (table_files c). fs_files fs p \<noteq> None" "fs_files fs h \<noteq> None" "h \<notin> set (table_files c)"
    using assms(1) h by (auto simp: cache_inv_def open_existing_def)
  have new: "\<forall>p\<in>{mf, af, tf}. p \<notin> set (table_files c) \<and> p \<noteq> h"
    using old e(4-6) by (auto simp: fresh_def)
  then have "distinct (table_files c')" using tf e(3) assms(1) by (auto simp: cache_inv_def)
  moreover have "\<forall>p\<in>set (table_files c'). open_existing os fs' p"
    using assms(1) e(4-6) tf f by (auto simp: cache_inv_def open_existing_def fresh_def Let_def)
  moreover have "fs_files fs' h \<noteq> None" "h \<notin> set (table_files c')"
    using old new tf f by (auto simp: Let_def)
  ultimately show ?thesis using assms(1) h c' e(1) by (auto simp: cache_inv_def)
qed

lemma add_model_files:
  assumes "cache_inv os (c, fs)" "AddModelToCache os sub pM pA url pT c fs = Done (True, c', fs')"
    "p \<in> set (table_files c)"
  shows "fs_files fs' p = fs_files fs p"
proof -
  from assms(1,3) have p: "fs_files fs p \<noteq> None" by (auto simp: cache_inv_def open_existing_def)
  have h: "m_hCacheFile c \<noteq> Some p" using assms(1,3) by (auto simp: cache_inv_def)
  from add_model_True [OF assms(1,2)] obtain h' model mf af tf e where
    h': "m_hCacheFile c = Some h'" and e: "fresh os fs mf" "fresh os fs af" "fresh os fs tf"
    and f: "fs_files fs' = (let f = (fs_files fs)(mf \<mapsto> model, af \<mapsto> case_option [] id pA, tf \<mapsto> case_option [] id pT)
       in if os_write os h' then f(h' \<mapsto> the (fs_files fs h') @ enc_entry e) else f)" by metis
  have "p \<notin> {h', mf, af, tf}" using p h h' e by (auto simp: fresh_def)
  then show ?thesis using f by (simp add: Let_def)
qed

lemma search_snoc:
  "search_from i sub (es @ [e]) = (case search_from i sub es of Some j \<Rightarrow> Some j
     | None \<Rightarrow> if wcs (ce_szSibscriptionId e) = wcs sub then Some (i + length es) else None)"
  by (simp add: search_append split: option.splits)

lemma add_model_get:
  assumes "cache_inv os (c, fs)" "AddModelToCache os sub (Some model) pA url pT c fs = Done (True, c', fs')"
  shows "cache_get os (c', fs') sub = Some (Buf model, Buf (case_option [] id pA), Buf (case_option [] id pT))"
proof -
  from add_model_True [OF assms] obtain h mf af tf e where
    h: "m_hCacheFile c = Some h" "SearchInCache sub c = None" and e: "wcs (ce_szSibscriptionId e) = wcs sub"
      "files_of e = [mf, af, tf]" "distinct [mf, af, tf]" "fresh os fs mf" "fresh os fs af" "fresh os fs tf"
    and c': "c' = c\<lparr>m_CacheTable := m_CacheTable c @ [e]\<rparr>"
    and f: "fs_files fs' = (let f = (fs_files fs)(mf \<mapsto> model, af \<mapsto> case_option [] id pA, tf \<mapsto> case_option [] id pT)
       in if os_write os h then f(h \<mapsto> the (fs_files fs h) @ enc_entry e) else f)"
    by (metis option.inject)
  have inv': "cache_inv os (c', fs')" by (rule add_model_inv [OF assms])
  have s: "SearchInCache sub c' = Some (length (m_CacheTable c))"
    using h(2) e(1) unfolding inv_search [OF inv'] inv_search [OF assms(1)] by (simp add: search_snoc c')
  have "fs_files fs h \<noteq> None" using assms(1) h(1) by (auto simp: cache_inv_def)
  then have "h \<notin> {mf, af, tf}" using e(4-6) by (auto simp: fresh_def)
  then have "fs_files fs' mf = Some model" "fs_files fs' af = Some (case_option [] id pA)"
    "fs_files fs' tf = Some (case_option [] id pT)" using f e(3) by (auto simp: Let_def)
  then show ?thesis using cache_get_entry [OF inv' s] e(2) by (simp add: c' files_of_def)
qed

lemma add_model_keep:
  assumes "cache_inv os (c, fs)" "AddModelToCache os sub pM pA url pT c fs = Done (True, c', fs')"
    "cache_get os (c, fs) k = Some w"
  shows "cache_get os (c', fs') k = Some w"
proof -
  obtain i where s: "SearchInCache k c = Some i" using assms(3) cache_get_None by fastforce
  have i: "i < length (m_CacheTable c)"
    using s search_Some [of 0 k "m_CacheTable c" i] by (auto simp: SearchInCache_def split: if_splits)
  from add_model_True [OF assms(1,2)] obtain e where c': "c' = c\<lparr>m_CacheTable := m_CacheTable c @ [e]\<rparr>"
    by metis
  have inv': "cache_inv os (c', fs')" by (rule add_model_inv [OF assms(1,2)])
  have s': "SearchInCache k c' = Some i"
    using s unfolding inv_search [OF inv'] inv_search [OF assms(1)] by (simp add: search_snoc c')
  have "\<forall>p\<in>set (files_of (m_CacheTable c ! i)). fs_files fs' p = fs_files fs p"
    using add_model_files [OF assms(1,2)] table_files_nth [OF i] by blast
  then show ?thesis
    using cache_get_entry [OF assms(1) s] cache_get_entry [OF inv' s'] assms(3) i
    by (simp add: c' nth_append files_of_def)
qed

text \<open>What \<open>cache_put\<close> does: a successful AddModelToCache, or no visible change.\<close>

lemma cache_put_cases:
  assumes "cache_inv os (c, fs)" "cache_put os sub (model, ad, url, thumb) (c, fs) = (b, c', fs')"
  shows "if b then AddModelToCache os sub (Some model) ad url thumb c fs = Done (True, c', fs')
    else c' = c \<and> fs_keeps {} fs fs'"
  using assms add_model_False [OF assms(1), of sub "Some model" ad url thumb]
  by (cases "AddModelToCache os sub (Some model) ad url thumb c fs")
    (auto simp: cache_put_def fs_keeps_refl)

interpretation cache: write_once "cache_put os" "cache_get os" cache_stored "cache_inv os" for os
proof unfold_locales
  fix s :: "CModelCache \<times> filesys" and k k' w and v :: cache_val
  assume inv: "cache_inv os s"
  obtain c fs model ad url thumb b c' fs' where s: "s = (c, fs)" and v: "v = (model, ad, url, thumb)"
    and r: "cache_put os k v s = (b, c', fs')" by (metis prod.exhaust)
  note cs = cache_put_cases [OF inv [unfolded s] r [unfolded s v]]
  have yes: "AddModelToCache os k (Some model) ad url thumb c fs = Done (True, c', fs')" if b
    using cs that by simp
  have no: "c' = c" "fs_keeps {} fs fs'" if "\<not> b" using cs that by simp_all
  note ia = add_model_inv [OF inv [unfolded s]] and ga = add_model_get [OF inv [unfolded s]]
    and ka = add_model_keep [OF inv [unfolded s]]
  have i2: "cache_inv os (c', fs')"
  proof (cases b)
    case True
    show ?thesis by (rule ia [OF yes [OF True]])
  next
    case False
    show ?thesis unfolding no(1) [OF False] by (rule inv_keeps [OF inv [unfolded s] no(2) [OF False]])
  qed
  then show "cache_inv os (snd (cache_put os k v s))" using r by simp
  show "cache_get os (snd (cache_put os k v s)) k = Some (cache_stored v)" if "fst (cache_put os k v s)"
    using ga [OF yes] that r by (simp add: v cache_stored_def)
  show "cache_get os (snd (cache_put os k v s)) k' = Some w" if g: "cache_get os s k' = Some w"
  proof (cases b)
    case True
    then show ?thesis using ka [OF yes [OF True]] g r by (simp add: s)
  next
    case False
    then show ?thesis using get_keeps [OF inv [unfolded s] no(2) [OF False]] no(1) [OF False] g r by (simp add: s)
  qed
  show "\<not> fst (cache_put os k v s)" if "cache_get os s k = Some w"
  proof
    assume "fst (cache_put os k v s)"
    then have b using r by simp
    from add_model_True [OF inv [unfolded s] yes [OF this]] have "SearchInCache k c = None" by metis
    then show False using that cache_get_None by (simp add: s)
  qed
qed

section \<open>Persistence\<close>

text \<open>cache.dat holds exactly the table.\<close>

definition synced :: "CModelCache \<Rightarrow> filesys \<Rightarrow> bool" where
  "synced c fs \<longleftrightarrow> (\<exists>h. m_hCacheFile c = Some h \<and> fs_files fs h = Some (table_bytes (m_CacheTable c)))"

lemma synced_add:
  assumes "cache_inv os (c, fs)" "synced c fs" "m_hCacheFile c = Some h" "os_write os h"
    "AddModelToCache os sub pM pA url pT c fs = Done (True, c', fs')"
  shows "synced c' fs'"
proof -
  from add_model_True [OF assms(1,5)] obtain h' model mf af tf e where
    h': "m_hCacheFile c = Some h'" and c': "c' = c\<lparr>m_CacheTable := m_CacheTable c @ [e]\<rparr>"
    and f: "fs_files fs' = (let f = (fs_files fs)(mf \<mapsto> model, af \<mapsto> case_option [] id pA, tf \<mapsto> case_option [] id pT)
       in if os_write os h' then f(h' \<mapsto> the (fs_files fs h') @ enc_entry e) else f)" by metis
  then show ?thesis using assms(2-4) by (simp add: synced_def c' table_bytes_def)
qed

definition cache_dat :: "wstr \<Rightarrow> wstr \<Rightarrow> wstr" where
  "cache_dat app folder = app @ [0x5C] @ folder @ wide ''cache.dat''"

lemma init_reads_table:
  assumes "fs_files fs p = Some (table_bytes es)" "\<forall>e\<in>set es. entry_wf e" "m_CacheTable c = []"
  shows "m_CacheTable (init_read p fs c) = es"
proof -
  have "length (table_bytes es) div sizeof_CACHE_ENTRY = length es"
    using length_table_bytes [OF assms(2)] by (simp add: sizeof_CACHE_ENTRY_def)
  then show ?thesis using assms by (simp add: init_read_def Let_def dec_table)
qed

lemma reopen:
  assumes "os_LocalAppData os = Some app" "length (cache_dat app folder) < MAX_PATH"
    "open_existing os fs (cache_dat app folder)"
    "fs_files fs (cache_dat app folder) = Some (table_bytes es)" "\<forall>e\<in>set es. entry_wf e"
  shows "\<exists>c. Initialize os (CModelCache_new\<lparr>m_szCacheFolder := folder\<rparr>) fs = Done (True, c, fs) \<and>
    m_CacheTable c = es"
  using assms init_reads_table [OF assms(4,5)]
  by (simp add: Initialize_def init_path_def cache_dat_def CModelCache_new_def)

section \<open>Properties\<close>

lemma add_ad_True:
  assumes "cache_inv os (c, fs)" "AddAdToCache os sub (Some ad) url c fs = Done (True, c', fs')"
    "SearchInCache sub c = Some i"
  shows "fs_files fs' = (let p = wcs (ce_szAdFile (m_CacheTable c ! i)) in
      (fs_files fs)(p \<mapsto> ad @ drop (length ad) (the (fs_files fs p)))) \<and>
    (\<exists>u. wcscpy (ce_szAdUrl (m_CacheTable c ! i)) url = Done u \<and>
       c' = c\<lparr>m_CacheTable := (m_CacheTable c)[i := (m_CacheTable c ! i)\<lparr>ce_szAdUrl := u\<rparr>]\<rparr>)"
proof -
  let ?e = "m_CacheTable c ! i"
  have i: "i < length (m_CacheTable c)"
    using assms(3) search_Some [of 0 sub "m_CacheTable c" i] by (auto simp: SearchInCache_def split: if_splits)
  have "fs_files fs (wcs (ce_szAdFile ?e)) \<noteq> None"
    using table_files_nth [OF i] assms(1) by (auto simp: cache_inv_def files_of_def open_existing_def)
  then show ?thesis
    using assms(2,3) by (auto simp: AddAdToCache_def Let_def overwrite_0 split: option.splits if_splits
        prod.splits bool.splits elim!: obind_DoneE dest!: save_True)
qed

lemma files_of_url [simp]: "files_of (e\<lparr>ce_szAdUrl := u\<rparr>) = files_of e"
  by (simp add: files_of_def)

lemma search_update:
  "i < length es \<Longrightarrow> search_from k sub (es[i := (es ! i)\<lparr>ce_szAdUrl := u\<rparr>]) = search_from k sub es"
proof (induction es arbitrary: i k)
  case (Cons e es)
  then show ?case by (cases i) auto
qed simp

lemma table_files_update:
  "i < length es \<Longrightarrow> concat (map files_of (es[i := (es ! i)\<lparr>ce_szAdUrl := u\<rparr>])) = concat (map files_of es)"
  by (simp add: map_update list_update_same_conv [THEN iffD2])

lemma add_ad_inv:
  assumes "cache_inv os (c, fs)" "AddAdToCache os sub (Some ad) url c fs = Done (True, c', fs')"
    "SearchInCache sub c = Some i"
  shows "cache_inv os (c', fs') \<and> SearchInCache sub c' = Some i"
proof -
  have i: "i < length (m_CacheTable c)"
    using assms(3) search_Some [of 0 sub "m_CacheTable c" i] by (auto simp: SearchInCache_def split: if_splits)
  from add_ad_True [OF assms] obtain u where f: "fs_files fs' = (let p = wcs (ce_szAdFile (m_CacheTable c ! i)) in
      (fs_files fs)(p \<mapsto> ad @ drop (length ad) (the (fs_files fs p))))"
    and u: "wcscpy (ce_szAdUrl (m_CacheTable c ! i)) url = Done u"
    and c': "c' = c\<lparr>m_CacheTable := (m_CacheTable c)[i := (m_CacheTable c ! i)\<lparr>ce_szAdUrl := u\<rparr>]\<rparr>" by blast
  have tf: "table_files c' = table_files c" using i by (simp add: table_files_def c' table_files_update)
  have "entry_wf (m_CacheTable c ! i)" using assms(1) i by (simp add: cache_inv_def)
  then have "entry_wf ((m_CacheTable c ! i)\<lparr>ce_szAdUrl := u\<rparr>)"
    using wcscpy_Done [OF u] by (simp add: entry_wf_def)
  then have wf: "\<forall>e\<in>set (m_CacheTable c'). entry_wf e"
    using assms(1) set_update_subset_insert by (fastforce simp: c' cache_inv_def)
  have "cache_inv os (c', fs')"
    using assms(1) wf f tf by (auto simp: cache_inv_def c' open_existing_def Let_def)
  moreover have "SearchInCache sub c' = Some i"
    using assms(3) i by (simp add: SearchInCache_def c' search_update split: if_splits)
  ultimately show ?thesis by simp
qed

text \<open>
  A cached advertisement is not replaced but overlaid: after a second, shorter advertisement is
  added, LoadModel returns it followed by the tail of the first one (SaveMemToFile does not truncate).
\<close>

theorem shorter_ad_keeps_old_tail:
  assumes "cache_inv os (c, fs)" "SearchInCache sub c = Some i"
    "fs_files fs (wcs (ce_szAdFile (m_CacheTable c ! i))) = Some []"
    "AddAdToCache os sub (Some ad1) url1 c fs = Done (True, c1, fs1)"
    "AddAdToCache os sub (Some ad2) url2 c1 fs1 = Done (True, c2, fs2)"
  shows "\<exists>m t. cache_get os (c2, fs2) sub = Some (m, Buf (ad2 @ drop (length ad2) ad1), t)"
proof -
  have i: "i < length (m_CacheTable c)"
    using assms(2) search_Some [of 0 sub "m_CacheTable c" i] by (auto simp: SearchInCache_def split: if_splits)
  from add_ad_inv [OF assms(1,4,2)] have inv1: "cache_inv os (c1, fs1)" and s1: "SearchInCache sub c1 = Some i" by simp_all
  from add_ad_inv [OF inv1 assms(5) s1] have inv2: "cache_inv os (c2, fs2)" and s2: "SearchInCache sub c2 = Some i" by simp_all
  let ?p = "wcs (ce_szAdFile (m_CacheTable c ! i))"
  have f1: "fs_files fs1 ?p = Some ad1" and p1: "wcs (ce_szAdFile (m_CacheTable c1 ! i)) = ?p"
    using add_ad_True [OF assms(1,4,2)] assms(3) i by (auto simp: Let_def)
  have "i < length (m_CacheTable c1)" using add_ad_True [OF assms(1,4,2)] i by auto
  then have "fs_files fs2 ?p = Some (ad2 @ drop (length ad2) ad1)" "wcs (ce_szAdFile (m_CacheTable c2 ! i)) = ?p"
    using add_ad_True [OF inv1 assms(5) s1] f1 p1 by (auto simp: Let_def)
  then show ?thesis using cache_get_entry [OF inv2 s2] by simp
qed

text \<open>
  The URL of an advertisement added to a cached model is lost at the next start: cache.dat is not
  rewritten, and reopening the cache gives the table as it was before the advertisement.
\<close>

theorem ad_url_not_persisted:
  assumes "cache_inv os (c, fs)" "synced c fs" "os_LocalAppData os = Some app"
    "m_hCacheFile c = Some (cache_dat app folder)" "length (cache_dat app folder) < MAX_PATH"
    "os_access os (cache_dat app folder)" "SearchInCache sub c = Some i"
    "AddAdToCache os sub (Some ad) url c fs = Done (True, c', fs')"
  shows "wcs (ce_szAdUrl (m_CacheTable c' ! i)) = wcs url \<and>
    (\<exists>c2. Initialize os (CModelCache_new\<lparr>m_szCacheFolder := folder\<rparr>) fs' = Done (True, c2, fs') \<and>
       m_CacheTable c2 = m_CacheTable c)"
proof -
  have i: "i < length (m_CacheTable c)"
    using assms(7) search_Some [of 0 sub "m_CacheTable c" i] by (auto simp: SearchInCache_def split: if_splits)
  have "wcs (ce_szAdFile (m_CacheTable c ! i)) \<in> set (table_files c)"
    using table_files_nth [OF i] by (auto simp: files_of_def)
  then have "wcs (ce_szAdFile (m_CacheTable c ! i)) \<noteq> cache_dat app folder"
    using assms(1,4) by (auto simp: cache_inv_def)
  then have f: "fs_files fs' (cache_dat app folder) = Some (table_bytes (m_CacheTable c))"
    using add_ad_True [OF assms(1,8,7)] assms(2,4) by (auto simp: synced_def Let_def)
  have wf: "\<forall>e\<in>set (m_CacheTable c). entry_wf e" using assms(1) by (simp add: cache_inv_def)
  have url: "wcs (ce_szAdUrl (m_CacheTable c' ! i)) = wcs url"
    using add_ad_True [OF assms(1,8,7)] i by (auto dest: wcscpy_Done)
  from reopen [OF assms(3,5) _ f wf] assms(6) f url show ?thesis by (simp add: open_existing_def)
qed

text \<open>
  With cache reads switched off the cache stores duplicates that are never found: a model whose
  identifier is already in the table is appended again, and lookups keep giving the first entry.
\<close>

theorem read_disabled_adds_duplicate:
  assumes "\<not> m_bEnableCacheRead c" "search_from 0 sub (m_CacheTable c) = Some i" "os_ok os"
    "AddModelToCache os sub (Some model) ad url thumb c fs = Done (True, c', fs')"
  shows "length (m_CacheTable c') = length (m_CacheTable c) + 1 \<and>
    wcs (ce_szSibscriptionId (last (m_CacheTable c'))) = wcs sub \<and>
    SearchInCache sub (EnableCacheRead True c') = Some i"
proof -
  from assms(4) obtain h mf af tf fs1 e where
    h: "m_hCacheFile c = Some h"
    and t: "temp3 os (m_szCacheFullPath c) fs = (Some (mf, af, tf), fs1)"
    and e: "make_entry os sub mf af tf url = Done e"
    and r: "c' = c\<lparr>m_CacheTable := m_CacheTable c @ [e]\<rparr>"
    by (auto simp: AddModelToCache_def split: option.splits if_splits prod.splits bool.splits elim!: obind_DoneE)
  have "wcs mf = mf" "wcs af = af" "wcs tf = tf" using temp3_fresh [OF assms(3) t] by (simp_all add: fresh_def)
  from make_entry_Done [OF e _ this] assms(3) have "wcs (ce_szSibscriptionId e) = wcs sub" by (simp add: os_ok_def)
  then show ?thesis using h assms(2) by (simp add: r EnableCacheRead_def SearchInCache_def search_append)
qed

text \<open>
  When the thumbnail file of a cached model is gone, LoadModel deletes the buffer the caller's thumbnail
  pointer held and returns true with the pointer still set: the caller is left with a dangling pointer.
\<close>

theorem missing_thumb_dangles:
  assumes "m_hCacheFile c = Some h" "SearchInCache sub c = Some i"
    "LoadFileToMem os fs (ce_szModelFile (m_CacheTable c ! i)) = Some m"
    "LoadFileToMem os fs (ce_szThumbFile (m_CacheTable c ! i)) = None" "lo_thumb o0 = Buf old"
  shows "\<exists>r. LoadModel os sub c fs (Some o0) = Done (True, Some r) \<and> lo_model r = Buf m \<and> lo_thumb r = Freed"
proof -
  have "m_bEnableCacheRead c" using assms(2) by (simp add: SearchInCache_def split: if_splits)
  then show ?thesis using assms by (simp add: LoadModel_def Let_def split: option.splits)
qed

end
