(* ===== verification/CacheRun.thy ===== *)
theory CacheRun
  imports ModelCacheProps
begin

text \<open>
  The cache over a whole session: any sequence of AddModelToCache and AddAdToCache calls. The locale
  \<open>ad_store\<close> extends the write-once contract by advertisements that are laid over the stored one; the
  interpretation shows that the cache with its files meets it. Then what a new CModelCache over the same folder
  finds after such a session.
\<close>

section \<open>The contract\<close>

locale ad_store = write_once put get stored inv
  for put :: "'k \<Rightarrow> 'v \<Rightarrow> 's \<Rightarrow> bool \<times> 's" and get :: "'s \<Rightarrow> 'k \<Rightarrow> 'w option"
    and stored :: "'v \<Rightarrow> 'w" and inv :: "'s \<Rightarrow> bool" +
  fixes add :: "'k \<Rightarrow> 'a \<Rightarrow> 's \<Rightarrow> bool \<times> 's" and lay :: "'a \<Rightarrow> 'w \<Rightarrow> 'w" and same :: "'k \<Rightarrow> 'k \<Rightarrow> bool"
  assumes add_inv: "inv s \<Longrightarrow> inv (snd (add k a s))"
    and add_get: "inv s \<Longrightarrow> get s k' = Some w \<Longrightarrow>
      get (snd (add k a s)) k' = Some (if fst (add k a s) \<and> same k k' then lay a w else w)"
begin

text \<open>An advertisement for another key leaves a stored value alone.\<close>

lemma add_other: "inv s \<Longrightarrow> get s k' = Some w \<Longrightarrow> \<not> same k k' \<Longrightarrow> get (snd (add k a s)) k' = Some w"
  by (simp add: add_get)

end

section \<open>Sequences of calls\<close>

datatype cache_op =
    Store wstr cache_val
  | StoreAd wstr bytes wstr

definition cache_step :: "win_os \<Rightarrow> cache_op \<Rightarrow> CModelCache \<times> filesys \<Rightarrow> (bool \<times> CModelCache \<times> filesys) outcome" where
  "cache_step os x s = (case x of
      Store sub (model, ad, url, thumb) \<Rightarrow> AddModelToCache os sub (Some model) ad url thumb (fst s) (snd s)
    | StoreAd sub ad url \<Rightarrow> AddAdToCache os sub (Some ad) url (fst s) (snd s))"

text \<open>The results of the calls, in their order, and the final cache.\<close>

fun cache_run :: "win_os \<Rightarrow> cache_op list \<Rightarrow> CModelCache \<times> filesys \<Rightarrow> (bool list \<times> CModelCache \<times> filesys) outcome" where
  "cache_run os [] s = Done ([], s)"
| "cache_run os (x # xs) s =
     obind (cache_step os x s) (\<lambda>(b, s1). obind (cache_run os xs s1) (\<lambda>(bs, s2). Done (b # bs, s2)))"

text \<open>
  The advertisement that LoadModel gives for \<open>k\<close> after the calls: each AddAdToCache that reported success
  writes over the beginning of the one before.
\<close>

fun laid :: "wstr \<Rightarrow> cache_op list \<Rightarrow> bool list \<Rightarrow> bytes \<Rightarrow> bytes" where
  "laid k (StoreAd k' ad url # xs) (b # bs) a =
     laid k xs bs (if b \<and> wcs k' = wcs k then ad @ drop (length ad) a else a)"
| "laid k (Store k' v # xs) (b # bs) a = laid k xs bs a"
| "laid k xs bs a = a"

text \<open>The addresses that the successful calls of AddModelToCache got.\<close>

fun stored_urls :: "cache_op list \<Rightarrow> bool list \<Rightarrow> wstr list" where
  "stored_urls (Store k (model, ad, url, thumb) # xs) (b # bs) = (if b then [url] else []) @ stored_urls xs bs"
| "stored_urls (StoreAd k ad url # xs) (b # bs) = stored_urls xs bs"
| "stored_urls xs bs = []"

section \<open>Adding an advertisement\<close>

definition cache_add_ad :: "win_os \<Rightarrow> wstr \<Rightarrow> bytes \<times> wstr \<Rightarrow> CModelCache \<times> filesys \<Rightarrow> bool \<times> CModelCache \<times> filesys" where
  "cache_add_ad os sub a s =
     (case AddAdToCache os sub (Some (fst a)) (snd a) (fst s) (snd s) of Done r \<Rightarrow> r | _ \<Rightarrow> (False, s))"

definition lay_ad :: "bytes \<times> wstr \<Rightarrow> buf \<times> buf \<times> buf \<Rightarrow> buf \<times> buf \<times> buf" where
  "lay_ad a w = (case w of (m, Buf d, t) \<Rightarrow> (m, Buf (fst a @ drop (length (fst a)) d), t) | _ \<Rightarrow> w)"

definition same_sub :: "wstr \<Rightarrow> wstr \<Rightarrow> bool" where
  "same_sub k k' \<longleftrightarrow> wcs k = wcs k'"

lemma search_same: "wcs k = wcs k' \<Longrightarrow> search_from i k es = search_from i k' es"
  by (induction es arbitrary: i) simp_all

lemma ad_not_stored:
  assumes "cache_inv os (c, fs)" "AddAdToCache os sub (Some ad) url c fs = Done (False, c', fs')"
  shows "c' = c \<and> fs_keeps {} fs fs'"
proof -
  have "fs_keeps {} fs fs1" if "SaveMemToFile os p ad fs = (False, fs1)" for p fs1
    using that by (auto simp: SaveMemToFile_def open_always_def Let_def fs_keeps_def fs_put_def split: option.splits if_splits)
  then show ?thesis
    using assms(2) by (auto simp: AddAdToCache_def fs_keeps_refl Let_def split: option.splits if_splits prod.splits bool.splits
        elim!: obind_DoneE)
qed

lemma add_ad_found:
  "AddAdToCache os sub (Some ad) url c fs = Done (True, c', fs') \<Longrightarrow> \<exists>i. SearchInCache sub c = Some i"
  by (auto simp: AddAdToCache_def split: option.splits if_splits)

lemma search_bound: "SearchInCache sub c = Some i \<Longrightarrow> i < length (m_CacheTable c)"
  using search_Some [of 0 sub "m_CacheTable c" i] by (auto simp: SearchInCache_def split: if_splits)

text \<open>The files of two entries are different files.\<close>

lemma distinct_files:
  assumes "distinct (concat (map f es))" "i < length es" "j < length es" "i \<noteq> j" "p \<in> set (f (es ! i))"
  shows "p \<notin> set (f (es ! j))"
  using assms
proof (induction es arbitrary: i j)
  case (Cons e es)
  have d: "set (f e) \<inter> set (f x) = {}" if "x \<in> set es" for x using Cons.prems(1) that by auto
  show ?case
  proof (cases i)
    case 0
    then obtain j' where j: "j = Suc j'" using Cons.prems(4) by (cases j) auto
    have "es ! j' \<in> set es" using Cons.prems(3) j by simp
    from d [OF this] show ?thesis using Cons.prems(5) 0 j by auto
  next
    case (Suc i')
    show ?thesis
    proof (cases j)
      case 0
      have "es ! i' \<in> set es" using Cons.prems(2) Suc by simp
      from d [OF this] show ?thesis using Cons.prems(5) 0 Suc by auto
    next
      case (Suc j')
      have "distinct (concat (map f es))" using Cons.prems(1) by simp
      from Cons.IH [OF this, of i' j'] show ?thesis using Cons.prems \<open>i = Suc i'\<close> Suc by simp
    qed
  qed
qed simp

lemma ad_file_own:
  assumes "cache_inv os (c, fs)" "i < length (m_CacheTable c)"
  shows "wcs (ce_szAdFile (m_CacheTable c ! i)) \<noteq> wcs (ce_szModelFile (m_CacheTable c ! i))"
    "wcs (ce_szAdFile (m_CacheTable c ! i)) \<noteq> wcs (ce_szThumbFile (m_CacheTable c ! i))"
proof -
  have d: "distinct (concat (map files_of (m_CacheTable c)))" using assms(1) by (simp add: cache_inv_def table_files_def)
  have "files_of (m_CacheTable c ! i) \<in> set (map files_of (m_CacheTable c))" using assms(2) by simp
  then have "distinct (files_of (m_CacheTable c ! i))" using d distinct_concat_iff by blast
  then show "wcs (ce_szAdFile (m_CacheTable c ! i)) \<noteq> wcs (ce_szModelFile (m_CacheTable c ! i))"
    "wcs (ce_szAdFile (m_CacheTable c ! i)) \<noteq> wcs (ce_szThumbFile (m_CacheTable c ! i))" by (auto simp: files_of_def)
qed

lemma ad_file_other:
  assumes "cache_inv os (c, fs)" "i < length (m_CacheTable c)" "j < length (m_CacheTable c)" "i \<noteq> j"
  shows "wcs (ce_szAdFile (m_CacheTable c ! i)) \<notin> set (files_of (m_CacheTable c ! j))"
proof (rule distinct_files [OF _ assms(2-4)])
  show "distinct (concat (map files_of (m_CacheTable c)))" using assms(1) by (simp add: cache_inv_def table_files_def)
qed (simp add: files_of_def)

lemma add_ad_get:
  assumes "cache_inv os (c, fs)" "AddAdToCache os sub (Some ad) url c fs = Done (True, c', fs')"
    "cache_get os (c, fs) k = Some w"
  shows "cache_get os (c', fs') k = Some (if same_sub sub k then lay_ad (ad, url) w else w)"
proof -
  obtain i where s: "SearchInCache sub c = Some i" using add_ad_found [OF assms(2)] by blast
  obtain j where sk: "SearchInCache k c = Some j" using assms(3) cache_get_None by fastforce
  note b = search_bound [OF s] search_bound [OF sk]
  from add_ad_True [OF assms(1,2) s] obtain u where
    f: "fs_files fs' = (let p = wcs (ce_szAdFile (m_CacheTable c ! i)) in (fs_files fs)(p \<mapsto> ad @ drop (length ad) (the (fs_files fs p))))"
    and c': "c' = c\<lparr>m_CacheTable := (m_CacheTable c)[i := (m_CacheTable c ! i)\<lparr>ce_szAdUrl := u\<rparr>]\<rparr>" by blast
  have inv': "cache_inv os (c', fs')" using add_ad_inv [OF assms(1,2) s] by simp
  have sk': "SearchInCache k c' = Some j"
    using sk b(1) unfolding inv_search [OF inv'] inv_search [OF assms(1)] by (simp add: c' search_update)
  have same: "same_sub sub k \<longleftrightarrow> i = j"
  proof
    assume "same_sub sub k"
    then show "i = j" using s sk search_same [of sub k] inv_search [OF assms(1)] by (simp add: same_sub_def)
  next
    assume "i = j"
    then show "same_sub sub k"
      using s sk search_Some [of 0 sub "m_CacheTable c" i] search_Some [of 0 k "m_CacheTable c" j] inv_search [OF assms(1)]
      by (simp add: same_sub_def)
  qed
  let ?e = "m_CacheTable c ! j" and ?p = "wcs (ce_szAdFile (m_CacheTable c ! i))"
  have e': "wcs (ce_szModelFile (m_CacheTable c' ! j)) = wcs (ce_szModelFile ?e)"
    "wcs (ce_szAdFile (m_CacheTable c' ! j)) = wcs (ce_szAdFile ?e)" "wcs (ce_szThumbFile (m_CacheTable c' ! j)) = wcs (ce_szThumbFile ?e)"
    using b by (simp_all add: c' nth_list_update)
  note g' = cache_get_entry [OF inv' sk', unfolded e' f Let_def]
  have w: "w = (Buf (the (fs_files fs (wcs (ce_szModelFile ?e)))), Buf (the (fs_files fs (wcs (ce_szAdFile ?e)))),
      Buf (the (fs_files fs (wcs (ce_szThumbFile ?e)))))"
    using cache_get_entry [OF assms(1) sk] assms(3) by simp
  show ?thesis
  proof (cases "i = j")
    case True
    then show ?thesis unfolding g' same w lay_ad_def using ad_file_own [OF assms(1) b(1)] by auto
  next
    case False
    then show ?thesis unfolding g' same w using ad_file_other [OF assms(1) b False] by (auto simp: files_of_def)
  qed
qed

interpretation ads: ad_store "cache_put os" "cache_get os" cache_stored "cache_inv os" "cache_add_ad os" lay_ad same_sub for os
proof unfold_locales
  fix s :: "CModelCache \<times> filesys" and k k' w and a :: "bytes \<times> wstr"
  assume inv: "cache_inv os s"
  obtain c fs where s: "s = (c, fs)" by fastforce
  obtain b c' fs' where r: "cache_add_ad os k a s = (b, c', fs')" by (metis prod.exhaust)
  note inv' = inv [unfolded s]
  have cs: "if b then AddAdToCache os k (Some (fst a)) (snd a) c fs = Done (True, c', fs') else c' = c \<and> fs_keeps {} fs fs'"
    using r ad_not_stored [OF inv', of k "fst a" "snd a"]
    by (cases "AddAdToCache os k (Some (fst a)) (snd a) c fs") (auto simp: cache_add_ad_def s fs_keeps_refl)
  show "cache_inv os (snd (cache_add_ad os k a s))"
  proof (cases b)
    case True
    with cs have d: "AddAdToCache os k (Some (fst a)) (snd a) c fs = Done (True, c', fs')" by simp
    from add_ad_found [OF d] add_ad_inv [OF inv' d] r show ?thesis by auto
  next
    case False
    then show ?thesis using cs inv_keeps [OF inv'] r by auto
  qed
  show "cache_get os (snd (cache_add_ad os k a s)) k' = Some (if fst (cache_add_ad os k a s) \<and> same_sub k k' then lay_ad a w else w)"
    if g: "cache_get os s k' = Some w"
  proof (cases b)
    case True
    with cs have "AddAdToCache os k (Some (fst a)) (snd a) c fs = Done (True, c', fs')" by simp
    from add_ad_get [OF inv' this g [unfolded s]] r True show ?thesis by simp
  next
    case False
    then show ?thesis using cs get_keeps [OF inv', of fs' k'] g r by (auto simp: s)
  qed
qed

section \<open>What a session leaves\<close>

lemma step_put: "cache_step os (Store k v) s = Done r \<Longrightarrow> cache_put os k v s = r"
  by (auto simp: cache_step_def cache_put_def split: prod.splits)

lemma step_add: "cache_step os (StoreAd k ad url) s = Done r \<Longrightarrow> cache_add_ad os k (ad, url) s = r"
  by (auto simp: cache_step_def cache_add_ad_def)

lemma step_inv: "cache_inv os s \<Longrightarrow> cache_step os x s = Done (b, s') \<Longrightarrow> cache_inv os s'"
  by (metis cache.put_inv ads.add_inv step_put step_add cache_op.exhaust snd_conv)

lemma run_keeps_entry:
  assumes "cache_inv os s" "cache_get os s sub = Some (Buf m, Buf a, Buf t)" "cache_run os xs s = Done (bs, s')"
  shows "cache_inv os s' \<and> cache_get os s' sub = Some (Buf m, Buf (laid sub xs bs a), Buf t) \<and>
    (\<forall>(x, b)\<in>set (zip xs bs). \<forall>v. x = Store sub v \<longrightarrow> \<not> b)"
  using assms
proof (induction xs arbitrary: s a bs)
  case (Cons x xs)
  obtain b s1 bs1 where r: "cache_step os x s = Done (b, s1)" "cache_run os xs s1 = Done (bs1, s')" "bs = b # bs1"
    using Cons.prems(3) by (auto elim!: obind_DoneE)
  have i1: "cache_inv os s1" by (rule step_inv [OF Cons.prems(1) r(1)])
  show ?case
  proof (cases x)
    case (Store k v)
    have p: "cache_put os k v s = (b, s1)" using step_put r(1) Store by blast
    have "cache_get os s1 sub = Some (Buf m, Buf a, Buf t)" "k = sub \<Longrightarrow> \<not> b"
      using cache.put_keep [OF Cons.prems(1,2), of k v] cache.put_once [OF Cons.prems(1,2), of v] p by auto
    with Cons.IH [OF i1 _ r(2)] show ?thesis by (auto simp: Store r(3))
  next
    case (StoreAd k ad url)
    have p: "cache_add_ad os k (ad, url) s = (b, s1)" using step_add r(1) StoreAd by blast
    have "cache_get os s1 sub = Some (Buf m, Buf (if b \<and> wcs k = wcs sub then ad @ drop (length ad) a else a), Buf t)"
      using ads.add_get [OF Cons.prems(1,2), of k "(ad, url)"] p by (simp add: lay_ad_def same_sub_def split: if_splits)
    from Cons.IH [OF i1 this r(2)] show ?thesis by (auto simp: StoreAd r(3))
  qed
qed simp

text \<open>
  \<open>dat_holds log\<close>: cache.dat holds the entries \<open>log\<close>, which are those of the table but for the addresses of their
  advertisements.
\<close>

definition but_url :: "CACHE_ENTRY \<Rightarrow> CACHE_ENTRY" where
  "but_url e = e\<lparr>ce_szAdUrl := []\<rparr>"

definition dat_holds :: "CACHE_ENTRY list \<Rightarrow> CModelCache \<times> filesys \<Rightarrow> wstr \<Rightarrow> bool" where
  "dat_holds log s h \<longleftrightarrow> m_hCacheFile (fst s) = Some h \<and> fs_files (snd s) h = Some (table_bytes log) \<and>
     map but_url log = map but_url (m_CacheTable (fst s)) \<and> (\<forall>e\<in>set log. entry_wf e)"

abbreviation urls :: "CACHE_ENTRY list \<Rightarrow> wstr list" where
  "urls \<equiv> map (\<lambda>e. wcs (ce_szAdUrl e))"

lemma dat_other_files:
  assumes "cache_inv os (c, fs)" "m_hCacheFile c = Some h" "fs_keeps {} fs fs'"
  shows "fs_files fs' h = fs_files fs h"
  using assms by (auto simp: cache_inv_def fs_keeps_def)

lemma step_dat:
  assumes "cache_inv os s" "dat_holds log s h" "os_write os h" "cache_step os x s = Done (b, s')"
  shows "\<exists>log'. dat_holds log' s' h \<and> urls log' = urls log @ map wcs (stored_urls [x] [b])"
proof -
  obtain c fs c' fs' where s: "s = (c, fs)" "s' = (c', fs')" by fastforce
  note inv = assms(1) [unfolded s]
  have h: "m_hCacheFile c = Some h" "fs_files fs h = Some (table_bytes log)" "map but_url log = map but_url (m_CacheTable c)"
    "\<forall>e\<in>set log. entry_wf e" using assms(2) by (simp_all add: dat_holds_def s)
  show ?thesis
  proof (cases x)
    case (Store sub v)
    obtain model ad url thumb where v: "v = (model, ad, url, thumb)" by (cases v)
    have a: "AddModelToCache os sub (Some model) ad url thumb c fs = Done (b, c', fs')"
      using assms(4) by (simp add: cache_step_def Store v s)
    show ?thesis
    proof (cases b)
      case True
      have at: "AddModelToCache os sub (Some model) ad url thumb c fs = Done (True, c', fs')" using a True by simp
      from add_model_True [OF inv at] obtain h' m mf af tf e where
        h': "m_hCacheFile c = Some h'" and e: "entry_wf e" "wcs (ce_szAdUrl e) = wcs url" and c': "c' = c\<lparr>m_CacheTable := m_CacheTable c @ [e]\<rparr>"
        and f: "fs_files fs' = (let f = (fs_files fs)(mf \<mapsto> m, af \<mapsto> case_option [] id ad, tf \<mapsto> case_option [] id thumb)
           in if os_write os h' then f(h' \<mapsto> the (fs_files fs h') @ enc_entry e) else f)" by metis
      have "dat_holds (log @ [e]) s' h"
        using h h' f e(1) assms(3) by (simp add: dat_holds_def s c' table_bytes_def)
      then show ?thesis using e(2) by (intro exI [of _ "log @ [e]"]) (simp add: Store v True)
    next
      case False
      then have "c' = c \<and> fs_keeps {} fs fs'" using a add_model_False [OF inv] by simp
      then have "dat_holds log s' h" using h dat_other_files [OF inv h(1)] by (auto simp: dat_holds_def s)
      then show ?thesis by (intro exI [of _ log]) (simp add: Store v False)
    qed
  next
    case (StoreAd sub ad url)
    have a: "AddAdToCache os sub (Some ad) url c fs = Done (b, c', fs')" using assms(4) by (simp add: cache_step_def StoreAd s)
    have "dat_holds log s' h"
    proof (cases b)
      case True
      have a: "AddAdToCache os sub (Some ad) url c fs = Done (True, c', fs')" using a True by simp
      obtain i where i: "SearchInCache sub c = Some i" using add_ad_found [OF a] by blast
      from add_ad_True [OF inv a i] obtain u where
        f: "fs_files fs' = (let p = wcs (ce_szAdFile (m_CacheTable c ! i)) in (fs_files fs)(p \<mapsto> ad @ drop (length ad) (the (fs_files fs p))))"
        and c': "c' = c\<lparr>m_CacheTable := (m_CacheTable c)[i := (m_CacheTable c ! i)\<lparr>ce_szAdUrl := u\<rparr>]\<rparr>" by blast
      have "wcs (ce_szAdFile (m_CacheTable c ! i)) \<in> set (table_files c)"
        using table_files_nth [OF search_bound [OF i]] by (auto simp: files_of_def)
      then have "wcs (ce_szAdFile (m_CacheTable c ! i)) \<noteq> h" using inv h(1) by (auto simp: cache_inv_def)
      moreover have "map but_url (m_CacheTable c') = map but_url (m_CacheTable c)"
        using search_bound [OF i] by (simp add: c' map_update but_url_def list_update_same_conv [THEN iffD2])
      ultimately show ?thesis using h f by (simp add: dat_holds_def s Let_def) (simp add: c')
    next
      case False
      then have "c' = c \<and> fs_keeps {} fs fs'" using a ad_not_stored [OF inv] by simp
      then show ?thesis using h dat_other_files [OF inv h(1)] by (auto simp: dat_holds_def s)
    qed
    then show ?thesis by (intro exI [of _ log]) (simp add: StoreAd)
  qed
qed

lemma stored_urls_Cons: "stored_urls (x # xs) (b # bs) = stored_urls [x] [b] @ stored_urls xs bs"
  by (cases x) auto

lemma run_dat:
  assumes "cache_inv os s" "dat_holds log s h" "os_write os h" "cache_run os xs s = Done (bs, s')"
  shows "\<exists>log'. cache_inv os s' \<and> dat_holds log' s' h \<and> urls log' = urls log @ map wcs (stored_urls xs bs)"
  using assms
proof (induction xs arbitrary: s log bs)
  case (Cons x xs)
  obtain b s1 bs1 where r: "cache_step os x s = Done (b, s1)" "cache_run os xs s1 = Done (bs1, s')" "bs = b # bs1"
    using Cons.prems(4) by (auto elim!: obind_DoneE)
  obtain log1 where l: "dat_holds log1 s1 h" "urls log1 = urls log @ map wcs (stored_urls [x] [b])"
    using step_dat [OF Cons.prems(1-3) r(1)] by blast
  obtain log2 where "cache_inv os s'" "dat_holds log2 s' h" "urls log2 = urls log1 @ map wcs (stored_urls xs bs1)"
    using Cons.IH [OF step_inv [OF Cons.prems(1) r(1)] l(1) Cons.prems(3) r(2)] by blast
  moreover have "stored_urls (x # xs) bs = stored_urls [x] [b] @ stored_urls xs bs1"
    unfolding r(3) by (rule stored_urls_Cons)
  ultimately show ?case using l(2) by (intro exI [of _ log2]) simp
next
  case Nil
  then show ?case by (intro exI [of _ log]) simp
qed

lemma but_url_sub: "ce_szSibscriptionId (but_url e) = ce_szSibscriptionId e" "files_of (but_url e) = files_of e"
  by (simp_all add: but_url_def files_of_def)

lemma search_but_url: "map but_url es = map but_url es' \<Longrightarrow> search_from i sub es = search_from i sub es'"
proof (induction es arbitrary: i es')
  case (Cons e es)
  then obtain e' es1 where es': "es' = e' # es1" "but_url e = but_url e'" "map but_url es = map but_url es1" by auto
  have "ce_szSibscriptionId e = ce_szSibscriptionId e'" using but_url_sub(1) [of e] but_url_sub(1) [of e'] es'(2) by simp
  then show ?case using Cons.IH [OF es'(3)] by (simp add: es'(1))
qed simp

lemma files_but_url: "map but_url es = map but_url es' \<Longrightarrow> map files_of es = map files_of es'"
proof -
  have "map files_of es = map files_of (map but_url es)" for es by (simp add: but_url_sub)
  then show "map but_url es = map but_url es' \<Longrightarrow> ?thesis" by metis
qed

text \<open>A cache over the same files whose table differs in addresses only answers every lookup as the first one.\<close>

lemma get_but_url:
  assumes "cache_inv os (c, fs)" "m_hCacheFile c2 = m_hCacheFile c" "m_bEnableCacheRead c2" "m_bEnableCacheStore c2"
    "map but_url (m_CacheTable c2) = map but_url (m_CacheTable c)" "\<forall>e\<in>set (m_CacheTable c2). entry_wf e"
  shows "cache_get os (c2, fs) sub = cache_get os (c, fs) sub"
proof -
  have fl: "map files_of (m_CacheTable c2) = map files_of (m_CacheTable c)" by (rule files_but_url [OF assms(5)])
  then have "table_files c2 = table_files c" by (simp add: table_files_def)
  then have inv2: "cache_inv os (c2, fs)" using assms(1-4,6) by (simp add: cache_inv_def)
  have s: "SearchInCache sub c2 = SearchInCache sub c"
    unfolding inv_search [OF inv2] inv_search [OF assms(1)] by (rule search_but_url [OF assms(5)])
  show ?thesis
  proof (cases "SearchInCache sub c")
    case (Some i)
    have "i < length (map files_of (m_CacheTable c))" "map files_of (m_CacheTable c2) ! i = map files_of (m_CacheTable c) ! i"
      using search_bound [OF Some] fl by simp_all
    then have "files_of (m_CacheTable c2 ! i) = files_of (m_CacheTable c ! i)" using fl by (metis length_map nth_map)
    then show ?thesis
      using cache_get_entry [OF inv2] cache_get_entry [OF assms(1) Some] s Some by (simp add: files_of_def)
  qed (simp add: s cache_get_None)
qed

section \<open>Properties\<close>

text \<open>
  C10. The cache over a session: once AddModelToCache has stored a model under an identifier, LoadModel gives for it, after any
  further calls of AddModelToCache and AddAdToCache, exactly the model and the thumbnail stored then and the advertisement of that
  call with those that AddAdToCache stored for the identifier since laid over it, each over the beginning of the one before (an
  absent one comes back as an empty buffer); no later AddModelToCache for the identifier succeeds.
\<close>

theorem cache_returns_what_was_added:
  assumes "cache_inv os s" "cache_run os (Store sub (model, ad, url, thumb) # ops) s = Done (True # rs, s')"
  shows "cache_get os s' sub = Some (Buf model, Buf (laid sub ops rs (case_option [] id ad)), Buf (case_option [] id thumb)) \<and>
    (\<forall>(x, b)\<in>set (zip ops rs). \<forall>v. x = Store sub v \<longrightarrow> \<not> b)"
proof -
  from assms(2) obtain s1 where r: "cache_step os (Store sub (model, ad, url, thumb)) s = Done (True, s1)" "cache_run os ops s1 = Done (rs, s')"
    by (auto elim!: obind_DoneE)
  have "cache_get os s1 sub = Some (Buf model, Buf (case_option [] id ad), Buf (case_option [] id thumb))"
    using cache.put_get [OF assms(1), of sub "(model, ad, url, thumb)"] step_put [OF r(1)] by (simp add: cache_stored_def)
  from run_keeps_entry [OF step_inv [OF assms(1) r(1)] this r(2)] show ?thesis by blast
qed

text \<open>
  C11. The cache survives a restart: after any sequence of AddModelToCache and AddAdToCache calls on a cache whose file matched its
  table, a new CModelCache over the same folder has the entries of the session in their order and answers every LoadModel as the closed
  cache did. Only the addresses differ: each entry has the one it was stored with, those AddAdToCache set are lost.
\<close>

theorem cache_reopens:
  assumes "cache_inv os s" "synced (fst s) (snd s)" "os_LocalAppData os = Some app"
    "m_hCacheFile (fst s) = Some (cache_dat app folder)" "length (cache_dat app folder) < MAX_PATH"
    "os_write os (cache_dat app folder)" "os_access os (cache_dat app folder)" "cache_run os ops s = Done (rs, s')"
  shows "\<exists>c2. Initialize os (CModelCache_new\<lparr>m_szCacheFolder := folder\<rparr>) (snd s') = Done (True, c2, snd s') \<and>
    (\<forall>sub. cache_get os (c2, snd s') sub = cache_get os s' sub) \<and>
    map but_url (m_CacheTable c2) = map but_url (m_CacheTable (fst s')) \<and>
    urls (m_CacheTable c2) = urls (m_CacheTable (fst s)) @ map wcs (stored_urls ops rs)"
proof -
  have "dat_holds (m_CacheTable (fst s)) s (cache_dat app folder)"
    using assms(1,2,4) by (cases s) (auto simp: dat_holds_def synced_def cache_inv_def)
  from run_dat [OF assms(1) this assms(6,8)] obtain log where inv: "cache_inv os s'"
    and l: "dat_holds log s' (cache_dat app folder)" "urls log = urls (m_CacheTable (fst s)) @ map wcs (stored_urls ops rs)" by blast
  have f: "fs_files (snd s') (cache_dat app folder) = Some (table_bytes log)" and wf: "\<forall>e\<in>set log. entry_wf e"
    and t: "map but_url log = map but_url (m_CacheTable (fst s'))" and h: "m_hCacheFile (fst s') = Some (cache_dat app folder)"
    using l(1) by (simp_all add: dat_holds_def)
  from reopen [OF assms(3,5) _ f wf] assms(7) f obtain c2
    where c2: "Initialize os (CModelCache_new\<lparr>m_szCacheFolder := folder\<rparr>) (snd s') = Done (True, c2, snd s')" "m_CacheTable c2 = log"
    by (auto simp: open_existing_def)
  have "m_hCacheFile c2 = Some (cache_dat app folder)" "m_bEnableCacheRead c2" "m_bEnableCacheStore c2"
    using c2(1) assms(3,5,7) f by (auto simp: Initialize_def init_path_def cache_dat_def CModelCache_new_def
        init_read_def open_existing_def Let_def)
  then have "cache_get os (c2, snd s') sub = cache_get os s' sub" for sub
    using get_but_url [of os "fst s'" "snd s'" c2] inv h t wf c2(2) by simp
  then show ?thesis using c2 t l(2) by auto
qed

end
