(* ===== verification/ModelCacheWitness.thy ===== *)
theory ModelCacheWitness
  imports CacheRun
begin

text \<open>
  A concrete Windows (six temporary names per folder, every access allowed), an initialised cache,
  and the witnesses of the cache properties on them.
\<close>

definition w_path :: wstr where "w_path = [0x41, 0x5C, 0x53, 0x5C]"

definition w_name :: "wchar \<Rightarrow> wstr" where "w_name k = w_path @ [k]"

definition w_os :: win_os where
  "w_os = \<lparr>os_LocalAppData = Some [0x41],
     os_temp = (\<lambda>dir fs. if dir = w_path
        then find (\<lambda>t. fs_files fs t = None) (map w_name [0x31, 0x32, 0x33, 0x34, 0x35, 0x36]) else None),
     os_access = (\<lambda>_. True), os_write = (\<lambda>_. True), os_time = replicate 16 0\<rparr>"

lemma w_os_ok: "os_ok w_os"
  by (auto simp: os_ok_def w_os_def w_name_def w_path_def MAX_PATH_def split: if_splits)

definition w_folder :: wstr where "w_folder = [0x53, 0x5C]"
definition w_dat :: wstr where "w_dat = cache_dat [0x41] w_folder"

definition w_cache :: CModelCache where
  "w_cache = \<lparr>m_szCacheFolder = w_folder, m_szCacheFullPath = w_path, m_hCacheFile = Some w_dat,
     m_bEnableCacheStore = True, m_bEnableCacheRead = True, m_CacheTable = []\<rparr>"

definition w_fs :: filesys where
  "w_fs = \<lparr>fs_files = [w_dat \<mapsto> []], fs_dirs = [w_path]\<rparr>"

lemma w_dat_long: "length w_dat = 13"
  by (simp add: w_dat_def cache_dat_def w_folder_def wide_def)

lemma w_inv: "cache_inv w_os (w_cache, w_fs)"
  by (simp add: cache_inv_def w_os_ok w_cache_def w_fs_def table_files_def)

lemma w_synced: "synced w_cache w_fs"
  by (simp add: synced_def w_cache_def w_fs_def table_bytes_def)

text \<open>Success of AddModelToCache, step by step.\<close>

lemma make_entry_ex:
  "\<forall>s\<in>{sub, mf, af, tf, url}. length (wcs s) < MAX_PATH \<Longrightarrow> \<exists>e. make_entry os sub mf af tf url = Done e"
  by (simp add: make_entry_def wcscpy_def Let_def)

lemma add_model_success:
  assumes "m_hCacheFile c = Some h" "m_bEnableCacheStore c" "SearchInCache sub c = None"
    "temp3 os (m_szCacheFullPath c) fs = (Some (mf, af, tf), fs1)"
    "save3 os (mf, af, tf) model ad thumb fs1 = (True, fs2)"
    "\<forall>s\<in>{sub, mf, af, tf, url}. length (wcs s) < MAX_PATH"
  shows "\<exists>c' fs'. AddModelToCache os sub (Some model) ad url thumb c fs = Done (True, c', fs')"
  using make_entry_ex [OF assms(6), of os] assms(1-5) by (auto simp: AddModelToCache_def)

lemma w_name_dat: "w_name k \<noteq> w_dat"
proof
  assume "w_name k = w_dat"
  then have "length (w_name k) = length w_dat" by simp
  then show False by (simp add: w_dat_long w_name_def w_path_def)
qed

lemma w_name_facts [simp]:
  "k \<noteq> 0 \<Longrightarrow> wcs (w_name k) = w_name k" "length (w_name k) = 5" "w_name k \<noteq> w_dat" "w_dat \<noteq> w_name k"
  "k \<noteq> 0x5C \<Longrightarrow> dir_of (w_name k) = w_path" "w_name j = w_name k \<longleftrightarrow> j = k" "0 \<in> set (w_name k) \<longleftrightarrow> k = 0"
  using w_name_dat [of k] by (auto simp: w_name_def w_path_def wcs_def dir_of_def)

lemma w_temp:
  "os_temp w_os w_path fs = find (\<lambda>t. fs_files fs t = None) (map w_name [0x31, 0x32, 0x33, 0x34, 0x35, 0x36])"
  by (simp add: w_os_def)

definition w_fs3 :: filesys where
  "w_fs3 = fs_put (w_name 0x33) [] (fs_put (w_name 0x32) [] (fs_put (w_name 0x31) [] w_fs))"

lemma w_temp3: "temp3 w_os w_path w_fs = (Some (w_name 0x31, w_name 0x32, w_name 0x33), w_fs3)"
  by (simp add: temp3_def GetTempFileName_def w_temp w_fs3_def fs_put_def w_fs_def)

lemma w_save3: "\<exists>fs2. save3 w_os (w_name 0x31, w_name 0x32, w_name 0x33) m a t w_fs3 = (True, fs2)"
  by (cases a; cases t)
    (simp_all add: save3_def save_opt_def SaveMemToFile_def open_always_def Let_def w_fs3_def fs_put_def w_fs_def w_os_def)

lemma w_add:
  "length (wcs sub) < MAX_PATH \<Longrightarrow> length (wcs url) < MAX_PATH \<Longrightarrow>
     \<exists>c' fs'. AddModelToCache w_os sub (Some m) a url t w_cache w_fs = Done (True, c', fs')"
proof -
  assume l: "length (wcs sub) < MAX_PATH" "length (wcs url) < MAX_PATH"
  obtain fs2 where s: "save3 w_os (w_name 0x31, w_name 0x32, w_name 0x33) m a t w_fs3 = (True, fs2)"
    using w_save3 by blast
  show ?thesis
    by (rule add_model_success [where h = w_dat, OF _ _ _ _ s])
      (use l in \<open>simp_all add: w_cache_def SearchInCache_def w_temp3 MAX_PATH_def\<close>)
qed

text \<open>AddAdToCache succeeds when the file can be written and the URL fits.\<close>

lemma add_ad_success:
  assumes "m_hCacheFile c = Some h" "m_bEnableCacheStore c" "SearchInCache sub c = Some i"
    "SaveMemToFile os (ce_szAdFile (m_CacheTable c ! i)) ad fs = (True, fs1)"
    "length (wcs url) < length (ce_szAdUrl (m_CacheTable c ! i))"
  shows "\<exists>c'. AddAdToCache os sub (Some ad) url c fs = Done (True, c', fs1)"
  using assms by (simp add: AddAdToCache_def Let_def wcscpy_def)

text \<open>AddModelToCache leaves the folders as they are.\<close>

lemma save_dirs: "SaveMemToFile os p d fs = (b, fs') \<Longrightarrow> fs_dirs fs' = fs_dirs fs"
  by (auto simp: SaveMemToFile_def open_always_def fs_put_def Let_def split: option.splits if_splits)

lemma temp_dirs: "GetTempFileName os dir fs = Some (t, fs') \<Longrightarrow> fs_dirs fs' = fs_dirs fs"
  by (auto simp: GetTempFileName_def fs_put_def split: option.splits)

lemma save_opt_dirs: "save_opt os p d fs = (b, fs') \<Longrightarrow> fs_dirs fs' = fs_dirs fs"
  by (auto simp: save_opt_def split: option.splits dest: save_dirs)

lemma add_model_dirs:
  assumes "AddModelToCache os sub pM pA url pT c fs = Done (True, c', fs')"
  shows "fs_dirs fs' = fs_dirs fs"
proof -
  from assms obtain h model mf af tf fs1 fs2 e where
    t: "temp3 os (m_szCacheFullPath c) fs = (Some (mf, af, tf), fs1)"
    and sv: "save3 os (mf, af, tf) model pA pT fs1 = (True, fs2)"
    and r: "fs' = append_file os h (enc_entry e) fs2"
    by (auto simp: AddModelToCache_def split: option.splits if_splits prod.splits bool.splits elim!: obind_DoneE)
  have "fs_dirs fs1 = fs_dirs fs" using t by (auto simp: temp3_def split: option.splits prod.splits dest!: temp_dirs)
  moreover have "fs_dirs fs2 = fs_dirs fs1"
    using sv by (auto simp: save3_def split: prod.splits bool.splits dest!: save_dirs save_opt_dirs)
  ultimately show ?thesis by (simp add: r append_file_def fs_put_def)
qed

text \<open>A session: a model without an advertisement, then its advertisement.\<close>

definition w_ops :: "cache_op list" where
  "w_ops = [Store [0x41] ([1, 2], None, [], Some [9]), StoreAd [0x41] [5] [0x55]]"

lemma w_save_ad: "w_path \<in> set (fs_dirs fs) \<Longrightarrow> wcs p = w_name k \<Longrightarrow> k \<noteq> 0x5C \<Longrightarrow> \<exists>fs'. SaveMemToFile w_os p d fs = (True, fs')"
  by (simp add: SaveMemToFile_def open_always_def Let_def) (simp add: w_os_def)

lemma w_run: "\<exists>s'. cache_run w_os w_ops (w_cache, w_fs) = Done ([True, True], s')"
proof -
  have l: "length (wcs [0x41]) < MAX_PATH" "length (wcs []) < MAX_PATH" by (simp_all add: MAX_PATH_def wcs_def)
  obtain fs2 where sv: "save3 w_os (w_name 0x31, w_name 0x32, w_name 0x33) [1, 2] None (Some [9]) w_fs3 = (True, fs2)"
    using w_save3 by blast
  obtain e where e: "make_entry w_os [0x41] (w_name 0x31) (w_name 0x32) (w_name 0x33) [] = Done e"
    using make_entry_ex [of "[0x41]" "w_name 0x31" "w_name 0x32" "w_name 0x33" "[]" w_os] l by (auto simp: MAX_PATH_def)
  let ?c = "w_cache\<lparr>m_CacheTable := [e]\<rparr>"
  let ?fs = "append_file w_os w_dat (enc_entry e) fs2"
  have a: "AddModelToCache w_os [0x41] (Some [1, 2]) None [] (Some [9]) w_cache w_fs = Done (True, ?c, ?fs)"
    using sv e by (simp add: AddModelToCache_def w_cache_def SearchInCache_def w_temp3)
  have d: "w_path \<in> set (fs_dirs ?fs)" using add_model_dirs [OF a] by (simp add: w_fs_def)
  have w: "wcs (w_name 0x31) = w_name 0x31" "wcs (w_name 0x32) = w_name 0x32" "wcs (w_name 0x33) = w_name 0x33" by simp_all
  note f = make_entry_Done [OF e _ w]
  have ef: "entry_wf e" "wcs (ce_szSibscriptionId e) = wcs [0x41]" "wcs (ce_szAdFile e) = w_name 0x32"
    using f by (simp_all add: w_os_def files_of_def)
  have s: "SearchInCache [0x41] ?c = Some 0" using ef(2) by (simp add: SearchInCache_def w_cache_def)
  obtain fs4 where sa: "SaveMemToFile w_os (ce_szAdFile (m_CacheTable ?c ! 0)) [5] ?fs = (True, fs4)"
    using w_save_ad [OF d ef(3), of "[5]"] by auto
  have "\<exists>c'. AddAdToCache w_os [0x41] (Some [5]) [0x55] ?c ?fs = Done (True, c', fs4)"
    by (rule add_ad_success [of _ w_dat _ 0])
      (use s sa ef(1) in \<open>simp_all add: w_cache_def entry_wf_def MAX_PATH_def wcs_def\<close>)
  then show ?thesis using a by (auto simp: w_ops_def cache_step_def)
qed

lemma cache_returns_what_was_added_witness:
  "\<exists>s'. cache_run w_os [Store [0x41] ([1, 2], None, [], Some [9]), StoreAd [0x41] [5] [0x55]] (w_cache, w_fs) = Done ([True, True], s') \<and>
    cache_get w_os s' [0x41] = Some (Buf [1, 2], Buf [5], Buf [9])"
proof -
  obtain s' where r: "cache_run w_os w_ops (w_cache, w_fs) = Done ([True, True], s')" using w_run by blast
  from cache_returns_what_was_added [OF w_inv r [unfolded w_ops_def]] r show ?thesis by (auto simp: w_ops_def)
qed

lemma cache_reopens_witness:
  "\<exists>s' c2. cache_run w_os w_ops (w_cache, w_fs) = Done ([True, True], s') \<and>
    Initialize w_os (CModelCache_new\<lparr>m_szCacheFolder := w_folder\<rparr>) (snd s') = Done (True, c2, snd s') \<and>
    cache_get w_os (c2, snd s') [0x41] = cache_get w_os s' [0x41] \<and> urls (m_CacheTable c2) = [[]]"
proof -
  obtain s' where r: "cache_run w_os w_ops (w_cache, w_fs) = Done ([True, True], s')" using w_run by blast
  have "\<exists>c2. Initialize w_os (CModelCache_new\<lparr>m_szCacheFolder := w_folder\<rparr>) (snd s') = Done (True, c2, snd s') \<and>
    (\<forall>sub. cache_get w_os (c2, snd s') sub = cache_get w_os s' sub) \<and>
    map but_url (m_CacheTable c2) = map but_url (m_CacheTable (fst s')) \<and>
    urls (m_CacheTable c2) = urls (m_CacheTable (fst (w_cache, w_fs))) @ map wcs (stored_urls w_ops [True, True])"
    by (rule cache_reopens [OF w_inv _ _ _ _ _ _ r, of "[0x41]"])
      (use w_dat_long w_synced in \<open>simp_all add: w_os_def w_cache_def w_dat_def [symmetric] MAX_PATH_def\<close>)
  with r show ?thesis by (auto simp: w_ops_def w_cache_def wcs_def)
qed

section \<open>A cache with one model\<close>

definition w_entry :: CACHE_ENTRY where
  "w_entry = zero_entry\<lparr>ce_szSibscriptionId := [0x41] @ replicate 259 0,
     ce_szModelFile := w_name 0x31 @ replicate 255 0, ce_szAdFile := w_name 0x32 @ replicate 255 0,
     ce_szThumbFile := w_name 0x33 @ replicate 255 0\<rparr>"

definition w_cache1 :: CModelCache where
  "w_cache1 = w_cache\<lparr>m_CacheTable := [w_entry]\<rparr>"

definition w_fs1 :: filesys where
  "w_fs1 = w_fs\<lparr>fs_files := [w_dat \<mapsto> table_bytes [w_entry], w_name 0x31 \<mapsto> [1], w_name 0x32 \<mapsto> [], w_name 0x33 \<mapsto> []]\<rparr>"

lemma wcs_pad: "0 \<notin> set s \<Longrightarrow> 0 < n \<Longrightarrow> wcs (s @ replicate n 0) = s"
  using wcs_append_NUL [of s "replicate (n - 1) 0"] by (cases n) simp_all

lemma w_entry_facts [simp]:
  "wcs (ce_szSibscriptionId w_entry) = [0x41]" "wcs (ce_szModelFile w_entry) = w_name 0x31"
  "wcs (ce_szAdFile w_entry) = w_name 0x32" "wcs (ce_szThumbFile w_entry) = w_name 0x33"
  "ce_szAdUrl w_entry = replicate MAX_PATH 0"
  using wcs_pad [of "[0x41]" 259] wcs_pad [of "w_name 0x31" 255] wcs_pad [of "w_name 0x32" 255]
    wcs_pad [of "w_name 0x33" 255]
  by (simp_all add: w_entry_def zero_entry_def Let_def del: append_Cons)

lemma w_inv1: "cache_inv w_os (w_cache1, w_fs1)"
proof -
  have "entry_wf w_entry" by (simp add: entry_wf_def w_entry_def zero_entry_def Let_def MAX_PATH_def)
  then show ?thesis
    by (simp add: cache_inv_def w_os_ok w_cache1_def w_cache_def w_fs1_def table_files_def files_of_def
        open_existing_def) (simp add: w_os_def)
qed

lemma w_synced1: "synced w_cache1 w_fs1"
  by (simp add: synced_def w_cache1_def w_cache_def w_fs1_def table_bytes_def)

lemma w_search1: "SearchInCache [0x41] w_cache1 = Some 0"
  by (simp add: SearchInCache_def w_cache1_def w_cache_def wcs_def [of "[0x41]"])

lemma w_add_ad:
  assumes "length (wcs url) < MAX_PATH"
  shows "\<exists>c' fs'. AddAdToCache w_os [0x41] (Some ad) url w_cache1 w_fs1 = Done (True, c', fs')"
proof -
  have "\<exists>fs2. SaveMemToFile w_os (ce_szAdFile w_entry) ad w_fs1 = (True, fs2)"
    by (simp add: SaveMemToFile_def Let_def open_always_def w_fs1_def w_fs_def) (simp add: w_os_def)
  then obtain fs2 where s: "SaveMemToFile w_os (ce_szAdFile w_entry) ad w_fs1 = (True, fs2)" by blast
  have "m_CacheTable w_cache1 ! 0 = w_entry" by (simp add: w_cache1_def)
  then show ?thesis
    using add_ad_success [OF _ _ w_search1, of w_dat w_os ad w_fs1 fs2 url] s assms
    by (auto simp: w_cache1_def w_cache_def)
qed

lemma w_table1 [simp]: "m_CacheTable w_cache1 ! 0 = w_entry"
  by (simp add: w_cache1_def)

lemma shorter_ad_keeps_old_tail_witness:
  "\<exists>c1 fs1 c2 fs2. AddAdToCache w_os [0x41] (Some [1, 2, 3]) [] w_cache1 w_fs1 = Done (True, c1, fs1) \<and>
    AddAdToCache w_os [0x41] (Some [9]) [] c1 fs1 = Done (True, c2, fs2) \<and>
    (\<exists>m t. cache_get w_os (c2, fs2) [0x41] = Some (m, Buf [9, 2, 3], t))"
proof -
  obtain c1 fs1 where 1: "AddAdToCache w_os [0x41] (Some [1, 2, 3]) [] w_cache1 w_fs1 = Done (True, c1, fs1)"
    using w_add_ad [of "[]" "[1, 2, 3]"] by (auto simp: MAX_PATH_def wcs_def)
  note t1 = add_ad_True [OF w_inv1 1 w_search1] and i1 = add_ad_inv [OF w_inv1 1 w_search1]
  obtain u where c1: "c1 = w_cache1\<lparr>m_CacheTable := [w_entry\<lparr>ce_szAdUrl := u\<rparr>]\<rparr>"
    and u: "wcscpy (replicate MAX_PATH 0) [] = Done u" using t1 by (auto simp: w_cache1_def)
  have ul: "length u = MAX_PATH" using wcscpy_Done [OF u] by simp
  have "dir_of (w_name 0x32) \<in> set (fs_dirs fs1)"
    using 1 by (auto simp: AddAdToCache_def w_cache1_def w_cache_def SearchInCache_def wcs_def [of "[0x41]"] Let_def
        SaveMemToFile_def open_always_def fs_put_def w_fs1_def w_fs_def
        split: option.splits if_splits prod.splits elim!: obind_DoneE)
  then have "\<exists>fs2. SaveMemToFile w_os (ce_szAdFile w_entry) [9] fs1 = (True, fs2)"
    by (auto simp: SaveMemToFile_def Let_def open_always_def) (simp_all add: w_os_def)
  then obtain fs2 where s: "SaveMemToFile w_os (ce_szAdFile w_entry) [9] fs1 = (True, fs2)" by blast
  have "\<exists>c2. AddAdToCache w_os [0x41] (Some [9]) [] c1 fs1 = Done (True, c2, fs2)"
    by (rule add_ad_success [of _ w_dat _ 0])
      (use s i1 ul in \<open>simp_all add: c1 w_cache1_def w_cache_def MAX_PATH_def wcs_def\<close>)
  then obtain c2 where 2: "AddAdToCache w_os [0x41] (Some [9]) [] c1 fs1 = Done (True, c2, fs2)" by blast
  have "fs_files w_fs1 (wcs (ce_szAdFile (m_CacheTable w_cache1 ! 0))) = Some []"
    by (simp add: w_fs1_def)
  from shorter_ad_keeps_old_tail [OF w_inv1 w_search1 this 1 2] 1 2 show ?thesis by auto
qed

lemma ad_url_not_persisted_witness:
  "\<exists>c' fs' c2. AddAdToCache w_os [0x41] (Some [9]) [0x55] w_cache1 w_fs1 = Done (True, c', fs') \<and>
    wcs (ce_szAdUrl (m_CacheTable c' ! 0)) = [0x55] \<and>
    Initialize w_os (CModelCache_new\<lparr>m_szCacheFolder := w_folder\<rparr>) fs' = Done (True, c2, fs') \<and>
    wcs (ce_szAdUrl (m_CacheTable c2 ! 0)) = []"
proof -
  obtain c' fs' where 1: "AddAdToCache w_os [0x41] (Some [9]) [0x55] w_cache1 w_fs1 = Done (True, c', fs')"
    using w_add_ad [of "[0x55]" "[9]"] by (auto simp: MAX_PATH_def wcs_def)
  have "wcs (ce_szAdUrl (m_CacheTable c' ! 0)) = wcs [0x55] \<and>
    (\<exists>c2. Initialize w_os (CModelCache_new\<lparr>m_szCacheFolder := w_folder\<rparr>) fs' = Done (True, c2, fs') \<and>
       m_CacheTable c2 = m_CacheTable w_cache1)"
    by (rule ad_url_not_persisted [OF w_inv1 w_synced1 _ _ _ _ w_search1 1, of "[0x41]"])
      (use w_dat_long in \<open>simp_all add: w_os_def w_cache1_def w_cache_def w_dat_def [symmetric] MAX_PATH_def\<close>)
  with 1 show ?thesis by (auto simp: wcs_def MAX_PATH_def)
qed

lemma read_disabled_adds_duplicate_witness:
  "\<exists>c' fs'. AddModelToCache w_os [0x41] (Some [5]) None [] None (EnableCacheRead False w_cache1) w_fs1 = Done (True, c', fs') \<and>
    length (m_CacheTable c') = 2 \<and> SearchInCache [0x41] (EnableCacheRead True c') = Some 0"
proof -
  let ?c = "EnableCacheRead False w_cache1"
  let ?fs3 = "fs_put (w_name 0x36) [] (fs_put (w_name 0x35) [] (fs_put (w_name 0x34) [] w_fs1))"
  have t: "temp3 w_os w_path w_fs1 = (Some (w_name 0x34, w_name 0x35, w_name 0x36), ?fs3)"
    by (simp add: temp3_def GetTempFileName_def w_temp fs_put_def w_fs1_def w_fs_def)
  have "\<exists>fs2. save3 w_os (w_name 0x34, w_name 0x35, w_name 0x36) [5] None None ?fs3 = (True, fs2)"
    by (simp add: save3_def save_opt_def SaveMemToFile_def open_always_def Let_def fs_put_def w_fs1_def w_fs_def w_os_def)
  then obtain fs2 where s: "save3 w_os (w_name 0x34, w_name 0x35, w_name 0x36) [5] None None ?fs3 = (True, fs2)" by blast
  have "\<exists>c' fs'. AddModelToCache w_os [0x41] (Some [5]) None [] None ?c w_fs1 = Done (True, c', fs')"
    by (rule add_model_success [where h = w_dat, OF _ _ _ _ s])
      (simp_all add: EnableCacheRead_def w_cache1_def w_cache_def SearchInCache_def t MAX_PATH_def wcs_def [of "[]"] wcs_def [of "[0x41]"])
  then obtain c' fs' where a: "AddModelToCache w_os [0x41] (Some [5]) None [] None ?c w_fs1 = Done (True, c', fs')" by blast
  have "search_from 0 [0x41] (m_CacheTable ?c) = Some 0"
    by (simp add: EnableCacheRead_def w_cache1_def wcs_def [of "[0x41]"])
  from read_disabled_adds_duplicate [OF _ this w_os_ok a] a show ?thesis
    by (auto simp: EnableCacheRead_def w_cache1_def)
qed

lemma missing_thumb_dangles_witness:
  "\<exists>r. LoadModel w_os [0x41] w_cache1 (w_fs1\<lparr>fs_files := (fs_files w_fs1)(w_name 0x33 := None)\<rparr>)
      (Some (null_out\<lparr>lo_thumb := Buf [4]\<rparr>)) = Done (True, Some r) \<and> lo_model r = Buf [1] \<and> lo_thumb r = Freed"
  by (rule missing_thumb_dangles [of w_cache1 w_dat "[0x41]" 0])
    (simp_all add: w_search1, simp_all add: w_cache1_def w_cache_def LoadFileToMem_def open_existing_def w_fs1_def
      null_out_def w_os_def)

end
