(* ===== verification/CText.thy ===== *)
theory CText
  imports Prelude
begin

text \<open>
  C strings as lists of one-byte characters, and what the repository uses of the C library on them: character
  classes, prefix and case-insensitive comparison, \<open>%d\<close> and \<open>atoi\<close>, the \<open>%s\<close> directive, text-mode files read by lines
  into a buffer that keeps what earlier lines left behind the terminator.
\<close>

section \<open>Characters and C strings\<close>

definition code :: "char \<Rightarrow> nat" where
  "code c = of_char c"

lemma code_lt [simp]: "code c < 256"
  by (simp add: code_def)

lemma char_of_code [simp]: "char_of (code c) = c"
  by (simp add: code_def)

lemma code_char_of: "n < 256 \<Longrightarrow> code (char_of n) = n"
  by (simp add: code_def of_char_of)

definition byte_of :: "char \<Rightarrow> byte" where
  "byte_of c = of_nat (code c)"

definition char_of_byte :: "byte \<Rightarrow> char" where
  "char_of_byte b = char_of (unat b)"

lemma char_of_byte_of [simp]: "char_of_byte (byte_of c) = c"
proof -
  have "unat (of_nat (code c) :: byte) = code c" by (simp add: unat_of_nat)
  then show ?thesis by (simp add: char_of_byte_def byte_of_def)
qed

definition c_text :: "string \<Rightarrow> string" where
  "c_text s = takeWhile (\<lambda>c. c \<noteq> CHR 0x00) s"

lemma c_text_id [simp]: "CHR 0x00 \<notin> set s \<Longrightarrow> c_text s = s"
  by (auto simp: c_text_def)

lemma c_text_append: "CHR 0x00 \<notin> set s \<Longrightarrow> c_text (s @ r) = s @ c_text r"
  by (induction s) (auto simp: c_text_def)

lemma length_c_text: "length (c_text s) \<le> length s"
  by (simp add: c_text_def length_takeWhile_le)

definition is_space :: "char \<Rightarrow> bool" where
  "is_space c \<longleftrightarrow> code c = 32 \<or> (9 \<le> code c \<and> code c \<le> 13)"

definition lower :: "char \<Rightarrow> char" where
  "lower c = (if 65 \<le> code c \<and> code c \<le> 90 then char_of (code c + 32) else c)"

text \<open>\<open>strncmp\<close> and \<open>_strnicmp\<close> with the length of the constant \<open>p\<close>, which has no NUL; \<open>_stricmp\<close>.\<close>

definition starts :: "string \<Rightarrow> string \<Rightarrow> bool" where
  "starts p s \<longleftrightarrow> take (length p) s = p"

definition starts_i :: "string \<Rightarrow> string \<Rightarrow> bool" where
  "starts_i p s \<longleftrightarrow> map lower (take (length p) s) = map lower p"

definition equal_i :: "string \<Rightarrow> string \<Rightarrow> bool" where
  "equal_i a b \<longleftrightarrow> map lower a = map lower b"

lemma starts_append [simp]: "starts p (p @ s)"
  by (simp add: starts_def)

section \<open>Decimal numbers\<close>

text \<open>What \<open>%d\<close> prints, and reading it.\<close>

fun show_nat :: "nat \<Rightarrow> string" where
  "show_nat n = (if n < 10 then [char_of (48 + n)] else show_nat (n div 10) @ [char_of (48 + n mod 10)])"

definition show_int :: "int \<Rightarrow> string" where
  "show_int i = (if i < 0 then CHR ''-'' # show_nat (nat (- i)) else show_nat (nat i))"

declare show_nat.simps [simp del]

definition read_nat :: "string \<Rightarrow> nat" where
  "read_nat s = foldl (\<lambda>n c. 10 * n + (code c - 48)) 0 s"

definition read_int :: "string \<Rightarrow> int" where
  "read_int s = (case s of c # r \<Rightarrow> if c = CHR ''-'' then - int (read_nat r) else int (read_nat s) | [] \<Rightarrow> 0)"

lemma read_show_nat: "read_nat (show_nat n) = n"
proof (induction n rule: show_nat.induct)
  case (1 n)
  show ?case
  proof (cases "n < 10")
    case True
    then show ?thesis by (subst show_nat.simps) (simp add: read_nat_def code_char_of)
  next
    case False
    have "code (char_of (48 + n mod 10)) = 48 + n mod 10" by (simp add: code_char_of)
    then show ?thesis using 1 False by (subst show_nat.simps) (simp add: read_nat_def)
  qed
qed

lemma show_nat_digits: "c \<in> set (show_nat n) \<Longrightarrow> 48 \<le> code c \<and> code c \<le> 57"
proof (induction n rule: show_nat.induct)
  case (1 n)
  have d: "n mod 10 < 10" by simp
  show ?case
  proof (cases "n < 10")
    case True
    then have "c = char_of (48 + n)" using 1 by (subst (asm) show_nat.simps) simp
    then show ?thesis using True by (simp add: code_char_of)
  next
    case False
    then consider "c \<in> set (show_nat (n div 10))" | "c = char_of (48 + n mod 10)"
      using 1(2) by (subst (asm) show_nat.simps) auto
    then show ?thesis using 1(1) [OF False] d by cases (simp_all add: code_char_of)
  qed
qed

lemma show_nat_ne: "show_nat n \<noteq> []"
  by (subst show_nat.simps) simp

lemma read_show_int: "read_int (show_int i) = i"
proof (cases "i < 0")
  case True
  then show ?thesis by (simp add: show_int_def read_int_def read_show_nat)
next
  case False
  obtain c r where s: "show_nat (nat i) = c # r" using show_nat_ne by (metis neq_Nil_conv)
  then have "c \<noteq> CHR ''-''" using show_nat_digits [of c "nat i"] by (auto simp: code_def)
  then show ?thesis using False s read_show_nat [of "nat i"] by (simp add: show_int_def read_int_def)
qed

lemma show_int_inj [simp]: "show_int i = show_int j \<longleftrightarrow> i = j"
  by (metis read_show_int)

lemma show_int_chars: "c \<in> set (show_int i) \<Longrightarrow> c = CHR ''-'' \<or> (48 \<le> code c \<and> code c \<le> 57)"
  using show_nat_digits by (auto simp: show_int_def split: if_splits)

text \<open>\<open>atoi\<close>, which stops at the limits of \<open>int\<close>.\<close>

definition is_digit :: "char \<Rightarrow> bool" where
  "is_digit c \<longleftrightarrow> 48 \<le> code c \<and> code c \<le> 57"

definition clamp32 :: "int \<Rightarrow> int" where
  "clamp32 i = (if i < - 2147483648 then - 2147483648 else if 2147483647 < i then 2147483647 else i)"

definition atoi :: "string \<Rightarrow> int" where
  "atoi s = (let t = dropWhile is_space s;
       neg = (t \<noteq> [] \<and> hd t = CHR ''-'');
       u = (if t \<noteq> [] \<and> (hd t = CHR ''-'' \<or> hd t = CHR ''+'') then tl t else t);
       n = int (read_nat (takeWhile is_digit u))
     in clamp32 (if neg then - n else n))"

text \<open>
  \<open>sscanf ( s, "%s", name )\<close> into \<open>char name [ MAX_PATH ]\<close> that is read afterwards: without a word the
  array is read with indeterminate contents, a word of 260 characters or more does not fit.
\<close>

definition scan_word :: "string \<Rightarrow> string" where
  "scan_word s = takeWhile (\<lambda>c. \<not> is_space c) (dropWhile is_space s)"

definition scan_name :: "string \<Rightarrow> string outcome" where
  "scan_name s = (let w = scan_word s in if w = [] \<or> 260 \<le> length w then UB else Done w)"

section \<open>Text files by lines\<close>

text \<open>A file opened with \<open>"r"\<close>: the text up to a Ctrl-Z, CR LF read as LF.\<close>

fun crlf :: "string \<Rightarrow> string" where
  "crlf (a # b # s) = (if a = CHR 0x0D \<and> b = CHR 0x0A then b # crlf s else a # crlf (b # s))"
| "crlf s = s"

definition text_mode :: "bytes \<Rightarrow> string" where
  "text_mode d = crlf (takeWhile (\<lambda>c. c \<noteq> CHR 0x1A) (map char_of_byte d))"

text \<open>\<open>fgets\<close> reads at most \<open>n\<close> characters here, one less than its size argument.\<close>

fun fgets :: "nat \<Rightarrow> string \<Rightarrow> string \<times> string" where
  "fgets 0 s = ([], s)"
| "fgets (Suc n) [] = ([], [])"
| "fgets (Suc n) (c # s) = (if c = CHR 0x0A then ([c], s) else (let (l, r) = fgets n s in (c # l, r)))"

lemma fgets_split: "fst (fgets n s) @ snd (fgets n s) = s"
  by (induction n s rule: fgets.induct) (auto split: prod.splits)

lemma fgets_progress: "s \<noteq> [] \<Longrightarrow> length (snd (fgets (Suc n) s)) < length s"
proof (induction n arbitrary: s)
  case 0
  then show ?case by (cases s) auto
next
  case (Suc n)
  then show ?case
  proof (cases s)
    case (Cons c t)
    then show ?thesis using Suc.IH [of t] by (cases "t = []") (auto split: prod.splits)
  qed simp
qed

text \<open>
  The lines that \<open>while ( !feof ) { buffer [ 0 ] = 0; fgets ( buffer, 4096, file ); .. }\<close> sees: the end of the file is
  noticed by the read that runs into it, so a file that ends with a newline is followed by one empty line.
\<close>

function read_lines :: "string \<Rightarrow> string list" where
  "read_lines s = (if s = [] then [[]] else
     (let (l, r) = fgets 4095 s in
      if r = [] \<and> last l \<noteq> CHR 0x0A \<and> length l < 4095 then [l] else l # read_lines r))"
  by pat_completeness auto
termination
proof (relation "measure length")
  fix s :: string and x l r
  assume "s \<noteq> []" "x = fgets 4095 s" "(l, r) = x"
  then have "snd (fgets 4095 s) = r" by (metis snd_conv)
  then show "(r, s) \<in> measure length" using fgets_progress [of s 4094] \<open>s \<noteq> []\<close> by simp
qed simp

declare read_lines.simps [simp del]

text \<open>Reading the line into the buffer, and the C string at an offset of the buffer.\<close>

definition load_line :: "string \<Rightarrow> string \<Rightarrow> string" where
  "load_line l buf = l @ CHR 0x00 # drop (Suc (length l)) buf"

definition cstr_from :: "nat \<Rightarrow> string \<Rightarrow> string outcome" where
  "cstr_from n buf = (if CHR 0x00 \<in> set (drop n buf) then Done (c_text (drop n buf)) else UB)"

lemma c_text_load_line [simp]: "CHR 0x00 \<notin> set l \<Longrightarrow> c_text (load_line l buf) = l"
  by (simp add: load_line_def c_text_append) (simp add: c_text_def)

end
