(* ===== verification/Uri.thy ===== *)
theory Uri
  imports StdMap CText
begin

text \<open>
  The parts of the bundled cpprest URI code that the service uses (uri.cpp): percent decoding,
  percent encoding, \<open>split_path\<close> and \<open>split_query\<close>. Text is a list of one-byte characters; the
  conversions between wide, UTF-8 and ANSI text are the identity on it.
\<close>

section \<open>Percent encoding\<close>

definition hex_value :: "char \<Rightarrow> nat option" where
  "hex_value h = (let n = code h in
     if 48 \<le> n \<and> n \<le> 57 then Some (n - 48)
     else if 65 \<le> n \<and> n \<le> 70 then Some (10 + (n - 65))
     else if 97 \<le> n \<and> n \<le> 102 then Some (10 + (n - 97))
     else None)"

text \<open>None is the \<open>uri_exception\<close> of a malformed escape or a character outside ASCII.\<close>

fun decode :: "string \<Rightarrow> string option" where
  "decode [] = Some []"
| "decode (c # cs) =
     (if c = CHR ''%'' then
        (case cs of
           a # b # r \<Rightarrow> (case (hex_value a, hex_value b) of
               (Some x, Some y) \<Rightarrow> map_option (Cons (char_of (16 * x + y))) (decode r)
             | _ \<Rightarrow> None)
         | _ \<Rightarrow> None)
      else if 127 < code c then None
      else map_option (Cons c) (decode cs))"

definition is_alnum :: "char \<Rightarrow> bool" where
  "is_alnum c \<longleftrightarrow> (let n = code c in (48 \<le> n \<and> n \<le> 57) \<or> (65 \<le> n \<and> n \<le> 90) \<or> (97 \<le> n \<and> n \<le> 122))"

definition is_unreserved :: "char \<Rightarrow> bool" where
  "is_unreserved c \<longleftrightarrow> is_alnum c \<or> c \<in> {CHR ''-'', CHR ''.'', CHR ''_'', CHR ''~''}"

definition hex_digit :: "nat \<Rightarrow> char" where
  "hex_digit n = char_of (if n < 10 then 48 + n else 55 + n)"

definition encode_impl :: "(char \<Rightarrow> bool) \<Rightarrow> string \<Rightarrow> string" where
  "encode_impl should_encode s = concat (map (\<lambda>c.
     if should_encode c then [CHR ''%'', hex_digit (code c div 16), hex_digit (code c mod 16)] else [c]) s)"

definition encode_data_string :: "string \<Rightarrow> string" where
  "encode_data_string = encode_impl (\<lambda>c. \<not> is_unreserved c)"

lemma hex_value_digit: "n < 16 \<Longrightarrow> hex_value (hex_digit n) = Some n"
  by (auto simp: hex_value_def hex_digit_def Let_def code_char_of)

lemma unreserved_ascii: "is_unreserved c \<Longrightarrow> c \<noteq> CHR ''%'' \<and> \<not> 127 < code c"
  by (auto simp: is_unreserved_def is_alnum_def Let_def code_def)

lemma decode_escape:
  "decode (CHR ''%'' # hex_digit (code c div 16) # hex_digit (code c mod 16) # r) =
     map_option (Cons c) (decode r)"
proof -
  have "hex_value (hex_digit (code c div 16)) = Some (code c div 16)"
    "hex_value (hex_digit (code c mod 16)) = Some (code c mod 16)"
    using code_lt [of c] by (intro hex_value_digit; simp add: less_mult_imp_div_less)+
  then show ?thesis by simp
qed

lemma decode_plain: "\<forall>c\<in>set s. c \<noteq> CHR ''%'' \<and> \<not> 127 < code c \<Longrightarrow> decode s = Some s"
  by (induction s) auto

lemma alnum_plain: "is_alnum c \<Longrightarrow> c \<notin> {CHR ''%'', CHR ''&'', CHR '';'', CHR ''=''} \<and> \<not> 127 < code c"
  by (auto simp: is_alnum_def Let_def code_def)

section \<open>Splitting\<close>

fun split_on :: "char \<Rightarrow> string \<Rightarrow> string list" where
  "split_on d [] = [[]]"
| "split_on d (c # cs) =
     (if c = d then [] # split_on d cs
      else (case split_on d cs of [] \<Rightarrow> [[c]] | p # ps \<Rightarrow> (c # p) # ps))"

definition split_path :: "string \<Rightarrow> string list" where
  "split_path path = [s \<leftarrow> split_on (CHR ''/'') path. s \<noteq> []]"

text \<open>One key-value pair into the result map; a pair without \<open>=\<close> is skipped.\<close>

definition put_pair :: "string \<Rightarrow> (string \<times> string) list \<Rightarrow> (string \<times> string) list" where
  "put_pair pair m =
     (if CHR ''='' \<in> set pair
      then smap_put (takeWhile (\<lambda>c. c \<noteq> CHR ''='') pair) (tl (dropWhile (\<lambda>c. c \<noteq> CHR ''='') pair)) m
      else m)"

text \<open>
  The loop of \<open>split_query\<close>: the next delimiter is the next \<open>&\<close> if there is one at all, otherwise the
  next \<open>;\<close>.
\<close>

function query_loop :: "string \<Rightarrow> (string \<times> string) list \<Rightarrow> (string \<times> string) list" where
  "query_loop q m =
     (if CHR ''&'' \<in> set q
      then query_loop (tl (dropWhile (\<lambda>c. c \<noteq> CHR ''&'') q)) (put_pair (takeWhile (\<lambda>c. c \<noteq> CHR ''&'') q) m)
      else if CHR '';'' \<in> set q
      then query_loop (tl (dropWhile (\<lambda>c. c \<noteq> CHR '';'') q)) (put_pair (takeWhile (\<lambda>c. c \<noteq> CHR '';'') q) m)
      else put_pair q m)"
  by auto

lemma length_tl_dropWhile: "x \<in> set q \<Longrightarrow> length (dropWhile P q) - Suc 0 < length q"
  using length_dropWhile_le [of P q] by (cases q) auto

termination query_loop
  by (relation "measure (\<lambda>(q, m). length q)") (auto intro: length_tl_dropWhile)

definition split_query :: "string \<Rightarrow> (string \<times> string) list" where
  "split_query query = query_loop query []"

declare query_loop.simps [simp del]

section \<open>Round trips\<close>

text \<open>A query written from key-value pairs whose text has no delimiter.\<close>

definition query_safe :: "string \<Rightarrow> bool" where
  "query_safe s \<longleftrightarrow> set s \<inter> {CHR ''&'', CHR '';'', CHR ''=''} = {}"

fun render_query :: "(string \<times> string) list \<Rightarrow> string" where
  "render_query [] = []"
| "render_query [(k, v)] = k @ ''='' @ v"
| "render_query ((k, v) # kvs) = k @ ''='' @ v @ ''&'' @ render_query kvs"

lemma takeWhile_stop: "x \<notin> set a \<Longrightarrow> takeWhile (\<lambda>c. c \<noteq> x) (a @ x # b) = a"
  by (induction a) auto

lemma dropWhile_stop: "x \<notin> set a \<Longrightarrow> dropWhile (\<lambda>c. c \<noteq> x) (a @ x # b) = x # b"
  by (induction a) auto

lemma put_pair_render:
  "query_safe k \<Longrightarrow> put_pair (k @ CHR ''='' # v) m = smap_put k v m"
  by (simp add: put_pair_def query_safe_def takeWhile_stop dropWhile_stop)

lemma query_loop_end:
  "CHR ''&'' \<notin> set q \<Longrightarrow> CHR '';'' \<notin> set q \<Longrightarrow> query_loop q m = put_pair q m"
  by (simp add: query_loop.simps [of q])

lemma query_loop_amp:
  "CHR ''&'' \<notin> set a \<Longrightarrow> query_loop (a @ CHR ''&'' # b) m = query_loop b (put_pair a m)"
  by (simp add: query_loop.simps [of "a @ CHR ''&'' # b"] takeWhile_stop dropWhile_stop)

lemma query_loop_render:
  "kvs \<noteq> [] \<Longrightarrow> \<forall>(k, v)\<in>set kvs. query_safe k \<and> query_safe v \<Longrightarrow>
     query_loop (render_query kvs) m = fold (\<lambda>(k, v). smap_put k v) kvs m"
proof (induction kvs arbitrary: m rule: render_query.induct)
  case (2 k v)
  then have "query_loop (k @ CHR ''='' # v) m = put_pair (k @ CHR ''='' # v) m"
    by (intro query_loop_end) (auto simp: query_safe_def)
  then show ?case using 2 by (simp add: put_pair_render)
next
  case (3 k v p kvs)
  have "CHR ''&'' \<notin> set (k @ CHR ''='' # v)" using 3 by (auto simp: query_safe_def)
  from query_loop_amp [OF this, of "render_query (p # kvs)" m] show ?case
    using 3 by (simp add: put_pair_render)
qed simp

lemma decode_encode:
  assumes "\<And>c. \<not> should c \<Longrightarrow> c \<noteq> CHR ''%'' \<and> \<not> 127 < code c"
  shows "decode (encode_impl should s) = Some s"
proof (induction s)
  case (Cons c s)
  have "decode (encode_impl should (c # s)) = map_option (Cons c) (decode (encode_impl should s))"
    using decode_escape [of c "encode_impl should s"] assms [of c] by (auto simp: encode_impl_def)
  then show ?case using Cons by simp
qed (simp add: encode_impl_def)

text \<open>
  Percent decoding inverts the encoding of query data, for every text.
\<close>

theorem decode_encode_data: "decode (encode_data_string s) = Some s"
  unfolding encode_data_string_def by (rule decode_encode) (use unreserved_ascii in blast)

text \<open>
  Splitting a query written from key-value pairs without delimiters in them gives the map that holds
  for each key the last value given for it.
\<close>

theorem split_query_render:
  assumes "kvs \<noteq> []" "\<forall>(k, v)\<in>set kvs. query_safe k \<and> query_safe v"
  shows "smap_get (split_query (render_query kvs)) k = map_of (rev kvs) k"
  using query_loop_render [OF assms, of "[]"] smap.get_fold [OF smap.inv_empty, of kvs k] smap.get_empty [of k]
  by (simp add: split_query_def split: option.splits)

lemma split_query_render_witness:
  "smap_get (split_query ''magic=tfzfepg&subsid=AbCdEfGh'') ''subsid'' = Some ''AbCdEfGh''"
  using split_query_render [of "[(''magic'', ''tfzfepg''), (''subsid'', ''AbCdEfGh'')]" "''subsid''"]
  by (simp add: query_safe_def)

end
