(* ===== verification/Web.thy ===== *)
theory Web
  imports Prelude Uri
begin

text \<open>
  What the two ends of the web service share: outcomes of code that changes a state and may throw, the
  JSON values of cpprest (json.h, json.cpp), the copies of wide text into \<open>char\<close> buffers, and the wide-character
  files that keep base64 text.
\<close>

section \<open>Outcomes with a state\<close>

datatype exn = HttpException | JsonException | SqlException | UriException

text \<open>
  \<open>Ret\<close> a value, \<open>Throw\<close> a C++ exception that leaves the function, \<open>Crash\<close> undefined behaviour or an
  abort, \<open>Hang\<close> a loop that did not end within the fuel. The state is kept by all four.
\<close>

datatype 'a res = Ret 'a | Throw exn | Crash | Hang

type_synonym ('s, 'a) act = "'s \<Rightarrow> 'a res \<times> 's"

definition ret :: "'a \<Rightarrow> ('s, 'a) act" where
  "ret a = (\<lambda>s. (Ret a, s))"

definition raise :: "exn \<Rightarrow> ('s, 'a) act" where
  "raise e = (\<lambda>s. (Throw e, s))"

definition crash :: "('s, 'a) act" where
  "crash = (\<lambda>s. (Crash, s))"

definition hang :: "('s, 'a) act" where
  "hang = (\<lambda>s. (Hang, s))"

definition gets :: "('s \<Rightarrow> 'a) \<Rightarrow> ('s, 'a) act" where
  "gets f = (\<lambda>s. (Ret (f s), s))"

definition modify :: "('s \<Rightarrow> 's) \<Rightarrow> ('s, unit) act" where
  "modify f = (\<lambda>s. (Ret (), f s))"

definition abind :: "('s, 'a) act \<Rightarrow> ('a \<Rightarrow> ('s, 'b) act) \<Rightarrow> ('s, 'b) act" where
  "abind m f = (\<lambda>s. case m s of
      (Ret a, s') \<Rightarrow> f a s'
    | (Throw e, s') \<Rightarrow> (Throw e, s')
    | (Crash, s') \<Rightarrow> (Crash, s')
    | (Hang, s') \<Rightarrow> (Hang, s'))"

definition aseq :: "('s, unit) act \<Rightarrow> ('s, 'b) act \<Rightarrow> ('s, 'b) act" where
  "aseq m n = abind m (\<lambda>_. n)"

named_theorems act \<open>running the outcome operations\<close>

lemma act_basic [act]:
  "ret a s = (Ret a, s)" "raise e s = (Throw e, s)" "crash s = (Crash, s)" "hang s = (Hang, s)"
  "gets f s = (Ret (f s), s)" "modify g s = (Ret (), g s)"
  by (simp_all add: ret_def raise_def crash_def hang_def gets_def modify_def)

lemma abind_run [act]:
  "abind m f s = (case m s of (Ret a, s') \<Rightarrow> f a s' | (Throw e, s') \<Rightarrow> (Throw e, s')
     | (Crash, s') \<Rightarrow> (Crash, s') | (Hang, s') \<Rightarrow> (Hang, s'))"
  by (simp add: abind_def)

lemma aseq_run [act]: "aseq m n s = abind m (\<lambda>_. n) s"
  by (simp add: aseq_def)

text \<open>
  A property \<open>R\<close> of the state before and after that holds of every outcome, and how sequencing keeps it.
\<close>

definition keeps :: "('s \<Rightarrow> 's \<Rightarrow> bool) \<Rightarrow> ('s, 'a) act \<Rightarrow> bool" where
  "keeps R m \<longleftrightarrow> (\<forall>s. R s (snd (m s)))"

named_theorems keeps_intro \<open>composition rules for \<open>keeps\<close>\<close>

lemma keeps_pure [keeps_intro]:
  "reflp R \<Longrightarrow> keeps R (ret a)" "reflp R \<Longrightarrow> keeps R (raise e)" "reflp R \<Longrightarrow> keeps R crash"
  "reflp R \<Longrightarrow> keeps R hang" "reflp R \<Longrightarrow> keeps R (gets f)"
  by (simp_all add: keeps_def act reflpD)

lemma keeps_modify [keeps_intro]: "(\<And>s. R s (f s)) \<Longrightarrow> keeps R (modify f)"
  by (simp add: keeps_def act)

lemma keeps_abind [keeps_intro]:
  assumes "transp R" "keeps R m" "\<And>a. keeps R (f a)"
  shows "keeps R (abind m f)"
  unfolding keeps_def
proof
  fix s
  obtain r s' where m: "m s = (r, s')" by (cases "m s")
  have 1: "R s s'" using assms(2) m unfolding keeps_def by (metis snd_conv)
  show "R s (snd (abind m f s))"
  proof (cases r)
    case (Ret a)
    have "R s' (snd (f a s'))" using assms(3) by (simp add: keeps_def)
    then have "R s (snd (f a s'))" using 1 assms(1) by (meson transpE)
    then show ?thesis by (simp add: act m Ret)
  qed (use 1 in \<open>simp_all add: act m\<close>)
qed

lemma keeps_aseq [keeps_intro]:
  "transp R \<Longrightarrow> keeps R m \<Longrightarrow> keeps R n \<Longrightarrow> keeps R (aseq m n)"
  unfolding aseq_def by (rule keeps_abind)

lemma keeps_if [keeps_intro]:
  "(c \<Longrightarrow> keeps R m) \<Longrightarrow> (\<not> c \<Longrightarrow> keeps R n) \<Longrightarrow> keeps R (if c then m else n)"
  by simp

lemma keeps_option [keeps_intro]:
  "(x = None \<Longrightarrow> keeps R m) \<Longrightarrow> (\<And>a. x = Some a \<Longrightarrow> keeps R (n a)) \<Longrightarrow>
     keeps R (case x of None \<Rightarrow> m | Some a \<Rightarrow> n a)"
  by (cases x) simp_all

section \<open>JSON values\<close>

text \<open>
  A number is kept as the value \<open>as_integer\<close> reads; an object as its fields in key order.
\<close>

datatype json = JNull | JBool bool | JNumber int | JString string | JArray "json list"
  | JObject "(string \<times> json) list"

type_synonym fields = "(string \<times> json) list"

definition as_string :: "json \<Rightarrow> ('s, string) act" where
  "as_string j = (case j of JString t \<Rightarrow> ret t | _ \<Rightarrow> raise JsonException)"

definition as_integer :: "json \<Rightarrow> ('s, int) act" where
  "as_integer j = (case j of JNumber i \<Rightarrow> ret i | _ \<Rightarrow> raise JsonException)"

definition has_field :: "json \<Rightarrow> string \<Rightarrow> bool" where
  "has_field j k = (case j of JObject m \<Rightarrow> smap_get m k \<noteq> None | _ \<Rightarrow> False)"

definition json_at :: "fields \<Rightarrow> string \<Rightarrow> ('s, json) act" where
  "json_at m k = (case smap_get m k of Some v \<Rightarrow> ret v | None \<Rightarrow> raise JsonException)"

definition json_field :: "json \<Rightarrow> string \<Rightarrow> json" where
  "json_field j k = (case j of JObject m \<Rightarrow> (case smap_get m k of Some v \<Rightarrow> v | None \<Rightarrow> JNull) | _ \<Rightarrow> JNull)"

definition text_at :: "fields \<Rightarrow> string \<Rightarrow> ('s, string) act" where
  "text_at m k = abind (json_at m k) as_string"

definition int_at :: "fields \<Rightarrow> string \<Rightarrow> ('s, int) act" where
  "int_at m k = abind (json_at m k) as_integer"

lemma text_at_run:
  "text_at m k s = ((case smap_get m k of Some (JString t) \<Rightarrow> Ret t | _ \<Rightarrow> Throw JsonException), s)"
  by (simp add: text_at_def json_at_def as_string_def act split: option.splits json.splits)

lemma int_at_run:
  "int_at m k s = ((case smap_get m k of Some (JNumber i) \<Rightarrow> Ret i | _ \<Rightarrow> Throw JsonException), s)"
  by (simp add: int_at_def json_at_def as_integer_def act split: option.splits json.splits)

lemma keeps_json_at [keeps_intro]:
  "reflp R \<Longrightarrow> keeps R (text_at m k)" "reflp R \<Longrightarrow> keeps R (int_at m k)"
  by (simp_all add: keeps_def text_at_run int_at_run reflpD)

section \<open>Text\<close>

text \<open>
  \<open>WideCharToMultiByte\<close> into \<open>char sz[256]\<close> with capacity 256, then \<open>sz[iLen] = 0\<close>: longer text
  fails with length 0, and text of exactly 256 characters puts the terminator past the buffer.
\<close>

definition ansi256 :: "string \<Rightarrow> ('s, string) act" where
  "ansi256 w = (if 256 < length w then ret [] else if length w = 256 then crash else ret (c_text w))"

lemma keeps_ansi256 [keeps_intro]: "reflp R \<Longrightarrow> keeps R (ansi256 w)"
  unfolding ansi256_def by (intro keeps_intro)

lemma ansi256_run: "length w < 256 \<Longrightarrow> ansi256 w s = (Ret (c_text w), s)"
  by (simp add: ansi256_def act)

text \<open>Wide text in a file, two bytes a character, and the characters a buffer of it holds.\<close>

definition wide_bytes :: "string \<Rightarrow> bytes" where
  "wide_bytes t = concat (map (\<lambda>c. [byte_of c, 0]) t)"

fun wide_chars :: "(byte \<Rightarrow> byte \<Rightarrow> char) \<Rightarrow> bytes \<Rightarrow> string" where
  "wide_chars w (lo # hi # r) = (if hi = 0 then char_of_byte lo else w lo hi) # wide_chars w r"
| "wide_chars w _ = []"

lemma length_wide_bytes [simp]: "length (wide_bytes t) = 2 * length t"
  by (induction t) (simp_all add: wide_bytes_def)

lemma wide_chars_bytes [simp]: "wide_chars w (wide_bytes t) = t"
  by (induction t) (simp_all add: wide_bytes_def)

end
