(* ===== verification/Database.thy ===== *)
theory Database
  imports Web
begin

text \<open>
  The service database: the tables of \<open>dbCreateTables.sql\<close>, the statements the server writes, the calls
  of the MySQL connector as parameters, and the contract that says which documented behaviour of MySQL the
  theorems rely on.
\<close>

section \<open>Tables\<close>

record file_row =
  f_id :: int
  f_path :: string
  f_base64 :: string
  f_size :: int

record ad_row =
  a_id :: int
  a_owner :: int
  a_path :: string
  a_url :: string

record model_row =
  m_id :: int
  m_pc :: int
  m_mobile :: int
  m_name :: string
  m_desc :: string

record owner_row =
  o_id :: int
  o_name :: string
  o_user :: string
  o_pass :: string

record subs_row =
  s_id :: int
  s_owner :: int
  s_model :: int
  s_ad :: int
  s_hash :: string
  s_status :: int

text \<open>The rows of each table and the next AUTO_INCREMENT value of the four tables the server fills.\<close>

record tables =
  t_files :: "file_row list"
  t_ads :: "ad_row list"
  t_models :: "model_row list"
  t_owners :: "owner_row list"
  t_subs :: "subs_row list"
  t_nfile :: int
  t_nad :: int
  t_nmodel :: int
  t_nsubs :: int

definition add_file :: "string \<Rightarrow> string \<Rightarrow> int \<Rightarrow> tables \<Rightarrow> tables" where
  "add_file p b n t = t\<lparr>t_files := t_files t @ [\<lparr>f_id = t_nfile t, f_path = p, f_base64 = b, f_size = n\<rparr>],
     t_nfile := t_nfile t + 1\<rparr>"

definition add_ad :: "int \<Rightarrow> string \<Rightarrow> string \<Rightarrow> tables \<Rightarrow> tables" where
  "add_ad w p u t = t\<lparr>t_ads := t_ads t @ [\<lparr>a_id = t_nad t, a_owner = w, a_path = p, a_url = u\<rparr>],
     t_nad := t_nad t + 1\<rparr>"

definition add_model :: "int \<Rightarrow> int \<Rightarrow> string \<Rightarrow> string \<Rightarrow> tables \<Rightarrow> tables" where
  "add_model p q n d t = t\<lparr>t_models := t_models t @ [\<lparr>m_id = t_nmodel t, m_pc = p, m_mobile = q, m_name = n, m_desc = d\<rparr>],
     t_nmodel := t_nmodel t + 1\<rparr>"

definition add_subs :: "int \<Rightarrow> int \<Rightarrow> int \<Rightarrow> string \<Rightarrow> tables \<Rightarrow> tables" where
  "add_subs w m a h t = t\<lparr>t_subs := t_subs t @
       [\<lparr>s_id = t_nsubs t, s_owner = w, s_model = m, s_ad = a, s_hash = h, s_status = - 1\<rparr>],
     t_nsubs := t_nsubs t + 1\<rparr>"

text \<open>The rows are the same; a failed insertion may still use up an AUTO_INCREMENT value.\<close>

definition same_rows :: "tables \<Rightarrow> tables \<Rightarrow> bool" where
  "same_rows t t' \<longleftrightarrow> t_files t' = t_files t \<and> t_ads t' = t_ads t \<and> t_models t' = t_models t \<and>
     t_owners t' = t_owners t \<and> t_subs t' = t_subs t"

definition file_ids :: "tables \<Rightarrow> int set" where "file_ids t = f_id ` set (t_files t)"
definition ad_ids :: "tables \<Rightarrow> int set" where "ad_ids t = a_id ` set (t_ads t)"
definition model_ids :: "tables \<Rightarrow> int set" where "model_ids t = m_id ` set (t_models t)"
definition owner_ids :: "tables \<Rightarrow> int set" where "owner_ids t = o_id ` set (t_owners t)"

text \<open>
  Keys, AUTO_INCREMENT values and foreign keys of the schema; \<open>eq\<close> is the comparison of the text
  collation, under which \<open>HashId\<close> is unique.
\<close>

definition keys_below :: "int list \<Rightarrow> int \<Rightarrow> bool" where
  "keys_below is n \<longleftrightarrow> distinct is \<and> (\<forall>i\<in>set is. 0 < i \<and> i < n) \<and> 0 < n \<and> n \<le> 2 ^ 31"

definition db_ok :: "(string \<Rightarrow> string \<Rightarrow> bool) \<Rightarrow> tables \<Rightarrow> bool" where
  "db_ok eq t \<longleftrightarrow> keys_below (map f_id (t_files t)) (t_nfile t) \<and> keys_below (map a_id (t_ads t)) (t_nad t) \<and>
     keys_below (map m_id (t_models t)) (t_nmodel t) \<and> keys_below (map s_id (t_subs t)) (t_nsubs t) \<and>
     distinct (map o_id (t_owners t)) \<and> (\<forall>w\<in>set (t_owners t). 0 < o_id w \<and> o_id w < 2 ^ 31) \<and>
     (\<forall>m\<in>set (t_models t). m_pc m \<in> file_ids t \<and> m_mobile m \<in> file_ids t) \<and>
     (\<forall>s\<in>set (t_subs t). s_owner s \<in> owner_ids t \<and> s_model s \<in> model_ids t \<and> s_ad s \<in> ad_ids t) \<and>
     sorted_wrt (\<lambda>s s'. \<not> eq (s_hash s) (s_hash s')) (t_subs t)"

section \<open>Statements\<close>

definition quoted :: "string \<Rightarrow> string" where
  "quoted t = CHR 0x27 # t @ [CHR 0x27]"

definition q_subs :: "string \<Rightarrow> string" where
  "q_subs h = ''SELECT * FROM tbl_subscription WHERE HashId='' @ quoted h"

definition q_model :: "int \<Rightarrow> string" where
  "q_model i = ''SELECT * FROM tbl_model_desc WHERE id='' @ show_int i"

definition q_model_quoted :: "int \<Rightarrow> string" where
  "q_model_quoted i = ''SELECT * FROM tbl_model_desc WHERE id='' @ quoted (show_int i)"

definition q_file :: "int \<Rightarrow> string" where
  "q_file i = ''SELECT * FROM tbl_file_address WHERE id='' @ show_int i"

definition q_ad :: "int \<Rightarrow> string" where
  "q_ad i = ''SELECT * FROM tbl_advertisement WHERE id='' @ show_int i"

definition q_ad_quoted :: "int \<Rightarrow> string" where
  "q_ad_quoted i = ''SELECT * FROM tbl_advertisement WHERE id='' @ quoted (show_int i)"

definition q_login :: "string \<Rightarrow> string \<Rightarrow> string" where
  "q_login u p = ''SELECT * FROM tbl_owner_desc WHERE Username='' @ quoted u @ '' AND Password='' @ quoted p"

definition q_owner :: "string \<Rightarrow> string" where
  "q_owner u = ''SELECT * FROM tbl_owner_desc WHERE Username='' @ quoted u"

definition q_last :: string where
  "q_last = ''SELECT LAST_INSERT_ID() AS id''"

definition i_file :: "string \<Rightarrow> string \<Rightarrow> int \<Rightarrow> string" where
  "i_file p b n = ''INSERT INTO tbl_file_address (FilePathName, Base64FilePathName, Size) VALUES('' @
     quoted p @ '','' @ quoted b @ '','' @ show_int n @ '');''"

definition i_model :: "int \<Rightarrow> int \<Rightarrow> string \<Rightarrow> string \<Rightarrow> string" where
  "i_model p q n d = ''INSERT INTO tbl_model_desc (PCFileId, MobileFileId, ModelName, ModelDesc) VALUES('' @
     show_int p @ '', '' @ show_int q @ '', '' @ quoted n @ '', '' @ quoted d @ '')''"

definition i_ad :: "string \<Rightarrow> int \<Rightarrow> string \<Rightarrow> string" where
  "i_ad p w u = ''INSERT INTO tbl_advertisement (FilePathName, OwnerId, AdUrl) VALUES('' @
     quoted p @ '','' @ show_int w @ '','' @ quoted u @ '');''"

definition i_subs :: "int \<Rightarrow> int \<Rightarrow> int \<Rightarrow> string \<Rightarrow> string" where
  "i_subs w m a h = ''INSERT INTO tbl_subscription (OwnerId, ModelId, AdId, HashId) VALUES('' @
     show_int w @ '', '' @ show_int m @ '', '' @ quoted (show_int a) @ '', '' @ quoted h @ '')''"

section \<open>The connector\<close>

text \<open>
  A result row by what \<open>getInt\<close> and \<open>getBlob\<close> read from a column: None is an SQLException, a blob may be
  a null stream. \<open>sql_query\<close> None is an SQLException; so is \<open>sql_update\<close> with None, which may change the
  database (a used AUTO_INCREMENT value).
\<close>

record sqlrow =
  row_int :: "string \<Rightarrow> int option"
  row_blob :: "string \<Rightarrow> string option option"

datatype conn = Connected | ConnNull | ConnThrows

record 'db sql =
  sql_connect :: "'db \<Rightarrow> conn"
  sql_query :: "'db \<Rightarrow> string \<Rightarrow> sqlrow list option"
  sql_update :: "'db \<Rightarrow> string \<Rightarrow> nat option \<times> 'db"

section \<open>What the theorems rely on\<close>

text \<open>Text that stands for itself between quotes in a statement: printable ASCII without quote and backslash.\<close>

definition sql_safe :: "string \<Rightarrow> bool" where
  "sql_safe t \<longleftrightarrow> (\<forall>c\<in>set t. 32 \<le> code c \<and> code c < 127 \<and> c \<noteq> CHR 0x27 \<and> c \<noteq> CHR 0x5C)"

lemma sql_safe_append [simp]: "sql_safe (s @ t) \<longleftrightarrow> sql_safe s \<and> sql_safe t"
  by (auto simp: sql_safe_def)

lemma sql_safe_no_quote: "sql_safe t \<Longrightarrow> CHR 0x27 \<notin> set t"
  by (auto simp: sql_safe_def)

lemma sql_safe_c_text [simp]: "sql_safe t \<Longrightarrow> c_text t = t"
proof (rule c_text_id)
  assume t: "sql_safe t"
  have "code (CHR 0x00) = 0" by (simp add: code_def)
  then show "CHR 0x00 \<notin> set t" using t unfolding sql_safe_def by force
qed

definition selects :: "(sqlrow \<Rightarrow> 'r \<Rightarrow> bool) \<Rightarrow> sqlrow list option \<Rightarrow> 'r list \<Rightarrow> bool" where
  "selects R res rs \<longleftrightarrow> (case res of Some rows \<Rightarrow> list_all2 R rows rs | None \<Rightarrow> False)"

definition reads_file :: "sqlrow \<Rightarrow> file_row \<Rightarrow> bool" where
  "reads_file r f \<longleftrightarrow> row_blob r ''FilePathName'' = Some (Some (f_path f))"

definition reads_ad :: "sqlrow \<Rightarrow> ad_row \<Rightarrow> bool" where
  "reads_ad r a \<longleftrightarrow> row_blob r ''FilePathName'' = Some (Some (a_path a)) \<and> row_blob r ''AdUrl'' = Some (Some (a_url a))"

definition reads_model :: "sqlrow \<Rightarrow> model_row \<Rightarrow> bool" where
  "reads_model r m \<longleftrightarrow> row_int r ''PCFileId'' = Some (m_pc m)"

definition reads_owner :: "sqlrow \<Rightarrow> owner_row \<Rightarrow> bool" where
  "reads_owner r w \<longleftrightarrow> row_int r ''id'' = Some (o_id w)"

definition reads_subs :: "sqlrow \<Rightarrow> subs_row \<Rightarrow> bool" where
  "reads_subs r s \<longleftrightarrow> row_int r ''ModelId'' = Some (s_model s) \<and> row_int r ''AdId'' = Some (s_ad s)"

definition reads_id :: "sqlrow \<Rightarrow> int \<Rightarrow> bool" where
  "reads_id r i \<longleftrightarrow> row_int r ''id'' = Some i"

text \<open>Each select returns the rows of its table that satisfy the WHERE clause, in table order.\<close>

definition select_contract :: "'db sql \<Rightarrow> ('db \<Rightarrow> tables) \<Rightarrow> (string \<Rightarrow> string \<Rightarrow> bool) \<Rightarrow> bool" where
  "select_contract q tab eq \<longleftrightarrow> (\<forall>db.
     (\<forall>h. sql_safe h \<longrightarrow> selects reads_subs (sql_query q db (q_subs h)) [s \<leftarrow> t_subs (tab db). eq (s_hash s) h]) \<and>
     (\<forall>u p. sql_safe u \<and> sql_safe p \<longrightarrow> selects reads_owner (sql_query q db (q_login u p))
        [w \<leftarrow> t_owners (tab db). eq (o_user w) u \<and> eq (o_pass w) p]) \<and>
     (\<forall>u. sql_safe u \<longrightarrow> selects reads_owner (sql_query q db (q_owner u)) [w \<leftarrow> t_owners (tab db). eq (o_user w) u]) \<and>
     (\<forall>i. selects reads_model (sql_query q db (q_model i)) [m \<leftarrow> t_models (tab db). m_id m = i]) \<and>
     (\<forall>i. selects reads_model (sql_query q db (q_model_quoted i)) [m \<leftarrow> t_models (tab db). m_id m = i]) \<and>
     (\<forall>i. selects reads_file (sql_query q db (q_file i)) [f \<leftarrow> t_files (tab db). f_id f = i]) \<and>
     (\<forall>i. selects reads_ad (sql_query q db (q_ad i)) [a \<leftarrow> t_ads (tab db). a_id a = i]) \<and>
     (\<forall>i. selects reads_ad (sql_query q db (q_ad_quoted i)) [a \<leftarrow> t_ads (tab db). a_id a = i]))"

text \<open>
  An insertion that meets the column sizes and the constraints of its table adds the row under the next
  AUTO_INCREMENT value, and LAST_INSERT_ID then is that value; one that breaks a foreign key fails.
\<close>

definition inserts :: "'db sql \<Rightarrow> ('db \<Rightarrow> tables) \<Rightarrow> 'db \<Rightarrow> string \<Rightarrow> int \<Rightarrow> (tables \<Rightarrow> tables) \<Rightarrow> bool" where
  "inserts q tab db txt n f \<longleftrightarrow> (case sql_update q db txt of
      (Some k, db') \<Rightarrow> k = 1 \<and> tab db' = f (tab db) \<and> selects reads_id (sql_query q db' q_last) [n] \<and>
        sql_connect q db' = sql_connect q db
    | (None, db') \<Rightarrow> False)"

definition fails :: "'db sql \<Rightarrow> ('db \<Rightarrow> tables) \<Rightarrow> 'db \<Rightarrow> string \<Rightarrow> bool" where
  "fails q tab db txt \<longleftrightarrow> (case sql_update q db txt of
      (Some k, db') \<Rightarrow> False
    | (None, db') \<Rightarrow> same_rows (tab db) (tab db') \<and> sql_connect q db' = sql_connect q db)"

definition int_key :: "int \<Rightarrow> bool" where
  "int_key n \<longleftrightarrow> 0 < n \<and> n < 2 ^ 31"

definition subs_refs :: "tables \<Rightarrow> int \<Rightarrow> int \<Rightarrow> int \<Rightarrow> bool" where
  "subs_refs t w m a \<longleftrightarrow> w \<in> owner_ids t \<and> m \<in> model_ids t \<and> a \<in> ad_ids t"

definition insert_contract :: "'db sql \<Rightarrow> ('db \<Rightarrow> tables) \<Rightarrow> (string \<Rightarrow> string \<Rightarrow> bool) \<Rightarrow> bool" where
  "insert_contract q tab eq \<longleftrightarrow> (\<forall>db.
     (\<forall>p b n. sql_safe p \<and> sql_safe b \<and> length p \<le> 128 \<and> length b \<le> 128 \<and> int_key (t_nfile (tab db)) \<longrightarrow>
        inserts q tab db (i_file p b n) (t_nfile (tab db)) (add_file p b n)) \<and>
     (\<forall>p w u. sql_safe p \<and> sql_safe u \<and> length p \<le> 128 \<and> length u \<le> 128 \<and> int_key (t_nad (tab db)) \<longrightarrow>
        inserts q tab db (i_ad p w u) (t_nad (tab db)) (add_ad w p u)) \<and>
     (\<forall>i j n d. sql_safe n \<and> sql_safe d \<and> length n \<le> 32 \<and> length d \<le> 512 \<and>
        i \<in> file_ids (tab db) \<and> j \<in> file_ids (tab db) \<and> int_key (t_nmodel (tab db)) \<longrightarrow>
        inserts q tab db (i_model i j n d) (t_nmodel (tab db)) (add_model i j n d)) \<and>
     (\<forall>w m a h. sql_safe h \<and> length h \<le> 32 \<and> subs_refs (tab db) w m a \<and> int_key (t_nsubs (tab db)) \<and>
        (\<forall>s\<in>set (t_subs (tab db)). \<not> eq (s_hash s) h) \<longrightarrow>
        inserts q tab db (i_subs w m a h) (t_nsubs (tab db)) (add_subs w m a h)) \<and>
     (\<forall>w m a h. sql_safe h \<and> \<not> subs_refs (tab db) w m a \<longrightarrow> fails q tab db (i_subs w m a h)))"

section \<open>The schema is kept by every insertion\<close>

lemma keys_below_next: "keys_below is n \<Longrightarrow> int_key n \<Longrightarrow> keys_below (is @ [n]) (n + 1)"
  by (auto simp: keys_below_def int_key_def)

lemma keys_below_pos: "keys_below is n \<Longrightarrow> 0 < n"
  by (simp add: keys_below_def)

lemma ids_add [simp]:
  "file_ids (add_file p b n t) = insert (t_nfile t) (file_ids t)"
  "ad_ids (add_file p b n t) = ad_ids t" "model_ids (add_file p b n t) = model_ids t" "owner_ids (add_file p b n t) = owner_ids t"
  "file_ids (add_ad w p u t) = file_ids t" "ad_ids (add_ad w p u t) = insert (t_nad t) (ad_ids t)"
  "model_ids (add_ad w p u t) = model_ids t" "owner_ids (add_ad w p u t) = owner_ids t"
  "file_ids (add_model i j x d t) = file_ids t" "ad_ids (add_model i j x d t) = ad_ids t"
  "model_ids (add_model i j x d t) = insert (t_nmodel t) (model_ids t)" "owner_ids (add_model i j x d t) = owner_ids t"
  "file_ids (add_subs w m a h t) = file_ids t" "ad_ids (add_subs w m a h t) = ad_ids t"
  "model_ids (add_subs w m a h t) = model_ids t" "owner_ids (add_subs w m a h t) = owner_ids t"
  by (auto simp: file_ids_def ad_ids_def model_ids_def owner_ids_def add_file_def add_ad_def add_model_def add_subs_def)

lemma db_ok_add_file: "db_ok eq t \<Longrightarrow> int_key (t_nfile t) \<Longrightarrow> db_ok eq (add_file p b n t)"
  unfolding db_ok_def ids_add by (simp add: add_file_def keys_below_next)

lemma db_ok_add_ad: "db_ok eq t \<Longrightarrow> int_key (t_nad t) \<Longrightarrow> db_ok eq (add_ad w p u t)"
  unfolding db_ok_def ids_add by (simp add: add_ad_def keys_below_next)

lemma db_ok_add_model:
  "db_ok eq t \<Longrightarrow> int_key (t_nmodel t) \<Longrightarrow> i \<in> file_ids t \<Longrightarrow> j \<in> file_ids t \<Longrightarrow> db_ok eq (add_model i j x d t)"
  unfolding db_ok_def ids_add by (simp add: add_model_def keys_below_next)

lemma db_ok_add_subs:
  "db_ok eq t \<Longrightarrow> int_key (t_nsubs t) \<Longrightarrow> subs_refs t w m a \<Longrightarrow> \<forall>s\<in>set (t_subs t). \<not> eq (s_hash s) h \<Longrightarrow> db_ok eq (add_subs w m a h t)"
  unfolding db_ok_def ids_add by (simp add: add_subs_def keys_below_next subs_refs_def sorted_wrt_append)

end
