(* ===== verification/Server.thy ===== *)
theory Server
  imports Database
begin

text \<open>
  The publish server (CModelPublishServer.cpp): its state, the six handlers with their database statements
  and files, and the dispatch of GET and POST requests. Requests run one at a time.
\<close>

section \<open>State and environment\<close>

text \<open>
  What the server calls outside the repository: the connector, ATL base64 (\<open>v_enc\<close>: the text
  \<open>Base64Encode\<close> writes into a buffer of the required length \<open>v_req\<close>; \<open>v_dec\<close>: the bytes \<open>Base64Decode\<close> writes),
  \<open>UuidCreate\<close>, \<open>rand\<close> after \<open>srand\<close>, \<open>GetTickCount\<close>, the indeterminate contents of a new buffer, wide
  characters outside the one-byte range, and whether \<open>fopen\<close> can create a file.
\<close>

record 'db env =
  v_sql :: "'db sql"
  v_enc :: "bytes \<Rightarrow> string"
  v_dec :: "string \<Rightarrow> bytes"
  v_req :: "nat \<Rightarrow> nat"
  v_uuid :: "nat \<Rightarrow> string"
  v_rand :: "nat \<Rightarrow> nat \<Rightarrow> nat"
  v_tick :: "nat \<Rightarrow> nat"
  v_wjunk :: "nat \<Rightarrow> char"
  v_bjunk :: "nat \<Rightarrow> byte"
  v_wchar :: "byte \<Rightarrow> byte \<Rightarrow> char"
  v_writable :: "string \<Rightarrow> bool"
  v_fuel :: nat

text \<open>
  The static members, the database, the disk, how often \<open>UuidCreate\<close> and \<open>srand\<close> were called, and the
  \<open>answer\<close> and \<open>http_result\<close> of the request in progress, which the handlers change by reference.
\<close>

record 'db server =
  ms_root :: string
  ms_driver :: bool
  ms_db :: 'db
  ms_fs :: "string \<Rightarrow> bytes option"
  ms_uuids :: nat
  ms_seeds :: nat
  ms_answer :: fields
  ms_http :: nat

definition MAX_PATH :: nat where "MAX_PATH = 260"
definition MODEL_API_MAGIC :: string where "MODEL_API_MAGIC = ''tfzfepg''"
definition MODEL_FILE_EXTENSION :: string where "MODEL_FILE_EXTENSION = ''.3dscan''"
definition MODEL_FILE_PATH :: string where "MODEL_FILE_PATH = ''Models//''"
definition AD_FILE_PATH :: string where "AD_FILE_PATH = ''Ads//''"

definition MS_ERROR_OK :: int where "MS_ERROR_OK = 0"
definition MS_ERROR_SUBSCRIPTION_NOT_FOUND :: int where "MS_ERROR_SUBSCRIPTION_NOT_FOUND = 1"
definition MS_ERROR_MODEL_NOT_FOUND :: int where "MS_ERROR_MODEL_NOT_FOUND = 2"
definition MS_ERROR_FILE_ADDRESS_NOT_FOUND :: int where "MS_ERROR_FILE_ADDRESS_NOT_FOUND = 3"
definition MS_ERROR_COULD_NOT_OPEN_FILE :: int where "MS_ERROR_COULD_NOT_OPEN_FILE = 4"
definition MS_ERROR_AD_NOT_FOUND :: int where "MS_ERROR_AD_NOT_FOUND = 5"
definition MS_ERROR_UNKNOWN_CLIENT :: int where "MS_ERROR_UNKNOWN_CLIENT = 6"
definition MS_ERROR_UNKNOWN_METHOD :: int where "MS_ERROR_UNKNOWN_METHOD = 7"
definition MS_ERROR_DB :: int where "MS_ERROR_DB = 8"
definition MS_ERROR_INVALID_USER_PASS :: int where "MS_ERROR_INVALID_USER_PASS = 9"
definition MS_ERROR_UNKNOWN :: int where "MS_ERROR_UNKNOWN = 100"

lemmas server_consts = MAX_PATH_def MODEL_API_MAGIC_def MODEL_FILE_EXTENSION_def MODEL_FILE_PATH_def AD_FILE_PATH_def
  MS_ERROR_OK_def MS_ERROR_SUBSCRIPTION_NOT_FOUND_def MS_ERROR_MODEL_NOT_FOUND_def MS_ERROR_FILE_ADDRESS_NOT_FOUND_def
  MS_ERROR_COULD_NOT_OPEN_FILE_def MS_ERROR_AD_NOT_FOUND_def MS_ERROR_UNKNOWN_CLIENT_def MS_ERROR_UNKNOWN_METHOD_def
  MS_ERROR_DB_def MS_ERROR_INVALID_USER_PASS_def MS_ERROR_UNKNOWN_def

section \<open>Answers\<close>

definition set_field :: "string \<Rightarrow> json \<Rightarrow> ('db server, unit) act" where
  "set_field k v = modify (\<lambda>s. s\<lparr>ms_answer := smap_put k v (ms_answer s)\<rparr>)"

definition set_http :: "nat \<Rightarrow> ('db server, unit) act" where
  "set_http n = modify (\<lambda>s. s\<lparr>ms_http := n\<rparr>)"

definition set_err :: "string \<Rightarrow> int \<Rightarrow> nat \<Rightarrow> ('db server, unit) act" where
  "set_err msg c http = aseq (set_field ''error_message'' (JString msg))
     (aseq (set_field ''error_code'' (JNumber c)) (set_http http))"

definition set_ok :: "string \<Rightarrow> json \<Rightarrow> ('db server, unit) act" where
  "set_ok k v = aseq (set_field ''error_message'' (JString ''Success''))
     (aseq (set_field ''error_code'' (JNumber MS_ERROR_OK)) (aseq (set_field k v) (set_http 200)))"

definition whenever :: "bool \<Rightarrow> ('s, unit) act \<Rightarrow> ('s, unit) act" where
  "whenever c m = (if c then m else ret ())"

section \<open>Database access\<close>

text \<open>
  The opening lines of a handler. Without a driver the error is put into the answer and execution goes on
  to \<open>driver->connect\<close>; a null connection is used by \<open>setSchema\<close> before it is tested.
\<close>

definition db_open :: "'db env \<Rightarrow> ('db server, unit) act" where
  "db_open env = abind (gets ms_driver) (\<lambda>driver.
     aseq (whenever (\<not> driver) (set_err ''Database error!'' MS_ERROR_DB 500))
       (if \<not> driver then crash
        else abind (gets ms_db) (\<lambda>db. case sql_connect (v_sql env) db of
            Connected \<Rightarrow> ret ()
          | ConnNull \<Rightarrow> crash
          | ConnThrows \<Rightarrow> raise SqlException)))"

text \<open>\<open>sprintf_s\<close> into \<open>char szQuery[5000]\<close> aborts when the text does not fit.\<close>

definition run_query :: "'db env \<Rightarrow> string \<Rightarrow> ('db server, sqlrow list) act" where
  "run_query env txt = (if 5000 \<le> length txt then crash
     else abind (gets ms_db) (\<lambda>db. case sql_query (v_sql env) db txt of
         Some rows \<Rightarrow> ret rows
       | None \<Rightarrow> raise SqlException))"

definition run_update :: "'db env \<Rightarrow> string \<Rightarrow> ('db server, nat) act" where
  "run_update env txt = (if 5000 \<le> length txt then crash
     else abind (gets ms_db) (\<lambda>db. case sql_update (v_sql env) db txt of
         (Some n, db') \<Rightarrow> aseq (modify (\<lambda>s. s\<lparr>ms_db := db'\<rparr>)) (ret n)
       | (None, db') \<Rightarrow> aseq (modify (\<lambda>s. s\<lparr>ms_db := db'\<rparr>)) (raise SqlException)))"

text \<open>\<open>while ( res->next () ) i = res->getInt ( col )\<close>\<close>

fun last_int :: "string \<Rightarrow> sqlrow list \<Rightarrow> int \<Rightarrow> ('s, int) act" where
  "last_int col [] i = ret i"
| "last_int col (r # rs) i = (case row_int r col of Some j \<Rightarrow> last_int col rs j | None \<Rightarrow> raise SqlException)"

text \<open>\<open>getBlob\<close> and the reading of the stream into a string.\<close>

definition blob_text :: "string \<Rightarrow> sqlrow \<Rightarrow> ('s, string) act" where
  "blob_text col r = (case row_blob r col of
      None \<Rightarrow> raise SqlException
    | Some None \<Rightarrow> ret []
    | Some (Some t) \<Rightarrow> ret (c_text t))"

fun for_rows :: "(sqlrow \<Rightarrow> ('s, unit) act) \<Rightarrow> sqlrow list \<Rightarrow> ('s, unit) act" where
  "for_rows f [] = ret ()"
| "for_rows f (r # rs) = aseq (f r) (for_rows f rs)"

text \<open>The first column an id query selects; an empty result puts the error into the answer.\<close>

definition select_int :: "'db env \<Rightarrow> string \<Rightarrow> string \<Rightarrow> string \<Rightarrow> int \<Rightarrow> nat \<Rightarrow> ('db server, int) act" where
  "select_int env txt col msg c http = abind (run_query env txt) (\<lambda>rows.
     aseq (whenever (rows = []) (set_err msg c http)) (last_int col rows (- 1)))"

definition find_subs :: "'db env \<Rightarrow> fields \<Rightarrow> string \<Rightarrow> ('db server, int) act" where
  "find_subs env params col = abind (text_at params ''subsid'') (\<lambda>w. abind (ansi256 w) (\<lambda>sid.
     select_int env (q_subs sid) col ''Subscription id not found!'' MS_ERROR_SUBSCRIPTION_NOT_FOUND 404))"

definition find_file :: "'db env \<Rightarrow> int \<Rightarrow> ('db server, int) act" where
  "find_file env i = select_int env (q_model i) ''PCFileId'' ''Model id not found!'' MS_ERROR_MODEL_NOT_FOUND 404"

text \<open>User name and password against \<open>tbl_owner_desc\<close>; -1 when no row matches.\<close>

definition login :: "'db env \<Rightarrow> fields \<Rightarrow> ('db server, int) act" where
  "login env params = abind (text_at params ''user'') (\<lambda>w. abind (ansi256 w) (\<lambda>user.
     abind (text_at params ''pass'') (\<lambda>w. abind (ansi256 w) (\<lambda>pass.
     select_int env (q_login user pass) ''id'' ''Invalid username or password!'' MS_ERROR_INVALID_USER_PASS 403))))"

section \<open>Files\<close>

text \<open>The wide text of a buffer of \<open>n\<close> characters that starts with the bytes \<open>d\<close> and is otherwise not set.\<close>

definition wide_buffer :: "'db env \<Rightarrow> nat \<Rightarrow> bytes \<Rightarrow> string" where
  "wide_buffer env n d = c_text (wide_chars (v_wchar env) d @ map (v_wjunk env) [length d div 2..<n])"

definition read_file :: "string \<Rightarrow> ('db server, bytes option) act" where
  "read_file path = gets (\<lambda>s. ms_fs s path)"

text \<open>\<open>fopen ( path, "wb" )\<close> and \<open>fwrite\<close>; a null file pointer is passed on to \<open>fwrite\<close>.\<close>

definition write_file :: "'db env \<Rightarrow> string \<Rightarrow> bytes \<Rightarrow> ('db server, unit) act" where
  "write_file env path d = (if v_writable env path then modify (\<lambda>s. s\<lparr>ms_fs := (ms_fs s)(path \<mapsto> d)\<rparr>) else crash)"

definition encoded :: "'db env \<Rightarrow> bytes \<Rightarrow> string" where
  "encoded env d = c_text (v_enc env d)"

section \<open>OnGetModel, OnGetAd, OnGetInfo\<close>

text \<open>
  The file behind \<open>path\<close>: its base64 text from the cache file \<open>path.base64\<close> when there is one, otherwise from
  the file itself, which also writes the cache file.
\<close>

definition serve_base64 :: "'db env \<Rightarrow> string \<Rightarrow> string \<Rightarrow> string \<Rightarrow> ('db server, unit) act" where
  "serve_base64 env path key msg = abind (read_file (path @ ''.base64'')) (\<lambda>cached. case cached of
      Some d \<Rightarrow> set_ok key (JString (wide_buffer env (length d) d))
    | None \<Rightarrow> abind (read_file path) (\<lambda>orig. case orig of
          None \<Rightarrow> set_err msg MS_ERROR_COULD_NOT_OPEN_FILE 404
        | Some d \<Rightarrow> aseq (write_file env (path @ ''.base64'') (wide_bytes (encoded env d)))
            (set_ok key (JString (encoded env d)))))"

definition serve_model :: "'db env \<Rightarrow> sqlrow \<Rightarrow> ('db server, unit) act" where
  "serve_model env r = abind (blob_text ''FilePathName'' r) (\<lambda>p. abind (gets ms_root) (\<lambda>root.
     serve_base64 env (root @ MODEL_FILE_PATH @ p) ''model'' ''Could not open model file!''))"

definition model_rows :: "'db env \<Rightarrow> (sqlrow \<Rightarrow> ('db server, unit) act) \<Rightarrow> int \<Rightarrow> ('db server, unit) act" where
  "model_rows env f i = abind (run_query env (q_file i)) (\<lambda>rows.
     aseq (whenever (rows = []) (set_err ''Model file address not found!'' MS_ERROR_FILE_ADDRESS_NOT_FOUND 404))
       (for_rows f rows))"

definition OnGetModel :: "'db env \<Rightarrow> fields \<Rightarrow> ('db server, unit) act" where
  "OnGetModel env params = aseq (db_open env) (abind (find_subs env params ''ModelId'') (\<lambda>iModelId.
     abind (if iModelId \<noteq> - 1 then find_file env iModelId else ret (- 1)) (\<lambda>iFileId.
     whenever (iFileId \<noteq> - 1) (model_rows env (serve_model env) iFileId))))"

definition serve_ad :: "'db env \<Rightarrow> sqlrow \<Rightarrow> ('db server, unit) act" where
  "serve_ad env r = abind (blob_text ''FilePathName'' r) (\<lambda>p. abind (blob_text ''AdUrl'' r) (\<lambda>url.
     aseq (set_field ''url'' (JString url)) (abind (gets ms_root) (\<lambda>root.
     serve_base64 env (root @ AD_FILE_PATH @ p) ''ad'' ''Could not open ad file!''))))"

definition OnGetAd :: "'db env \<Rightarrow> fields \<Rightarrow> ('db server, unit) act" where
  "OnGetAd env params = aseq (db_open env) (abind (find_subs env params ''AdId'') (\<lambda>iAdId.
     whenever (iAdId \<noteq> - 1) (abind (run_query env (q_ad iAdId)) (\<lambda>rows.
       aseq (whenever (rows = []) (set_err ''Ad id not found!'' MS_ERROR_AD_NOT_FOUND 404))
         (for_rows (serve_ad env) rows)))))"

text \<open>The first 64 bytes of the model, or the first characters of the cached base64 text.\<close>

definition serve_info :: "'db env \<Rightarrow> sqlrow \<Rightarrow> ('db server, unit) act" where
  "serve_info env r = abind (blob_text ''FilePathName'' r) (\<lambda>p. abind (gets ms_root) (\<lambda>root.
     let path = root @ MODEL_FILE_PATH @ p in
     abind (read_file (path @ ''.base64'')) (\<lambda>cached. case cached of
        Some d \<Rightarrow> (let iSize = v_req env 64 * 2 in
          aseq (set_ok ''info'' (JString (wide_buffer env iSize (take (2 * iSize) d))))
            (set_field ''size'' (JNumber (int (length d)))))
      | None \<Rightarrow> abind (read_file (path @ MODEL_FILE_EXTENSION)) (\<lambda>orig. case orig of
            None \<Rightarrow> set_err ''Could not open model file!'' MS_ERROR_COULD_NOT_OPEN_FILE 404
          | Some d \<Rightarrow> aseq (set_ok ''info'' (JString (encoded env (take 64 d @ map (v_bjunk env) [length d..<64]))))
              (set_field ''size'' (JNumber (int (v_req env (length d)))))))))"

definition OnGetInfo :: "'db env \<Rightarrow> fields \<Rightarrow> ('db server, unit) act" where
  "OnGetInfo env params = aseq (db_open env) (abind (find_subs env params ''ModelId'') (\<lambda>iModelId.
     abind (if iModelId \<noteq> - 1 then find_file env iModelId else ret (- 1)) (\<lambda>iFileId.
     whenever (iFileId \<noteq> - 1) (model_rows env (serve_info env) iFileId))))"

section \<open>OnUploadModel, OnUploadAd\<close>

text \<open>Decoding the text and writing it under a new UUID; returns the file name and the size.\<close>

definition store_file :: "'db env \<Rightarrow> string \<Rightarrow> string \<Rightarrow> string \<Rightarrow> ('db server, string \<times> int) act" where
  "store_file env dir ext t = abind (gets (\<lambda>s. v_uuid env (ms_uuids s) @ ext)) (\<lambda>name.
     aseq (modify (\<lambda>s. s\<lparr>ms_uuids := Suc (ms_uuids s)\<rparr>)) (abind (gets ms_root) (\<lambda>root.
     aseq (write_file env (root @ dir @ name) (v_dec env t))
       (ret (name, int (length (v_dec env t)))))))"

definition upload_file :: "'db env \<Rightarrow> fields \<Rightarrow> ('db server, int) act" where
  "upload_file env params = abind (text_at params ''model'') (\<lambda>t.
     abind (store_file env MODEL_FILE_PATH ''.3dscan'' t) (\<lambda>(name, size).
     abind (run_update env (i_file name (name @ ''.base64'') size)) (\<lambda>n.
     aseq (whenever (n = 0) (set_err ''Subscription id not found!'' MS_ERROR_SUBSCRIPTION_NOT_FOUND 404))
       (select_int env q_last ''id'' ''Subscription id not found!'' MS_ERROR_SUBSCRIPTION_NOT_FOUND 404))))"

definition upload_model_row :: "'db env \<Rightarrow> fields \<Rightarrow> int \<Rightarrow> ('db server, unit) act" where
  "upload_model_row env params iFileId = abind (text_at params ''name'') (\<lambda>w. abind (ansi256 w) (\<lambda>name.
     abind (text_at params ''desc'') (\<lambda>w. abind (ansi256 w) (\<lambda>desc.
     abind (run_update env (i_model iFileId iFileId name desc)) (\<lambda>n.
     if n = 0 then set_err ''Model id not found!'' MS_ERROR_MODEL_NOT_FOUND 404
     else abind (select_int env q_last ''id'' ''Model id not found!'' MS_ERROR_MODEL_NOT_FOUND 404) (\<lambda>iModelId.
       whenever (iModelId \<noteq> - 1) (set_ok ''model_id'' (JNumber iModelId))))))))"

definition OnUploadModel :: "'db env \<Rightarrow> fields \<Rightarrow> ('db server, unit) act" where
  "OnUploadModel env params = aseq (db_open env) (abind (login env params) (\<lambda>iUserId.
     abind (if iUserId \<noteq> - 1 then upload_file env params else ret (- 1)) (\<lambda>iFileId.
     whenever (iFileId \<noteq> - 1) (upload_model_row env params iFileId))))"

definition upload_ad_row :: "'db env \<Rightarrow> fields \<Rightarrow> string \<Rightarrow> int \<Rightarrow> ('db server, unit) act" where
  "upload_ad_row env params url iUserId = abind (text_at params ''ad'') (\<lambda>t.
     abind (store_file env AD_FILE_PATH ''.png'' t) (\<lambda>(name, size).
     abind (run_update env (i_ad name iUserId url)) (\<lambda>n.
     aseq (whenever (n = 0) (set_err ''Subscription id not found!'' MS_ERROR_SUBSCRIPTION_NOT_FOUND 404))
       (abind (select_int env q_last ''id'' ''Subscription id not found!'' MS_ERROR_SUBSCRIPTION_NOT_FOUND 404) (\<lambda>iAdId.
        whenever (iAdId \<noteq> - 1) (set_ok ''ad_id'' (JNumber iAdId)))))))"

definition OnUploadAd :: "'db env \<Rightarrow> fields \<Rightarrow> ('db server, unit) act" where
  "OnUploadAd env params = aseq (db_open env) (abind (text_at params ''url'') (\<lambda>w. abind (ansi256 w) (\<lambda>url.
     abind (login env params) (\<lambda>iUserId.
     whenever (iUserId \<noteq> - 1) (upload_ad_row env params url iUserId)))))"

section \<open>OnCreateSubscription\<close>

definition find_owner :: "'db env \<Rightarrow> fields \<Rightarrow> ('db server, int) act" where
  "find_owner env params = abind (text_at params ''owner'') (\<lambda>w. abind (ansi256 w) (\<lambda>owner.
     select_int env (q_owner owner) ''id'' ''Invalid username or password!'' MS_ERROR_INVALID_USER_PASS 403))"

definition row_exists :: "'db env \<Rightarrow> string \<Rightarrow> ('db server, bool) act" where
  "row_exists env txt = abind (run_query env txt) (\<lambda>rows.
     if rows = [] then aseq (set_err ''Invalid username or password!'' MS_ERROR_INVALID_USER_PASS 403) (ret False)
     else ret True)"

text \<open>The characters of a new subscription id: \<open>A\<close>..\<open>Z\<close>, \<open>a\<close>..\<open>z\<close>.\<close>

definition hash_char :: "nat \<Rightarrow> char" where
  "hash_char r = (let c = r mod 52 in char_of (if c < 26 then c + 65 else c + (97 - 26)))"

definition hash_at :: "'db env \<Rightarrow> nat \<Rightarrow> nat \<Rightarrow> string" where
  "hash_at env seed j = map (\<lambda>i. hash_char (v_rand env seed (8 * j + i))) [0..<8]"

fun pick_hash :: "'db env \<Rightarrow> nat \<Rightarrow> nat \<Rightarrow> nat \<Rightarrow> ('db server, string) act" where
  "pick_hash env seed j 0 = hang"
| "pick_hash env seed j (Suc n) = abind (run_query env (q_subs (hash_at env seed j))) (\<lambda>rows.
     if rows = [] then ret (hash_at env seed j) else pick_hash env seed (Suc j) n)"

definition insert_subs :: "'db env \<Rightarrow> int \<Rightarrow> int \<Rightarrow> int \<Rightarrow> ('db server, unit) act" where
  "insert_subs env iOwnerId iModelId iAdId = abind (gets (\<lambda>s. v_tick env (ms_seeds s))) (\<lambda>seed.
     aseq (modify (\<lambda>s. s\<lparr>ms_seeds := Suc (ms_seeds s)\<rparr>)) (abind (pick_hash env seed 0 (v_fuel env)) (\<lambda>szHash.
     abind (run_update env (i_subs iOwnerId iModelId iAdId szHash)) (\<lambda>n.
     if n = 0 then set_err ''Model id not found!'' MS_ERROR_MODEL_NOT_FOUND 404
     else abind (select_int env q_last ''id'' ''Model id not found!'' MS_ERROR_MODEL_NOT_FOUND 404) (\<lambda>iSubsId.
       whenever (iSubsId \<noteq> - 1) (set_ok ''subscription_id'' (JString szHash)))))))"

definition OnCreateSubscription :: "'db env \<Rightarrow> fields \<Rightarrow> ('db server, unit) act" where
  "OnCreateSubscription env params = aseq (db_open env) (abind (login env params) (\<lambda>iUserId.
     abind (if iUserId \<noteq> - 1 then find_owner env params else ret (- 1)) (\<lambda>iOwnerId.
     abind (int_at params ''model_id'') (\<lambda>iModelId.
     abind (if iOwnerId \<noteq> - 1 then row_exists env (q_model_quoted iModelId) else ret False) (\<lambda>bModelExists.
     abind (int_at params ''ad_id'') (\<lambda>iAdId.
     abind (if iOwnerId \<noteq> - 1
        then abind (row_exists env (q_ad_quoted iAdId)) (\<lambda>b. ret (b \<or> iAdId = - 1)) else ret False) (\<lambda>bAdExists.
     whenever (bAdExists \<and> bModelExists) (insert_subs env iOwnerId iModelId iAdId))))))))"

section \<open>HandleGet, HandlePost\<close>

definition catch_http :: "('s, unit) act \<Rightarrow> ('s, unit) act" where
  "catch_http m = (\<lambda>s. case m s of (Throw HttpException, s') \<Rightarrow> (Ret (), s') | (r, s') \<Rightarrow> (r, s'))"

definition start_answer :: "('db server, unit) act" where
  "start_answer = modify (\<lambda>s. s\<lparr>ms_answer := smap_put ''error_code'' (JNumber MS_ERROR_UNKNOWN)
       (smap_put ''error_message'' (JString ''Unknown error'') []), ms_http := 503\<rparr>)"

definition reply :: "('db server, nat \<times> fields) act" where
  "reply = abind (gets (\<lambda>s. json_field (JObject (ms_answer s)) ''error_code'')) (\<lambda>j. abind (as_integer j) (\<lambda>_.
     gets (\<lambda>s. (ms_http s, ms_answer s))))"

definition copy_param :: "fields \<Rightarrow> string \<Rightarrow> (string \<times> string) list \<Rightarrow> fields" where
  "copy_param m k kv = (case smap_get kv k of Some t \<Rightarrow> smap_put k (JString t) m | None \<Rightarrow> m)"

definition get_params :: "(string \<times> string) list \<Rightarrow> fields" where
  "get_params kv = copy_param (copy_param [] ''subsid'' kv) ''clientid'' kv"

definition get_method :: "'db env \<Rightarrow> string list \<Rightarrow> (string \<times> string) list \<Rightarrow> ('db server, unit) act" where
  "get_method env path kv =
     (if path \<noteq> [] then
        if smap_get kv ''magic'' \<noteq> Some MODEL_API_MAGIC
        then set_err ''Request from unknown client!'' MS_ERROR_UNKNOWN_CLIENT 400
        else let strMethod = last path in
          if strMethod = ''get'' then OnGetModel env (get_params kv)
          else if strMethod = ''getad'' then OnGetAd env (get_params kv)
          else if strMethod = ''getinfo'' then OnGetInfo env (get_params kv)
          else set_err ''Bad method name!'' MS_ERROR_UNKNOWN_METHOD 400
      else set_err ''Invalid request format!'' MS_ERROR_UNKNOWN_CLIENT 400)"

definition HandleGet :: "'db env \<Rightarrow> string \<Rightarrow> string \<Rightarrow> ('db server, nat \<times> fields) act" where
  "HandleGet env path query = aseq start_answer (aseq (catch_http
     (case decode path of None \<Rightarrow> raise UriException | Some p \<Rightarrow>
      (case decode query of None \<Rightarrow> raise UriException | Some q \<Rightarrow>
        get_method env (split_path p) (split_query q)))) reply)"

text \<open>\<open>extract_json ( true ).get ()\<close>: the parsed body, an \<open>http_exception\<close> or a \<open>json_exception\<close>.\<close>

datatype body = Body json | BodyHttpError | BodyJsonError

definition copy_fields :: "json \<Rightarrow> string list \<Rightarrow> fields" where
  "copy_fields j ks = fold (\<lambda>k m. if has_field j k then smap_put k (json_field j k) m else m) ks []"

definition post_method :: "'db env \<Rightarrow> string list \<Rightarrow> json \<Rightarrow> ('db server, unit) act" where
  "post_method env path jsonBody =
     (if path \<noteq> [] then
        let strMethod = last path in
          if strMethod = ''upload_model''
          then OnUploadModel env (copy_fields jsonBody [''model'', ''user'', ''pass'', ''name'', ''desc''])
          else if strMethod = ''upload_ad''
          then OnUploadAd env (copy_fields jsonBody [''ad'', ''user'', ''pass'', ''url''])
          else if strMethod = ''create_subs''
          then OnCreateSubscription env (copy_fields jsonBody [''model_id'', ''ad_id'', ''owner'', ''user'', ''pass''])
          else set_err ''Bad method name!'' MS_ERROR_UNKNOWN_METHOD 400
      else set_err ''Invalid request format!'' MS_ERROR_UNKNOWN_CLIENT 400)"

definition HandlePost :: "'db env \<Rightarrow> string \<Rightarrow> string \<Rightarrow> body \<Rightarrow> ('db server, nat \<times> fields) act" where
  "HandlePost env path query b = aseq start_answer (aseq (catch_http
     (case decode path of None \<Rightarrow> raise UriException | Some p \<Rightarrow>
      (case decode query of None \<Rightarrow> raise UriException | Some q \<Rightarrow>
      (case b of
         BodyHttpError \<Rightarrow> raise HttpException
       | BodyJsonError \<Rightarrow> raise JsonException
       | Body j \<Rightarrow> post_method env (split_path p) j)))) reply)"

section \<open>Starting the server\<close>

text \<open>The constructor: the static \<open>driver\<close> is what \<open>get_driver_instance\<close> returned.\<close>

definition CModelPublishServer_new :: "bool \<Rightarrow> ('db server, unit) act" where
  "CModelPublishServer_new driver = modify (\<lambda>s. s\<lparr>ms_driver := driver\<rparr>)"

definition SetServerRootFolder :: "string option \<Rightarrow> ('db server, unit) act" where
  "SetServerRootFolder pszRoot = (case pszRoot of
      None \<Rightarrow> ret ()
    | Some r \<Rightarrow> if MAX_PATH \<le> length r then crash else modify (\<lambda>s. s\<lparr>ms_root := r\<rparr>))"

text \<open>
  \<open>LoadConfig\<close>: the first word of config.txt is the host; without a word \<open>szHost\<close> keeps its
  indeterminate contents, a word of 1000 characters or more leaves the buffer. None is the result false.
\<close>

definition LoadConfig :: "string \<Rightarrow> string option \<Rightarrow> ('s, string option) act" where
  "LoadConfig junk file = (case file of
      None \<Rightarrow> ret None
    | Some t \<Rightarrow> (let w = takeWhile (\<lambda>c. \<not> is_space c) (dropWhile is_space t) in
        if w = [] then ret (Some junk) else if 1000 \<le> length w then crash else ret (Some w)))"

text \<open>\<open>_splitpath\<close> gives drive and directory of the executable, which become the root folder.\<close>

definition InitializeServer :: "(string \<Rightarrow> string \<times> string) \<Rightarrow> string \<Rightarrow> bool \<Rightarrow> ('db server, unit) act" where
  "InitializeServer splitpath exe driver = (let (drive, dir) = splitpath exe in
     if MAX_PATH \<le> length (drive @ dir) then crash
     else aseq (CModelPublishServer_new driver) (SetServerRootFolder (Some (drive @ dir))))"

end
