(* ===== verification/WebClient.thy ===== *)
theory WebClient
  imports Server
begin

text \<open>
  The client of the service (CModelWebServiceClient.cpp) with the URI building of cpprest it uses
  (uri_builder.cpp): the requests it sends, what it takes from the answers, and the buffers it copies into.
\<close>

section \<open>URIs\<close>

text \<open>A URI by its text up to the path, its path, query and fragment.\<close>

record uri =
  u_base :: string
  u_path :: string
  u_query :: string
  u_fragment :: string

definition is_sub_delim :: "char \<Rightarrow> bool" where
  "is_sub_delim c \<longleftrightarrow> c \<in> {CHR ''!'', CHR ''$'', CHR ''&'', CHR 0x27, CHR ''('', CHR '')'', CHR ''*'', CHR ''+'', CHR '','',
     CHR '';'', CHR ''=''}"

definition is_path_character :: "char \<Rightarrow> bool" where
  "is_path_character c \<longleftrightarrow> is_unreserved c \<or> is_sub_delim c \<or> c \<in> {CHR ''%'', CHR ''/'', CHR '':'', CHR ''@''}"

definition is_query_character :: "char \<Rightarrow> bool" where
  "is_query_character c \<longleftrightarrow> is_path_character c \<or> c = CHR ''?''"

definition encode_query_impl :: "string \<Rightarrow> string" where
  "encode_query_impl = encode_impl (\<lambda>c.
     c \<in> {CHR ''&'', CHR '';'', CHR ''='', CHR ''%'', CHR ''+''} \<or> \<not> is_query_character c)"

definition append_path :: "string \<Rightarrow> uri \<Rightarrow> uri" where
  "append_path path u =
     (if path = [] \<or> path = ''/'' then u
      else let this = u_path u in
        if this = [] \<or> this = ''/'' then u\<lparr>u_path := (if hd path \<noteq> CHR ''/'' then CHR ''/'' # path else path)\<rparr>
        else if last this = CHR ''/'' \<and> hd path = CHR ''/'' then u\<lparr>u_path := butlast this @ path\<rparr>
        else if last this \<noteq> CHR ''/'' \<and> hd path \<noteq> CHR ''/'' then u\<lparr>u_path := this @ ''/'' @ path\<rparr>
        else u\<lparr>u_path := this @ path\<rparr>)"

definition append_query_text :: "string \<Rightarrow> uri \<Rightarrow> uri" where
  "append_query_text query u =
     (if query = [] then u
      else let this = u_query u in
        if this = [] then u\<lparr>u_query := query\<rparr>
        else if last this = CHR ''&'' \<and> hd query = CHR ''&'' then u\<lparr>u_query := butlast this @ query\<rparr>
        else if last this \<noteq> CHR ''&'' \<and> hd query \<noteq> CHR ''&'' then u\<lparr>u_query := this @ ''&'' @ query\<rparr>
        else u\<lparr>u_query := this @ query\<rparr>)"

definition append_query :: "string \<Rightarrow> string \<Rightarrow> uri \<Rightarrow> uri" where
  "append_query name v u = append_query_text (encode_query_impl name @ ''='' @ encode_query_impl v) u"

definition append_uri :: "uri \<Rightarrow> uri \<Rightarrow> uri" where
  "append_uri rel u = (append_query_text (u_query rel) (append_path (u_path rel) u))\<lparr>u_fragment := u_fragment u @ u_fragment rel\<rparr>"

text \<open>The text of a URI from its parts.\<close>

definition uri_text :: "uri \<Rightarrow> string" where
  "uri_text u = u_base u @ u_path u @ (if u_query u = [] then [] else ''?'' @ u_query u) @
     (if u_fragment u = [] then [] else ''#'' @ u_fragment u)"

section \<open>Environment\<close>

text \<open>
  A request as the client hands it to \<open>http_client::request\<close>: the base URI of the client and the URI of the
  request, which the transport appends to the base.
\<close>

record http_req =
  rq_post :: bool
  rq_uri :: uri
  rq_body :: json

datatype transport = Reply nat body | NoReply

text \<open>
  What lies outside: the parser of URI texts (None where a constructor throws), the transport (NoReply is an
  \<open>http_exception\<close>), base64, and the indeterminate value of a status variable.
\<close>

record 'w cenv =
  k_parse :: "string \<Rightarrow> uri option"
  k_send :: "'w \<Rightarrow> http_req \<Rightarrow> transport \<times> 'w"
  k_enc :: "bytes \<Rightarrow> string"
  k_dec :: "string \<Rightarrow> bytes"
  k_status :: nat

text \<open>
  The result of a call with an output pointer: false with the pointer's target as it was, false with the target
  set to NULL, or true with the value.
\<close>

datatype 'a got = Unset | Nulled | Got 'a

text \<open>\<open>MultiByteToWideChar\<close> into \<open>wchar_t[1000]\<close> with capacity 1000, then the terminator.\<close>

definition client_id1000 :: "string \<Rightarrow> ('w, string) act" where
  "client_id1000 s = (if 1000 < length s then ret [] else if length s = 1000 then crash else ret s)"

definition parse_uri :: "'w cenv \<Rightarrow> string \<Rightarrow> ('w, uri) act" where
  "parse_uri k t = (case k_parse k t of Some u \<Rightarrow> ret u | None \<Rightarrow> raise UriException)"

section \<open>Requests\<close>

text \<open>
  The two continuations of a request: the status is taken from the response, the JSON only from one with
  status 200; an \<open>http_exception\<close> is caught and leaves null, before the first continuation even the status.
\<close>

definition finish_request :: "'w cenv \<Rightarrow> http_req \<Rightarrow> ('w, nat \<times> json) act" where
  "finish_request k rq = abind (\<lambda>w. case k_send k w rq of (t, w') \<Rightarrow> (Ret t, w')) (\<lambda>t. case t of
      NoReply \<Rightarrow> ret (k_status k, JNull)
    | Reply st b \<Rightarrow>
        (if st = 200 then (case b of
            Body j \<Rightarrow> ret (st, j)
          | BodyHttpError \<Rightarrow> ret (st, JNull)
          | BodyJsonError \<Rightarrow> raise JsonException)
         else ret (st, JNull)))"

text \<open>The URI of the request is the base URI of the client once more.\<close>

definition make_request_get :: "'w cenv \<Rightarrow> uri \<Rightarrow> ('w, nat \<times> json) act" where
  "make_request_get k u = finish_request k \<lparr>rq_post = False, rq_uri = append_uri u u, rq_body = JNull\<rparr>"

definition make_request_post :: "'w cenv \<Rightarrow> uri \<Rightarrow> json \<Rightarrow> ('w, nat \<times> json) act" where
  "make_request_post k u j = finish_request k \<lparr>rq_post = True, rq_uri = append_uri u u, rq_body = j\<rparr>"

section \<open>Downloads\<close>

text \<open>What all three downloads check of an answer before they read the field \<open>key\<close>.\<close>

definition answer_field :: "string \<Rightarrow> nat \<times> json \<Rightarrow> bool" where
  "answer_field key r \<longleftrightarrow> (case r of (st, answer) \<Rightarrow> st = 200 \<and> answer \<noteq> JNull \<and> has_field answer ''error_message'' \<and> has_field answer key)"

definition decode_field :: "'w cenv \<Rightarrow> string \<Rightarrow> json \<Rightarrow> ('w, bytes) act" where
  "decode_field k key answer = abind (as_string (json_field answer key)) (\<lambda>t. ret (k_dec k t))"

definition GetModel :: "'w cenv \<Rightarrow> string option \<Rightarrow> string option \<Rightarrow> bool \<Rightarrow> ('w, bytes got) act" where
  "GetModel k pszUrl pszClientId ppData = (case (pszUrl, pszClientId) of
      (Some url, Some cid) \<Rightarrow>
        (if \<not> ppData then ret Unset else
         abind (client_id1000 cid) (\<lambda>_. abind (parse_uri k url) (\<lambda>inuri. abind (make_request_get k inuri) (\<lambda>r.
           if \<not> answer_field ''model'' r then ret Nulled
           else abind (decode_field k ''model'' (snd r)) (\<lambda>d. ret (Got d))))))
    | _ \<Rightarrow> ret Unset)"

text \<open>With the file size, which is read only when the caller asks for it.\<close>

definition GetModelInfo :: "'w cenv \<Rightarrow> string option \<Rightarrow> string option \<Rightarrow> bool \<Rightarrow> bool \<Rightarrow> ('w, (bytes \<times> int option) got) act" where
  "GetModelInfo k pszUrl pszClientId ppData piFileSize = (case (pszUrl, pszClientId) of
      (Some url, Some cid) \<Rightarrow>
        (if \<not> ppData then ret Unset else
         abind (client_id1000 cid) (\<lambda>_. abind (parse_uri k url) (\<lambda>inuri. abind (make_request_get k inuri) (\<lambda>r.
           if \<not> answer_field ''info'' r then ret Nulled
           else abind (decode_field k ''info'' (snd r)) (\<lambda>d.
             if piFileSize then abind (as_integer (json_field (snd r) ''size'')) (\<lambda>n. ret (Got (d, Some n)))
             else ret (Got (d, None)))))))
    | _ \<Rightarrow> ret Unset)"

definition GetAd :: "'w cenv \<Rightarrow> string option \<Rightarrow> string option \<Rightarrow> bool \<Rightarrow> ('w, (bytes \<times> string) got) act" where
  "GetAd k pszUrl pszClientId ppData = (case (pszUrl, pszClientId) of
      (Some url, Some cid) \<Rightarrow>
        (if \<not> ppData then ret Unset else
         abind (client_id1000 cid) (\<lambda>_. abind (parse_uri k url) (\<lambda>inuri. abind (make_request_get k inuri) (\<lambda>r.
           if \<not> answer_field ''ad'' r then ret Nulled
           else abind (decode_field k ''ad'' (snd r)) (\<lambda>d.
             abind (as_string (json_field (snd r) ''url'')) (\<lambda>t. ret (Got (d, t))))))))
    | _ \<Rightarrow> ret Unset)"

section \<open>Uploads\<close>

definition put_text :: "string \<Rightarrow> string \<Rightarrow> fields \<Rightarrow> fields" where
  "put_text k v m = smap_put k (JString v) m"

text \<open>The common end: the URI with the client id, the request, and whether the answer has the field.\<close>

definition post_for :: "'w cenv \<Rightarrow> string \<Rightarrow> string \<Rightarrow> json \<Rightarrow> string \<Rightarrow> ('w, json option) act" where
  "post_for k url cid send key = abind (parse_uri k url) (\<lambda>inuri.
     abind (make_request_post k (append_query ''client'' cid inuri) send) (\<lambda>r.
     ret (if answer_field key r then Some (json_field (snd r) key) else None)))"

definition model_json :: "string \<Rightarrow> string \<Rightarrow> string \<Rightarrow> string \<Rightarrow> string \<Rightarrow> json" where
  "model_json data user pass name desc = JObject (put_text ''desc'' desc (put_text ''name'' name (put_text ''pass'' pass
     (put_text ''user'' user (put_text ''model'' (c_text data) [])))))"

definition ad_json :: "string \<Rightarrow> string \<Rightarrow> string \<Rightarrow> string \<Rightarrow> json" where
  "ad_json data user pass adurl = JObject (put_text ''url'' adurl (put_text ''pass'' pass (put_text ''user'' user
     (put_text ''ad'' (c_text data) []))))"

definition subs_json :: "string \<Rightarrow> string \<Rightarrow> string \<Rightarrow> int \<Rightarrow> int \<Rightarrow> json" where
  "subs_json user pass owner m a = JObject (smap_put ''ad_id'' (JNumber a) (smap_put ''model_id'' (JNumber m)
     (put_text ''owner'' owner (put_text ''pass'' pass (put_text ''user'' user [])))))"

definition UploadModel :: "'w cenv \<Rightarrow> string option \<Rightarrow> string option \<Rightarrow> string option \<Rightarrow> string option \<Rightarrow> bytes option \<Rightarrow>
    string option \<Rightarrow> string option \<Rightarrow> bool \<Rightarrow> ('w, int option got) act" where
  "UploadModel k pszUrl pszClientId pszUser pszPass pData pszName pszDesc piModelId =
     (case (pszUrl, pData, pszUser, pszPass, pszName, pszDesc, pszClientId) of
        (Some url, Some d, Some user, Some pass, Some name, Some desc, Some cid) \<Rightarrow>
          abind (client_id1000 cid) (\<lambda>cid.
          abind (post_for k url cid (model_json (k_enc k d) user pass name desc) ''model_id'') (\<lambda>r. case r of
              None \<Rightarrow> ret Unset
            | Some v \<Rightarrow> if piModelId then abind (as_integer v) (\<lambda>i. ret (Got (Some i))) else ret (Got None)))
      | _ \<Rightarrow> ret Unset)"

definition UploadAd :: "'w cenv \<Rightarrow> string option \<Rightarrow> string option \<Rightarrow> string option \<Rightarrow> string option \<Rightarrow> bytes option \<Rightarrow>
    string option \<Rightarrow> bool \<Rightarrow> ('w, int got) act" where
  "UploadAd k pszUrl pszClientId pszUser pszPass pData pszAdUrl piAdId =
     (case (pszUrl, pData, pszUser, pszPass, pszAdUrl, pszClientId) of
        (Some url, Some d, Some user, Some pass, Some adurl, Some cid) \<Rightarrow>
          abind (client_id1000 cid) (\<lambda>cid.
          abind (post_for k url cid (ad_json (k_enc k d) user pass adurl) ''ad_id'') (\<lambda>r. case r of
              None \<Rightarrow> ret Unset
            | Some v \<Rightarrow> abind (as_integer v) (\<lambda>i. if piAdId then ret (Got i) else crash)))
      | _ \<Rightarrow> ret Unset)"

text \<open>
  The id is copied into \<open>wchar_t[1000]\<close> and from there into the caller's buffer, whose size (here
  \<open>cap\<close>, None for a null pointer) the call does not get.
\<close>

definition CreateSubscription :: "'w cenv \<Rightarrow> string option \<Rightarrow> string option \<Rightarrow> string option \<Rightarrow> string option \<Rightarrow> string option \<Rightarrow>
    int \<Rightarrow> int \<Rightarrow> nat option \<Rightarrow> ('w, string got) act" where
  "CreateSubscription k pszUrl pszClientId pszUser pszPass pszOwner iModelId iAdId pszSubsId =
     (case (pszUrl, pszUser, pszPass, pszClientId, pszSubsId, pszOwner) of
        (Some url, Some user, Some pass, Some cid, Some cap, Some owner) \<Rightarrow>
          abind (client_id1000 cid) (\<lambda>cid.
          abind (post_for k url cid (subs_json user pass owner iModelId iAdId) ''subscription_id'') (\<lambda>r. case r of
              None \<Rightarrow> ret Unset
            | Some v \<Rightarrow> abind (as_string v) (\<lambda>t. let h = c_text t in
                if 1000 \<le> length h \<or> cap \<le> length h then crash else ret (Got h))))
      | _ \<Rightarrow> ret Unset)"

end
