(* ===== verification/UploadTool.thy ===== *)
theory UploadTool
  imports WebClient
begin

text \<open>
  The upload tool (UploadTool/UploadToolDlg.cpp): its fields, its three buttons that talk to the service and the two threads
  that upload. The fields of the dialog are texts; files come from \<open>disk\<close>, which gives the bytes of a path that can be
  opened. A thread's call and the callback that writes its result into a field are one step.
\<close>

section \<open>The dialog\<close>

record CUploadToolDlg =
  IDC_EDIT_SERVER :: string
  IDC_EDIT_USER :: string
  IDC_EDIT_PASS :: string
  IDC_EDIT_OWNER :: string
  IDC_EDIT_MODEL_NAME :: string
  IDC_EDIT_MODEL_DESC :: string
  IDC_EDIT_MODEL_FILE :: string
  IDC_EDIT_MODEL_ID :: string
  IDC_EDIT_AD_FILE :: string
  IDC_EDIT_AD_URL :: string
  IDC_EDIT_AD_ID :: string
  IDC_EDIT_SUBS_ID :: string
  subs_shown :: bool
  progress_shown :: bool
  message_boxes :: "string list"

text \<open>What a thread is started with: the URL, user, password, and name and description or the advertisement's address.\<close>

datatype upload = UploadModelThread string string string bytes string string | UploadAdThread string string string bytes string

record 'w upload_tool =
  ut_dlg :: CUploadToolDlg
  ut_threads :: "upload list"
  ut_world :: 'w

definition on_dlg :: "(CUploadToolDlg \<Rightarrow> CUploadToolDlg) \<Rightarrow> ('w upload_tool, unit) act" where
  "on_dlg f = modify (\<lambda>s. s\<lparr>ut_dlg := f (ut_dlg s)\<rparr>)"

text \<open>The server's name from the first word of config.txt, read into \<open>char[1000]\<close>.\<close>

definition OnInitDialog_config :: "string option \<Rightarrow> ('w upload_tool, unit) act" where
  "OnInitDialog_config config = (case config of None \<Rightarrow> ret ()
     | Some t \<Rightarrow> if 1000 \<le> length (scan_word t) then crash else on_dlg (\<lambda>d. d\<lparr>IDC_EDIT_SERVER := c_text (scan_word t)\<rparr>))"

text \<open>The conversion is told that the buffer is as long as the text; every caller passes \<open>char[1000]\<close>.\<close>

definition GetDlgItemAsChar :: "(CUploadToolDlg \<Rightarrow> string) \<Rightarrow> ('w upload_tool, string) act" where
  "GetDlgItemAsChar item = abind (gets (\<lambda>s. item (ut_dlg s))) (\<lambda>str. if 1000 \<le> length str then crash else ret (c_text str))"

section \<open>Requests\<close>

text \<open>\<open>uri_builder\<close> with scheme, host, path and the magic value; its text is parsed again, which may throw.\<close>

definition service_uri :: "string \<Rightarrow> string \<Rightarrow> uri" where
  "service_uri host api = append_query ''magic'' MODEL_API_MAGIC (append_path api
     \<lparr>u_base = ''http:'' @ (if host = [] then [] else ''//'' @ map lower host), u_path = ''/3dscan/'', u_query = [], u_fragment = []\<rparr>)"

definition service_url :: "'w cenv \<Rightarrow> string \<Rightarrow> ('w upload_tool, string) act" where
  "service_url k api = abind (gets (\<lambda>s. IDC_EDIT_SERVER (ut_dlg s))) (\<lambda>server.
     let t = uri_text (service_uri server api) in case k_parse k t of None \<Rightarrow> raise UriException | Some u \<Rightarrow> ret t)"

text \<open>A file that is opened and read, or the message that it could not be.\<close>

definition with_file :: "(string \<Rightarrow> bytes option) \<Rightarrow> (CUploadToolDlg \<Rightarrow> string) \<Rightarrow> string \<Rightarrow> (bytes \<Rightarrow> ('w upload_tool, unit) act) \<Rightarrow>
    ('w upload_tool, unit) act" where
  "with_file disk item msg f = abind (gets (\<lambda>s. item (ut_dlg s))) (\<lambda>strFile. case disk strFile of
      None \<Rightarrow> on_dlg (\<lambda>d. d\<lparr>message_boxes := message_boxes d @ [msg]\<rparr>)
    | Some data \<Rightarrow> f data)"

definition start_thread :: "upload \<Rightarrow> ('w upload_tool, unit) act" where
  "start_thread t = modify (\<lambda>s. s\<lparr>ut_threads := ut_threads s @ [t]\<rparr>)"

definition OnBnClickedBtnModelUpload :: "'w cenv \<Rightarrow> (string \<Rightarrow> bytes option) \<Rightarrow> ('w upload_tool, unit) act" where
  "OnBnClickedBtnModelUpload k disk =
     abind (GetDlgItemAsChar IDC_EDIT_USER) (\<lambda>szUser. abind (GetDlgItemAsChar IDC_EDIT_PASS) (\<lambda>szPass.
     abind (GetDlgItemAsChar IDC_EDIT_MODEL_NAME) (\<lambda>szName. abind (GetDlgItemAsChar IDC_EDIT_MODEL_DESC) (\<lambda>szDesc.
     with_file disk IDC_EDIT_MODEL_FILE ''Failed to open model file!'' (\<lambda>pData.
       aseq (on_dlg (\<lambda>d. d\<lparr>progress_shown := True\<rparr>))
         (abind (service_url k ''upload_model'') (\<lambda>szUrl. start_thread (UploadModelThread szUrl szUser szPass pData szName szDesc))))))))"

definition OnBnClickedBtnAdUpload :: "'w cenv \<Rightarrow> (string \<Rightarrow> bytes option) \<Rightarrow> ('w upload_tool, unit) act" where
  "OnBnClickedBtnAdUpload k disk =
     abind (GetDlgItemAsChar IDC_EDIT_USER) (\<lambda>szUser. abind (GetDlgItemAsChar IDC_EDIT_PASS) (\<lambda>szPass.
     abind (GetDlgItemAsChar IDC_EDIT_AD_URL) (\<lambda>szAdUrl.
     with_file disk IDC_EDIT_AD_FILE ''Failed to open ad file!'' (\<lambda>pData.
       aseq (on_dlg (\<lambda>d. d\<lparr>progress_shown := True\<rparr>))
         (abind (service_url k ''upload_ad'') (\<lambda>szUrl. start_thread (UploadAdThread szUrl szUser szPass pData szAdUrl)))))))"

text \<open>The call of the client runs in the dialog's thread, with \<open>char szHash[100]\<close> for the id.\<close>

definition in_world :: "('w, 'a) act \<Rightarrow> ('w upload_tool, 'a) act" where
  "in_world m = (\<lambda>s. case m (ut_world s) of (r, w) \<Rightarrow> (r, s\<lparr>ut_world := w\<rparr>))"

definition OnBnClickedBtnCreateSubs :: "'w cenv \<Rightarrow> ('w upload_tool, unit) act" where
  "OnBnClickedBtnCreateSubs k =
     aseq (on_dlg (\<lambda>d. d\<lparr>subs_shown := False\<rparr>))
     (abind (GetDlgItemAsChar IDC_EDIT_USER) (\<lambda>szUser. abind (GetDlgItemAsChar IDC_EDIT_PASS) (\<lambda>szPass.
      abind (GetDlgItemAsChar IDC_EDIT_OWNER) (\<lambda>szOwner.
      abind (gets (\<lambda>s. atoi (IDC_EDIT_MODEL_ID (ut_dlg s)))) (\<lambda>iModelId. abind (gets (\<lambda>s. atoi (IDC_EDIT_AD_ID (ut_dlg s)))) (\<lambda>iAdId.
      aseq (on_dlg (\<lambda>d. d\<lparr>progress_shown := True\<rparr>))
      (abind (service_url k ''create_subs'') (\<lambda>szUrl.
       abind (in_world (CreateSubscription k (Some szUrl) (Some ''pcwin'') (Some szUser) (Some szPass) (Some szOwner) iModelId iAdId (Some 100)))
        (\<lambda>r. case r of Got h \<Rightarrow> on_dlg (\<lambda>d. d\<lparr>subs_shown := True, IDC_EDIT_SUBS_ID := h\<rparr>) | _ \<Rightarrow> ret ())))))))))"

section \<open>Threads\<close>

definition MyModelCallback_id :: "int \<Rightarrow> CUploadToolDlg \<Rightarrow> CUploadToolDlg" where
  "MyModelCallback_id iModelId d = d\<lparr>IDC_EDIT_MODEL_ID := show_int iModelId\<rparr>"

definition MyAdCallback_id :: "int \<Rightarrow> CUploadToolDlg \<Rightarrow> CUploadToolDlg" where
  "MyAdCallback_id iAdId d = d\<lparr>IDC_EDIT_AD_ID := show_int iAdId\<rparr>"

text \<open>The id stays -1 when the upload fails, and is written into the field all the same. None: the program ends.\<close>

definition run_upload :: "'w cenv \<Rightarrow> upload \<Rightarrow> 'w upload_tool \<Rightarrow> 'w upload_tool option" where
  "run_upload k t s = (case t of
      UploadModelThread url user pass d name desc \<Rightarrow>
        (case UploadModel k (Some url) (Some ''pcwin'') (Some user) (Some pass) (Some d) (Some name) (Some desc) True (ut_world s) of
           (Ret r, w) \<Rightarrow> Some (s\<lparr>ut_world := w, ut_dlg := MyModelCallback_id (case r of Got (Some i) \<Rightarrow> i | _ \<Rightarrow> - 1) (ut_dlg s)\<rparr>)
         | _ \<Rightarrow> None)
    | UploadAdThread url user pass d adurl \<Rightarrow>
        (case UploadAd k (Some url) (Some ''pcwin'') (Some user) (Some pass) (Some d) (Some adurl) True (ut_world s) of
           (Ret r, w) \<Rightarrow> Some (s\<lparr>ut_world := w, ut_dlg := MyAdCallback_id (case r of Got i \<Rightarrow> i | _ \<Rightarrow> - 1) (ut_dlg s)\<rparr>)
         | _ \<Rightarrow> None))"

text \<open>A button that is clicked, or a thread that finishes.\<close>

datatype tool_button = BtnModelUpload | BtnAdUpload | BtnCreateSubs | BtnModelFile "string option" | BtnAdFile "string option"

definition tool_click :: "'w cenv \<Rightarrow> (string \<Rightarrow> bytes option) \<Rightarrow> tool_button \<Rightarrow> ('w upload_tool, unit) act" where
  "tool_click k disk b = (case b of
      BtnModelUpload \<Rightarrow> OnBnClickedBtnModelUpload k disk
    | BtnAdUpload \<Rightarrow> OnBnClickedBtnAdUpload k disk
    | BtnCreateSubs \<Rightarrow> OnBnClickedBtnCreateSubs k
    | BtnModelFile p \<Rightarrow> (case p of None \<Rightarrow> ret () | Some f \<Rightarrow> on_dlg (\<lambda>d. d\<lparr>IDC_EDIT_MODEL_FILE := f\<rparr>))
    | BtnAdFile p \<Rightarrow> (case p of None \<Rightarrow> ret () | Some f \<Rightarrow> on_dlg (\<lambda>d. d\<lparr>IDC_EDIT_AD_FILE := f\<rparr>)))"

inductive tool_step :: "'w cenv \<Rightarrow> (string \<Rightarrow> bytes option) \<Rightarrow> 'w upload_tool \<Rightarrow> 'w upload_tool \<Rightarrow> bool" for k disk where
  click: "tool_click k disk b s = (Ret (), s') \<Longrightarrow> tool_step k disk s s'"
| finished: "t \<in> set (ut_threads s) \<Longrightarrow> run_upload k t (s\<lparr>ut_threads := remove1 t (ut_threads s)\<rparr>) = Some s' \<Longrightarrow> tool_step k disk s s'"

inductive_cases tool_stepE: "tool_step k disk s s'"

end
