(* ===== verification/ServerLemmas.thy ===== *)
theory ServerLemmas
  imports Server
begin

text \<open>
  How the server's operations run: rewrite rules for the answers, queries and files (collection \<open>act\<close>), what a
  select under the contract gives, the length of the statements, and what every operation keeps.
\<close>

section \<open>Answers and queries\<close>

lemma set_run [act]:
  "set_field k v s = (Ret (), s\<lparr>ms_answer := smap_put k v (ms_answer s)\<rparr>)"
  "set_http n s = (Ret (), s\<lparr>ms_http := n\<rparr>)"
  by (simp_all add: set_field_def set_http_def act)

lemma set_err_run [act]:
  "set_err msg c h s = (Ret (), s\<lparr>ms_answer := smap_put ''error_code'' (JNumber c)
     (smap_put ''error_message'' (JString msg) (ms_answer s)), ms_http := h\<rparr>)"
  by (simp add: set_err_def act)

lemma set_ok_run [act]:
  "set_ok k v s = (Ret (), s\<lparr>ms_answer := smap_put k v (smap_put ''error_code'' (JNumber 0)
     (smap_put ''error_message'' (JString ''Success'') (ms_answer s))), ms_http := 200\<rparr>)"
  by (simp add: set_ok_def MS_ERROR_OK_def act)

lemma whenever_run [act]: "whenever c m s = (if c then m s else (Ret (), s))"
  by (simp add: whenever_def act)

lemma file_run [act]:
  "read_file p s = (Ret (ms_fs s p), s)"
  "v_writable env p \<Longrightarrow> write_file env p d s = (Ret (), s\<lparr>ms_fs := (ms_fs s)(p \<mapsto> d)\<rparr>)"
  by (simp_all add: read_file_def write_file_def act)

lemma db_open_ok:
  "ms_driver s \<Longrightarrow> sql_connect (v_sql env) (ms_db s) = Connected \<Longrightarrow> db_open env s = (Ret (), s)"
  by (simp add: db_open_def act)

lemma run_query_some:
  "length txt < 5000 \<Longrightarrow> sql_query (v_sql env) (ms_db s) txt = Some rows \<Longrightarrow> run_query env txt s = (Ret rows, s)"
  by (simp add: run_query_def act)

lemma run_update_inserts:
  assumes "length txt < 5000" "inserts (v_sql env) tab (ms_db s) txt n f"
  obtains db' where "run_update env txt s = (Ret 1, s\<lparr>ms_db := db'\<rparr>)" "tab db' = f (tab (ms_db s))"
    "selects reads_id (sql_query (v_sql env) db' q_last) [n]"
    "sql_connect (v_sql env) db' = sql_connect (v_sql env) (ms_db s)"
proof -
  obtain k db' where u: "sql_update (v_sql env) (ms_db s) txt = (k, db')" by (cases "sql_update (v_sql env) (ms_db s) txt")
  then have k: "k = Some 1" using assms(2) by (cases k) (simp_all add: inserts_def)
  then have "run_update env txt s = (Ret 1, s\<lparr>ms_db := db'\<rparr>)"
    using assms(1) u by (simp add: run_update_def act)
  then show thesis using assms(2) u k by (intro that [of db']) (simp_all add: inserts_def)
qed

lemma run_update_fails:
  assumes "length txt < 5000" "fails (v_sql env) tab (ms_db s) txt"
  obtains db' where "run_update env txt s = (Throw SqlException, s\<lparr>ms_db := db'\<rparr>)" "same_rows (tab (ms_db s)) (tab db')"
proof -
  obtain k db' where u: "sql_update (v_sql env) (ms_db s) txt = (k, db')" by (cases "sql_update (v_sql env) (ms_db s) txt")
  then have k: "k = None" using assms(2) by (cases k) (simp_all add: fails_def)
  then have "run_update env txt s = (Throw SqlException, s\<lparr>ms_db := db'\<rparr>)"
    using assms(1) u by (simp add: run_update_def act)
  then show thesis using assms(2) u k by (intro that [of db']) (simp_all add: fails_def)
qed

lemma last_int_ret:
  assumes "list_all2 R rows rs" "\<And>r x. R r x \<Longrightarrow> row_int r col = Some (f x)"
  shows "last_int col rows i s = (Ret (if rs = [] then i else f (last rs)), s)"
  using assms(1) by (induction arbitrary: i rule: list_all2_induct) (auto simp: assms(2) act)

text \<open>A select that finds rows gives the column of the last one; one that finds none gives -1 and the error.\<close>

lemma select_int_last:
  assumes "selects R (sql_query (v_sql env) (ms_db s) txt) rs" "rs \<noteq> []" "length txt < 5000"
    and "\<And>r x. R r x \<Longrightarrow> row_int r col = Some (f x)"
  shows "select_int env txt col msg c h s = (Ret (f (last rs)), s)"
proof -
  obtain rows where q: "sql_query (v_sql env) (ms_db s) txt = Some rows" and R: "list_all2 R rows rs"
    using assms(1) by (auto simp: selects_def split: option.splits)
  have "rows \<noteq> []" using R assms(2) by auto
  then show ?thesis
    using last_int_ret [OF R assms(4), where i = "- 1" and s = s] assms(2)
    by (simp add: select_int_def act run_query_some [OF assms(3) q])
qed

lemma select_int_none:
  assumes "selects R (sql_query (v_sql env) (ms_db s) txt) []" "length txt < 5000"
  shows "select_int env txt col msg c h s = (Ret (- 1), s\<lparr>ms_answer := smap_put ''error_code'' (JNumber c)
     (smap_put ''error_message'' (JString msg) (ms_answer s)), ms_http := h\<rparr>)"
  using assms by (simp add: select_int_def act selects_def run_query_some split: option.splits)

lemma row_exists_run:
  assumes "selects R (sql_query (v_sql env) (ms_db s) txt) rs" "length txt < 5000"
  shows "row_exists env txt s = (if rs = [] then
      (Ret False, s\<lparr>ms_answer := smap_put ''error_code'' (JNumber 9)
         (smap_put ''error_message'' (JString ''Invalid username or password!'') (ms_answer s)), ms_http := 403\<rparr>)
    else (Ret True, s))"
proof -
  obtain rows where q: "sql_query (v_sql env) (ms_db s) txt = Some rows" and R: "list_all2 R rows rs"
    using assms(1) by (auto simp: selects_def split: option.splits)
  have "rows = [] \<longleftrightarrow> rs = []" using R by auto
  then show ?thesis
    by (simp add: row_exists_def act run_query_some [OF assms(2) q] MS_ERROR_INVALID_USER_PASS_def)
qed

text \<open>The fields of a body that reach a handler.\<close>

lemma get_copy_fields:
  "smap_get (copy_fields j ks) k = (if k \<in> set ks \<and> has_field j k then Some (json_field j k) else None)"
proof -
  have "smap_get (fold (\<lambda>k m. if has_field j k then smap_put k (json_field j k) m else m) ks m) k =
      (if k \<in> set ks \<and> has_field j k then Some (json_field j k) else smap_get m k)" for m
    by (induction ks arbitrary: m) (auto simp: smap_get_def smap_put_get)
  then show ?thesis by (simp add: copy_fields_def smap_get_def)
qed

section \<open>Length of the statements\<close>

lemma length_show_nat: "n < 10 ^ k \<Longrightarrow> 0 < k \<Longrightarrow> length (show_nat n) \<le> k"
proof (induction k arbitrary: n)
  case (Suc k)
  show ?case
  proof (cases "n < 10")
    case False
    then have "0 < k" using Suc.prems by (cases k) auto
    moreover have "n div 10 < 10 ^ k" using Suc.prems by (simp add: less_mult_imp_div_less mult.commute)
    ultimately have "length (show_nat (n div 10)) \<le> k" using Suc.IH by blast
    then show ?thesis using False by (subst show_nat.simps) simp
  qed (subst show_nat.simps, simp)
qed simp

definition int32 :: "int \<Rightarrow> bool" where
  "int32 i \<longleftrightarrow> - (2 ^ 31) \<le> i \<and> i < 2 ^ 31"

lemma length_show_int: "int32 i \<Longrightarrow> length (show_int i) \<le> 11"
proof -
  assume i: "int32 i"
  have "nat i < 10 ^ 10" using i by (simp add: int32_def, arith)
  moreover have "nat (- i) < 10 ^ 10" using i by (simp add: int32_def, arith)
  ultimately show ?thesis
    using length_show_nat [of "nat i" 10] length_show_nat [of "nat (- i)" 10] by (auto simp: show_int_def)
qed

lemma length_queries [simp]:
  "length (q_subs h) = 46 + length h"
  "length (q_login u p) = 62 + length u + length p"
  "length (q_owner u) = 46 + length u"
  "length q_last = 29"
  by (simp_all add: q_subs_def q_login_def q_owner_def q_last_def quoted_def)

lemma length_id_queries:
  assumes "int32 i"
  shows "length (q_model i) < 5000" "length (q_model_quoted i) < 5000" "length (q_file i) < 5000"
    "length (q_ad i) < 5000" "length (q_ad_quoted i) < 5000"
  using length_show_int [OF assms]
  by (simp_all add: q_model_def q_model_quoted_def q_file_def q_ad_def q_ad_quoted_def quoted_def)

lemma length_inserts:
  "int32 n \<Longrightarrow> length p \<le> 128 \<Longrightarrow> length b \<le> 128 \<Longrightarrow> length (i_file p b n) < 5000"
  "int32 i \<Longrightarrow> int32 j \<Longrightarrow> length t \<le> 255 \<Longrightarrow> length d \<le> 255 \<Longrightarrow> length (i_model i j t d) < 5000"
  "int32 w \<Longrightarrow> length p \<le> 128 \<Longrightarrow> length u \<le> 255 \<Longrightarrow> length (i_ad p w u) < 5000"
  "int32 w \<Longrightarrow> int32 m \<Longrightarrow> int32 a \<Longrightarrow> length h \<le> 32 \<Longrightarrow> length (i_subs w m a h) < 5000"
  using length_show_int [of n] length_show_int [of i] length_show_int [of j] length_show_int [of w]
    length_show_int [of m] length_show_int [of a]
  by (simp_all add: i_file_def i_model_def i_ad_def i_subs_def quoted_def)

section \<open>The contract\<close>

text \<open>
  The environment the theorems assume: MySQL by its contract with a collation \<open>eq\<close> that is an equivalence,
  base64 decoding inverts encoding and the text has no NUL, and UUIDs are texts of 36 characters.
\<close>

definition env_contract :: "'db env \<Rightarrow> ('db \<Rightarrow> tables) \<Rightarrow> (string \<Rightarrow> string \<Rightarrow> bool) \<Rightarrow> bool" where
  "env_contract env tab eq \<longleftrightarrow> equivp eq \<and> select_contract (v_sql env) tab eq \<and> insert_contract (v_sql env) tab eq \<and>
     (\<forall>d. v_dec env (v_enc env d) = d \<and> CHR 0x00 \<notin> set (v_enc env d)) \<and>
     (\<forall>n. length (v_uuid env n) = 36 \<and> sql_safe (v_uuid env n))"

text \<open>A server that is up: the driver is there, the database accepts connections and its tables meet the schema.\<close>

definition server_up :: "'db env \<Rightarrow> ('db \<Rightarrow> tables) \<Rightarrow> (string \<Rightarrow> string \<Rightarrow> bool) \<Rightarrow> 'db server \<Rightarrow> bool" where
  "server_up env tab eq s \<longleftrightarrow> ms_driver s \<and> sql_connect (v_sql env) (ms_db s) = Connected \<and> db_ok eq (tab (ms_db s))"

lemma encoded_contract: "env_contract env tab eq \<Longrightarrow> encoded env d = v_enc env d"
  by (simp add: env_contract_def encoded_def)

lemma contract_selects:
  assumes "env_contract env tab eq"
  shows "sql_safe h \<Longrightarrow> selects reads_subs (sql_query (v_sql env) db (q_subs h)) [s \<leftarrow> t_subs (tab db). eq (s_hash s) h]"
    "sql_safe u \<Longrightarrow> sql_safe p \<Longrightarrow> selects reads_owner (sql_query (v_sql env) db (q_login u p))
        [w \<leftarrow> t_owners (tab db). eq (o_user w) u \<and> eq (o_pass w) p]"
    "sql_safe u \<Longrightarrow> selects reads_owner (sql_query (v_sql env) db (q_owner u)) [w \<leftarrow> t_owners (tab db). eq (o_user w) u]"
    "selects reads_model (sql_query (v_sql env) db (q_model i)) [m \<leftarrow> t_models (tab db). m_id m = i]"
    "selects reads_model (sql_query (v_sql env) db (q_model_quoted i)) [m \<leftarrow> t_models (tab db). m_id m = i]"
    "selects reads_file (sql_query (v_sql env) db (q_file i)) [f \<leftarrow> t_files (tab db). f_id f = i]"
    "selects reads_ad (sql_query (v_sql env) db (q_ad i)) [a \<leftarrow> t_ads (tab db). a_id a = i]"
    "selects reads_ad (sql_query (v_sql env) db (q_ad_quoted i)) [a \<leftarrow> t_ads (tab db). a_id a = i]"
  using assms unfolding env_contract_def select_contract_def by blast+

lemma contract_inserts:
  assumes "env_contract env tab eq"
  shows "sql_safe p \<Longrightarrow> sql_safe b \<Longrightarrow> length p \<le> 128 \<Longrightarrow> length b \<le> 128 \<Longrightarrow> int_key (t_nfile (tab db)) \<Longrightarrow>
        inserts (v_sql env) tab db (i_file p b n) (t_nfile (tab db)) (add_file p b n)"
    "sql_safe p \<Longrightarrow> sql_safe u \<Longrightarrow> length p \<le> 128 \<Longrightarrow> length u \<le> 128 \<Longrightarrow> int_key (t_nad (tab db)) \<Longrightarrow>
        inserts (v_sql env) tab db (i_ad p w u) (t_nad (tab db)) (add_ad w p u)"
    "sql_safe x \<Longrightarrow> sql_safe d \<Longrightarrow> length x \<le> 32 \<Longrightarrow> length d \<le> 512 \<Longrightarrow>
        i \<in> file_ids (tab db) \<Longrightarrow> j \<in> file_ids (tab db) \<Longrightarrow> int_key (t_nmodel (tab db)) \<Longrightarrow>
        inserts (v_sql env) tab db (i_model i j x d) (t_nmodel (tab db)) (add_model i j x d)"
    "sql_safe h \<Longrightarrow> length h \<le> 32 \<Longrightarrow> subs_refs (tab db) w m a \<Longrightarrow> int_key (t_nsubs (tab db)) \<Longrightarrow>
        \<forall>s\<in>set (t_subs (tab db)). \<not> eq (s_hash s) h \<Longrightarrow>
        inserts (v_sql env) tab db (i_subs w m a h) (t_nsubs (tab db)) (add_subs w m a h)"
    "sql_safe h \<Longrightarrow> \<not> subs_refs (tab db) w m a \<Longrightarrow> fails (v_sql env) tab db (i_subs w m a h)"
proof -
  note C = assms [unfolded env_contract_def insert_contract_def, THEN conjunct2, THEN conjunct2, THEN conjunct1, THEN spec, of db]
  show "sql_safe p \<Longrightarrow> sql_safe b \<Longrightarrow> length p \<le> 128 \<Longrightarrow> length b \<le> 128 \<Longrightarrow> int_key (t_nfile (tab db)) \<Longrightarrow>
        inserts (v_sql env) tab db (i_file p b n) (t_nfile (tab db)) (add_file p b n)"
    using C [THEN conjunct1] by simp
  note C = C [THEN conjunct2]
  show "sql_safe p \<Longrightarrow> sql_safe u \<Longrightarrow> length p \<le> 128 \<Longrightarrow> length u \<le> 128 \<Longrightarrow> int_key (t_nad (tab db)) \<Longrightarrow>
        inserts (v_sql env) tab db (i_ad p w u) (t_nad (tab db)) (add_ad w p u)"
    using C [THEN conjunct1] by simp
  note C = C [THEN conjunct2]
  show "sql_safe x \<Longrightarrow> sql_safe d \<Longrightarrow> length x \<le> 32 \<Longrightarrow> length d \<le> 512 \<Longrightarrow>
        i \<in> file_ids (tab db) \<Longrightarrow> j \<in> file_ids (tab db) \<Longrightarrow> int_key (t_nmodel (tab db)) \<Longrightarrow>
        inserts (v_sql env) tab db (i_model i j x d) (t_nmodel (tab db)) (add_model i j x d)"
    using C [THEN conjunct1] by simp
  note C = C [THEN conjunct2]
  show "sql_safe h \<Longrightarrow> length h \<le> 32 \<Longrightarrow> subs_refs (tab db) w m a \<Longrightarrow> int_key (t_nsubs (tab db)) \<Longrightarrow>
        \<forall>s\<in>set (t_subs (tab db)). \<not> eq (s_hash s) h \<Longrightarrow>
        inserts (v_sql env) tab db (i_subs w m a h) (t_nsubs (tab db)) (add_subs w m a h)"
    using C [THEN conjunct1] by blast
  show "sql_safe h \<Longrightarrow> \<not> subs_refs (tab db) w m a \<Longrightarrow> fails (v_sql env) tab db (i_subs w m a h)"
    using C [THEN conjunct2] by simp
qed

lemma filter_key: "distinct (map f xs) \<Longrightarrow> x \<in> set xs \<Longrightarrow> [y \<leftarrow> xs. f y = f x] = [x]"
proof (induction xs)
  case (Cons a xs)
  show ?case
  proof (cases "x = a")
    case True
    then have "[y \<leftarrow> xs. f y = f x] = []" using Cons.prems unfolding filter_empty_conv by (metis distinct.simps(2) image_eqI list.set_map list.simps(9))
    then show ?thesis using True by simp
  next
    case False
    then have "f a \<noteq> f x" using Cons.prems by force
    then show ?thesis using False Cons by simp
  qed
qed simp

lemma filter_equiv:
  assumes "equivp eq" "sorted_wrt (\<lambda>x y. \<not> eq (f x) (f y)) xs" "x \<in> set xs"
  shows "[y \<leftarrow> xs. eq (f y) (f x)] = [x]"
  using assms(2,3)
proof (induction xs)
  case (Cons a xs)
  show ?case
  proof (cases "x = a")
    case True
    then have "[y \<leftarrow> xs. eq (f y) (f x)] = []"
      using Cons.prems equivp_symp [OF assms(1)] by (auto simp: filter_empty_conv)
    then show ?thesis using True equivp_reflp [OF assms(1)] by simp
  next
    case False
    then show ?thesis using Cons by auto
  qed
qed simp

lemma db_ok_rows:
  assumes "equivp eq" "db_ok eq t"
  shows "x \<in> set (t_subs t) \<Longrightarrow> [s \<leftarrow> t_subs t. eq (s_hash s) (s_hash x)] = [x]"
    "m \<in> set (t_models t) \<Longrightarrow> [y \<leftarrow> t_models t. m_id y = m_id m] = [m]"
    "f \<in> set (t_files t) \<Longrightarrow> [y \<leftarrow> t_files t. f_id y = f_id f] = [f]"
    "a \<in> set (t_ads t) \<Longrightarrow> [y \<leftarrow> t_ads t. a_id y = a_id a] = [a]"
  using assms unfolding db_ok_def keys_below_def by (simp_all add: filter_key filter_equiv)

lemma int32_key: "0 < i \<Longrightarrow> i < n \<Longrightarrow> n \<le> 2 ^ 31 \<Longrightarrow> int32 i \<and> i \<noteq> - 1"
  by (simp add: int32_def)

lemma db_ok_int32:
  assumes "db_ok eq t"
  shows "i \<in> file_ids t \<Longrightarrow> int32 i \<and> i \<noteq> - 1" "i \<in> model_ids t \<Longrightarrow> int32 i \<and> i \<noteq> - 1"
    "i \<in> ad_ids t \<Longrightarrow> int32 i \<and> i \<noteq> - 1" "i \<in> owner_ids t \<Longrightarrow> int32 i \<and> i \<noteq> - 1"
  using assms unfolding db_ok_def keys_below_def file_ids_def model_ids_def ad_ids_def owner_ids_def
  by (force simp: int32_def)+

end
