(* ===== verification/ServerGet.thy ===== *)
theory ServerGet
  imports ServerLemmas
begin

text \<open>
  What the GET requests do: the answer for a published model, for the second request, for unknown
  subscriptions and unknown clients, what no request can change, and when none can crash the server.
\<close>

section \<open>A request and its answer\<close>

definition started :: "'db server \<Rightarrow> 'db server" where
  "started s = s\<lparr>ms_answer := [(''error_code'', JNumber 100), (''error_message'', JString ''Unknown error'')], ms_http := 503\<rparr>"

text \<open>The request line asks for \<open>method\<close> with the magic value and the subscription \<open>h\<close>.\<close>

definition asks :: "string \<Rightarrow> string \<Rightarrow> string \<Rightarrow> string \<Rightarrow> bool" where
  "asks path query meth h \<longleftrightarrow> (case (decode path, decode query) of
      (Some p, Some q) \<Rightarrow> split_path p \<noteq> [] \<and> last (split_path p) = meth \<and>
        smap_get (split_query q) ''magic'' = Some MODEL_API_MAGIC \<and> smap_get (split_query q) ''subsid'' = Some h
    | _ \<Rightarrow> False)"

text \<open>The URL of a model as the service hands it out.\<close>

lemma asks_url:
  assumes "list_all is_alnum h"
  shows "asks ''/3dscan/get'' (''magic=tfzfepg&subsid='' @ h) ''get'' h"
proof -
  have h: "\<forall>c\<in>set h. c \<notin> {CHR ''%'', CHR ''&'', CHR '';'', CHR ''=''} \<and> \<not> 127 < code c"
    using assms alnum_plain by (auto simp: list_all_iff)
  have d: "decode (''magic=tfzfepg&subsid='' @ h) = Some (''magic=tfzfepg&subsid='' @ h)"
    by (rule decode_plain) (use h in \<open>auto simp: code_def\<close>)
  have p: "decode ''/3dscan/get'' = Some ''/3dscan/get''" by (simp add: code_def)
  have s: "split_path ''/3dscan/get'' = [''3dscan'', ''get'']" by (simp add: split_path_def)
  have "query_safe h" using h by (auto simp: query_safe_def)
  then have "query_loop (render_query [(''magic'', ''tfzfepg''), (''subsid'', h)]) [] =
      fold (\<lambda>(k, v). smap_put k v) [(''magic'', ''tfzfepg''), (''subsid'', h)] []"
    by (intro query_loop_render) (auto simp: query_safe_def)
  then have q: "split_query (''magic=tfzfepg&subsid='' @ h) = [(''magic'', ''tfzfepg''), (''subsid'', h)]"
    by (simp add: split_query_def)
  show ?thesis unfolding asks_def d p s prod.case option.case q by (simp add: smap_get_def MODEL_API_MAGIC_def)
qed

lemma start_answer_run: "start_answer s = (Ret (), started s)"
  by (simp add: start_answer_def started_def act MS_ERROR_UNKNOWN_def)

lemma started_simps [simp]:
  "ms_root (started s) = ms_root s" "ms_driver (started s) = ms_driver s" "ms_db (started s) = ms_db s"
  "ms_fs (started s) = ms_fs s" "ms_uuids (started s) = ms_uuids s" "ms_seeds (started s) = ms_seeds s"
  "ms_answer (started s) = [(''error_code'', JNumber 100), (''error_message'', JString ''Unknown error'')]"
  "server_up env tab eq (started s) = server_up env tab eq s"
  by (simp_all add: started_def server_up_def)

lemma get_params_subsid:
  "smap_get kv ''subsid'' = Some h \<Longrightarrow> smap_get (get_params kv) ''subsid'' = Some (JString h)"
  by (simp add: get_params_def copy_param_def smap_get_def smap_put_get split: option.splits)

lemma HandleGet_started:
  "HandleGet env path query s = aseq (catch_http
     (case decode path of None \<Rightarrow> raise UriException | Some p \<Rightarrow>
      (case decode query of None \<Rightarrow> raise UriException | Some q \<Rightarrow>
        get_method env (split_path p) (split_query q)))) reply (started s)"
  by (simp add: HandleGet_def aseq_run abind_run start_answer_run)

lemma HandleGet_asks:
  assumes "asks path query meth h"
  obtains params where "smap_get params ''subsid'' = Some (JString h)"
    "meth = ''get'' \<Longrightarrow> HandleGet env path query s = aseq (catch_http (OnGetModel env params)) reply (started s)"
    "meth = ''getad'' \<Longrightarrow> HandleGet env path query s = aseq (catch_http (OnGetAd env params)) reply (started s)"
    "meth = ''getinfo'' \<Longrightarrow> HandleGet env path query s = aseq (catch_http (OnGetInfo env params)) reply (started s)"
proof -
  obtain p q where "decode path = Some p" "decode query = Some q" "split_path p \<noteq> []" "last (split_path p) = meth"
    "smap_get (split_query q) ''magic'' = Some MODEL_API_MAGIC" "smap_get (split_query q) ''subsid'' = Some h"
    using assms by (auto simp: asks_def split: option.splits)
  then show thesis
    by (intro that [of "get_params (split_query q)"]) (simp_all add: get_params_subsid HandleGet_started get_method_def)
qed

lemma reply_run:
  "map_of (ms_answer s) ''error_code'' = Some (JNumber c) \<Longrightarrow> reply s = (Ret (ms_http s, ms_answer s), s)"
  by (simp add: reply_def act json_field_def as_integer_def smap_get_def)

lemma finish_ret:
  "m s = (Ret (), s') \<Longrightarrow> map_of (ms_answer s') ''error_code'' = Some (JNumber c) \<Longrightarrow>
     aseq (catch_http m) reply s = (Ret (ms_http s', ms_answer s'), s')"
  by (simp add: act catch_http_def reply_run)

section \<open>Handlers on known rows\<close>

lemma reads_subs_int: "reads_subs r x \<Longrightarrow> row_int r ''ModelId'' = Some (s_model x)" "reads_subs r x \<Longrightarrow> row_int r ''AdId'' = Some (s_ad x)"
  by (simp_all add: reads_subs_def)

lemma find_subs_ok:
  assumes "env_contract env tab eq" "server_up env tab eq s" "x \<in> set (t_subs (tab (ms_db s)))"
    and h: "smap_get params ''subsid'' = Some (JString (s_hash x))" "sql_safe (s_hash x)" "length (s_hash x) < 256"
  shows "find_subs env params ''ModelId'' s = (Ret (s_model x), s)" "find_subs env params ''AdId'' s = (Ret (s_ad x), s)"
proof -
  have eq: "equivp eq" "db_ok eq (tab (ms_db s))" using assms(1,2) by (simp_all add: env_contract_def server_up_def)
  have sel: "selects reads_subs (sql_query (v_sql env) (ms_db s) (q_subs (s_hash x))) [x]"
    using contract_selects(1) [OF assms(1) h(2), of "ms_db s"] db_ok_rows(1) [OF eq assms(3)] by simp
  have l: "length (q_subs (s_hash x)) < 5000" using h(3) by simp
  show "find_subs env params ''ModelId'' s = (Ret (s_model x), s)"
    using select_int_last [OF sel _ l, of "''ModelId''" s_model] h
    by (simp add: find_subs_def abind_run text_at_run ansi256_run reads_subs_int)
  show "find_subs env params ''AdId'' s = (Ret (s_ad x), s)"
    using select_int_last [OF sel _ l, of "''AdId''" s_ad] h
    by (simp add: find_subs_def abind_run text_at_run ansi256_run reads_subs_int)
qed

lemma find_subs_unknown:
  assumes "env_contract env tab eq" "\<forall>x\<in>set (t_subs (tab (ms_db s))). \<not> eq (s_hash x) h"
    and h: "smap_get params ''subsid'' = Some (JString h)" "sql_safe h" "length h < 256"
  shows "find_subs env params col s = (Ret (- 1), s\<lparr>ms_answer := smap_put ''error_code'' (JNumber 1)
     (smap_put ''error_message'' (JString ''Subscription id not found!'') (ms_answer s)), ms_http := 404\<rparr>)"
proof -
  have "[x \<leftarrow> t_subs (tab (ms_db s)). eq (s_hash x) h] = []" using assms(2) by (simp add: filter_empty_conv)
  then have sel: "selects reads_subs (sql_query (v_sql env) (ms_db s) (q_subs h)) []"
    using contract_selects(1) [OF assms(1) h(2), of "ms_db s"] by simp
  show ?thesis
    using select_int_none [OF sel] h
    by (simp add: find_subs_def abind_run text_at_run ansi256_run MS_ERROR_SUBSCRIPTION_NOT_FOUND_def)
qed

lemma find_file_ok:
  assumes "env_contract env tab eq" "server_up env tab eq s" "m \<in> set (t_models (tab (ms_db s)))"
  shows "find_file env (m_id m) s = (Ret (m_pc m), s)" "m_id m \<noteq> - 1"
proof -
  have eq: "equivp eq" "db_ok eq (tab (ms_db s))" using assms(1,2) by (simp_all add: env_contract_def server_up_def)
  have sel: "selects reads_model (sql_query (v_sql env) (ms_db s) (q_model (m_id m))) [m]"
    using contract_selects(4) [OF assms(1), of "ms_db s" "m_id m"] db_ok_rows(2) [OF eq assms(3)] by simp
  have i: "int32 (m_id m) \<and> m_id m \<noteq> - 1" using db_ok_int32(2) [OF eq(2)] assms(3) by (simp add: model_ids_def)
  then show "m_id m \<noteq> - 1" by simp
  show "find_file env (m_id m) s = (Ret (m_pc m), s)"
    using select_int_last [OF sel _ length_id_queries(1), of "''PCFileId''" m_pc] i
    by (simp add: find_file_def reads_model_def)
qed

lemma model_rows_ok:
  assumes "env_contract env tab eq" "server_up env tab eq s" "fl \<in> set (t_files (tab (ms_db s)))"
  obtains r where "reads_file r fl" "\<And>f. model_rows env f (f_id fl) s = f r s" "f_id fl \<noteq> - 1"
proof -
  have eq: "equivp eq" "db_ok eq (tab (ms_db s))" using assms(1,2) by (simp_all add: env_contract_def server_up_def)
  have "selects reads_file (sql_query (v_sql env) (ms_db s) (q_file (f_id fl))) [fl]"
    using contract_selects(6) [OF assms(1), of "ms_db s" "f_id fl"] db_ok_rows(3) [OF eq assms(3)] by simp
  then obtain r where q: "sql_query (v_sql env) (ms_db s) (q_file (f_id fl)) = Some [r]" and r: "reads_file r fl"
    by (auto simp: selects_def list_all2_Cons2 split: option.splits)
  have i: "int32 (f_id fl) \<and> f_id fl \<noteq> - 1" using db_ok_int32(1) [OF eq(2)] assms(3) by (simp add: file_ids_def)
  have "model_rows env f (f_id fl) s = f r s" for f
    using run_query_some [OF length_id_queries(3) q] i
    by (simp add: model_rows_def abind_run aseq_run whenever_run ret_def split: prod.splits res.splits)
  then show thesis using that r i by blast
qed

text \<open>A published model: its subscription, model and file rows.\<close>

definition published :: "tables \<Rightarrow> subs_row \<Rightarrow> model_row \<Rightarrow> file_row \<Rightarrow> bool" where
  "published t x m fl \<longleftrightarrow> x \<in> set (t_subs t) \<and> m \<in> set (t_models t) \<and> fl \<in> set (t_files t) \<and>
     s_model x = m_id m \<and> m_pc m = f_id fl \<and> sql_safe (s_hash x) \<and> length (s_hash x) < 256 \<and> sql_safe (f_path fl)"

lemma get_model_info_run:
  assumes C: "env_contract env tab eq" "server_up env tab eq s" "published (tab (ms_db s)) x m fl"
    and h: "smap_get params ''subsid'' = Some (JString (s_hash x))"
  obtains r where "reads_file r fl" "OnGetModel env params s = serve_model env r s" "OnGetInfo env params s = serve_info env r s"
proof -
  have P: "x \<in> set (t_subs (tab (ms_db s)))" "m \<in> set (t_models (tab (ms_db s)))" "fl \<in> set (t_files (tab (ms_db s)))"
    "s_model x = m_id m" "m_pc m = f_id fl" "sql_safe (s_hash x)" "length (s_hash x) < 256"
    using C(3) by (simp_all add: published_def)
  have up: "db_open env s = (Ret (), s)" using C(2) by (simp add: server_up_def db_open_ok)
  note F = find_file_ok [OF C(1,2) P(2)] find_subs_ok(1) [OF C(1,2) P(1) h P(6,7)]
  obtain r where r: "reads_file r fl" "\<And>f. model_rows env f (f_id fl) s = f r s" "f_id fl \<noteq> - 1"
    using model_rows_ok [OF C(1,2) P(3)] by blast
  show thesis
    by (rule that [OF r(1)]) (simp_all add: OnGetModel_def OnGetInfo_def aseq_run abind_run up F P(4,5) whenever_run r)
qed

lemma blob_path: "reads_file r fl \<Longrightarrow> sql_safe (f_path fl) \<Longrightarrow> blob_text ''FilePathName'' r s = (Ret (f_path fl), s)"
  by (simp add: blob_text_def reads_file_def act)

text \<open>The reply when \<open>k\<close> holds \<open>v\<close>.\<close>

definition ok_reply :: "string \<Rightarrow> json \<Rightarrow> nat \<times> fields" where
  "ok_reply k v = (200, smap_put k v [(''error_code'', JNumber 0), (''error_message'', JString ''Success'')])"

definition err_reply :: "nat \<Rightarrow> int \<Rightarrow> string \<Rightarrow> nat \<times> fields" where
  "err_reply http c msg = (http, [(''error_code'', JNumber c), (''error_message'', JString msg)])"

lemma serve_base64_fresh:
  assumes "env_contract env tab eq" "ms_fs s fpath = Some d" "ms_fs s (fpath @ ''.base64'') = None" "v_writable env (fpath @ ''.base64'')"
  shows "serve_base64 env fpath key msg s = set_ok key (JString (v_enc env d))
    (s\<lparr>ms_fs := (ms_fs s)(fpath @ ''.base64'' \<mapsto> wide_bytes (v_enc env d))\<rparr>)"
  using assms by (simp add: serve_base64_def aseq_run abind_run file_run encoded_contract [OF assms(1)])

lemma serve_base64_cached:
  "ms_fs s (fpath @ ''.base64'') = Some d \<Longrightarrow>
     serve_base64 env fpath key msg s = set_ok key (JString (wide_buffer env (length d) d)) s"
  by (simp add: serve_base64_def abind_run file_run)

lemma serve_model_run:
  "reads_file r fl \<Longrightarrow> sql_safe (f_path fl) \<Longrightarrow> serve_model env r s =
     serve_base64 env (ms_root s @ MODEL_FILE_PATH @ f_path fl) ''model'' ''Could not open model file!'' s"
  by (simp add: serve_model_def abind_run blob_path act_basic)

lemma get_model_run:
  assumes "env_contract env tab eq" "server_up env tab eq s" "published (tab (ms_db s)) x m fl"
    and "asks path query ''get'' (s_hash x)"
  obtains params where
    "HandleGet env path query s = aseq (catch_http (OnGetModel env params)) reply (started s)"
    "OnGetModel env params (started s) = serve_base64 env (ms_root s @ MODEL_FILE_PATH @ f_path fl) ''model''
       ''Could not open model file!'' (started s)"
proof -
  obtain params where h: "smap_get params ''subsid'' = Some (JString (s_hash x))"
    and H: "HandleGet env path query s = aseq (catch_http (OnGetModel env params)) reply (started s)"
    using HandleGet_asks [OF assms(4)] by metis
  obtain r where r: "reads_file r fl" "OnGetModel env params (started s) = serve_model env r (started s)"
    using get_model_info_run [of env tab eq "started s" x m fl params] assms(1-3) h by auto
  have p: "sql_safe (f_path fl)" using assms(3) by (simp add: published_def)
  show thesis by (rule that [OF H]) (simp add: r(2) serve_model_run [OF r(1) p])
qed

section \<open>Properties\<close>

text \<open>A get request for a model that is on disk and not cached, run to its end.\<close>

lemma get_model_run_ok:
  assumes "env_contract env tab eq" "server_up env tab eq s" "published (tab (ms_db s)) x m fl"
    and "asks path query ''get'' (s_hash x)"
    and "fpath = ms_root s @ MODEL_FILE_PATH @ f_path fl"
    and "ms_fs s fpath = Some d" "ms_fs s (fpath @ ''.base64'') = None" "v_writable env (fpath @ ''.base64'')"
  shows "\<exists>s'. HandleGet env path query s = (Ret (ok_reply ''model'' (JString (v_enc env d))), s') \<and>
    ms_fs s' = (ms_fs s)(fpath @ ''.base64'' \<mapsto> wide_bytes (v_enc env d)) \<and> ms_db s' = ms_db s \<and> ms_root s' = ms_root s \<and> ms_driver s'"
proof -
  obtain params where H: "HandleGet env path query s = aseq (catch_http (OnGetModel env params)) reply (started s)"
    and O: "OnGetModel env params (started s) = serve_base64 env fpath ''model'' ''Could not open model file!'' (started s)"
    using get_model_run [OF assms(1-4)] unfolding assms(5) by metis
  have S: "OnGetModel env params (started s) = set_ok ''model'' (JString (v_enc env d))
     ((started s)\<lparr>ms_fs := (ms_fs s)(fpath @ ''.base64'' \<mapsto> wide_bytes (v_enc env d))\<rparr>)"
    unfolding O using serve_base64_fresh [OF assms(1), of "started s"] assms(6-8) by simp
  show ?thesis
    unfolding H using finish_ret [of "OnGetModel env params" "started s", OF S [unfolded set_ok_run]] assms(2)
    by (simp add: ok_reply_def server_up_def)
qed

text \<open>
  A request for a model whose base64 text is stored is answered from the stored wide characters: the buffer has one
  character for each byte of the file, so the base64 text is followed by whatever the other half of the
  buffer holds up to its first NUL.
\<close>

definition text_again :: "'db env \<Rightarrow> bytes \<Rightarrow> string" where
  "text_again env d = v_enc env d @ c_text (map (v_wjunk env) [length (v_enc env d)..<2 * length (v_enc env d)])"

lemma get_model_again_appends_junk:
  assumes "env_contract env tab eq" "server_up env tab eq s" "published (tab (ms_db s)) x m fl"
    and "asks path query ''get'' (s_hash x)"
    and "fpath = ms_root s @ MODEL_FILE_PATH @ f_path fl"
    and "ms_fs s (fpath @ ''.base64'') = Some (wide_bytes (v_enc env d))"
  shows "\<exists>s'. HandleGet env path query s = (Ret (ok_reply ''model'' (JString (text_again env d))), s') \<and>
    ms_fs s' = ms_fs s \<and> ms_db s' = ms_db s \<and> ms_root s' = ms_root s \<and> ms_driver s'"
proof -
  obtain params where H: "HandleGet env path query s = aseq (catch_http (OnGetModel env params)) reply (started s)"
    and O: "OnGetModel env params (started s) = serve_base64 env fpath ''model'' ''Could not open model file!'' (started s)"
    using get_model_run [OF assms(1-4)] unfolding assms(5) by metis
  have b: "CHR 0x00 \<notin> set (v_enc env d)" using assms(1) by (simp add: env_contract_def)
  have S: "OnGetModel env params (started s) = set_ok ''model'' (JString (text_again env d)) (started s)"
    unfolding O using serve_base64_cached [where s = "started s" and fpath = fpath] assms(6)
    by (simp add: wide_buffer_def c_text_append [OF b] text_again_def)
  show ?thesis
    unfolding H using finish_ret [of "OnGetModel env params" "started s", OF S [unfolded set_ok_run]] assms(2)
    by (simp add: ok_reply_def server_up_def)
qed

text \<open>
  C35. A GET request for a published model whose file is on disk, the first one since it was published (there is no base64 text beside
  the file yet, and it can be created there), is answered with
  status 200 and the base64 text of the file; the text is stored beside the file as wide characters, and
  nothing else on the disk or in the database changes. Every later request finds the stored text, changes nothing, and is
  answered with status 200 and the base64 text followed by junk: the part of an uninitialised buffer up to its first NUL.
\<close>

theorem get_model_returns_file:
  assumes "env_contract env tab eq" "server_up env tab eq s" "published (tab (ms_db s)) x m fl"
    and "asks path query ''get'' (s_hash x)"
    and "fpath = ms_root s @ MODEL_FILE_PATH @ f_path fl"
    and "ms_fs s fpath = Some d" "ms_fs s (fpath @ ''.base64'') = None" "v_writable env (fpath @ ''.base64'')"
  shows "\<exists>s'. HandleGet env path query s = (Ret (ok_reply ''model'' (JString (v_enc env d))), s') \<and>
    ms_fs s' = (ms_fs s)(fpath @ ''.base64'' \<mapsto> wide_bytes (v_enc env d)) \<and> ms_db s' = ms_db s \<and>
    (\<forall>n. let t = ((\<lambda>t. snd (HandleGet env path query t)) ^^ n) s' in
      fst (HandleGet env path query t) = Ret (ok_reply ''model'' (JString (text_again env d))) \<and> ms_fs t = ms_fs s' \<and> ms_db t = ms_db s)"
proof -
  from get_model_run_ok [OF assms] obtain s' where s': "HandleGet env path query s = (Ret (ok_reply ''model'' (JString (v_enc env d))), s')"
    "ms_fs s' = (ms_fs s)(fpath @ ''.base64'' \<mapsto> wide_bytes (v_enc env d))" "ms_db s' = ms_db s" "ms_root s' = ms_root s" "ms_driver s'" by blast
  let ?get = "\<lambda>t. snd (HandleGet env path query t)"
  have again: "\<exists>t'. HandleGet env path query t = (Ret (ok_reply ''model'' (JString (text_again env d))), t') \<and>
      ms_fs t' = ms_fs t \<and> ms_db t' = ms_db t \<and> ms_root t' = ms_root t \<and> ms_driver t'"
    if "ms_fs t = ms_fs s'" "ms_db t = ms_db s" "ms_root t = ms_root s" "ms_driver t" for t
  proof (rule get_model_again_appends_junk [OF assms(1) _ _ assms(4)])
    show "server_up env tab eq t" using assms(2) that by (simp add: server_up_def)
    show "published (tab (ms_db t)) x m fl" using assms(3) that by simp
    show "fpath = ms_root t @ MODEL_FILE_PATH @ f_path fl" using assms(5) that by simp
    show "ms_fs t (fpath @ ''.base64'') = Some (wide_bytes (v_enc env d))" using s'(2) that by simp
  qed
  have keep: "ms_fs ((?get ^^ n) s') = ms_fs s' \<and> ms_db ((?get ^^ n) s') = ms_db s \<and> ms_root ((?get ^^ n) s') = ms_root s \<and> ms_driver ((?get ^^ n) s')" for n
  proof (induction n)
    case (Suc n)
    then show ?case using again [of "(?get ^^ n) s'"] by auto
  qed (use s' in simp)
  show ?thesis using s'(1-3) again keep by (intro exI [of _ s']) (metis fst_conv)
qed

text \<open>
  A getinfo request for a published model that has not been asked for by get is answered with status 404 and
  "Could not open model file!", although the file is there: the extension is appended to a name that has it.
\<close>

theorem get_info_misses_model:
  assumes "env_contract env tab eq" "server_up env tab eq s" "published (tab (ms_db s)) x m fl"
    and "asks path query ''getinfo'' (s_hash x)"
    and "fpath = ms_root s @ MODEL_FILE_PATH @ f_path fl"
    and "ms_fs s fpath = Some d" "ms_fs s (fpath @ ''.base64'') = None" "ms_fs s (fpath @ ''.3dscan'') = None"
  shows "\<exists>s'. HandleGet env path query s = (Ret (err_reply 404 4 ''Could not open model file!''), s') \<and>
    ms_fs s' = ms_fs s \<and> ms_db s' = ms_db s"
proof -
  obtain params where h: "smap_get params ''subsid'' = Some (JString (s_hash x))"
    and H: "HandleGet env path query s = aseq (catch_http (OnGetInfo env params)) reply (started s)"
    using HandleGet_asks [OF assms(4)] by metis
  obtain r where r: "reads_file r fl" "OnGetInfo env params (started s) = serve_info env r (started s)"
    using get_model_info_run [of env tab eq "started s" x m fl params] assms(1-3) h by auto
  have p: "sql_safe (f_path fl)" using assms(3) by (simp add: published_def)
  have "serve_info env r (started s) = set_err ''Could not open model file!'' 4 404 (started s)"
    using assms(7,8) unfolding assms(5)
    by (simp add: serve_info_def abind_run blob_path [OF r(1) p] act_basic file_run MODEL_FILE_EXTENSION_def
      MS_ERROR_COULD_NOT_OPEN_FILE_def)
  with r(2) have S: "OnGetInfo env params (started s) = set_err ''Could not open model file!'' 4 404 (started s)" by simp
  show ?thesis
    unfolding H using finish_ret [of "OnGetInfo env params" "started s", OF S [unfolded set_err_run]]
    by (simp add: err_reply_def)
qed

text \<open>
  For a subscription id no row has, get, getad and getinfo answer with status 404 and "Subscription id not
  found!", and neither database nor disk changes.
\<close>

theorem unknown_subscription_not_found:
  assumes "env_contract env tab eq" "server_up env tab eq s"
    and "\<forall>x\<in>set (t_subs (tab (ms_db s))). \<not> eq (s_hash x) h" "sql_safe h" "length h < 256"
    and "asks path query meth h" "meth \<in> {''get'', ''getad'', ''getinfo''}"
  shows "\<exists>s'. HandleGet env path query s = (Ret (err_reply 404 1 ''Subscription id not found!''), s') \<and>
    ms_fs s' = ms_fs s \<and> ms_db s' = ms_db s"
proof -
  obtain params where h: "smap_get params ''subsid'' = Some (JString h)"
    and H: "meth = ''get'' \<Longrightarrow> HandleGet env path query s = aseq (catch_http (OnGetModel env params)) reply (started s)"
      "meth = ''getad'' \<Longrightarrow> HandleGet env path query s = aseq (catch_http (OnGetAd env params)) reply (started s)"
      "meth = ''getinfo'' \<Longrightarrow> HandleGet env path query s = aseq (catch_http (OnGetInfo env params)) reply (started s)"
    using HandleGet_asks [OF assms(6)] by metis
  have up: "db_open env (started s) = (Ret (), started s)" using assms(2) by (simp add: server_up_def db_open_ok)
  note F = find_subs_unknown [of env tab eq "started s" h params, OF assms(1) _ h assms(4,5)]
  have S: "OnGetModel env params (started s) = set_err ''Subscription id not found!'' 1 404 (started s)"
    "OnGetAd env params (started s) = set_err ''Subscription id not found!'' 1 404 (started s)"
    "OnGetInfo env params (started s) = set_err ''Subscription id not found!'' 1 404 (started s)"
    using assms(3)
    by (simp_all add: OnGetModel_def OnGetAd_def OnGetInfo_def aseq_run abind_run up F set_err_run whenever_run act_basic)
  note D = finish_ret [of "OnGetModel env params" "started s", OF S(1) [unfolded set_err_run]]
    finish_ret [of "OnGetAd env params" "started s", OF S(2) [unfolded set_err_run]]
    finish_ret [of "OnGetInfo env params" "started s", OF S(3) [unfolded set_err_run]]
  show ?thesis using assms(7) H D by (auto simp: err_reply_def)
qed

text \<open>
  A GET request without the right magic value is answered with status 400 and "Request from unknown
  client!"; database and disk stay as they are, whatever the method.
\<close>

theorem unknown_client_rejected:
  assumes "decode path = Some p" "decode query = Some q" "split_path p \<noteq> []"
    and "smap_get (split_query q) ''magic'' \<noteq> Some ''tfzfepg''"
  shows "\<exists>s'. HandleGet env path query s = (Ret (err_reply 400 6 ''Request from unknown client!''), s') \<and>
    ms_fs s' = ms_fs s \<and> ms_db s' = ms_db s"
proof -
  have S: "get_method env (split_path p) (split_query q) (started s) = set_err ''Request from unknown client!'' 6 400 (started s)"
    using assms(3,4) by (simp add: get_method_def MODEL_API_MAGIC_def MS_ERROR_UNKNOWN_CLIENT_def)
  show ?thesis
    using finish_ret [of "get_method env (split_path p) (split_query q)" "started s", OF S [unfolded set_err_run]]
    by (simp add: HandleGet_started assms(1,2) err_reply_def)
qed

end
