(* ===== verification/ServerPost.thy ===== *)
theory ServerPost
  imports ServerGet
begin

text \<open>
  What the POST requests do under the contract: a model upload, a subscription, the two failures that leave
  data behind or fail late, refused credentials, and the way of a model from upload to download.
\<close>

section \<open>Requests\<close>

definition posts :: "string \<Rightarrow> string \<Rightarrow> string \<Rightarrow> bool" where
  "posts path query meth \<longleftrightarrow> (case (decode path, decode query) of
      (Some p, Some q) \<Rightarrow> split_path p \<noteq> [] \<and> last (split_path p) = meth
    | _ \<Rightarrow> False)"

text \<open>Text that a statement can carry: safe between quotes and shorter than its buffer.\<close>

definition fit_text :: "json \<Rightarrow> string \<Rightarrow> string \<Rightarrow> bool" where
  "fit_text j k t \<longleftrightarrow> json_field j k = JString t \<and> sql_safe t \<and> length t < 256"

definition knows :: "(string \<Rightarrow> string \<Rightarrow> bool) \<Rightarrow> tables \<Rightarrow> string \<Rightarrow> string \<Rightarrow> bool" where
  "knows eq t u p \<longleftrightarrow> (\<exists>w\<in>set (t_owners t). eq (o_user w) u \<and> eq (o_pass w) p)"

lemma has_field_json: "json_field j k \<noteq> JNull \<Longrightarrow> has_field j k"
  by (auto simp: json_field_def has_field_def split: json.splits option.splits)

lemma text_copied: "json_field j k = JString t \<Longrightarrow> k \<in> set ks \<Longrightarrow> smap_get (copy_fields j ks) k = Some (JString t)"
  using has_field_json [of j k] by (simp add: get_copy_fields)

lemma int_copied: "json_field j k = JNumber i \<Longrightarrow> k \<in> set ks \<Longrightarrow> smap_get (copy_fields j ks) k = Some (JNumber i)"
  using has_field_json [of j k] by (simp add: get_copy_fields)

lemma HandlePost_posts:
  assumes "posts path query meth"
  shows "meth = ''upload_model'' \<Longrightarrow> HandlePost env path query (Body j) s = aseq (catch_http
      (OnUploadModel env (copy_fields j [''model'', ''user'', ''pass'', ''name'', ''desc'']))) reply (started s)"
    "meth = ''upload_ad'' \<Longrightarrow> HandlePost env path query (Body j) s = aseq (catch_http
      (OnUploadAd env (copy_fields j [''ad'', ''user'', ''pass'', ''url'']))) reply (started s)"
    "meth = ''create_subs'' \<Longrightarrow> HandlePost env path query (Body j) s = aseq (catch_http
      (OnCreateSubscription env (copy_fields j [''model_id'', ''ad_id'', ''owner'', ''user'', ''pass'']))) reply (started s)"
  using assms by (auto simp: posts_def HandlePost_def post_method_def aseq_run abind_run start_answer_run split: option.splits)

section \<open>Steps of the handlers\<close>

lemma text_at_fit:
  "fit_text j k t \<Longrightarrow> k \<in> set ks \<Longrightarrow> text_at (copy_fields j ks) k s = (Ret t, s)"
  "fit_text j k t \<Longrightarrow> ansi256 t s = (Ret t, s)"
  by (simp_all add: fit_text_def text_copied text_at_run ansi256_run)

lemma login_ok:
  assumes C: "env_contract env tab eq" "server_up env tab eq s" "knows eq (tab (ms_db s)) u p"
    and j: "fit_text j ''user'' u" "fit_text j ''pass'' p" and k: "''user'' \<in> set ks" "''pass'' \<in> set ks"
  obtains i where "login env (copy_fields j ks) s = (Ret i, s)" "i \<in> owner_ids (tab (ms_db s))" "i \<noteq> - 1" "int32 i"
proof -
  let ?rs = "[w \<leftarrow> t_owners (tab (ms_db s)). eq (o_user w) u \<and> eq (o_pass w) p]"
  have s: "sql_safe u" "sql_safe p" and l: "length (q_login u p) < 5000" using j by (simp_all add: fit_text_def)
  have ne: "?rs \<noteq> []" using C(3) by (auto simp: knows_def filter_empty_conv)
  have "last ?rs \<in> set (t_owners (tab (ms_db s)))" using last_in_set [OF ne] by auto
  then have i: "o_id (last ?rs) \<in> owner_ids (tab (ms_db s))" by (auto simp: owner_ids_def)
  have "db_ok eq (tab (ms_db s))" using C(2) by (simp add: server_up_def)
  note m1 = db_ok_int32(4) [OF this i]
  have "login env (copy_fields j ks) s = (Ret (o_id (last ?rs)), s)"
    using select_int_last [OF contract_selects(2) [OF C(1) s] ne l, of "''id''" o_id]
    by (simp add: login_def abind_run text_at_fit [OF j(1)] text_at_fit [OF j(2)] k reads_owner_def)
  then show thesis using that i m1 by blast
qed

lemma login_refused:
  assumes C: "env_contract env tab eq" "\<not> knows eq (tab (ms_db s)) u p"
    and j: "fit_text j ''user'' u" "fit_text j ''pass'' p" and k: "''user'' \<in> set ks" "''pass'' \<in> set ks"
  shows "login env (copy_fields j ks) s = (Ret (- 1), s\<lparr>ms_answer := smap_put ''error_code'' (JNumber 9)
     (smap_put ''error_message'' (JString ''Invalid username or password!'') (ms_answer s)), ms_http := 403\<rparr>)"
proof -
  have s: "sql_safe u" "sql_safe p" and l: "length (q_login u p) < 5000" using j by (simp_all add: fit_text_def)
  have "[w \<leftarrow> t_owners (tab (ms_db s)). eq (o_user w) u \<and> eq (o_pass w) p] = []"
    using C(2) by (auto simp: knows_def filter_empty_conv)
  then have sel: "selects reads_owner (sql_query (v_sql env) (ms_db s) (q_login u p)) []"
    using contract_selects(2) [OF C(1) s, of "ms_db s"] by simp
  show ?thesis using select_int_none [OF sel l]
    by (simp add: login_def abind_run text_at_fit [OF j(1)] text_at_fit [OF j(2)] k MS_ERROR_INVALID_USER_PASS_def)
qed

lemma find_owner_ok:
  assumes C: "env_contract env tab eq" "server_up env tab eq s" "\<exists>w\<in>set (t_owners (tab (ms_db s))). eq (o_user w) u"
    and j: "fit_text j ''owner'' u" and k: "''owner'' \<in> set ks"
  obtains w where "find_owner env (copy_fields j ks) s = (Ret (o_id w), s)" "w \<in> set (t_owners (tab (ms_db s)))"
    "eq (o_user w) u" "o_id w \<noteq> - 1" "int32 (o_id w)"
proof -
  let ?rs = "[w \<leftarrow> t_owners (tab (ms_db s)). eq (o_user w) u]"
  have s: "sql_safe u" and l: "length (q_owner u) < 5000" using j by (simp_all add: fit_text_def)
  have ne: "?rs \<noteq> []" using C(3) by (auto simp: filter_empty_conv)
  have w: "last ?rs \<in> set (t_owners (tab (ms_db s)))" "eq (o_user (last ?rs)) u" using last_in_set [OF ne] by auto
  then have i: "o_id (last ?rs) \<in> owner_ids (tab (ms_db s))" by (auto simp: owner_ids_def)
  have "db_ok eq (tab (ms_db s))" using C(2) by (simp add: server_up_def)
  note m1 = db_ok_int32(4) [OF this i]
  have "find_owner env (copy_fields j ks) s = (Ret (o_id (last ?rs)), s)"
    using select_int_last [OF contract_selects(3) [OF C(1) s] ne l, of "''id''" o_id]
    by (simp add: find_owner_def abind_run text_at_fit [OF j] k reads_owner_def)
  then show thesis using that w m1 by blast
qed

lemma last_id_run:
  assumes "selects reads_id (sql_query (v_sql env) (ms_db s) q_last) [n]"
  shows "select_int env q_last ''id'' msg c h s = (Ret n, s)"
  using select_int_last [OF assms, of "''id''" "\<lambda>i. i"] by (simp add: reads_id_def)

text \<open>The name under which the next upload is stored.\<close>

definition next_name :: "'db env \<Rightarrow> 'db server \<Rightarrow> string \<Rightarrow> string" where
  "next_name env s ext = v_uuid env (ms_uuids s) @ ext"

lemma next_name_ok:
  assumes "env_contract env tab eq" "ext \<in> {''.3dscan'', ''.png''}"
  shows "sql_safe (next_name env s ext)" "length (next_name env s ext) \<le> 43"
    "sql_safe (next_name env s ext @ ''.base64'')" "length (next_name env s ext @ ''.base64'') \<le> 128"
  using assms by (auto simp: env_contract_def next_name_def sql_safe_def code_def)

lemma store_file_run:
  assumes "v_writable env (ms_root s @ dir @ next_name env s ext)"
  shows "store_file env dir ext t s = (Ret (next_name env s ext, int (length (v_dec env t))),
    s\<lparr>ms_uuids := Suc (ms_uuids s), ms_fs := (ms_fs s)(ms_root s @ dir @ next_name env s ext \<mapsto> v_dec env t)\<rparr>)"
  using assms by (simp add: store_file_def aseq_run abind_run act_basic file_run next_name_def)

text \<open>The file part of a model upload: the state after it, with the file row added.\<close>

lemma upload_file_run:
  assumes C: "env_contract env tab eq" "server_up env tab eq s" "int_key (t_nfile (tab (ms_db s)))"
    and t: "smap_get params ''model'' = Some (JString t)" "int32 (int (length (v_dec env t)))"
    and W: "v_writable env (ms_root s @ MODEL_FILE_PATH @ next_name env s ''.3dscan'')"
  obtains db' where "upload_file env params s = (Ret (t_nfile (tab (ms_db s))), s\<lparr>ms_uuids := Suc (ms_uuids s),
       ms_fs := (ms_fs s)(ms_root s @ MODEL_FILE_PATH @ next_name env s ''.3dscan'' \<mapsto> v_dec env t), ms_db := db'\<rparr>)"
    "tab db' = add_file (next_name env s ''.3dscan'') (next_name env s ''.3dscan'' @ ''.base64'') (int (length (v_dec env t))) (tab (ms_db s))"
    "sql_connect (v_sql env) db' = Connected" "db_ok eq (tab db')"
proof -
  let ?n = "next_name env s ''.3dscan''"
  let ?s = "s\<lparr>ms_uuids := Suc (ms_uuids s), ms_fs := (ms_fs s)(ms_root s @ MODEL_FILE_PATH @ ?n \<mapsto> v_dec env t)\<rparr>"
  have up: "sql_connect (v_sql env) (ms_db s) = Connected" "db_ok eq (tab (ms_db s))" using C(2) by (simp_all add: server_up_def)
  have n: "sql_safe ?n" "length ?n \<le> 43" "sql_safe (?n @ ''.base64'')" "length (?n @ ''.base64'') \<le> 128"
    using next_name_ok [OF C(1), of "''.3dscan''" s] by simp_all
  have l: "length (i_file ?n (?n @ ''.base64'') (int (length (v_dec env t)))) < 5000"
    using length_inserts(1) [OF t(2), of ?n "?n @ ''.base64''"] n by simp
  have I: "inserts (v_sql env) tab (ms_db ?s) (i_file ?n (?n @ ''.base64'') (int (length (v_dec env t)))) (t_nfile (tab (ms_db s)))
      (add_file ?n (?n @ ''.base64'') (int (length (v_dec env t))))"
    using contract_inserts(1) [OF C(1) n(1,3) _ n(4) C(3)] n(2) by simp
  obtain db' where u: "run_update env (i_file ?n (?n @ ''.base64'') (int (length (v_dec env t)))) ?s = (Ret 1, ?s\<lparr>ms_db := db'\<rparr>)"
    "tab db' = add_file ?n (?n @ ''.base64'') (int (length (v_dec env t))) (tab (ms_db ?s))"
    "selects reads_id (sql_query (v_sql env) db' q_last) [t_nfile (tab (ms_db s))]"
    "sql_connect (v_sql env) db' = sql_connect (v_sql env) (ms_db ?s)"
    by (rule run_update_inserts [OF l I])
  have "select_int env q_last ''id'' ''Subscription id not found!'' MS_ERROR_SUBSCRIPTION_NOT_FOUND 404 (?s\<lparr>ms_db := db'\<rparr>) =
      (Ret (t_nfile (tab (ms_db s))), ?s\<lparr>ms_db := db'\<rparr>)"
    using last_id_run [of env "?s\<lparr>ms_db := db'\<rparr>"] u(3) by simp
  then have "upload_file env params s = (Ret (t_nfile (tab (ms_db s))), ?s\<lparr>ms_db := db'\<rparr>)"
    using u(1) by (simp add: upload_file_def abind_run aseq_run text_at_run t(1) store_file_run [OF W] whenever_run)
  then show thesis using that [of db'] u(2,4) up db_ok_add_file [OF up(2) C(3)] by simp
qed

text \<open>The model row of an upload whose file row \<open>i\<close> is there.\<close>

lemma upload_model_row_run:
  assumes C: "env_contract env tab eq" "db_ok eq (tab (ms_db s))" "sql_connect (v_sql env) (ms_db s) = Connected"
    and i: "i \<in> file_ids (tab (ms_db s))" "int_key (t_nmodel (tab (ms_db s)))"
    and j: "fit_text j ''name'' n" "fit_text j ''desc'' d" "length n \<le> 32" and k: "''name'' \<in> set ks" "''desc'' \<in> set ks"
  obtains db' where "upload_model_row env (copy_fields j ks) i s =
      set_ok ''model_id'' (JNumber (t_nmodel (tab (ms_db s)))) (s\<lparr>ms_db := db'\<rparr>)"
    "tab db' = add_model i i n d (tab (ms_db s))" "sql_connect (v_sql env) db' = Connected" "db_ok eq (tab db')"
proof -
  have f: "sql_safe n" "sql_safe d" "length d \<le> 255" "length n \<le> 255" using j by (simp_all add: fit_text_def)
  have l: "length (i_model i i n d) < 5000" using db_ok_int32(1) [OF C(2) i(1)] f by (simp add: length_inserts)
  have I: "inserts (v_sql env) tab (ms_db s) (i_model i i n d) (t_nmodel (tab (ms_db s))) (add_model i i n d)"
    using contract_inserts(3) [OF C(1) f(1,2) j(3) _ i(1) i(1) i(2)] f(3) by simp
  obtain db' where u: "run_update env (i_model i i n d) s = (Ret 1, s\<lparr>ms_db := db'\<rparr>)"
    "tab db' = add_model i i n d (tab (ms_db s))" "selects reads_id (sql_query (v_sql env) db' q_last) [t_nmodel (tab (ms_db s))]"
    "sql_connect (v_sql env) db' = sql_connect (v_sql env) (ms_db s)"
    by (rule run_update_inserts [OF l I])
  have q: "select_int env q_last ''id'' ''Model id not found!'' MS_ERROR_MODEL_NOT_FOUND 404 (s\<lparr>ms_db := db'\<rparr>) =
      (Ret (t_nmodel (tab (ms_db s))), s\<lparr>ms_db := db'\<rparr>)"
    using last_id_run [of env "s\<lparr>ms_db := db'\<rparr>"] u(3) by simp
  have "t_nmodel (tab (ms_db s)) \<noteq> - 1" using i(2) by (simp add: int_key_def)
  then have "upload_model_row env (copy_fields j ks) i s = set_ok ''model_id'' (JNumber (t_nmodel (tab (ms_db s)))) (s\<lparr>ms_db := db'\<rparr>)"
    using u(1) q by (simp add: upload_model_row_def abind_run text_at_fit [OF j(1)] text_at_fit [OF j(2)] k whenever_run)
  then show thesis using that [of db'] u(2,4) C(3) db_ok_add_model [OF C(2) i(2) i(1) i(1)] by simp
qed

section \<open>Uploads\<close>

text \<open>An upload of the text \<open>t\<close> by a known user to a server that is up and can store it.\<close>

definition uploadable :: "'db env \<Rightarrow> ('db \<Rightarrow> tables) \<Rightarrow> (string \<Rightarrow> string \<Rightarrow> bool) \<Rightarrow> 'db server \<Rightarrow> json \<Rightarrow>
    string \<Rightarrow> string \<Rightarrow> string \<Rightarrow> bool" where
  "uploadable env tab eq s j u p t \<longleftrightarrow> server_up env tab eq s \<and> fit_text j ''user'' u \<and> fit_text j ''pass'' p \<and>
     knows eq (tab (ms_db s)) u p \<and> json_field j ''model'' = JString t \<and> int32 (int (length (v_dec env t))) \<and>
     int_key (t_nfile (tab (ms_db s))) \<and> v_writable env (ms_root s @ MODEL_FILE_PATH @ next_name env s ''.3dscan'')"

definition model_fields :: "string list" where
  "model_fields = [''model'', ''user'', ''pass'', ''name'', ''desc'']"

lemma OnUploadModel_file:
  assumes C: "env_contract env tab eq" "uploadable env tab eq s j u p t"
  obtains db' where "OnUploadModel env (copy_fields j model_fields) s =
      upload_model_row env (copy_fields j model_fields) (t_nfile (tab (ms_db s))) (s\<lparr>ms_uuids := Suc (ms_uuids s),
       ms_fs := (ms_fs s)(ms_root s @ MODEL_FILE_PATH @ next_name env s ''.3dscan'' \<mapsto> v_dec env t), ms_db := db'\<rparr>)"
    "tab db' = add_file (next_name env s ''.3dscan'') (next_name env s ''.3dscan'' @ ''.base64'') (int (length (v_dec env t))) (tab (ms_db s))"
    "sql_connect (v_sql env) db' = Connected" "db_ok eq (tab db')"
proof -
  have U: "server_up env tab eq s" "fit_text j ''user'' u" "fit_text j ''pass'' p" "knows eq (tab (ms_db s)) u p"
    "json_field j ''model'' = JString t" "int32 (int (length (v_dec env t)))" "int_key (t_nfile (tab (ms_db s)))"
    "v_writable env (ms_root s @ MODEL_FILE_PATH @ next_name env s ''.3dscan'')"
    using C(2) by (simp_all add: uploadable_def)
  have k: "''user'' \<in> set model_fields" "''pass'' \<in> set model_fields" "''model'' \<in> set model_fields"
    by (simp_all add: model_fields_def)
  obtain i where L: "login env (copy_fields j model_fields) s = (Ret i, s)" "i \<noteq> - 1"
    using login_ok [OF C(1) U(1,4,2,3) k(1,2)] by metis
  obtain db' where F: "upload_file env (copy_fields j model_fields) s = (Ret (t_nfile (tab (ms_db s))), s\<lparr>ms_uuids := Suc (ms_uuids s),
       ms_fs := (ms_fs s)(ms_root s @ MODEL_FILE_PATH @ next_name env s ''.3dscan'' \<mapsto> v_dec env t), ms_db := db'\<rparr>)"
    "tab db' = add_file (next_name env s ''.3dscan'') (next_name env s ''.3dscan'' @ ''.base64'') (int (length (v_dec env t))) (tab (ms_db s))"
    "sql_connect (v_sql env) db' = Connected" "db_ok eq (tab db')"
    by (rule upload_file_run [OF C(1) U(1,7) text_copied [OF U(5) k(3)] U(6,8)])
  have o: "db_open env s = (Ret (), s)" using U(1) by (simp add: server_up_def db_open_ok)
  have n: "t_nfile (tab (ms_db s)) \<noteq> - 1" using U(7) by (simp add: int_key_def)
  show thesis
    by (rule that [OF _ F(2-4)]) (simp add: OnUploadModel_def aseq_run abind_run o L F(1) whenever_run n)
qed

text \<open>An upload run to its end.\<close>

lemma upload_model_run_ok:
  assumes "env_contract env tab eq" "uploadable env tab eq s j u p t" "posts path query ''upload_model''"
    and "fit_text j ''name'' n" "length n \<le> 32" "fit_text j ''desc'' d" "int_key (t_nmodel (tab (ms_db s)))"
  shows "\<exists>s'. HandlePost env path query (Body j) s =
      (Ret (ok_reply ''model_id'' (JNumber (t_nmodel (tab (ms_db s))))), s') \<and>
    tab (ms_db s') = add_model (t_nfile (tab (ms_db s))) (t_nfile (tab (ms_db s))) n d
      (add_file (next_name env s ''.3dscan'') (next_name env s ''.3dscan'' @ ''.base64'') (int (length (v_dec env t))) (tab (ms_db s))) \<and>
    ms_fs s' = (ms_fs s)(ms_root s @ MODEL_FILE_PATH @ next_name env s ''.3dscan'' \<mapsto> v_dec env t) \<and>
    server_up env tab eq s' \<and> ms_root s' = ms_root s \<and> ms_uuids s' = Suc (ms_uuids s) \<and> ms_seeds s' = ms_seeds s"
proof -
  have U: "uploadable env tab eq (started s) j u p t" "next_name env (started s) ext = next_name env s ext" for ext
    using assms(2) by (simp_all add: uploadable_def next_name_def)
  let ?s = "\<lambda>db'. started s\<lparr>ms_uuids := Suc (ms_uuids s),
     ms_fs := (ms_fs s)(ms_root s @ MODEL_FILE_PATH @ next_name env s ''.3dscan'' \<mapsto> v_dec env t), ms_db := db'\<rparr>"
  obtain db' where F: "OnUploadModel env (copy_fields j model_fields) (started s) =
      upload_model_row env (copy_fields j model_fields) (t_nfile (tab (ms_db s))) (?s db')"
    "tab db' = add_file (next_name env s ''.3dscan'') (next_name env s ''.3dscan'' @ ''.base64'') (int (length (v_dec env t))) (tab (ms_db s))"
    "sql_connect (v_sql env) db' = Connected" "db_ok eq (tab db')"
    using OnUploadModel_file [OF assms(1) U(1)] unfolding U(2) started_simps by metis
  have i: "t_nfile (tab (ms_db s)) \<in> file_ids (tab db')" "t_nmodel (tab db') = t_nmodel (tab (ms_db s))"
    by (simp_all add: F(2)) (simp add: add_file_def)
  obtain db2 where M: "upload_model_row env (copy_fields j model_fields) (t_nfile (tab (ms_db s))) (?s db') =
      set_ok ''model_id'' (JNumber (t_nmodel (tab db'))) (?s db'\<lparr>ms_db := db2\<rparr>)"
    "tab db2 = add_model (t_nfile (tab (ms_db s))) (t_nfile (tab (ms_db s))) n d (tab db')"
    "sql_connect (v_sql env) db2 = Connected" "db_ok eq (tab db2)"
    using upload_model_row_run [OF assms(1), of "?s db'" "t_nfile (tab (ms_db s))" j n d model_fields]
      F(3,4) i assms(4-7) by (auto simp: model_fields_def)
  have H: "HandlePost env path query (Body j) s = aseq (catch_http (OnUploadModel env (copy_fields j model_fields))) reply (started s)"
    unfolding model_fields_def by (rule HandlePost_posts(1) [OF assms(3)]) simp
  have S: "OnUploadModel env (copy_fields j model_fields) (started s) =
      set_ok ''model_id'' (JNumber (t_nmodel (tab (ms_db s)))) (?s db2)"
    using F(1) M(1) by (simp add: i(2))
  show ?thesis
    unfolding H using finish_ret [of "OnUploadModel env (copy_fields j model_fields)" "started s", OF S [unfolded set_ok_run]]
      M F assms(2) by (simp add: ok_reply_def server_up_def uploadable_def)
qed

text \<open>
  C33. An upload by a known user stores the decoded bytes under a new name, adds the file and the model to the
  database, and answers with the id of the model; the schema still holds.
\<close>

theorem upload_model_stores:
  assumes "env_contract env tab eq" "uploadable env tab eq s j u p t" "posts path query ''upload_model''"
    and "fit_text j ''name'' n" "length n \<le> 32" "fit_text j ''desc'' d" "int_key (t_nmodel (tab (ms_db s)))"
  shows "\<exists>s'. HandlePost env path query (Body j) s =
      (Ret (ok_reply ''model_id'' (JNumber (t_nmodel (tab (ms_db s))))), s') \<and>
    tab (ms_db s') = add_model (t_nfile (tab (ms_db s))) (t_nfile (tab (ms_db s))) n d
      (add_file (next_name env s ''.3dscan'') (next_name env s ''.3dscan'' @ ''.base64'') (int (length (v_dec env t))) (tab (ms_db s))) \<and>
    ms_fs s' = (ms_fs s)(ms_root s @ MODEL_FILE_PATH @ next_name env s ''.3dscan'' \<mapsto> v_dec env t) \<and>
    server_up env tab eq s' \<and> ms_root s' = ms_root s \<and> ms_uuids s' = Suc (ms_uuids s) \<and> ms_seeds s' = ms_seeds s"
  by (rule upload_model_run_ok [OF assms])

text \<open>
  An upload without a description is refused only after the file and its row were written: a JSON exception
  leaves the handler, and both stay behind without a model.
\<close>

theorem upload_without_desc_leaves_file:
  assumes "env_contract env tab eq" "uploadable env tab eq s j u p t" "posts path query ''upload_model''"
    and "fit_text j ''name'' n" "json_field j ''desc'' = JNull"
  shows "\<exists>s'. HandlePost env path query (Body j) s = (Throw JsonException, s') \<and>
    tab (ms_db s') = add_file (next_name env s ''.3dscan'') (next_name env s ''.3dscan'' @ ''.base64'')
      (int (length (v_dec env t))) (tab (ms_db s)) \<and>
    ms_fs s' = (ms_fs s)(ms_root s @ MODEL_FILE_PATH @ next_name env s ''.3dscan'' \<mapsto> v_dec env t)"
proof -
  have U: "uploadable env tab eq (started s) j u p t" "next_name env (started s) ext = next_name env s ext" for ext
    using assms(2) by (simp_all add: uploadable_def next_name_def)
  let ?s = "\<lambda>db'. started s\<lparr>ms_uuids := Suc (ms_uuids s),
     ms_fs := (ms_fs s)(ms_root s @ MODEL_FILE_PATH @ next_name env s ''.3dscan'' \<mapsto> v_dec env t), ms_db := db'\<rparr>"
  obtain db' where F: "OnUploadModel env (copy_fields j model_fields) (started s) =
      upload_model_row env (copy_fields j model_fields) (t_nfile (tab (ms_db s))) (?s db')"
    "tab db' = add_file (next_name env s ''.3dscan'') (next_name env s ''.3dscan'' @ ''.base64'') (int (length (v_dec env t))) (tab (ms_db s))"
    using OnUploadModel_file [OF assms(1) U(1)] unfolding U(2) started_simps by metis
  have d: "text_at (copy_fields j model_fields) ''desc'' x = (Throw JsonException, x)" for x :: "'a server"
    using assms(5) by (simp add: text_at_run get_copy_fields)
  have n: "''name'' \<in> set model_fields" by (simp add: model_fields_def)
  have S: "OnUploadModel env (copy_fields j model_fields) (started s) = (Throw JsonException, ?s db')"
    unfolding F(1) by (simp add: upload_model_row_def abind_run text_at_fit [OF assms(4)] n d)
  have H: "HandlePost env path query (Body j) s = aseq (catch_http (OnUploadModel env (copy_fields j model_fields))) reply (started s)"
    unfolding model_fields_def by (rule HandlePost_posts(1) [OF assms(3)]) simp
  show ?thesis unfolding H by (simp add: aseq_run abind_run catch_http_def S F(2))
qed

text \<open>
  C27. The handlers do not check \<open>fopen\<close>: an upload of a known user whose file cannot be created in the model folder makes the server
  write through a null file pointer.
\<close>

theorem unwritable_folder_crashes:
  assumes "env_contract env tab eq" "server_up env tab eq s" "fit_text j ''user'' u" "fit_text j ''pass'' p" "knows eq (tab (ms_db s)) u p"
    and "json_field j ''model'' = JString t" "posts path query ''upload_model''"
    and "\<not> v_writable env (ms_root s @ MODEL_FILE_PATH @ next_name env s ''.3dscan'')"
  shows "fst (HandlePost env path query (Body j) s) = Crash"
proof -
  have k: "''user'' \<in> set model_fields" "''pass'' \<in> set model_fields" "''model'' \<in> set model_fields" by (simp_all add: model_fields_def)
  have up: "server_up env tab eq (started s)" "knows eq (tab (ms_db (started s))) u p" using assms(2,5) by (simp_all add: server_up_def)
  obtain i where L: "login env (copy_fields j model_fields) (started s) = (Ret i, started s)" "i \<noteq> - 1"
    using login_ok [OF assms(1) up assms(3,4) k(1,2)] by metis
  have F: "fst (upload_file env (copy_fields j model_fields) (started s)) = Crash"
    using assms(8) by (simp add: upload_file_def abind_run aseq_run text_at_run text_copied [OF assms(6) k(3)] store_file_def act_basic
      write_file_def next_name_def act)
  have o: "db_open env (started s) = (Ret (), started s)" using up(1) by (simp add: server_up_def db_open_ok)
  have H: "HandlePost env path query (Body j) s = aseq (catch_http (OnUploadModel env (copy_fields j model_fields))) reply (started s)"
    unfolding model_fields_def by (rule HandlePost_posts(1) [OF assms(7)]) simp
  obtain s1 where "upload_file env (copy_fields j model_fields) (started s) = (Crash, s1)" using F by (metis prod.collapse)
  then have "OnUploadModel env (copy_fields j model_fields) (started s) = (Crash, s1)"
    by (simp add: OnUploadModel_def aseq_run abind_run o L)
  then show ?thesis unfolding H by (simp add: aseq_run abind_run catch_http_def)
qed

text \<open>
  C39. With a user name and password that no owner has, plain texts below 256 characters without quotes or backslashes, upload_model and
  upload_ad answer with status 403 and "Invalid username or password!", and neither database nor disk changes. (Texts are put into the
  statement unescaped; of others the contract of the database says nothing.)
\<close>

theorem wrong_password_changes_nothing:
  assumes "env_contract env tab eq" "server_up env tab eq s" "\<not> knows eq (tab (ms_db s)) u p"
    and "fit_text j ''user'' u" "fit_text j ''pass'' p"
    and "posts path query meth" "meth = ''upload_model'' \<or> meth = ''upload_ad'' \<and> fit_text j ''url'' a"
  shows "\<exists>s'. HandlePost env path query (Body j) s = (Ret (err_reply 403 9 ''Invalid username or password!''), s') \<and>
    ms_fs s' = ms_fs s \<and> ms_db s' = ms_db s"
proof -
  have o: "db_open env (started s) = (Ret (), started s)" using assms(2) by (simp add: server_up_def db_open_ok)
  have K: "\<not> knows eq (tab (ms_db (started s))) u p" using assms(3) by simp
  note L = login_refused [OF assms(1) K assms(4,5)]
  let ?e = "set_err ''Invalid username or password!'' 9 403 (started s)"
  show ?thesis
  proof (cases "meth = ''upload_model''")
    case True
    let ?m = "OnUploadModel env (copy_fields j [''model'', ''user'', ''pass'', ''name'', ''desc''])"
    have S: "?m (started s) = ?e"
      by (simp add: OnUploadModel_def aseq_run abind_run o L set_err_run whenever_run act_basic)
    show ?thesis unfolding HandlePost_posts(1) [OF assms(6) True]
      using finish_ret [of ?m "started s", OF S [unfolded set_err_run]] by (simp add: err_reply_def)
  next
    case False
    then have ad: "meth = ''upload_ad''" and a: "fit_text j ''url'' a" using assms(7) by simp_all
    let ?m = "OnUploadAd env (copy_fields j [''ad'', ''user'', ''pass'', ''url''])"
    have S: "?m (started s) = ?e"
      by (simp add: OnUploadAd_def aseq_run abind_run o L text_at_fit [OF a] set_err_run whenever_run act_basic)
    show ?thesis unfolding HandlePost_posts(2) [OF assms(6) ad]
      using finish_ret [of ?m "started s", OF S [unfolded set_err_run]] by (simp add: err_reply_def)
  qed
qed

section \<open>Subscriptions\<close>

lemma code_hash_char: "65 \<le> code (hash_char r) \<and> code (hash_char r) < 123 \<and> is_alnum (hash_char r)"
proof -
  define c where "c = r mod 52"
  have c: "c < 52" by (simp add: c_def)
  have h: "hash_char r = char_of (if c < 26 then c + 65 else c + 71)" by (simp add: hash_char_def Let_def c_def)
  show ?thesis using c by (cases "c < 26") (simp_all add: h code_char_of is_alnum_def Let_def)
qed

definition is_letter :: "char \<Rightarrow> bool" where
  "is_letter c \<longleftrightarrow> 65 \<le> code c \<and> code c \<le> 90 \<or> 97 \<le> code c \<and> code c \<le> 122"

lemma letter_hash_char: "is_letter (hash_char r)"
proof -
  define c where "c = r mod 52"
  have c: "c < 52" by (simp add: c_def)
  have h: "hash_char r = char_of (if c < 26 then c + 65 else c + 71)" by (simp add: hash_char_def Let_def c_def)
  show ?thesis using c by (cases "c < 26") (simp_all add: h code_char_of is_letter_def)
qed

lemma letters_hash_at: "list_all is_letter (hash_at env seed j)"
  using letter_hash_char by (auto simp: list_all_iff hash_at_def)

lemma hash_at_safe: "sql_safe (hash_at env seed j)" "length (hash_at env seed j) = 8" "list_all is_alnum (hash_at env seed j)"
proof -
  show "list_all is_alnum (hash_at env seed j)" using code_hash_char by (auto simp: list_all_iff hash_at_def)
  have "32 \<le> code (hash_char r) \<and> code (hash_char r) < 127 \<and> hash_char r \<noteq> CHR 0x27 \<and> hash_char r \<noteq> CHR 0x5C" for r
  proof -
    have q: "code (CHR 0x27) = 39" "code (CHR 0x5C) = 92" by (simp_all add: code_def)
    have h: "is_alnum (hash_char r)" "65 \<le> code (hash_char r)" "code (hash_char r) < 123" using code_hash_char by blast+
    have "hash_char r \<noteq> CHR 0x27"
    proof
      assume "hash_char r = CHR 0x27"
      then show False using h(2) q(1) by simp
    qed
    moreover have "hash_char r \<noteq> CHR 0x5C"
    proof
      assume "hash_char r = CHR 0x5C"
      then have "is_alnum (CHR 0x5C)" using h(1) by simp
      then show False by (simp add: is_alnum_def Let_def q)
    qed
    ultimately show ?thesis using h(2,3) by simp
  qed
  then show "sql_safe (hash_at env seed j)" by (auto simp: sql_safe_def hash_at_def)
qed (simp add: hash_at_def)

lemma alnum_safe: "list_all is_alnum h \<Longrightarrow> sql_safe h"
proof -
  have q: "code (CHR 0x27) = 39" "code (CHR 0x5C) = 92" by (simp_all add: code_def)
  have "32 \<le> code c \<and> code c < 127 \<and> c \<noteq> CHR 0x27 \<and> c \<noteq> CHR 0x5C" if "is_alnum c" for c
    using that q by (auto simp: is_alnum_def Let_def)
  then show "list_all is_alnum h \<Longrightarrow> sql_safe h" by (auto simp: sql_safe_def list_all_iff)
qed

text \<open>No subscription has the id \<open>h\<close>.\<close>

definition unused :: "(string \<Rightarrow> string \<Rightarrow> bool) \<Rightarrow> tables \<Rightarrow> string \<Rightarrow> bool" where
  "unused eq t h \<longleftrightarrow> (\<forall>x\<in>set (t_subs t). \<not> eq (s_hash x) h)"

lemma pick_hash_step:
  assumes "env_contract env tab eq"
  shows "pick_hash env seed j (Suc n) s =
    (if unused eq (tab (ms_db s)) (hash_at env seed j) then (Ret (hash_at env seed j), s) else pick_hash env seed (Suc j) n s)"
proof -
  let ?h = "hash_at env seed j"
  have "selects reads_subs (sql_query (v_sql env) (ms_db s) (q_subs ?h)) [x \<leftarrow> t_subs (tab (ms_db s)). eq (s_hash x) ?h]"
    by (rule contract_selects(1) [OF assms hash_at_safe(1)])
  then obtain rows where q: "sql_query (v_sql env) (ms_db s) (q_subs ?h) = Some rows"
    and R: "list_all2 reads_subs rows [x \<leftarrow> t_subs (tab (ms_db s)). eq (s_hash x) ?h]"
    by (auto simp: selects_def split: option.splits)
  have "rows = [] \<longleftrightarrow> [x \<leftarrow> t_subs (tab (ms_db s)). eq (s_hash x) ?h] = []" using R by auto
  then have "rows = [] \<longleftrightarrow> unused eq (tab (ms_db s)) ?h" by (simp add: unused_def filter_empty_conv)
  moreover have "run_query env (q_subs ?h) s = (Ret rows, s)" by (rule run_query_some [OF _ q]) (simp add: hash_at_safe)
  ultimately show ?thesis by (simp add: abind_run act_basic)
qed

lemma pick_hash_finds:
  assumes "env_contract env tab eq" "k < n" "unused eq (tab (ms_db s)) (hash_at env seed (j + k))"
  shows "\<exists>h. pick_hash env seed j n s = (Ret h, s) \<and> unused eq (tab (ms_db s)) h \<and> (\<exists>i. h = hash_at env seed i)"
  using assms(2,3)
proof (induction n arbitrary: j k)
  case (Suc n)
  show ?case
  proof (cases "unused eq (tab (ms_db s)) (hash_at env seed j)")
    case False
    then obtain k' where k: "k = Suc k'" using Suc.prems(2) by (cases k) auto
    then have "k' < n" "unused eq (tab (ms_db s)) (hash_at env seed (Suc j + k'))" using Suc.prems by simp_all
    then show ?thesis using Suc.IH False by (simp add: pick_hash_step [OF assms(1)] del: pick_hash.simps)
  qed (auto simp: pick_hash_step [OF assms(1)] simp del: pick_hash.simps)
qed simp

definition subs_fields :: "string list" where
  "subs_fields = [''model_id'', ''ad_id'', ''owner'', ''user'', ''pass'']"

text \<open>A request by a known user for a subscription of a known owner to model \<open>m\<close> with advertisement \<open>a\<close>.\<close>

definition subscribes :: "('db \<Rightarrow> tables) \<Rightarrow> (string \<Rightarrow> string \<Rightarrow> bool) \<Rightarrow> 'db server \<Rightarrow> json \<Rightarrow> string \<Rightarrow> int \<Rightarrow> int \<Rightarrow> bool" where
  "subscribes tab eq s j w m a \<longleftrightarrow> (\<exists>u p. fit_text j ''user'' u \<and> fit_text j ''pass'' p \<and> knows eq (tab (ms_db s)) u p) \<and>
     fit_text j ''owner'' w \<and> (\<exists>x\<in>set (t_owners (tab (ms_db s))). eq (o_user x) w) \<and>
     json_field j ''model_id'' = JNumber m \<and> json_field j ''ad_id'' = JNumber a \<and> m \<in> model_ids (tab (ms_db s))"

text \<open>The state after the advertisement was looked up: without one the answer already says 403.\<close>

definition ad_checked :: "bool \<Rightarrow> 'db server \<Rightarrow> 'db server" where
  "ad_checked b s = (if b then s else s\<lparr>ms_answer := smap_put ''error_code'' (JNumber 9)
     (smap_put ''error_message'' (JString ''Invalid username or password!'') (ms_answer s)), ms_http := 403\<rparr>)"

lemma OnCreateSubscription_insert:
  assumes C: "env_contract env tab eq" "server_up env tab eq s" "subscribes tab eq s j w m a"
    and a: "a \<in> ad_ids (tab (ms_db s)) \<or> a = - 1"
  obtains x where "x \<in> set (t_owners (tab (ms_db s)))" "eq (o_user x) w" "int32 (o_id x)" "int32 m" "int32 a"
    "OnCreateSubscription env (copy_fields j subs_fields) s =
       insert_subs env (o_id x) m a (ad_checked (a \<in> ad_ids (tab (ms_db s))) s)"
proof -
  have S: "fit_text j ''owner'' w" "\<exists>x\<in>set (t_owners (tab (ms_db s))). eq (o_user x) w"
    "json_field j ''model_id'' = JNumber m" "json_field j ''ad_id'' = JNumber a" "m \<in> model_ids (tab (ms_db s))"
    using C(3) by (simp_all add: subscribes_def)
  obtain u p where up: "fit_text j ''user'' u" "fit_text j ''pass'' p" "knows eq (tab (ms_db s)) u p"
    using C(3) by (auto simp: subscribes_def)
  have k: "''user'' \<in> set subs_fields" "''pass'' \<in> set subs_fields" "''owner'' \<in> set subs_fields"
    "''model_id'' \<in> set subs_fields" "''ad_id'' \<in> set subs_fields" by (simp_all add: subs_fields_def)
  have D: "db_ok eq (tab (ms_db s))" using C(2) by (simp add: server_up_def)
  have o: "db_open env s = (Ret (), s)" using C(2) by (simp add: server_up_def db_open_ok)
  obtain i where L: "login env (copy_fields j subs_fields) s = (Ret i, s)" "i \<noteq> - 1"
    using login_ok [OF C(1,2) up(3,1,2) k(1,2)] by metis
  obtain x where W: "find_owner env (copy_fields j subs_fields) s = (Ret (o_id x), s)" "x \<in> set (t_owners (tab (ms_db s)))"
    "eq (o_user x) w" "o_id x \<noteq> - 1" "int32 (o_id x)"
    using find_owner_ok [OF C(1,2) S(2,1) k(3)] by metis
  have m32: "int32 m" using db_ok_int32(2) [OF D S(5)] by simp
  have a32: "int32 a" using db_ok_int32(3) [OF D] a by (auto simp: int32_def)
  have "[y \<leftarrow> t_models (tab (ms_db s)). m_id y = m] \<noteq> []" using S(5) by (auto simp: filter_empty_conv model_ids_def)
  then have M: "row_exists env (q_model_quoted m) s = (Ret True, s)"
    using row_exists_run [OF contract_selects(5) [OF C(1)] length_id_queries(2) [OF m32]] by simp
  have "[y \<leftarrow> t_ads (tab (ms_db s)). a_id y = a] = [] \<longleftrightarrow> a \<notin> ad_ids (tab (ms_db s))"
    by (auto simp: filter_empty_conv ad_ids_def)
  then have A: "row_exists env (q_ad_quoted a) s =
      (Ret (a \<in> ad_ids (tab (ms_db s))), ad_checked (a \<in> ad_ids (tab (ms_db s))) s)"
    using row_exists_run [OF contract_selects(8) [OF C(1)] length_id_queries(5) [OF a32]] by (simp add: ad_checked_def)
  have "OnCreateSubscription env (copy_fields j subs_fields) s =
      insert_subs env (o_id x) m a (ad_checked (a \<in> ad_ids (tab (ms_db s))) s)"
    using a by (simp add: OnCreateSubscription_def aseq_run abind_run o L W(1,4) M A int_at_run int_copied [OF S(3) k(4)]
      int_copied [OF S(4) k(5)] act_basic whenever_run)
  then show thesis using that W m32 a32 by blast
qed

text \<open>One of the ids the seed gives within the fuel is not in use yet.\<close>

definition hash_free :: "'db env \<Rightarrow> ('db \<Rightarrow> tables) \<Rightarrow> (string \<Rightarrow> string \<Rightarrow> bool) \<Rightarrow> 'db server \<Rightarrow> bool" where
  "hash_free env tab eq s \<longleftrightarrow>
     (\<exists>k<v_fuel env. unused eq (tab (ms_db s)) (hash_at env (v_tick env (ms_seeds s)) k))"

lemma hash_picked:
  assumes "env_contract env tab eq" "hash_free env tab eq s"
  obtains h where "pick_hash env (v_tick env (ms_seeds s)) 0 (v_fuel env) (s\<lparr>ms_seeds := Suc (ms_seeds s)\<rparr>) =
      (Ret h, s\<lparr>ms_seeds := Suc (ms_seeds s)\<rparr>)"
    "unused eq (tab (ms_db s)) h" "sql_safe h" "length h = 8" "list_all is_alnum h" "list_all is_letter h"
proof -
  let ?s = "s\<lparr>ms_seeds := Suc (ms_seeds s)\<rparr>"
  obtain k where "k < v_fuel env" "unused eq (tab (ms_db ?s)) (hash_at env (v_tick env (ms_seeds s)) (0 + k))"
    using assms(2) by (auto simp: hash_free_def)
  from pick_hash_finds [OF assms(1) this] obtain h i where
    "pick_hash env (v_tick env (ms_seeds s)) 0 (v_fuel env) ?s = (Ret h, ?s)" "unused eq (tab (ms_db s)) h"
    "h = hash_at env (v_tick env (ms_seeds s)) i"
    by auto
  then show thesis using hash_at_safe [of env "v_tick env (ms_seeds s)" i] letters_hash_at by (intro that) simp_all
qed

text \<open>A subscription request run to its end.\<close>

lemma create_subscription_run_ok:
  assumes "env_contract env tab eq" "server_up env tab eq s" "subscribes tab eq s j w m a" "posts path query ''create_subs''"
    and "a \<in> ad_ids (tab (ms_db s))" "int_key (t_nsubs (tab (ms_db s)))" "hash_free env tab eq s"
  shows "\<exists>s' x h. HandlePost env path query (Body j) s = (Ret (ok_reply ''subscription_id'' (JString h)), s') \<and>
    x \<in> set (t_owners (tab (ms_db s))) \<and> eq (o_user x) w \<and> unused eq (tab (ms_db s)) h \<and> list_all is_alnum h \<and> list_all is_letter h \<and> length h = 8 \<and>
    tab (ms_db s') = add_subs (o_id x) m a h (tab (ms_db s)) \<and> server_up env tab eq s' \<and> ms_fs s' = ms_fs s \<and> ms_root s' = ms_root s"
proof -
  have up: "server_up env tab eq (started s)" "subscribes tab eq (started s) j w m a" "hash_free env tab eq (started s)"
    using assms(2,3,7) by (simp_all add: subscribes_def hash_free_def)
  have D: "ms_driver s" "db_ok eq (tab (ms_db s))" "sql_connect (v_sql env) (ms_db s) = Connected" "m \<in> model_ids (tab (ms_db s))"
    using assms(2,3) by (simp_all add: server_up_def subscribes_def)
  have A: "a \<in> ad_ids (tab (ms_db (started s))) \<or> a = - 1" using assms(5) by simp
  obtain x where x': "x \<in> set (t_owners (tab (ms_db (started s))))" "eq (o_user x) w" "int32 (o_id x)" "int32 m" "int32 a"
    and O': "OnCreateSubscription env (copy_fields j subs_fields) (started s) =
      insert_subs env (o_id x) m a (ad_checked (a \<in> ad_ids (tab (ms_db (started s)))) (started s))"
    by (rule OnCreateSubscription_insert [OF assms(1) up(1,2) A])
  have x: "x \<in> set (t_owners (tab (ms_db s)))" "eq (o_user x) w" "int32 (o_id x)" "int32 m" "int32 a" using x' by simp_all
  have O: "OnCreateSubscription env (copy_fields j subs_fields) (started s) = insert_subs env (o_id x) m a (started s)"
    using O' assms(5) by (simp add: ad_checked_def)
  obtain h where h: "pick_hash env (v_tick env (ms_seeds s)) 0 (v_fuel env) (started s\<lparr>ms_seeds := Suc (ms_seeds s)\<rparr>) =
      (Ret h, started s\<lparr>ms_seeds := Suc (ms_seeds s)\<rparr>)" "unused eq (tab (ms_db s)) h" "sql_safe h" "length h = 8" "list_all is_alnum h" "list_all is_letter h"
    using hash_picked [OF assms(1) up(3)] by auto
  let ?s = "started s\<lparr>ms_seeds := Suc (ms_seeds s)\<rparr>"
  have l: "length (i_subs (o_id x) m a h) < 5000" using length_inserts(4) [OF x(3-5)] h(4) by simp
  have refs: "subs_refs (tab (ms_db s)) (o_id x) m a" using x(1) D(4) assms(5) by (simp add: subs_refs_def owner_ids_def)
  have fresh: "\<forall>y\<in>set (t_subs (tab (ms_db s))). \<not> eq (s_hash y) h" using h(2) by (simp add: unused_def)
  have I: "inserts (v_sql env) tab (ms_db ?s) (i_subs (o_id x) m a h) (t_nsubs (tab (ms_db s))) (add_subs (o_id x) m a h)"
    using contract_inserts(4) [OF assms(1) h(3) _ refs assms(6) fresh] h(4) by simp
  obtain db' where u: "run_update env (i_subs (o_id x) m a h) ?s = (Ret 1, ?s\<lparr>ms_db := db'\<rparr>)"
    "tab db' = add_subs (o_id x) m a h (tab (ms_db ?s))"
    "selects reads_id (sql_query (v_sql env) db' q_last) [t_nsubs (tab (ms_db s))]"
    "sql_connect (v_sql env) db' = sql_connect (v_sql env) (ms_db ?s)"
    by (rule run_update_inserts [OF l I])
  have q: "select_int env q_last ''id'' ''Model id not found!'' MS_ERROR_MODEL_NOT_FOUND 404 (?s\<lparr>ms_db := db'\<rparr>) =
      (Ret (t_nsubs (tab (ms_db s))), ?s\<lparr>ms_db := db'\<rparr>)"
    using last_id_run [of env "?s\<lparr>ms_db := db'\<rparr>"] u(3) by simp
  have "t_nsubs (tab (ms_db s)) \<noteq> - 1" using assms(6) by (simp add: int_key_def)
  then have S: "OnCreateSubscription env (copy_fields j subs_fields) (started s) =
      set_ok ''subscription_id'' (JString h) (?s\<lparr>ms_db := db'\<rparr>)"
    unfolding O using u(1) q h(1) by (simp add: insert_subs_def abind_run aseq_run act_basic whenever_run)
  have H: "HandlePost env path query (Body j) s = aseq (catch_http (OnCreateSubscription env (copy_fields j subs_fields))) reply (started s)"
    unfolding subs_fields_def by (rule HandlePost_posts(3) [OF assms(4)]) simp
  have ok: "db_ok eq (tab db')" using u(2) db_ok_add_subs [OF D(2) assms(6) refs fresh] by simp
  let ?t = "?s\<lparr>ms_db := db', ms_answer := smap_put ''subscription_id'' (JString h) (smap_put ''error_code'' (JNumber 0)
     (smap_put ''error_message'' (JString ''Success'') (ms_answer (?s\<lparr>ms_db := db'\<rparr>)))), ms_http := 200\<rparr>"
  have R: "HandlePost env path query (Body j) s = (Ret (ok_reply ''subscription_id'' (JString h)), ?t)"
    unfolding H using finish_ret [of "OnCreateSubscription env (copy_fields j subs_fields)" "started s", OF S [unfolded set_ok_run]]
    by (simp add: ok_reply_def)
  show ?thesis
    by (intro exI [of _ ?t] exI [of _ x] exI [of _ h]) (use R x(1,2) h(2-6) u(2,4) ok D(1,3) in \<open>simp add: server_up_def\<close>)
qed

text \<open>
  C34. A known user's request for a subscription of a known owner to an existing model and an existing advertisement, when the generator of ids
  meets a free one within the fuel, is answered with an id of eight letters that no subscription had, in the field \<open>subscription_id\<close>, and under that id the database has the
  new row; the disk does not change and the schema still holds.
\<close>

theorem create_subscription_adds_row:
  assumes "env_contract env tab eq" "server_up env tab eq s" "subscribes tab eq s j w m a" "posts path query ''create_subs''"
    and "a \<in> ad_ids (tab (ms_db s))" "int_key (t_nsubs (tab (ms_db s)))" "hash_free env tab eq s"
  shows "\<exists>s' x h. HandlePost env path query (Body j) s = (Ret (ok_reply ''subscription_id'' (JString h)), s') \<and>
    x \<in> set (t_owners (tab (ms_db s))) \<and> eq (o_user x) w \<and> unused eq (tab (ms_db s)) h \<and> list_all is_alnum h \<and> list_all is_letter h \<and> length h = 8 \<and>
    tab (ms_db s') = add_subs (o_id x) m a h (tab (ms_db s)) \<and> server_up env tab eq s' \<and> ms_fs s' = ms_fs s \<and> ms_root s' = ms_root s"
  by (rule create_subscription_run_ok [OF assms])

text \<open>
  The advertisement id -1 ("none") passes the check of the handler and is then refused by the foreign key of
  the table: an SQL exception leaves the handler, and no row is added.
\<close>

theorem subscription_without_ad_fails:
  assumes "env_contract env tab eq" "server_up env tab eq s" "subscribes tab eq s j w m (- 1)" "posts path query ''create_subs''"
    and "hash_free env tab eq s"
  shows "\<exists>s'. HandlePost env path query (Body j) s = (Throw SqlException, s') \<and>
    same_rows (tab (ms_db s)) (tab (ms_db s')) \<and> ms_fs s' = ms_fs s"
proof -
  have D: "db_ok eq (tab (ms_db s))" using assms(2) by (simp add: server_up_def)
  have na: "- 1 \<notin> ad_ids (tab (ms_db s))" using db_ok_int32(3) [OF D] by blast
  let ?c = "ad_checked False (started s)"
  have up: "server_up env tab eq (started s)" "subscribes tab eq (started s) j w m (- 1)" "hash_free env tab eq ?c"
    using assms(2,3,5) by (simp_all add: subscribes_def hash_free_def ad_checked_def)
  have A: "- 1 \<in> ad_ids (tab (ms_db (started s))) \<or> - 1 = (- 1 :: int)" by simp
  obtain x :: owner_row where x: "int32 (o_id x)" "int32 m" "int32 (- 1)"
    and O': "OnCreateSubscription env (copy_fields j subs_fields) (started s) =
      insert_subs env (o_id x) m (- 1) (ad_checked (- 1 \<in> ad_ids (tab (ms_db (started s)))) (started s))"
    by (rule OnCreateSubscription_insert [OF assms(1) up(1,2) A])
  have O: "OnCreateSubscription env (copy_fields j subs_fields) (started s) = insert_subs env (o_id x) m (- 1) ?c"
    using O' na by simp
  let ?s = "?c\<lparr>ms_seeds := Suc (ms_seeds ?c)\<rparr>"
  obtain h where h: "pick_hash env (v_tick env (ms_seeds ?c)) 0 (v_fuel env) ?s = (Ret h, ?s)" "sql_safe h" "length h = 8"
    using hash_picked [OF assms(1) up(3)] by auto
  have l: "length (i_subs (o_id x) m (- 1) h) < 5000" using length_inserts(4) [OF x] h(3) by simp
  have c: "ms_db ?s = ms_db s" "ms_fs ?s = ms_fs s" by (simp_all add: ad_checked_def)
  have f: "fails (v_sql env) tab (ms_db ?s) (i_subs (o_id x) m (- 1) h)"
    using contract_inserts(5) [OF assms(1) h(2)] na by (simp add: subs_refs_def c)
  obtain db' where u: "run_update env (i_subs (o_id x) m (- 1) h) ?s = (Throw SqlException, ?s\<lparr>ms_db := db'\<rparr>)"
    "same_rows (tab (ms_db ?s)) (tab db')"
    by (rule run_update_fails [OF l f])
  have S: "OnCreateSubscription env (copy_fields j subs_fields) (started s) = (Throw SqlException, ?s\<lparr>ms_db := db'\<rparr>)"
    unfolding O using u(1) h(1) by (simp add: insert_subs_def abind_run aseq_run act_basic)
  have H: "HandlePost env path query (Body j) s = aseq (catch_http (OnCreateSubscription env (copy_fields j subs_fields))) reply (started s)"
    unfolding subs_fields_def by (rule HandlePost_posts(3) [OF assms(4)]) simp
  show ?thesis unfolding H using u(2) c by (simp add: aseq_run abind_run catch_http_def S)
qed

section \<open>From upload to download\<close>

text \<open>Upload and subscription in a row: the rows they leave and the file.\<close>

lemma publish_up_ok:
  assumes "env_contract env tab eq" "uploadable env tab eq s j u p (v_enc env d)" "posts path query ''upload_model''"
    and "fit_text j ''name'' n" "length n \<le> 32" "fit_text j ''desc'' de" "int_key (t_nmodel (tab (ms_db s)))"
    and "fpath = ms_root s @ MODEL_FILE_PATH @ next_name env s ''.3dscan''" "ms_fs s (fpath @ ''.base64'') = None"
    and "fit_text j2 ''user'' u2" "fit_text j2 ''pass'' p2" "knows eq (tab (ms_db s)) u2 p2"
      "fit_text j2 ''owner'' w" "\<exists>x\<in>set (t_owners (tab (ms_db s))). eq (o_user x) w"
      "json_field j2 ''model_id'' = JNumber (t_nmodel (tab (ms_db s)))" "json_field j2 ''ad_id'' = JNumber a" "hash_free env tab eq s"
    and "posts path2 query2 ''create_subs''" "a \<in> ad_ids (tab (ms_db s))" "int_key (t_nsubs (tab (ms_db s)))"
  shows "\<exists>s1 s2 x m fl.
    HandlePost env path query (Body j) s = (Ret (ok_reply ''model_id'' (JNumber (t_nmodel (tab (ms_db s))))), s1) \<and>
    HandlePost env path2 query2 (Body j2) s1 = (Ret (ok_reply ''subscription_id'' (JString (s_hash x))), s2) \<and>
    length (s_hash x) = 8 \<and> list_all is_alnum (s_hash x) \<and> s_ad x = a \<and> server_up env tab eq s2 \<and> published (tab (ms_db s2)) x m fl \<and>
    fpath = ms_root s2 @ MODEL_FILE_PATH @ f_path fl \<and> ms_fs s2 = (ms_fs s)(fpath \<mapsto> d) \<and>
    t_ads (tab (ms_db s2)) = t_ads (tab (ms_db s)) \<and> ms_root s2 = ms_root s"
proof -
  let ?T = "tab (ms_db s)" and ?n = "next_name env s ''.3dscan''"
  have b64: "v_dec env (v_enc env d) = d" using assms(1) by (simp add: env_contract_def)
  obtain s1 where s1: "HandlePost env path query (Body j) s = (Ret (ok_reply ''model_id'' (JNumber (t_nmodel ?T))), s1)"
    "tab (ms_db s1) = add_model (t_nfile ?T) (t_nfile ?T) n de (add_file ?n (?n @ ''.base64'') (int (length d)) ?T)"
    "ms_fs s1 = (ms_fs s)(fpath \<mapsto> d)" "server_up env tab eq s1" "ms_root s1 = ms_root s" "ms_seeds s1 = ms_seeds s"
    using upload_model_run_ok [OF assms(1-7)] unfolding b64 assms(8) by metis
  have T: "t_owners (tab (ms_db s1)) = t_owners ?T" "t_subs (tab (ms_db s1)) = t_subs ?T" "t_nsubs (tab (ms_db s1)) = t_nsubs ?T"
    "t_ads (tab (ms_db s1)) = t_ads ?T"
    by (simp_all add: s1(2) add_model_def add_file_def)
  have m: "t_nmodel ?T \<in> model_ids (tab (ms_db s1))"
    by (simp add: s1(2)) (simp add: add_file_def)
  have J: "subscribes tab eq s1 j2 w (t_nmodel ?T) a"
    unfolding subscribes_def using assms(10-16) m by (auto simp: knows_def T)
  have F1: "hash_free env tab eq s1" using assms(17) by (simp add: hash_free_def unused_def T s1(6))
  have a1: "a \<in> ad_ids (tab (ms_db s1))" "int_key (t_nsubs (tab (ms_db s1)))"
    using assms(19,20) by (simp_all add: s1(2)) (simp add: add_model_def add_file_def)
  obtain s2 and x :: owner_row and h where s2: "HandlePost env path2 query2 (Body j2) s1 = (Ret (ok_reply ''subscription_id'' (JString h)), s2)"
    "list_all is_alnum h" "length h = 8" "tab (ms_db s2) = add_subs (o_id x) (t_nmodel ?T) a h (tab (ms_db s1))"
    "server_up env tab eq s2" "ms_fs s2 = ms_fs s1" "ms_root s2 = ms_root s1"
    using create_subscription_run_ok [OF assms(1) s1(4) J assms(18) a1 F1] by blast
  let ?x = "\<lparr>s_id = t_nsubs (tab (ms_db s1)), s_owner = o_id x, s_model = t_nmodel ?T, s_ad = a, s_hash = h, s_status = - 1\<rparr>"
  let ?m = "\<lparr>m_id = t_nmodel ?T, m_pc = t_nfile ?T, m_mobile = t_nfile ?T, m_name = n, m_desc = de\<rparr>"
  let ?f = "\<lparr>f_id = t_nfile ?T, f_path = ?n, f_base64 = ?n @ ''.base64'', f_size = int (length d)\<rparr>"
  have P: "published (tab (ms_db s2)) ?x ?m ?f"
    using alnum_safe [OF s2(2)] s2(3) next_name_ok(1) [OF assms(1), of "''.3dscan''" s]
    by (simp add: published_def s2(4) s1(2) add_subs_def add_model_def add_file_def)
  have ads: "t_ads (tab (ms_db s2)) = t_ads ?T" by (simp add: s2(4) add_subs_def T(4))
  show ?thesis
    by (intro exI [of _ s1] exI [of _ s2] exI [of _ ?x] exI [of _ ?m] exI [of _ ?f]) (use s1 s2 P ads assms(8) in simp)
qed

text \<open>With the download after them.\<close>

lemma publish_run_ok:
  assumes "env_contract env tab eq" "uploadable env tab eq s j u p (v_enc env d)" "posts path query ''upload_model''"
    and "fit_text j ''name'' n" "length n \<le> 32" "fit_text j ''desc'' de" "int_key (t_nmodel (tab (ms_db s)))"
    and "fpath = ms_root s @ MODEL_FILE_PATH @ next_name env s ''.3dscan''" "ms_fs s (fpath @ ''.base64'') = None"
      "v_writable env (fpath @ ''.base64'')"
    and "fit_text j2 ''user'' u2" "fit_text j2 ''pass'' p2" "knows eq (tab (ms_db s)) u2 p2"
      "fit_text j2 ''owner'' w" "\<exists>x\<in>set (t_owners (tab (ms_db s))). eq (o_user x) w"
      "json_field j2 ''model_id'' = JNumber (t_nmodel (tab (ms_db s)))" "json_field j2 ''ad_id'' = JNumber a" "hash_free env tab eq s"
    and "posts path2 query2 ''create_subs''" "a \<in> ad_ids (tab (ms_db s))" "int_key (t_nsubs (tab (ms_db s)))"
    and "\<And>h. length h = 8 \<Longrightarrow> list_all is_alnum h \<Longrightarrow> asks path3 (query3 h) ''get'' h"
  shows "\<exists>s1 s2 s3 h.
    HandlePost env path query (Body j) s = (Ret (ok_reply ''model_id'' (JNumber (t_nmodel (tab (ms_db s))))), s1) \<and>
    HandlePost env path2 query2 (Body j2) s1 = (Ret (ok_reply ''subscription_id'' (JString h)), s2) \<and>
    HandleGet env path3 (query3 h) s2 = (Ret (ok_reply ''model'' (JString (v_enc env d))), s3) \<and>
    length h = 8 \<and> list_all is_alnum h"
proof -
  from publish_up_ok [OF assms(1-9) assms(11-21)] obtain s1 s2 x m fl where
    1: "HandlePost env path query (Body j) s = (Ret (ok_reply ''model_id'' (JNumber (t_nmodel (tab (ms_db s))))), s1)"
      "HandlePost env path2 query2 (Body j2) s1 = (Ret (ok_reply ''subscription_id'' (JString (s_hash x))), s2)" and
    2: "length (s_hash x) = 8" "list_all is_alnum (s_hash x)" "server_up env tab eq s2" "published (tab (ms_db s2)) x m fl"
      "fpath = ms_root s2 @ MODEL_FILE_PATH @ f_path fl" "ms_fs s2 = (ms_fs s)(fpath \<mapsto> d)"
    by (elim exE conjE) (rule that)
  have F: "ms_fs s2 fpath = Some d" "ms_fs s2 (fpath @ ''.base64'') = None" using assms(9) by (simp_all add: 2(6))
  from get_model_run_ok [OF assms(1) 2(3,4) assms(22) [OF 2(1,2)] 2(5) F assms(10)] show ?thesis using 1 2(1,2) by blast
qed

text \<open>
  C28. What a user uploads is what a subscriber gets: after upload_model with the base64 text of \<open>d\<close> and
  create_subs for the model id in its answer, a get request with the subscription id in that answer returns
  the base64 text of \<open>d\<close>.
\<close>

theorem published_model_is_served:
  assumes "env_contract env tab eq" "uploadable env tab eq s j u p (v_enc env d)" "posts path query ''upload_model''"
    and "fit_text j ''name'' n" "length n \<le> 32" "fit_text j ''desc'' de" "int_key (t_nmodel (tab (ms_db s)))"
    and "fpath = ms_root s @ MODEL_FILE_PATH @ next_name env s ''.3dscan''" "ms_fs s (fpath @ ''.base64'') = None"
      "v_writable env (fpath @ ''.base64'')"
    and "fit_text j2 ''user'' u2" "fit_text j2 ''pass'' p2" "knows eq (tab (ms_db s)) u2 p2"
      "fit_text j2 ''owner'' w" "\<exists>x\<in>set (t_owners (tab (ms_db s))). eq (o_user x) w"
      "json_field j2 ''model_id'' = JNumber (t_nmodel (tab (ms_db s)))" "json_field j2 ''ad_id'' = JNumber a" "hash_free env tab eq s"
    and "posts path2 query2 ''create_subs''" "a \<in> ad_ids (tab (ms_db s))" "int_key (t_nsubs (tab (ms_db s)))"
    and "\<And>h. length h = 8 \<Longrightarrow> list_all is_alnum h \<Longrightarrow> asks path3 (query3 h) ''get'' h"
  shows "\<exists>s1 s2 s3 h.
    HandlePost env path query (Body j) s = (Ret (ok_reply ''model_id'' (JNumber (t_nmodel (tab (ms_db s))))), s1) \<and>
    HandlePost env path2 query2 (Body j2) s1 = (Ret (ok_reply ''subscription_id'' (JString h)), s2) \<and>
    HandleGet env path3 (query3 h) s2 = (Ret (ok_reply ''model'' (JString (v_enc env d))), s3)"
  using publish_run_ok [OF assms] by blast

end
