(* ===== verification/Publish.thy ===== *)
theory Publish
  imports WebClient ServerPost
begin

text \<open>
  Client and server together: what the client's calls return when the server answers them, and what they do
  when no answer arrives.
\<close>

section \<open>Client steps\<close>

text \<open>
  The transport hands path, query and body of a request to the server's handler, and its reply back to the
  client. Nothing is said of requests on which the handler does not return.
\<close>

definition delivers :: "'db server cenv \<Rightarrow> 'db env \<Rightarrow> bool" where
  "delivers k env \<longleftrightarrow> (\<forall>s rq h m s'.
     (if rq_post rq then HandlePost env (u_path (rq_uri rq)) (u_query (rq_uri rq)) (Body (rq_body rq)) s
      else HandleGet env (u_path (rq_uri rq)) (u_query (rq_uri rq)) s) = (Ret (h, m), s') \<longrightarrow>
     k_send k s rq = (Reply h (Body (JObject m)), s'))"

lemma answer_ok: "answer_field key (fst (ok_reply key v), JObject (snd (ok_reply key v)))"
  by (simp add: answer_field_def ok_reply_def has_field_def smap_get_def smap_put_get)

lemma field_ok: "json_field (JObject (snd (ok_reply key v))) key = v"
  by (simp add: json_field_def ok_reply_def smap_get_def smap_put_get)

lemma finish_request_ok:
  assumes "delivers k env"
    and "(if rq_post rq then HandlePost env (u_path (rq_uri rq)) (u_query (rq_uri rq)) (Body (rq_body rq)) s
      else HandleGet env (u_path (rq_uri rq)) (u_query (rq_uri rq)) s) = (Ret (ok_reply key v), s')"
  shows "finish_request k rq s = (Ret (fst (ok_reply key v), JObject (snd (ok_reply key v))), s')"
proof -
  have "k_send k s rq = (Reply (fst (ok_reply key v)) (Body (JObject (snd (ok_reply key v)))), s')"
    using assms unfolding delivers_def by (metis prod.collapse)
  then show ?thesis by (simp add: finish_request_def abind_run act_basic ok_reply_def)
qed

text \<open>The URI a GET, and a POST of the client with id \<open>cid\<close>, is sent to.\<close>

definition sent_uri :: "uri \<Rightarrow> uri" where
  "sent_uri u = append_uri u u"

definition sent_post_uri :: "string \<Rightarrow> uri \<Rightarrow> uri" where
  "sent_post_uri cid u = sent_uri (append_query ''client'' cid u)"

lemma post_for_ok:
  assumes "delivers k env" "k_parse k url = Some u"
    and "HandlePost env (u_path (sent_post_uri cid u)) (u_query (sent_post_uri cid u)) (Body send) s = (Ret (ok_reply key v), s')"
  shows "post_for k url cid send key s = (Ret (Some v), s')"
  using finish_request_ok [OF assms(1), of "\<lparr>rq_post = True, rq_uri = sent_post_uri cid u, rq_body = send\<rparr>" s key v s'] assms(2,3)
    answer_ok [of key v]
  by (simp add: post_for_def parse_uri_def make_request_post_def sent_post_uri_def sent_uri_def abind_run act_basic field_ok)

lemma client_id_run: "length cid < 1000 \<Longrightarrow> client_id1000 cid s = (Ret cid, s)"
  by (simp add: client_id1000_def act_basic)

lemma UploadModel_ok:
  assumes "delivers k env" "k_parse k url = Some u" "length cid < 1000"
    and "HandlePost env (u_path (sent_post_uri cid u)) (u_query (sent_post_uri cid u))
      (Body (model_json (k_enc k d) user pass name desc)) s = (Ret (ok_reply ''model_id'' (JNumber i)), s')"
  shows "UploadModel k (Some url) (Some cid) (Some user) (Some pass) (Some d) (Some name) (Some desc) True s =
    (Ret (Got (Some i)), s')"
  using post_for_ok [OF assms(1,2,4)] assms(3)
  by (simp add: UploadModel_def abind_run client_id_run as_integer_def act_basic)

lemma CreateSubscription_ok:
  assumes "delivers k env" "k_parse k url = Some u" "length cid < 1000" "CHR 0x00 \<notin> set h" "length h < 1000" "length h < cap"
    and "HandlePost env (u_path (sent_post_uri cid u)) (u_query (sent_post_uri cid u))
      (Body (subs_json user pass owner m a)) s = (Ret (ok_reply ''subscription_id'' (JString h)), s')"
  shows "CreateSubscription k (Some url) (Some cid) (Some user) (Some pass) (Some owner) m a (Some cap) s = (Ret (Got h), s')"
  using post_for_ok [OF assms(1,2,7)] assms(3-6)
  by (simp add: CreateSubscription_def abind_run client_id_run as_string_def act_basic Let_def)

lemma GetModel_ok:
  assumes "delivers k env" "k_parse k url = Some u" "length cid < 1000"
    and "HandleGet env (u_path (sent_uri u)) (u_query (sent_uri u)) s = (Ret (ok_reply ''model'' (JString t)), s')"
  shows "GetModel k (Some url) (Some cid) True s = (Ret (Got (k_dec k t)), s')"
  using finish_request_ok [OF assms(1), of "\<lparr>rq_post = False, rq_uri = sent_uri u, rq_body = JNull\<rparr>" s "''model''" "JString t" s']
    assms(2-4) answer_ok [of "''model''" "JString t"]
  by (simp add: GetModel_def abind_run client_id_run act_basic parse_uri_def make_request_get_def sent_uri_def decode_field_def
      as_string_def field_ok)

section \<open>The URL of a model\<close>

definition model_uri :: "string \<Rightarrow> string \<Rightarrow> uri" where
  "model_uri b h = \<lparr>u_base = b, u_path = ''/3dscan/get'', u_query = ''magic=tfzfepg&subsid='' @ h, u_fragment = []\<rparr>"

text \<open>The transport appends the URL to itself; the server still reads the same method and values from it.\<close>

lemma asks_sent_uri:
  assumes "list_all is_alnum h" "h \<noteq> []"
  shows "asks (u_path (sent_uri (model_uri b h))) (u_query (sent_uri (model_uri b h))) ''get'' h"
proof -
  let ?q = "''magic=tfzfepg&subsid='' @ h @ ''&magic=tfzfepg&subsid='' @ h"
  have h: "\<forall>c\<in>set h. c \<notin> {CHR ''%'', CHR ''&'', CHR '';'', CHR ''=''} \<and> \<not> 127 < code c"
    using assms(1) alnum_plain by (auto simp: list_all_iff)
  have "last h \<in> set h" using assms(2) by simp
  then have l: "last h \<noteq> CHR ''&''" using h by auto
  have u: "u_path (sent_uri (model_uri b h)) = ''/3dscan/get/3dscan/get''" "u_query (sent_uri (model_uri b h)) = ?q"
    using assms(2) l by (simp_all add: sent_uri_def model_uri_def append_uri_def append_path_def append_query_text_def Let_def)
  have d: "decode ?q = Some ?q" by (rule decode_plain) (use h in \<open>auto simp: code_def\<close>)
  have p: "decode ''/3dscan/get/3dscan/get'' = Some ''/3dscan/get/3dscan/get''" by (simp add: code_def)
  have s: "split_path ''/3dscan/get/3dscan/get'' = [''3dscan'', ''get'', ''3dscan'', ''get'']" by (simp add: split_path_def)
  let ?kvs = "[(''magic'', ''tfzfepg''), (''subsid'', h), (''magic'', ''tfzfepg''), (''subsid'', h)]"
  have "query_safe h" using h by (auto simp: query_safe_def)
  then have "query_loop (render_query ?kvs) [] = fold (\<lambda>(k, v). smap_put k v) ?kvs []"
    by (intro query_loop_render) (auto simp: query_safe_def)
  then have q: "split_query ?q = [(''magic'', ''tfzfepg''), (''subsid'', h)]"
    by (simp add: split_query_def)
  show ?thesis unfolding asks_def u d p s prod.case option.case q by (simp add: smap_get_def MODEL_API_MAGIC_def)
qed

lemma json_fields:
  "json_field (model_json data user pass name desc) ''model'' = JString (c_text data)"
  "json_field (model_json data user pass name desc) ''user'' = JString user"
  "json_field (model_json data user pass name desc) ''pass'' = JString pass"
  "json_field (model_json data user pass name desc) ''name'' = JString name"
  "json_field (model_json data user pass name desc) ''desc'' = JString desc"
  "json_field (subs_json user pass w m a) ''user'' = JString user"
  "json_field (subs_json user pass w m a) ''pass'' = JString pass"
  "json_field (subs_json user pass w m a) ''owner'' = JString w"
  "json_field (subs_json user pass w m a) ''model_id'' = JNumber m"
  "json_field (subs_json user pass w m a) ''ad_id'' = JNumber a"
  by (simp_all add: json_field_def model_json_def subs_json_def put_text_def smap_get_def smap_put_get)

lemma sent_model_path: "h \<noteq> [] \<Longrightarrow> u_path (sent_uri (model_uri b h)) = ''/3dscan/get/3dscan/get''"
  by (simp add: sent_uri_def model_uri_def append_uri_def append_path_def append_query_text_def Let_def)

lemma alnum_no_nul: "list_all is_alnum h \<Longrightarrow> CHR 0x00 \<notin> set h"
  by (induction h) (auto simp: is_alnum_def Let_def code_def)

lemma client_id_irrelevant:
  assumes "length c \<noteq> 1000" "length c' \<noteq> 1000"
  shows "abind (client_id1000 c) (\<lambda>_. m) = abind (client_id1000 c') (\<lambda>_. m)"
  using assms by (simp add: fun_eq_iff client_id1000_def abind_run act_basic)

section \<open>Properties\<close>

text \<open>
  C29. The three calls of the client compose: UploadModel returns the id the server gave the model,
  CreateSubscription with that id returns a subscription id, and GetModel on the URL with that id returns the
  bytes that were uploaded, although the URL reaches the server with path and query doubled.
\<close>

theorem client_gets_what_was_uploaded:
  assumes "env_contract env tab eq" "delivers k env" "k_enc k = v_enc env" "k_dec k = v_dec env" "length cid < 1000" "8 < cap"
    and "uploadable env tab eq s (model_json (v_enc env d) user pass n de) user pass (v_enc env d)"
    and "k_parse k url1 = Some u1" "posts (u_path (sent_post_uri cid u1)) (u_query (sent_post_uri cid u1)) ''upload_model''"
    and "sql_safe n" "length n \<le> 32" "sql_safe de" "length de < 256" "int_key (t_nmodel (tab (ms_db s)))"
    and "fpath = ms_root s @ MODEL_FILE_PATH @ next_name env s ''.3dscan''" "ms_fs s (fpath @ ''.base64'') = None"
      "v_writable env (fpath @ ''.base64'')"
    and "k_parse k url2 = Some u2" "posts (u_path (sent_post_uri cid u2)) (u_query (sent_post_uri cid u2)) ''create_subs''"
    and "sql_safe w" "length w < 256" "\<exists>x\<in>set (t_owners (tab (ms_db s))). eq (o_user x) w"
    and "a \<in> ad_ids (tab (ms_db s))" "int_key (t_nsubs (tab (ms_db s)))" "hash_free env tab eq s"
    and "\<And>h. k_parse k (url3 h) = Some (model_uri b h)"
  shows "\<exists>s1 s2 s3 h.
    UploadModel k (Some url1) (Some cid) (Some user) (Some pass) (Some d) (Some n) (Some de) True s =
      (Ret (Got (Some (t_nmodel (tab (ms_db s))))), s1) \<and>
    CreateSubscription k (Some url2) (Some cid) (Some user) (Some pass) (Some w) (t_nmodel (tab (ms_db s))) a (Some cap) s1 =
      (Ret (Got h), s2) \<and>
    GetModel k (Some (url3 h)) (Some cid) True s2 = (Ret (Got d), s3)"
proof -
  let ?i = "t_nmodel (tab (ms_db s))"
  have U: "fit_text (model_json (v_enc env d) user pass n de) ''user'' user" "fit_text (model_json (v_enc env d) user pass n de) ''pass'' pass"
    "knows eq (tab (ms_db s)) user pass"
    using assms(7) by (simp_all add: uploadable_def)
  have f: "fit_text (model_json (v_enc env d) user pass n de) ''name'' n" "fit_text (model_json (v_enc env d) user pass n de) ''desc'' de"
    "fit_text (subs_json user pass w ?i a) ''user'' user" "fit_text (subs_json user pass w ?i a) ''pass'' pass"
    "fit_text (subs_json user pass w ?i a) ''owner'' w"
    using assms(10-13,20,21) U(1,2) by (simp_all add: fit_text_def json_fields)
  have q: "asks ''/3dscan/get/3dscan/get'' (u_query (sent_uri (model_uri b h))) ''get'' h" if "length h = 8" "list_all is_alnum h" for h
    using asks_sent_uri [OF that(2), of b] sent_model_path [of h b] that(1) by (cases h) simp_all
  have "\<exists>s1 s2 s3 h.
    HandlePost env (u_path (sent_post_uri cid u1)) (u_query (sent_post_uri cid u1)) (Body (model_json (v_enc env d) user pass n de)) s =
      (Ret (ok_reply ''model_id'' (JNumber ?i)), s1) \<and>
    HandlePost env (u_path (sent_post_uri cid u2)) (u_query (sent_post_uri cid u2)) (Body (subs_json user pass w ?i a)) s1 =
      (Ret (ok_reply ''subscription_id'' (JString h)), s2) \<and>
    HandleGet env ''/3dscan/get/3dscan/get'' (u_query (sent_uri (model_uri b h))) s2 = (Ret (ok_reply ''model'' (JString (v_enc env d))), s3) \<and>
    length h = 8 \<and> list_all is_alnum h"
    by (rule publish_run_ok [OF assms(1,7,9) f(1) assms(11) f(2) assms(14-17) f(3,4) U(3) f(5) assms(22) json_fields(9,10) assms(25,19,23,24)])
      (rule q)
  then obtain s1 s2 s3 h where R:
    "HandlePost env (u_path (sent_post_uri cid u1)) (u_query (sent_post_uri cid u1)) (Body (model_json (v_enc env d) user pass n de)) s =
      (Ret (ok_reply ''model_id'' (JNumber ?i)), s1)"
    "HandlePost env (u_path (sent_post_uri cid u2)) (u_query (sent_post_uri cid u2)) (Body (subs_json user pass w ?i a)) s1 =
      (Ret (ok_reply ''subscription_id'' (JString h)), s2)"
    "HandleGet env ''/3dscan/get/3dscan/get'' (u_query (sent_uri (model_uri b h))) s2 = (Ret (ok_reply ''model'' (JString (v_enc env d))), s3)"
    "length h = 8" "list_all is_alnum h"
    by (elim exE conjE) (rule that)
  have h: "h \<noteq> []" "CHR 0x00 \<notin> set h" "length h < 1000" "length h < cap"
    using R(4) assms(6) alnum_no_nul [OF R(5)] by (cases h; simp)+
  have b64: "v_dec env (v_enc env d) = d" using assms(1) by (simp add: env_contract_def)
  have 1: "UploadModel k (Some url1) (Some cid) (Some user) (Some pass) (Some d) (Some n) (Some de) True s = (Ret (Got (Some ?i)), s1)"
    by (rule UploadModel_ok [OF assms(2,8,5)]) (simp add: assms(3) R(1))
  have 2: "CreateSubscription k (Some url2) (Some cid) (Some user) (Some pass) (Some w) ?i a (Some cap) s1 = (Ret (Got h), s2)"
    by (rule CreateSubscription_ok [OF assms(2,18,5) h(2-4) R(2)])
  have "GetModel k (Some (url3 h)) (Some cid) True s2 = (Ret (Got (k_dec k (v_enc env d))), s3)"
    by (rule GetModel_ok [OF assms(2,26,5)]) (simp add: sent_model_path [OF h(1)] R(3))
  then have 3: "GetModel k (Some (url3 h)) (Some cid) True s2 = (Ret (Got d), s3)" by (simp add: assms(4) b64)
  show ?thesis using 1 2 3 by blast
qed

text \<open>
  The three downloads do not depend on the client id, short of the one length that overruns its buffer: the
  query with the id is built and the request is made with the URL without it.
\<close>

theorem downloads_ignore_client_id:
  assumes "length c \<noteq> 1000" "length c' \<noteq> 1000"
  shows "GetModel k url (Some c) p = GetModel k url (Some c') p \<and>
    GetModelInfo k url (Some c) p z = GetModelInfo k url (Some c') p z \<and> GetAd k url (Some c) p = GetAd k url (Some c') p"
  unfolding GetModel_def GetModelInfo_def GetAd_def
  by (simp add: client_id_irrelevant [OF assms] split: option.split)

text \<open>
  A request that is lost is a failed call, whatever the status variable happens to hold: the downloads
  return false with a null pointer, the uploads false with the output untouched.
\<close>

theorem lost_request_is_failure:
  assumes "\<And>w rq. k_send k w rq = (NoReply, w)" "k_parse k url = Some u" "length cid < 1000"
  shows "fst (GetModel k (Some url) (Some cid) True w) = Ret Nulled \<and>
    fst (GetModelInfo k (Some url) (Some cid) True z w) = Ret Nulled \<and>
    fst (GetAd k (Some url) (Some cid) True w) = Ret Nulled \<and>
    fst (UploadModel k (Some url) (Some cid) (Some us) (Some pw) (Some d) (Some n) (Some de) pm w) = Ret Unset \<and>
    fst (UploadAd k (Some url) (Some cid) (Some us) (Some pw) (Some d) (Some au) pa w) = Ret Unset \<and>
    fst (CreateSubscription k (Some url) (Some cid) (Some us) (Some pw) (Some ow) m a (Some cap) w) = Ret Unset"
proof -
  have f: "finish_request k rq w = (Ret (k_status k, JNull), w)" for rq w
    using assms(1) by (simp add: finish_request_def abind_run act_basic)
  have n: "\<not> answer_field key (k_status k, JNull)" for key by (simp add: answer_field_def)
  have p: "post_for k url cid send key w = (Ret None, w)" for send key
    using assms(2) n by (simp add: post_for_def parse_uri_def abind_run act_basic make_request_post_def f)
  show ?thesis
    using assms(2,3) n
    by (simp add: GetModel_def GetModelInfo_def GetAd_def UploadModel_def UploadAd_def CreateSubscription_def abind_run act_basic
        client_id_run parse_uri_def make_request_get_def f p)
qed

end
