(* ===== verification/UploadToolProps.thy ===== *)
theory UploadToolProps
  imports UploadTool Publish
begin

text \<open>
  What the buttons and threads of the upload tool do: the click that uploads a model, the thread behind it, the click that creates a
  subscription, and the fields they leave.
\<close>

section \<open>Fields\<close>

text \<open>\<open>_wtol\<close> reads back what \<open>%d\<close> printed.\<close>

lemma atoi_show_int: "0 \<le> i \<Longrightarrow> i < 2 ^ 31 \<Longrightarrow> atoi (show_int i) = i"
proof -
  assume i: "0 \<le> i" "i < 2 ^ 31"
  obtain c r where s: "show_nat (nat i) = c # r" using show_nat_ne by (metis neq_Nil_conv)
  have d: "\<forall>x\<in>set (c # r). is_digit x" using show_nat_digits [of _ "nat i"] by (simp add: s [symmetric] is_digit_def)
  then have c: "\<not> is_space c" "c \<noteq> CHR ''-''" "c \<noteq> CHR ''+''" by (auto simp: is_digit_def is_space_def code_def)
  have t: "read_nat (c # takeWhile is_digit r) = read_nat (c # r)" using d by (metis list.set_intros(2) takeWhile_eq_all_conv)
  have "atoi (show_int i) = clamp32 (int (read_nat (show_nat (nat i))))"
    using i(1) c d t by (simp add: atoi_def show_int_def s Let_def)
  then show ?thesis using i by (simp add: read_show_nat clamp32_def)
qed

lemma get_item_run:
  "length (item (ut_dlg s)) < 1000 \<Longrightarrow> CHR 0x00 \<notin> set (item (ut_dlg s)) \<Longrightarrow> GetDlgItemAsChar item s = (Ret (item (ut_dlg s)), s)"
  by (simp add: GetDlgItemAsChar_def abind_run act_basic)

text \<open>
  The buffers have 1000 characters and the conversion is told the text's own length: a field of 1000 characters or more makes every
  button write past its buffer.
\<close>

lemma long_field_overflows:
  assumes "1000 \<le> length (IDC_EDIT_USER (ut_dlg s))"
  shows "fst (tool_click k disk BtnModelUpload s) = Crash" "fst (tool_click k disk BtnAdUpload s) = Crash" "fst (tool_click k disk BtnCreateSubs s) = Crash"
  using assms by (simp_all add: tool_click_def OnBnClickedBtnModelUpload_def OnBnClickedBtnAdUpload_def OnBnClickedBtnCreateSubs_def GetDlgItemAsChar_def
    on_dlg_def abind_run aseq_run act_basic)

definition fits :: "string \<Rightarrow> bool" where
  "fits t \<longleftrightarrow> length t < 1000 \<and> CHR 0x00 \<notin> set t"

lemma sql_safe_fits: "sql_safe t \<Longrightarrow> length t < 256 \<Longrightarrow> fits t"
proof -
  assume t: "sql_safe t" "length t < 256"
  have "code (CHR 0x00) = 0" by (simp add: code_def)
  then have "CHR 0x00 \<notin> set t" using t(1) unfolding sql_safe_def by force
  then show ?thesis using t(2) by (simp add: fits_def)
qed

section \<open>Clicks\<close>

lemma service_url_run:
  "k_parse k (uri_text (service_uri (IDC_EDIT_SERVER (ut_dlg s)) api)) = Some u \<Longrightarrow>
     service_url k api s = (Ret (uri_text (service_uri (IDC_EDIT_SERVER (ut_dlg s)) api)), s)"
  by (simp add: service_url_def abind_run act_basic Let_def)

lemma model_click_run:
  assumes "fits (IDC_EDIT_USER (ut_dlg s))" "fits (IDC_EDIT_PASS (ut_dlg s))" "fits (IDC_EDIT_MODEL_NAME (ut_dlg s))" "fits (IDC_EDIT_MODEL_DESC (ut_dlg s))"
    and "disk (IDC_EDIT_MODEL_FILE (ut_dlg s)) = Some data"
    and "k_parse k (uri_text (service_uri (IDC_EDIT_SERVER (ut_dlg s)) ''upload_model'')) = Some u"
  shows "tool_click k disk BtnModelUpload s = (Ret (), s\<lparr>ut_dlg := (ut_dlg s)\<lparr>progress_shown := True\<rparr>, ut_threads := ut_threads s @
    [UploadModelThread (uri_text (service_uri (IDC_EDIT_SERVER (ut_dlg s)) ''upload_model'')) (IDC_EDIT_USER (ut_dlg s)) (IDC_EDIT_PASS (ut_dlg s)) data
      (IDC_EDIT_MODEL_NAME (ut_dlg s)) (IDC_EDIT_MODEL_DESC (ut_dlg s))]\<rparr>)"
proof -
  let ?s = "s\<lparr>ut_dlg := (ut_dlg s)\<lparr>progress_shown := True\<rparr>\<rparr>"
  have u: "service_url k ''upload_model'' ?s = (Ret (uri_text (service_uri (IDC_EDIT_SERVER (ut_dlg s)) ''upload_model'')), ?s)"
    using service_url_run [of k ?s "''upload_model''" u] assms(6) by simp
  show ?thesis
    using assms(1-5) by (simp add: tool_click_def OnBnClickedBtnModelUpload_def abind_run get_item_run fits_def with_file_def act_basic aseq_run on_dlg_def u
      start_thread_def)
qed

lemma subs_click_run:
  assumes "fits (IDC_EDIT_USER (ut_dlg s))" "fits (IDC_EDIT_PASS (ut_dlg s))" "fits (IDC_EDIT_OWNER (ut_dlg s))"
    and "k_parse k (uri_text (service_uri (IDC_EDIT_SERVER (ut_dlg s)) ''create_subs'')) = Some u"
    and "CreateSubscription k (Some (uri_text (service_uri (IDC_EDIT_SERVER (ut_dlg s)) ''create_subs''))) (Some ''pcwin'') (Some (IDC_EDIT_USER (ut_dlg s)))
      (Some (IDC_EDIT_PASS (ut_dlg s))) (Some (IDC_EDIT_OWNER (ut_dlg s))) (atoi (IDC_EDIT_MODEL_ID (ut_dlg s))) (atoi (IDC_EDIT_AD_ID (ut_dlg s)))
      (Some 100) (ut_world s) = (Ret (Got h), w)"
  shows "tool_click k disk BtnCreateSubs s = (Ret (), s\<lparr>ut_world := w,
    ut_dlg := (ut_dlg s)\<lparr>subs_shown := True, progress_shown := True, IDC_EDIT_SUBS_ID := h\<rparr>\<rparr>)"
proof -
  let ?s = "s\<lparr>ut_dlg := (ut_dlg s)\<lparr>subs_shown := False, progress_shown := True\<rparr>\<rparr>"
  have u: "service_url k ''create_subs'' ?s = (Ret (uri_text (service_uri (IDC_EDIT_SERVER (ut_dlg s)) ''create_subs'')), ?s)"
    using service_url_run [of k ?s "''create_subs''" u] assms(4) by simp
  show ?thesis
    using assms(1-3,5) by (simp add: tool_click_def OnBnClickedBtnCreateSubs_def abind_run get_item_run fits_def act_basic aseq_run on_dlg_def u in_world_def)
qed

section \<open>Threads\<close>

lemma model_thread_run:
  assumes "UploadModel k (Some url) (Some ''pcwin'') (Some user) (Some pass) (Some d) (Some name) (Some desc) True (ut_world s) = (Ret (Got (Some i)), w)"
  shows "run_upload k (UploadModelThread url user pass d name desc) s = Some (s\<lparr>ut_world := w, ut_dlg := (ut_dlg s)\<lparr>IDC_EDIT_MODEL_ID := show_int i\<rparr>\<rparr>)"
  by (simp add: run_upload_def assms MyModelCallback_id_def)

text \<open>A failed upload is only visible as the id -1 in the field, which the next click would send.\<close>

lemma failed_upload_leaves_minus_one:
  assumes "UploadModel k (Some url) (Some ''pcwin'') (Some user) (Some pass) (Some d) (Some name) (Some desc) True (ut_world s) = (Ret Unset, w)"
  shows "\<exists>s'. run_upload k (UploadModelThread url user pass d name desc) s = Some s' \<and> IDC_EDIT_MODEL_ID (ut_dlg s') = ''-1'' \<and>
    atoi (IDC_EDIT_MODEL_ID (ut_dlg s')) = - 1"
proof -
  have "show_int (- 1) = ''-1''" "atoi ''-1'' = - 1" by code_simp+
  then show ?thesis by (simp add: run_upload_def assms MyModelCallback_id_def)
qed

end
