(* ===== verification/ServerSubs.thy ===== *)
theory ServerSubs
  imports ServerPost
begin

text \<open>
  What the three downloads of one subscription meet at the server, in any order: get, getinfo and getad on a subscription whose
  rows are there, and what they leave for the next one.
\<close>

section \<open>A subscription with its rows\<close>

definition subscribed :: "'db env \<Rightarrow> ('db \<Rightarrow> tables) \<Rightarrow> (string \<Rightarrow> string \<Rightarrow> bool) \<Rightarrow> subs_row \<Rightarrow> model_row \<Rightarrow> file_row \<Rightarrow> ad_row \<Rightarrow> 'db server \<Rightarrow> bool" where
  "subscribed env tab eq x m fl ad s \<longleftrightarrow> server_up env tab eq s \<and> published (tab (ms_db s)) x m fl \<and> ad \<in> set (t_ads (tab (ms_db s))) \<and>
     s_ad x = a_id ad \<and> v_writable env (ms_root s @ AD_FILE_PATH @ c_text (a_path ad) @ ''.base64'')"

lemma subscribed_started [simp]: "subscribed env tab eq x m fl ad (started s) = subscribed env tab eq x m fl ad s"
  by (simp add: subscribed_def)

lemma subscribed_cong:
  "ms_db s' = ms_db s \<Longrightarrow> ms_root s' = ms_root s \<Longrightarrow> ms_driver s' = ms_driver s \<Longrightarrow>
     subscribed env tab eq x m fl ad s' = subscribed env tab eq x m fl ad s"
  by (simp add: subscribed_def server_up_def)

text \<open>What a request may change besides the answer: files.\<close>

definition same_data :: "'db server \<Rightarrow> 'db server \<Rightarrow> bool" where
  "same_data s s' \<longleftrightarrow> ms_db s' = ms_db s \<and> ms_root s' = ms_root s \<and> ms_driver s' = ms_driver s"

lemma subscribed_same: "same_data s s' \<Longrightarrow> subscribed env tab eq x m fl ad s' = subscribed env tab eq x m fl ad s"
  unfolding same_data_def by (rule subscribed_cong) simp_all

section \<open>getinfo\<close>

lemma info_returns:
  assumes "env_contract env tab eq" "subscribed env tab eq x m fl ad s" "asks path query ''getinfo'' (s_hash x)"
  shows "\<exists>st f s'. HandleGet env path query s = (Ret (st, f), s') \<and> same_data s s' \<and> ms_fs s' = ms_fs s \<and>
    (st = 200 \<longrightarrow> (\<exists>t n. smap_get f ''info'' = Some (JString t) \<and> smap_get f ''size'' = Some (JNumber n)))"
proof -
  have S: "server_up env tab eq (started s)" "published (tab (ms_db (started s))) x m fl" using assms(2) by (simp_all add: subscribed_def)
  obtain params where h: "smap_get params ''subsid'' = Some (JString (s_hash x))"
    and H: "HandleGet env path query s = aseq (catch_http (OnGetInfo env params)) reply (started s)"
    using HandleGet_asks [OF assms(3)] by metis
  obtain r where r: "reads_file r fl" "OnGetInfo env params (started s) = serve_info env r (started s)"
    using get_model_info_run [OF assms(1) S h] by blast
  have p: "sql_safe (f_path fl)" using S(2) by (simp add: published_def)
  show ?thesis unfolding H
    by (simp add: aseq_run abind_run catch_http_def r(2) serve_info_def blob_path [OF r(1) p] act_basic file_run Let_def set_ok_run set_err_run
        set_field_def reply_def json_field_def as_integer_def smap_get_def smap_put_get same_data_def split: option.split)
qed

section \<open>getad\<close>

lemma OnGetAd_serves:
  assumes "env_contract env tab eq" "subscribed env tab eq x m fl ad s" "smap_get params ''subsid'' = Some (JString (s_hash x))"
  obtains r where "reads_ad r ad" "OnGetAd env params s = serve_ad env r s"
proof -
  have S: "server_up env tab eq s" "x \<in> set (t_subs (tab (ms_db s)))" "sql_safe (s_hash x)" "length (s_hash x) < 256" "s_ad x = a_id ad"
    "ad \<in> set (t_ads (tab (ms_db s)))" using assms(2) by (simp_all add: subscribed_def published_def)
  have eq: "equivp eq" "db_ok eq (tab (ms_db s))" using assms(1) S(1) by (simp_all add: env_contract_def server_up_def)
  have "selects reads_ad (sql_query (v_sql env) (ms_db s) (q_ad (a_id ad))) [ad]"
    using contract_selects(7) [OF assms(1), of "ms_db s" "a_id ad"] db_ok_rows(4) [OF eq S(6)] by simp
  then obtain r where q: "sql_query (v_sql env) (ms_db s) (q_ad (a_id ad)) = Some [r]" and r: "reads_ad r ad"
    by (auto simp: selects_def list_all2_Cons2 split: option.splits)
  have i: "int32 (a_id ad)" "a_id ad \<noteq> - 1" using db_ok_int32(3) [OF eq(2)] S(6) by (auto simp: ad_ids_def)
  have up: "db_open env s = (Ret (), s)" using S(1) by (simp add: server_up_def db_open_ok)
  have "length (q_ad (a_id ad)) < 5000" using i by (simp add: length_id_queries)
  from run_query_some [OF this q] have "OnGetAd env params s = serve_ad env r s"
    by (simp add: OnGetAd_def aseq_run abind_run up find_subs_ok(2) [OF assms(1) S(1,2) assms(3) S(3,4)] S(5) i(2) whenever_run ret_def
        split: prod.split res.split)
  then show thesis using that r by blast
qed

lemma ad_returns:
  assumes "env_contract env tab eq" "subscribed env tab eq x m fl ad s" "asks path query ''getad'' (s_hash x)"
  shows "\<exists>st f s'. HandleGet env path query s = (Ret (st, f), s') \<and> same_data s s' \<and>
    (\<forall>p. (\<forall>q. p \<noteq> ms_root s @ AD_FILE_PATH @ q) \<longrightarrow> ms_fs s' p = ms_fs s p) \<and>
    (st = 200 \<longrightarrow> (\<exists>t. smap_get f ''ad'' = Some (JString t)) \<and> smap_get f ''url'' = Some (JString (c_text (a_url ad))))"
proof -
  have S: "subscribed env tab eq x m fl ad (started s)" using assms(2) by simp
  obtain params where h: "smap_get params ''subsid'' = Some (JString (s_hash x))"
    and H: "HandleGet env path query s = aseq (catch_http (OnGetAd env params)) reply (started s)"
    using HandleGet_asks [OF assms(3)] by metis
  obtain r where r: "reads_ad r ad" "OnGetAd env params (started s) = serve_ad env r (started s)"
    using OnGetAd_serves [OF assms(1) S h] by blast
  have b: "blob_text ''FilePathName'' r t = (Ret (c_text (a_path ad)), t)" "blob_text ''AdUrl'' r t = (Ret (c_text (a_url ad)), t)" for t :: "'a server"
    using r(1) by (simp_all add: blob_text_def reads_ad_def act)
  have w: "v_writable env (ms_root s @ AD_FILE_PATH @ c_text (a_path ad) @ ''.base64'')" using assms(2) by (simp add: subscribed_def)
  show ?thesis unfolding H
    by (auto simp: aseq_run abind_run catch_http_def r(2) serve_ad_def serve_base64_def b act_basic file_run w Let_def set_ok_run set_err_run
        set_field_def reply_def json_field_def as_integer_def smap_get_def smap_put_get same_data_def split: option.split)
qed

section \<open>get\<close>

lemma model_returns:
  assumes "env_contract env tab eq" "subscribed env tab eq x m fl ad s" "asks path query ''get'' (s_hash x)"
    "fpath = ms_root s @ MODEL_FILE_PATH @ f_path fl" "ms_fs s fpath = Some d" "ms_fs s (fpath @ ''.base64'') = None" "v_writable env (fpath @ ''.base64'')"
  shows "\<exists>s'. HandleGet env path query s = (Ret (ok_reply ''model'' (JString (v_enc env d))), s') \<and> same_data s s'"
proof -
  have S: "server_up env tab eq s" "published (tab (ms_db s)) x m fl" using assms(2) by (simp_all add: subscribed_def)
  obtain params where
    H: "HandleGet env path query s = aseq (catch_http (OnGetModel env params)) reply (started s)" and
    O: "OnGetModel env params (started s) = serve_base64 env fpath ''model'' ''Could not open model file!'' (started s)"
    using get_model_run [OF assms(1) S assms(3)] unfolding assms(4) by metis
  show ?thesis unfolding H
    using assms(5-7) by (simp add: aseq_run abind_run catch_http_def O serve_base64_fresh [OF assms(1), of "started s"] set_ok_run reply_def act_basic
        json_field_def as_integer_def smap_get_def smap_put_get same_data_def ok_reply_def)
qed

end
