(* ===== verification/Float32.thy ===== *)
theory Float32
  imports Prelude
begin

text \<open>
  The two arithmetic operations the OBJ converter does on \<open>float\<close>: the negation, and \<open>1.0f - x\<close> rounded to
  nearest, ties to even. A finite float is an integer multiple of 2^-149, so the arithmetic is on integers.
\<close>

definition f_neg :: "u32 \<Rightarrow> u32" where
  "f_neg w = w XOR 0x80000000"

definition f_fraction :: "u32 \<Rightarrow> nat" where
  "f_fraction w = unat w mod 2 ^ 23"

definition f_exponent :: "u32 \<Rightarrow> nat" where
  "f_exponent w = unat w div 2 ^ 23 mod 2 ^ 8"

text \<open>The magnitude and the value of a finite float, in units of 2^-149.\<close>

definition f_mag :: "u32 \<Rightarrow> nat" where
  "f_mag w = (if f_exponent w = 0 then f_fraction w else (f_fraction w + 2 ^ 23) * 2 ^ (f_exponent w - 1))"

definition f_units :: "u32 \<Rightarrow> int" where
  "f_units w = (if bit w 31 then - int (f_mag w) else int (f_mag w))"

fun bit_length :: "nat \<Rightarrow> nat" where
  "bit_length n = (if n = 0 then 0 else Suc (bit_length (n div 2)))"

declare bit_length.simps [simp del]

text \<open>The float nearest to \<open>z\<close> units: 24 bits are kept, the exponent counts the others; infinity on overflow.\<close>

definition f_round :: "nat \<Rightarrow> u32" where
  "f_round z = (if z < 2 ^ 23 then of_nat z
     else let k = bit_length z - 24; q = z div 2 ^ k; r = z mod 2 ^ k;
              up = (2 ^ k < 2 * r \<or> (2 ^ k = 2 * r \<and> odd q));
              n = (k + 1) * 2 ^ 23 + (q - 2 ^ 23) + (if up then 1 else 0)
          in if 0x7F800000 \<le> n then 0x7F800000 else of_nat n)"

definition f_one_minus :: "u32 \<Rightarrow> u32" where
  "f_one_minus w = (if f_nan w then w OR 0x400000
     else if w = 0x7F800000 then 0xFF800000
     else if w = 0xFF800000 then 0x7F800000
     else let z = 2 ^ 149 - f_units w in
       if z < 0 then f_neg (f_round (nat (- z))) else f_round (nat z))"

section \<open>Rounding is exact on floats\<close>

lemma bit_length_double: "0 < n \<Longrightarrow> bit_length (n * 2 ^ k) = bit_length n + k"
proof (induction k)
  case (Suc k)
  have "bit_length (n * 2 ^ Suc k) = Suc (bit_length (n * 2 ^ k))"
    using Suc.prems by (subst bit_length.simps) simp
  then show ?case using Suc by simp
qed simp

lemma bit_length_range: "2 ^ k \<le> n \<Longrightarrow> n < 2 ^ Suc k \<Longrightarrow> bit_length n = Suc k"
proof (induction k arbitrary: n)
  case 0
  then have "n = 1" by simp
  then show ?case by (simp add: bit_length.simps)
next
  case (Suc k)
  have "bit_length (n div 2) = Suc k" using Suc.prems by (intro Suc.IH) auto
  moreover have "n \<noteq> 0" using Suc.prems(1) by (intro notI) simp
  ultimately show ?case by (subst bit_length.simps) simp
qed

lemma f_round_normal:
  assumes "m < 2 ^ 23" "0 < e" "e < 255"
  shows "f_round ((m + 2 ^ 23) * 2 ^ (e - 1)) = of_nat (e * 2 ^ 23 + m)"
proof -
  let ?z = "(m + 2 ^ 23) * 2 ^ (e - 1)"
  have b: "bit_length (m + 2 ^ 23) = 24" using bit_length_range [of 23 "m + 2 ^ 23"] assms(1) by simp
  have k: "bit_length ?z - 24 = e - 1" using bit_length_double [of "m + 2 ^ 23" "e - 1"] b by simp
  have z: "\<not> ?z < 2 ^ 23"
  proof -
    have "(2::nat) ^ 23 * 1 \<le> (m + 2 ^ 23) * 2 ^ (e - 1)" by (intro mult_mono) simp_all
    then show ?thesis by simp
  qed
  have n: "(e - 1 + 1) * 2 ^ 23 + (m + 2 ^ 23 - 2 ^ 23) = e * 2 ^ 23 + m" using assms(2) by simp
  have "e * 2 ^ 23 \<le> 254 * (2::nat) ^ 23" using assms(3) by (intro mult_le_mono1) simp
  then have l: "\<not> 0x7F800000 \<le> e * 2 ^ 23 + m" using assms(1) by simp
  have q: "?z div 2 ^ (e - 1) = m + 2 ^ 23" "?z mod 2 ^ (e - 1) = 0" by simp_all
  have u: "\<not> ((2::nat) ^ (e - 1) < 2 * 0 \<or> 2 ^ (e - 1) = 2 * (0::nat) \<and> odd (m + 2 ^ 23))" by simp
  show ?thesis
    unfolding f_round_def Let_def k q if_not_P [OF z] if_not_P [OF u] add_0_right n if_not_P [OF l] ..
qed

lemma f_round_mag:
  assumes "w < 0x7F800000"
  shows "f_round (f_mag w) = w"
proof -
  have w: "unat w < 0x7F800000" using assms by (simp add: word_less_nat_alt)
  have e: "f_exponent w = unat w div 2 ^ 23" using w by (simp add: f_exponent_def)
  have w2: "unat w = f_exponent w * 2 ^ 23 + f_fraction w" unfolding e f_fraction_def by simp
  show ?thesis
  proof (cases "f_exponent w = 0")
    case True
    then have "unat w = f_fraction w" using w2 by simp
    moreover have "f_fraction w < 2 ^ 23" by (simp add: f_fraction_def)
    ultimately show ?thesis using True by (simp add: f_mag_def f_round_def flip: \<open>unat w = f_fraction w\<close>)
  next
    case False
    have "f_exponent w < 255" using w e by (simp add: less_mult_imp_div_less)
    moreover have "f_fraction w < 2 ^ 23" by (simp add: f_fraction_def)
    ultimately have "f_round (f_mag w) = of_nat (f_exponent w * 2 ^ 23 + f_fraction w)"
      unfolding f_mag_def if_not_P [OF False] using False by (intro f_round_normal) simp_all
    then show ?thesis unfolding w2 [symmetric] by simp
  qed
qed

lemma f_neg_neg [simp]: "f_neg (f_neg w) = w"
  by (simp add: f_neg_def xor.assoc)

lemma f_one_minus_examples:
  "f_one_minus 0 = 0x3F800000" "f_one_minus 0x3F800000 = 0" "f_one_minus 0x3E800000 = 0x3F400000" "f_one_minus 0x40000000 = 0xBF800000"
  "f_one_minus 0x33000000 = 0x3F800000" "f_one_minus 0x7F800000 = 0xFF800000"
  by (simp_all add: f_one_minus_def f_nan_def f_units_def f_mag_def f_exponent_def f_fraction_def f_round_def f_neg_def bit_length.simps Let_def)

end
