(* ===== verification/FloatArith.thy ===== *)
theory FloatArith
  imports Float32
begin

text \<open>
  The arithmetic the viewer does on \<open>float\<close>: sum, difference, product and quotient of two floats and the
  conversion of an \<open>int\<close>, each the exact result rounded to nearest, ties to even, on bit patterns as in
  \<^theory_text>\<open>Float32\<close>. A NaN operand comes back quieted, an invalid operation gives the default NaN (x86, SSE).
\<close>

section \<open>Rounding\<close>

text \<open>The float nearest to \<open>n / d\<close> units of 2^-149.\<close>

definition f_frac :: "nat \<Rightarrow> nat \<Rightarrow> u32" where
  "f_frac n d = (let t = n div d in
     if t < 2 ^ 23 then of_nat (t + (if d < 2 * (n mod d) \<or> (d = 2 * (n mod d) \<and> odd t) then 1 else 0))
     else let k = bit_length t - 24; e = d * 2 ^ k; q = n div e; r = n mod e;
              m = (k + 1) * 2 ^ 23 + (q - 2 ^ 23) + (if e < 2 * r \<or> (e = 2 * r \<and> odd q) then 1 else 0)
          in if 0x7F800000 \<le> m then 0x7F800000 else of_nat m)"

definition f_signed :: "bool \<Rightarrow> u32 \<Rightarrow> u32" where
  "f_signed neg w = (if neg then f_neg w else w)"

definition f_of_units :: "int \<Rightarrow> u32" where
  "f_of_units z = f_signed (z < 0) (f_round (nat \<bar>z\<bar>))"

section \<open>Classes of floats\<close>

definition f_inf :: "u32 \<Rightarrow> bool" where
  "f_inf w \<longleftrightarrow> w AND 0x7FFFFFFF = 0x7F800000"

text \<open>\<open>x == 0.0f\<close> holds for both zeros.\<close>

definition f_zero :: "u32 \<Rightarrow> bool" where
  "f_zero w \<longleftrightarrow> w AND 0x7FFFFFFF = 0"

definition f_quiet :: "u32 \<Rightarrow> u32" where
  "f_quiet w = w OR 0x400000"

definition default_nan :: u32 where
  "default_nan = 0xFFC00000"

section \<open>Operations\<close>

definition f_add :: "u32 \<Rightarrow> u32 \<Rightarrow> u32" where
  "f_add a b = (if f_nan a then f_quiet a else if f_nan b then f_quiet b
     else if f_inf a then (if f_inf b \<and> a \<noteq> b then default_nan else a)
     else if f_inf b then b
     else let z = f_units a + f_units b in
       if z = 0 then (if a = 0x80000000 \<and> b = 0x80000000 then 0x80000000 else 0) else f_of_units z)"

definition f_sub :: "u32 \<Rightarrow> u32 \<Rightarrow> u32" where
  "f_sub a b = (if f_nan b \<and> \<not> f_nan a then f_quiet b else f_add a (f_neg b))"

definition f_mul :: "u32 \<Rightarrow> u32 \<Rightarrow> u32" where
  "f_mul a b = (let neg = (bit a 31 \<noteq> bit b 31) in
     if f_nan a then f_quiet a else if f_nan b then f_quiet b
     else if (f_inf a \<and> f_zero b) \<or> (f_zero a \<and> f_inf b) then default_nan
     else if f_inf a \<or> f_inf b then f_signed neg 0x7F800000
     else f_signed neg (f_frac (f_mag a * f_mag b) (2 ^ 149)))"

definition f_div :: "u32 \<Rightarrow> u32 \<Rightarrow> u32" where
  "f_div a b = (let neg = (bit a 31 \<noteq> bit b 31) in
     if f_nan a then f_quiet a else if f_nan b then f_quiet b
     else if (f_inf a \<and> f_inf b) \<or> (f_zero a \<and> f_zero b) then default_nan
     else if f_inf a \<or> f_zero b then f_signed neg 0x7F800000
     else if f_inf b then f_signed neg 0
     else f_signed neg (f_frac (f_mag a * 2 ^ 149) (f_mag b)))"

definition f_of_int :: "int \<Rightarrow> u32" where
  "f_of_int i = f_of_units (i * 2 ^ 149)"

lemmas float_defs = f_add_def f_sub_def f_mul_def f_div_def f_of_int_def f_frac_def f_of_units_def f_signed_def f_inf_def
  f_zero_def f_quiet_def default_nan_def f_nan_def f_units_def f_mag_def f_exponent_def f_fraction_def f_round_def f_neg_def

section \<open>Facts\<close>

lemma f_frac_1: "f_frac n 1 = f_round n"
  by (simp add: f_frac_def f_round_def Let_def)

lemma f_add_commute: "\<not> f_nan a \<Longrightarrow> f_add a b = f_add b a"
  by (auto simp: f_add_def Let_def add.commute)

lemma f_mul_commute: "\<not> f_nan a \<Longrightarrow> f_mul a b = f_mul b a"
proof -
  have neg: "(bit a 31 \<noteq> bit b 31) = (bit b 31 \<noteq> bit a 31)" by auto
  assume "\<not> f_nan a"
  then show ?thesis unfolding f_mul_def neg Let_def by (auto simp: mult.commute)
qed

lemma bit_sign: "bit (0x80000000 :: u32) n \<longleftrightarrow> n = 31"
proof -
  have "(0x80000000 :: u32) = 2 ^ 31" by simp
  then show ?thesis by (simp only: bit_exp_iff) auto
qed

lemma take_bit_neg: "take_bit 31 (f_neg w) = take_bit 31 w"
  by (rule bit_word_eqI) (auto simp: f_neg_def bit_simps bit_sign)

lemma and_magnitude: "w AND 0x7FFFFFFF = take_bit 31 (w :: u32)"
proof -
  have "(0x7FFFFFFF :: u32) = mask 31" by (simp add: mask_eq_exp_minus_1)
  then show ?thesis by (simp only: take_bit_eq_mask)
qed

lemma f_class_neg [simp]: "f_nan (f_neg w) = f_nan w" "f_inf (f_neg w) = f_inf w" "f_zero (f_neg w) = f_zero w"
  unfolding f_nan_def f_inf_def f_zero_def and_magnitude take_bit_neg by simp_all

lemma f_mag_neg [simp]: "f_mag (f_neg w) = f_mag w"
proof -
  have t: "unat w mod 2147483648 = unat (take_bit 31 w)" for w :: u32
    by (subst unsigned_take_bit_eq) (simp add: take_bit_eq_mod)
  have m: "unat (f_neg w) mod 2147483648 = unat w mod 2147483648" unfolding t take_bit_neg ..
  have f: "f_fraction (f_neg w) = f_fraction w"
    using arg_cong [OF m, of "\<lambda>x. x mod 8388608"] by (simp add: f_fraction_def mod_mod_cancel)
  have d: "x div 8388608 mod 256 = x mod 2147483648 div 8388608" for x :: nat
    using mod_mult2_eq [of x 8388608 256] by simp
  have "f_exponent (f_neg w) = f_exponent w" using m by (simp add: f_exponent_def d)
  then show ?thesis by (simp add: f_mag_def f)
qed

lemma f_units_neg: "f_units (f_neg w) = - f_units w"
proof -
  have "bit (f_neg w) 31 \<longleftrightarrow> \<not> bit w 31" by (simp add: f_neg_def bit_simps bit_sign)
  then show ?thesis by (simp add: f_units_def)
qed

lemma f_sub_self: "\<not> f_nan w \<Longrightarrow> \<not> f_inf w \<Longrightarrow> f_sub w w = 0"
  by (auto simp: f_sub_def f_add_def f_units_neg) (simp add: f_neg_def)

lemma float_examples:
  "f_add 0x3F800000 0x3F800000 = 0x40000000" "f_mul 0x40000000 0x3F000000 = 0x3F800000" "f_div 0x3F800000 0x40400000 = 0x3EAAAAAB"
  "f_of_int (- 3) = 0xC0400000" "f_of_int 16777217 = 0x4B800000" "f_div 0x3F800000 0 = 0x7F800000" "f_sub 0x3F800000 0x3F800000 = 0"
  by (simp_all add: float_defs bit_length.simps Let_def)

end
