(* ===== verification/D3DModel.thy ===== *)
theory D3DModel
  imports ScanLoad FloatArith
begin

text \<open>
  The Direct3D side of a model (Common/D3DModel.h, Common/CD3DModelUtils.cpp): building it from a loaded model,
  drawing it, picking in it and releasing it. A \<open>pBase\<close> pointer into the loaded model is the position of
  what it points to (part and subset index, map key), read in the loaded model at the time of use; a COM object is
  a number with a reference count. Direct3D and D3DX are the parameter \<open>d3d_env\<close>.
\<close>

section \<open>Objects of the device\<close>

record gpu =
  g_next :: nat
  g_refs :: "nat \<Rightarrow> nat"

record d3d_env =
  x_device :: bool
  x_effect :: "gpu \<Rightarrow> bool"
  x_texture :: "gpu \<Rightarrow> bytes \<Rightarrow> bool"
  x_passes :: "nat \<Rightarrow> nat"
  x_tri :: "float3 \<Rightarrow> float3 \<Rightarrow> float3 \<Rightarrow> float3 \<Rightarrow> float3 \<Rightarrow> u32 option"
  x_junk :: "nat \<Rightarrow> u32"

text \<open>A D3DX call that creates an object with one reference, or leaves the pointer NULL.\<close>

definition com_new :: "bool \<Rightarrow> gpu \<Rightarrow> nat option \<times> gpu" where
  "com_new ok g = (if ok then (Some (g_next g), g\<lparr>g_next := g_next g + 1, g_refs := (g_refs g)(g_next g := 1)\<rparr>) else (None, g))"

text \<open>\<open>if ( p ) p->Release ()\<close>; releasing an object that is gone is undefined.\<close>

definition com_release :: "nat option \<Rightarrow> gpu \<Rightarrow> gpu outcome" where
  "com_release p g = (case p of None \<Rightarrow> Done g
     | Some i \<Rightarrow> if g_refs g i = 0 then UB else Done (g\<lparr>g_refs := (g_refs g)(i := g_refs g i - 1)\<rparr>))"

fun com_release_all :: "nat option list \<Rightarrow> gpu \<Rightarrow> gpu outcome" where
  "com_release_all [] g = Done g"
| "com_release_all (p # ps) g = obind (com_release p g) (com_release_all ps)"

section \<open>D3DModel.h\<close>

record D3DMODEL_MATERIAL =
  dm_pBase :: "bytes option"
  dm_pShader :: "nat option"
  dm_clrAmbient :: float4_rgba
  dm_clrDiffuse :: float4_rgba
  dm_fTransparency :: u32
  dm_fSpecIntensity :: u32
  dm_fGlossiness :: u32
  dm_fReflectionFactor :: u32
  dm_sDiffuseTextureName :: bytes
  dm_sNormalTextureName :: bytes
  dm_sSpecularTextureName :: bytes
  dm_sAlphaTextureName :: bytes
  dm_sReflectionTextureName :: bytes
  dm_iDiffuseTex :: int
  dm_iAlphaTex :: int
  dm_iNormalTex :: int
  dm_iSpecTex :: int
  dm_iReflTex :: int

text \<open>The constructor clears the two pointers; the numbers hold what the memory held.\<close>

definition D3DMODEL_MATERIAL_new :: "(nat \<Rightarrow> u32) \<Rightarrow> D3DMODEL_MATERIAL" where
  "D3DMODEL_MATERIAL_new junk = (let c = (\<lambda>i. \<lparr>clr_r = junk i, clr_g = junk (i + 1), clr_b = junk (i + 2), clr_a = junk (i + 3)\<rparr>) in
     \<lparr>dm_pBase = None, dm_pShader = None, dm_clrAmbient = c 0, dm_clrDiffuse = c 4, dm_fTransparency = junk 8,
      dm_fSpecIntensity = junk 9, dm_fGlossiness = junk 10, dm_fReflectionFactor = junk 11,
      dm_sDiffuseTextureName = [], dm_sNormalTextureName = [], dm_sSpecularTextureName = [], dm_sAlphaTextureName = [],
      dm_sReflectionTextureName = [], dm_iDiffuseTex = sint (junk 12), dm_iAlphaTex = sint (junk 13),
      dm_iNormalTex = sint (junk 14), dm_iSpecTex = sint (junk 15), dm_iReflTex = sint (junk 16)\<rparr>)"

record D3DMODEL_TEXTURE_SLOT =
  dt_pBase :: bytes
  dt_pTexture :: "nat option"

record D3DMODEL_SUBSET =
  ds_pBase :: "nat \<times> nat"
  ds_uiFVF :: u32
  ds_bOwnMaterial :: bool
  ds_Material :: D3DMODEL_MATERIAL
  ds_bVisible :: bool
  ds_bSelected :: bool

record D3DMODEL_PART =
  dp_pBase :: nat
  dp_bVisible :: bool
  dp_bSelected :: bool
  dp_Subsets :: "D3DMODEL_SUBSET list"

record D3D_MODEL =
  d_Parts :: "D3DMODEL_PART list"
  d_Materials :: "(bytes \<times> D3DMODEL_MATERIAL) list"
  d_Textures :: "(bytes \<times> D3DMODEL_TEXTURE_SLOT) list"
  d_ptMin :: float3
  d_ptMax :: float3

definition D3D_MODEL_new :: "float3 \<Rightarrow> float3 \<Rightarrow> D3D_MODEL" where
  "D3D_MODEL_new a b = \<lparr>d_Parts = [], d_Materials = [], d_Textures = [], d_ptMin = a, d_ptMax = b\<rparr>"

section \<open>Reading through pBase\<close>

definition subset_base :: "TD_SCAN_MODEL \<Rightarrow> D3DMODEL_SUBSET \<Rightarrow> TD_MODEL_SUBSET outcome" where
  "subset_base td s = (case ds_pBase s of (i, j) \<Rightarrow>
     if i < length (Parts td) \<and> j < length (mp_Subsets (Parts td ! i)) then Done (mp_Subsets (Parts td ! i) ! j) else UB)"

definition texture_base :: "TD_SCAN_MODEL \<Rightarrow> D3DMODEL_TEXTURE_SLOT \<Rightarrow> TD_MODEL_TEXTURE_SLOT outcome" where
  "texture_base td t = (case smap_get (Textures td) (dt_pBase t) of None \<Rightarrow> UB | Some b \<Rightarrow> Done b)"

fun omap :: "('a \<Rightarrow> 'b outcome) \<Rightarrow> 'a list \<Rightarrow> 'b list outcome" where
  "omap f [] = Done []"
| "omap f (x # xs) = obind (f x) (\<lambda>y. obind (omap f xs) (\<lambda>ys. Done (y # ys)))"

definition texture_names :: "TD_SCAN_MODEL \<Rightarrow> D3D_MODEL \<Rightarrow> bytes list outcome" where
  "texture_names td d = omap (\<lambda>kt. obind (texture_base td (snd kt)) (\<lambda>b. Done (ts_sName b))) (d_Textures d)"

section \<open>CD3DModelUtils::CreateFromTDModel\<close>

definition D3DFVF_XYZ :: u32 where "D3DFVF_XYZ = 0x002"
definition D3DFVF_NORMAL :: u32 where "D3DFVF_NORMAL = 0x010"
definition D3DFVF_TEX2 :: u32 where "D3DFVF_TEX2 = 0x200"

definition VertexFormatToFvf :: "u32 \<Rightarrow> u32" where
  "VertexFormatToFvf uiVertFmt =
     (let f0 = (if uiVertFmt AND VF_POSITIION \<noteq> 0 then D3DFVF_XYZ else 0);
          f1 = (if uiVertFmt AND VF_NORMAL \<noteq> 0 then f0 OR D3DFVF_NORMAL else f0)
      in if uiVertFmt AND VF_UV \<noteq> 0 then f1 OR D3DFVF_TEX2 else f1)"

text \<open>The last position of the name, the number of names when there is none.\<close>

fun name_index :: "bytes \<Rightarrow> nat \<Rightarrow> bytes list \<Rightarrow> nat \<Rightarrow> nat" where
  "name_index n i [] r = r"
| "name_index n i (x # xs) r = name_index n (i + 1) xs (if n = x then i else r)"

definition SetTextureNameIndex :: "bytes list \<Rightarrow> bytes \<Rightarrow> int" where
  "SetTextureNameIndex names sTexName = int (name_index sTexName 0 names (length names))"

fun create_materials :: "d3d_env \<Rightarrow> (bytes \<times> TD_MODEL_MATERIAL) list \<Rightarrow> D3D_MODEL \<times> gpu \<Rightarrow> D3D_MODEL \<times> gpu" where
  "create_materials x [] dg = dg"
| "create_materials x ((k, m) # kms) (d, g) =
     (let (p, g') = com_new (x_effect x g) g;
          mtrl = (D3DMODEL_MATERIAL_new (x_junk x))\<lparr>dm_clrAmbient := mm_clrAmbient m, dm_clrDiffuse := mm_clrDiffuse m,
            dm_fSpecIntensity := mm_fSpecIntensity m, dm_fGlossiness := mm_fGlossiness m, dm_fTransparency := mm_fTransparency m,
            dm_fReflectionFactor := mm_fReflectionFactor m, dm_sDiffuseTextureName := mm_sDiffuseTextureName m,
            dm_sAlphaTextureName := mm_sAlphaTextureName m, dm_sNormalTextureName := mm_sNormalTextureName m,
            dm_sSpecularTextureName := mm_sSpecularTextureName m, dm_sReflectionTextureName := mm_sReflectionTextureName m,
            dm_pBase := Some k, dm_pShader := p\<rparr>
      in create_materials x kms (d\<lparr>d_Materials := smap_put (mm_sName m) mtrl (d_Materials d)\<rparr>, g'))"

fun create_textures :: "d3d_env \<Rightarrow> (bytes \<times> TD_MODEL_TEXTURE_SLOT) list \<Rightarrow> D3D_MODEL \<times> gpu \<Rightarrow> D3D_MODEL \<times> gpu" where
  "create_textures x [] dg = dg"
| "create_textures x ((k, t) # kts) (d, g) =
     (let (p, g') = com_new (x_texture x g (ts_pData t)) g
      in create_textures x kts (d\<lparr>d_Textures := smap_put (ts_sName t) \<lparr>dt_pBase = k, dt_pTexture = p\<rparr> (d_Textures d)\<rparr>, g'))"

text \<open>\<open>d3dModel.Materials [ name ]\<close>: a name the map does not have is added with a new material.\<close>

definition material_at :: "d3d_env \<Rightarrow> bytes \<Rightarrow> D3D_MODEL \<Rightarrow> D3DMODEL_MATERIAL \<times> D3D_MODEL" where
  "material_at x n d = (case smap_get (d_Materials d) n of
      Some m \<Rightarrow> (m, d)
    | None \<Rightarrow> (let m = D3DMODEL_MATERIAL_new (x_junk x) in (m, d\<lparr>d_Materials := smap_put n m (d_Materials d)\<rparr>)))"

definition create_subset :: "d3d_env \<Rightarrow> bytes list \<Rightarrow> nat \<times> nat \<Rightarrow> TD_MODEL_SUBSET \<Rightarrow> D3D_MODEL \<Rightarrow> D3DMODEL_SUBSET \<times> D3D_MODEL" where
  "create_subset x names pos s d =
     (let (m, d') = material_at x (ss_sMatName s) d; ix = SetTextureNameIndex names
      in (\<lparr>ds_pBase = pos, ds_uiFVF = VertexFormatToFvf (ss_uiVertexFmt s), ds_bOwnMaterial = False,
           ds_Material = m\<lparr>dm_iDiffuseTex := ix (dm_sDiffuseTextureName m), dm_iAlphaTex := ix (dm_sAlphaTextureName m),
             dm_iNormalTex := ix (dm_sNormalTextureName m), dm_iSpecTex := ix (dm_sSpecularTextureName m),
             dm_iReflTex := ix (dm_sReflectionTextureName m)\<rparr>,
           ds_bVisible = True, ds_bSelected = False\<rparr>, d'))"

fun create_subsets :: "d3d_env \<Rightarrow> bytes list \<Rightarrow> nat \<Rightarrow> nat \<Rightarrow> TD_MODEL_SUBSET list \<Rightarrow> D3D_MODEL \<Rightarrow> D3DMODEL_SUBSET list \<times> D3D_MODEL" where
  "create_subsets x names i j [] d = ([], d)"
| "create_subsets x names i j (s # ss) d = (let (r, d1) = create_subset x names (i, j) s d; (rs, d2) = create_subsets x names i (j + 1) ss d1
     in (r # rs, d2))"

fun create_parts :: "d3d_env \<Rightarrow> bytes list \<Rightarrow> nat \<Rightarrow> TD_MODEL_PART list \<Rightarrow> D3D_MODEL \<Rightarrow> D3D_MODEL" where
  "create_parts x names i [] d = d"
| "create_parts x names i (p # ps) d =
     (let (rs, d1) = create_subsets x names i 0 (mp_Subsets p) d
      in create_parts x names (i + 1) ps
           (d1\<lparr>d_Parts := d_Parts d1 @ [\<lparr>dp_pBase = i, dp_bVisible = True, dp_bSelected = False, dp_Subsets = rs\<rparr>]\<rparr>))"

definition CreateFromTDModel :: "d3d_env \<Rightarrow> TD_SCAN_MODEL \<Rightarrow> D3D_MODEL \<Rightarrow> gpu \<Rightarrow> (bool \<times> D3D_MODEL \<times> gpu) outcome" where
  "CreateFromTDModel x model d g =
     (if \<not> x_device x then Done (False, d, g)
      else let (d1, g1) = create_materials x (Materials model) (d, g);
               (d2, g2) = create_textures x (Textures model) (d1, g1)
           in obind (texture_names model d2) (\<lambda>names.
                Done (True, (create_parts x names 0 (Parts model) d2)\<lparr>d_ptMin := ptMin model, d_ptMax := ptMax model\<rparr>, g2)))"

section \<open>CD3DModelUtils::RenderD3DModel\<close>

text \<open>
  One \<open>DrawIndexedPrimitiveUP\<close> with the shader values it is drawn with. A texture is None when its
  flag is off, otherwise the pointer the slot holds.
\<close>

record draw_call =
  dc_fvf :: u32
  dc_shader :: nat
  dc_ambient :: float4_rgba
  dc_diffuse :: float4_rgba
  dc_transparency :: u32
  dc_glossiness :: u32
  dc_specular :: u32
  dc_hasNormal :: bool
  dc_hasUv :: bool
  dc_textures :: "nat option option list"
  dc_vertCount :: u32
  dc_triCount :: u32
  dc_ib :: "u32 list"
  dc_vb :: bytes
  dc_stride :: u32

definition highlight :: "float4_rgba \<Rightarrow> float4_rgba" where
  "highlight c = (let two = 0x40000000 in
     \<lparr>clr_r = f_mul (clr_r c) two, clr_g = f_mul (clr_g c) two, clr_b = f_mul (clr_b c) two, clr_a = 0x3F800000\<rparr>)"

definition slot_texture :: "D3D_MODEL \<Rightarrow> bytes \<Rightarrow> nat option option" where
  "slot_texture d n = map_option dt_pTexture (smap_get (d_Textures d) n)"

definition render_subset :: "d3d_env \<Rightarrow> TD_SCAN_MODEL \<Rightarrow> D3D_MODEL \<Rightarrow> D3DMODEL_SUBSET \<Rightarrow> draw_call list outcome" where
  "render_subset x td d s =
     (if \<not> ds_bVisible s then Done []
      else let m = ds_Material s in
        (case dm_pShader m of
           None \<Rightarrow> UB
         | Some sh \<Rightarrow> obind (subset_base td s) (\<lambda>b.
             Done (replicate (x_passes x sh)
               \<lparr>dc_fvf = ds_uiFVF s, dc_shader = sh, dc_ambient = dm_clrAmbient m,
                dc_diffuse = (if ds_bSelected s then highlight (dm_clrDiffuse m) else dm_clrDiffuse m),
                dc_transparency = dm_fTransparency m, dc_glossiness = dm_fGlossiness m, dc_specular = dm_fSpecIntensity m,
                dc_hasNormal = (ss_uiVertexFmt b AND VF_NORMAL \<noteq> 0), dc_hasUv = (ss_uiVertexFmt b AND VF_UV \<noteq> 0),
                dc_textures = map (slot_texture d) [dm_sDiffuseTextureName m, dm_sAlphaTextureName m, dm_sNormalTextureName m,
                  dm_sSpecularTextureName m, dm_sReflectionTextureName m],
                dc_vertCount = ss_uiVertCount b, dc_triCount = ss_uiTriCount b, dc_ib = pIB b, dc_vb = pVB b,
                dc_stride = GetVertexSize (ss_uiVertexFmt b)\<rparr>))))"

definition RenderD3DModel :: "d3d_env \<Rightarrow> TD_SCAN_MODEL \<Rightarrow> D3D_MODEL \<Rightarrow> draw_call list outcome" where
  "RenderD3DModel x td d = obind (omap (\<lambda>p. if \<not> dp_bVisible p then Done []
      else obind (omap (render_subset x td d) (dp_Subsets p)) (\<lambda>dss. Done (concat dss))) (d_Parts d))
     (\<lambda>dss. Done (concat dss))"

section \<open>CD3DModelUtils::FreeD3DModel\<close>

definition FreeD3DModel :: "D3D_MODEL \<Rightarrow> gpu \<Rightarrow> (D3D_MODEL \<times> gpu) outcome" where
  "FreeD3DModel d g =
     obind (com_release_all (map (\<lambda>a. dm_pShader (snd a)) (d_Materials d)) g) (\<lambda>g1.
     obind (com_release_all (map (\<lambda>a. dt_pTexture (snd a)) (d_Textures d)) g1) (\<lambda>g2.
       Done (d\<lparr>d_Parts := [], d_Materials := [], d_Textures := []\<rparr>, g2)))"

section \<open>CD3DModelUtils::IntersectRay\<close>

text \<open>
  The triangles are taken from the vertex buffer three vertices at a time; the index buffer is not read.
\<close>

definition vertex_at :: "TD_MODEL_SUBSET \<Rightarrow> nat \<Rightarrow> float3 outcome" where
  "vertex_at b i = (let ofs = i * (unat (GetVertexSize (ss_uiVertexFmt b) div 4) * 4) in
     if ofs + 12 \<le> length (pVB b) then Done (dec_float3 (drop ofs (pVB b))) else UB)"

fun tri_hits :: "d3d_env \<Rightarrow> float3 \<Rightarrow> float3 \<Rightarrow> nat \<times> nat \<Rightarrow> TD_MODEL_SUBSET \<Rightarrow> nat \<Rightarrow> nat \<Rightarrow> ((nat \<times> nat) \<times> u32) list outcome" where
  "tri_hits x pos dir who b i 0 = Done []"
| "tri_hits x pos dir who b i (Suc n) =
     obind (vertex_at b (3 * i)) (\<lambda>p1. obind (vertex_at b (3 * i + 1)) (\<lambda>p2. obind (vertex_at b (3 * i + 2)) (\<lambda>p3.
     obind (tri_hits x pos dir who b (i + 1) n) (\<lambda>hs.
       Done (case x_tri x p1 p2 p3 pos dir of None \<Rightarrow> hs | Some t \<Rightarrow> (who, t) # hs)))))"

definition hit_list :: "d3d_env \<Rightarrow> float3 \<Rightarrow> float3 \<Rightarrow> TD_SCAN_MODEL \<Rightarrow> D3D_MODEL \<Rightarrow> ((nat \<times> nat) \<times> u32) list outcome" where
  "hit_list x pos dir td d = obind (omap (\<lambda>(i, p). obind (omap (\<lambda>(j, s). obind (subset_base td s) (\<lambda>b.
      tri_hits x pos dir (i, j) b 0 (unat (ss_uiTriCount b)))) (enumerate 0 (dp_Subsets p))) (\<lambda>hss. Done (concat hss)))
      (enumerate 0 (d_Parts d))) (\<lambda>hss. Done (concat hss))"

fun closest :: "((nat \<times> nat) \<times> u32) list \<Rightarrow> (nat \<times> nat) option \<times> u32 \<Rightarrow> (nat \<times> nat) option \<times> u32" where
  "closest [] c = c"
| "closest (h # hs) c = closest hs (if f_less (snd h) (snd c) then (Some (fst h), snd h) else c)"

text \<open>None when no triangle is hit, otherwise the pointer to the subset, which may be NULL.\<close>

definition IntersectRay :: "d3d_env \<Rightarrow> float3 \<Rightarrow> float3 \<Rightarrow> TD_SCAN_MODEL \<Rightarrow> D3D_MODEL \<Rightarrow> (nat \<times> nat) option option outcome" where
  "IntersectRay x ptStart vDir td d = obind (hit_list x ptStart vDir td d) (\<lambda>hs.
     Done (if hs = [] then None else Some (fst (closest hs (None, FLT_MAX)))))"

end
