(* ===== verification/Camera.thy ===== *)
theory Camera
  imports FloatArith ScanFormat
begin

text \<open>
  The camera of the viewer and the editor, \<open>CCamera\<close> (Common/tlCCamera.h, tlCCamera.cpp): position, target,
  orientation and lens, and the matrices and the frustum kept with them. Floats are bit patterns with the arithmetic of
  \<^theory_text>\<open>FloatArith\<close>; the C library functions and D3DX are the parameter \<open>xmath\<close>; a matrix is read
  by row and column from 1, as in \<open>_11\<close>.
\<close>

section \<open>Vectors and matrices\<close>

type_synonym mat = "nat \<Rightarrow> nat \<Rightarrow> u32"

record xmath =
  xm_tan :: "u32 \<Rightarrow> u32"
  xm_atan :: "u32 \<Rightarrow> u32"
  xm_atan2 :: "u32 \<Rightarrow> u32 \<Rightarrow> u32"
  xm_sqrt :: "u32 \<Rightarrow> u32"
  xm_round :: "u32 \<Rightarrow> u32"
  xm_length :: "float3 \<Rightarrow> u32"
  xm_normalize :: "float3 \<Rightarrow> float3"
  xm_coord :: "mat \<Rightarrow> float3 \<Rightarrow> float3"
  xm_normal :: "mat \<Rightarrow> float3 \<Rightarrow> float3"
  xm_identity :: mat
  xm_inverse :: "mat \<Rightarrow> mat"
  xm_mul :: "mat \<Rightarrow> mat \<Rightarrow> mat"
  xm_rotX :: "u32 \<Rightarrow> mat"
  xm_rotY :: "u32 \<Rightarrow> mat"
  xm_rotZ :: "u32 \<Rightarrow> mat"
  xm_ypr :: "u32 \<Rightarrow> u32 \<Rightarrow> u32 \<Rightarrow> mat"
  xm_trans :: "u32 \<Rightarrow> u32 \<Rightarrow> u32 \<Rightarrow> mat"
  xm_lookat :: "float3 \<Rightarrow> float3 \<Rightarrow> float3 \<Rightarrow> mat"
  xm_perspFov :: "u32 \<Rightarrow> u32 \<Rightarrow> u32 \<Rightarrow> u32 \<Rightarrow> mat"
  xm_perspOff :: "u32 \<Rightarrow> u32 \<Rightarrow> u32 \<Rightarrow> u32 \<Rightarrow> u32 \<Rightarrow> u32 \<Rightarrow> mat"
  xm_ortho :: "u32 \<Rightarrow> u32 \<Rightarrow> u32 \<Rightarrow> u32 \<Rightarrow> mat"
  xm_orthoOff :: "u32 \<Rightarrow> u32 \<Rightarrow> u32 \<Rightarrow> u32 \<Rightarrow> u32 \<Rightarrow> u32 \<Rightarrow> mat"

definition vec3 :: "u32 \<Rightarrow> u32 \<Rightarrow> u32 \<Rightarrow> float3" where
  "vec3 x y z = \<lparr>f3_x = x, f3_y = y, f3_z = z\<rparr>"

definition v_add :: "float3 \<Rightarrow> float3 \<Rightarrow> float3" where
  "v_add a b = vec3 (f_add (f3_x a) (f3_x b)) (f_add (f3_y a) (f3_y b)) (f_add (f3_z a) (f3_z b))"

definition v_sub :: "float3 \<Rightarrow> float3 \<Rightarrow> float3" where
  "v_sub a b = vec3 (f_sub (f3_x a) (f3_x b)) (f_sub (f3_y a) (f3_y b)) (f_sub (f3_z a) (f3_z b))"

definition v_scale :: "float3 \<Rightarrow> u32 \<Rightarrow> float3" where
  "v_scale a k = vec3 (f_mul (f3_x a) k) (f_mul (f3_y a) k) (f_mul (f3_z a) k)"

text \<open>Constants of the code: 1.0f, -1.0f, 2.0f, 1000.0f. D3DX divides a vector by multiplying with the reciprocal.\<close>

definition f_one :: u32 where "f_one = 0x3F800000"
definition f_m_one :: u32 where "f_m_one = 0xBF800000"
definition f_two :: u32 where "f_two = 0x40000000"
definition f_1000 :: u32 where "f_1000 = 0x447A0000"

definition half :: "u32 \<Rightarrow> u32" where
  "half w = f_div w f_two"

section \<open>The camera\<close>

datatype CAMERA_MODE = MODE_FREE | MODE_TARGET
datatype PROJECTION_TYPE = PROJECTION_PERSPECTIVE | PROJECTION_ORTHO
datatype PROJECTION_CENTER = CENTER_CENTERED | CENTER_OFFCENTER

record CAMERA_DESC =
  eMode :: CAMERA_MODE
  eProjectionType :: PROJECTION_TYPE
  eProjectionCenter :: PROJECTION_CENTER
  ptPos :: float3
  ptTarget :: float3
  fYaw :: u32
  fPitch :: u32
  fRoll :: u32
  fFovX :: u32
  fFovY :: u32
  fNear :: u32
  fFar :: u32
  fAspect :: u32
  fLeft :: u32
  fRight :: u32
  fBottom :: u32
  fTop :: u32

record FRUSTUM =
  ptHead :: float3
  vNormalRight :: float3
  vNormalTop :: float3
  vNormalLeft :: float3
  vNormalBottom :: float3

record CCamera =
  m_bInit :: bool
  m_vDirection :: float3
  m_fDistance :: u32
  m_matView :: mat
  m_matProj :: mat
  m_CameraDesc :: CAMERA_DESC
  m_Frustum :: FRUSTUM

definition zero3 :: float3 where "zero3 = vec3 0 0 0"

definition zero_desc :: CAMERA_DESC where
  "zero_desc = \<lparr>eMode = MODE_FREE, eProjectionType = PROJECTION_PERSPECTIVE, eProjectionCenter = CENTER_CENTERED, ptPos = zero3,
     ptTarget = zero3, fYaw = 0, fPitch = 0, fRoll = 0, fFovX = 0, fFovY = 0, fNear = 0, fFar = 0, fAspect = 0,
     fLeft = 0, fRight = 0, fBottom = 0, fTop = 0\<rparr>"

definition CCamera_new :: "xmath \<Rightarrow> CCamera" where
  "CCamera_new x = \<lparr>m_bInit = False, m_vDirection = vec3 0 0 f_one, m_fDistance = f_one, m_matView = xm_identity x,
     m_matProj = xm_identity x, m_CameraDesc = zero_desc,
     m_Frustum = \<lparr>ptHead = zero3, vNormalRight = zero3, vNormalTop = zero3, vNormalLeft = zero3, vNormalBottom = zero3\<rparr>\<rparr>"

text \<open>CleanUp sets every member to what the constructor sets it to.\<close>

definition CCamera_CleanUp :: "xmath \<Rightarrow> CCamera \<Rightarrow> bool \<times> CCamera" where
  "CCamera_CleanUp x c = (True, CCamera_new x)"

definition CCamera_Kill :: "xmath \<Rightarrow> CCamera \<Rightarrow> bool \<times> CCamera" where
  "CCamera_Kill x c = (if \<not> m_bInit c then (False, c) else CCamera_CleanUp x c)"

section \<open>Matrices and frustum\<close>

definition frustum_of :: "xmath \<Rightarrow> CAMERA_DESC \<Rightarrow> FRUSTUM" where
  "frustum_of x d =
     (let vLeft = xm_coord x (xm_rotY x (half (f_neg (fFovX d)))) (vec3 f_one 0 0);
          vRight = xm_coord x (xm_rotY x (half (fFovX d))) (vec3 f_m_one 0 0);
          vTop = xm_coord x (xm_rotX x (half (f_neg (fFovY d)))) (vec3 0 f_m_one 0);
          vBottom = xm_coord x (xm_rotX x (half (fFovY d))) (vec3 0 f_one 0);
          matRot = xm_mul x (xm_mul x (xm_rotZ x (fRoll d)) (xm_rotX x (fPitch d))) (xm_rotY x (fYaw d))
      in \<lparr>ptHead = ptPos d, vNormalRight = xm_coord x matRot vRight, vNormalTop = xm_coord x matRot vTop,
          vNormalLeft = xm_coord x matRot vLeft, vNormalBottom = xm_coord x matRot vBottom\<rparr>)"

definition UpdateFrustum :: "xmath \<Rightarrow> CCamera \<Rightarrow> bool \<times> CCamera" where
  "UpdateFrustum x c = (if \<not> m_bInit c then (False, c) else (True, c\<lparr>m_Frustum := frustum_of x (m_CameraDesc c)\<rparr>))"

text \<open>The look direction of a free camera, 1000 units long.\<close>

definition free_dir :: "xmath \<Rightarrow> CAMERA_DESC \<Rightarrow> float3" where
  "free_dir x d = xm_coord x (xm_ypr x (fYaw d) (fPitch d) (fRoll d)) (vec3 0 0 f_1000)"

definition view_of :: "xmath \<Rightarrow> CAMERA_DESC \<Rightarrow> mat" where
  "view_of x d = (case eMode d of
      MODE_FREE \<Rightarrow> xm_lookat x (ptPos d) (v_add (ptPos d) (free_dir x d))
        (xm_coord x (xm_ypr x (fYaw d) (fPitch d) (fRoll d)) (vec3 0 f_1000 0))
    | MODE_TARGET \<Rightarrow> xm_lookat x (ptPos d) (ptTarget d) (xm_coord x (xm_rotZ x (fRoll d)) (vec3 0 f_1000 0)))"

definition UpdateViewMatrix :: "xmath \<Rightarrow> CCamera \<Rightarrow> bool \<times> CCamera" where
  "UpdateViewMatrix x c = (if \<not> m_bInit c then (False, c)
     else let d = m_CameraDesc c;
              c1 = (if eMode d = MODE_FREE then c\<lparr>m_vDirection := v_scale (free_dir x d) (f_div f_one f_1000)\<rparr> else c)
          in (True, snd (UpdateFrustum x (c1\<lparr>m_matView := view_of x d\<rparr>))))"

definition proj_of :: "xmath \<Rightarrow> CAMERA_DESC \<Rightarrow> mat" where
  "proj_of x d = (case (eProjectionType d, eProjectionCenter d) of
      (PROJECTION_PERSPECTIVE, CENTER_CENTERED) \<Rightarrow> xm_perspFov x (fFovY d) (fAspect d) (fNear d) (fFar d)
    | (PROJECTION_PERSPECTIVE, CENTER_OFFCENTER) \<Rightarrow> xm_perspOff x (fLeft d) (fRight d) (fBottom d) (fTop d) (fNear d) (fFar d)
    | (PROJECTION_ORTHO, CENTER_CENTERED) \<Rightarrow> xm_ortho x (f_sub (fRight d) (fLeft d)) (f_sub (fTop d) (fBottom d)) (fNear d) (fFar d)
    | (PROJECTION_ORTHO, CENTER_OFFCENTER) \<Rightarrow> xm_orthoOff x (fLeft d) (fRight d) (fBottom d) (fTop d) (fNear d) (fFar d))"

definition UpdateProjectionMatrix :: "xmath \<Rightarrow> CCamera \<Rightarrow> bool \<times> CCamera" where
  "UpdateProjectionMatrix x c = (if \<not> m_bInit c then (False, c)
     else (True, snd (UpdateFrustum x (c\<lparr>m_matProj := proj_of x (m_CameraDesc c)\<rparr>))))"

text \<open>The flags are joined with the bit they are tested for, so both matrices are always updated.\<close>

definition UpdateMatrixes :: "xmath \<Rightarrow> u32 \<Rightarrow> CCamera \<Rightarrow> bool \<times> CCamera" where
  "UpdateMatrixes x dwFlag c = (if \<not> m_bInit c then (False, c)
     else let c1 = (if dwFlag OR 1 \<noteq> 0 then snd (UpdateViewMatrix x c) else c);
              c2 = (if dwFlag OR 2 \<noteq> 0 then snd (UpdateProjectionMatrix x c1) else c1)
          in (True, c2))"

definition set_desc :: "(CAMERA_DESC \<Rightarrow> CAMERA_DESC) \<Rightarrow> CCamera \<Rightarrow> CCamera" where
  "set_desc f c = c\<lparr>m_CameraDesc := f (m_CameraDesc c)\<rparr>"

text \<open>The ends of the setters: the view or the projection is updated unless the caller says no.\<close>

definition then_view :: "xmath \<Rightarrow> bool \<Rightarrow> CCamera \<Rightarrow> bool \<times> CCamera" where
  "then_view x bUpdate c = (True, if bUpdate then snd (UpdateViewMatrix x c) else c)"

definition then_proj :: "xmath \<Rightarrow> bool \<Rightarrow> CCamera \<Rightarrow> bool \<times> CCamera" where
  "then_proj x bUpdate c = (True, if bUpdate then snd (UpdateProjectionMatrix x c) else c)"

section \<open>Initialisation\<close>

definition fov_of :: "xmath \<Rightarrow> u32 \<Rightarrow> u32" where
  "fov_of x t = f_mul f_two (xm_atan x t)"

definition started :: "xmath \<Rightarrow> CCamera \<Rightarrow> bool \<times> CCamera" where
  "started x c = (True, (snd (UpdateProjectionMatrix x (c\<lparr>m_bInit := True\<rparr>)))\<lparr>m_matView := xm_identity x\<rparr>)"

definition CCamera_Initialize :: "xmath \<Rightarrow> u32 \<Rightarrow> u32 \<Rightarrow> u32 \<Rightarrow> u32 \<Rightarrow> CCamera \<Rightarrow> bool \<times> CCamera" where
  "CCamera_Initialize x fov aspect near far c =
     (let fovY = fov_of x (f_div (xm_tan x (half fov)) aspect);
          r = f_mul near (xm_tan x (half fov)); t = f_mul near (xm_tan x (half fovY))
      in started x (set_desc (\<lambda>d. d\<lparr>fNear := near, fFar := far, fFovX := fov, fAspect := aspect, fFovY := fovY, fRight := r,
           fLeft := f_neg r, fTop := t, fBottom := f_neg t, eProjectionType := PROJECTION_PERSPECTIVE,
           eProjectionCenter := CENTER_CENTERED\<rparr>) c))"

definition fov_sum :: "xmath \<Rightarrow> u32 \<Rightarrow> u32 \<Rightarrow> u32 \<Rightarrow> u32" where
  "fov_sum x lo hi near = f_add (fov_of x (f_div (f_neg lo) near)) (fov_of x (f_div hi near))"

definition CCamera_InitializeOffCenter :: "xmath \<Rightarrow> u32 \<Rightarrow> u32 \<Rightarrow> u32 \<Rightarrow> u32 \<Rightarrow> u32 \<Rightarrow> u32 \<Rightarrow> CCamera \<Rightarrow> bool \<times> CCamera" where
  "CCamera_InitializeOffCenter x l r b t near far c =
     started x (set_desc (\<lambda>d. d\<lparr>fLeft := l, fRight := r, fBottom := b, fTop := t, fNear := near, fFar := far,
       fAspect := f_div (f_sub r l) (f_sub t b), fFovX := fov_sum x l r near, fFovY := fov_sum x b t near,
       eProjectionType := PROJECTION_PERSPECTIVE, eProjectionCenter := CENTER_OFFCENTER\<rparr>) c)"

definition CCamera_InitializeOrtho :: "xmath \<Rightarrow> u32 \<Rightarrow> u32 \<Rightarrow> u32 \<Rightarrow> u32 \<Rightarrow> CCamera \<Rightarrow> bool \<times> CCamera" where
  "CCamera_InitializeOrtho x w h near far c =
     started x (set_desc (\<lambda>d. d\<lparr>fNear := near, fFar := far, fAspect := f_div w h, fFovX := fov_of x (f_div (half w) near),
       fFovY := fov_of x (f_div (half h) near), fRight := half w, fLeft := half (f_neg w), fTop := half h, fBottom := half (f_neg h),
       eProjectionType := PROJECTION_ORTHO, eProjectionCenter := CENTER_CENTERED\<rparr>) c)"

section \<open>Modes\<close>

definition both_flags :: u32 where "both_flags = 3"

definition CCamera_SetMode :: "xmath \<Rightarrow> CAMERA_MODE \<Rightarrow> CCamera \<Rightarrow> bool \<times> CCamera" where
  "CCamera_SetMode x mode c = (if \<not> m_bInit c then (False, c)
     else (True, snd (UpdateMatrixes x both_flags (set_desc (\<lambda>d. d\<lparr>eMode := mode\<rparr>) c))))"

definition CCamera_SetProjectionType :: "xmath \<Rightarrow> PROJECTION_TYPE \<Rightarrow> CCamera \<Rightarrow> bool \<times> CCamera" where
  "CCamera_SetProjectionType x t c = (True, snd (UpdateMatrixes x both_flags (set_desc (\<lambda>d. d\<lparr>eProjectionType := t\<rparr>) c)))"

definition CCamera_SetProjectionCenter :: "xmath \<Rightarrow> PROJECTION_CENTER \<Rightarrow> CCamera \<Rightarrow> bool \<times> CCamera" where
  "CCamera_SetProjectionCenter x t c = (True, snd (UpdateMatrixes x both_flags (set_desc (\<lambda>d. d\<lparr>eProjectionCenter := t\<rparr>) c)))"

definition CCamera_SetCamera :: "xmath \<Rightarrow> CAMERA_DESC \<Rightarrow> CCamera \<Rightarrow> bool \<times> CCamera" where
  "CCamera_SetCamera x desc c = (True, snd (UpdateMatrixes x both_flags (c\<lparr>m_bInit := True, m_CameraDesc := desc\<rparr>)))"

section \<open>Lens\<close>

text \<open>
  The lens setters test \<open>eProjectionCenter == PROJECTION_ORTHO\<close>, the second value of another enumeration, where the type
  is meant: the test is true of an off-centre camera.
\<close>

definition center_is_ortho :: "CAMERA_DESC \<Rightarrow> bool" where
  "center_is_ortho d \<longleftrightarrow> eProjectionCenter d = CENTER_OFFCENTER"

definition vertical_lens :: "xmath \<Rightarrow> CAMERA_DESC \<Rightarrow> CAMERA_DESC" where
  "vertical_lens x d = (let t = f_mul (fNear d) (xm_tan x (half (fFovY d))) in d\<lparr>fTop := t, fBottom := f_neg t\<rparr>)"

definition horizontal_lens :: "xmath \<Rightarrow> CAMERA_DESC \<Rightarrow> CAMERA_DESC" where
  "horizontal_lens x d = (let r = f_mul (fNear d) (xm_tan x (half (fFovX d))) in d\<lparr>fRight := r, fLeft := f_neg r\<rparr>)"

definition CCamera_SetAspect :: "xmath \<Rightarrow> u32 \<Rightarrow> bool \<Rightarrow> CCamera \<Rightarrow> bool \<times> CCamera" where
  "CCamera_SetAspect x aspect bUpdate c =
     (let d = m_CameraDesc c; done = (\<lambda>c. then_proj x bUpdate (set_desc (\<lambda>d. d\<lparr>fAspect := aspect\<rparr>) c)) in
      if \<not> m_bInit c then (False, c)
      else if eProjectionType d = PROJECTION_PERSPECTIVE then
        (case eProjectionCenter d of
           CENTER_CENTERED \<Rightarrow> done (set_desc (\<lambda>d. vertical_lens x
             (d\<lparr>fAspect := aspect, fFovY := fov_of x (f_div (xm_tan x (half (fFovX d))) aspect)\<rparr>)) c)
         | CENTER_OFFCENTER \<Rightarrow> (False, c))
      else if center_is_ortho d then (False, c)
      else done c)"

definition lens_setter :: "(CAMERA_DESC \<Rightarrow> CAMERA_DESC) \<Rightarrow> xmath \<Rightarrow> bool \<Rightarrow> CCamera \<Rightarrow> bool \<times> CCamera" where
  "lens_setter f x bUpdate c =
     (let d = m_CameraDesc c in
      if \<not> m_bInit c then (False, c)
      else if eProjectionType d = PROJECTION_PERSPECTIVE then
        (case eProjectionCenter d of CENTER_CENTERED \<Rightarrow> then_proj x bUpdate (set_desc f c) | CENTER_OFFCENTER \<Rightarrow> (False, c))
      else if center_is_ortho d then
        (case eProjectionCenter d of CENTER_CENTERED \<Rightarrow> then_proj x bUpdate (set_desc f c) | CENTER_OFFCENTER \<Rightarrow> (False, c))
      else then_proj x bUpdate c)"

definition CCamera_SetFovX :: "xmath \<Rightarrow> u32 \<Rightarrow> bool \<Rightarrow> CCamera \<Rightarrow> bool \<times> CCamera" where
  "CCamera_SetFovX x fov = lens_setter (\<lambda>d. vertical_lens x (horizontal_lens x
     (d\<lparr>fFovX := fov, fFovY := fov_of x (f_div (xm_tan x (half fov)) (fAspect d))\<rparr>))) x"

definition CCamera_SetFovY :: "xmath \<Rightarrow> u32 \<Rightarrow> bool \<Rightarrow> CCamera \<Rightarrow> bool \<times> CCamera" where
  "CCamera_SetFovY x fov = lens_setter (\<lambda>d. vertical_lens x (horizontal_lens x
     (d\<lparr>fFovY := fov, fFovX := fov_of x (f_mul (xm_tan x (half fov)) (fAspect d))\<rparr>))) x"

definition CCamera_SetViewRange :: "xmath \<Rightarrow> u32 \<Rightarrow> u32 \<Rightarrow> bool \<Rightarrow> CCamera \<Rightarrow> bool \<times> CCamera" where
  "CCamera_SetViewRange x near far bUpdate c =
     (let d = m_CameraDesc c; range = (\<lambda>d. d\<lparr>fNear := near, fFar := far\<rparr>) in
      if \<not> m_bInit c then (False, c)
      else if eProjectionType d = PROJECTION_PERSPECTIVE then
        (case eProjectionCenter d of
           CENTER_CENTERED \<Rightarrow> then_proj x bUpdate (set_desc range c)
         | CENTER_OFFCENTER \<Rightarrow> then_proj x bUpdate (set_desc (\<lambda>d. (range d)\<lparr>fFovX := fov_sum x (fLeft d) (fRight d) near,
             fFovY := fov_sum x (fBottom d) (fTop d) near\<rparr>) c))
      else if center_is_ortho d then then_proj x bUpdate (set_desc range c)
      else then_proj x bUpdate c)"

text \<open>The two forward without their update flag.\<close>

definition CCamera_SetNear :: "xmath \<Rightarrow> u32 \<Rightarrow> bool \<Rightarrow> CCamera \<Rightarrow> bool \<times> CCamera" where
  "CCamera_SetNear x near bUpdate c = CCamera_SetViewRange x near (fFar (m_CameraDesc c)) True c"

definition CCamera_SetFar :: "xmath \<Rightarrow> u32 \<Rightarrow> bool \<Rightarrow> CCamera \<Rightarrow> bool \<times> CCamera" where
  "CCamera_SetFar x far bUpdate c = CCamera_SetViewRange x (fNear (m_CameraDesc c)) far True c"

section \<open>Position and orientation\<close>

text \<open>
  In target mode the direction, the distance and yaw and pitch follow from position and target.
\<close>

definition aim :: "xmath \<Rightarrow> CCamera \<Rightarrow> CCamera" where
  "aim x c =
     (let d = m_CameraDesc c;
          vDir = xm_normalize x (v_sub (ptTarget d) (ptPos d));
          yaw = (if f_zero (f3_x vDir) \<and> f_zero (f3_z vDir) then 0 else xm_atan2 x (f3_x vDir) (f3_z vDir));
          v = xm_coord x (xm_ypr x (f_neg yaw) 0 0) vDir;
          pitch = (if f_zero (f3_y v) \<and> f_zero (f3_z v) then 0 else f_neg (xm_atan2 x (f3_y v) (f3_z v)))
      in c\<lparr>m_fDistance := xm_length x (v_sub (ptPos d) (ptTarget d)), m_vDirection := vDir,
           m_CameraDesc := d\<lparr>fYaw := yaw, fPitch := pitch\<rparr>\<rparr>)"

definition CCamera_SetPosition :: "xmath \<Rightarrow> float3 \<Rightarrow> bool \<Rightarrow> CCamera \<Rightarrow> bool \<times> CCamera" where
  "CCamera_SetPosition x pos bUpdate c =
     (if \<not> m_bInit c then (False, c)
      else let c1 = set_desc (\<lambda>d. d\<lparr>ptPos := pos\<rparr>) c; d = m_CameraDesc c1 in
        if eMode d = MODE_TARGET then then_view x bUpdate (aim x c1)
        else let vDir = xm_coord x (xm_ypr x (fYaw d) (fPitch d) (fRoll d)) (vec3 0 0 f_one) in
          then_view x bUpdate ((set_desc (\<lambda>d. d\<lparr>ptTarget := v_add pos (v_scale vDir (m_fDistance c))\<rparr>) c1)\<lparr>m_vDirection := vDir\<rparr>))"

definition CCamera_SetTarget :: "xmath \<Rightarrow> float3 \<Rightarrow> bool \<Rightarrow> CCamera \<Rightarrow> bool \<times> CCamera" where
  "CCamera_SetTarget x target bUpdate c =
     (if \<not> m_bInit c then (False, c)
      else if eMode (m_CameraDesc c) = MODE_FREE then (False, c)
      else then_view x bUpdate (aim x (set_desc (\<lambda>d. d\<lparr>ptTarget := target\<rparr>) c)))"

definition CCamera_SetPosition3 :: "xmath \<Rightarrow> u32 \<Rightarrow> u32 \<Rightarrow> u32 \<Rightarrow> bool \<Rightarrow> CCamera \<Rightarrow> bool \<times> CCamera" where
  "CCamera_SetPosition3 x fX fY fZ bUpdate c = (if \<not> m_bInit c then (False, c)
     else (True, snd (CCamera_SetPosition x (vec3 fX fY fZ) bUpdate c)))"

definition CCamera_SetTarget3 :: "xmath \<Rightarrow> u32 \<Rightarrow> u32 \<Rightarrow> u32 \<Rightarrow> bool \<Rightarrow> CCamera \<Rightarrow> bool \<times> CCamera" where
  "CCamera_SetTarget3 x fX fY fZ bUpdate c = (if \<not> m_bInit c then (False, c)
     else if eMode (m_CameraDesc c) = MODE_FREE then (False, c)
     else (True, snd (CCamera_SetTarget x (vec3 fX fY fZ) bUpdate c)))"

definition CCamera_SetOrientation :: "xmath \<Rightarrow> u32 \<Rightarrow> u32 \<Rightarrow> u32 \<Rightarrow> bool \<Rightarrow> CCamera \<Rightarrow> bool \<times> CCamera" where
  "CCamera_SetOrientation x yaw pitch roll bUpdate c =
     (if \<not> m_bInit c then (False, c)
      else let c1 = set_desc (\<lambda>d. d\<lparr>fYaw := yaw, fPitch := pitch, fRoll := roll\<rparr>) c; rot = xm_ypr x yaw pitch roll in
        (case eMode (m_CameraDesc c) of
           MODE_TARGET \<Rightarrow> (let vDir = xm_coord x rot (vec3 0 0 (m_fDistance c)) in
             then_view x bUpdate ((set_desc (\<lambda>d. d\<lparr>ptPos := v_sub (ptTarget d) vDir\<rparr>) c1)\<lparr>m_vDirection := xm_normalize x vDir\<rparr>))
         | MODE_FREE \<Rightarrow> (let vDir = xm_coord x rot (vec3 0 0 f_one) in
             then_view x bUpdate ((set_desc (\<lambda>d. d\<lparr>ptTarget := v_add (ptPos d) (v_scale vDir (m_fDistance c))\<rparr>) c1)\<lparr>m_vDirection := vDir\<rparr>))))"

definition CCamera_SetYaw :: "xmath \<Rightarrow> u32 \<Rightarrow> bool \<Rightarrow> CCamera \<Rightarrow> bool \<times> CCamera" where
  "CCamera_SetYaw x yaw b c = CCamera_SetOrientation x yaw (fPitch (m_CameraDesc c)) (fRoll (m_CameraDesc c)) b c"

definition CCamera_SetPitch :: "xmath \<Rightarrow> u32 \<Rightarrow> bool \<Rightarrow> CCamera \<Rightarrow> bool \<times> CCamera" where
  "CCamera_SetPitch x pitch b c = CCamera_SetOrientation x (fYaw (m_CameraDesc c)) pitch (fRoll (m_CameraDesc c)) b c"

definition CCamera_SetRoll :: "xmath \<Rightarrow> u32 \<Rightarrow> bool \<Rightarrow> CCamera \<Rightarrow> bool \<times> CCamera" where
  "CCamera_SetRoll x roll b c = CCamera_SetOrientation x (fYaw (m_CameraDesc c)) (fPitch (m_CameraDesc c)) roll b c"

definition CCamera_SetDistance :: "xmath \<Rightarrow> u32 \<Rightarrow> bool \<Rightarrow> CCamera \<Rightarrow> bool \<times> CCamera" where
  "CCamera_SetDistance x dist bUpdate c =
     (if \<not> m_bInit c then (False, c)
      else let d = m_CameraDesc c; c1 = c\<lparr>m_fDistance := dist\<rparr> in
        (case eMode d of
           MODE_TARGET \<Rightarrow> then_view x bUpdate (set_desc (\<lambda>d. d\<lparr>ptPos := v_sub (ptTarget d)
             (xm_coord x (xm_ypr x (fYaw d) (fPitch d) 0) (vec3 0 0 dist))\<rparr>) c1)
         | MODE_FREE \<Rightarrow> (True, set_desc (\<lambda>d. d\<lparr>ptTarget := v_add (ptPos d) (v_scale (m_vDirection c) dist)\<rparr>) c1)))"

section \<open>Queries\<close>

text \<open>The view and projection transforms handed to the device.\<close>

definition SetD3DCamera :: "bool \<Rightarrow> CCamera \<Rightarrow> (mat \<times> mat) option" where
  "SetD3DCamera pd3dDevice c = (if \<not> m_bInit c then None else if \<not> pd3dDevice then None else Some (m_matView c, m_matProj c))"

definition dot3 :: "float3 \<Rightarrow> float3 \<Rightarrow> float3 \<Rightarrow> u32" where
  "dot3 n p q = f_add (f_add (f_mul (f3_x n) (f_sub (f3_x p) (f3_x q))) (f_mul (f3_y n) (f_sub (f3_y p) (f3_y q))))
     (f_mul (f3_z n) (f_sub (f3_z p) (f3_z q)))"

definition PointToSurfaceDist :: "float3 \<Rightarrow> float3 \<Rightarrow> float3 \<Rightarrow> u32" where
  "PointToSurfaceDist ptPoint ptCenter vNormal = dot3 vNormal ptPoint ptCenter"

definition SphereInFrustum :: "xmath \<Rightarrow> mat \<Rightarrow> float3 \<Rightarrow> u32 \<Rightarrow> CCamera \<Rightarrow> bool" where
  "SphereInFrustum x matWorld ptCenter fRadius c \<longleftrightarrow> m_bInit c \<and>
     (let p = xm_coord x matWorld ptCenter; f = m_Frustum c; out = (\<lambda>n. f_less (PointToSurfaceDist p (ptHead f) n) (f_neg fRadius)) in
      \<not> out (vNormalLeft f) \<and> \<not> out (vNormalRight f) \<and> \<not> out (vNormalTop f) \<and> \<not> out (vNormalBottom f))"

definition GetOutCode :: "float3 \<Rightarrow> CCamera \<Rightarrow> u32" where
  "GetOutCode ptPoint c = (if \<not> m_bInit c then 0
     else let f = m_Frustum c; side = (\<lambda>n b. if f_less (dot3 n ptPoint (ptPos (m_CameraDesc c))) 0 then b else 0) in
       side (vNormalLeft f) 1 OR side (vNormalRight f) 2 OR side (vNormalTop f) 4 OR side (vNormalBottom f) 8)"

text \<open>A ray through a pixel; the pixel coordinates are \<open>LONG\<close>.\<close>

definition GetRayFromScreen :: "xmath \<Rightarrow> int \<times> int \<Rightarrow> u32 \<Rightarrow> u32 \<Rightarrow> CCamera \<Rightarrow> float3 option" where
  "GetRayFromScreen x pt w h c = (if \<not> m_bInit c then None
     else let inv = xm_inverse x (m_matView c);
              vx = f_div (f_sub (f_div (f_mul f_two (f_of_int (fst pt))) w) f_one) (m_matProj c 1 1);
              vy = f_div (f_neg (f_sub (f_div (f_mul f_two (f_of_int (snd pt))) h) f_one)) (m_matProj c 2 2);
              comp = (\<lambda>k. f_add (f_add (f_mul vx (inv 1 k)) (f_mul vy (inv 2 k))) (f_mul f_one (inv 3 k)))
          in Some (vec3 (comp 1) (comp 2) (comp 3)))"

definition GetYawPitch :: "xmath \<Rightarrow> float3 \<Rightarrow> u32 \<times> u32" where
  "GetYawPitch x v =
     (let r = xm_sqrt x (f_add (f_mul (f3_x v) (f3_x v)) (f_mul (f3_z v) (f3_z v)))
      in (if \<not> f_zero (f3_x v) \<or> \<not> f_zero (f3_z v) then xm_atan2 x (f3_x v) (f3_z v) else 0,
          if \<not> f_zero (f3_y v) \<or> \<not> f_zero r then f_neg (xm_atan2 x (f3_y v) r) else 0))"

definition GetBillboardMatrix3D :: "xmath \<Rightarrow> float3 \<Rightarrow> CCamera \<Rightarrow> mat option" where
  "GetBillboardMatrix3D x pos c = (if \<not> m_bInit c then None
     else let (yaw, pitch) = GetYawPitch x (v_sub pos (ptPos (m_CameraDesc c))) in Some (xm_mul x (xm_rotX x pitch) (xm_rotY x yaw)))"

text \<open>Both branches of the code compute the same angle.\<close>

definition GetBillboardMatrix2D :: "xmath \<Rightarrow> float3 \<Rightarrow> CCamera \<Rightarrow> mat option" where
  "GetBillboardMatrix2D x pos c = (if \<not> m_bInit c then None
     else let v = v_sub pos (ptPos (m_CameraDesc c)); yaw = xm_rotY x (f_neg (xm_atan x (f_div (f3_z v) (f3_x v)))) in
       Some (xm_mul x yaw (xm_mul x (xm_rotX x 0) (xm_rotZ x 0))))"

definition CCamera_GetRight :: "CCamera \<Rightarrow> float3" where
  "CCamera_GetRight c = vec3 (m_matView c 1 1) (m_matView c 2 1) (m_matView c 3 1)"

definition CCamera_GetUp :: "CCamera \<Rightarrow> float3" where
  "CCamera_GetUp c = vec3 (m_matView c 1 2) (m_matView c 2 2) (m_matView c 3 2)"

end
