(* ===== verification/RenderDialog.thy ===== *)
theory RenderDialog
  imports FloatArith
begin

text \<open>
  The dialog the 3D view is drawn in, \<open>CRenderDialog\<close> (Common/CRenderDialog.h, CRenderDialog.cpp): it turns the mouse messages
  of its window into interaction events, sent to a callback window and to itself, and keeps the cursor in
  the coordinates of its ranges. What Windows answers to the queries of a handler is the argument \<open>mouse_in\<close>.
\<close>

section \<open>Data\<close>

record VECTOR2 =
  v2_x :: u32
  v2_y :: u32

record RANGE =
  fMin :: u32
  fMax :: u32

record BUTTON_STATUS =
  bLButton :: bool
  bRButton :: bool
  bMButton :: bool

datatype INTERACTION_EVENT = MOUSE_ENTER | MOUSE_LEAVE | MOUSE_LBDOWN | MOUSE_LBUP | MOUSE_RBDOWN | MOUSE_RBUP | MOUSE_MOVE
  | MOUSE_DRAG_START | MOUSE_DRAGGING | MOUSE_DRAG_END | MOUSE_WHEEL

text \<open>\<open>nData\<close> is set by the wheel only.\<close>

record INTERACTION_MSG_DATA =
  eEvent :: INTERACTION_EVENT
  ButtonStatus :: BUTTON_STATUS
  ptCursor :: VECTOR2
  nData :: "int option"

record CRenderDialog =
  m_ptCursor :: VECTOR2
  m_ButtonStatus :: BUTTON_STATUS
  m_bDragging :: bool
  m_HorizRange :: RANGE
  m_VertRange :: RANGE
  m_hwndCallback :: nat

text \<open>
  A message's point, the buttons the handler reads itself, the buttons \<open>GetButtonStatus\<close> reads, whether the window
  is tracked already, and the size of the client area.
\<close>

record mouse_in =
  in_point :: "int \<times> int"
  in_down :: BUTTON_STATUS
  in_status :: BUTTON_STATUS
  in_tracked :: bool
  in_client :: "int \<times> int"

datatype receiver = To_callback nat | To_self

type_synonym sent = "receiver \<times> INTERACTION_MSG_DATA"

section \<open>Ranges and coordinates\<close>

definition RANGE_new :: RANGE where
  "RANGE_new = \<lparr>fMin = 0, fMax = 0x3F800000\<rparr>"

text \<open>The default constructor; the cursor and the buttons hold what was in memory.\<close>

definition CRenderDialog_new :: "VECTOR2 \<Rightarrow> BUTTON_STATUS \<Rightarrow> CRenderDialog" where
  "CRenderDialog_new junk status = \<lparr>m_ptCursor = junk, m_ButtonStatus = status, m_bDragging = False, m_HorizRange = RANGE_new,
     m_VertRange = RANGE_new, m_hwndCallback = 0\<rparr>"

text \<open>The constructor with a template leaves the drag flag and the callback as they were in memory too.\<close>

definition CRenderDialog_template :: "CRenderDialog \<Rightarrow> CRenderDialog" where
  "CRenderDialog_template memory = memory\<lparr>m_HorizRange := RANGE_new, m_VertRange := RANGE_new\<rparr>"

definition range_width :: "RANGE \<Rightarrow> u32" where
  "range_width r = f_sub (fMax r) (fMin r)"

definition to_port :: "RANGE \<Rightarrow> int \<Rightarrow> u32 \<Rightarrow> u32" where
  "to_port r n p = f_add (f_div (f_mul p (range_width r)) (f_of_int n)) (fMin r)"

definition ScreenToRenderPort :: "int \<times> int \<Rightarrow> VECTOR2 \<Rightarrow> CRenderDialog \<Rightarrow> VECTOR2" where
  "ScreenToRenderPort client pt d =
     \<lparr>v2_x = to_port (m_HorizRange d) (fst client) (v2_x pt), v2_y = to_port (m_VertRange d) (snd client) (v2_y pt)\<rparr>"

definition pixel :: "int \<times> int \<Rightarrow> VECTOR2" where
  "pixel pt = \<lparr>v2_x = f_of_int (fst pt), v2_y = f_of_int (snd pt)\<rparr>"

definition ScreenToRenderPort_pixel :: "int \<times> int \<Rightarrow> int \<times> int \<Rightarrow> CRenderDialog \<Rightarrow> VECTOR2" where
  "ScreenToRenderPort_pixel client pt d = ScreenToRenderPort client (pixel pt) d"

definition to_screen :: "RANGE \<Rightarrow> int \<Rightarrow> u32 \<Rightarrow> u32" where
  "to_screen r n p = f_div (f_mul (f_sub p (fMin r)) (f_of_int n)) (range_width r)"

definition RenderPortToScreen :: "int \<times> int \<Rightarrow> VECTOR2 \<Rightarrow> CRenderDialog \<Rightarrow> VECTOR2" where
  "RenderPortToScreen client pt d =
     \<lparr>v2_x = to_screen (m_HorizRange d) (fst client) (v2_x pt), v2_y = to_screen (m_VertRange d) (snd client) (v2_y pt)\<rparr>"

text \<open>A conversion to \<open>int\<close> drops the fraction; NaN and what an \<open>int\<close> cannot hold give the least \<open>int\<close> (x86).\<close>

definition f_to_int :: "u32 \<Rightarrow> int" where
  "f_to_int w = (let t = (if f_units w < 0 then - (- f_units w div 2 ^ 149) else f_units w div 2 ^ 149) in
     if f_nan w \<or> f_inf w \<or> t < - 2147483648 \<or> 2147483647 < t then - 2147483648 else t)"

definition RenderPortToScreenPixel :: "int \<times> int \<Rightarrow> VECTOR2 \<Rightarrow> CRenderDialog \<Rightarrow> int \<times> int" where
  "RenderPortToScreenPixel client pt d = (let s = RenderPortToScreen client pt d in (f_to_int (v2_x s), f_to_int (v2_y s)))"

definition GetCursorPosPixel :: "CRenderDialog \<Rightarrow> int \<times> int" where
  "GetCursorPosPixel d = (f_to_int (v2_x (m_ptCursor d)), f_to_int (v2_y (m_ptCursor d)))"

definition GetCursorPos :: "CRenderDialog \<Rightarrow> VECTOR2" where
  "GetCursorPos d = m_ptCursor d"

definition GetHorizRange :: "CRenderDialog \<Rightarrow> RANGE" where
  "GetHorizRange d = m_HorizRange d"

definition SetHorizRange :: "RANGE \<Rightarrow> CRenderDialog \<Rightarrow> CRenderDialog" where
  "SetHorizRange r d = d\<lparr>m_HorizRange := r\<rparr>"

text \<open>The accessors of the vertical range use the horizontal one.\<close>

definition GetVertRange :: "CRenderDialog \<Rightarrow> RANGE" where
  "GetVertRange d = m_HorizRange d"

definition SetVertRange :: "RANGE \<Rightarrow> CRenderDialog \<Rightarrow> CRenderDialog" where
  "SetVertRange r d = d\<lparr>m_HorizRange := r\<rparr>"

definition SetRange :: "int \<times> int \<Rightarrow> u32 \<Rightarrow> u32 \<Rightarrow> u32 \<Rightarrow> u32 \<Rightarrow> CRenderDialog \<Rightarrow> CRenderDialog" where
  "SetRange client x1 y1 x2 y2 d =
     (let pt = RenderPortToScreen client (m_ptCursor d) d;
          d1 = d\<lparr>m_HorizRange := \<lparr>fMin = x1, fMax = x2\<rparr>, m_VertRange := \<lparr>fMin = y1, fMax = y2\<rparr>\<rparr>
      in d1\<lparr>m_ptCursor := ScreenToRenderPort client pt d1\<rparr>)"

definition SetCallbackHwnd :: "nat \<Rightarrow> CRenderDialog \<Rightarrow> CRenderDialog" where
  "SetCallbackHwnd h d = d\<lparr>m_hwndCallback := h\<rparr>"

definition PreSubclassWindow :: "int \<times> int \<Rightarrow> nat \<Rightarrow> CRenderDialog \<Rightarrow> CRenderDialog" where
  "PreSubclassWindow client parent d =
     (SetRange client 0 0 (f_of_int (fst client)) (f_of_int (snd client)) d)\<lparr>m_hwndCallback := parent\<rparr>"

section \<open>Mouse messages\<close>

definition GetButtonStatus :: "mouse_in \<Rightarrow> CRenderDialog \<Rightarrow> BUTTON_STATUS \<times> CRenderDialog" where
  "GetButtonStatus m d = (in_status m, d\<lparr>m_ButtonStatus := in_status m\<rparr>)"

text \<open>An event goes to the callback window first and to the dialog itself then.\<close>

definition send_event :: "INTERACTION_EVENT \<Rightarrow> int option \<Rightarrow> CRenderDialog \<Rightarrow> sent list" where
  "send_event e n d = (let imd = \<lparr>eEvent = e, ButtonStatus = m_ButtonStatus d, ptCursor = m_ptCursor d, nData = n\<rparr> in
     [(To_callback (m_hwndCallback d), imd), (To_self, imd)])"

definition OnMouseMove :: "mouse_in \<Rightarrow> CRenderDialog \<Rightarrow> CRenderDialog \<times> sent list" where
  "OnMouseMove m d =
     (let d1 = d\<lparr>m_ptCursor := ScreenToRenderPort (in_client m) (pixel (in_point m)) d\<rparr>;
          bMouseDown = (bLButton (in_down m) \<or> bRButton (in_down m) \<or> bMButton (in_down m));
          d2 = snd (GetButtonStatus m d1)
      in if \<not> in_tracked m then (d2, send_event MOUSE_ENTER None d2)
         else if \<not> m_bDragging d2 \<and> bMouseDown then (d2\<lparr>m_bDragging := True\<rparr>, send_event MOUSE_DRAG_START None d2)
         else if m_bDragging d2 \<and> \<not> bMouseDown then (d2\<lparr>m_bDragging := False\<rparr>, send_event MOUSE_DRAG_END None d2)
         else if m_bDragging d2 \<and> bMouseDown then (d2, send_event MOUSE_DRAGGING None d2)
         else (d2, send_event MOUSE_MOVE None d2))"

definition OnButtonDown :: "INTERACTION_EVENT \<Rightarrow> mouse_in \<Rightarrow> CRenderDialog \<Rightarrow> CRenderDialog \<times> sent list" where
  "OnButtonDown e m d = (let d1 = snd (GetButtonStatus m d) in (d1, send_event e None d1))"

definition OnLButtonDown :: "mouse_in \<Rightarrow> CRenderDialog \<Rightarrow> CRenderDialog \<times> sent list" where
  "OnLButtonDown = OnButtonDown MOUSE_LBDOWN"

definition OnRButtonDown :: "mouse_in \<Rightarrow> CRenderDialog \<Rightarrow> CRenderDialog \<times> sent list" where
  "OnRButtonDown = OnButtonDown MOUSE_RBDOWN"

text \<open>A button's release ends a drag, whichever button began it.\<close>

definition OnButtonUp :: "INTERACTION_EVENT \<Rightarrow> mouse_in \<Rightarrow> CRenderDialog \<Rightarrow> CRenderDialog \<times> sent list" where
  "OnButtonUp e m d = (let d1 = snd (GetButtonStatus m d) in
     if m_bDragging d1 then (d1\<lparr>m_bDragging := False\<rparr>, send_event e None d1 @ send_event MOUSE_DRAG_END None d1)
     else (d1, send_event e None d1))"

definition OnLButtonUp :: "mouse_in \<Rightarrow> CRenderDialog \<Rightarrow> CRenderDialog \<times> sent list" where
  "OnLButtonUp = OnButtonUp MOUSE_LBUP"

definition OnRButtonUp :: "mouse_in \<Rightarrow> CRenderDialog \<Rightarrow> CRenderDialog \<times> sent list" where
  "OnRButtonUp = OnButtonUp MOUSE_RBUP"

definition OnMouseWheel :: "int \<Rightarrow> mouse_in \<Rightarrow> CRenderDialog \<Rightarrow> CRenderDialog \<times> sent list" where
  "OnMouseWheel zDelta m d = (let d1 = snd (GetButtonStatus m d) in (d1, send_event MOUSE_WHEEL (Some zDelta) d1))"

text \<open>\<open>OnWndMsg\<close> re-arms the tracking: a hover is followed by a leave, a leave by a hover.\<close>

datatype tracking = TME_HOVER | TME_LEAVE
datatype wnd_msg = WM_MOUSEHOVER | WM_MOUSELEAVE | WM_OTHER

definition OnWndMsg :: "wnd_msg \<Rightarrow> tracking option" where
  "OnWndMsg m = (case m of WM_MOUSEHOVER \<Rightarrow> Some TME_LEAVE | WM_MOUSELEAVE \<Rightarrow> Some TME_HOVER | WM_OTHER \<Rightarrow> None)"

section \<open>Sequences of messages\<close>

datatype mouse_msg = Move mouse_in | LDown mouse_in | LUp mouse_in | RDown mouse_in | RUp mouse_in | Wheel int mouse_in

fun dialog_step :: "mouse_msg \<Rightarrow> CRenderDialog \<Rightarrow> CRenderDialog \<times> sent list" where
  "dialog_step (Move m) d = OnMouseMove m d"
| "dialog_step (LDown m) d = OnLButtonDown m d"
| "dialog_step (LUp m) d = OnLButtonUp m d"
| "dialog_step (RDown m) d = OnRButtonDown m d"
| "dialog_step (RUp m) d = OnRButtonUp m d"
| "dialog_step (Wheel z m) d = OnMouseWheel z m d"

fun dialog_run :: "mouse_msg list \<Rightarrow> CRenderDialog \<Rightarrow> CRenderDialog \<times> sent list" where
  "dialog_run [] d = (d, [])"
| "dialog_run (m # ms) d = (let (d1, out1) = dialog_step m d; (d2, out2) = dialog_run ms d1 in (d2, out1 @ out2))"

section \<open>Drags are bracketed\<close>

text \<open>
  What a receiver may rely on: a drag starts when none runs, moves and ends only when one runs, and the cursor does not
  move freely meanwhile. The value is whether a drag runs at the end; None when the order is broken.
\<close>

fun drag_order :: "bool \<Rightarrow> INTERACTION_EVENT list \<Rightarrow> bool option" where
  "drag_order b [] = Some b"
| "drag_order b (e # es) =
     (if e = MOUSE_DRAG_START then (if b then None else drag_order True es)
      else if e = MOUSE_DRAGGING then (if b then drag_order b es else None)
      else if e = MOUSE_DRAG_END then (if b then drag_order False es else None)
      else if e = MOUSE_MOVE then (if b then None else drag_order b es)
      else drag_order b es)"

definition seen_by :: "receiver \<Rightarrow> sent list \<Rightarrow> INTERACTION_MSG_DATA list" where
  "seen_by r out = map snd (filter (\<lambda>s. fst s = r) out)"

lemma seen_by_append [simp]: "seen_by r (a @ b) = seen_by r a @ seen_by r b"
  by (simp add: seen_by_def)

lemma drag_order_append: "drag_order b (es @ es') = (case drag_order b es of None \<Rightarrow> None | Some b' \<Rightarrow> drag_order b' es')"
  by (induction b es rule: drag_order.induct) auto

lemmas handler_defs = OnMouseMove_def OnLButtonDown_def OnRButtonDown_def OnButtonDown_def OnLButtonUp_def OnRButtonUp_def
  OnButtonUp_def OnMouseWheel_def GetButtonStatus_def send_event_def seen_by_def Let_def

lemma step_callback [simp]: "m_hwndCallback (fst (dialog_step m d)) = m_hwndCallback d"
  by (cases m) (auto simp: handler_defs)

lemma step_seen: "seen_by (To_callback (m_hwndCallback d)) (snd (dialog_step m d)) = seen_by To_self (snd (dialog_step m d))"
  by (cases m) (auto simp: handler_defs)

lemma step_drag: "drag_order (m_bDragging d) (map eEvent (seen_by To_self (snd (dialog_step m d)))) = Some (m_bDragging (fst (dialog_step m d)))"
  by (cases m) (auto simp: handler_defs)

lemma run_seen: "seen_by (To_callback (m_hwndCallback d)) (snd (dialog_run ms d)) = seen_by To_self (snd (dialog_run ms d))"
proof (induction ms arbitrary: d)
  case (Cons m ms)
  show ?case using step_seen [of d m] Cons.IH [of "fst (dialog_step m d)"] by (simp add: case_prod_beta Let_def)
qed (simp add: seen_by_def)

lemma run_drag: "drag_order (m_bDragging d) (map eEvent (seen_by To_self (snd (dialog_run ms d)))) = Some (m_bDragging (fst (dialog_run ms d)))"
proof (induction ms arbitrary: d)
  case (Cons m ms)
  show ?case using step_drag [of d m] Cons.IH [of "fst (dialog_step m d)"]
    by (simp add: case_prod_beta Let_def drag_order_append)
qed (simp add: seen_by_def)

text \<open>
  Messages that leave no drag open: a move over the tracked window with no button down, the release of the left or the right
  button. A move that enters the window, and the middle button, end nothing.
\<close>

fun settles :: "mouse_msg \<Rightarrow> bool" where
  "settles (Move i) \<longleftrightarrow> in_tracked i \<and> \<not> bLButton (in_down i) \<and> \<not> bRButton (in_down i) \<and> \<not> bMButton (in_down i)"
| "settles (LUp i) \<longleftrightarrow> True"
| "settles (RUp i) \<longleftrightarrow> True"
| "settles m \<longleftrightarrow> False"

lemma step_ends: "settles m \<Longrightarrow> \<not> m_bDragging (fst (dialog_step m d))"
  by (cases m) (auto simp: handler_defs)

lemma run_append: "dialog_run (ms @ ms') d =
    (fst (dialog_run ms' (fst (dialog_run ms d))), snd (dialog_run ms d) @ snd (dialog_run ms' (fst (dialog_run ms d))))"
  by (induction ms arbitrary: d) (simp_all add: case_prod_beta Let_def)

lemma run_callback [simp]: "m_hwndCallback (fst (dialog_run ms d)) = m_hwndCallback d"
  by (induction ms arbitrary: d) (simp_all add: case_prod_beta Let_def)

text \<open>
  C26. The dialog as both programs create it, with the template constructor, which leaves the drag flag as it was in memory, and its window's
  \<open>PreSubclassWindow\<close>: whatever mouse messages arrive, the parent window and the dialog itself see the same events, and drags are
  bracketed (a start, moves, an end, never a second start, never a free move inside) from the state that flag claims: a flag that
  happens to be set stands for a drag without a start. From the first message on that ends a drag, a release of the left or the right button
  or a move over the tracked window with no button down, the events are bracketed from no open drag, whatever was in memory.
\<close>

theorem drag_events_are_bracketed:
  assumes "d = PreSubclassWindow client parent (CRenderDialog_template memory)"
  shows "let r = dialog_run ms d; seen = map eEvent (seen_by (To_callback parent) (snd r));
             r' = dialog_run ms' (fst (dialog_run (ms @ [m]) d)); seen' = map eEvent (seen_by (To_callback parent) (snd r')) in
    seen = map eEvent (seen_by To_self (snd r)) \<and> drag_order (m_bDragging memory) seen = Some (m_bDragging (fst r)) \<and>
    (settles m \<longrightarrow> drag_order False seen' = Some (m_bDragging (fst r')))"
proof -
  have d: "m_bDragging d = m_bDragging memory" "m_hwndCallback d = parent"
    by (simp_all add: assms PreSubclassWindow_def CRenderDialog_template_def SetRange_def Let_def)
  define d' where "d' = fst (dialog_run (ms @ [m]) d)"
  have p: "m_hwndCallback d' = parent" "settles m \<Longrightarrow> \<not> m_bDragging d'"
    using step_ends [of m] by (simp_all add: d'_def d run_append case_prod_beta Let_def)
  have "drag_order False (map eEvent (seen_by To_self (snd (dialog_run ms' d')))) = Some (m_bDragging (fst (dialog_run ms' d')))" if "settles m"
    using run_drag [of d' ms'] p(2) [OF that] by simp
  then show ?thesis
    using run_seen [of d ms] run_drag [of d ms] run_seen [of d' ms'] d p(1)
    by (simp add: d'_def [symmetric] Let_def)
qed

text \<open>
  The vertical range cannot be set by its setter: \<open>SetVertRange\<close> replaces the horizontal range, so that a point's
  horizontal coordinate changes its scale and the vertical one does not.
\<close>

theorem vertical_range_setter_sets_horizontal:
  "let d' = SetVertRange r d in GetVertRange d' = r \<and> GetHorizRange d' = r \<and>
     v2_x (ScreenToRenderPort client pt d') = to_port r (fst client) (v2_x pt) \<and>
     v2_y (ScreenToRenderPort client pt d') = v2_y (ScreenToRenderPort client pt d)"
  by (simp add: SetVertRange_def GetVertRange_def GetHorizRange_def ScreenToRenderPort_def)

definition w_mouse :: mouse_in where
  "w_mouse = (let up = \<lparr>bLButton = False, bRButton = False, bMButton = False\<rparr> in
     \<lparr>in_point = (1, 2), in_down = up, in_status = up, in_tracked = True, in_client = (4, 4)\<rparr>)"

definition w_memory :: CRenderDialog where
  "w_memory = \<lparr>m_ptCursor = pixel (0, 0), m_ButtonStatus = in_down w_mouse, m_bDragging = True, m_HorizRange = RANGE_new, m_VertRange = RANGE_new,
     m_hwndCallback = 0\<rparr>"

text \<open>A drag flag that is set in memory: the first move is the end of a drag that never started; after it the events are in order.\<close>

lemma drag_events_are_bracketed_witness:
  "let d = PreSubclassWindow (4, 4) 7 (CRenderDialog_template w_memory); r = dialog_run [Move w_mouse] d in
   map eEvent (seen_by (To_callback 7) (snd r)) = [MOUSE_DRAG_END] \<and> drag_order True [MOUSE_DRAG_END] = Some (m_bDragging (fst r)) \<and>
   (let r' = dialog_run [LDown w_mouse, Move w_mouse] (fst r) in
     drag_order False (map eEvent (seen_by (To_callback 7) (snd r'))) = Some (m_bDragging (fst r')))"
proof -
  define d where "d = PreSubclassWindow (4, 4) 7 (CRenderDialog_template w_memory)"
  have s: "settles (Move w_mouse)" by (simp add: w_mouse_def Let_def)
  have e: "map eEvent (seen_by (To_callback 7) (snd (dialog_run [Move w_mouse] d))) = [MOUSE_DRAG_END]"
    by (simp add: d_def handler_defs w_mouse_def PreSubclassWindow_def CRenderDialog_template_def SetRange_def w_memory_def)
  show ?thesis
    using drag_events_are_bracketed [OF d_def, of "[Move w_mouse]" "[LDown w_mouse, Move w_mouse]" "Move w_mouse"]
      drag_events_are_bracketed [OF d_def, of "[]" "[LDown w_mouse, Move w_mouse]" "Move w_mouse"] s e
    unfolding d_def [symmetric] Let_def by (auto simp: w_memory_def simp del: dialog_step.simps dialog_run.simps(2) drag_order.simps)
qed

end
