(* ===== verification/Viewer.thy ===== *)
theory Viewer
  imports ModelCache WebClient D3DModel Camera RenderDialog
begin

text \<open>
  The viewer's dialog, \<open>CModelViewerDlg\<close> (ModelViewer/ModelViewerDlg.h, ModelViewerDlg.cpp): what it holds, the
  loading of models from files and from messages of its download threads, the view, the history and the
  buttons. The record follows the class; the render dialog it derives from is its first field. A pointer to a loaded
  model or a Direct3D model is an option, a loaded model that is replaced without being freed is counted in
  \<open>m_lostModels\<close>. \<open>Fail\<close> is a C++ exception that leaves the function.
\<close>

section \<open>Environment\<close>

text \<open>
  Direct3D, D3DX, Windows, LZ4, the memory short reads leave, GDI+ and the URI parser. \<open>ve_tex\<close> says whether a
  texture is created from data, \<open>ve_image\<close> is the size GDI+ finds, \<open>ve_png\<close> what saving the
  thumbnail's surface gives for its view, projection and draw calls, \<open>ve_size_t\<close> the width of \<open>size_t\<close>.
\<close>

record viewer_env =
  ve_x :: xmath
  ve_d3d :: d3d_env
  ve_os :: win_os
  ve_lz :: lz4_api
  ve_fuel :: nat
  ve_junkm :: "CMemStream \<Rightarrow> nat \<Rightarrow> byte"
  ve_junkf :: "CFileStream \<Rightarrow> nat \<Rightarrow> byte"
  ve_tex :: "gpu \<Rightarrow> bytes option \<Rightarrow> bool"
  ve_image :: "bytes option \<Rightarrow> (int \<times> int) option"
  ve_png :: "mat \<Rightarrow> mat \<Rightarrow> draw_call list \<Rightarrow> bytes option"
  ve_parse :: "string \<Rightarrow> uri option"
  ve_authority :: "uri \<Rightarrow> string"
  ve_size_t :: nat

section \<open>The dialog\<close>

type_synonym POINTER_PASS = "bytes option \<times> u32"

record CModelViewerDlg =
  m_base :: CRenderDialog
  m_Camera :: CCamera
  m_ThumbCamera :: CCamera
  m_Viewport :: "u32 \<times> u32"
  m_bFileOpened :: bool
  m_bHasFilename :: bool
  m_strFilename :: string
  m_pd3dModel1 :: "D3D_MODEL option"
  m_pModel1 :: "TD_SCAN_MODEL option"
  m_pd3dModel2 :: "D3D_MODEL option"
  m_pModel2 :: "TD_SCAN_MODEL option"
  m_matWorld1 :: mat
  m_matWorld2 :: mat
  m_matChecker1 :: mat
  m_matChecker2 :: mat
  m_ptCheckerPos :: float3
  m_fYaw :: u32
  m_fPitch :: u32
  m_pAdTex :: "nat option"
  m_strAdUrl :: string
  m_iAdWidth1 :: int
  m_iAdHeight1 :: int
  m_bDownloading :: bool
  m_fDownloadProgress :: u32
  m_PointerPass0 :: POINTER_PASS
  m_PointerPass1 :: POINTER_PASS
  m_PointerPass2 :: POINTER_PASS
  m_Cache :: CModelCache
  m_ppszTextureNames :: "bytes list option"
  m_iTextureCount :: int
  m_iFileSize :: int
  m_strSubsid :: string
  m_bShowRecentLeft :: bool
  m_bShowRecentRight :: bool
  m_bInitialized :: bool
  m_bDualView :: bool
  m_ppThumbnails :: "nat option list option"
  m_iThumbCount :: int
  m_pstrModelFiles :: "wstr list"
  m_pstrAdFiles :: "wstr list"
  m_iCurPart1 :: int
  m_iCurPart2 :: int
  m_vModelSize1 :: float3
  m_vModelSize2 :: float3
  m_ptModelCenter1 :: float3
  m_ptModelCenter2 :: float3
  m_matCenter1 :: mat
  m_matCenter2 :: mat
  m_matRot :: mat
  m_ptPos1 :: float3
  m_matMove :: mat
  m_bShowSize :: bool
  s_ptStart :: VECTOR2
  m_gpu :: gpu
  m_fs :: filesys
  m_lostModels :: nat

text \<open>
  The constructor. What it does not set (matrices, sizes, the file size, the advertisement's size, the flag for dragging)
  holds what the memory held: \<open>memory\<close>. The camera's constructor is run for both cameras.
\<close>

definition CModelViewerDlg_new :: "viewer_env \<Rightarrow> CModelViewerDlg \<Rightarrow> CModelViewerDlg" where
  "CModelViewerDlg_new env memory = (let x = ve_x env; I = xm_identity x; none = (\<lambda>s. (None, snd s)) in
     memory\<lparr>m_base := CRenderDialog_template (m_base memory), m_Camera := CCamera_new x, m_ThumbCamera := CCamera_new x,
       m_bFileOpened := False, m_bHasFilename := False, m_strFilename := [], m_pd3dModel1 := None, m_pModel1 := None,
       m_pd3dModel2 := None, m_pModel2 := None, m_matWorld1 := I, m_matWorld2 := I, m_fYaw := 0, m_fPitch := 0,
       m_ptPos1 := zero3, m_ppszTextureNames := None, m_iTextureCount := 0, m_pAdTex := None, m_strAdUrl := [],
       m_ppThumbnails := None, m_pstrModelFiles := [], m_pstrAdFiles := [], m_iThumbCount := 0,
       m_bInitialized := False, m_bShowRecentLeft := False, m_bShowRecentRight := False, m_bDualView := False,
       m_bDownloading := False, m_PointerPass0 := none (m_PointerPass0 memory), m_PointerPass1 := none (m_PointerPass1 memory),
       m_PointerPass2 := none (m_PointerPass2 memory), m_Cache := CModelCache_new, m_strSubsid := [], m_iCurPart1 := 0,
       m_iCurPart2 := 0, m_bShowSize := False, s_ptStart := \<lparr>v2_x = 0, v2_y = 0\<rparr>, m_lostModels := 0\<rparr>)"

definition deref :: "'a option \<Rightarrow> 'a outcome" where
  "deref p = (case p of None \<Rightarrow> UB | Some a \<Rightarrow> Done a)"

text \<open>The loaded model the \<open>pBase\<close> pointers of the first Direct3D model point into; nothing when there is none.\<close>

definition base1 :: "CModelViewerDlg \<Rightarrow> TD_SCAN_MODEL" where
  "base1 v = (case m_pModel1 v of Some td \<Rightarrow> td
     | None \<Rightarrow> \<lparr>Parts = [], Materials = [], Textures = [], ptMin = zero3, ptMax = zero3\<rparr>)"

section \<open>View\<close>

definition UpdateWorldMatrix :: "viewer_env \<Rightarrow> CModelViewerDlg \<Rightarrow> CModelViewerDlg" where
  "UpdateWorldMatrix env v =
     (let x = ve_x env; matYaw = xm_rotY x (m_fYaw v); matPitch = xm_rotX x (m_fPitch v);
          v1 = (if m_pd3dModel1 v = None then v
                else let rot = xm_mul x matYaw matPitch;
                         move = xm_trans x (f3_x (m_ptPos1 v)) (f3_y (m_ptPos1 v)) (f3_z (m_ptPos1 v))
                     in v\<lparr>m_matRot := rot, m_matMove := move, m_matWorld1 := xm_mul x (xm_mul x (m_matCenter1 v) rot) move,
                          m_matWorld2 := xm_mul x (xm_mul x (m_matCenter2 v) rot) move\<rparr>);
          chk = xm_mul x (xm_mul x (xm_trans x (f3_x (m_ptCheckerPos v)) 0 (f3_z (m_ptCheckerPos v))) matYaw) matPitch
      in if m_pd3dModel1 v = None \<and> m_pd3dModel2 v = None then v1 else v1\<lparr>m_matChecker1 := chk, m_matChecker2 := chk\<rparr>)"

text \<open>The distance at which an extent of the model fills the view of angle \<open>fov\<close>, times a margin.\<close>

definition fit_distance :: "viewer_env \<Rightarrow> u32 \<Rightarrow> u32 \<Rightarrow> u32 \<Rightarrow> u32 \<Rightarrow> u32" where
  "fit_distance env fov lo hi margin = f_div (f_mul (f_mul (f_div f_one (xm_tan (ve_x env) (half fov))) (f_sub hi lo)) margin) f_two"

definition view_distance :: "viewer_env \<Rightarrow> u32 \<Rightarrow> u32 \<Rightarrow> u32 \<Rightarrow> TD_SCAN_MODEL \<Rightarrow> u32" where
  "view_distance env fovX fovY margin td =
     (let zy = fit_distance env fovY (f3_y (ptMin td)) (f3_y (ptMax td)) margin;
          zx = fit_distance env fovX (f3_x (ptMin td)) (f3_x (ptMax td)) margin
      in if f_less zy zx then zx else zy)"

text \<open>The checker board is placed but no longer built: \<open>CreateChecker\<close> returns at once.\<close>

definition f_1_4 :: u32 where "f_1_4 = 0x3FB33333"
definition f_1_25 :: u32 where "f_1_25 = 0x3FA00000"

definition ResetView :: "viewer_env \<Rightarrow> CModelViewerDlg \<Rightarrow> CModelViewerDlg outcome" where
  "ResetView env v = (case m_pd3dModel1 v of None \<Rightarrow> Done v
     | Some d \<Rightarrow>
         (let x = ve_x env; size = v_sub (d_ptMax d) (d_ptMin d);
              bx = f_mul (xm_round x (f3_x size)) f_two; bz = f_mul (xm_round x (f3_z size)) f_two;
              v1 = v\<lparr>m_ptCheckerPos := (m_ptCheckerPos v)\<lparr>f3_x := half (f_neg bx), f3_z := half (f_neg bz)\<rparr>\<rparr>
          in obind (deref (m_pModel1 v)) (\<lambda>td.
             let z = view_distance env (fFovX (m_CameraDesc (m_Camera v))) (fFovY (m_CameraDesc (m_Camera v))) f_1_4 td
             in Done (UpdateWorldMatrix env (v1\<lparr>m_Camera := snd (CCamera_SetDistance x z True (m_Camera v)),
                  m_fYaw := 0, m_fPitch := 0, m_ptPos1 := zero3\<rparr>)))))"

definition center_of :: "D3D_MODEL \<Rightarrow> float3" where
  "center_of d = (let mid = (\<lambda>f. half (f_add (f (d_ptMax d)) (f (d_ptMin d)))) in vec3 (mid f3_x) (mid f3_y) (mid f3_z))"

definition to_origin :: "viewer_env \<Rightarrow> float3 \<Rightarrow> mat" where
  "to_origin env c = xm_trans (ve_x env) (f_neg (f3_x c)) (f_neg (f3_y c)) (f_neg (f3_z c))"

definition OnModelLoaded1 :: "viewer_env \<Rightarrow> CModelViewerDlg \<Rightarrow> CModelViewerDlg outcome" where
  "OnModelLoaded1 env v = obind (deref (m_pd3dModel1 v)) (\<lambda>d. ResetView env
     (v\<lparr>m_iCurPart1 := 0, m_ptModelCenter1 := center_of d, m_vModelSize1 := v_sub (d_ptMax d) (d_ptMin d), m_fYaw := 0, m_fPitch := 0,
        m_ptPos1 := zero3, m_matCenter1 := to_origin env (center_of d)\<rparr>))"

definition OnModelLoaded2 :: "viewer_env \<Rightarrow> CModelViewerDlg \<Rightarrow> CModelViewerDlg outcome" where
  "OnModelLoaded2 env v = obind (deref (m_pd3dModel2 v)) (\<lambda>d. Done
     (v\<lparr>m_iCurPart2 := 0, m_ptModelCenter2 := center_of d, m_vModelSize2 := v_sub (d_ptMax d) (d_ptMin d),
        m_matCenter2 := to_origin env (center_of d)\<rparr>))"

definition IsNegativePitch :: "viewer_env \<Rightarrow> CModelViewerDlg \<Rightarrow> bool" where
  "IsNegativePitch env v = f_less (f3_z (xm_normal (ve_x env) (xm_rotX (ve_x env) (m_fPitch v)) (vec3 0 0 f_one))) 0"

section \<open>Texture names and thumbnails\<close>

text \<open>The names of the textures and an empty one; the old names are freed as far as \<open>m_iTextureCount\<close> counts them.\<close>

definition FillTextureList :: "CModelViewerDlg \<Rightarrow> CModelViewerDlg outcome" where
  "FillTextureList v =
     (let v1 = (if m_ppszTextureNames v = None then v else v\<lparr>m_ppszTextureNames := None, m_iTextureCount := 0\<rparr>) in
      case m_pd3dModel1 v of None \<Rightarrow> Done v1
      | Some d \<Rightarrow> obind (texture_names (base1 v) d) (\<lambda>ns.
          Done (v1\<lparr>m_ppszTextureNames := Some (map c_str ns @ [[]]), m_iTextureCount := int (length ns) + 1\<rparr>)))"

fun load_thumbs :: "viewer_env \<Rightarrow> filesys \<Rightarrow> CACHE_ENTRY option list \<Rightarrow> gpu \<Rightarrow> (nat option list \<times> gpu) outcome" where
  "load_thumbs env fs [] g = Done ([], g)"
| "load_thumbs env fs (e # es) g = obind (deref e) (\<lambda>e.
     let (p, g1) = com_new (ve_tex env g (fs_files fs (wcs (ce_szThumbFile e)))) g
     in obind (load_thumbs env fs es g1) (\<lambda>(ps, g2). Done (p # ps, g2)))"

text \<open>The entries of the cache, the last one first.\<close>

definition history_entries :: "CModelCache \<Rightarrow> CACHE_ENTRY option list" where
  "history_entries c = map (\<lambda>i. GetEntry (GetEntryCount c - 1 - int i) c) [0..<nat (GetEntryCount c)]"

text \<open>\<open>m_iTextureCount\<close> is reset where the count of thumbnails is meant.\<close>

definition FillThumbArray :: "viewer_env \<Rightarrow> CModelViewerDlg \<Rightarrow> CModelViewerDlg outcome" where
  "FillThumbArray env v =
     obind (case m_ppThumbnails v of None \<Rightarrow> Done v
       | Some ps \<Rightarrow> obind (com_release_all (take (nat (m_iThumbCount v)) ps) (m_gpu v)) (\<lambda>g.
           Done (v\<lparr>m_gpu := g, m_ppThumbnails := None, m_iTextureCount := 0\<rparr>))) (\<lambda>v1.
     let n = GetEntryCount (m_Cache v1);
         v2 = v1\<lparr>m_pstrModelFiles := [], m_pstrAdFiles := [], m_iThumbCount := n\<rparr>;
         es = history_entries (m_Cache v1)
     in if n = 0 then Done v2
        else if n < 0 then Fail
        else obind (load_thumbs env (m_fs v2) es (m_gpu v2)) (\<lambda>(ps, g).
          Done (v2\<lparr>m_ppThumbnails := Some ps, m_gpu := g, m_pstrModelFiles := map (\<lambda>e. wcs (ce_szModelFile (the e))) es,
            m_pstrAdFiles := map (\<lambda>e. wcs (ce_szAdFile (the e))) es\<rparr>)))"

text \<open>The thumbnail's distance mixes the vertical angle of its own camera with the horizontal one of the main camera.\<close>

definition GenerateThumnail :: "viewer_env \<Rightarrow> CModelViewerDlg \<Rightarrow> (CModelViewerDlg \<times> bytes option) outcome" where
  "GenerateThumnail env v = (case m_pd3dModel1 v of None \<Rightarrow> Done (v, None)
     | Some d \<Rightarrow> obind (deref (m_pModel1 v)) (\<lambda>td.
         let z = view_distance env (fFovX (m_CameraDesc (m_Camera v))) (fFovY (m_CameraDesc (m_ThumbCamera v))) f_1_25 td;
             c = snd (CCamera_SetDistance (ve_x env) z True (m_ThumbCamera v))
         in obind (RenderD3DModel (ve_d3d env) td d) (\<lambda>cs. Done (v\<lparr>m_ThumbCamera := c\<rparr>, ve_png env (m_matView c) (m_matProj c) cs))))"

section \<open>Models from files\<close>

text \<open>A path of the cache is wide; the file calls take its ANSI form.\<close>

definition ansi :: "wstr \<Rightarrow> string" where
  "ansi w = map (\<lambda>c. char_of (unat c)) w"

definition file_at :: "viewer_env \<Rightarrow> filesys \<Rightarrow> string \<Rightarrow> bytes option" where
  "file_at env fs n = (if open_existing (ve_os env) fs (wide n) then fs_files fs (wide n) else None)"

text \<open>
  A loaded model becomes a Direct3D model, or is freed again when there is no device: None. \<open>Fail\<close> of
  the loader is its NULL.
\<close>

definition build_model :: "viewer_env \<Rightarrow> TD_SCAN_MODEL outcome \<Rightarrow> gpu \<Rightarrow> ((TD_SCAN_MODEL \<times> D3D_MODEL) option \<times> gpu) outcome" where
  "build_model env loaded g = (case loaded of
      Fail \<Rightarrow> Done (None, g) | UB \<Rightarrow> UB | NoFuel \<Rightarrow> NoFuel
    | Done td \<Rightarrow> obind (CreateFromTDModel (ve_d3d env) td (D3D_MODEL_new zero3 zero3) g) (\<lambda>(ok, d, g').
        Done (if ok then Some (td, d) else None, g')))"

definition free_d3d :: "D3D_MODEL option \<Rightarrow> gpu \<Rightarrow> gpu outcome" where
  "free_d3d p g = (case p of None \<Rightarrow> Done g | Some d \<Rightarrow> obind (FreeD3DModel d g) (\<lambda>(d', g'). Done g'))"

text \<open>
  The replacement of the first model. The file loader asks for \<open>m_pd3dModel1\<close> again, which it has just deleted,
  before it frees the loaded model: \<open>frees\<close> is False there and the old loaded model is lost.
\<close>

definition replace1 :: "viewer_env \<Rightarrow> bool \<Rightarrow> TD_SCAN_MODEL \<times> D3D_MODEL \<Rightarrow> CModelViewerDlg \<Rightarrow> CModelViewerDlg outcome" where
  "replace1 env frees new v = obind (free_d3d (m_pd3dModel1 v) (m_gpu v)) (\<lambda>g.
     obind (OnModelLoaded1 env (v\<lparr>m_gpu := g, m_pModel1 := Some (fst new), m_pd3dModel1 := Some (snd new),
       m_lostModels := m_lostModels v + (if frees \<or> m_pModel1 v = None then 0 else 1)\<rparr>)) (\<lambda>v1.
     obind (ResetView env v1) FillTextureList))"

definition Load3DScanFile :: "viewer_env \<Rightarrow> string \<Rightarrow> CModelViewerDlg \<Rightarrow> CModelViewerDlg outcome" where
  "Load3DScanFile env strPathName v =
     obind (build_model env (Load3DScanModelFromFile (ve_lz env) (ve_junkf env) (ve_fuel env) (file_at env (m_fs v)) (Some strPathName))
       (m_gpu v)) (\<lambda>(new, g). let v0 = v\<lparr>m_gpu := g\<rparr> in case new of None \<Rightarrow> Done v0
     | Some n \<Rightarrow> obind (replace1 env False n v0) (\<lambda>v1.
         Done (v1\<lparr>m_strFilename := strPathName, m_bFileOpened := True, m_bHasFilename := True\<rparr>)))"

definition Load3DScanFile2 :: "viewer_env \<Rightarrow> string \<Rightarrow> CModelViewerDlg \<Rightarrow> CModelViewerDlg outcome" where
  "Load3DScanFile2 env strPathName v =
     obind (build_model env (Load3DScanModelFromFile (ve_lz env) (ve_junkf env) (ve_fuel env) (file_at env (m_fs v)) (Some strPathName))
       (m_gpu v)) (\<lambda>(new, g). let v0 = v\<lparr>m_gpu := g\<rparr> in case new of None \<Rightarrow> Done v0
     | Some n \<Rightarrow> obind (free_d3d (m_pd3dModel2 v0) g) (\<lambda>g1.
         obind (OnModelLoaded2 env (v0\<lparr>m_gpu := g1, m_pModel2 := Some (fst n), m_pd3dModel2 := Some (snd n),
           m_lostModels := m_lostModels v + (if m_pModel2 v = None then 0 else 1)\<rparr>)) (\<lambda>v1.
         obind (ResetView env v1) (\<lambda>v2. obind (FillTextureList v2) (\<lambda>v3. Done (v3\<lparr>m_bFileOpened := True\<rparr>))))))"

text \<open>\<open>WideCharToMultiByte\<close> into \<open>char[MAX_PATH]\<close> with that capacity, then the terminator.\<close>

definition ansi_path :: "wstr \<Rightarrow> string outcome" where
  "ansi_path w = (if ModelCache.MAX_PATH < length w then Done [] else if length w = ModelCache.MAX_PATH then UB else Done (c_text (ansi w)))"

definition Load3DScanFile_w :: "viewer_env \<Rightarrow> wstr \<Rightarrow> CModelViewerDlg \<Rightarrow> CModelViewerDlg outcome" where
  "Load3DScanFile_w env p v = obind (ansi_path p) (\<lambda>n. Load3DScanFile env n v)"

definition Load3DScanFile2_w :: "viewer_env \<Rightarrow> wstr \<Rightarrow> CModelViewerDlg \<Rightarrow> CModelViewerDlg outcome" where
  "Load3DScanFile2_w env p v = obind (ansi_path p) (\<lambda>n. Load3DScanFile2 env n v)"

end
