(* ===== verification/ViewerRun.thy ===== *)
theory ViewerRun
  imports Viewer
begin

text \<open>
  Opening a subscription in the viewer: \<open>Load3DScanFromUrl\<close>, the three download threads with their callbacks, and the
  messages they post to the dialog. A thread's download and callback are one step; messages are handled one at a time
  in the order they were posted.
\<close>

section \<open>The running viewer\<close>

text \<open>The messages carry the \<open>lParam\<close> that is read from them.\<close>

datatype user_msg = WM_USER_HTTP_PROGRESS int | WM_USER_MODEL_INFO int | WM_USER_MODEL_DOWNLOADED int | WM_USER_AD_DOWNLOADED int

datatype download = InfoThread string | ModelThread string | AdThread string

record 'w viewer_sys =
  vs_dlg :: CModelViewerDlg
  vs_queue :: "user_msg list"
  vs_threads :: "download list"
  vs_world :: 'w

definition PostMessage :: "user_msg \<Rightarrow> 'w viewer_sys \<Rightarrow> 'w viewer_sys" where
  "PostMessage m s = s\<lparr>vs_queue := vs_queue s @ [m]\<rparr>"

definition DownloadInfo :: "string \<Rightarrow> 'w viewer_sys \<Rightarrow> 'w viewer_sys" where
  "DownloadInfo url s = s\<lparr>vs_threads := vs_threads s @ [InfoThread url]\<rparr>"

definition DownloadModel :: "string \<Rightarrow> 'w viewer_sys \<Rightarrow> 'w viewer_sys" where
  "DownloadModel url s = s\<lparr>vs_dlg := (vs_dlg s)\<lparr>m_bDownloading := True\<rparr>, vs_threads := vs_threads s @ [ModelThread url]\<rparr>"

definition DownloadAd :: "string \<Rightarrow> 'w viewer_sys \<Rightarrow> 'w viewer_sys" where
  "DownloadAd url s = s\<lparr>vs_threads := vs_threads s @ [AdThread url]\<rparr>"

section \<open>Load3DScanFromUrl\<close>

text \<open>\<open>CString::Replace\<close> of the scheme.\<close>

fun replace_scheme :: "string \<Rightarrow> string" where
  "replace_scheme [] = []"
| "replace_scheme (c # cs) =
     (if take 9 (c # cs) = ''3dscan://'' then ''http://'' @ replace_scheme (drop 8 cs) else c # replace_scheme cs)"

text \<open>\<open>MultiByteToWideChar\<close> into \<open>wchar_t[1000]\<close> with capacity 1000, then the terminator.\<close>

definition wide1000 :: "string \<Rightarrow> string outcome" where
  "wide1000 s = (if 1000 < length s then Done [] else if length s = 1000 then UB else Done (c_text s))"

definition query_value :: "string \<Rightarrow> (string \<times> string) list \<Rightarrow> string" where
  "query_value k m = (case smap_get m k of Some v \<Rightarrow> v | None \<Rightarrow> [])"

definition request_uri :: "viewer_env \<Rightarrow> uri \<Rightarrow> string \<Rightarrow> string \<Rightarrow> uri" where
  "request_uri env original api subsid = append_query ''magic'' MODEL_API_MAGIC (append_query ''subsid'' subsid
     (append_path api \<lparr>u_base = ''http://'' @ ve_authority env original, u_path = ''/3dscan/'', u_query = [], u_fragment = []\<rparr>))"

definition to_buf :: "bytes option \<Rightarrow> buf" where
  "to_buf p = (case p of None \<Rightarrow> Null | Some b \<Rightarrow> Buf b)"

definition of_buf :: "buf \<Rightarrow> bytes option" where
  "of_buf b = (case b of Buf d \<Rightarrow> Some d | _ \<Rightarrow> None)"

text \<open>The cache fills slots 1 and 2 when it has the model; the thumbnail it loads is dropped.\<close>

definition load_cached :: "viewer_env \<Rightarrow> string \<Rightarrow> CModelViewerDlg \<Rightarrow> (bool \<times> CModelViewerDlg) outcome" where
  "load_cached env subsid v = obind (LoadModel (ve_os env) (wide subsid) (m_Cache v) (m_fs v)
       (Some \<lparr>lo_model = to_buf (fst (m_PointerPass1 v)), lo_modelSize = snd (m_PointerPass1 v),
         lo_ad = to_buf (fst (m_PointerPass2 v)), lo_adSize = snd (m_PointerPass2 v), lo_thumb = Null, lo_thumbSize = 0\<rparr>))
     (\<lambda>(ok, r). case r of None \<Rightarrow> Done (ok, v)
      | Some o1 \<Rightarrow> Done (ok, v\<lparr>m_PointerPass1 := (of_buf (lo_model o1), lo_modelSize o1),
          m_PointerPass2 := (of_buf (lo_ad o1), lo_adSize o1)\<rparr>))"

definition Load3DScanFromUrl :: "viewer_env \<Rightarrow> string \<Rightarrow> 'w viewer_sys \<Rightarrow> 'w viewer_sys outcome" where
  "Load3DScanFromUrl env strUrl s =
     obind (wide1000 (replace_scheme strUrl)) (\<lambda>szUrl.
     case ve_parse env szUrl of None \<Rightarrow> Fail
     | Some original \<Rightarrow>
         (let subsid = query_value ''subsid'' (split_query (u_query original));
              url = (\<lambda>api. uri_text (request_uri env original api subsid))
          in obind (load_cached env subsid ((vs_dlg s)\<lparr>m_strSubsid := subsid\<rparr>)) (\<lambda>(cached, v).
             let s1 = s\<lparr>vs_dlg := v\<rparr>;
                 s2 = (if cached then PostMessage (WM_USER_AD_DOWNLOADED 1) (PostMessage (WM_USER_MODEL_DOWNLOADED 1) s1) else s1);
                 bDownloadAd = \<not> (fst (m_PointerPass2 v) \<noteq> None \<and> snd (m_PointerPass2 v) \<noteq> 0);
                 s3 = (if cached then s2 else DownloadInfo (url ''getinfo'') s2);
                 s4 = (if cached then s3 else DownloadModel (url ''get'') s3)
             in Done (if bDownloadAd then DownloadAd (url ''getad'') s4 else s4))))"

section \<open>Callbacks\<close>

definition MyInfoCallback :: "bytes option \<Rightarrow> u32 \<Rightarrow> int \<Rightarrow> 'w viewer_sys \<Rightarrow> 'w viewer_sys" where
  "MyInfoCallback pData iSize iFileSize s =
     PostMessage (WM_USER_MODEL_INFO iFileSize) (s\<lparr>vs_dlg := (vs_dlg s)\<lparr>m_PointerPass0 := (pData, iSize)\<rparr>\<rparr>)"

definition MyModelCallback :: "bytes option \<Rightarrow> u32 \<Rightarrow> 'w viewer_sys \<Rightarrow> 'w viewer_sys" where
  "MyModelCallback pData iSize s =
     PostMessage (WM_USER_MODEL_DOWNLOADED 0) (s\<lparr>vs_dlg := (vs_dlg s)\<lparr>m_PointerPass1 := (pData, iSize)\<rparr>\<rparr>)"

definition MyAdCallback :: "bytes option \<Rightarrow> u32 \<Rightarrow> string \<Rightarrow> 'w viewer_sys \<Rightarrow> 'w viewer_sys" where
  "MyAdCallback pData iSize strAdUrl s =
     PostMessage (WM_USER_AD_DOWNLOADED 0) (s\<lparr>vs_dlg := (vs_dlg s)\<lparr>m_PointerPass2 := (pData, iSize), m_strAdUrl := strAdUrl\<rparr>\<rparr>)"

text \<open>
  What a thread's variables hold after the call: the data and its size, nothing and 0 when the call fails. A call that
  throws or crashes ends the program: None.
\<close>

definition got_data :: "bytes got \<Rightarrow> bytes option \<times> u32" where
  "got_data r = (case r of Got d \<Rightarrow> (Some d, of_nat (length d)) | _ \<Rightarrow> (None, 0))"

definition run_thread :: "'w cenv \<Rightarrow> download \<Rightarrow> 'w viewer_sys \<Rightarrow> 'w viewer_sys option" where
  "run_thread k t s = (case t of
      InfoThread url \<Rightarrow> (case GetModelInfo k (Some url) (Some ''pcwin'') True True (vs_world s) of
          (Ret (Got (d, n)), w) \<Rightarrow> Some (MyInfoCallback (Some d) (of_nat (length d)) (case n of None \<Rightarrow> 0 | Some n \<Rightarrow> n) (s\<lparr>vs_world := w\<rparr>))
        | (Ret _, w) \<Rightarrow> Some (MyInfoCallback None 0 0 (s\<lparr>vs_world := w\<rparr>))
        | _ \<Rightarrow> None)
    | ModelThread url \<Rightarrow> (case GetModel k (Some url) (Some ''pcwin'') True (vs_world s) of
          (Ret r, w) \<Rightarrow> Some (case got_data r of (p, n) \<Rightarrow> MyModelCallback p n (s\<lparr>vs_world := w\<rparr>))
        | _ \<Rightarrow> None)
    | AdThread url \<Rightarrow> (case GetAd k (Some url) (Some ''pcwin'') True (vs_world s) of
          (Ret (Got (d, u)), w) \<Rightarrow> Some (MyAdCallback (Some d) (of_nat (length d)) u (s\<lparr>vs_world := w\<rparr>))
        | (Ret _, w) \<Rightarrow> Some (MyAdCallback None 0 [] (s\<lparr>vs_world := w\<rparr>))
        | _ \<Rightarrow> None))"

section \<open>Messages\<close>

definition on_progress :: "int \<Rightarrow> CModelViewerDlg \<Rightarrow> CModelViewerDlg" where
  "on_progress so_far v = (if m_iFileSize v = 0 then v\<lparr>m_fDownloadProgress := 0\<rparr>
     else let p = f_mul (f_div (f_of_int so_far) (f_of_int (m_iFileSize v))) f_two
          in v\<lparr>m_fDownloadProgress := (if f_less f_one p then f_one else p)\<rparr>)"

definition on_info :: "int \<Rightarrow> CModelViewerDlg \<Rightarrow> CModelViewerDlg" where
  "on_info n v = v\<lparr>m_iFileSize := n, m_PointerPass0 := (None, snd (m_PointerPass0 v))\<rparr>"

text \<open>A model that came from the server is added to the cache with its thumbnail, without advertisement.\<close>

definition store_model :: "viewer_env \<Rightarrow> CModelViewerDlg \<Rightarrow> CModelViewerDlg outcome" where
  "store_model env v = obind (GenerateThumnail env v) (\<lambda>(v1, thumb).
     obind (AddModelToCache (ve_os env) (wide (m_strSubsid v1)) (fst (m_PointerPass1 v1)) None (wide (m_strAdUrl v1)) thumb (m_Cache v1)
       (m_fs v1)) (\<lambda>(ok, c, fs). FillThumbArray env (v1\<lparr>m_Cache := c, m_fs := fs\<rparr>)))"

definition on_model :: "viewer_env \<Rightarrow> int \<Rightarrow> CModelViewerDlg \<Rightarrow> CModelViewerDlg outcome" where
  "on_model env lParam v =
     obind (build_model env (Load3DScanModelFromMemory (ve_lz env) (ve_junkm env) (ve_fuel env) (fst (m_PointerPass1 v))
       (snd (m_PointerPass1 v))) (m_gpu v)) (\<lambda>(new, g). let v0 = v\<lparr>m_gpu := g\<rparr> in
     obind (case new of None \<Rightarrow> Done v0
       | Some n \<Rightarrow> obind (replace1 env True n v0) (\<lambda>v1. let v2 = v1\<lparr>m_bFileOpened := True, m_bHasFilename := False\<rparr>
           in if lParam = 0 then store_model env v2 else Done v2)) (\<lambda>v3.
     Done (v3\<lparr>m_PointerPass1 := (None, snd (m_PointerPass1 v3)), m_bDownloading := False\<rparr>)))"

text \<open>The texture of the previous advertisement is not released; a texture that cannot be created leaves the pointer.\<close>

definition on_ad :: "viewer_env \<Rightarrow> int \<Rightarrow> CModelViewerDlg \<Rightarrow> CModelViewerDlg outcome" where
  "on_ad env lParam v =
     (let p = fst (m_PointerPass2 v); (t, g) = com_new (ve_tex env (m_gpu v) p) (m_gpu v);
          v1 = v\<lparr>m_gpu := g, m_pAdTex := (if t = None then m_pAdTex v else t)\<rparr>;
          v2 = (case ve_image env p of None \<Rightarrow> v1 | Some (w, h) \<Rightarrow> v1\<lparr>m_iAdWidth1 := w, m_iAdHeight1 := h\<rparr>)
      in obind (if lParam = 0
           then obind (AddAdToCache (ve_os env) (wide (m_strSubsid v2)) p (wide (m_strAdUrl v2)) (m_Cache v2) (m_fs v2))
             (\<lambda>(ok, c, fs). Done (v2\<lparr>m_Cache := c, m_fs := fs\<rparr>))
           else Done v2) (\<lambda>v3. Done (v3\<lparr>m_PointerPass2 := (None, snd (m_PointerPass2 v3))\<rparr>)))"

definition on_user_msg :: "viewer_env \<Rightarrow> user_msg \<Rightarrow> CModelViewerDlg \<Rightarrow> CModelViewerDlg outcome" where
  "on_user_msg env m v = (case m of
      WM_USER_HTTP_PROGRESS n \<Rightarrow> Done (on_progress n v)
    | WM_USER_MODEL_INFO n \<Rightarrow> Done (on_info n v)
    | WM_USER_MODEL_DOWNLOADED l \<Rightarrow> on_model env l v
    | WM_USER_AD_DOWNLOADED l \<Rightarrow> on_ad env l v)"

section \<open>Interleavings\<close>

text \<open>
  A thread reports progress, finishes with its callback, or the dialog handles the next message.
\<close>

inductive viewer_step :: "viewer_env \<Rightarrow> 'w cenv \<Rightarrow> 'w viewer_sys \<Rightarrow> 'w viewer_sys \<Rightarrow> bool" for env k where
  progress: "vs_threads s \<noteq> [] \<Longrightarrow> viewer_step env k s (PostMessage (WM_USER_HTTP_PROGRESS n) s)"
| finish: "t \<in> set (vs_threads s) \<Longrightarrow> run_thread k t (s\<lparr>vs_threads := remove1 t (vs_threads s)\<rparr>) = Some s' \<Longrightarrow> viewer_step env k s s'"
| handle: "vs_queue s = m # ms \<Longrightarrow> on_user_msg env m (vs_dlg s) = Done v \<Longrightarrow>
    viewer_step env k s (s\<lparr>vs_dlg := v, vs_queue := ms\<rparr>)"

abbreviation viewer_runs :: "viewer_env \<Rightarrow> 'w cenv \<Rightarrow> 'w viewer_sys \<Rightarrow> 'w viewer_sys \<Rightarrow> bool" where
  "viewer_runs env k \<equiv> (viewer_step env k)\<^sup>*\<^sup>*"

text \<open>A state that crashes with its next step: the message being handled, or a thread's call.\<close>

definition crashes :: "viewer_env \<Rightarrow> 'w cenv \<Rightarrow> 'w viewer_sys \<Rightarrow> bool" where
  "crashes env k s \<longleftrightarrow> (\<exists>m ms. vs_queue s = m # ms \<and> (\<forall>v. on_user_msg env m (vs_dlg s) \<noteq> Done v)) \<or>
     (\<exists>t\<in>set (vs_threads s). run_thread k t (s\<lparr>vs_threads := remove1 t (vs_threads s)\<rparr>) = None)"

definition at_rest :: "'w viewer_sys \<Rightarrow> bool" where
  "at_rest s \<longleftrightarrow> vs_queue s = [] \<and> vs_threads s = []"

inductive_cases viewer_stepE: "viewer_step env k s s'"

end
