(* ===== verification/ObjLoader.thy ===== *)
theory ObjLoader
  imports CText Float32 ScanLoad
begin

text \<open>
  The loader of Wavefront OBJ files and their material libraries (Common/ObjLoader.cpp, ObjLoader.h). Lines are
  read into one buffer of 4096 characters, and the scans that look for a separator run over the whole buffer, past
  the terminator of the line. \<open>UB\<close> is a read past that buffer or of an indeterminate array, or a word that
  does not fit its array; \<open>Fail\<close> an exception.
\<close>

section \<open>The C runtime\<close>

text \<open>
  The conversion of decimal text to \<open>float\<close> is the runtime's: \<open>c_scanf\<close> is one \<open>%f\<close> directive (the value and
  the text after it), \<open>c_atof\<close> is \<open>(float)atof\<close>. \<open>c_junk s i\<close> is what a local float holds that scanning \<open>s\<close> did not
  reach, \<open>c_stack\<close> the contents of the line buffer at the start.
\<close>

record crt =
  c_scanf :: "string \<Rightarrow> (u32 \<times> string) option"
  c_atof :: "string \<Rightarrow> u32"
  c_junk :: "string \<Rightarrow> nat \<Rightarrow> u32"
  c_stack :: string

fun scan_floats :: "crt \<Rightarrow> nat \<Rightarrow> string \<Rightarrow> u32 list" where
  "scan_floats c 0 s = []"
| "scan_floats c (Suc n) s = (case c_scanf c s of None \<Rightarrow> [] | Some (w, r) \<Rightarrow> w # scan_floats c n r)"

definition float_arg :: "crt \<Rightarrow> string \<Rightarrow> nat \<Rightarrow> u32" where
  "float_arg c s i = (let fs = scan_floats c 3 s in if i < length fs then fs ! i else c_junk c s i)"

section \<open>Data\<close>

record UV =
  uv_u :: u32
  uv_v :: u32

record MY_MTL =
  mtl_sName :: string
  mtl_Ka :: "u32 list"
  mtl_Ks :: "u32 list"
  mtl_Kd :: "u32 list"
  mtl_Tf :: "u32 list"
  mtl_fTr :: u32
  mtl_fD :: u32
  mtl_fNs :: u32
  mtl_fNi :: u32
  mtl_iIllum :: int
  mtl_sMapKa :: string
  mtl_sMapKd :: string
  mtl_sMapKs :: string
  mtl_sMapNs :: string
  mtl_sMapTr :: string
  mtl_sMapDisp :: string
  mtl_sMapBump :: string
  mtl_sMapRefl :: string

definition MY_MTL_new :: MY_MTL where
  "MY_MTL_new = \<lparr>mtl_sName = ''$ALI_DEFAULT_MTRL'', mtl_Ka = [0x3E4CCCCD, 0x3E4CCCCD, 0x3E4CCCCD],
     mtl_Ks = [0x3F800000, 0x3F800000, 0x3F800000], mtl_Kd = [0x3F4CCCCD, 0x3F4CCCCD, 0x3F4CCCCD],
     mtl_Tf = [0x3F800000, 0x3F800000, 0x3F800000], mtl_fTr = 0xBF800000, mtl_fD = 0x3F800000, mtl_fNs = 0x3F800000,
     mtl_fNi = 0x3F800000, mtl_iIllum = 2, mtl_sMapKa = [], mtl_sMapKd = [], mtl_sMapKs = [], mtl_sMapNs = [],
     mtl_sMapTr = [], mtl_sMapDisp = [], mtl_sMapBump = [], mtl_sMapRefl = []\<rparr>"

record MY_FACE =
  VertIndex :: "int list"
  NormalIndex :: "int list"
  UvIndex :: "int list"

text \<open>The constructor of a batch leaves its two flags indeterminate: None.\<close>

record MY_DRAW_BATCH =
  Faces :: "MY_FACE list"
  sMatName :: string
  bHasNormal :: "bool option"
  bHasUv :: "bool option"

definition MY_DRAW_BATCH_new :: MY_DRAW_BATCH where
  "MY_DRAW_BATCH_new = \<lparr>Faces = [], sMatName = [], bHasNormal = None, bHasUv = None\<rparr>"

record MY_OBJ_PART =
  op_sName :: string
  subSets :: "MY_DRAW_BATCH list"

record MY_OBJ =
  subParts :: "MY_OBJ_PART list"
  Vertices :: "float3 list"
  Normals :: "float3 list"
  UVs :: "UV list"
  sMtrlFilename :: string
  obj_Materials :: "MY_MTL list"
  obj_ptMin :: float3
  obj_ptMax :: float3

section \<open>Face lines\<close>

definition IsCharNumber :: "char \<Rightarrow> bool" where
  "IsCharNumber c \<longleftrightarrow> is_digit c"

definition CountNumbers :: "string \<Rightarrow> nat" where
  "CountNumbers s = length (takeWhile IsCharNumber s)"

text \<open>\<open>*s == '/' && *(s+1) != 0\<close>\<close>

definition slash_more :: "string \<Rightarrow> bool" where
  "slash_more s \<longleftrightarrow> (case s of a # b # _ \<Rightarrow> a = CHR ''/'' | _ \<Rightarrow> False)"

text \<open>The result, \<open>hasNormals\<close> and \<open>hasTexCoords\<close>.\<close>

definition InspectVertexDefinition :: "string \<Rightarrow> bool \<times> bool \<times> bool" where
  "InspectVertexDefinition s =
     (let len = CountNumbers s; s1 = drop len s in
      if len = 0 then (False, False, False)
      else if \<not> slash_more s1 then (True, False, False)
      else let s2 = tl s1; t = CountNumbers s2; s3 = drop t s2 in
        if \<not> slash_more s3 then (True, False, 0 < t)
        else (True, 0 < CountNumbers (tl s3), 0 < t))"

text \<open>The texts after a space that is followed by a digit.\<close>

fun vertex_spots :: "string \<Rightarrow> string list" where
  "vertex_spots (a # b # s) = (if a = CHR '' '' \<and> IsCharNumber b then (b # s) # vertex_spots (b # s) else vertex_spots (b # s))"
| "vertex_spots s = []"

text \<open>\<open>vCount\<close>, and the two flags when there is a vertex to inspect.\<close>

definition InspectFaceLine :: "string \<Rightarrow> nat \<times> (bool \<times> bool) option" where
  "InspectFaceLine sLine = (let spots = vertex_spots (drop 1 sLine) in
     (length spots, case spots of [] \<Rightarrow> None | s # _ \<Rightarrow> Some (snd (InspectVertexDefinition s))))"

text \<open>\<open>while ( *s != c ) s++; s++;\<close> in the buffer.\<close>

definition skip_past :: "char \<Rightarrow> string \<Rightarrow> string outcome" where
  "skip_past c s = (case dropWhile (\<lambda>x. x \<noteq> c) s of [] \<Rightarrow> UB | _ # r \<Rightarrow> Done r)"

definition vert_index :: "int \<Rightarrow> int" where
  "vert_index v = (if v < 0 then v + 1 else v) - 1"

definition attr_index :: "int \<Rightarrow> int" where
  "attr_index t = (if t < 0 then t + 2 else t) - 1"

text \<open>One vertex of a face: the three indices and the position after it.\<close>

definition read_attr :: "bool \<Rightarrow> string \<Rightarrow> (int \<times> string) outcome" where
  "read_attr has s = (if has then obind (skip_past (CHR ''/'') s) (\<lambda>s. Done (attr_index (atoi (c_text s)), s)) else Done (- 1, s))"

definition face_vertex :: "bool \<Rightarrow> bool \<Rightarrow> string \<Rightarrow> ((int \<times> int \<times> int) \<times> string) outcome" where
  "face_vertex hasNormal hasUv s = obind (skip_past (CHR '' '') s) (\<lambda>s.
     let v = vert_index (atoi (c_text s)) in
     obind (read_attr hasUv s) (\<lambda>(t, s). obind (read_attr hasNormal s) (\<lambda>(n, s). Done ((v, t, n), s))))"

fun face_vertices :: "bool \<Rightarrow> bool \<Rightarrow> nat \<Rightarrow> string \<Rightarrow> (int \<times> int \<times> int) list outcome" where
  "face_vertices hasNormal hasUv 0 s = Done []"
| "face_vertices hasNormal hasUv (Suc k) s = obind (face_vertex hasNormal hasUv s) (\<lambda>(x, s).
     obind (face_vertices hasNormal hasUv k s) (\<lambda>xs. Done (x # xs)))"

definition face_of :: "(int \<times> int \<times> int) list \<Rightarrow> MY_FACE" where
  "face_of xs = \<lparr>VertIndex = map fst xs, NormalIndex = map (snd \<circ> snd) xs, UvIndex = map (fst \<circ> snd) xs\<rparr>"

definition add_face :: "(int \<times> int \<times> int) list \<Rightarrow> MY_DRAW_BATCH \<Rightarrow> MY_DRAW_BATCH" where
  "add_face xs b = b\<lparr>Faces := Faces b @ [face_of xs]\<rparr>"

text \<open>The flags of the batch are overwritten by each face that has a vertex.\<close>

definition face_line :: "string \<Rightarrow> MY_DRAW_BATCH \<Rightarrow> MY_DRAW_BATCH outcome" where
  "face_line buf b = (case InspectFaceLine (c_text buf) of
      (vCount, None) \<Rightarrow> Done (add_face [] b)
    | (vCount, Some (n, t)) \<Rightarrow> obind (face_vertices n t vCount buf) (\<lambda>xs.
        Done (add_face xs (b\<lparr>bHasNormal := Some n, bHasUv := Some t\<rparr>))))"

section \<open>Lines of an OBJ file\<close>

text \<open>
  \<open>cur_subset\<close> is kept as the index of its part and its index there. The three flags of the loop that nothing
  reads are left out.
\<close>

record obj_state =
  os_obj :: MY_OBJ
  os_sCurMtl :: string
  os_part :: nat
  os_sub :: nat

definition update_batch :: "nat \<Rightarrow> nat \<Rightarrow> MY_DRAW_BATCH \<Rightarrow> MY_OBJ \<Rightarrow> MY_OBJ" where
  "update_batch i j b obj = (let p = subParts obj ! i in
     obj\<lparr>subParts := (subParts obj)[i := p\<lparr>subSets := (subSets p)[j := b]\<rparr>]\<rparr>)"

definition scan_float3 :: "crt \<Rightarrow> string \<Rightarrow> float3" where
  "scan_float3 c s = \<lparr>f3_x = float_arg c s 0, f3_y = float_arg c s 1, f3_z = float_arg c s 2\<rparr>"

definition scan_uv :: "crt \<Rightarrow> string \<Rightarrow> UV" where
  "scan_uv c s = \<lparr>uv_u = float_arg c s 0, uv_v = f_one_minus (float_arg c s 1)\<rparr>"

text \<open>A new batch at the end of the last part, which becomes the current one.\<close>

definition new_batch :: "string \<Rightarrow> obj_state \<Rightarrow> obj_state" where
  "new_batch m st = (let ps = subParts (os_obj st); p = last ps in
     st\<lparr>os_obj := (os_obj st)\<lparr>subParts := butlast ps @ [p\<lparr>subSets := subSets p @ [MY_DRAW_BATCH_new\<lparr>sMatName := m\<rparr>]\<rparr>]\<rparr>,
        os_part := length ps - 1, os_sub := length (subSets p)\<rparr>)"

definition new_part :: "string \<Rightarrow> obj_state \<Rightarrow> obj_state" where
  "new_part name st = (let ps = subParts (os_obj st) in
     st\<lparr>os_obj := (os_obj st)\<lparr>subParts := ps @ [\<lparr>op_sName = name,
          subSets = [MY_DRAW_BATCH_new\<lparr>sMatName := os_sCurMtl st\<rparr>]\<rparr>]\<rparr>,
        os_part := length ps, os_sub := 0\<rparr>)"

definition obj_line :: "crt \<Rightarrow> string \<Rightarrow> obj_state \<Rightarrow> obj_state outcome" where
  "obj_line c buf st = (let t = c_text buf; obj = os_obj st in
     if starts ''v '' t then Done (st\<lparr>os_obj := obj\<lparr>Vertices := Vertices obj @ [scan_float3 c (drop 2 t)]\<rparr>\<rparr>)
     else if starts ''vn '' t then Done (st\<lparr>os_obj := obj\<lparr>Normals := Normals obj @ [scan_float3 c (drop 3 t)]\<rparr>\<rparr>)
     else if starts ''vt '' t then Done (st\<lparr>os_obj := obj\<lparr>UVs := UVs obj @ [scan_uv c (drop 2 t)]\<rparr>\<rparr>)
     else if starts ''f '' t then
       obind (face_line buf (subSets (subParts obj ! os_part st) ! os_sub st)) (\<lambda>b.
         Done (st\<lparr>os_obj := update_batch (os_part st) (os_sub st) b obj\<rparr>))
     else if starts ''o '' t then obind (scan_name (drop 2 t)) (\<lambda>n. Done (new_part n st))
     else if starts ''g '' t then
       (if 260 \<le> length (scan_word (drop 2 t)) then UB else Done (new_batch (os_sCurMtl st) st))
     else if starts_i ''usemtl '' t then
       obind (scan_name (drop 7 t)) (\<lambda>m. Done (new_batch m (st\<lparr>os_sCurMtl := m\<rparr>)))
     else if starts_i ''mtllib '' t then
       obind (scan_name (drop 7 t)) (\<lambda>m. Done (st\<lparr>os_obj := obj\<lparr>sMtrlFilename := m\<rparr>\<rparr>))
     else Done st)"

fun obj_lines :: "crt \<Rightarrow> string list \<Rightarrow> string \<Rightarrow> obj_state \<Rightarrow> obj_state outcome" where
  "obj_lines c [] buf st = Done st"
| "obj_lines c (l # ls) buf st = (let b = load_line l buf in obind (obj_line c b st) (obj_lines c ls b))"

section \<open>Material libraries\<close>

definition LoadMtl_ReadKx :: "crt \<Rightarrow> string \<Rightarrow> u32 list \<Rightarrow> u32 list" where
  "LoadMtl_ReadKx c line kx = (let t = drop 3 line; fs = scan_floats c 3 t in
     if equal_i ''spectral'' t \<or> equal_i ''xyz'' t then kx
     else if length fs = 3 then fs
     else let k0 = (case fs of [] \<Rightarrow> kx ! 0 | x # _ \<Rightarrow> x) in [k0, k0, k0])"

definition is_blank :: "char \<Rightarrow> bool" where
  "is_blank c \<longleftrightarrow> c = CHR '' '' \<or> c = CHR 0x09"

text \<open>\<open>strcpy ( buffer, buffer + 1 )\<close> while the line starts with a blank; each copy leaves one more NUL behind.\<close>

definition strip_blanks :: "string \<Rightarrow> string" where
  "strip_blanks buf = (let t = c_text buf; u = dropWhile is_blank t in
     u @ replicate (length t - length u) (CHR 0x00) @ drop (length t) buf)"

text \<open>
  A map statement: the word must fit \<open>szMap\<close>, but what is stored is the rest of the line, from a fixed offset
  of the buffer.
\<close>

definition map_rest :: "nat \<Rightarrow> string \<Rightarrow> string \<Rightarrow> string outcome" where
  "map_rest n buf t = (if 260 \<le> length (scan_word (drop 7 t)) then UB else cstr_from n buf)"

definition mtl_field :: "crt \<Rightarrow> string \<Rightarrow> MY_MTL \<Rightarrow> MY_MTL outcome" where
  "mtl_field c buf m = (let t = c_text buf in
     if starts_i ''ka '' t then Done (m\<lparr>mtl_Ka := LoadMtl_ReadKx c t (mtl_Ka m)\<rparr>)
     else if starts_i ''ks '' t then Done (m\<lparr>mtl_Ks := LoadMtl_ReadKx c t (mtl_Ks m)\<rparr>)
     else if starts_i ''kd '' t then Done (m\<lparr>mtl_Kd := LoadMtl_ReadKx c t (mtl_Kd m)\<rparr>)
     else if starts_i ''tf '' t then Done (m\<lparr>mtl_Tf := LoadMtl_ReadKx c t (mtl_Tf m)\<rparr>)
     else if starts_i ''tr '' t then Done (m\<lparr>mtl_fTr := c_atof c (drop 3 t)\<rparr>)
     else if starts_i ''d '' t then Done (m\<lparr>mtl_fTr := f_one_minus (c_atof c (drop 2 t))\<rparr>)
     else if starts_i ''ns '' t then Done (m\<lparr>mtl_fNs := c_atof c (drop 3 t)\<rparr>)
     else if starts_i ''Ni '' t then Done (m\<lparr>mtl_fNi := c_atof c (drop 3 t)\<rparr>)
     else if starts_i ''illum '' t then Done (m\<lparr>mtl_iIllum := atoi (drop 6 t)\<rparr>)
     else if starts_i ''map_Ka '' t then obind (scan_name (drop 7 t)) (\<lambda>x. Done (m\<lparr>mtl_sMapKa := x\<rparr>))
     else if starts_i ''map_Kd '' t then obind (map_rest 7 buf t) (\<lambda>x. Done (m\<lparr>mtl_sMapKd := x\<rparr>))
     else if starts_i ''map_Ks '' t then obind (map_rest 7 buf t) (\<lambda>x. Done (m\<lparr>mtl_sMapKs := x\<rparr>))
     else if starts_i ''map_Ns '' t then obind (map_rest 7 buf t) (\<lambda>x. Done (m\<lparr>mtl_sMapNs := x\<rparr>))
     else if starts_i ''map_Tr '' t then obind (map_rest 7 buf t) (\<lambda>x. Done (m\<lparr>mtl_sMapTr := x\<rparr>))
     else if starts_i ''map_Dis'' t then obind (map_rest 9 buf t) (\<lambda>x. Done (m\<lparr>mtl_sMapDisp := x\<rparr>))
     else if starts_i ''map_Bum'' t then obind (map_rest 9 buf t) (\<lambda>x. Done (m\<lparr>mtl_sMapBump := x\<rparr>))
     else if starts_i ''map_Ref'' t then obind (map_rest 9 buf t) (\<lambda>x. Done (m\<lparr>mtl_sMapRefl := x\<rparr>))
     else Done m)"

text \<open>The transparency -1 of a new material becomes 0 at the end of every line.\<close>

definition fix_tr :: "MY_MTL \<Rightarrow> MY_MTL" where
  "fix_tr m = (if mtl_fTr m = 0xBF800000 then m\<lparr>mtl_fTr := 0\<rparr> else m)"

text \<open>\<open>pMat\<close> is null until the first newmtl, then the last material of the list.\<close>

definition mtl_line :: "crt \<Rightarrow> string \<Rightarrow> bool \<times> MY_MTL list \<Rightarrow> (bool \<times> MY_MTL list) outcome" where
  "mtl_line c buf st = (case st of (pMat, ms) \<Rightarrow> (let t = c_text buf in
     if starts ''newmtl '' t then obind (scan_name (drop 7 t)) (\<lambda>n. Done (True, ms @ [fix_tr (MY_MTL_new\<lparr>mtl_sName := n\<rparr>)]))
     else if \<not> pMat then Done (pMat, ms)
     else obind (mtl_field c buf (last ms)) (\<lambda>m. Done (True, butlast ms @ [fix_tr m]))))"

fun mtl_lines :: "crt \<Rightarrow> string list \<Rightarrow> string \<Rightarrow> bool \<times> MY_MTL list \<Rightarrow> (bool \<times> MY_MTL list) outcome" where
  "mtl_lines c [] buf st = Done st"
| "mtl_lines c (l # ls) buf st = (let b = strip_blanks (load_line l buf) in obind (mtl_line c b st) (mtl_lines c ls b))"

text \<open>Files by their names; the results 0 and 1 of the code with the materials.\<close>

type_synonym disk = "string \<Rightarrow> bytes option"

definition LoadMtlLib2 :: "crt \<Rightarrow> disk \<Rightarrow> string \<Rightarrow> MY_MTL list \<Rightarrow> (int \<times> MY_MTL list) outcome" where
  "LoadMtlLib2 c fs sFileName ms = (case fs sFileName of
      None \<Rightarrow> Done (0, ms)
    | Some d \<Rightarrow> obind (mtl_lines c (read_lines (text_mode d)) (c_stack c) (False, ms)) (\<lambda>(_, ms'). Done (1, ms')))"

section \<open>LoadObj2\<close>

definition PathFromFileName :: "string \<Rightarrow> int" where
  "PathFromFileName s = (let i = length (dropWhile (\<lambda>c. c \<noteq> CHR 0x5C \<and> c \<noteq> CHR ''/'') (rev s))
     in if i = 0 then - 1 else int i)"

text \<open>The material library by its own name, then beside the OBJ file.\<close>

definition load_mtl :: "crt \<Rightarrow> disk \<Rightarrow> string \<Rightarrow> MY_OBJ \<Rightarrow> (int \<times> MY_OBJ) outcome" where
  "load_mtl c fs sFileName obj = (let name = sMtrlFilename obj in
     if name = [] then Done (1, obj)
     else if 260 \<le> length name then UB
     else obind (LoadMtlLib2 c fs name (obj_Materials obj)) (\<lambda>(r, ms).
       if 0 < r then Done (1, obj\<lparr>obj_Materials := ms\<rparr>)
       else let n = PathFromFileName sFileName in
         if n < 0 then Done (2, obj)
         else if 260 \<le> n then UB
         else let libFile = take (nat n) sFileName @ take (259 - nat n) name in
           obind (LoadMtlLib2 c fs libFile ms) (\<lambda>(r, ms). Done (if 0 < r then 1 else 2, obj\<lparr>obj_Materials := ms\<rparr>))))"

definition obj_box :: "MY_OBJ \<Rightarrow> MY_OBJ" where
  "obj_box obj = (let b = fold upd_box (Vertices obj) init_box in obj\<lparr>obj_ptMin := fst b, obj_ptMax := snd b\<rparr>)"

definition obj_start :: "MY_OBJ \<Rightarrow> obj_state" where
  "obj_start obj = \<lparr>os_obj = obj\<lparr>subParts := subParts obj @ [\<lparr>op_sName = ''All'', subSets = [MY_DRAW_BATCH_new]\<rparr>]\<rparr>,
     os_sCurMtl = ''$ALI_DEFAULT_MTRL'', os_part = 0, os_sub = 0\<rparr>"

definition LoadObj2 :: "crt \<Rightarrow> disk \<Rightarrow> string \<Rightarrow> MY_OBJ \<Rightarrow> (int \<times> MY_OBJ) outcome" where
  "LoadObj2 c fs sFileName pObj = (case fs sFileName of
      None \<Rightarrow> Done (0, pObj)
    | Some d \<Rightarrow> (let st = obj_start pObj in
        if subSets (hd (subParts (os_obj st))) = [] then Fail
        else obind (obj_lines c (read_lines (text_mode d)) (c_stack c) st) (\<lambda>st. load_mtl c fs sFileName (obj_box (os_obj st)))))"

text \<open>The object both callers pass, as its constructor leaves it; the two corners are indeterminate.\<close>

definition MY_OBJ_new :: "float3 \<Rightarrow> float3 \<Rightarrow> MY_OBJ" where
  "MY_OBJ_new a b = \<lparr>subParts = [], Vertices = [], Normals = [], UVs = [], sMtrlFilename = [], obj_Materials = [],
     obj_ptMin = a, obj_ptMax = b\<rparr>"

end
