(* ===== verification/Obj2Model.thy ===== *)
theory Obj2Model
  imports ObjLoader
begin

text \<open>
  The conversion of a loaded OBJ file to the model that is saved as a 3dscan file (Common/Obj2Model.cpp): every
  face becomes a fan of triangles with vertices of its own. \<open>UB\<close> is an index outside its vector, a vertex written
  past the buffer, or an indeterminate flag that is read. Memory is assumed sufficient.
\<close>

section \<open>Names\<close>

definition text_bytes :: "string \<Rightarrow> bytes" where
  "text_bytes s = map byte_of s"

definition ToLower :: "string \<Rightarrow> string" where
  "ToLower s = map lower s"

text \<open>
  Name and extension as \<open>_splitpath\<close> gives them: what follows drive and directories, split at the last dot,
  each part cut at 255 characters.
\<close>

definition file_part :: "string \<Rightarrow> string" where
  "file_part s = (let t = (if 2 \<le> length s \<and> s ! 1 = CHR '':'' then drop 2 s else s)
     in rev (takeWhile (\<lambda>c. c \<noteq> CHR 0x5C \<and> c \<noteq> CHR ''/'') (rev t)))"

definition name_ext :: "string \<Rightarrow> string \<times> string" where
  "name_ext f = (if CHR ''.'' \<in> set f
     then let e = length (takeWhile (\<lambda>c. c \<noteq> CHR ''.'') (rev f)) + 1 in
       (take 255 (take (length f - e) f), take 255 (drop (length f - e) f))
     else (take 255 f, []))"

definition RemovePath :: "string \<Rightarrow> string" where
  "RemovePath s = (let s1 = takeWhile (\<lambda>c. c \<noteq> CHR 0x0A) s; s2 = takeWhile (\<lambda>c. c \<noteq> CHR 0x0D) s1;
       (n, e) = name_ext (file_part (c_text s2))
     in n @ e)"

section \<open>Textures\<close>

text \<open>\<open>cl\<close> is the colour of a new slot, which its constructor leaves indeterminate.\<close>

definition LoadAndAddToTextures :: "disk \<Rightarrow> float4_rgba \<Rightarrow> string \<Rightarrow> TD_SCAN_MODEL \<Rightarrow> (bool \<times> TD_SCAN_MODEL) outcome" where
  "LoadAndAddToTextures fs cl sTexName model =
     (if sTexName = [] then Done (True, model)
      else if smap_get (Textures model) (text_bytes sTexName) \<noteq> None then Done (True, model)
      else case fs sTexName of
        None \<Rightarrow> Done (False, model)
      | Some d \<Rightarrow> if 2 ^ 31 \<le> length d then UB
          else Done (True, model\<lparr>Textures := smap_put (text_bytes sTexName)
            \<lparr>ts_sName = text_bytes sTexName, ts_uiSize = of_nat (length d), ts_pData = d, ts_eFormat = 0, ts_clrAvgColor = cl\<rparr>
            (Textures model)\<rparr>))"

section \<open>Subsets\<close>

definition at :: "'a list \<Rightarrow> int \<Rightarrow> 'a outcome" where
  "at xs i = (if 0 \<le> i \<and> i < int (length xs) then Done (xs ! nat i) else UB)"

definition flag :: "bool option \<Rightarrow> bool outcome" where
  "flag b = (case b of None \<Rightarrow> UB | Some x \<Rightarrow> Done x)"

definition enc_float3 :: "float3 \<Rightarrow> bytes" where
  "enc_float3 p = le32 (f3_x p) @ le32 (f3_y p) @ le32 (f3_z p)"

text \<open>The x axis is mirrored.\<close>

definition mirror :: "float3 \<Rightarrow> float3" where
  "mirror p = p\<lparr>f3_x := f_neg (f3_x p)\<rparr>"

text \<open>The bytes written for vertex \<open>k\<close> of a face.\<close>

definition corner :: "MY_OBJ \<Rightarrow> bool \<Rightarrow> bool \<Rightarrow> MY_FACE \<Rightarrow> nat \<Rightarrow> bytes outcome" where
  "corner obj hasN hasUv f k =
     obind (at (VertIndex f) (int k)) (\<lambda>v. obind (at (Vertices obj) v) (\<lambda>p.
     obind (if hasN then obind (at (NormalIndex f) (int k)) (\<lambda>n. obind (at (Normals obj) n) (\<lambda>q. Done (enc_float3 (mirror q))))
       else Done []) (\<lambda>nb.
     obind (if hasUv then obind (at (UvIndex f) (int k)) (\<lambda>t. obind (at (UVs obj) t) (\<lambda>u. Done (le32 (uv_u u) @ le32 (uv_v u))))
       else Done []) (\<lambda>ub.
     Done (enc_float3 (mirror p) @ nb @ ub)))))"

text \<open>The loop over \<open>iVert\<close> writes the triangle of vertices 0, \<open>iVert - 1\<close> and \<open>iVert\<close>.\<close>

definition triangle :: "MY_OBJ \<Rightarrow> bool \<Rightarrow> bool \<Rightarrow> MY_FACE \<Rightarrow> nat \<Rightarrow> bytes outcome" where
  "triangle obj hasN hasUv f i = obind (corner obj hasN hasUv f 0) (\<lambda>a. obind (corner obj hasN hasUv f (i - 1)) (\<lambda>b.
     obind (corner obj hasN hasUv f i) (\<lambda>c. Done (a @ b @ c))))"

fun write_all :: "('a \<Rightarrow> bytes outcome) \<Rightarrow> 'a list \<Rightarrow> bytes outcome" where
  "write_all f [] = Done []"
| "write_all f (x # xs) = obind (f x) (\<lambda>a. obind (write_all f xs) (\<lambda>b. Done (a @ b)))"

definition face_bytes :: "MY_OBJ \<Rightarrow> bool \<Rightarrow> bool \<Rightarrow> MY_FACE \<Rightarrow> bytes outcome" where
  "face_bytes obj hasN hasUv f = write_all (triangle obj hasN hasUv f) [2..<length (VertIndex f)]"

definition subset_format :: "bool \<Rightarrow> bool \<Rightarrow> u32" where
  "subset_format hasN hasUv = VF_POSITIION OR (if hasN then VF_NORMAL else 0) OR (if hasUv then VF_UV else 0)"

text \<open>\<open>uiTriCount += face.VertIndex.size () - 2\<close> in 32 bits.\<close>

definition tri_count :: "MY_FACE list \<Rightarrow> u32" where
  "tri_count fs = sum_list (map (\<lambda>f. of_nat (length (VertIndex f)) - 2) fs)"

definition convert_subset :: "MY_OBJ \<Rightarrow> MY_DRAW_BATCH \<Rightarrow> TD_MODEL_SUBSET outcome" where
  "convert_subset obj b = obind (flag (bHasNormal b)) (\<lambda>hasN. obind (flag (bHasUv b)) (\<lambda>hasUv.
     let fmt = subset_format hasN hasUv; tc = tri_count (Faces b); size = unat (tc * 3 * GetVertexSize fmt) in
     obind (write_all (face_bytes obj hasN hasUv) (Faces b)) (\<lambda>bs.
       if size < length bs \<or> 2 ^ 32 \<le> 4 * unat (tc * 3) then UB
       else Done \<lparr>pVB = bs @ replicate (size - length bs) 0, pIB = map of_nat [0..<unat (tc * 3)],
                  ss_uiVertCount = tc * 3, ss_uiTriCount = tc, ss_sMatName = text_bytes (sMatName b), ss_uiVertexFmt = fmt\<rparr>)))"

fun convert_subsets :: "MY_OBJ \<Rightarrow> MY_DRAW_BATCH list \<Rightarrow> TD_MODEL_SUBSET list outcome" where
  "convert_subsets obj [] = Done []"
| "convert_subsets obj (b # bs) = (if Faces b = [] then convert_subsets obj bs
     else obind (convert_subset obj b) (\<lambda>s. obind (convert_subsets obj bs) (\<lambda>ss. Done (s # ss))))"

fun convert_parts :: "MY_OBJ \<Rightarrow> MY_OBJ_PART list \<Rightarrow> TD_MODEL_PART list outcome" where
  "convert_parts obj [] = Done []"
| "convert_parts obj (p # ps) = obind (convert_subsets obj (subSets p)) (\<lambda>ss. obind (convert_parts obj ps) (\<lambda>rest.
     Done (if ss = [] then rest else \<lparr>mp_sName = text_bytes (op_sName p), mp_Subsets = ss\<rparr> # rest)))"

section \<open>Materials\<close>

definition strip_maps :: "MY_MTL \<Rightarrow> MY_MTL" where
  "strip_maps m = m\<lparr>mtl_sMapKd := RemovePath (mtl_sMapKd m), mtl_sMapBump := RemovePath (mtl_sMapBump m),
     mtl_sMapNs := RemovePath (mtl_sMapNs m), mtl_sMapTr := RemovePath (mtl_sMapTr m), mtl_sMapRefl := RemovePath (mtl_sMapRefl m)\<rparr>"

definition rgb1 :: "u32 list \<Rightarrow> float4_rgba" where
  "rgb1 k = \<lparr>clr_r = k ! 0, clr_g = k ! 1, clr_b = k ! 2, clr_a = 0x3F800000\<rparr>"

definition tex_name :: "string \<Rightarrow> bytes" where
  "tex_name s = text_bytes (ToLower s)"

definition convert_material :: "MY_MTL \<Rightarrow> TD_MODEL_MATERIAL" where
  "convert_material m = \<lparr>mm_sName = text_bytes (mtl_sName m), mm_clrAmbient = rgb1 (mtl_Ka m), mm_clrDiffuse = rgb1 (mtl_Kd m),
     mm_fTransparency = f_one_minus (mtl_fTr m), mm_fSpecIntensity = mtl_Ks m ! 0, mm_fGlossiness = mtl_fNs m,
     mm_fReflectionFactor = 0, mm_sDiffuseTextureName = tex_name (mtl_sMapKd m), mm_sNormalTextureName = tex_name (mtl_sMapBump m),
     mm_sSpecularTextureName = tex_name (mtl_sMapNs m), mm_sAlphaTextureName = tex_name (mtl_sMapTr m),
     mm_sReflectionTextureName = tex_name (mtl_sMapRefl m)\<rparr>"

definition material_used :: "bytes \<Rightarrow> TD_MODEL_PART list \<Rightarrow> bool" where
  "material_used n ps \<longleftrightarrow> (\<exists>p\<in>set ps. \<exists>s\<in>set (mp_Subsets p). ss_sMatName s = n)"

definition convert_materials :: "MY_MTL list \<Rightarrow> TD_SCAN_MODEL \<Rightarrow> TD_SCAN_MODEL" where
  "convert_materials ms model = fold (\<lambda>m model. let x = convert_material (strip_maps m) in
     if material_used (mm_sName x) (Parts model) then model\<lparr>Materials := smap_put (mm_sName x) x (Materials model)\<rparr> else model) ms model"

text \<open>The texture names of a material in the order they are loaded.\<close>

definition bytes_text :: "bytes \<Rightarrow> string" where
  "bytes_text b = map char_of_byte b"

definition material_textures :: "TD_MODEL_MATERIAL \<Rightarrow> string list" where
  "material_textures m = map bytes_text [mm_sDiffuseTextureName m, mm_sAlphaTextureName m, mm_sNormalTextureName m,
     mm_sSpecularTextureName m, mm_sReflectionTextureName m]"

fun add_textures :: "disk \<Rightarrow> float4_rgba \<Rightarrow> string list \<Rightarrow> TD_SCAN_MODEL \<Rightarrow> TD_SCAN_MODEL outcome" where
  "add_textures fs cl [] model = Done model"
| "add_textures fs cl (t # ts) model = obind (LoadAndAddToTextures fs cl t model) (\<lambda>(_, m). add_textures fs cl ts m)"

section \<open>ConvertObjTo3DModel\<close>

text \<open>The OBJ is changed too: the map names of its materials lose their paths.\<close>

definition ConvertObjTo3DModel :: "disk \<Rightarrow> float4_rgba \<Rightarrow> MY_OBJ \<Rightarrow> TD_SCAN_MODEL \<Rightarrow> (MY_OBJ \<times> TD_SCAN_MODEL) outcome" where
  "ConvertObjTo3DModel fs cl obj model = obind (convert_parts obj (subParts obj)) (\<lambda>ps.
     let m1 = convert_materials (obj_Materials obj) (model\<lparr>Parts := Parts model @ ps\<rparr>) in
     obind (add_textures fs cl (concat (map (material_textures \<circ> snd) (Materials m1))) m1) (\<lambda>m2.
       Done (obj\<lparr>obj_Materials := map strip_maps (obj_Materials obj)\<rparr>, m2)))"

end
