(* ===== verification/ObjFaces.thy ===== *)
theory ObjFaces
  imports Obj2Model
begin

text \<open>
  Face lines: what the loader reads from a printed face in each of the four forms of the format, and what the
  converter does with it.
\<close>

section \<open>Printed faces\<close>

text \<open>
  A vertex \<open>(v, t, n)\<close> of 1-based indices as \<open>v\<close>, \<open>v/t\<close>, \<open>v/t/n\<close> or \<open>v//n\<close>, and a face line.
\<close>

definition vertex_text :: "bool \<Rightarrow> bool \<Rightarrow> nat \<times> nat \<times> nat \<Rightarrow> string" where
  "vertex_text hasN hasUv x = (case x of (v, t, n) \<Rightarrow>
     show_nat v @ (if hasUv then CHR ''/'' # show_nat t else if hasN then ''/'' else []) @
     (if hasN then CHR ''/'' # show_nat n else []))"

definition face_text :: "bool \<Rightarrow> bool \<Rightarrow> (nat \<times> nat \<times> nat) list \<Rightarrow> string" where
  "face_text hasN hasUv xs = ''f'' @ concat (map (\<lambda>x. CHR '' '' # vertex_text hasN hasUv x) xs) @ [CHR 0x0A]"

definition fits_int :: "nat \<times> nat \<times> nat \<Rightarrow> bool" where
  "fits_int x \<longleftrightarrow> (case x of (v, t, n) \<Rightarrow> v < 2147483648 \<and> t < 2147483648 \<and> n < 2147483648)"

text \<open>The indices that are read: 0-based, -1 for what is missing, and -1 for the normal of \<open>v//n\<close>.\<close>

definition read_index :: "bool \<Rightarrow> bool \<Rightarrow> nat \<times> nat \<times> nat \<Rightarrow> int \<times> int \<times> int" where
  "read_index hasN hasUv x = (case x of (v, t, n) \<Rightarrow>
     (int v - 1, if hasUv then int t - 1 else - 1, if hasN \<and> hasUv then int n - 1 else - 1))"

section \<open>Numbers in a line\<close>

definition stops :: "string \<Rightarrow> bool" where
  "stops y \<longleftrightarrow> (case y of [] \<Rightarrow> True | c # _ \<Rightarrow> \<not> is_digit c)"

lemma stops_simps [simp]: "stops []" "stops (c # y) \<longleftrightarrow> \<not> is_digit c"
  by (simp_all add: stops_def)

lemma digit_chars [simp]:
  "\<not> is_digit (CHR ''/'')" "\<not> is_digit (CHR '' '')" "\<not> is_digit (CHR 0x0A)" "\<not> is_digit (CHR 0x00)"
  by (simp_all add: is_digit_def code_def)

lemma show_nat_all_digits: "\<forall>c\<in>set (show_nat k). is_digit c"
  using show_nat_digits by (simp add: is_digit_def)

lemma take_digits: "stops y \<Longrightarrow> takeWhile is_digit (show_nat k @ y) = show_nat k"
  using show_nat_all_digits [of k] by (cases y) (simp_all add: takeWhile_append2)

lemma not_digit_notin [simp]: "\<not> is_digit c \<Longrightarrow> c \<notin> set (show_nat k)"
  using show_nat_all_digits by blast

lemma stops_c_text: "stops y \<Longrightarrow> stops (c_text y)"
  by (cases y) (simp_all add: c_text_def)

lemma atoi_show_nat:
  assumes "k < 2147483648" "stops y"
  shows "atoi (c_text (show_nat k @ y)) = int k"
proof -
  obtain c r where s: "show_nat k = c # r" using show_nat_ne by (metis neq_Nil_conv)
  then have c: "is_digit c" using show_nat_all_digits [of k] by simp
  then have h: "\<not> is_space c" "c \<noteq> CHR ''-''" "c \<noteq> CHR ''+''" by (auto simp: is_digit_def is_space_def code_def)
  have t: "c_text (show_nat k @ y) = show_nat k @ c_text y" by (rule c_text_append) simp
  have d: "takeWhile is_digit (show_nat k @ c_text y) = show_nat k" by (intro take_digits stops_c_text assms)
  show ?thesis
    unfolding atoi_def t using d h assms(1) by (simp add: s read_show_nat [of k, unfolded s] Let_def clamp32_def)
qed

lemma atoi_slash [simp]: "atoi (c_text (CHR ''/'' # y)) = 0"
  by (simp add: atoi_def c_text_def is_space_def is_digit_def code_def read_nat_def clamp32_def)

lemma CountNumbers_show: "stops y \<Longrightarrow> CountNumbers (show_nat k @ y) = length (show_nat k)"
proof -
  have "IsCharNumber = is_digit" by (simp add: fun_eq_iff IsCharNumber_def)
  then show "stops y \<Longrightarrow> ?thesis" by (simp add: CountNumbers_def take_digits)
qed

lemma CountNumbers_none [simp]: "CountNumbers (CHR ''/'' # y) = 0"
  by (simp add: CountNumbers_def IsCharNumber_def)

section \<open>Inspecting and reading a vertex\<close>

text \<open>What can follow a vertex: the next one or the end of the line.\<close>

definition tail_ok :: "string \<Rightarrow> bool" where
  "tail_ok y \<longleftrightarrow> (\<exists>c r. y = c # r \<and> (c = CHR '' '' \<or> c = CHR 0x0A))"

lemma tail_stops: "tail_ok y \<Longrightarrow> stops y" and tail_no_slash: "tail_ok y \<Longrightarrow> \<not> slash_more y"
  by (auto simp: tail_ok_def slash_more_def split: list.split)

lemma slash_show [simp]: "slash_more (CHR ''/'' # show_nat k @ y)"
  using show_nat_ne [of k] by (cases "show_nat k") (simp_all add: slash_more_def)

lemma inspect_vertex:
  assumes "tail_ok y"
  shows "InspectVertexDefinition (vertex_text hasN hasUv x @ y) = (True, hasN, hasUv)"
proof -
  obtain v t n where x: "x = (v, t, n)" by (cases x)
  note y = tail_stops [OF assms] tail_no_slash [OF assms]
  have ne: "length (show_nat k) \<noteq> 0" for k using show_nat_ne by simp
  show ?thesis
    by (cases hasN; cases hasUv)
      (simp_all add: x vertex_text_def InspectVertexDefinition_def CountNumbers_show y ne show_nat_ne Let_def, simp_all add: slash_more_def)
qed

lemma skip_past_at: "c \<notin> set a \<Longrightarrow> skip_past c (a @ c # r) = Done r"
  by (induction a) (auto simp: skip_past_def)

lemma vertex_no_space: "CHR '' '' \<notin> set (vertex_text hasN hasUv x)"
  by (auto simp: vertex_text_def split: prod.split)

lemma face_vertex_reads:
  assumes "fits_int x" "tail_ok y" "CHR '' '' \<notin> set a"
  shows "\<exists>q. face_vertex hasN hasUv (a @ CHR '' '' # vertex_text hasN hasUv x @ y) = Done (read_index hasN hasUv x, q @ y) \<and>
    CHR '' '' \<notin> set q"
proof -
  obtain v t n where x: "x = (v, t, n)" by (cases x)
  have b: "v < 2147483648" "t < 2147483648" "n < 2147483648" using assms(1) by (simp_all add: x fits_int_def)
  note y = tail_stops [OF assms(2)]
  have sp: "skip_past (CHR '' '') (a @ CHR '' '' # r) = Done r" for r by (rule skip_past_at [OF assms(3)])
  have sl: "skip_past (CHR ''/'') (show_nat k @ CHR ''/'' # r) = Done r" for k r by (rule skip_past_at) simp
  have ai: "attr_index (int k) = int k - 1" "vert_index (int k) = int k - 1" "attr_index 0 = - 1" for k
    by (simp_all add: attr_index_def vert_index_def)
  consider "hasUv" "hasN" | "hasUv" "\<not> hasN" | "\<not> hasUv" "hasN" | "\<not> hasUv" "\<not> hasN" by blast
  then show ?thesis
  proof cases
    case 1
    show ?thesis
      by (rule exI [of _ "show_nat n"])
        (simp add: 1 x face_vertex_def vertex_text_def read_attr_def read_index_def sp sl ai atoi_show_nat b y)
  next
    case 2
    show ?thesis
      by (rule exI [of _ "show_nat t"])
        (simp add: 2 x face_vertex_def vertex_text_def read_attr_def read_index_def sp sl ai atoi_show_nat b y)
  next
    case 3
    show ?thesis
      by (rule exI [of _ "CHR ''/'' # show_nat n"])
        (simp add: 3 x face_vertex_def vertex_text_def read_attr_def read_index_def sp sl ai atoi_show_nat b y)
  next
    case 4
    show ?thesis
      by (rule exI [of _ "show_nat v"])
        (simp add: 4 x face_vertex_def vertex_text_def read_attr_def read_index_def sp sl ai atoi_show_nat b y)
  qed
qed

section \<open>The whole line\<close>

definition vertices_text :: "bool \<Rightarrow> bool \<Rightarrow> (nat \<times> nat \<times> nat) list \<Rightarrow> string \<Rightarrow> string" where
  "vertices_text hasN hasUv xs z = concat (map (\<lambda>x. CHR '' '' # vertex_text hasN hasUv x) xs) @ z"

lemma vertices_text_simps [simp]:
  "vertices_text hasN hasUv [] z = z"
  "vertices_text hasN hasUv (x # xs) z = CHR '' '' # vertex_text hasN hasUv x @ vertices_text hasN hasUv xs z"
  by (simp_all add: vertices_text_def)

lemma tail_vertices: "tail_ok (vertices_text hasN hasUv xs (CHR 0x0A # w))"
  by (cases xs) (simp_all add: tail_ok_def)

lemma face_vertices_read:
  "list_all fits_int xs \<Longrightarrow> CHR '' '' \<notin> set a \<Longrightarrow>
     face_vertices hasN hasUv (length xs) (a @ vertices_text hasN hasUv xs (CHR 0x0A # w)) = Done (map (read_index hasN hasUv) xs)"
proof (induction xs arbitrary: a)
  case (Cons x xs)
  obtain q where q: "face_vertex hasN hasUv (a @ CHR '' '' # vertex_text hasN hasUv x @ vertices_text hasN hasUv xs (CHR 0x0A # w)) =
      Done (read_index hasN hasUv x, q @ vertices_text hasN hasUv xs (CHR 0x0A # w))" "CHR '' '' \<notin> set q"
    using face_vertex_reads [OF _ tail_vertices Cons.prems(2)] Cons.prems(1) by fastforce
  show ?case using Cons.IH [OF _ q(2)] Cons.prems(1) q(1) by simp
qed simp

lemma vertex_spots_skip: "CHR '' '' \<notin> set t \<Longrightarrow> vertex_spots (t @ s) = vertex_spots s"
proof (induction t)
  case (Cons a t)
  have "vertex_spots (a # r) = vertex_spots r" for r using Cons.prems by (cases r) auto
  then show ?case using Cons by simp
qed simp

lemma vertex_spots_text:
  "vertex_spots (CHR '' '' # vertex_text hasN hasUv x @ r) = (vertex_text hasN hasUv x @ r) # vertex_spots r"
proof -
  obtain c t where c: "vertex_text hasN hasUv x = c # t" "is_digit c"
    using show_nat_ne [of "fst x"] show_nat_all_digits [of "fst x"]
    by (cases x; cases "show_nat (fst x)") (auto simp: vertex_text_def)
  have "vertex_spots ((c # t) @ r) = vertex_spots r" by (rule vertex_spots_skip) (use vertex_no_space c(1) in metis)
  then show ?thesis by (simp add: c IsCharNumber_def)
qed

lemma length_vertex_spots: "length (vertex_spots (vertices_text hasN hasUv xs [CHR 0x0A])) = length xs"
  by (induction xs) (simp_all add: vertex_spots_text)

lemma inspect_face:
  assumes "xs \<noteq> []"
  shows "InspectFaceLine (''f'' @ vertices_text hasN hasUv xs [CHR 0x0A]) = (length xs, Some (hasN, hasUv))"
proof -
  obtain x ys where xs: "xs = x # ys" using assms by (cases xs) auto
  show ?thesis
    using length_vertex_spots [of hasN hasUv ys]
    by (simp add: InspectFaceLine_def xs vertex_spots_text inspect_vertex tail_vertices)
qed

lemma vertices_no_NUL: "CHR 0x00 \<notin> set (vertices_text hasN hasUv xs [CHR 0x0A])"
  by (induction xs) (auto simp: vertex_text_def split: prod.split)

lemma face_text_vertices: "face_text hasN hasUv xs = ''f'' @ vertices_text hasN hasUv xs [CHR 0x0A]"
  by (simp add: face_text_def vertices_text_def)

text \<open>The batch after a printed face.\<close>

definition with_face :: "bool \<Rightarrow> bool \<Rightarrow> (nat \<times> nat \<times> nat) list \<Rightarrow> MY_DRAW_BATCH \<Rightarrow> MY_DRAW_BATCH" where
  "with_face hasN hasUv xs b = add_face (map (read_index hasN hasUv) xs) (b\<lparr>bHasNormal := Some hasN, bHasUv := Some hasUv\<rparr>)"

lemma face_line_run:
  assumes "xs \<noteq> []" "list_all fits_int xs"
  shows "face_line (load_line (face_text hasN hasUv xs) buf) b = Done (with_face hasN hasUv xs b)"
proof -
  let ?l = "''f'' @ vertices_text hasN hasUv xs [CHR 0x0A]"
  have t: "c_text (load_line ?l buf) = ?l" using vertices_no_NUL by (intro c_text_load_line) simp
  have b: "load_line ?l buf = ''f'' @ vertices_text hasN hasUv xs (CHR 0x0A # CHR 0x00 # drop (Suc (length ?l)) buf)"
    by (simp add: load_line_def vertices_text_def)
  have v: "face_vertices hasN hasUv (length xs) (load_line ?l buf) = Done (map (read_index hasN hasUv) xs)"
    unfolding b by (rule face_vertices_read) (use assms(2) in simp_all)
  show ?thesis
    unfolding face_text_vertices face_line_def t inspect_face [OF assms(1)] prod.case option.case v by (simp add: with_face_def)
qed

text \<open>
  C15. Printing a face and loading the line gives its indices back, 0-based, for positions alone, positions with
  texture coordinates, and all three, whatever earlier lines left in the buffer.
\<close>

theorem face_line_roundtrip:
  assumes "xs \<noteq> []" "list_all fits_int xs" "hasN \<longrightarrow> hasUv"
  shows "face_line (load_line (face_text hasN hasUv xs) buf) b =
    Done (add_face (map (\<lambda>(v, t, n). (int v - 1, if hasUv then int t - 1 else - 1, if hasN then int n - 1 else - 1)) xs)
      (b\<lparr>bHasNormal := Some hasN, bHasUv := Some hasUv\<rparr>))"
proof -
  have "read_index hasN hasUv = (\<lambda>(v, t, n). (int v - 1, if hasUv then int t - 1 else - 1, if hasN then int n - 1 else - 1))"
    using assms(3) by (auto simp: fun_eq_iff read_index_def)
  then show ?thesis using face_line_run [OF assms(1,2)] by (simp add: with_face_def)
qed

section \<open>Faces with normals and no texture coordinates\<close>

text \<open>The two ways the converter ends.\<close>

definition done_or_ub :: "'a outcome \<Rightarrow> bool" where
  "done_or_ub m \<longleftrightarrow> m \<noteq> Fail \<and> m \<noteq> NoFuel"

named_theorems total_intro \<open>steps that end in a value or undefined behaviour\<close>

lemma done_or_ub_basic [total_intro]: "done_or_ub (Done a)" "done_or_ub UB" "done_or_ub (at xs i)" "done_or_ub (flag x)"
  by (simp_all add: done_or_ub_def at_def flag_def split: option.split)

lemma done_or_ub_bind [total_intro]: "done_or_ub m \<Longrightarrow> (\<And>a. done_or_ub (f a)) \<Longrightarrow> done_or_ub (obind m f)"
  by (cases m) (simp_all add: done_or_ub_def)

lemma done_or_ub_if [total_intro]: "done_or_ub m \<Longrightarrow> done_or_ub n \<Longrightarrow> done_or_ub (if c then m else n)"
  by simp

lemma done_or_ub_write [total_intro]: "(\<And>x. done_or_ub (f x)) \<Longrightarrow> done_or_ub (write_all f xs)"
  by (induction xs) (auto intro: total_intro)

lemma done_or_ub_convert: "done_or_ub (convert_subset obj b)"
  unfolding convert_subset_def face_bytes_def triangle_def corner_def Let_def by (intro total_intro)

lemma write_all_member: "write_all f xs = Done bs \<Longrightarrow> x \<in> set xs \<Longrightarrow> \<exists>c. f x = Done c"
  by (induction xs arbitrary: bs) (auto simp: obind_eq_Done)

text \<open>
  A face in the form \<open>v//n\<close>, which the loader's remarks list among the forms it handles, gets the normal
  index -1 for every vertex, and converting the batch it was added to reads outside the vector of normals.
\<close>

theorem normals_without_uv_crash:
  assumes "3 \<le> length xs" "list_all fits_int xs"
  shows "\<exists>b'. face_line (load_line (face_text True False xs) buf) b = Done b' \<and>
    (\<forall>i\<in>set (NormalIndex (last (Faces b'))). i = - 1) \<and> convert_subset obj b' = UB"
proof -
  let ?b = "with_face True False xs b" and ?f = "face_of (map (read_index True False) xs)"
  have f: "Faces ?b = Faces b @ [?f]" "bHasNormal ?b = Some True" "bHasUv ?b = Some False"
    by (simp_all add: with_face_def add_face_def)
  have n: "NormalIndex ?f = replicate (length xs) (- 1)" and l: "length (VertIndex ?f) = length xs"
    by (simp_all add: face_of_def read_index_def map_replicate_const [symmetric] split_beta comp_def)
  have neg: "at (Normals obj) (- 1) = UB" by (simp add: at_def)
  have c: "corner obj True False ?f 0 \<noteq> Done c" for c
    using assms(1) by (auto simp: corner_def n at_def obind_eq_Done)
  have "2 \<in> set [2..<length (VertIndex ?f)]" using assms(1) l by simp
  then have "face_bytes obj True False ?f \<noteq> Done d" for d
    using write_all_member [of "triangle obj True False ?f" "[2..<length (VertIndex ?f)]" d 2] c
    by (auto simp: face_bytes_def triangle_def obind_eq_Done)
  then have "write_all (face_bytes obj True False) (Faces ?b) \<noteq> Done d" for d
    using write_all_member [of "face_bytes obj True False" "Faces ?b" d ?f] f(1) by auto
  then have "convert_subset obj ?b \<noteq> Done s" for s
    by (auto simp: convert_subset_def f(2,3) flag_def obind_eq_Done Let_def)
  then have u: "convert_subset obj ?b = UB"
    using done_or_ub_convert [of obj ?b] by (cases "convert_subset obj ?b") (auto simp: done_or_ub_def)
  have "xs \<noteq> []" using assms(1) by auto
  then show ?thesis
    using face_line_run [OF _ assms(2)] u f(1) n by (intro exI [of _ ?b]) simp
qed

end
