(* ===== verification/ObjConvert.thy ===== *)
theory ObjConvert
  imports ObjFaces ScanRoundtrip
begin

text \<open>
  The converter on an OBJ whose indices are in range: it does not fail, every subset holds exactly the fan
  triangulation of its faces, and the model it builds is one the saver and the loader take.
\<close>

section \<open>What an OBJ must satisfy\<close>

definition below :: "'a list \<Rightarrow> int \<Rightarrow> bool" where
  "below xs i \<longleftrightarrow> 0 \<le> i \<and> i < int (length xs)"

definition face_ok :: "MY_OBJ \<Rightarrow> bool \<Rightarrow> bool \<Rightarrow> MY_FACE \<Rightarrow> bool" where
  "face_ok obj hasN hasUv f \<longleftrightarrow> 2 \<le> length (VertIndex f) \<and>
     length (NormalIndex f) = length (VertIndex f) \<and> length (UvIndex f) = length (VertIndex f) \<and>
     list_all (below (Vertices obj)) (VertIndex f) \<and> (hasN \<longrightarrow> list_all (below (Normals obj)) (NormalIndex f)) \<and>
     (hasUv \<longrightarrow> list_all (below (UVs obj)) (UvIndex f))"

definition triangles :: "MY_FACE list \<Rightarrow> nat" where
  "triangles fs = sum_list (map (\<lambda>f. length (VertIndex f) - 2) fs)"

definition text_fits :: "string \<Rightarrow> bool" where
  "text_fits t \<longleftrightarrow> length t < 32 \<and> CHR 0x00 \<notin> set t"

text \<open>A batch of at most 19 million triangles: its buffers stay below the limit of LZ4.\<close>

definition batch_ok :: "MY_OBJ \<Rightarrow> MY_DRAW_BATCH \<Rightarrow> bool" where
  "batch_ok obj b \<longleftrightarrow> (\<exists>hasN hasUv. bHasNormal b = Some hasN \<and> bHasUv b = Some hasUv \<and>
     (\<forall>f\<in>set (Faces b). face_ok obj hasN hasUv f)) \<and> triangles (Faces b) \<le> 19000000 \<and> text_fits (sMatName b)"

section \<open>Sizes\<close>

lemma at_below: "below xs i \<Longrightarrow> at xs i = Done (xs ! nat i)"
  by (simp add: at_def below_def)

lemma at_nat: "k < length xs \<Longrightarrow> at xs (int k) = Done (xs ! k)"
  by (simp add: at_def)

lemma length_enc_float3 [simp]: "length (enc_float3 p) = 12"
  by (simp add: enc_float3_def)

definition corner_bytes :: "MY_OBJ \<Rightarrow> bool \<Rightarrow> bool \<Rightarrow> MY_FACE \<Rightarrow> nat \<Rightarrow> bytes" where
  "corner_bytes obj hasN hasUv f k = enc_float3 (mirror (Vertices obj ! nat (VertIndex f ! k))) @
     (if hasN then enc_float3 (mirror (Normals obj ! nat (NormalIndex f ! k))) else []) @
     (if hasUv then (let u = UVs obj ! nat (UvIndex f ! k) in le32 (uv_u u) @ le32 (uv_v u)) else [])"

lemma corner_Done:
  assumes "face_ok obj hasN hasUv f" "k < length (VertIndex f)"
  shows "corner obj hasN hasUv f k = Done (corner_bytes obj hasN hasUv f k)"
proof -
  have v: "below (Vertices obj) (VertIndex f ! k)" using assms by (simp add: face_ok_def list_all_length)
  have n: "at (NormalIndex f) (int k) = Done (NormalIndex f ! k)" "at (UvIndex f) (int k) = Done (UvIndex f ! k)"
    using assms by (simp_all add: face_ok_def at_nat)
  have i: "hasN \<Longrightarrow> below (Normals obj) (NormalIndex f ! k)" "hasUv \<Longrightarrow> below (UVs obj) (UvIndex f ! k)"
    using assms by (simp_all add: face_ok_def list_all_length)
  show ?thesis
    using at_below [OF v] at_below [OF i(1)] at_below [OF i(2)]
    by (cases hasN; cases hasUv) (simp_all add: corner_def corner_bytes_def at_nat [OF assms(2)] n Let_def)
qed

lemma format_size: "unat (GetVertexSize (subset_format hasN hasUv)) = 12 + (if hasN then 12 else 0) + (if hasUv then 8 else 0)"
  by (cases hasN; cases hasUv) (simp_all add: GetVertexSize_def subset_format_def flag_defs)

lemma format_position: "subset_format hasN hasUv AND VF_POSITIION \<noteq> 0"
  by (cases hasN; cases hasUv) (simp_all add: subset_format_def flag_defs)

lemma length_corner_bytes: "length (corner_bytes obj hasN hasUv f k) = unat (GetVertexSize (subset_format hasN hasUv))"
  by (simp add: corner_bytes_def format_size Let_def)

section \<open>The fan\<close>

text \<open>The vertices of a face in the order they are written, and those of a batch with their faces.\<close>

definition fan :: "nat \<Rightarrow> nat list" where
  "fan n = concat (map (\<lambda>i. [0, i - 1, i]) [2..<n])"

definition corners :: "MY_FACE list \<Rightarrow> (MY_FACE \<times> nat) list" where
  "corners fs = concat (map (\<lambda>f. map (Pair f) (fan (length (VertIndex f)))) fs)"

lemma write_all_Done: "(\<And>x. x \<in> set xs \<Longrightarrow> f x = Done (g x)) \<Longrightarrow> write_all f xs = Done (concat (map g xs))"
  by (induction xs) simp_all

lemma concat_map_concat: "concat (map g (concat (map h xs))) = concat (map (\<lambda>x. concat (map g (h x))) xs)"
  by (induction xs) simp_all

lemma length_chunks: "(\<And>x. x \<in> set xs \<Longrightarrow> length (g x) = n) \<Longrightarrow> length (concat (map g xs)) = length xs * n"
  by (induction xs) simp_all

lemma length_fan: "length (fan n) = 3 * (n - 2)"
  by (simp add: fan_def length_chunks [where n = 3])

lemma fan_below: "k \<in> set (fan n) \<Longrightarrow> k < n"
  by (auto simp: fan_def split: if_splits)

lemma face_bytes_Done:
  assumes "face_ok obj hasN hasUv f"
  shows "face_bytes obj hasN hasUv f = Done (concat (map (corner_bytes obj hasN hasUv f) (fan (length (VertIndex f)))))"
proof -
  have "triangle obj hasN hasUv f i = Done (concat (map (corner_bytes obj hasN hasUv f) [0, i - 1, i]))"
    if "i \<in> set [2..<length (VertIndex f)]" for i
  proof -
    have "0 < length (VertIndex f)" "i - 1 < length (VertIndex f)" "i < length (VertIndex f)" using that by auto
    then show ?thesis by (simp add: triangle_def corner_Done [OF assms])
  qed
  then have "face_bytes obj hasN hasUv f =
      Done (concat (map (\<lambda>i. concat (map (corner_bytes obj hasN hasUv f) [0, i - 1, i])) [2..<length (VertIndex f)]))"
    unfolding face_bytes_def by (rule write_all_Done)
  then show ?thesis by (simp add: fan_def concat_map_concat)
qed

lemma faces_bytes_Done:
  assumes "\<forall>f\<in>set fs. face_ok obj hasN hasUv f"
  shows "write_all (face_bytes obj hasN hasUv) fs = Done (concat (map (\<lambda>(f, k). corner_bytes obj hasN hasUv f k) (corners fs)))"
proof -
  have "write_all (face_bytes obj hasN hasUv) fs =
      Done (concat (map (\<lambda>f. concat (map (corner_bytes obj hasN hasUv f) (fan (length (VertIndex f))))) fs))"
    using assms by (intro write_all_Done face_bytes_Done) simp
  then show ?thesis by (simp add: corners_def concat_map_concat comp_def)
qed

lemma length_corners: "length (corners fs) = 3 * triangles fs"
  by (induction fs) (simp_all add: corners_def triangles_def length_fan)

lemma tri_count_triangles:
  "\<forall>f\<in>set fs. 2 \<le> length (VertIndex f) \<Longrightarrow> tri_count fs = of_nat (triangles fs)"
  by (induction fs) (simp_all add: tri_count_def triangles_def of_nat_diff)

lemma drop_chunks:
  "(\<And>x. x \<in> set xs \<Longrightarrow> length (g x) = n) \<Longrightarrow> i < length xs \<Longrightarrow>
     drop (i * n) (concat (map g xs)) = g (xs ! i) @ concat (map g (drop (Suc i) xs))"
proof (induction xs arbitrary: i)
  case (Cons x xs)
  show ?case
  proof (cases i)
    case (Suc j)
    have "drop (n + j * n) (g x @ concat (map g xs)) = drop (j * n) (concat (map g xs))"
      using Cons.prems(1) [of x] by (simp add: drop_append)
    then show ?thesis using Cons Suc by simp
  qed simp
qed simp

section \<open>Subsets\<close>

definition subset_of :: "MY_OBJ \<Rightarrow> bool \<Rightarrow> bool \<Rightarrow> MY_DRAW_BATCH \<Rightarrow> TD_MODEL_SUBSET" where
  "subset_of obj hasN hasUv b = (let T = triangles (Faces b) in
     \<lparr>pVB = concat (map (\<lambda>(f, k). corner_bytes obj hasN hasUv f k) (corners (Faces b))), pIB = map of_nat [0..<3 * T],
      ss_uiVertCount = of_nat (3 * T), ss_uiTriCount = of_nat T, ss_sMatName = text_bytes (sMatName b),
      ss_uiVertexFmt = subset_format hasN hasUv\<rparr>)"

lemma length_batch_bytes:
  "length (concat (map (\<lambda>(f, k). corner_bytes obj hasN hasUv f k) (corners fs))) =
     3 * triangles fs * unat (GetVertexSize (subset_format hasN hasUv))"
  using length_chunks [of "corners fs" "\<lambda>(f, k). corner_bytes obj hasN hasUv f k" "unat (GetVertexSize (subset_format hasN hasUv))"]
  by (simp add: length_corner_bytes length_corners split_beta)

lemma unat_mult_small: "unat a * unat b < 2 ^ 32 \<Longrightarrow> unat (a * b) = unat a * unat b" for a b :: u32
  using unat_mult_lem [of a b] by simp

lemma convert_subset_Done:
  assumes "\<forall>f\<in>set (Faces b). face_ok obj hasN hasUv f" "triangles (Faces b) \<le> 19000000"
    and "bHasNormal b = Some hasN" "bHasUv b = Some hasUv"
  shows "convert_subset obj b = Done (subset_of obj hasN hasUv b)"
proof -
  let ?T = "triangles (Faces b)" and ?vs = "GetVertexSize (subset_format hasN hasUv)"
  have t: "tri_count (Faces b) = of_nat ?T" using assms(1) by (intro tri_count_triangles) (simp add: face_ok_def)
  have u3: "unat (of_nat ?T * 3 :: u32) = 3 * ?T"
    using unat_of_nat32 [of "3 * ?T"] assms(2) by (simp add: mult.commute)
  have "unat (of_nat ?T * 3 :: u32) * unat ?vs \<le> 57000000 * 32"
    unfolding u3 using assms(2) GetVertexSize_le by (intro mult_mono) simp_all
  then have sz: "unat (of_nat ?T * 3 * ?vs) = 3 * ?T * unat ?vs" by (subst unat_mult_small) (simp_all add: u3)
  have c: "(of_nat (3 * ?T) :: u32) = of_nat ?T * 3" by (simp add: mult.commute)
  show ?thesis
    using assms(2)
    by (simp add: convert_subset_def flag_def assms(3,4) t faces_bytes_Done [OF assms(1)] length_batch_bytes sz u3 subset_of_def Let_def c)
qed

lemma text_fits_name: "text_fits t \<Longrightarrow> name_ok 32 (text_bytes t)"
proof -
  have "byte_of c = 0 \<longleftrightarrow> c = CHR 0x00" for c
  proof
    assume "byte_of c = 0"
    then have "char_of_byte (byte_of c) = char_of_byte 0" by (rule arg_cong)
    then show "c = CHR 0x00" unfolding char_of_byte_of by (simp add: char_of_byte_def char_of_def)
  qed (simp add: byte_of_def code_def)
  then show "text_fits t \<Longrightarrow> ?thesis" by (force simp: text_fits_def name_ok_def text_bytes_def)
qed

lemma subset_of_ok:
  assumes "triangles (Faces b) \<le> 19000000" "text_fits (sMatName b)"
  shows "subset_ok (subset_of obj hasN hasUv b)"
proof -
  let ?T = "triangles (Faces b)" and ?vs = "unat (GetVertexSize (subset_format hasN hasUv))"
  have T: "unat (of_nat ?T :: u32) = ?T" "unat (of_nat (3 * ?T) :: u32) = 3 * ?T"
    by (rule unat_of_nat32, use assms(1) in simp)+
  have "3 * ?T * ?vs \<le> 57000000 * 32" using assms(1) GetVertexSize_le by (intro mult_mono) simp_all
  then have "3 * ?T * ?vs + 4 * (3 * ?T) \<le> 0x7E000000" using assms(1) by simp
  then show ?thesis
    unfolding subset_ok_def subset_of_def Let_def using format_position text_fits_name [OF assms(2)]
    by (simp add: length_batch_bytes T [simplified] mult.commute)
qed

lemma batch_ok_convert:
  assumes "batch_ok obj b"
  shows "\<exists>s. convert_subset obj b = Done s \<and> subset_ok s"
  using assms convert_subset_Done subset_of_ok unfolding batch_ok_def by blast

lemma dec_enc_float3: "dec_float3 (enc_float3 p @ r) = p"
proof -
  have 1: "drop 4 (enc_float3 p @ r) = le32 (f3_y p) @ le32 (f3_z p) @ r" "drop 8 (enc_float3 p @ r) = le32 (f3_z p) @ r"
    by (simp_all add: enc_float3_def)
  have 0: "enc_float3 p @ r = le32 (f3_x p) @ le32 (f3_y p) @ le32 (f3_z p) @ r" by (simp add: enc_float3_def)
  show ?thesis unfolding dec_float3_def 1 unfolding 0 by simp
qed

text \<open>
  C13. The converter triangulates: a batch whose faces have two or more corners with indices in range, with \<open>T\<close> (at most 19 million)
  triangles in all, becomes a subset of \<open>3T\<close> vertices with indices \<open>0, 1, ..\<close>, and the position the loader reads at vertex \<open>i\<close> is that
  of the \<open>i\<close>-th corner of the fans of the faces (\<open>0, k-1, k\<close> for each \<open>k\<close> from 2), mirrored in x.
\<close>

theorem converted_fan:
  assumes "\<forall>f\<in>set (Faces b). face_ok obj hasN hasUv f" "triangles (Faces b) \<le> 19000000"
    and "bHasNormal b = Some hasN" "bHasUv b = Some hasUv"
  shows "\<exists>s. convert_subset obj b = Done s \<and> unat (ss_uiTriCount s) = triangles (Faces b) \<and>
    unat (ss_uiVertCount s) = 3 * triangles (Faces b) \<and> pIB s = map of_nat [0..<3 * triangles (Faces b)] \<and>
    (\<forall>i<3 * triangles (Faces b). dec_float3 (drop (i * unat (GetVertexSize (ss_uiVertexFmt s))) (pVB s)) =
       (case corners (Faces b) ! i of (f, k) \<Rightarrow> mirror (Vertices obj ! nat (VertIndex f ! k))))"
proof -
  let ?s = "subset_of obj hasN hasUv b" and ?vs = "unat (GetVertexSize (subset_format hasN hasUv))"
  have d: "convert_subset obj b = Done ?s" by (rule convert_subset_Done [OF assms])
  have c: "unat (ss_uiTriCount ?s) = triangles (Faces b)" "unat (ss_uiVertCount ?s) = 3 * triangles (Faces b)"
    unfolding subset_of_def Let_def TD_MODEL_SUBSET.select_convs by (rule unat_of_nat32, use assms(2) in simp)+
  have p: "dec_float3 (drop (i * ?vs) (pVB ?s)) = (case corners (Faces b) ! i of (f, k) \<Rightarrow> mirror (Vertices obj ! nat (VertIndex f ! k)))"
    if "i < 3 * triangles (Faces b)" for i
  proof -
    obtain f k where fk: "corners (Faces b) ! i = (f, k)" by (cases "corners (Faces b) ! i")
    have i: "i < length (corners (Faces b))" using that by (simp add: length_corners)
    have "drop (i * ?vs) (pVB ?s) = corner_bytes obj hasN hasUv f k @
        concat (map (\<lambda>(f, k). corner_bytes obj hasN hasUv f k) (drop (Suc i) (corners (Faces b))))"
      using drop_chunks [OF _ i, of "\<lambda>(f, k). corner_bytes obj hasN hasUv f k" ?vs]
      by (simp add: subset_of_def Let_def length_corner_bytes split_beta fk)
    then show ?thesis by (simp add: corner_bytes_def dec_enc_float3 fk)
  qed
  have f: "ss_uiVertexFmt ?s = subset_format hasN hasUv" "pIB ?s = map of_nat [0..<3 * triangles (Faces b)]"
    by (simp_all add: subset_of_def Let_def)
  show ?thesis using d c p by (intro exI [of _ ?s]) (simp add: f)
qed

text \<open>A face of one vertex takes a triangle off the count: after a triangle nothing is allocated and 36 bytes are written.\<close>

lemma degenerate_face_overflows:
  assumes "face_ok obj False False f" "length (VertIndex f) = 3" "length (VertIndex g) = 1"
    and "Faces b = [f, g]" "bHasNormal b = Some False" "bHasUv b = Some False"
  shows "convert_subset obj b = UB"
proof -
  let ?bs = "concat (map (corner_bytes obj False False f) (fan 3))"
  have w: "write_all (face_bytes obj False False) [f, g] = Done ?bs"
    using face_bytes_Done [OF assms(1)] assms(2,3) by (simp add: face_bytes_def)
  have l: "length ?bs = 36"
    using length_chunks [of "fan 3" "corner_bytes obj False False f" 12] by (simp add: length_corner_bytes format_size length_fan)
  have t: "tri_count [f, g] = 0" using assms(2,3) by (simp add: tri_count_def)
  show ?thesis unfolding convert_subset_def assms(4-6) flag_def option.case obind.simps Let_def w t l by simp
qed

section \<open>Parts, materials, textures\<close>

definition obj_part_ok :: "MY_OBJ \<Rightarrow> MY_OBJ_PART \<Rightarrow> bool" where
  "obj_part_ok obj p \<longleftrightarrow> text_fits (op_sName p) \<and> (\<forall>b\<in>set (subSets p). Faces b \<noteq> [] \<longrightarrow> batch_ok obj b)"

definition has_faces :: "MY_OBJ \<Rightarrow> bool" where
  "has_faces obj \<longleftrightarrow> (\<exists>p\<in>set (subParts obj). \<exists>b\<in>set (subSets p). Faces b \<noteq> [])"

lemma convert_subsets_Done:
  "\<forall>b\<in>set bs. Faces b \<noteq> [] \<longrightarrow> batch_ok obj b \<Longrightarrow>
     \<exists>ss. convert_subsets obj bs = Done ss \<and> (\<forall>s\<in>set ss. subset_ok s) \<and> (ss = [] \<longleftrightarrow> (\<forall>b\<in>set bs. Faces b = []))"
proof (induction bs)
  case (Cons b bs)
  then obtain ss where ss: "convert_subsets obj bs = Done ss" "\<forall>s\<in>set ss. subset_ok s" "ss = [] \<longleftrightarrow> (\<forall>b\<in>set bs. Faces b = [])"
    by auto
  show ?case
  proof (cases "Faces b = []")
    case False
    then obtain s where "convert_subset obj b = Done s" "subset_ok s" using Cons.prems batch_ok_convert by fastforce
    then show ?thesis using ss False by simp
  qed (use ss in simp)
qed simp

lemma convert_parts_Done:
  "\<forall>p\<in>set ps. obj_part_ok obj p \<Longrightarrow>
     \<exists>qs. convert_parts obj ps = Done qs \<and> (\<forall>q\<in>set qs. part_ok q) \<and>
       (qs = [] \<longleftrightarrow> (\<forall>p\<in>set ps. \<forall>b\<in>set (subSets p). Faces b = []))"
proof (induction ps)
  case (Cons p ps)
  then obtain qs where qs: "convert_parts obj ps = Done qs" "\<forall>q\<in>set qs. part_ok q"
      "qs = [] \<longleftrightarrow> (\<forall>p\<in>set ps. \<forall>b\<in>set (subSets p). Faces b = [])"
    by auto
  have p: "text_fits (op_sName p)" "\<forall>b\<in>set (subSets p). Faces b \<noteq> [] \<longrightarrow> batch_ok obj b"
    using Cons.prems by (simp_all add: obj_part_ok_def)
  obtain ss where ss: "convert_subsets obj (subSets p) = Done ss" "\<forall>s\<in>set ss. subset_ok s"
      "ss = [] \<longleftrightarrow> (\<forall>b\<in>set (subSets p). Faces b = [])"
    using convert_subsets_Done [OF p(2)] by blast
  show ?case
  proof (cases "ss = []")
    case True
    then show ?thesis using qs ss by simp
  next
    case False
    have "part_ok \<lparr>mp_sName = text_bytes (op_sName p), mp_Subsets = ss\<rparr>"
      using False ss(2) text_fits_name [OF p(1)] by (simp add: part_ok_def)
    moreover have "\<not> (\<forall>b\<in>set (subSets p). Faces b = [])" using False ss(3) by simp
    ultimately show ?thesis using qs(1,2) ss(1) False by auto
  qed
qed simp

text \<open>Names of a material that fit the fields of the file.\<close>

definition mtl_ok :: "MY_MTL \<Rightarrow> bool" where
  "mtl_ok m \<longleftrightarrow> text_fits (mtl_sName m) \<and>
     (\<forall>x\<in>{mtl_sMapKd m, mtl_sMapBump m, mtl_sMapNs m, mtl_sMapTr m, mtl_sMapRefl m}. text_fits (ToLower (RemovePath x)))"

definition textures_fit :: "disk \<Rightarrow> bool" where
  "textures_fit fs \<longleftrightarrow> (\<forall>n d. fs n = Some d \<longrightarrow> length d \<le> 0x7E000000)"

lemma material_ok_convert:
  assumes "mtl_ok m"
  shows "material_ok (mm_sName (convert_material (strip_maps m)), convert_material (strip_maps m))"
  using assms text_fits_name by (auto simp: material_ok_def mtl_ok_def convert_material_def strip_maps_def tex_name_def)

lemma convert_materials_ok:
  assumes "\<forall>m\<in>set ms. mtl_ok m" "smap_inv (Materials model)" "\<forall>km\<in>set (Materials model). material_ok km"
  shows "smap_inv (Materials (convert_materials ms model)) \<and> (\<forall>km\<in>set (Materials (convert_materials ms model)). material_ok km) \<and>
    Parts (convert_materials ms model) = Parts model \<and> Textures (convert_materials ms model) = Textures model"
  using assms
proof (induction ms arbitrary: model)
  case Nil
  then show ?case by (simp add: convert_materials_def)
next
  case (Cons m ms)
  let ?x = "convert_material (strip_maps m)"
  let ?m = "if material_used (mm_sName ?x) (Parts model) then model\<lparr>Materials := smap_put (mm_sName ?x) ?x (Materials model)\<rparr> else model"
  have x: "material_ok (mm_sName ?x, ?x)" using Cons.prems(1) by (intro material_ok_convert) simp
  have i: "smap_inv (Materials ?m)" "\<forall>km\<in>set (Materials ?m). material_ok km"
    using Cons.prems(2,3) x set_smap_put_subset [of "mm_sName ?x" ?x "Materials model"] by (auto simp: smap_put_inv)
  have c: "convert_materials (m # ms) model = convert_materials ms ?m" by (simp add: convert_materials_def Let_def)
  show ?case unfolding c using Cons.IH [OF _ i] Cons.prems(1) by simp
qed

lemma text_bytes_text: "bytes_text (text_bytes t) = t"
  by (simp add: bytes_text_def text_bytes_def comp_def)

lemma bytes_text_bytes: "text_bytes (bytes_text b) = b"
proof -
  have "byte_of (char_of_byte x) = x" for x
  proof -
    have "unat x < 256" using unsigned_less [of x, where 'a = nat] by simp
    then show ?thesis by (simp add: byte_of_def char_of_byte_def code_char_of)
  qed
  then show ?thesis by (simp add: bytes_text_def text_bytes_def comp_def)
qed

lemma LoadAndAddToTextures_ok:
  assumes "textures_fit fs" "name_ok 32 (text_bytes t)" "smap_inv (Textures m)" "\<forall>kt\<in>set (Textures m). texture_ok kt"
  shows "\<exists>r m'. LoadAndAddToTextures fs cl t m = Done (r, m') \<and> smap_inv (Textures m') \<and>
    (\<forall>kt\<in>set (Textures m'). texture_ok kt) \<and> Parts m' = Parts m \<and> Materials m' = Materials m"
proof (cases "t = [] \<or> smap_get (Textures m) (text_bytes t) \<noteq> None \<or> fs t = None")
  case True
  then show ?thesis using assms(3,4) by (auto simp: LoadAndAddToTextures_def)
next
  case False
  then obtain d where d: "fs t = Some d" by auto
  have l: "length d \<le> 0x7E000000" using assms(1) d by (auto simp: textures_fit_def)
  let ?s = "\<lparr>ts_sName = text_bytes t, ts_uiSize = of_nat (length d), ts_pData = d, ts_eFormat = 0, ts_clrAvgColor = cl\<rparr>"
  have "unat (of_nat (length d) :: u32) = length d" by (rule unat_of_nat32) (use l in simp)
  then have s: "texture_ok (text_bytes t, ?s)" using assms(2) l by (simp add: texture_ok_def)
  show ?thesis
    using False d l s assms(3,4) set_smap_put_subset [of "text_bytes t" ?s "Textures m"]
    by (auto simp: LoadAndAddToTextures_def smap_put_inv)
qed

lemma add_textures_ok:
  assumes "textures_fit fs" "\<forall>t\<in>set ts. name_ok 32 (text_bytes t)" "smap_inv (Textures m)" "\<forall>kt\<in>set (Textures m). texture_ok kt"
  shows "\<exists>m'. add_textures fs cl ts m = Done m' \<and> smap_inv (Textures m') \<and> (\<forall>kt\<in>set (Textures m'). texture_ok kt) \<and>
    Parts m' = Parts m \<and> Materials m' = Materials m"
  using assms(2-)
proof (induction ts arbitrary: m)
  case (Cons t ts)
  obtain r m1 where m1: "LoadAndAddToTextures fs cl t m = Done (r, m1)" "smap_inv (Textures m1)" "\<forall>kt\<in>set (Textures m1). texture_ok kt"
    "Parts m1 = Parts m" "Materials m1 = Materials m"
    using LoadAndAddToTextures_ok [OF assms(1) _ Cons.prems(2,3), where t = t and cl = cl] Cons.prems(1) by auto
  show ?case using Cons.IH [OF _ m1(2,3)] Cons.prems(1) m1(1,4,5) by simp
qed simp

section \<open>The whole conversion\<close>

definition obj_ok :: "MY_OBJ \<Rightarrow> bool" where
  "obj_ok obj \<longleftrightarrow> list_all (obj_part_ok obj) (subParts obj) \<and> has_faces obj \<and> list_all mtl_ok (obj_Materials obj)"

text \<open>The model both callers pass: empty, its corners indeterminate.\<close>

definition TD_SCAN_MODEL_new :: "float3 \<Rightarrow> float3 \<Rightarrow> TD_SCAN_MODEL" where
  "TD_SCAN_MODEL_new a b = \<lparr>Parts = [], Materials = [], Textures = [], ptMin = a, ptMax = b\<rparr>"

lemma convert_run_parts:
  assumes "obj_ok obj" "textures_fit fs"
  shows "\<exists>m ps. ConvertObjTo3DModel fs cl obj (TD_SCAN_MODEL_new a b) =
    Done (obj\<lparr>obj_Materials := map strip_maps (obj_Materials obj)\<rparr>, m) \<and> model_ok m \<and>
    convert_parts obj (subParts obj) = Done ps \<and> Parts m = ps \<and>
    Materials m = Materials (convert_materials (obj_Materials obj) ((TD_SCAN_MODEL_new a b)\<lparr>Parts := ps\<rparr>))"
proof -
  obtain ps where ps: "convert_parts obj (subParts obj) = Done ps" "\<forall>p\<in>set ps. part_ok p" "ps \<noteq> []"
    using convert_parts_Done [of "subParts obj" obj] assms(1) by (auto simp: obj_ok_def has_faces_def list_all_iff)
  let ?m0 = "TD_SCAN_MODEL_new a b" let ?m1 = "convert_materials (obj_Materials obj) (?m0\<lparr>Parts := Parts ?m0 @ ps\<rparr>)"
  have m1: "smap_inv (Materials ?m1)" "\<forall>km\<in>set (Materials ?m1). material_ok km" "Parts ?m1 = ps" "Textures ?m1 = []"
    using convert_materials_ok [of "obj_Materials obj" "?m0\<lparr>Parts := Parts ?m0 @ ps\<rparr>"] assms(1)
    by (simp_all add: obj_ok_def list_all_iff TD_SCAN_MODEL_new_def smap.inv_empty)
  let ?ts = "concat (map (material_textures \<circ> snd) (Materials ?m1))"
  have t: "\<forall>t\<in>set ?ts. name_ok 32 (text_bytes t)"
    using m1(2) by (auto simp: material_textures_def material_ok_def bytes_text_bytes)
  obtain m2 where m2: "add_textures fs cl ?ts ?m1 = Done m2" "smap_inv (Textures m2)" "\<forall>kt\<in>set (Textures m2). texture_ok kt"
    "Parts m2 = Parts ?m1" "Materials m2 = Materials ?m1"
    using add_textures_ok [OF assms(2) t, where cl = cl and m = ?m1] by (simp add: m1(4) smap.inv_empty) blast
  have "model_ok m2" using ps(2,3) m1 m2 by (simp add: model_ok_def)
  then show ?thesis using ps(1) m1(3) m2 by (intro exI [of _ m2] exI [of _ ps]) (simp add: ConvertObjTo3DModel_def Let_def TD_SCAN_MODEL_new_def)
qed

lemma convert_run_ok:
  assumes "obj_ok obj" "textures_fit fs"
  shows "\<exists>m. ConvertObjTo3DModel fs cl obj (TD_SCAN_MODEL_new a b) =
    Done (obj\<lparr>obj_Materials := map strip_maps (obj_Materials obj)\<rparr>, m) \<and> model_ok m"
  using convert_run_parts [OF assms, of cl a b] by blast

text \<open>
  C14. From OBJ to file and back: an OBJ as in \<open>obj_ok\<close> (there are faces; each has two or more corners with indices in range; no batch has
  more than 19 million triangles; the names of parts, materials and textures are shorter than 32 characters), whose texture files are below
  2 GB, is converted without undefined behaviour, and if the file stays below 2 GB the converted model is saved and loaded again
  unchanged but for its bounding box, which becomes that of its vertices.
\<close>

theorem converted_model_saves_and_loads:
  assumes "obj_ok obj" "textures_fit fs" "lz4_contract lz"
  shows "\<exists>obj' m. ConvertObjTo3DModel fs cl obj (TD_SCAN_MODEL_new a b) = Done (obj', m) \<and>
    (length (model_img lz fl m) < 2 ^ 31 \<longrightarrow>
      (\<exists>d. Save3DScanModel lz True (Some name) (Some m) fl = Done (True, Some d) \<and>
        (\<forall>junk fuel. model_fuel m \<le> fuel \<longrightarrow> Load3DScanModelFromMemory lz junk fuel (Some d) (of_nat (length d)) =
           Done (m\<lparr>ptMin := fst (model_box m), ptMax := snd (model_box m)\<rparr>))))"
proof -
  obtain m where m: "ConvertObjTo3DModel fs cl obj (TD_SCAN_MODEL_new a b) =
      Done (obj\<lparr>obj_Materials := map strip_maps (obj_Materials obj)\<rparr>, m)" "model_ok m"
    using convert_run_ok [OF assms(1,2)] by blast
  have "\<exists>d. Save3DScanModel lz True (Some name) (Some m) fl = Done (True, Some d) \<and>
      (\<forall>junk fuel. model_fuel m \<le> fuel \<longrightarrow> Load3DScanModelFromMemory lz junk fuel (Some d) (of_nat (length d)) =
         Done (m\<lparr>ptMin := fst (model_box m), ptMax := snd (model_box m)\<rparr>))" if "length (model_img lz fl m) < 2 ^ 31"
  proof -
    have s: "save_model lz fl m = Done (model_img lz fl m)" by (rule save_model_img [OF model_ok_buffers [OF m(2)] that])
    then show ?thesis using save_load_run [OF assms(3) m(2) s that] by (simp add: Save3DScanModel_def)
  qed
  then show ?thesis using m(1) by blast
qed

end
