(* ===== verification/D3DProps.thy ===== *)
theory D3DProps
  imports D3DModel ObjConvert
begin

text \<open>
  What the Direct3D side keeps true: every object it creates for a model is released again, every subset whose
  material the model defines is drawn with its own buffers and any other one is a null-pointer call, and picking
  returns the nearest hit as long as the vertex buffer holds three vertices per triangle.
\<close>

section \<open>Sequences of calls\<close>

lemma omap_Done: "(\<And>x. x \<in> set xs \<Longrightarrow> f x = Done (g x)) \<Longrightarrow> omap f xs = Done (map g xs)"
  by (induction xs) simp_all

lemma omap_cong: "xs = ys \<Longrightarrow> (\<And>x. x \<in> set ys \<Longrightarrow> f x = g x) \<Longrightarrow> omap f xs = omap g ys"
  by (induction ys arbitrary: xs) auto

lemma omap_map: "omap f (map g xs) = omap (f \<circ> g) xs"
  by (induction xs) simp_all

text \<open>A sequence of calls that each end or crash crashes when one does.\<close>

lemma omap_UB: "(\<And>x. x \<in> set xs \<Longrightarrow> f x = UB \<or> (\<exists>y. f x = Done y)) \<Longrightarrow> omap f xs = UB \<or> (\<exists>ys. omap f xs = Done ys)"
proof (induction xs)
  case (Cons x xs)
  have "omap f xs = UB \<or> (\<exists>ys. omap f xs = Done ys)" using Cons by simp
  then show ?case using Cons.prems [of x] by auto
qed simp

lemma omap_UB_iff:
  "(\<And>x. x \<in> set xs \<Longrightarrow> f x = UB \<or> (\<exists>y. f x = Done y)) \<Longrightarrow> omap f xs = UB \<longleftrightarrow> (\<exists>x\<in>set xs. f x = UB)"
proof (induction xs)
  case (Cons x xs)
  then show ?case using omap_UB [of xs f] by (cases "f x") (auto, (metis list.set_intros outcome.distinct)+)
qed simp

section \<open>References\<close>

definition gpu_ok :: "gpu \<Rightarrow> bool" where
  "gpu_ok g \<longleftrightarrow> (\<forall>i. g_next g \<le> i \<longrightarrow> g_refs g i = 0)"

lemma com_release_all_Done:
  "(\<And>i. count_list ps (Some i) \<le> g_refs g i) \<Longrightarrow>
     \<exists>g'. com_release_all ps g = Done g' \<and> g_next g' = g_next g \<and> g_refs g' = (\<lambda>i. g_refs g i - count_list ps (Some i))"
proof (induction ps arbitrary: g)
  case (Cons p ps)
  show ?case
  proof (cases p)
    case None
    then show ?thesis using Cons.IH [of g] Cons.prems by (simp add: com_release_def)
  next
    case (Some k)
    let ?g = "g\<lparr>g_refs := (g_refs g)(k := g_refs g k - 1)\<rparr>"
    have le: "count_list ps (Some i) + (if i = k then 1 else 0) \<le> g_refs g i" for i
      using Cons.prems [of i] Some by (auto split: if_splits)
    have r: "com_release p g = Done ?g" using le [of k] Some by (simp add: com_release_def)
    have "count_list ps (Some i) \<le> g_refs ?g i" for i using le [of i] by (auto split: if_splits)
    from Cons.IH [OF this] show ?thesis using Some r by (auto simp: fun_eq_iff)
  qed
qed (simp add: fun_eq_iff)

lemma com_new_refs:
  assumes "gpu_ok g" "com_new b g = (p, g')"
  shows "gpu_ok g' \<and> g_next g \<le> g_next g' \<and> (\<forall>i. g_refs g' i = g_refs g i + count_list [p] (Some i))"
  using assms by (auto simp: com_new_def gpu_ok_def split: if_splits)

text \<open>What the two loops that create objects add: entries in key order, each holding its own new objects.\<close>

lemma create_materials_adds:
  assumes "gpu_ok g" "sorted_wrt (<) (map fst (d_Materials d) @ map fst kms)" "\<forall>km\<in>set kms. mm_sName (snd km) = fst km"
    "create_materials x kms (d, g) = (d', g')"
  shows "\<exists>ms. d' = d\<lparr>d_Materials := d_Materials d @ ms\<rparr> \<and> map fst ms = map fst kms \<and> gpu_ok g' \<and>
    (\<forall>i. g_refs g' i = g_refs g i + count_list (map (\<lambda>a. dm_pShader (snd a)) ms) (Some i)) \<and>
    ((\<forall>h. x_effect x h) \<longrightarrow> (\<forall>m\<in>set ms. dm_pShader (snd m) \<noteq> None))"
  using assms
proof (induction kms arbitrary: d g)
  case (Cons km kms)
  obtain k m where km: "km = (k, m)" by (cases km)
  obtain p g1 where n: "com_new (x_effect x g) g = (p, g1)" by fastforce
  define mt where "mt = (D3DMODEL_MATERIAL_new (x_junk x))\<lparr>dm_clrAmbient := mm_clrAmbient m, dm_clrDiffuse := mm_clrDiffuse m,
    dm_fSpecIntensity := mm_fSpecIntensity m, dm_fGlossiness := mm_fGlossiness m, dm_fTransparency := mm_fTransparency m,
    dm_fReflectionFactor := mm_fReflectionFactor m, dm_sDiffuseTextureName := mm_sDiffuseTextureName m,
    dm_sAlphaTextureName := mm_sAlphaTextureName m, dm_sNormalTextureName := mm_sNormalTextureName m,
    dm_sSpecularTextureName := mm_sSpecularTextureName m, dm_sReflectionTextureName := mm_sReflectionTextureName m,
    dm_pBase := Some k, dm_pShader := p\<rparr>"
  let ?d = "d\<lparr>d_Materials := d_Materials d @ [(k, mt)]\<rparr>"
  have lt: "\<forall>y\<in>set (d_Materials d). fst y < k" using Cons.prems(2) by (auto simp: km sorted_wrt_append)
  have "mm_sName m = k" using Cons.prems(3) by (simp add: km)
  then have "create_materials x kms (?d, g1) = (d', g')"
    using Cons.prems(4) n smap_put_end [OF lt] by (simp add: km mt_def)
  moreover note g1 = com_new_refs [OF Cons.prems(1) n]
  ultimately obtain ms where ms: "d' = ?d\<lparr>d_Materials := d_Materials ?d @ ms\<rparr>" "map fst ms = map fst kms" "gpu_ok g'"
    "\<forall>i. g_refs g' i = g_refs g1 i + count_list (map (\<lambda>a. dm_pShader (snd a)) ms) (Some i)"
    "(\<forall>h. x_effect x h) \<longrightarrow> (\<forall>m\<in>set ms. dm_pShader (snd m) \<noteq> None)"
    using Cons.IH [of g1 ?d] Cons.prems(2,3) by (auto simp: km)
  have "(\<forall>h. x_effect x h) \<longrightarrow> p \<noteq> None" using n by (auto simp: com_new_def)
  then show ?case using ms g1 by (intro exI [of _ "(k, mt) # ms"]) (auto simp: km mt_def)
qed simp

lemma create_textures_adds:
  assumes "gpu_ok g" "sorted_wrt (<) (map fst (d_Textures d) @ map fst kts)" "\<forall>kt\<in>set kts. ts_sName (snd kt) = fst kt"
    "create_textures x kts (d, g) = (d', g')"
  shows "\<exists>ts. d' = d\<lparr>d_Textures := d_Textures d @ ts\<rparr> \<and> map fst ts = map fst kts \<and> (\<forall>t\<in>set ts. dt_pBase (snd t) = fst t) \<and>
    gpu_ok g' \<and> (\<forall>i. g_refs g' i = g_refs g i + count_list (map (\<lambda>a. dt_pTexture (snd a)) ts) (Some i))"
  using assms
proof (induction kts arbitrary: d g)
  case (Cons kt kts)
  obtain k t where kt: "kt = (k, t)" by (cases kt)
  obtain p g1 where n: "com_new (x_texture x g (ts_pData t)) g = (p, g1)" by fastforce
  let ?d = "d\<lparr>d_Textures := d_Textures d @ [(k, \<lparr>dt_pBase = k, dt_pTexture = p\<rparr>)]\<rparr>"
  have lt: "\<forall>y\<in>set (d_Textures d). fst y < k" using Cons.prems(2) by (auto simp: kt sorted_wrt_append)
  have "ts_sName t = k" using Cons.prems(3) by (simp add: kt)
  then have "create_textures x kts (?d, g1) = (d', g')" using Cons.prems(4) n smap_put_end [OF lt] by (simp add: kt)
  moreover note g1 = com_new_refs [OF Cons.prems(1) n]
  ultimately obtain ts where "d' = ?d\<lparr>d_Textures := d_Textures ?d @ ts\<rparr>" "map fst ts = map fst kts"
    "\<forall>t\<in>set ts. dt_pBase (snd t) = fst t" "gpu_ok g'"
    "\<forall>i. g_refs g' i = g_refs g1 i + count_list (map (\<lambda>a. dt_pTexture (snd a)) ts) (Some i)"
    using Cons.IH [of g1 ?d] Cons.prems(2,3) by (auto simp: kt)
  then show ?case using g1 by (intro exI [of _ "(k, \<lparr>dt_pBase = k, dt_pTexture = p\<rparr>) # ts"]) (auto simp: kt)
qed simp

section \<open>The parts of a created model\<close>

definition shader_of :: "D3D_MODEL \<Rightarrow> bytes \<Rightarrow> nat option" where
  "shader_of d n = (case smap_get (d_Materials d) n of Some m \<Rightarrow> dm_pShader m | None \<Rightarrow> None)"

text \<open>What drawing depends on: where a subset points, its shader, and what is visible.\<close>

definition subset_view :: "D3DMODEL_SUBSET \<Rightarrow> (nat \<times> nat) \<times> nat option \<times> bool" where
  "subset_view s = (ds_pBase s, dm_pShader (ds_Material s), ds_bVisible s)"

definition part_view :: "D3DMODEL_PART \<Rightarrow> bool \<times> ((nat \<times> nat) \<times> nat option \<times> bool) list" where
  "part_view p = (dp_bVisible p, map subset_view (dp_Subsets p))"

definition indices_ok :: "bytes list \<Rightarrow> D3DMODEL_SUBSET \<Rightarrow> bool" where
  "indices_ok names s \<longleftrightarrow> (let m = ds_Material s; ix = SetTextureNameIndex names in
     dm_iDiffuseTex m = ix (dm_sDiffuseTextureName m) \<and> dm_iAlphaTex m = ix (dm_sAlphaTextureName m) \<and>
     dm_iNormalTex m = ix (dm_sNormalTextureName m) \<and> dm_iSpecTex m = ix (dm_sSpecularTextureName m) \<and>
     dm_iReflTex m = ix (dm_sReflectionTextureName m))"

text \<open>Two models with the same shaders under every name, the same live references and the same textures.\<close>

definition same_shaders :: "D3D_MODEL \<Rightarrow> D3D_MODEL \<Rightarrow> bool" where
  "same_shaders d d' \<longleftrightarrow> d_Textures d' = d_Textures d \<and> (\<forall>n. shader_of d' n = shader_of d n) \<and>
     (\<forall>i. count_list (map (\<lambda>a. dm_pShader (snd a)) (d_Materials d')) (Some i) =
       count_list (map (\<lambda>a. dm_pShader (snd a)) (d_Materials d)) (Some i))"

lemma same_shaders_refl: "same_shaders d d"
  by (simp add: same_shaders_def)

lemma same_shaders_trans: "same_shaders d d1 \<Longrightarrow> same_shaders d1 d2 \<Longrightarrow> same_shaders d d2"
  by (simp add: same_shaders_def)

lemma same_shaders_parts: "same_shaders d (d'\<lparr>d_Parts := ps\<rparr>) = same_shaders d d'"
  by (simp add: same_shaders_def shader_of_def)

lemma count_put_fresh:
  "map_of m k = None \<Longrightarrow> f (k, v) = None \<Longrightarrow> count_list (map f (smap_put k v m)) (Some i) = count_list (map f m) (Some i)"
  by (induction m) (auto split: if_splits)

lemma material_at_same:
  assumes "material_at x n d = (m, d')"
  shows "same_shaders d d' \<and> d_Parts d' = d_Parts d \<and> dm_pShader m = shader_of d n"
proof (cases "smap_get (d_Materials d) n")
  case None
  have j: "dm_pShader (D3DMODEL_MATERIAL_new j) = None" for j by (simp add: D3DMODEL_MATERIAL_new_def Let_def)
  show ?thesis
    using assms None j by (auto simp: material_at_def same_shaders_def shader_of_def smap_get_def smap_put_get count_put_fresh Let_def)
next
  case (Some y)
  then show ?thesis using assms by (auto simp: material_at_def shader_of_def same_shaders_refl)
qed

lemma create_subsets_view:
  assumes "create_subsets x names i j ss d = (rs, d')"
  shows "same_shaders d d' \<and> d_Parts d' = d_Parts d \<and> (\<forall>r\<in>set rs. indices_ok names r) \<and>
    map subset_view rs = map (\<lambda>(k, s). ((i, k), shader_of d (ss_sMatName s), True)) (enumerate j ss)"
  using assms
proof (induction ss arbitrary: j d rs d')
  case (Cons s ss)
  obtain r d1 where 1: "create_subset x names (i, j) s d = (r, d1)" by fastforce
  obtain q d2 where 2: "create_subsets x names i (j + 1) ss d1 = (q, d2)" by fastforce
  obtain m where m: "material_at x (ss_sMatName s) d = (m, d1)" using 1 by (auto simp: create_subset_def Let_def split: prod.splits)
  have r: "subset_view r = ((i, j), shader_of d (ss_sMatName s), True)" "indices_ok names r"
    using 1 m material_at_same [OF m] by (auto simp: create_subset_def Let_def subset_view_def indices_ok_def)
  have d: "same_shaders d d1" "d_Parts d1 = d_Parts d" using material_at_same [OF m] by simp_all
  then have "shader_of d1 = shader_of d" by (auto simp: same_shaders_def)
  then show ?case using Cons.prems Cons.IH [OF 2] 1 2 r d same_shaders_trans [of d d1 d2] by auto
qed (simp add: same_shaders_refl)

definition created_view :: "(bytes \<Rightarrow> nat option) \<Rightarrow> nat \<times> TD_MODEL_PART \<Rightarrow> bool \<times> ((nat \<times> nat) \<times> nat option \<times> bool) list" where
  "created_view sh = (\<lambda>(k, p). (True, map (\<lambda>(j, s). ((k, j), sh (ss_sMatName s), True)) (enumerate 0 (mp_Subsets p))))"

lemma create_parts_view:
  "\<exists>new. same_shaders d (create_parts x names i ps d) \<and> d_Parts (create_parts x names i ps d) = d_Parts d @ new \<and>
     (\<forall>p\<in>set new. \<forall>r\<in>set (dp_Subsets p). indices_ok names r) \<and>
     map part_view new = map (created_view (shader_of d)) (enumerate i ps)"
proof (induction ps arbitrary: i d)
  case (Cons p ps)
  obtain rs d1 where c: "create_subsets x names i 0 (mp_Subsets p) d = (rs, d1)" by fastforce
  note v = create_subsets_view [OF c]
  let ?p = "\<lparr>dp_pBase = i, dp_bVisible = True, dp_bSelected = False, dp_Subsets = rs\<rparr>"
  let ?d = "d1\<lparr>d_Parts := d_Parts d1 @ [?p]\<rparr>"
  obtain new where n: "same_shaders ?d (create_parts x names (i + 1) ps ?d)"
    "d_Parts (create_parts x names (i + 1) ps ?d) = d_Parts ?d @ new" "\<forall>p\<in>set new. \<forall>r\<in>set (dp_Subsets p). indices_ok names r"
    "map part_view new = map (created_view (shader_of ?d)) (enumerate (i + 1) ps)" using Cons.IH [of ?d "i + 1"] by blast
  have d: "same_shaders d ?d" using v by (simp add: same_shaders_parts)
  then have s: "shader_of ?d = shader_of d" by (auto simp: same_shaders_def)
  have "part_view ?p = created_view (shader_of d) (i, p)" using v by (simp add: part_view_def created_view_def)
  then show ?case
    using n c s v same_shaders_trans [OF d n(1)] by (intro exI [of _ "?p # new"]) simp
qed (simp add: same_shaders_refl)

section \<open>A created model\<close>

definition maps_ok :: "TD_SCAN_MODEL \<Rightarrow> bool" where
  "maps_ok m \<longleftrightarrow> smap_inv (Materials m) \<and> (\<forall>km\<in>set (Materials m). mm_sName (snd km) = fst km) \<and>
     smap_inv (Textures m) \<and> (\<forall>kt\<in>set (Textures m). ts_sName (snd kt) = fst kt)"

lemma model_ok_maps: "model_ok m \<Longrightarrow> maps_ok m"
  by (auto simp: model_ok_def maps_ok_def material_ok_def texture_ok_def)

lemma smap_get_mem: "smap_inv m \<Longrightarrow> (k, v) \<in> set m \<Longrightarrow> smap_get m k = Some v"
  unfolding smap_get_def smap_inv_def by (induction m) auto

lemma texture_names_keys:
  assumes "maps_ok td" "map fst (d_Textures d) = map fst (Textures td)" "\<forall>t\<in>set (d_Textures d). dt_pBase (snd t) = fst t"
  shows "texture_names td d = Done (map fst (Textures td))"
proof -
  have "obind (texture_base td (snd kt)) (\<lambda>b. Done (ts_sName b)) = Done (fst kt)" if "kt \<in> set (d_Textures d)" for kt
  proof -
    have "fst kt \<in> fst ` set (Textures td)" using that assms(2) by (metis image_eqI list.set_map)
    then obtain b where b: "(fst kt, b) \<in> set (Textures td)" by auto
    then have "smap_get (Textures td) (fst kt) = Some b" using assms(1) by (auto simp: maps_ok_def intro: smap_get_mem)
    then show ?thesis using b assms(1,3) that by (auto simp: texture_base_def maps_ok_def)
  qed
  then show ?thesis unfolding texture_names_def by (subst omap_Done [where g = fst]) (simp_all add: assms(2))
qed

text \<open>The shaders of a model by name, what it holds of the device, and that it mirrors the loaded model.\<close>

definition mirrors :: "TD_SCAN_MODEL \<Rightarrow> D3D_MODEL \<Rightarrow> (bytes \<Rightarrow> nat option) \<Rightarrow> bool" where
  "mirrors td d sh \<longleftrightarrow> map part_view (d_Parts d) = map (created_view sh) (enumerate 0 (Parts td))"

definition held :: "D3D_MODEL \<Rightarrow> nat \<Rightarrow> nat" where
  "held d i = count_list (map (\<lambda>a. dm_pShader (snd a)) (d_Materials d)) (Some i) +
     count_list (map (\<lambda>a. dt_pTexture (snd a)) (d_Textures d)) (Some i)"

definition created :: "d3d_env \<Rightarrow> TD_SCAN_MODEL \<Rightarrow> gpu \<Rightarrow> D3D_MODEL \<Rightarrow> gpu \<Rightarrow> bool" where
  "created x td g d g' \<longleftrightarrow> gpu_ok g' \<and> (\<forall>i. g_refs g' i = g_refs g i + held d i) \<and> mirrors td d (shader_of d) \<and>
     map fst (d_Textures d) = map fst (Textures td) \<and> (\<forall>t\<in>set (d_Textures d). dt_pBase (snd t) = fst t) \<and>
     d_ptMin d = ptMin td \<and> d_ptMax d = ptMax td \<and>
     (\<forall>p\<in>set (d_Parts d). \<forall>r\<in>set (dp_Subsets p). indices_ok (map fst (Textures td)) r) \<and>
     (\<forall>n. n \<notin> fst ` set (Materials td) \<longrightarrow> shader_of d n = None) \<and>
     ((\<forall>h. x_effect x h) \<longrightarrow> (\<forall>n\<in>fst ` set (Materials td). shader_of d n \<noteq> None))"

lemma create_run:
  assumes "maps_ok td" "x_device x" "gpu_ok g"
  shows "\<exists>d g'. CreateFromTDModel x td (D3D_MODEL_new a b) g = Done (True, d, g') \<and> created x td g d g'"
proof -
  let ?new = "D3D_MODEL_new a b" let ?names = "map fst (Textures td)"
  obtain d1 g1 where c1: "create_materials x (Materials td) (?new, g) = (d1, g1)" by fastforce
  obtain ms where ms: "d1 = ?new\<lparr>d_Materials := ms\<rparr>" "map fst ms = map fst (Materials td)" "gpu_ok g1"
    "\<forall>i. g_refs g1 i = g_refs g i + count_list (map (\<lambda>a. dm_pShader (snd a)) ms) (Some i)"
    "(\<forall>h. x_effect x h) \<longrightarrow> (\<forall>m\<in>set ms. dm_pShader (snd m) \<noteq> None)"
    using create_materials_adds [OF assms(3) _ _ c1] assms(1) by (auto simp: maps_ok_def smap_inv_def D3D_MODEL_new_def)
  obtain d2 g2 where c2: "create_textures x (Textures td) (d1, g1) = (d2, g2)" by fastforce
  have "d_Textures d1 = []" by (simp add: ms(1) D3D_MODEL_new_def)
  then obtain ts where ts: "d2 = d1\<lparr>d_Textures := ts\<rparr>" "map fst ts = ?names" "\<forall>t\<in>set ts. dt_pBase (snd t) = fst t" "gpu_ok g2"
    "\<forall>i. g_refs g2 i = g_refs g1 i + count_list (map (\<lambda>a. dt_pTexture (snd a)) ts) (Some i)"
    using create_textures_adds [OF ms(3) _ _ c2] assms(1) by (auto simp: maps_ok_def smap_inv_def)
  have nm: "texture_names td d2 = Done ?names" by (rule texture_names_keys [OF assms(1)]) (simp_all add: ts)
  let ?d = "create_parts x ?names 0 (Parts td) d2"
  obtain new where n: "same_shaders d2 ?d" "d_Parts ?d = d_Parts d2 @ new" "\<forall>p\<in>set new. \<forall>r\<in>set (dp_Subsets p). indices_ok ?names r"
    "map part_view new = map (created_view (shader_of d2)) (enumerate 0 (Parts td))"
    using create_parts_view [of d2 x ?names 0 "Parts td"] by blast
  have sh: "shader_of ?d = shader_of d2" "shader_of (?d\<lparr>d_ptMin := p, d_ptMax := q\<rparr>) = shader_of d2" for p q
    using n(1) by (auto simp: same_shaders_def shader_of_def)
  have inv: "smap_inv ms" using assms(1) ms(2) by (simp add: maps_ok_def smap_inv_def)
  have un: "shader_of d2 k = None" if "k \<notin> fst ` set (Materials td)" for k
  proof -
    have "k \<notin> set (map fst ms)" using that ms(2) by simp
    then have "map_of ms k = None" by (simp add: map_of_eq_None_iff)
    then show ?thesis by (simp add: shader_of_def ts(1) ms(1) smap_get_def)
  qed
  have kn: "shader_of d2 k \<noteq> None" if "\<forall>h. x_effect x h" "k \<in> fst ` set (Materials td)" for k
  proof -
    have "k \<in> set (map fst ms)" using that(2) by (simp add: ms(2))
    then obtain m where "(k, m) \<in> set ms" by auto
    then have "smap_get ms k = Some m" "dm_pShader m \<noteq> None" using inv ms(5) that(1) by (auto intro: smap_get_mem)
    then show ?thesis by (simp add: shader_of_def ts(1) ms(1))
  qed
  have tx: "d_Textures ?d = ts" using n(1) by (simp add: same_shaders_def ts(1))
  have ct: "count_list (map (\<lambda>a. dm_pShader (snd a)) (d_Materials ?d)) (Some i) = count_list (map (\<lambda>a. dm_pShader (snd a)) ms) (Some i)" for i
    using n(1) by (simp add: same_shaders_def ts(1) ms(1))
  have "d_Parts d2 = []" by (simp add: ts(1) ms(1) D3D_MODEL_new_def)
  then have pt: "d_Parts ?d = new" using n(2) by simp
  have run: "CreateFromTDModel x td ?new g = Done (True, ?d\<lparr>d_ptMin := ptMin td, d_ptMax := ptMax td\<rparr>, g2)"
    using assms(2) nm by (simp add: CreateFromTDModel_def c1 c2)
  show ?thesis
    using ts(2-5) ms(4) n(3,4) un kn by (intro exI [of _ "?d\<lparr>d_ptMin := ptMin td, d_ptMax := ptMax td\<rparr>"] exI [of _ g2])
      (simp add: run tx ct pt sh created_def held_def mirrors_def)
qed

lemma created_mirrors: "created x td g d g' \<Longrightarrow> mirrors td d (shader_of d)"
  unfolding created_def by (elim conjE)

lemma created_unknown: "created x td g d g' \<Longrightarrow> n \<notin> fst ` set (Materials td) \<Longrightarrow> shader_of d n = None"
  unfolding created_def by (elim conjE) blast

lemma created_known: "created x td g d g' \<Longrightarrow> \<forall>h. x_effect x h \<Longrightarrow> n \<in> fst ` set (Materials td) \<Longrightarrow> shader_of d n \<noteq> None"
  unfolding created_def by (elim conjE) blast

section \<open>Drawing a created model\<close>

definition materials_known :: "TD_SCAN_MODEL \<Rightarrow> bool" where
  "materials_known m \<longleftrightarrow> (\<forall>p\<in>set (Parts m). \<forall>s\<in>set (mp_Subsets p). ss_sMatName s \<in> fst ` set (Materials m))"

text \<open>The buffers and counts of a draw call, and of a subset of the model.\<close>

definition call_buffers :: "draw_call \<Rightarrow> bytes \<times> u32 list \<times> u32 \<times> u32 \<times> u32" where
  "call_buffers c = (dc_vb c, dc_ib c, dc_vertCount c, dc_triCount c, dc_stride c)"

definition sub_buffers :: "TD_MODEL_SUBSET \<Rightarrow> bytes \<times> u32 list \<times> u32 \<times> u32 \<times> u32" where
  "sub_buffers s = (pVB s, pIB s, ss_uiVertCount s, ss_uiTriCount s, GetVertexSize (ss_uiVertexFmt s))"

lemma mirrors_nth:
  assumes "mirrors td d sh"
  shows "length (d_Parts d) = length (Parts td)"
    and "k < length (Parts td) \<Longrightarrow> dp_bVisible (d_Parts d ! k)"
    and "k < length (Parts td) \<Longrightarrow> length (dp_Subsets (d_Parts d ! k)) = length (mp_Subsets (Parts td ! k))"
    and "k < length (Parts td) \<Longrightarrow> j < length (mp_Subsets (Parts td ! k)) \<Longrightarrow>
      subset_view (dp_Subsets (d_Parts d ! k) ! j) = ((k, j), sh (ss_sMatName (mp_Subsets (Parts td ! k) ! j)), True)"
proof -
  show l: "length (d_Parts d) = length (Parts td)"
    using arg_cong [OF assms [unfolded mirrors_def], of length] by simp
  have "part_view (d_Parts d ! k) = created_view sh (k, Parts td ! k)" if "k < length (Parts td)" for k
    using arg_cong [OF assms [unfolded mirrors_def], of "\<lambda>xs. xs ! k"] that l by (simp add: nth_enumerate_eq)
  then have v: "dp_bVisible (d_Parts d ! k)"
    "map subset_view (dp_Subsets (d_Parts d ! k)) =
      map (\<lambda>(j, s). ((k, j), sh (ss_sMatName s), True)) (enumerate 0 (mp_Subsets (Parts td ! k)))"
    if "k < length (Parts td)" for k using that by (auto simp: part_view_def created_view_def)
  show "dp_bVisible (d_Parts d ! k)" if "k < length (Parts td)" by (rule v(1) [OF that])
  show ls: "length (dp_Subsets (d_Parts d ! k)) = length (mp_Subsets (Parts td ! k))" if "k < length (Parts td)" for k
    using arg_cong [OF v(2) [OF that], of length] by simp
  show "subset_view (dp_Subsets (d_Parts d ! k) ! j) = ((k, j), sh (ss_sMatName (mp_Subsets (Parts td ! k) ! j)), True)"
    if "k < length (Parts td)" "j < length (mp_Subsets (Parts td ! k))"
    using arg_cong [OF v(2) [OF that(1)], of "\<lambda>xs. xs ! j"] that ls [OF that(1)] by (simp add: nth_enumerate_eq)
qed

text \<open>
  What drawing and picking rely on: where each subset points, and its shader. A created model is \<open>placed\<close>, and stays so whatever
  flags, colours and textures are changed.
\<close>

definition shape :: "D3D_MODEL \<Rightarrow> ((nat \<times> nat) \<times> nat option) list list" where
  "shape d = map (\<lambda>p. map (\<lambda>s. (ds_pBase s, dm_pShader (ds_Material s))) (dp_Subsets p)) (d_Parts d)"

definition placed :: "TD_SCAN_MODEL \<Rightarrow> D3D_MODEL \<Rightarrow> bool" where
  "placed td d \<longleftrightarrow> map (map fst) (shape d) = map (\<lambda>(k, p). map (Pair k) [0..<length (mp_Subsets p)]) (enumerate 0 (Parts td))"

definition shaded :: "D3D_MODEL \<Rightarrow> bool" where
  "shaded d \<longleftrightarrow> (\<forall>p\<in>set (d_Parts d). \<forall>s\<in>set (dp_Subsets p). dm_pShader (ds_Material s) \<noteq> None)"

lemma shaded_shape: "shaded d \<longleftrightarrow> (\<forall>vs\<in>set (shape d). \<forall>v\<in>set vs. snd v \<noteq> None)"
  by (simp add: shaded_def shape_def)

lemma placed_nth:
  assumes "placed td d"
  shows "length (d_Parts d) = length (Parts td)"
    and "k < length (Parts td) \<Longrightarrow> length (dp_Subsets (d_Parts d ! k)) = length (mp_Subsets (Parts td ! k))"
    and "k < length (Parts td) \<Longrightarrow> j < length (mp_Subsets (Parts td ! k)) \<Longrightarrow> ds_pBase (dp_Subsets (d_Parts d ! k) ! j) = (k, j)"
proof -
  note m = assms [unfolded placed_def shape_def]
  show l: "length (d_Parts d) = length (Parts td)" using arg_cong [OF m, of length] by simp
  have v: "map ds_pBase (dp_Subsets (d_Parts d ! k)) = map (Pair k) [0..<length (mp_Subsets (Parts td ! k))]" if "k < length (Parts td)" for k
    using arg_cong [OF m, of "\<lambda>xs. xs ! k"] that l by (simp add: nth_enumerate_eq comp_def)
  show n: "length (dp_Subsets (d_Parts d ! k)) = length (mp_Subsets (Parts td ! k))" if "k < length (Parts td)" for k
    using arg_cong [OF v [OF that], of length] by simp
  show "ds_pBase (dp_Subsets (d_Parts d ! k) ! j) = (k, j)" if "k < length (Parts td)" "j < length (mp_Subsets (Parts td ! k))"
    using arg_cong [OF v [OF that(1)], of "\<lambda>xs. xs ! j"] that n [OF that(1)] by simp
qed

lemma mirrors_placed: "mirrors td d sh \<Longrightarrow> placed td d"
  unfolding placed_def shape_def using mirrors_nth [of td d sh]
  by (intro nth_equalityI) (simp_all add: nth_enumerate_eq subset_view_def)

lemma mirrors_shaded:
  assumes "mirrors td d sh" "\<forall>p\<in>set (Parts td). \<forall>s\<in>set (mp_Subsets p). sh (ss_sMatName s) \<noteq> None"
  shows "shaded d"
  unfolding shaded_def
proof (intro ballI)
  fix p s assume ps: "p \<in> set (d_Parts d)" "s \<in> set (dp_Subsets p)"
  obtain k where k: "k < length (Parts td)" "p = d_Parts d ! k" using ps(1) mirrors_nth(1) [OF assms(1)] by (metis in_set_conv_nth)
  obtain j where j: "j < length (mp_Subsets (Parts td ! k))" "s = dp_Subsets p ! j"
    using ps(2) mirrors_nth(3) [OF assms(1) k(1)] k(2) by (metis in_set_conv_nth)
  have "dm_pShader (ds_Material s) = sh (ss_sMatName (mp_Subsets (Parts td ! k) ! j))"
    using mirrors_nth(4) [OF assms(1) k(1) j(1)] k(2) j(2) by (simp add: subset_view_def)
  then show "dm_pShader (ds_Material s) \<noteq> None" using assms(2) k(1) j(1) by (metis nth_mem)
qed

lemma omap_total: "(\<And>x. x \<in> set xs \<Longrightarrow> \<exists>y. f x = Done y) \<Longrightarrow> \<exists>ys. omap f xs = Done ys"
  by (rule exI, rule omap_Done [where g = "\<lambda>x. SOME y. f x = Done y"]) (rule someI_ex)

lemma placed_render:
  assumes "placed td d" "shaded d"
  shows "\<exists>cs. RenderD3DModel x td d = Done cs"
proof -
  have s: "\<exists>cs. render_subset x td d s = Done cs" if ps: "p \<in> set (d_Parts d)" "s \<in> set (dp_Subsets p)" for p s
  proof -
    obtain k where k: "k < length (Parts td)" "p = d_Parts d ! k" using ps(1) placed_nth(1) [OF assms(1)] by (metis in_set_conv_nth)
    obtain j where j: "j < length (mp_Subsets (Parts td ! k))" "s = dp_Subsets p ! j"
      using ps(2) placed_nth(2) [OF assms(1) k(1)] k(2) by (metis in_set_conv_nth)
    have "ds_pBase s = (k, j)" using placed_nth(3) [OF assms(1) k(1) j(1)] k(2) j(2) by simp
    moreover obtain h where "dm_pShader (ds_Material s) = Some h" using assms(2) ps by (auto simp: shaded_def)
    ultimately show ?thesis using k(1) j(1) by (simp add: render_subset_def subset_base_def Let_def)
  qed
  have p: "\<exists>cs. (if \<not> dp_bVisible p then Done [] else obind (omap (render_subset x td d) (dp_Subsets p)) (\<lambda>dss. Done (concat dss))) = Done cs"
    if "p \<in> set (d_Parts d)" for p using omap_total [of "dp_Subsets p" "render_subset x td d"] s [OF that] by auto
  show ?thesis using omap_total [OF p, of "d_Parts d" "\<lambda>p. p"] unfolding RenderD3DModel_def by auto
qed

lemma render_subset_view:
  assumes "subset_view s = ((k, j), sh, True)" "k < length (Parts td)" "j < length (mp_Subsets (Parts td ! k))"
  shows "(sh = None \<longrightarrow> render_subset x td d s = UB) \<and>
    (\<forall>h. sh = Some h \<longrightarrow> (\<exists>cs. render_subset x td d s = Done cs \<and>
       map call_buffers cs = replicate (x_passes x h) (sub_buffers (mp_Subsets (Parts td ! k) ! j))))"
  using assms by (auto simp: subset_view_def render_subset_def subset_base_def call_buffers_def sub_buffers_def Let_def)

definition render_part :: "d3d_env \<Rightarrow> TD_SCAN_MODEL \<Rightarrow> D3D_MODEL \<Rightarrow> D3DMODEL_PART \<Rightarrow> draw_call list outcome" where
  "render_part x td d p = (if \<not> dp_bVisible p then Done []
     else obind (omap (render_subset x td d) (dp_Subsets p)) (\<lambda>dss. Done (concat dss)))"

lemma render_parts: "RenderD3DModel x td d = obind (omap (render_part x td d) (d_Parts d)) (\<lambda>dss. Done (concat dss))"
  by (simp add: RenderD3DModel_def render_part_def [abs_def])

lemma mirrors_pos:
  assumes "mirrors td d sh" "p \<in> set (d_Parts d)" "s \<in> set (dp_Subsets p)"
  obtains k j where "k < length (Parts td)" "j < length (mp_Subsets (Parts td ! k))" "p = d_Parts d ! k" "s = dp_Subsets p ! j"
    "subset_view s = ((k, j), sh (ss_sMatName (mp_Subsets (Parts td ! k) ! j)), True)"
proof -
  obtain k where k: "k < length (d_Parts d)" "p = d_Parts d ! k" using assms(2) by (metis in_set_conv_nth)
  obtain j where j: "j < length (dp_Subsets p)" "s = dp_Subsets p ! j" using assms(3) by (metis in_set_conv_nth)
  show ?thesis using k j mirrors_nth [OF assms(1)] by (intro that [of k j]) simp_all
qed

lemma concat_concat_map: "concat (concat (map f xs)) = concat (map (\<lambda>x. concat (f x)) xs)"
  by (induction xs) simp_all

lemma obind_concat_UB: "obind m (\<lambda>x. Done (f x)) = UB \<longleftrightarrow> m = UB"
  by (cases m) simp_all

lemma render_UB_iff:
  assumes "mirrors td d sh"
  shows "(RenderD3DModel x td d = UB \<or> (\<exists>cs. RenderD3DModel x td d = Done cs)) \<and>
    (RenderD3DModel x td d = UB \<longleftrightarrow> (\<exists>p\<in>set (Parts td). \<exists>s\<in>set (mp_Subsets p). sh (ss_sMatName s) = None))"
proof -
  have s: "render_subset x td d s = UB \<or> (\<exists>cs. render_subset x td d s = Done cs)"
    if "p \<in> set (d_Parts d)" "s \<in> set (dp_Subsets p)" for p s
  proof -
    obtain k j where "k < length (Parts td)" "j < length (mp_Subsets (Parts td ! k))"
      "subset_view s = ((k, j), sh (ss_sMatName (mp_Subsets (Parts td ! k) ! j)), True)"
      using mirrors_pos [OF assms \<open>p \<in> _\<close> \<open>s \<in> _\<close>] by metis
    then show ?thesis using render_subset_view [of s k j _ td x d] by (cases "sh (ss_sMatName (mp_Subsets (Parts td ! k) ! j))") auto
  qed
  have p: "render_part x td d p = UB \<or> (\<exists>cs. render_part x td d p = Done cs)" if "p \<in> set (d_Parts d)" for p
    using omap_UB [of "dp_Subsets p" "render_subset x td d"] s [OF that] by (auto simp: render_part_def)
  have u: "render_part x td d p = UB \<longleftrightarrow> (\<exists>s\<in>set (dp_Subsets p). render_subset x td d s = UB)" if "p \<in> set (d_Parts d)" for p
  proof -
    have "dp_bVisible p" using that mirrors_nth(1,2) [OF assms] by (metis in_set_conv_nth)
    then show ?thesis using omap_UB_iff [of "dp_Subsets p" "render_subset x td d"] s [OF that] by (simp add: render_part_def obind_concat_UB)
  qed
  have b: "RenderD3DModel x td d = UB \<longleftrightarrow> (\<exists>p\<in>set (d_Parts d). \<exists>s\<in>set (dp_Subsets p). render_subset x td d s = UB)"
    using omap_UB_iff [of "d_Parts d" "render_part x td d"] p u by (simp add: render_parts obind_concat_UB)
  have "(\<exists>p\<in>set (d_Parts d). \<exists>s\<in>set (dp_Subsets p). render_subset x td d s = UB) \<longleftrightarrow>
      (\<exists>p\<in>set (Parts td). \<exists>s\<in>set (mp_Subsets p). sh (ss_sMatName s) = None)" (is "?l \<longleftrightarrow> ?r")
  proof
    assume ?l
    then obtain p s where ps: "p \<in> set (d_Parts d)" "s \<in> set (dp_Subsets p)" "render_subset x td d s = UB" by blast
    obtain k j where kj: "k < length (Parts td)" "j < length (mp_Subsets (Parts td ! k))"
      "subset_view s = ((k, j), sh (ss_sMatName (mp_Subsets (Parts td ! k) ! j)), True)" using mirrors_pos [OF assms ps(1,2)] by metis
    then have "sh (ss_sMatName (mp_Subsets (Parts td ! k) ! j)) = None"
      using render_subset_view [OF kj(3,1,2), of x d] ps(3) by (cases "sh (ss_sMatName (mp_Subsets (Parts td ! k) ! j))") auto
    then show ?r using kj by (metis nth_mem)
  next
    assume ?r
    then obtain k j where kj: "k < length (Parts td)" "j < length (mp_Subsets (Parts td ! k))" "sh (ss_sMatName (mp_Subsets (Parts td ! k) ! j)) = None"
      by (metis in_set_conv_nth)
    have "render_subset x td d (dp_Subsets (d_Parts d ! k) ! j) = UB"
      using render_subset_view [OF mirrors_nth(4) [OF assms kj(1,2)] kj(1,2), of x d] kj(3) by simp
    moreover have "d_Parts d ! k \<in> set (d_Parts d)" "dp_Subsets (d_Parts d ! k) ! j \<in> set (dp_Subsets (d_Parts d ! k))"
      using kj(1,2) mirrors_nth(1,3) [OF assms] by simp_all
    ultimately show ?l by blast
  qed
  moreover have "RenderD3DModel x td d = UB \<or> (\<exists>cs. RenderD3DModel x td d = Done cs)"
    using omap_UB [of "d_Parts d" "render_part x td d"] p by (auto simp: render_parts)
  ultimately show ?thesis using b by simp
qed

lemma render_Done:
  assumes "mirrors td d sh" "\<forall>p\<in>set (Parts td). \<forall>s\<in>set (mp_Subsets p). sh (ss_sMatName s) \<noteq> None" "\<forall>h. x_passes x h = n"
  shows "\<exists>cs. RenderD3DModel x td d = Done cs \<and>
    map call_buffers cs = concat (map (\<lambda>s. replicate n (sub_buffers s)) (concat (map mp_Subsets (Parts td))))"
proof -
  define L where "L s = (case render_subset x td d s of Done cs \<Rightarrow> cs | _ \<Rightarrow> [])" for s
  have v: "render_subset x td d (dp_Subsets (d_Parts d ! k) ! j) = Done (L (dp_Subsets (d_Parts d ! k) ! j)) \<and>
      map call_buffers (L (dp_Subsets (d_Parts d ! k) ! j)) = replicate n (sub_buffers (mp_Subsets (Parts td ! k) ! j))"
    if "k < length (Parts td)" "j < length (mp_Subsets (Parts td ! k))" for k j
  proof -
    have "sh (ss_sMatName (mp_Subsets (Parts td ! k) ! j)) \<noteq> None" using assms(2) that by (meson nth_mem)
    then show ?thesis using render_subset_view [OF mirrors_nth(4) [OF assms(1) that] that, of x d] assms(3) by (auto simp: L_def)
  qed
  have s: "omap (render_subset x td d) (dp_Subsets p) = Done (map L (dp_Subsets p))" if p: "p \<in> set (d_Parts d)" for p
  proof (rule omap_Done)
    fix s assume s: "s \<in> set (dp_Subsets p)"
    obtain k j where "k < length (Parts td)" "j < length (mp_Subsets (Parts td ! k))" "p = d_Parts d ! k" "s = dp_Subsets p ! j"
      by (rule mirrors_pos [OF assms(1) p s])
    then show "render_subset x td d s = Done (L s)" using v by simp
  qed
  have "omap (render_part x td d) (d_Parts d) = Done (map (\<lambda>p. concat (map L (dp_Subsets p))) (d_Parts d))"
  proof (rule omap_Done)
    fix p assume p: "p \<in> set (d_Parts d)"
    then have "dp_bVisible p" using mirrors_nth(1,2) [OF assms(1)] by (metis in_set_conv_nth)
    then show "render_part x td d p = Done (concat (map L (dp_Subsets p)))" using s [OF p] by (simp add: render_part_def)
  qed
  moreover have "map (\<lambda>p. map (map call_buffers \<circ> L) (dp_Subsets p)) (d_Parts d) =
      map (\<lambda>p. map (\<lambda>s. replicate n (sub_buffers s)) (mp_Subsets p)) (Parts td)"
    using v mirrors_nth(1,3) [OF assms(1)] by (auto intro!: nth_equalityI)
  then have "concat (map concat (map (\<lambda>p. map (map call_buffers \<circ> L) (dp_Subsets p)) (d_Parts d))) =
      concat (map concat (map (\<lambda>p. map (\<lambda>s. replicate n (sub_buffers s)) (mp_Subsets p)) (Parts td)))" by simp
  ultimately show ?thesis by (simp add: render_parts map_concat o_def concat_concat_map)
qed

section \<open>Picking\<close>

text \<open>
  The vertex that the renderer takes for corner \<open>i\<close> of a subset: the one the index buffer names. A triangle of subset
  \<open>(k, j)\<close>, as it is drawn, is hit at distance \<open>t\<close>.
\<close>

definition drawn_vertex :: "TD_MODEL_SUBSET \<Rightarrow> nat \<Rightarrow> float3" where
  "drawn_vertex b i = dec_float3 (drop (unat (pIB b ! i) * unat (GetVertexSize (ss_uiVertexFmt b))) (pVB b))"

definition hit_at :: "d3d_env \<Rightarrow> float3 \<Rightarrow> float3 \<Rightarrow> TD_SCAN_MODEL \<Rightarrow> nat \<times> nat \<Rightarrow> u32 \<Rightarrow> bool" where
  "hit_at x pos dir td who t \<longleftrightarrow> (case who of (k, j) \<Rightarrow> k < length (Parts td) \<and> j < length (mp_Subsets (Parts td ! k)) \<and>
     (let b = mp_Subsets (Parts td ! k) ! j; v = drawn_vertex b in
       \<exists>n < unat (ss_uiTriCount b). x_tri x (v (3 * n)) (v (3 * n + 1)) (v (3 * n + 2)) pos dir = Some t))"

lemma hit_at_bounds: "hit_at x pos dir td (k, j) t \<Longrightarrow> k < length (Parts td) \<and> j < length (mp_Subsets (Parts td ! k))"
  by (simp add: hit_at_def)

text \<open>
  Three vertices per triangle with the indices in their order, as the converter writes them: the ray test, which never
  reads the index buffer, and the renderer take the same vertices.
\<close>

definition own_vertices :: "TD_MODEL_SUBSET \<Rightarrow> bool" where
  "own_vertices s \<longleftrightarrow> subset_ok s \<and> 3 * unat (ss_uiTriCount s) \<le> unat (ss_uiVertCount s) \<and>
     (\<forall>i < 3 * unat (ss_uiTriCount s). unat (pIB s ! i) = i)"

definition unshared :: "TD_SCAN_MODEL \<Rightarrow> bool" where
  "unshared m \<longleftrightarrow> (\<forall>p\<in>set (Parts m). \<forall>s\<in>set (mp_Subsets p). own_vertices s)"

lemma vertex_stride: "unat (GetVertexSize f div 4) * 4 = unat (GetVertexSize f)"
  by (simp add: GetVertexSize_def Let_def)

lemma vertex_at_Done:
  assumes "subset_ok s" "i < unat (ss_uiVertCount s)"
  shows "vertex_at s i = Done (dec_float3 (drop (i * unat (GetVertexSize (ss_uiVertexFmt s))) (pVB s)))"
proof -
  let ?vs = "unat (GetVertexSize (ss_uiVertexFmt s))"
  have "12 \<le> ?vs" using assms(1) by (intro GetVertexSize_position) (simp add: subset_ok_def)
  moreover have "(i + 1) * ?vs \<le> unat (ss_uiVertCount s) * ?vs" using assms(2) by (intro mult_le_mono1) simp
  ultimately have "i * ?vs + 12 \<le> length (pVB s)" using assms(1) by (simp add: subset_ok_def mult.commute)
  then show ?thesis by (simp add: vertex_at_def vertex_stride)
qed

lemma tri_hits_Done:
  assumes "subset_ok s" "3 * (i + n) \<le> unat (ss_uiVertCount s)"
  shows "\<exists>hs. tri_hits x pos dir who s i n = Done hs \<and> (\<forall>w t. (w, t) \<in> set hs \<longleftrightarrow> w = who \<and>
    (let v = (\<lambda>i. dec_float3 (drop (i * unat (GetVertexSize (ss_uiVertexFmt s))) (pVB s))) in
      \<exists>m. i \<le> m \<and> m < i + n \<and> x_tri x (v (3 * m)) (v (3 * m + 1)) (v (3 * m + 2)) pos dir = Some t))"
  using assms(2)
proof (induction n arbitrary: i)
  case (Suc n)
  let ?v = "\<lambda>i. dec_float3 (drop (i * unat (GetVertexSize (ss_uiVertexFmt s))) (pVB s))"
  obtain hs where hs: "tri_hits x pos dir who s (i + 1) n = Done hs" "\<forall>w t. (w, t) \<in> set hs \<longleftrightarrow> w = who \<and>
      (\<exists>m. i + 1 \<le> m \<and> m < i + 1 + n \<and> x_tri x (?v (3 * m)) (?v (3 * m + 1)) (?v (3 * m + 2)) pos dir = Some t)"
    using Suc.IH [of "i + 1"] Suc.prems by (auto simp: Let_def)
  have v: "vertex_at s (3 * i) = Done (?v (3 * i))" "vertex_at s (3 * i + 1) = Done (?v (3 * i + 1))"
    "vertex_at s (3 * i + 2) = Done (?v (3 * i + 2))" by (rule vertex_at_Done [OF assms(1)], use Suc.prems in simp)+
  have m: "(\<exists>m. i \<le> m \<and> m < i + Suc n \<and> P m) \<longleftrightarrow> P i \<or> (\<exists>m. i + 1 \<le> m \<and> m < i + 1 + n \<and> P m)" for P
    by (metis Suc_eq_plus1 Suc_leI add_Suc_right add_Suc_shift le_add1 le_eq_less_or_eq le_imp_less_Suc not_less_eq_eq order_refl)
  show ?case
    unfolding tri_hits.simps v obind.simps hs(1) m Let_def using hs(2) by (auto split: option.splits)
qed simp

lemma map_enumerate_nth: "map f (enumerate 0 xs) = map (\<lambda>k. f (k, xs ! k)) [0..<length xs]"
  by (rule nth_equalityI) (simp_all add: nth_enumerate_eq)

lemma hit_at_own:
  assumes "k < length (Parts td)" "j < length (mp_Subsets (Parts td ! k))" "own_vertices (mp_Subsets (Parts td ! k) ! j)"
  shows "hit_at x pos dir td (k, j) t \<longleftrightarrow> (let b = mp_Subsets (Parts td ! k) ! j;
      v = (\<lambda>i. dec_float3 (drop (i * unat (GetVertexSize (ss_uiVertexFmt b))) (pVB b))) in
    \<exists>n < unat (ss_uiTriCount b). x_tri x (v (3 * n)) (v (3 * n + 1)) (v (3 * n + 2)) pos dir = Some t)"
proof -
  let ?b = "mp_Subsets (Parts td ! k) ! j"
  have "drawn_vertex ?b i = dec_float3 (drop (i * unat (GetVertexSize (ss_uiVertexFmt ?b))) (pVB ?b))"
    if "i < 3 * unat (ss_uiTriCount ?b)" for i
    using assms(3) that by (simp add: own_vertices_def drawn_vertex_def)
  then have v: "drawn_vertex ?b (3 * n + i) = dec_float3 (drop ((3 * n + i) * unat (GetVertexSize (ss_uiVertexFmt ?b))) (pVB ?b))"
    if "n < unat (ss_uiTriCount ?b)" "i < 3" for n i using that by simp
  show ?thesis
    unfolding hit_at_def Let_def using v [of _ 0] v [of _ 1] v [of _ 2] assms(1,2) by auto
qed

lemma hit_list_Done:
  assumes "placed td d" "unshared td"
  shows "\<exists>hs. hit_list x pos dir td d = Done hs \<and> (\<forall>w t. (w, t) \<in> set hs \<longleftrightarrow> hit_at x pos dir td w t)"
proof -
  define H where "H k j = (case tri_hits x pos dir (k, j) (mp_Subsets (Parts td ! k) ! j) 0
      (unat (ss_uiTriCount (mp_Subsets (Parts td ! k) ! j))) of Done hs \<Rightarrow> hs | _ \<Rightarrow> [])" for k j
  have h: "tri_hits x pos dir (k, j) (mp_Subsets (Parts td ! k) ! j) 0 (unat (ss_uiTriCount (mp_Subsets (Parts td ! k) ! j))) = Done (H k j)"
    "\<forall>w t. (w, t) \<in> set (H k j) \<longleftrightarrow> w = (k, j) \<and> hit_at x pos dir td (k, j) t"
    if "k < length (Parts td)" "j < length (mp_Subsets (Parts td ! k))" for k j
  proof -
    have "Parts td ! k \<in> set (Parts td)" "mp_Subsets (Parts td ! k) ! j \<in> set (mp_Subsets (Parts td ! k))" using that by simp_all
    then have s: "subset_ok (mp_Subsets (Parts td ! k) ! j)"
      "3 * (0 + unat (ss_uiTriCount (mp_Subsets (Parts td ! k) ! j))) \<le> unat (ss_uiVertCount (mp_Subsets (Parts td ! k) ! j))"
      and ib: "own_vertices (mp_Subsets (Parts td ! k) ! j)"
      using assms(2) by (auto simp: unshared_def own_vertices_def)
    from tri_hits_Done [OF s, of x pos dir "(k, j)"] that hit_at_own [OF that ib]
    show "tri_hits x pos dir (k, j) (mp_Subsets (Parts td ! k) ! j) 0 (unat (ss_uiTriCount (mp_Subsets (Parts td ! k) ! j))) = Done (H k j)"
      "\<forall>w t. (w, t) \<in> set (H k j) \<longleftrightarrow> w = (k, j) \<and> hit_at x pos dir td (k, j) t"
      by (auto simp: H_def Let_def)
  qed
  have i: "omap (\<lambda>(j, s). obind (subset_base td s) (\<lambda>b. tri_hits x pos dir (k, j) b 0 (unat (ss_uiTriCount b))))
      (enumerate 0 (dp_Subsets (d_Parts d ! k))) = Done (map (\<lambda>(j, s). H k j) (enumerate 0 (dp_Subsets (d_Parts d ! k))))"
    if k: "k < length (Parts td)" for k
  proof (rule omap_Done)
    fix js assume "js \<in> set (enumerate 0 (dp_Subsets (d_Parts d ! k)))"
    then obtain j where j: "j < length (mp_Subsets (Parts td ! k))" "js = (j, dp_Subsets (d_Parts d ! k) ! j)"
      using placed_nth(2) [OF assms(1) k] by (auto simp: in_set_enumerate_eq)
    have "subset_base td (dp_Subsets (d_Parts d ! k) ! j) = Done (mp_Subsets (Parts td ! k) ! j)"
      using placed_nth(3) [OF assms(1) k j(1)] k j(1) by (simp add: subset_base_def)
    then show "(\<lambda>(j, s). obind (subset_base td s) (\<lambda>b. tri_hits x pos dir (k, j) b 0 (unat (ss_uiTriCount b)))) js = Done ((\<lambda>(j, s). H k j) js)"
      using h(1) [OF k j(1)] by (simp add: j(2))
  qed
  let ?hs = "concat (map (\<lambda>(k, p). concat (map (\<lambda>(j, s). H k j) (enumerate 0 (dp_Subsets p)))) (enumerate 0 (d_Parts d)))"
  have "omap (\<lambda>(k, p). obind (omap (\<lambda>(j, s). obind (subset_base td s) (\<lambda>b. tri_hits x pos dir (k, j) b 0 (unat (ss_uiTriCount b))))
      (enumerate 0 (dp_Subsets p))) (\<lambda>hss. Done (concat hss))) (enumerate 0 (d_Parts d)) =
      Done (map (\<lambda>(k, p). concat (map (\<lambda>(j, s). H k j) (enumerate 0 (dp_Subsets p)))) (enumerate 0 (d_Parts d)))"
    using i placed_nth(1) [OF assms(1)] by (intro omap_Done) (auto simp: in_set_enumerate_eq)
  then have "hit_list x pos dir td d = Done ?hs" by (simp add: hit_list_def)
  moreover have "(w, t) \<in> set ?hs \<longleftrightarrow> hit_at x pos dir td w t" for w t
  proof -
    have "?hs = concat (map (\<lambda>k. concat (map (H k) [0..<length (mp_Subsets (Parts td ! k))])) [0..<length (Parts td)])"
      using placed_nth(1,2) [OF assms(1)] by (simp add: map_enumerate_nth) (rule arg_cong [of _ _ concat], rule map_cong, simp, simp)
    then have "(w, t) \<in> set ?hs \<longleftrightarrow> (\<exists>k j. k < length (Parts td) \<and> j < length (mp_Subsets (Parts td ! k)) \<and> (w, t) \<in> set (H k j))"
      by (auto simp: Bex_def)
    also have "\<dots> \<longleftrightarrow> hit_at x pos dir td w t"
    proof (cases w)
      case (Pair k j)
      have "(w, t) \<in> set (H a b) \<longleftrightarrow> w = (a, b) \<and> hit_at x pos dir td (a, b) t"
        if "a < length (Parts td)" "b < length (mp_Subsets (Parts td ! a))" for a b using h(2) [OF that] by blast
      then show ?thesis using hit_at_bounds [of x pos dir td k j t] by (auto simp: Pair)
    qed
    finally show ?thesis .
  qed
  ultimately show ?thesis by blast
qed

lemma closest_less: "closest hs c = c \<or> f_less (snd (closest hs c)) (snd c)"
proof (induction hs arbitrary: c)
  case (Cons h hs)
  have "f_less (snd (closest hs (Some (fst h), snd h))) (snd c)" if "f_less (snd h) (snd c)"
    using Cons.IH [of "(Some (fst h), snd h)"] that f_less_trans by auto
  then show ?case using Cons.IH [of c] by simp
qed simp

lemma closest_min:
  "(\<forall>h\<in>set hs. \<not> f_less (snd h) (snd (closest hs c))) \<and>
     (closest hs c = c \<or> (\<exists>w. fst (closest hs c) = Some w \<and> (w, snd (closest hs c)) \<in> set hs))"
proof (induction hs arbitrary: c)
  case (Cons h hs)
  let ?r = "closest hs c"
  show ?case
  proof (cases "f_less (snd h) (snd c)")
    case True
    let ?c = "(Some (fst h), snd h)"
    have "\<not> f_less (snd h) (snd (closest hs ?c))" using closest_less [of hs ?c] f_less_asym by auto
    then show ?thesis using Cons.IH [of ?c] True by (cases h) auto
  next
    case False
    then have "\<not> f_less (snd h) (snd ?r)" using closest_less [of hs c] f_less_trans by metis
    then show ?thesis using Cons.IH [of c] False by auto
  qed
qed simp

text \<open>When the distances of hits are numbers below the largest float, the pointer that picking returns is never NULL.\<close>

definition hits_finite :: "d3d_env \<Rightarrow> bool" where
  "hits_finite x \<longleftrightarrow> (\<forall>p1 p2 p3 pos dir t. x_tri x p1 p2 p3 pos dir = Some t \<longrightarrow> f_less t FLT_MAX)"

lemma placed_pick:
  assumes "placed td d" "unshared td" "hits_finite x"
  shows "\<exists>r. IntersectRay x pos dir td d = Done r \<and> r \<noteq> Some None"
proof -
  obtain hs where hs: "hit_list x pos dir td d = Done hs" "\<forall>w t. (w, t) \<in> set hs \<longleftrightarrow> hit_at x pos dir td w t"
    using hit_list_Done [OF assms(1,2)] by blast
  have "fst (closest hs (None, FLT_MAX)) \<noteq> None" if "hs \<noteq> []"
  proof -
    obtain w t where h: "(w, t) \<in> set hs" using \<open>hs \<noteq> []\<close> by (metis list.set_intros(1) neq_Nil_conv surj_pair)
    then have "f_less t FLT_MAX" using hs(2) assms(3) by (auto simp: hit_at_def hits_finite_def Let_def split: prod.splits)
    moreover have "\<not> f_less t (snd (closest hs (None, FLT_MAX)))" using closest_min [of hs "(None, FLT_MAX)"] h by auto
    ultimately have "closest hs (None, FLT_MAX) \<noteq> (None, FLT_MAX)" by auto
    then show ?thesis using closest_min [of hs "(None, FLT_MAX)"] by auto
  qed
  then show ?thesis using hs(1) by (auto simp: IntersectRay_def)
qed

section \<open>Properties\<close>

text \<open>
  C18. A model that was created is released without loss: building the Direct3D model of any loaded model and
  freeing it again releases each effect and each texture once, and every reference count is as it was before.
\<close>

theorem created_model_is_released:
  assumes "maps_ok td" "x_device x" "gpu_ok g"
  shows "\<exists>d g1 d' g2. CreateFromTDModel x td (D3D_MODEL_new a b) g = Done (True, d, g1) \<and>
    FreeD3DModel d g1 = Done (d', g2) \<and> g_refs g2 = g_refs g \<and> d_Parts d' = [] \<and> d_Materials d' = [] \<and> d_Textures d' = []"
proof -
  obtain d g1 where c: "CreateFromTDModel x td (D3D_MODEL_new a b) g = Done (True, d, g1)"
    "created x td g d g1"
    using create_run [OF assms, of a b] by blast
  have r: "\<And>i. g_refs g1 i = g_refs g i + held d i" using c(2) by (simp add: created_def)
  obtain g2 where g2: "com_release_all (map (\<lambda>a. dm_pShader (snd a)) (d_Materials d)) g1 = Done g2"
    "g_refs g2 = (\<lambda>i. g_refs g1 i - count_list (map (\<lambda>a. dm_pShader (snd a)) (d_Materials d)) (Some i))"
    using com_release_all_Done [of "map (\<lambda>a. dm_pShader (snd a)) (d_Materials d)" g1] r by (auto simp: held_def)
  obtain g3 where g3: "com_release_all (map (\<lambda>a. dt_pTexture (snd a)) (d_Textures d)) g2 = Done g3"
    "g_refs g3 = (\<lambda>i. g_refs g2 i - count_list (map (\<lambda>a. dt_pTexture (snd a)) (d_Textures d)) (Some i))"
    using com_release_all_Done [of "map (\<lambda>a. dt_pTexture (snd a)) (d_Textures d)" g2] r g2(2) by (auto simp: held_def)
  have "g_refs g3 = g_refs g" using r g2(2) g3(2) by (auto simp: held_def)
  then show ?thesis using c(1) g2(1) g3(1) by (simp add: FreeD3DModel_def)
qed

text \<open>
  C16. Every subset is drawn: when the model defines the materials its subsets name and the effect file loads, the
  renderer draws each subset of each part once per pass of the shader, in the order of the model, from that subset's own
  vertex and index buffer and with its own counts and stride.
\<close>

theorem created_model_draws_every_subset:
  assumes "maps_ok td" "materials_known td" "x_device x" "\<forall>h. x_effect x h" "\<forall>h. x_passes x h = n" "gpu_ok g"
  shows "\<exists>d g' cs. CreateFromTDModel x td (D3D_MODEL_new a b) g = Done (True, d, g') \<and> RenderD3DModel x td d = Done cs \<and>
    map call_buffers cs = concat (map (\<lambda>s. replicate n (sub_buffers s)) (concat (map mp_Subsets (Parts td))))"
proof -
  obtain d g1 where c: "CreateFromTDModel x td (D3D_MODEL_new a b) g = Done (True, d, g1)" "created x td g d g1"
    using create_run [OF assms(1,3,6), of a b] by blast
  note m = created_mirrors [OF c(2)] created_known [OF c(2) assms(4)]
  have "\<forall>p\<in>set (Parts td). \<forall>s\<in>set (mp_Subsets p). shader_of d (ss_sMatName s) \<noteq> None"
    using assms(2) m(2) by (auto simp: materials_known_def)
  from render_Done [OF m(1) this assms(5)] show ?thesis using c(1) by blast
qed

text \<open>
  A subset whose material the model does not define makes the renderer call through a null pointer: the
  Direct3D model is created all the same, with an empty material under that name, and drawing it crashes exactly when
  there is such a subset.
\<close>

theorem unknown_material_crashes_renderer:
  assumes "maps_ok td" "x_device x" "\<forall>h. x_effect x h" "gpu_ok g"
  shows "\<exists>d g'. CreateFromTDModel x td (D3D_MODEL_new a b) g = Done (True, d, g') \<and>
    (RenderD3DModel x td d = UB \<longleftrightarrow> \<not> materials_known td)"
proof -
  obtain d g1 where c: "CreateFromTDModel x td (D3D_MODEL_new a b) g = Done (True, d, g1)" "created x td g d g1"
    using create_run [OF assms(1,2,4), of a b] by blast
  note m = created_mirrors [OF c(2)] created_unknown [OF c(2)] created_known [OF c(2) assms(3)]
  have "shader_of d n = None \<longleftrightarrow> n \<notin> fst ` set (Materials td)" for n using m(2,3) by blast
  then have "RenderD3DModel x td d = UB \<longleftrightarrow> \<not> materials_known td"
    using render_UB_iff [OF m(1), of x] by (simp add: materials_known_def)
  then show ?thesis using c(1) by blast
qed

text \<open>
  C17. Picking returns the nearest hit: in a model whose triangles have their own vertices with the indices in order, as the
  converter writes them, the ray test reads inside the buffers, reports no hit exactly when the ray hits none of the triangles the renderer
  draws, and a subset it returns has a drawn triangle that is hit at a distance no other hit is below.
\<close>

theorem picking_finds_nearest:
  assumes "maps_ok td" "unshared td" "x_device x" "gpu_ok g"
  shows "\<exists>d g' r. CreateFromTDModel x td (D3D_MODEL_new a b) g = Done (True, d, g') \<and>
    IntersectRay x pos dir td d = Done r \<and> (r = None \<longleftrightarrow> (\<forall>w t. \<not> hit_at x pos dir td w t)) \<and>
    (\<forall>w. r = Some (Some w) \<longrightarrow> (\<exists>t. hit_at x pos dir td w t \<and> (\<forall>w' t'. hit_at x pos dir td w' t' \<longrightarrow> \<not> f_less t' t))) \<and>
    (r = Some None \<longrightarrow> (\<forall>w t. hit_at x pos dir td w t \<longrightarrow> \<not> f_less t FLT_MAX))"
proof -
  obtain d g1 where c: "CreateFromTDModel x td (D3D_MODEL_new a b) g = Done (True, d, g1)" "created x td g d g1"
    using create_run [OF assms(1,3,4), of a b] by blast
  note mi = mirrors_placed [OF created_mirrors [OF c(2)]]
  obtain hs where hs: "hit_list x pos dir td d = Done hs" "\<forall>w t. (w, t) \<in> set hs \<longleftrightarrow> hit_at x pos dir td w t"
    using hit_list_Done [OF mi assms(2)] by blast
  let ?r = "closest hs (None, FLT_MAX)"
  note m = closest_min [of hs "(None, FLT_MAX)"]
  have "hs = [] \<longleftrightarrow> (\<forall>w t. (w, t) \<notin> set hs)" by (cases hs) auto
  then have e: "hs = [] \<longleftrightarrow> (\<forall>w t. \<not> hit_at x pos dir td w t)" by (simp add: hs(2))
  have s: "\<exists>t. hit_at x pos dir td w t \<and> (\<forall>w' t'. hit_at x pos dir td w' t' \<longrightarrow> \<not> f_less t' t)" if "fst ?r = Some w" for w
    using m hs(2) that by (intro exI [of _ "snd ?r"]) (auto, metis snd_conv)
  have n: "\<not> f_less t FLT_MAX" if "fst ?r = None" "hit_at x pos dir td w t" for w t
    using m hs(2) that by (metis option.distinct(1) snd_conv)
  show ?thesis using c(1) hs(1) e s n by (auto simp: IntersectRay_def)
qed

end
