(* ===== verification/ViewerProps.thy ===== *)
theory ViewerProps
  imports ViewerRun D3DProps ModelCacheProps
begin

text \<open>
  Opening a subscription in the viewer: whatever the order in which the three downloads finish and their messages are
  handled, the dialog does not crash and ends up showing the downloaded model, and from every state of the way there
  it can still get there.
\<close>

section \<open>Systems that drain\<close>

text \<open>An invariant every step keeps, and a measure some step lowers as long as work is left.\<close>

locale draining =
  fixes step :: "'s \<Rightarrow> 's \<Rightarrow> bool" and inv :: "'s \<Rightarrow> bool" and work :: "'s \<Rightarrow> nat"
  assumes step_inv: "inv s \<Longrightarrow> step s t \<Longrightarrow> inv t"
    and step_work: "inv s \<Longrightarrow> work s \<noteq> 0 \<Longrightarrow> \<exists>t. step s t \<and> work t < work s"
begin

lemma runs_inv: "step\<^sup>*\<^sup>* s t \<Longrightarrow> inv s \<Longrightarrow> inv t"
  by (induction rule: rtranclp_induct) (auto intro: step_inv)

lemma drains: "inv s \<Longrightarrow> \<exists>t. step\<^sup>*\<^sup>* s t \<and> work t = 0"
proof (induction "work s" arbitrary: s rule: less_induct)
  case less
  show ?case
  proof (cases "work s = 0")
    case False
    then obtain t where t: "step s t" "work t < work s" using step_work [OF less.prems] by blast
    from less.hyps [OF t(2) step_inv [OF less.prems t(1)]] t(1) show ?thesis
      by (meson converse_rtranclp_into_rtranclp)
  qed blast
qed

lemma always_drains: "inv s \<Longrightarrow> step\<^sup>*\<^sup>* s t \<Longrightarrow> \<exists>u. step\<^sup>*\<^sup>* t u \<and> work u = 0"
  by (rule drains) (rule runs_inv)

end

section \<open>References and what an operation leaves alone\<close>

definition held_opt :: "D3D_MODEL option \<Rightarrow> nat \<Rightarrow> nat" where
  "held_opt p i = (case p of None \<Rightarrow> 0 | Some d \<Rightarrow> held d i)"

definition thumb_refs :: "CModelViewerDlg \<Rightarrow> nat \<Rightarrow> nat" where
  "thumb_refs v i = (case m_ppThumbnails v of None \<Rightarrow> 0 | Some ps \<Rightarrow> count_list (take (nat (m_iThumbCount v)) ps) (Some i))"

definition owns :: "CModelViewerDlg \<Rightarrow> bool" where
  "owns v \<longleftrightarrow> gpu_ok (m_gpu v) \<and> (\<forall>i. held_opt (m_pd3dModel1 v) i + thumb_refs v i \<le> g_refs (m_gpu v) i)"

definition rest_of :: "CModelViewerDlg \<Rightarrow> _" where
  "rest_of v = (m_bDownloading v, m_PointerPass0 v, m_PointerPass1 v, m_PointerPass2 v, m_Cache v, m_fs v, m_strSubsid v,
     m_strAdUrl v, m_pAdTex v)"

definition models_of :: "CModelViewerDlg \<Rightarrow> _" where
  "models_of v = (m_pModel1 v, m_pd3dModel1 v)"

definition owned_of :: "CModelViewerDlg \<Rightarrow> _" where
  "owned_of v = (m_gpu v, m_ppThumbnails v, m_iThumbCount v)"

lemmas frame_defs = rest_of_def models_of_def owned_of_def

lemma owns_cong: "models_of v' = models_of v \<Longrightarrow> owned_of v' = owned_of v \<Longrightarrow> owns v' = owns v"
  by (simp add: owns_def frame_defs thumb_refs_def split: option.split)

section \<open>Thumbnails\<close>

lemma load_thumbs_run:
  assumes "gpu_ok g" "None \<notin> set es"
  shows "\<exists>ps g'. load_thumbs env fs es g = Done (ps, g') \<and> gpu_ok g' \<and> length ps = length es \<and>
    (\<forall>i. g_refs g' i = g_refs g i + count_list ps (Some i))"
  using assms
proof (induction es arbitrary: g)
  case (Cons e es)
  then obtain x where e: "e = Some x" by (cases e) auto
  obtain p g1 where n: "com_new (ve_tex env g (fs_files fs (wcs (ce_szThumbFile x)))) g = (p, g1)" by fastforce
  note r = com_new_refs [OF Cons.prems(1) n]
  then obtain ps g' where "load_thumbs env fs es g1 = Done (ps, g')" "gpu_ok g'" "length ps = length es"
    "\<forall>i. g_refs g' i = g_refs g1 i + count_list ps (Some i)"
    using Cons.IH [of g1] Cons.prems(2) by auto
  then show ?case using r by (simp add: e n deref_def)
qed simp

lemma entry_count: "length (m_CacheTable c) < 2 ^ 31 \<Longrightarrow> GetEntryCount c = int (length (m_CacheTable c))"
  by (simp add: GetEntryCount_def signed_of_nat signed_take_bit_int_eq_self)

lemma history_rev:
  assumes "length (m_CacheTable c) < 2 ^ 31"
  shows "history_entries c = map Some (rev (m_CacheTable c))"
proof (rule nth_equalityI)
  show "length (history_entries c) = length (map Some (rev (m_CacheTable c)))"
    by (simp add: history_entries_def entry_count [OF assms])
  fix i assume "i < length (history_entries c)"
  then have i: "i < length (m_CacheTable c)" by (simp add: history_entries_def entry_count [OF assms])
  have "nat (int (length (m_CacheTable c)) - 1 - int i) = length (m_CacheTable c) - Suc i" using i by linarith
  then show "history_entries c ! i = map Some (rev (m_CacheTable c)) ! i"
    using i by (simp add: history_entries_def entry_count [OF assms] GetEntry_def rev_nth)
qed

lemma FillThumbArray_run:
  assumes "owns v" "length (m_CacheTable (m_Cache v)) < 2 ^ 31"
  shows "\<exists>v'. FillThumbArray env v = Done v' \<and> owns v' \<and> rest_of v' = rest_of v \<and> models_of v' = models_of v \<and>
    m_bFileOpened v' = m_bFileOpened v"
proof -
  define old where "old = (case m_ppThumbnails v of None \<Rightarrow> [] | Some ps \<Rightarrow> take (nat (m_iThumbCount v)) ps)"
  have tr: "thumb_refs v i = count_list old (Some i)" for i by (simp add: thumb_refs_def old_def split: option.splits)
  have "count_list old (Some i) \<le> g_refs (m_gpu v) i" for i
    using assms(1) tr [of i] by (auto simp: owns_def intro: order_trans [rotated])
  from com_release_all_Done [OF this] obtain g where g: "com_release_all old (m_gpu v) = Done g" "g_next g = g_next (m_gpu v)"
    "g_refs g = (\<lambda>i. g_refs (m_gpu v) i - count_list old (Some i))" by blast
  have gok: "gpu_ok g" using assms(1) g(2,3) by (simp add: owns_def gpu_ok_def)
  have hl: "held_opt (m_pd3dModel1 v) i \<le> g_refs g i" for i
    using assms(1) tr [of i] by (simp add: owns_def g(3) le_diff_conv2 add.commute) (metis add.commute add_leD2 le_diff_conv2)
  define v1 where "v1 = (case m_ppThumbnails v of None \<Rightarrow> v | Some ps \<Rightarrow> v\<lparr>m_gpu := g, m_ppThumbnails := None, m_iTextureCount := 0\<rparr>)"
  have first: "(case m_ppThumbnails v of None \<Rightarrow> Done v
       | Some ps \<Rightarrow> obind (com_release_all (take (nat (m_iThumbCount v)) ps) (m_gpu v)) (\<lambda>g.
           Done (v\<lparr>m_gpu := g, m_ppThumbnails := None, m_iTextureCount := 0\<rparr>))) = Done v1"
    using g(1) by (simp add: v1_def old_def split: option.splits)
  have v1: "m_ppThumbnails v1 = None" "rest_of v1 = rest_of v" "models_of v1 = models_of v" "m_gpu v1 = g"
    "m_bFileOpened v1 = m_bFileOpened v" "m_Cache v1 = m_Cache v" "m_fs v1 = m_fs v" "m_pd3dModel1 v1 = m_pd3dModel1 v"
    using g(1) by (auto simp: v1_def frame_defs old_def split: option.splits)
  have n: "GetEntryCount (m_Cache v1) = int (length (m_CacheTable (m_Cache v)))" using entry_count [OF assms(2)] v1(6) by simp
  obtain ps g' where lt: "load_thumbs env (m_fs v) (map Some (rev (m_CacheTable (m_Cache v)))) g = Done (ps, g')" "gpu_ok g'"
    "length ps = length (m_CacheTable (m_Cache v))" "\<forall>i. g_refs g' i = g_refs g i + count_list ps (Some i)"
    using load_thumbs_run [OF gok, of "map Some (rev (m_CacheTable (m_Cache v)))" env "m_fs v"] by auto
  have hl': "held_opt (m_pd3dModel1 v) i + count_list ps (Some i) \<le> g_refs g' i" for i using hl [of i] lt(4) by simp
  show ?thesis
    unfolding FillThumbArray_def first obind.simps Let_def n v1(6) history_rev [OF assms(2)]
    using v1 hl gok hl' lt entry_count [OF assms(2)] by (cases "m_CacheTable (m_Cache v) = []") (simp_all add: owns_def thumb_refs_def frame_defs)
qed

section \<open>Showing a model\<close>

lemma UpdateWorldMatrix_frame [simp]:
  "rest_of (UpdateWorldMatrix env v) = rest_of v" "models_of (UpdateWorldMatrix env v) = models_of v"
  "owned_of (UpdateWorldMatrix env v) = owned_of v" "m_iCurPart1 (UpdateWorldMatrix env v) = m_iCurPart1 v"
  "m_Camera (UpdateWorldMatrix env v) = m_Camera v" "m_ThumbCamera (UpdateWorldMatrix env v) = m_ThumbCamera v"
  by (simp_all add: UpdateWorldMatrix_def frame_defs Let_def)

lemma ResetView_run:
  assumes "m_pd3dModel1 v \<noteq> None \<Longrightarrow> m_pModel1 v \<noteq> None"
  shows "\<exists>v'. ResetView env v = Done v' \<and> rest_of v' = rest_of v \<and> models_of v' = models_of v \<and> owned_of v' = owned_of v \<and>
    m_iCurPart1 v' = m_iCurPart1 v \<and> m_ThumbCamera v' = m_ThumbCamera v"
proof (cases "m_pd3dModel1 v")
  case (Some d)
  then obtain td where "m_pModel1 v = Some td" using assms by auto
  with Some show ?thesis by (simp add: ResetView_def deref_def Let_def) (simp add: frame_defs)
qed (simp add: ResetView_def)

lemma OnModelLoaded1_run:
  assumes "m_pd3dModel1 v = Some d" "m_pModel1 v = Some td"
  shows "\<exists>v'. OnModelLoaded1 env v = Done v' \<and> rest_of v' = rest_of v \<and> models_of v' = models_of v \<and> owned_of v' = owned_of v \<and>
    m_iCurPart1 v' = 0 \<and> m_ThumbCamera v' = m_ThumbCamera v"
proof -
  define w where "w = v\<lparr>m_iCurPart1 := 0, m_ptModelCenter1 := center_of d, m_vModelSize1 := v_sub (d_ptMax d) (d_ptMin d), m_fYaw := 0,
    m_fPitch := 0, m_ptPos1 := zero3, m_matCenter1 := to_origin env (center_of d)\<rparr>"
  have w: "rest_of w = rest_of v" "models_of w = models_of v" "owned_of w = owned_of v" "m_iCurPart1 w = 0" "m_ThumbCamera w = m_ThumbCamera v"
    by (simp_all add: w_def frame_defs)
  have "m_pModel1 w \<noteq> None" using assms by (simp add: w_def)
  from ResetView_run [of w env, OF this] show ?thesis using w assms by (simp add: OnModelLoaded1_def deref_def w_def [symmetric])
qed

text \<open>The names of a model's textures, in the order of its map, as the material indices of \<open>SetTextureNameIndex\<close> count them.\<close>

definition names_ok :: "TD_SCAN_MODEL \<Rightarrow> D3D_MODEL \<Rightarrow> bool" where
  "names_ok td d \<longleftrightarrow> maps_ok td \<and> map fst (d_Textures d) = map fst (Textures td) \<and> (\<forall>t\<in>set (d_Textures d). dt_pBase (snd t) = fst t)"

lemma created_names: "created x td g d g' \<Longrightarrow> maps_ok td \<Longrightarrow> names_ok td d"
  unfolding created_def names_ok_def by (elim conjE) simp

lemma FillTextureList_run:
  assumes "m_pd3dModel1 v = Some d" "m_pModel1 v = Some td" "names_ok td d"
  shows "\<exists>v'. FillTextureList v = Done v' \<and> rest_of v' = rest_of v \<and> models_of v' = models_of v \<and> owned_of v' = owned_of v \<and>
    m_iCurPart1 v' = m_iCurPart1 v \<and> m_ThumbCamera v' = m_ThumbCamera v \<and>
    m_ppszTextureNames v' = Some (map c_str (map fst (Textures td)) @ [[]]) \<and> m_iTextureCount v' = int (length (Textures td)) + 1"
proof -
  define w where "w = (if m_ppszTextureNames v = None then v else v\<lparr>m_ppszTextureNames := None, m_iTextureCount := 0\<rparr>)"
  have w: "rest_of w = rest_of v" "models_of w = models_of v" "owned_of w = owned_of v" "m_iCurPart1 w = m_iCurPart1 v"
    "m_ThumbCamera w = m_ThumbCamera v" "m_pModel1 w = Some td" "base1 v = td" using assms(2) by (simp_all add: w_def frame_defs base1_def)
  have "texture_names (base1 v) d = Done (map fst (Textures td))"
    using texture_names_keys assms(3) w(7) by (simp add: names_ok_def)
  moreover have "base1 w = base1 v" using w(6,7) by (simp add: base1_def)
  ultimately show ?thesis using w assms(1) unfolding FillTextureList_def w_def [symmetric] by (simp add: Let_def frame_defs)
qed

lemma free_d3d_run:
  assumes "\<And>i. held_opt p i \<le> g_refs g i"
  shows "\<exists>g'. free_d3d p g = Done g' \<and> g_next g' = g_next g \<and> (\<forall>i. g_refs g' i = g_refs g i - held_opt p i)"
proof (cases p)
  case (Some d)
  let ?m = "map (\<lambda>a. dm_pShader (snd a)) (d_Materials d)" and ?t = "map (\<lambda>a. dt_pTexture (snd a)) (d_Textures d)"
  have h: "held_opt p i = count_list ?m (Some i) + count_list ?t (Some i)" for i by (simp add: Some held_opt_def held_def)
  have "count_list ?m (Some i) \<le> g_refs g i" for i using assms [of i] h [of i] by linarith
  from com_release_all_Done [OF this] obtain g1 where 1: "com_release_all ?m g = Done g1" "g_next g1 = g_next g"
    "g_refs g1 = (\<lambda>i. g_refs g i - count_list ?m (Some i))" by blast
  have "count_list ?t (Some i) \<le> g_refs g1 i" for i using assms [of i] h [of i] by (simp add: 1(3))
  from com_release_all_Done [OF this] obtain g2 where 2: "com_release_all ?t g1 = Done g2" "g_next g2 = g_next g1"
    "g_refs g2 = (\<lambda>i. g_refs g1 i - count_list ?t (Some i))" by blast
  show ?thesis using 1 2 h by (simp add: Some free_d3d_def FreeD3DModel_def)
qed (simp add: free_d3d_def held_opt_def)

lemma replace1_run:
  assumes "gpu_ok (m_gpu v)" "\<And>i. held_opt (m_pd3dModel1 v) i + thumb_refs v i + held d i \<le> g_refs (m_gpu v) i" "names_ok td d"
  shows "\<exists>v'. replace1 env b (td, d) v = Done v' \<and> owns v' \<and> rest_of v' = rest_of v \<and> models_of v' = (Some td, Some d) \<and>
    m_iCurPart1 v' = 0 \<and> m_ThumbCamera v' = m_ThumbCamera v \<and>
    m_ppszTextureNames v' = Some (map c_str (map fst (Textures td)) @ [[]])"
proof -
  have "held_opt (m_pd3dModel1 v) i \<le> g_refs (m_gpu v) i" for i using assms(2) [of i] by linarith
  from free_d3d_run [OF this] obtain g where g: "free_d3d (m_pd3dModel1 v) (m_gpu v) = Done g" "g_next g = g_next (m_gpu v)"
    "\<forall>i. g_refs g i = g_refs (m_gpu v) i - held_opt (m_pd3dModel1 v) i" by blast
  have le: "held d i + thumb_refs v i \<le> g_refs g i" for i using assms(2) [of i] g(3) by simp
  define w where "w = v\<lparr>m_gpu := g, m_pModel1 := Some td, m_pd3dModel1 := Some d,
    m_lostModels := m_lostModels v + (if b \<or> m_pModel1 v = None then 0 else 1)\<rparr>"
  have w: "rest_of w = rest_of v" "models_of w = (Some td, Some d)" "m_ThumbCamera w = m_ThumbCamera v" "m_gpu w = g"
    "thumb_refs w i = thumb_refs v i" for i by (simp_all add: w_def frame_defs thumb_refs_def split: option.split)
  have ow: "owns w" using assms(1) g(2,3) le w by (simp add: owns_def gpu_ok_def frame_defs held_opt_def)
  obtain v1 where 1: "OnModelLoaded1 env w = Done v1" "rest_of v1 = rest_of w" "models_of v1 = models_of w" "owned_of v1 = owned_of w"
    "m_iCurPart1 v1 = 0" "m_ThumbCamera v1 = m_ThumbCamera w"
    using OnModelLoaded1_run [of w d td env] w(2) by (auto simp: models_of_def)
  have m1: "m_pModel1 v1 = Some td" "m_pd3dModel1 v1 = Some d" using 1(3) w(2) by (simp_all add: models_of_def)
  obtain v2 where 2: "ResetView env v1 = Done v2" "rest_of v2 = rest_of v1" "models_of v2 = models_of v1" "owned_of v2 = owned_of v1"
    "m_iCurPart1 v2 = m_iCurPart1 v1" "m_ThumbCamera v2 = m_ThumbCamera v1" using ResetView_run [of v1 env] m1 by auto
  have m2: "m_pModel1 v2 = Some td" "m_pd3dModel1 v2 = Some d" using 2(3) m1 by (simp_all add: models_of_def)
  obtain v3 where 3: "FillTextureList v2 = Done v3" "rest_of v3 = rest_of v2" "models_of v3 = models_of v2" "owned_of v3 = owned_of v2"
    "m_iCurPart1 v3 = m_iCurPart1 v2" "m_ThumbCamera v3 = m_ThumbCamera v2"
    "m_ppszTextureNames v3 = Some (map c_str (map fst (Textures td)) @ [[]])"
    using FillTextureList_run [OF m2(2,1) assms(3)] by blast
  have "owns v3" using ow 1(3,4) 2(3,4) 3(3,4) owns_cong [of v3 w] by simp
  moreover have "replace1 env b (td, d) v = Done v3" using g(1) 1(1) 2(1) 3(1) by (simp add: replace1_def w_def)
  ultimately show ?thesis using 1 2 3 w by simp
qed

section \<open>The cache under the dialog's calls\<close>

lemma wcs_wide: "length (wcs (wide s)) \<le> length s"
  by (metis length_map length_takeWhile_le wcs_def wide_def)

lemma make_entry_total:
  "\<forall>s\<in>{sub, mf, af, tf, url}. length (wcs s) < 260 \<Longrightarrow> \<exists>e. make_entry os sub mf af tf url = Done e"
  by (simp add: make_entry_def wcscpy_def Let_def ModelCache.MAX_PATH_def)

lemma add_model_total:
  assumes "os_ok os" "length (wcs sub) < 260" "length (wcs url) < 260"
  shows "\<exists>r. AddModelToCache os sub pM pA url pT c fs = Done r"
proof (cases "m_hCacheFile c = None \<or> pM = None \<or> \<not> m_bEnableCacheStore c \<or> SearchInCache sub c \<noteq> None")
  case True
  then show ?thesis by (auto simp: AddModelToCache_def split: option.split)
next
  case False
  then obtain h m where h: "m_hCacheFile c = Some h" "pM = Some m" by auto
  obtain r fs1 where t: "temp3 os (m_szCacheFullPath c) fs = (r, fs1)" by fastforce
  show ?thesis
  proof (cases r)
    case None
    then show ?thesis using False h t by (auto simp: AddModelToCache_def)
  next
    case (Some x)
    obtain mf af tf where x: "x = (mf, af, tf)" by (cases x)
    obtain b fs2 where s: "save3 os (mf, af, tf) m pA pT fs1 = (b, fs2)" by fastforce
    have "fresh os fs mf \<and> fresh os fs af \<and> fresh os fs tf" using temp3_fresh [OF assms(1)] t Some x by blast
    then have "\<forall>s\<in>{sub, mf, af, tf, url}. length (wcs s) < 260" using assms(2,3) by (auto simp: fresh_def ModelCache.MAX_PATH_def)
    from make_entry_total [OF this, of os] show ?thesis
      using False h t Some x s by (cases b) (auto simp: AddModelToCache_def)
  qed
qed

lemma add_ad_total:
  assumes "cache_inv os (c, fs)" "length (wcs url) < 260"
  shows "\<exists>r. AddAdToCache os sub pA url c fs = Done r"
proof (cases "m_hCacheFile c = None \<or> pA = None \<or> \<not> m_bEnableCacheStore c \<or> SearchInCache sub c = None")
  case True
  then show ?thesis by (auto simp: AddAdToCache_def split: option.split)
next
  case False
  then obtain h ad i where h: "m_hCacheFile c = Some h" "pA = Some ad" "SearchInCache sub c = Some i" by auto
  have "i < length (m_CacheTable c)"
    using h(3) search_Some [of 0 sub "m_CacheTable c" i] by (auto simp: SearchInCache_def split: if_splits)
  then have "entry_wf (m_CacheTable c ! i)" using assms(1) nth_mem by (auto simp: cache_inv_def)
  then have "\<exists>u. wcscpy (ce_szAdUrl (m_CacheTable c ! i)) url = Done u"
    using assms(2) by (simp add: wcscpy_def entry_wf_def Let_def ModelCache.MAX_PATH_def)
  then show ?thesis using False h
    by (cases "SaveMemToFile os (ce_szAdFile (m_CacheTable c ! i)) ad fs") (auto simp: AddAdToCache_def Let_def split: bool.split)
qed

lemma add_ad_False:
  assumes "cache_inv os (c, fs)" "AddAdToCache os sub pA url c fs = Done (False, c', fs')"
  shows "c' = c \<and> fs_keeps {} fs fs'"
proof -
  have k: "fs_keeps {} fs fs1" if "SaveMemToFile os p ad fs = (False, fs1)" for p ad fs1
    using that by (auto simp: SaveMemToFile_def open_always_def Let_def fs_keeps_def fs_put_def split: option.splits if_splits)
  show ?thesis using assms(2)
    by (auto simp: AddAdToCache_def Let_def fs_keeps_refl elim!: obind_DoneE dest!: k split: option.splits if_splits prod.splits bool.splits)
qed

definition keeps_others :: "win_os \<Rightarrow> wstr \<Rightarrow> CModelCache \<times> filesys \<Rightarrow> CModelCache \<times> filesys \<Rightarrow> bool" where
  "keeps_others os sub s s' \<longleftrightarrow> (\<forall>k w. wcs k \<noteq> wcs sub \<longrightarrow> cache_get os s k = Some w \<longrightarrow> cache_get os s' k = Some w)"

lemma keeps_others_refl: "keeps_others os sub s s"
  by (simp add: keeps_others_def)

lemma keeps_others_trans: "keeps_others os sub s t \<Longrightarrow> keeps_others os sub t u \<Longrightarrow> keeps_others os sub s u"
  by (simp add: keeps_others_def)

text \<open>What adding a downloaded model leaves of the cache.\<close>

lemma add_model_run:
  assumes "cache_inv os (c, fs)" "length (wcs sub) < 260" "length (wcs url) < 260"
  shows "\<exists>ok c' fs'. AddModelToCache os sub (Some m) pA url pT c fs = Done (ok, c', fs') \<and> cache_inv os (c', fs') \<and>
    length (m_CacheTable c') \<le> length (m_CacheTable c) + 1 \<and> keeps_others os sub (c, fs) (c', fs') \<and>
    (SearchInCache sub c = None \<longrightarrow> (if ok then cache_get os (c', fs') sub = Some (Buf m, Buf (case_option [] id pA), Buf (case_option [] id pT))
      else SearchInCache sub c' = None))"
proof -
  have "os_ok os" using assms(1) by (simp add: cache_inv_def)
  from add_model_total [OF this assms(2,3)] obtain ok c' fs' where
    r: "AddModelToCache os sub (Some m) pA url pT c fs = Done (ok, c', fs')" by (metis prod.exhaust)
  show ?thesis
  proof (cases ok)
    case True
    have r': "AddModelToCache os sub (Some m) pA url pT c fs = Done (True, c', fs')" using r True by simp
    have "length (m_CacheTable c') = length (m_CacheTable c) + 1" by (rule add_model_True [OF assms(1) r']) simp
    then show ?thesis using r' add_model_inv [OF assms(1) r'] add_model_get [OF assms(1) r'] add_model_keep [OF assms(1) r']
      True by (auto simp: keeps_others_def)
  next
    case False
    have r': "AddModelToCache os sub (Some m) pA url pT c fs = Done (False, c', fs')" using r False by simp
    note f = add_model_False [OF assms(1) r']
    then have "cache_inv os (c', fs')" "\<And>k. cache_get os (c', fs') k = cache_get os (c, fs) k"
      using inv_keeps [OF assms(1)] get_keeps [OF assms(1)] by auto
    then show ?thesis using r' f False by (auto simp: keeps_others_def)
  qed
qed

lemma cache_get_cases:
  assumes "cache_inv os (c, fs)"
  shows "cache_get os (c, fs) k = (case SearchInCache k c of None \<Rightarrow> None
    | Some i \<Rightarrow> (case m_CacheTable c ! i of e \<Rightarrow> Some (Buf (the (fs_files fs (wcs (ce_szModelFile e)))),
        Buf (the (fs_files fs (wcs (ce_szAdFile e)))), Buf (the (fs_files fs (wcs (ce_szThumbFile e)))))))"
  using cache_get_entry [OF assms, of k] cache_get_None [of k c os fs] by (auto split: option.split)

text \<open>The files of different entries, and of one entry, are different.\<close>

lemma concat_distinct_nth:
  "distinct (concat xss) \<Longrightarrow> i < length xss \<Longrightarrow> j < length xss \<Longrightarrow> i \<noteq> j \<Longrightarrow> set (xss ! i) \<inter> set (xss ! j) = {}"
proof (induction xss arbitrary: i j)
  case (Cons xs xss)
  have n: "set xs \<inter> set (xss ! k) = {}" if "k < length xss" for k
    using Cons.prems(1) nth_mem [OF that] by auto
  show ?case
  proof (cases i)
    case 0
    then obtain j' where "j = Suc j'" using Cons.prems(4) by (cases j) auto
    then show ?thesis using 0 n [of j'] Cons.prems(3) by simp
  next
    case (Suc i')
    then show ?thesis using n [of i'] Cons by (cases j) (simp_all add: Int_commute)
  qed
qed simp

lemma entry_files_distinct:
  assumes "cache_inv os (c, fs)" "i < length (m_CacheTable c)"
  shows "distinct (files_of (m_CacheTable c ! i))"
    "j < length (m_CacheTable c) \<Longrightarrow> i \<noteq> j \<Longrightarrow> set (files_of (m_CacheTable c ! i)) \<inter> set (files_of (m_CacheTable c ! j)) = {}"
proof -
  have d: "distinct (concat (map files_of (m_CacheTable c)))" using assms(1) by (simp add: cache_inv_def table_files_def)
  then have "distinct xs" if "xs \<in> set (map files_of (m_CacheTable c))" for xs using that distinct_concat_iff [of "map files_of (m_CacheTable c)"] by auto
  then show "distinct (files_of (m_CacheTable c ! i))" using assms(2) by simp
  show "set (files_of (m_CacheTable c ! i)) \<inter> set (files_of (m_CacheTable c ! j)) = {}" if "j < length (m_CacheTable c)" "i \<noteq> j"
    using concat_distinct_nth [OF d, of i j] assms(2) that by simp
qed

lemma search_in_update:
  "i < length (m_CacheTable c) \<Longrightarrow> SearchInCache k (c\<lparr>m_CacheTable := (m_CacheTable c)[i := (m_CacheTable c ! i)\<lparr>ce_szAdUrl := u\<rparr>]\<rparr>) = SearchInCache k c"
  by (simp add: SearchInCache_def search_update)

text \<open>Saving an advertisement: only the advertisement of its own entry changes.\<close>

lemma add_ad_run:
  assumes "cache_inv os (c, fs)" "length (wcs url) < 260"
  shows "\<exists>ok c' fs'. AddAdToCache os sub pA url c fs = Done (ok, c', fs') \<and> cache_inv os (c', fs') \<and>
    length (m_CacheTable c') = length (m_CacheTable c) \<and> keeps_others os sub (c, fs) (c', fs') \<and>
    SearchInCache sub c' = SearchInCache sub c \<and>
    (\<forall>m a t. cache_get os (c, fs) sub = Some (m, a, t) \<longrightarrow> (\<exists>a'. cache_get os (c', fs') sub = Some (m, a', t) \<and>
       (\<forall>b old. ok \<and> pA = Some b \<and> a = Buf old \<longrightarrow> a' = Buf (b @ drop (length b) old))))"
proof -
  from add_ad_total [OF assms] obtain ok c' fs' where r: "AddAdToCache os sub pA url c fs = Done (ok, c', fs')" by (metis prod.exhaust)
  show ?thesis
  proof (cases ok)
    case False
    have r': "AddAdToCache os sub pA url c fs = Done (False, c', fs')" using r False by simp
    note f = add_ad_False [OF assms(1) r']
    then have "cache_inv os (c', fs')" "\<And>k. cache_get os (c', fs') k = cache_get os (c, fs) k"
      using inv_keeps [OF assms(1)] get_keeps [OF assms(1)] by auto
    then show ?thesis using r f False by (auto simp: keeps_others_def)
  next
    case True
    then obtain ad i where ad: "pA = Some ad" and i: "SearchInCache sub c = Some i"
      using r by (auto simp: AddAdToCache_def split: option.splits if_splits)
    have r': "AddAdToCache os sub (Some ad) url c fs = Done (True, c', fs')" using r True ad by simp
    define e where "e = m_CacheTable c ! i"
    obtain u where f: "fs_files fs' = (fs_files fs)(wcs (ce_szAdFile e) \<mapsto> ad @ drop (length ad) (the (fs_files fs (wcs (ce_szAdFile e)))))"
      and c': "c' = c\<lparr>m_CacheTable := (m_CacheTable c)[i := e\<lparr>ce_szAdUrl := u\<rparr>]\<rparr>"
      using add_ad_True [OF assms(1) r' i] by (auto simp: Let_def e_def)
    have il: "i < length (m_CacheTable c)" "wcs (ce_szSibscriptionId e) = wcs sub"
      using i search_Some [of 0 sub "m_CacheTable c" i] by (auto simp: SearchInCache_def e_def split: if_splits)
    note inv = add_ad_inv [OF assms(1) r' i]
    have s: "SearchInCache k c' = SearchInCache k c" for k using search_in_update [OF il(1)] by (simp add: c' e_def)
    have other: "cache_get os (c', fs') k = cache_get os (c, fs) k" if "wcs k \<noteq> wcs sub" for k
    proof (cases "SearchInCache k c")
      case None
      then show ?thesis using cache_get_None [of k c] cache_get_None [of k c'] s by simp
    next
      case (Some j)
      have j: "j < length (m_CacheTable c)" "wcs (ce_szSibscriptionId (m_CacheTable c ! j)) = wcs k"
        using Some search_Some [of 0 k "m_CacheTable c" j] by (auto simp: SearchInCache_def split: if_splits)
      then have "j \<noteq> i" using il(2) that by (auto simp: e_def)
      then have "set (files_of (m_CacheTable c ! j)) \<inter> set (files_of e) = {}"
        using entry_files_distinct(2) [OF assms(1) j(1) il(1)] by (simp add: e_def)
      then show ?thesis using inv cache_get_cases [OF assms(1), of k] cache_get_cases [of os c' fs' k] s Some \<open>j \<noteq> i\<close>
        by (auto simp: c' f files_of_def)
    qed
    have own: "cache_get os (c, fs) sub = Some (Buf (the (fs_files fs (wcs (ce_szModelFile e)))), Buf (the (fs_files fs (wcs (ce_szAdFile e)))),
        Buf (the (fs_files fs (wcs (ce_szThumbFile e)))))" using cache_get_cases [OF assms(1), of sub] i by (simp add: e_def)
    have "distinct (files_of e)" using entry_files_distinct(1) [OF assms(1) il(1)] by (simp add: e_def)
    then have own': "cache_get os (c', fs') sub = Some (Buf (the (fs_files fs (wcs (ce_szModelFile e)))),
        Buf (ad @ drop (length ad) (the (fs_files fs (wcs (ce_szAdFile e))))), Buf (the (fs_files fs (wcs (ce_szThumbFile e)))))"
      using inv cache_get_cases [of os c' fs' sub] s i il(1) by (auto simp: c' f files_of_def)
    show ?thesis using r inv other own own' s ad by (auto simp: keeps_others_def c')
  qed
qed

section \<open>Handling a message\<close>

text \<open>A dialog that any message finds: it owns what it points to, its cache is in order and its strings fit an entry.\<close>

definition ready :: "viewer_env \<Rightarrow> nat \<Rightarrow> CModelViewerDlg \<Rightarrow> bool" where
  "ready env room v \<longleftrightarrow> owns v \<and> cache_inv (ve_os env) (m_Cache v, m_fs v) \<and> length (m_CacheTable (m_Cache v)) + room < 2 ^ 31 \<and>
     length (m_strSubsid v) < 260 \<and> length (m_strAdUrl v) < 260"

text \<open>A device that can draw the model: created, every effect compiles, every shader has as many passes.\<close>

definition draws :: "viewer_env \<Rightarrow> TD_SCAN_MODEL \<Rightarrow> bool" where
  "draws env td \<longleftrightarrow> x_device (ve_d3d env) \<and> (\<forall>h. x_effect (ve_d3d env) h) \<and> (\<exists>n. \<forall>h. x_passes (ve_d3d env) h = n) \<and>
     maps_ok td \<and> materials_known td"

lemma build_run:
  assumes "draws env td" "owns v"
  shows "\<exists>d g. build_model env (Done td) (m_gpu v) = Done (Some (td, d), g) \<and> created (ve_d3d env) td (m_gpu v) d g \<and> gpu_ok g \<and>
    (\<forall>i. held_opt (m_pd3dModel1 v) i + thumb_refs v i + held d i \<le> g_refs g i) \<and> names_ok td d"
proof -
  have m: "maps_ok td" "x_device (ve_d3d env)" "gpu_ok (m_gpu v)" using assms by (simp_all add: draws_def owns_def)
  from create_run [OF m, of zero3 zero3] obtain d g where
    c: "CreateFromTDModel (ve_d3d env) td (D3D_MODEL_new zero3 zero3) (m_gpu v) = Done (True, d, g)"
      "created (ve_d3d env) td (m_gpu v) d g" by blast
  have "gpu_ok g" "\<forall>i. g_refs g i = g_refs (m_gpu v) i + held d i" using c(2) by (simp_all add: created_def)
  then show ?thesis using c created_names [OF c(2) m(1)] assms(2) by (simp add: build_model_def owns_def)
qed

lemma created_renders:
  assumes "draws env td" "created (ve_d3d env) td g d g'"
  shows "\<exists>cs. RenderD3DModel (ve_d3d env) td d = Done cs"
proof -
  obtain n where n: "\<forall>h. x_passes (ve_d3d env) h = n" using assms(1) by (auto simp: draws_def)
  have "\<forall>p\<in>set (Parts td). \<forall>s\<in>set (mp_Subsets p). shader_of d (ss_sMatName s) \<noteq> None"
    using assms(1) created_known [OF assms(2)] by (simp add: draws_def materials_known_def)
  from render_Done [OF created_mirrors [OF assms(2)] this n] show ?thesis by blast
qed

lemma GenerateThumnail_run:
  assumes "draws env td" "created (ve_d3d env) td g d g'" "models_of v = (Some td, Some d)"
  shows "\<exists>v' t. GenerateThumnail env v = Done (v', t) \<and> rest_of v' = rest_of v \<and> models_of v' = models_of v \<and> owned_of v' = owned_of v"
  using created_renders [OF assms(1,2)] assms(3) by (auto simp: GenerateThumnail_def deref_def frame_defs Let_def)

lemma ready_cong:
  "owns v' = owns v \<Longrightarrow> m_Cache v' = m_Cache v \<Longrightarrow> m_fs v' = m_fs v \<Longrightarrow> m_strSubsid v' = m_strSubsid v \<Longrightarrow>
     m_strAdUrl v' = m_strAdUrl v \<Longrightarrow> ready env n v' = ready env n v"
  by (simp add: ready_def)

text \<open>The state of the cache for the subscription: nothing, or the downloaded bytes.\<close>

definition holds_model :: "viewer_env \<Rightarrow> bytes \<Rightarrow> CModelViewerDlg \<Rightarrow> bool" where
  "holds_model env data v \<longleftrightarrow> SearchInCache (wide (m_strSubsid v)) (m_Cache v) = None \<or>
     (\<exists>a t. cache_get (ve_os env) (m_Cache v, m_fs v) (wide (m_strSubsid v)) = Some (Buf data, a, t))"

definition holds_ad :: "viewer_env \<Rightarrow> bytes \<Rightarrow> bytes \<Rightarrow> CModelViewerDlg \<Rightarrow> bool" where
  "holds_ad env data ad v \<longleftrightarrow> SearchInCache (wide (m_strSubsid v)) (m_Cache v) = None \<or>
     (\<exists>t. cache_get (ve_os env) (m_Cache v, m_fs v) (wide (m_strSubsid v)) = Some (Buf data, Buf ad, t))"

lemma holds_ad_model: "holds_ad env data ad v \<Longrightarrow> holds_model env data v"
  by (auto simp: holds_ad_def holds_model_def)

definition cache_of :: "CModelViewerDlg \<Rightarrow> CModelCache \<times> filesys" where
  "cache_of v = (m_Cache v, m_fs v)"

lemma store_model_run:
  assumes "draws env td" "created (ve_d3d env) td g d g'" "models_of v = (Some td, Some d)" "ready env 1 v"
    "fst (m_PointerPass1 v) = Some data" "SearchInCache (wide (m_strSubsid v)) (m_Cache v) = None"
  shows "\<exists>v'. store_model env v = Done v' \<and> ready env 0 v' \<and> models_of v' = models_of v \<and> m_bDownloading v' = m_bDownloading v \<and>
    m_PointerPass0 v' = m_PointerPass0 v \<and> m_PointerPass1 v' = m_PointerPass1 v \<and> m_PointerPass2 v' = m_PointerPass2 v \<and>
    m_strSubsid v' = m_strSubsid v \<and> m_strAdUrl v' = m_strAdUrl v \<and> m_bFileOpened v' = m_bFileOpened v \<and>
    holds_ad env data [] v' \<and> keeps_others (ve_os env) (wide (m_strSubsid v)) (cache_of v) (cache_of v')"
proof -
  obtain v1 t where 1: "GenerateThumnail env v = Done (v1, t)" "rest_of v1 = rest_of v" "models_of v1 = models_of v" "owned_of v1 = owned_of v"
    "m_bFileOpened v1 = m_bFileOpened v"
    using created_renders [OF assms(1,2)] assms(3) by (auto simp: GenerateThumnail_def deref_def frame_defs Let_def)
  have f1: "m_Cache v1 = m_Cache v" "m_fs v1 = m_fs v" "m_strSubsid v1 = m_strSubsid v" "m_strAdUrl v1 = m_strAdUrl v"
    "fst (m_PointerPass1 v1) = Some data" using 1(2) assms(5) by (simp_all add: rest_of_def)
  have inv: "cache_inv (ve_os env) (m_Cache v, m_fs v)" and ln: "length (m_CacheTable (m_Cache v)) + 1 < 2 ^ 31"
    using assms(4) by (simp_all add: ready_def)
  have l: "length (wcs (wide (m_strSubsid v))) < 260" "length (wcs (wide (m_strAdUrl v))) < 260"
    using assms(4) wcs_wide [of "m_strSubsid v"] wcs_wide [of "m_strAdUrl v"] by (simp_all add: ready_def)
  from add_model_run [OF inv l, of data None t] assms(6) obtain ok c fs where
    a: "AddModelToCache (ve_os env) (wide (m_strSubsid v)) (Some data) None (wide (m_strAdUrl v)) t (m_Cache v) (m_fs v) = Done (ok, c, fs)"
      "cache_inv (ve_os env) (c, fs)" "length (m_CacheTable c) \<le> length (m_CacheTable (m_Cache v)) + 1"
      "keeps_others (ve_os env) (wide (m_strSubsid v)) (m_Cache v, m_fs v) (c, fs)"
      "if ok then cache_get (ve_os env) (c, fs) (wide (m_strSubsid v)) = Some (Buf data, Buf [], Buf (case_option [] id t))
       else SearchInCache (wide (m_strSubsid v)) c = None" by auto
  define w where "w = v1\<lparr>m_Cache := c, m_fs := fs\<rparr>"
  have ow: "owns w = owns v" using 1(3,4) by (intro owns_cong) (simp_all add: w_def frame_defs)
  then have "owns w" "length (m_CacheTable (m_Cache w)) < 2 ^ 31" using assms(4) a(3) ln by (simp_all add: ready_def w_def)
  from FillThumbArray_run [OF this, of env] obtain v' where
    f: "FillThumbArray env w = Done v'" "owns v'" "rest_of v' = rest_of w" "models_of v' = models_of w" "m_bFileOpened v' = m_bFileOpened w" by blast
  have r: "m_Cache v' = c" "m_fs v' = fs" "m_strSubsid v' = m_strSubsid v" "m_strAdUrl v' = m_strAdUrl v" "m_bDownloading v' = m_bDownloading v"
    "m_PointerPass0 v' = m_PointerPass0 v" "m_PointerPass1 v' = m_PointerPass1 v" "m_PointerPass2 v' = m_PointerPass2 v"
    using f(3) 1(2) by (simp_all add: rest_of_def w_def)
  have h: "holds_ad env data [] v'" using a(5) by (cases ok) (auto simp: holds_ad_def r)
  have k: "keeps_others (ve_os env) (wide (m_strSubsid v)) (cache_of v) (cache_of v')" using a(4) by (simp add: cache_of_def r)
  have rd: "ready env 0 v'" using f(2) a(2,3) ln assms(4) by (simp add: ready_def r)
  have m: "models_of v' = models_of v" "m_bFileOpened v' = m_bFileOpened v" using f(4,5) 1(3,5) by (simp_all add: w_def models_of_def)
  have st: "store_model env v = Done v'" using f(1) a(1) by (simp add: store_model_def 1(1) f1 w_def)
  show ?thesis using st rd m r h k by blast
qed

lemma thumb_refs_gpu: "thumb_refs (v\<lparr>m_gpu := g\<rparr>) i = thumb_refs v i"
  by (simp add: thumb_refs_def split: option.split)

lemma on_model_run:
  assumes "draws env td" "ready env 1 v" "m_PointerPass1 v = (Some data, n)"
    "Load3DScanModelFromMemory (ve_lz env) (ve_junkm env) (ve_fuel env) (Some data) n = Done td"
    "SearchInCache (wide (m_strSubsid v)) (m_Cache v) = None"
  shows "\<exists>v'. on_model env 0 v = Done v' \<and> ready env 0 v' \<and> m_pModel1 v' = Some td \<and>
    (\<exists>g d g'. m_pd3dModel1 v' = Some d \<and> created (ve_d3d env) td g d g') \<and> \<not> m_bDownloading v' \<and> m_bFileOpened v' \<and>
    m_PointerPass0 v' = m_PointerPass0 v \<and> fst (m_PointerPass1 v') = None \<and> m_PointerPass2 v' = m_PointerPass2 v \<and>
    m_strSubsid v' = m_strSubsid v \<and> m_strAdUrl v' = m_strAdUrl v \<and>
    holds_ad env data [] v' \<and> keeps_others (ve_os env) (wide (m_strSubsid v)) (cache_of v) (cache_of v')"
proof -
  have ow: "owns v" using assms(2) by (simp add: ready_def)
  from build_run [OF assms(1) ow] obtain d g where b: "build_model env (Done td) (m_gpu v) = Done (Some (td, d), g)"
    "created (ve_d3d env) td (m_gpu v) d g" "gpu_ok g" "\<forall>i. held_opt (m_pd3dModel1 v) i + thumb_refs v i + held d i \<le> g_refs g i"
    "names_ok td d" by blast
  define v0 where "v0 = v\<lparr>m_gpu := g\<rparr>"
  have v0: "gpu_ok (m_gpu v0)" "\<And>i. held_opt (m_pd3dModel1 v0) i + thumb_refs v0 i + held d i \<le> g_refs (m_gpu v0) i" "rest_of v0 = rest_of v"
    using b(3,4) thumb_refs_gpu by (simp_all add: v0_def rest_of_def)
  from replace1_run [OF v0(1,2) b(5), of env True] obtain v1 where
    1: "replace1 env True (td, d) v0 = Done v1" "owns v1" "rest_of v1 = rest_of v0" "models_of v1 = (Some td, Some d)" by blast
  define w where "w = v1\<lparr>m_bFileOpened := True, m_bHasFilename := False\<rparr>"
  have w: "owns w" "rest_of w = rest_of v" "models_of w = (Some td, Some d)" "m_bFileOpened w"
    using 1 v0(3) owns_cong [of w v1] by (simp_all add: w_def frame_defs)
  then have f: "m_Cache w = m_Cache v" "m_fs w = m_fs v" "m_strSubsid w = m_strSubsid v" "m_strAdUrl w = m_strAdUrl v"
    "m_PointerPass0 w = m_PointerPass0 v" "m_PointerPass1 w = m_PointerPass1 v" "m_PointerPass2 w = m_PointerPass2 v" by (simp_all add: rest_of_def)
  have rw: "ready env 1 w" using assms(2) w(1) by (simp add: ready_def f)
  have "fst (m_PointerPass1 w) = Some data" "SearchInCache (wide (m_strSubsid w)) (m_Cache w) = None" using assms(3,5) by (simp_all add: f)
  from store_model_run [OF assms(1) b(2) w(3) rw this] obtain v2 where
    2: "store_model env w = Done v2" "ready env 0 v2" "models_of v2 = models_of w" "m_PointerPass0 v2 = m_PointerPass0 w"
      "m_PointerPass2 v2 = m_PointerPass2 w" "m_strSubsid v2 = m_strSubsid w" "m_strAdUrl v2 = m_strAdUrl w" "m_bFileOpened v2 = m_bFileOpened w"
      "holds_ad env data [] v2" "keeps_others (ve_os env) (wide (m_strSubsid w)) (cache_of w) (cache_of v2)" by blast
  define v' where "v' = v2\<lparr>m_PointerPass1 := (None, snd (m_PointerPass1 v2)), m_bDownloading := False\<rparr>"
  have ov: "owns v' = owns v2" by (intro owns_cong) (simp_all add: v'_def frame_defs)
  have f': "m_Cache v' = m_Cache v2" "m_fs v' = m_fs v2" "m_strSubsid v' = m_strSubsid v2" "m_strAdUrl v' = m_strAdUrl v2"
    "m_pModel1 v' = m_pModel1 v2" "m_pd3dModel1 v' = m_pd3dModel1 v2" "m_PointerPass0 v' = m_PointerPass0 v2" "m_PointerPass2 v' = m_PointerPass2 v2"
    "fst (m_PointerPass1 v') = None" "\<not> m_bDownloading v'" "m_bFileOpened v' = m_bFileOpened v2" by (simp_all add: v'_def)
  have run: "on_model env 0 v = Done v'"
    using b(1) 1(1) 2(1) by (simp add: on_model_def assms(3,4) v0_def [symmetric] Let_def w_def [symmetric] v'_def)
  have rd: "ready env 0 v'" using 2(2) ready_cong [of v' v2] ov f' by simp
  have h: "holds_ad env data [] v'" using 2(9) by (simp add: holds_ad_def f')
  have k: "keeps_others (ve_os env) (wide (m_strSubsid v)) (cache_of v) (cache_of v')" using 2(10) by (simp add: cache_of_def f f')
  have m: "m_pModel1 v' = Some td" "m_pd3dModel1 v' = Some d" using 2(3) w(3) by (simp_all add: models_of_def f')
  have p: "m_PointerPass0 v' = m_PointerPass0 v" "m_PointerPass2 v' = m_PointerPass2 v" "m_strSubsid v' = m_strSubsid v"
    "m_strAdUrl v' = m_strAdUrl v" "m_bFileOpened v'" using 2(4-8) w(4) by (simp_all add: f f')
  show ?thesis using run rd h k m p f'(9,10) b(2) by blast
qed

text \<open>The advertisement: a texture of its own, and its bytes into the cache when it came from the server.\<close>

lemma on_ad_run:
  assumes "ready env n v"
  shows "\<exists>v'. on_ad env 0 v = Done v' \<and> ready env n v' \<and> models_of v' = models_of v \<and> m_bDownloading v' = m_bDownloading v \<and>
    m_bFileOpened v' = m_bFileOpened v \<and> m_PointerPass0 v' = m_PointerPass0 v \<and> m_PointerPass1 v' = m_PointerPass1 v \<and>
    fst (m_PointerPass2 v') = None \<and> m_strSubsid v' = m_strSubsid v \<and> m_strAdUrl v' = m_strAdUrl v \<and>
    SearchInCache (wide (m_strSubsid v)) (m_Cache v') = SearchInCache (wide (m_strSubsid v)) (m_Cache v) \<and>
    (holds_model env data v \<longrightarrow> holds_model env data v') \<and>
    keeps_others (ve_os env) (wide (m_strSubsid v)) (cache_of v) (cache_of v')"
proof -
  define p where "p = fst (m_PointerPass2 v)"
  obtain t g where n: "com_new (ve_tex env (m_gpu v) p) (m_gpu v) = (t, g)" by fastforce
  define v1 where "v1 = v\<lparr>m_gpu := g, m_pAdTex := (if t = None then m_pAdTex v else t)\<rparr>"
  define v2 where "v2 = (case ve_image env p of None \<Rightarrow> v1 | Some (w, h) \<Rightarrow> v1\<lparr>m_iAdWidth1 := w, m_iAdHeight1 := h\<rparr>)"
  have gk: "gpu_ok g" "\<forall>i. g_refs (m_gpu v) i \<le> g_refs g i" using com_new_refs [OF _ n] assms by (auto simp: ready_def owns_def)
  have f2: "m_Cache v2 = m_Cache v" "m_fs v2 = m_fs v" "m_strSubsid v2 = m_strSubsid v" "m_strAdUrl v2 = m_strAdUrl v" "m_gpu v2 = g"
    "models_of v2 = models_of v" "m_bDownloading v2 = m_bDownloading v" "m_bFileOpened v2 = m_bFileOpened v" "m_PointerPass0 v2 = m_PointerPass0 v"
    "m_PointerPass1 v2 = m_PointerPass1 v" "\<And>i. thumb_refs v2 i = thumb_refs v i"
    by (auto simp: v2_def v1_def models_of_def thumb_refs_def split: option.splits)
  have "held_opt (m_pd3dModel1 v) i + thumb_refs v i \<le> g_refs g i" for i
    using assms gk(2) by (auto simp: ready_def owns_def intro: order_trans)
  then have ow: "owns v2" using gk(1) f2 by (simp add: owns_def models_of_def)
  have inv: "cache_inv (ve_os env) (m_Cache v, m_fs v)" using assms by (simp add: ready_def)
  have l: "length (wcs (wide (m_strAdUrl v))) < 260" using assms wcs_wide [of "m_strAdUrl v"] by (simp add: ready_def)
  from add_ad_run [OF inv l, of "wide (m_strSubsid v)" p] obtain ok c fs where
    a: "AddAdToCache (ve_os env) (wide (m_strSubsid v)) p (wide (m_strAdUrl v)) (m_Cache v) (m_fs v) = Done (ok, c, fs)"
      "cache_inv (ve_os env) (c, fs)" "length (m_CacheTable c) = length (m_CacheTable (m_Cache v))"
      "keeps_others (ve_os env) (wide (m_strSubsid v)) (m_Cache v, m_fs v) (c, fs)"
      "SearchInCache (wide (m_strSubsid v)) c = SearchInCache (wide (m_strSubsid v)) (m_Cache v)"
      "\<forall>m a t. cache_get (ve_os env) (m_Cache v, m_fs v) (wide (m_strSubsid v)) = Some (m, a, t) \<longrightarrow>
         (\<exists>a'. cache_get (ve_os env) (c, fs) (wide (m_strSubsid v)) = Some (m, a', t))" by metis
  define v' where "v' = v2\<lparr>m_Cache := c, m_fs := fs, m_PointerPass2 := (None, snd (m_PointerPass2 v2))\<rparr>"
  have f': "m_Cache v' = c" "m_fs v' = fs" "m_strSubsid v' = m_strSubsid v" "m_strAdUrl v' = m_strAdUrl v" "fst (m_PointerPass2 v') = None"
    "models_of v' = models_of v" "m_bDownloading v' = m_bDownloading v" "m_bFileOpened v' = m_bFileOpened v" "m_PointerPass0 v' = m_PointerPass0 v"
    "m_PointerPass1 v' = m_PointerPass1 v" using f2 by (simp_all add: v'_def models_of_def)
  have "owns v' = owns v2" by (intro owns_cong) (simp_all add: v'_def frame_defs)
  then have rd: "ready env n v'" using ow a(2,3) assms by (simp add: ready_def f')
  have run: "on_ad env 0 v = Done v'"
    unfolding on_ad_def Let_def p_def [symmetric] n prod.case v1_def [symmetric] v2_def [symmetric] by (simp add: f2 a(1) v'_def)
  have h: "holds_model env data v \<longrightarrow> holds_model env data v'" using a(5,6) by (auto simp: holds_model_def f')
  have k: "keeps_others (ve_os env) (wide (m_strSubsid v)) (cache_of v) (cache_of v')" using a(4) by (simp add: cache_of_def f')
  show ?thesis using run rd h k a(5) f' by blast
qed

section \<open>The invariant of a download\<close>

text \<open>
  What the three requests of a subscription meet: calls that return, and an advertisement's address that fits an entry of the
  cache. The server may answer differently once the model was fetched: \<open>W True\<close> holds of the worlds before, where the
  request for it gets its bytes, \<open>W False\<close> of those after.
\<close>

definition serves :: "'w cenv \<Rightarrow> (bool \<Rightarrow> 'w \<Rightarrow> bool) \<Rightarrow> string \<Rightarrow> string \<Rightarrow> string \<Rightarrow> bytes \<Rightarrow> bool" where
  "serves k W ui um ua data \<longleftrightarrow>
     (\<forall>w. W True w \<longrightarrow> (\<exists>w'. GetModel k (Some um) (Some ''pcwin'') True w = (Ret (Got data), w') \<and> W False w')) \<and>
     (\<forall>b w. W b w \<longrightarrow>
       (\<exists>r w'. GetModelInfo k (Some ui) (Some ''pcwin'') True True w = (Ret r, w') \<and> W b w') \<and>
       (\<exists>r w'. GetAd k (Some ua) (Some ''pcwin'') True w = (Ret r, w') \<and> W b w' \<and> (\<forall>d u. r = Got (d, u) \<longrightarrow> length u < 260)))"

definition shown :: "viewer_env \<Rightarrow> TD_SCAN_MODEL \<Rightarrow> bytes \<Rightarrow> CModelViewerDlg \<Rightarrow> bool" where
  "shown env td data v \<longleftrightarrow> \<not> m_bDownloading v \<and> m_bFileOpened v \<and> m_pModel1 v = Some td \<and>
     (\<exists>g d g'. m_pd3dModel1 v = Some d \<and> created (ve_d3d env) td g d g') \<and> holds_model env data v"

definition readable :: "viewer_env \<Rightarrow> bytes \<Rightarrow> TD_SCAN_MODEL \<Rightarrow> bool" where
  "readable env data td \<longleftrightarrow> Load3DScanModelFromMemory (ve_lz env) (ve_junkm env) (ve_fuel env) (Some data) (of_nat (length data)) = Done td"

text \<open>The model's message or its thread, whichever there still is.\<close>

definition model_pending :: "string \<Rightarrow> 'w viewer_sys \<Rightarrow> nat" where
  "model_pending um s = count_list (vs_queue s) (WM_USER_MODEL_DOWNLOADED 0) + count_list (vs_threads s) (ModelThread um)"

definition traffic_ok :: "string \<Rightarrow> string \<Rightarrow> string \<Rightarrow> 'w viewer_sys \<Rightarrow> bool" where
  "traffic_ok ui um ua s \<longleftrightarrow> set (vs_threads s) \<subseteq> {InfoThread ui, ModelThread um, AdThread ua} \<and>
     (\<forall>l. WM_USER_MODEL_DOWNLOADED l \<in> set (vs_queue s) \<longrightarrow> l = 0) \<and> (\<forall>l. WM_USER_AD_DOWNLOADED l \<in> set (vs_queue s) \<longrightarrow> l = 0)"

definition dialog_inv :: "viewer_env \<Rightarrow> bytes \<Rightarrow> TD_SCAN_MODEL \<Rightarrow> string \<Rightarrow> CModelCache \<times> filesys \<Rightarrow> bool \<Rightarrow> nat \<Rightarrow> CModelViewerDlg \<Rightarrow> bool" where
  "dialog_inv env data td sub init posted n v \<longleftrightarrow> n \<le> 1 \<and> ready env n v \<and> m_strSubsid v = sub \<and>
     keeps_others (ve_os env) (wide sub) init (cache_of v) \<and>
     (posted \<longrightarrow> m_PointerPass1 v = (Some data, of_nat (length data))) \<and>
     (if n = 0 then shown env td data v else m_bDownloading v \<and> SearchInCache (wide sub) (m_Cache v) = None)"

definition open_inv :: "viewer_env \<Rightarrow> 'w cenv \<Rightarrow> (bool \<Rightarrow> 'w \<Rightarrow> bool) \<Rightarrow> string \<Rightarrow> string \<Rightarrow> string \<Rightarrow> bytes \<Rightarrow> TD_SCAN_MODEL \<Rightarrow> string \<Rightarrow>
    CModelCache \<times> filesys \<Rightarrow> 'w viewer_sys \<Rightarrow> bool" where
  "open_inv env k W ui um ua data td sub init s \<longleftrightarrow> draws env td \<and> readable env data td \<and> serves k W ui um ua data \<and>
     W (ModelThread um \<in> set (vs_threads s)) (vs_world s) \<and> traffic_ok ui um ua s \<and>
     dialog_inv env data td sub init (WM_USER_MODEL_DOWNLOADED 0 \<in> set (vs_queue s)) (model_pending um s) (vs_dlg s)"

definition open_work :: "'w viewer_sys \<Rightarrow> nat" where
  "open_work s = length (vs_queue s) + 2 * length (vs_threads s)"

lemma count_remove1: "x \<in> set xs \<Longrightarrow> count_list (remove1 x xs) y = count_list xs y - (if x = y then 1 else 0)"
  by (induction xs) (auto simp: count_list_0_iff [symmetric] Suc_diff_1 neq0_conv)

text \<open>Fields of the dialog the invariant does not speak of, and the two its threads write.\<close>

lemma dialog_inv_cong:
  assumes "dialog_inv env data td sub init posted n v" "owns v' = owns v" "m_Cache v' = m_Cache v" "m_fs v' = m_fs v"
    "m_strSubsid v' = m_strSubsid v" "length (m_strAdUrl v') < 260" "m_bDownloading v' = m_bDownloading v" "m_bFileOpened v' = m_bFileOpened v"
    "models_of v' = models_of v" "m_PointerPass1 v' = m_PointerPass1 v"
  shows "dialog_inv env data td sub init posted n v'"
proof -
  have "shown env td data v' = shown env td data v" using assms(3-9) by (simp add: shown_def holds_model_def models_of_def)
  moreover have "ready env n v'" using assms(1-6) by (auto simp: dialog_inv_def ready_def)
  moreover have "cache_of v' = cache_of v" using assms(3,4) by (simp add: cache_of_def)
  ultimately show ?thesis using assms unfolding dialog_inv_def by (simp split: if_splits)
qed

lemma owns_fields:
  "owns (v\<lparr>m_PointerPass0 := a\<rparr>) = owns v" "owns (v\<lparr>m_PointerPass1 := b\<rparr>) = owns v" "owns (v\<lparr>m_PointerPass2 := c\<rparr>) = owns v" "owns (v\<lparr>m_strAdUrl := u\<rparr>) = owns v"
  "owns (v\<lparr>m_fDownloadProgress := p\<rparr>) = owns v" "owns (v\<lparr>m_iFileSize := n\<rparr>) = owns v" "owns (v\<lparr>m_bDownloading := d\<rparr>) = owns v"
  "owns (v\<lparr>m_strSubsid := x\<rparr>) = owns v"
  by (rule owns_cong; simp add: frame_defs)+

lemma dialog_inv_url: "dialog_inv env data td sub init posted n v \<Longrightarrow> length (m_strAdUrl v) < 260"
  by (simp add: dialog_inv_def ready_def)

lemma dialog_inv_progress: "dialog_inv env data td sub init posted n v \<Longrightarrow> dialog_inv env data td sub init posted n (on_progress m v)"
  by (frule dialog_inv_url, erule dialog_inv_cong) (auto simp: on_progress_def Let_def frame_defs owns_fields)

lemma dialog_inv_info: "dialog_inv env data td sub init posted n v \<Longrightarrow> dialog_inv env data td sub init posted n (on_info m v)"
  by (frule dialog_inv_url, erule dialog_inv_cong) (auto simp: on_info_def frame_defs owns_fields)

lemma dialog_inv_ad:
  assumes "dialog_inv env data td sub init posted n v"
  shows "\<exists>v'. on_ad env 0 v = Done v' \<and> dialog_inv env data td sub init posted n v'"
proof -
  have "ready env n v" using assms by (simp add: dialog_inv_def)
  from on_ad_run [OF this] assms obtain v' where v': "on_ad env 0 v = Done v'" "ready env n v'" "models_of v' = models_of v" "m_bDownloading v' = m_bDownloading v"
    "m_bFileOpened v' = m_bFileOpened v" "m_PointerPass1 v' = m_PointerPass1 v" "m_strSubsid v' = m_strSubsid v"
    "SearchInCache (wide (m_strSubsid v)) (m_Cache v') = SearchInCache (wide (m_strSubsid v)) (m_Cache v)"
    "holds_model env data v \<longrightarrow> holds_model env data v'"
    "keeps_others (ve_os env) (wide (m_strSubsid v)) (cache_of v) (cache_of v')" by blast
  then have "dialog_inv env data td sub init posted n v'"
    using assms keeps_others_trans [of "ve_os env" "wide sub" init "cache_of v" "cache_of v'"]
    by (auto simp: dialog_inv_def shown_def models_of_def)
  then show ?thesis using v'(1) by blast
qed

lemma dialog_inv_model:
  assumes "draws env td" "readable env data td" "dialog_inv env data td sub init True 1 v"
  shows "\<exists>v'. on_model env 0 v = Done v' \<and> dialog_inv env data td sub init False 0 v'"
proof -
  have v: "ready env 1 v" "m_PointerPass1 v = (Some data, of_nat (length data))" "SearchInCache (wide (m_strSubsid v)) (m_Cache v) = None"
    "m_strSubsid v = sub" "keeps_others (ve_os env) (wide sub) init (cache_of v)"
    using assms(3) by (auto simp: dialog_inv_def)
  from on_model_run [OF assms(1) v(1,2) assms(2) [unfolded readable_def] v(3)] obtain v' where
    v': "on_model env 0 v = Done v'" "ready env 0 v'" "m_pModel1 v' = Some td"
    "\<exists>g d g'. m_pd3dModel1 v' = Some d \<and> created (ve_d3d env) td g d g'" "\<not> m_bDownloading v'" "m_bFileOpened v'" "m_strSubsid v' = m_strSubsid v"
    "holds_ad env data [] v'" "keeps_others (ve_os env) (wide (m_strSubsid v)) (cache_of v) (cache_of v')" by blast
  then have "dialog_inv env data td sub init False 0 v'"
    using v(4,5) keeps_others_trans [of "ve_os env" "wide sub" init "cache_of v" "cache_of v'"] holds_ad_model by (auto simp: dialog_inv_def shown_def)
  then show ?thesis using v'(1) by blast
qed


section \<open>Every step keeps it\<close>

lemma open_inv_progress:
  "open_inv env k W ui um ua data td sub init s \<Longrightarrow> open_inv env k W ui um ua data td sub init (PostMessage (WM_USER_HTTP_PROGRESS n) s)"
  by (simp add: open_inv_def PostMessage_def model_pending_def traffic_ok_def)

lemma served_info:
  assumes "serves k W ui um ua data" "W b (vs_world s)"
  shows "\<exists>p n w'. run_thread k (InfoThread ui) s = Some (PostMessage (WM_USER_MODEL_INFO n) (s\<lparr>vs_world := w', vs_dlg := (vs_dlg s)\<lparr>m_PointerPass0 := p\<rparr>\<rparr>)) \<and> W b w'"
proof -
  obtain r w' where "GetModelInfo k (Some ui) (Some ''pcwin'') True True (vs_world s) = (Ret r, w')" "W b w'"
    using assms unfolding serves_def by blast
  then show ?thesis by (cases r) (auto simp: run_thread_def MyInfoCallback_def split: option.split)
qed

lemma served_model:
  assumes "serves k W ui um ua data" "W True (vs_world s)"
  shows "\<exists>w'. run_thread k (ModelThread um) s = Some (PostMessage (WM_USER_MODEL_DOWNLOADED 0)
    (s\<lparr>vs_world := w', vs_dlg := (vs_dlg s)\<lparr>m_PointerPass1 := (Some data, of_nat (length data))\<rparr>\<rparr>)) \<and> W False w'"
proof -
  obtain w' where g: "GetModel k (Some um) (Some ''pcwin'') True (vs_world s) = (Ret (Got data), w')" "W False w'"
    using assms unfolding serves_def by blast
  then show ?thesis by (intro exI [of _ w']) (simp add: run_thread_def MyModelCallback_def got_data_def)
qed

lemma served_ad:
  assumes "serves k W ui um ua data" "W b (vs_world s)"
  shows "\<exists>p u w'. run_thread k (AdThread ua) s = Some (PostMessage (WM_USER_AD_DOWNLOADED 0)
    (s\<lparr>vs_world := w', vs_dlg := (vs_dlg s)\<lparr>m_PointerPass2 := p, m_strAdUrl := u\<rparr>\<rparr>)) \<and> W b w' \<and> length u < 260"
proof -
  obtain r w' where g: "GetAd k (Some ua) (Some ''pcwin'') True (vs_world s) = (Ret r, w')" "W b w'" "\<forall>d u. r = Got (d, u) \<longrightarrow> length u < 260"
    using assms unfolding serves_def by blast
  show ?thesis
  proof (cases "\<exists>d u. r = Got (d, u)")
    case True
    then obtain d u where "r = Got (d, u)" by blast
    with g show ?thesis
      by (intro exI [of _ "(Some d, of_nat (length d))"] exI [of _ u] exI [of _ w']) (simp add: run_thread_def MyAdCallback_def)
  next
    case False
    with g show ?thesis
      by (intro exI [of _ "(None, 0)"] exI [of _ "[]"] exI [of _ w']) (cases r; simp add: run_thread_def MyAdCallback_def split: prod.split)
  qed
qed

lemma open_inv_run_thread:
  assumes "open_inv env k W ui um ua data td sub init s" "t \<in> set (vs_threads s)"
  shows "\<exists>s'. run_thread k t (s\<lparr>vs_threads := remove1 t (vs_threads s)\<rparr>) = Some s' \<and> open_inv env k W ui um ua data td sub init s' \<and>
    open_work s' < open_work s"
proof -
  let ?s = "s\<lparr>vs_threads := remove1 t (vs_threads s)\<rparr>"
  have i: "draws env td" "readable env data td" "serves k W ui um ua data" "W (ModelThread um \<in> set (vs_threads s)) (vs_world ?s)" "traffic_ok ui um ua s"
    "dialog_inv env data td sub init (WM_USER_MODEL_DOWNLOADED 0 \<in> set (vs_queue s)) (model_pending um s) (vs_dlg s)"
    using assms(1) by (simp_all add: open_inv_def)
  have tr: "set (remove1 t (vs_threads s)) \<subseteq> {InfoThread ui, ModelThread um, AdThread ua}"
    using i(5) set_remove1_subset [of t "vs_threads s"] by (auto simp: traffic_ok_def)
  have ln: "length (vs_threads s) = Suc (length (remove1 t (vs_threads s)))"
    using assms(2) by (cases "vs_threads s") (auto simp: length_remove1 dest: length_pos_if_in_set)
  from i(5) assms(2) consider "t = InfoThread ui" | "t = ModelThread um" | "t = AdThread ua" by (auto simp: traffic_ok_def)
  then show ?thesis
  proof cases
    case 1
    from served_info [OF i(3,4)] obtain p n w' where r: "run_thread k t ?s = Some (PostMessage (WM_USER_MODEL_INFO n)
      (?s\<lparr>vs_world := w', vs_dlg := (vs_dlg ?s)\<lparr>m_PointerPass0 := p\<rparr>\<rparr>))" "W (ModelThread um \<in> set (vs_threads s)) w'" unfolding 1 by blast
    have "dialog_inv env data td sub init (WM_USER_MODEL_DOWNLOADED 0 \<in> set (vs_queue s)) (model_pending um s) ((vs_dlg s)\<lparr>m_PointerPass0 := p\<rparr>)"
      by (rule dialog_inv_cong [OF i(6)]) (use dialog_inv_url [OF i(6)] in \<open>simp_all add: frame_defs owns_fields\<close>)
    then show ?thesis using i(1-3,5) tr ln r count_remove1 [OF assms(2), of "ModelThread um"]
      by (simp add: 1 open_inv_def PostMessage_def model_pending_def traffic_ok_def open_work_def)
  next
    case 2
    have w: "W True (vs_world ?s)" using i(4) assms(2) 2 by simp
    from served_model [OF i(3) w] obtain w' where r: "run_thread k t ?s = Some (PostMessage (WM_USER_MODEL_DOWNLOADED 0)
      (?s\<lparr>vs_world := w', vs_dlg := (vs_dlg ?s)\<lparr>m_PointerPass1 := (Some data, of_nat (length data))\<rparr>\<rparr>))" "W False w'" unfolding 2 by blast
    have c: "count_list (vs_threads s) (ModelThread um) \<noteq> 0" using assms(2) 2 by (simp add: count_list_0_iff)
    then have n: "model_pending um s = 1" "count_list (vs_queue s) (WM_USER_MODEL_DOWNLOADED 0) = 0" "count_list (vs_threads s) (ModelThread um) = 1"
      using i(6) by (auto simp: model_pending_def dialog_inv_def)
    have "dialog_inv env data td sub init False 1 (vs_dlg s)" using i(6) by (simp add: dialog_inv_def n(1))
    then have "dialog_inv env data td sub init True 1 ((vs_dlg s)\<lparr>m_PointerPass1 := (Some data, of_nat (length data))\<rparr>)"
      by (auto simp: dialog_inv_def ready_def owns_fields cache_of_def)
    moreover have "ModelThread um \<notin> set (remove1 t (vs_threads s))"
      using count_remove1 [OF assms(2), of "ModelThread um"] n(3) 2 by (simp add: count_list_0_iff [symmetric])
    ultimately show ?thesis using i(1-3,5) tr ln r n count_remove1 [OF assms(2), of "ModelThread um"]
      by (simp add: 2 open_inv_def PostMessage_def model_pending_def traffic_ok_def open_work_def)
  next
    case 3
    from served_ad [OF i(3,4)] obtain p u w' where r: "run_thread k t ?s = Some (PostMessage (WM_USER_AD_DOWNLOADED 0)
      (?s\<lparr>vs_world := w', vs_dlg := (vs_dlg ?s)\<lparr>m_PointerPass2 := p, m_strAdUrl := u\<rparr>\<rparr>))" "W (ModelThread um \<in> set (vs_threads s)) w'" "length u < 260" unfolding 3 by blast
    have "dialog_inv env data td sub init (WM_USER_MODEL_DOWNLOADED 0 \<in> set (vs_queue s)) (model_pending um s)
        ((vs_dlg s)\<lparr>m_PointerPass2 := p, m_strAdUrl := u\<rparr>)"
      by (rule dialog_inv_cong [OF i(6)]) (use r(3) in \<open>simp_all add: frame_defs owns_fields\<close>)
    then show ?thesis using i(1-3,5) tr ln r count_remove1 [OF assms(2), of "ModelThread um"]
      by (simp add: 3 open_inv_def PostMessage_def model_pending_def traffic_ok_def open_work_def)
  qed
qed

lemma open_inv_handle:
  assumes "open_inv env k W ui um ua data td sub init s" "vs_queue s = m # ms"
  shows "\<exists>v. on_user_msg env m (vs_dlg s) = Done v \<and> open_inv env k W ui um ua data td sub init (s\<lparr>vs_dlg := v, vs_queue := ms\<rparr>) \<and>
    open_work (s\<lparr>vs_dlg := v, vs_queue := ms\<rparr>) < open_work s"
proof -
  have i: "draws env td" "readable env data td" "serves k W ui um ua data" "W (ModelThread um \<in> set (vs_threads s)) (vs_world s)" "traffic_ok ui um ua s"
    "dialog_inv env data td sub init (WM_USER_MODEL_DOWNLOADED 0 \<in> set (m # ms)) (model_pending um s) (vs_dlg s)"
    using assms by (simp_all add: open_inv_def)
  have tr: "traffic_ok ui um ua (s\<lparr>vs_dlg := v, vs_queue := ms\<rparr>)" for v using i(5) assms(2) by (simp add: traffic_ok_def)
  have wk: "open_work (s\<lparr>vs_dlg := v, vs_queue := ms\<rparr>) < open_work s" for v using assms(2) by (simp add: open_work_def)
  have pd: "model_pending um (s\<lparr>vs_dlg := v, vs_queue := ms\<rparr>) = model_pending um s - (if m = WM_USER_MODEL_DOWNLOADED 0 then 1 else 0)" for v
    using assms(2) by (simp add: model_pending_def)
  have other: "\<exists>v. on_user_msg env m (vs_dlg s) = Done v \<and> dialog_inv env data td sub init (WM_USER_MODEL_DOWNLOADED 0 \<in> set ms) (model_pending um s) v"
    if "m \<noteq> WM_USER_MODEL_DOWNLOADED 0"
  proof -
    have d: "dialog_inv env data td sub init (WM_USER_MODEL_DOWNLOADED 0 \<in> set ms) (model_pending um s) (vs_dlg s)" using i(6) that by simp
    show ?thesis
    proof (cases m)
      case (WM_USER_HTTP_PROGRESS n)
      then show ?thesis using dialog_inv_progress [OF d] by (simp add: on_user_msg_def)
    next
      case (WM_USER_MODEL_INFO n)
      then show ?thesis using dialog_inv_info [OF d] by (simp add: on_user_msg_def)
    next
      case (WM_USER_MODEL_DOWNLOADED l)
      then show ?thesis using i(5) assms(2) that by (auto simp: traffic_ok_def)
    next
      case (WM_USER_AD_DOWNLOADED l)
      then have "l = 0" using i(5) assms(2) by (auto simp: traffic_ok_def)
      then show ?thesis using dialog_inv_ad [OF d] WM_USER_AD_DOWNLOADED by (simp add: on_user_msg_def)
    qed
  qed
  show ?thesis
  proof (cases "m = WM_USER_MODEL_DOWNLOADED 0")
    case True
    have n: "model_pending um s = 1" "count_list ms (WM_USER_MODEL_DOWNLOADED 0) = 0"
      using i(6) assms(2) True by (auto simp: model_pending_def dialog_inv_def)
    have "dialog_inv env data td sub init True 1 (vs_dlg s)" using i(6) by (simp add: True n(1))
    from dialog_inv_model [OF i(1,2) this] obtain v where v: "on_model env 0 (vs_dlg s) = Done v" "dialog_inv env data td sub init False 0 v" by blast
    have "WM_USER_MODEL_DOWNLOADED 0 \<notin> set ms" using n(2) by (simp add: count_list_0_iff)
    then show ?thesis using v i(1-4) tr wk pd n(1) True by (simp add: on_user_msg_def open_inv_def)
  next
    case False
    then show ?thesis using other i(1-4) tr wk pd by (auto simp: open_inv_def)
  qed
qed

lemma open_inv_step:
  assumes "open_inv env k W ui um ua data td sub init s" "viewer_step env k s t"
  shows "open_inv env k W ui um ua data td sub init t"
proof -
  from assms(2) consider n where "t = PostMessage (WM_USER_HTTP_PROGRESS n) s"
    | th where "th \<in> set (vs_threads s)" "run_thread k th (s\<lparr>vs_threads := remove1 th (vs_threads s)\<rparr>) = Some t"
    | m ms v where "vs_queue s = m # ms" "on_user_msg env m (vs_dlg s) = Done v" "t = s\<lparr>vs_dlg := v, vs_queue := ms\<rparr>"
    by (elim viewer_stepE) blast+
  then show ?thesis
  proof cases
    case 1
    then show ?thesis using open_inv_progress [OF assms(1)] by simp
  next
    case 2
    with open_inv_run_thread [OF assms(1) 2(1)] show ?thesis by auto
  next
    case 3
    with open_inv_handle [OF assms(1) 3(1)] show ?thesis by auto
  qed
qed

lemma open_inv_work:
  "open_inv env k W ui um ua data td sub init s \<Longrightarrow> open_work s \<noteq> 0 \<Longrightarrow> \<exists>t. viewer_step env k s t \<and> open_work t < open_work s"
proof -
  assume i: "open_inv env k W ui um ua data td sub init s" and w: "open_work s \<noteq> 0"
  show ?thesis
  proof (cases "vs_queue s")
    case Nil
    then obtain t where t: "t \<in> set (vs_threads s)" using w by (cases "vs_threads s") (auto simp: open_work_def)
    from open_inv_run_thread [OF i t] show ?thesis using viewer_step.finish [OF t] by blast
  next
    case (Cons m ms)
    from open_inv_handle [OF i Cons] show ?thesis using viewer_step.handle [OF Cons] by blast
  qed
qed

lemma open_inv_safe: "open_inv env k W ui um ua data td sub init s \<Longrightarrow> \<not> crashes env k s"
  unfolding crashes_def by (metis open_inv_run_thread open_inv_handle option.distinct(1))

interpretation vopen: draining "viewer_step env k" "open_inv env k W ui um ua data td sub init" open_work
  for env k W ui um ua data td sub init
  by unfold_locales (fact open_inv_step, fact open_inv_work)


section \<open>Opening a subscription\<close>

text \<open>The subscription a URL names and the addresses of the requests for it.\<close>

definition target :: "viewer_env \<Rightarrow> string \<Rightarrow> (string \<times> (string \<Rightarrow> string)) option" where
  "target env strUrl = (case wide1000 (replace_scheme strUrl) of
      Done t \<Rightarrow> map_option (\<lambda>u. let sub = query_value ''subsid'' (split_query (u_query u)) in
        (sub, \<lambda>api. uri_text (request_uri env u api sub))) (ve_parse env t)
    | _ \<Rightarrow> None)"

lemma buf_id [simp]: "of_buf (to_buf p) = p"
  by (cases p) (simp_all add: of_buf_def to_buf_def)

lemma load_cached_miss:
  "SearchInCache (wide sub) (m_Cache v) = None \<Longrightarrow> load_cached env sub v = Done (False, v)"
  by (cases "m_PointerPass1 v"; cases "m_PointerPass2 v") (simp add: load_cached_def LoadModel_def)

lemma Load3DScanFromUrl_miss:
  assumes "target env strUrl = Some (sub, url)" "SearchInCache (wide sub) (m_Cache (vs_dlg s)) = None" "at_rest s"
  shows "Load3DScanFromUrl env strUrl s = Done (s\<lparr>vs_dlg := (vs_dlg s)\<lparr>m_strSubsid := sub, m_bDownloading := True\<rparr>,
    vs_threads := [InfoThread (url ''getinfo''), ModelThread (url ''get'')] @
      (if fst (m_PointerPass2 (vs_dlg s)) \<noteq> None \<and> snd (m_PointerPass2 (vs_dlg s)) \<noteq> 0 then [] else [AdThread (url ''getad'')])\<rparr>)"
proof -
  from assms(1) obtain t u where t: "wide1000 (replace_scheme strUrl) = Done t" "ve_parse env t = Some u"
    "sub = query_value ''subsid'' (split_query (u_query u))" "url = (\<lambda>api. uri_text (request_uri env u api sub))"
    by (auto simp: target_def Let_def split: outcome.splits)
  have m: "load_cached env sub ((vs_dlg s)\<lparr>m_strSubsid := sub\<rparr>) = Done (False, (vs_dlg s)\<lparr>m_strSubsid := sub\<rparr>)"
    by (rule load_cached_miss) (simp add: assms(2))
  show ?thesis
    using assms(3) by (simp add: Load3DScanFromUrl_def t(1,2) t(3) [symmetric] m Let_def t(4) DownloadInfo_def DownloadModel_def DownloadAd_def at_rest_def)
qed

lemma opening_starts:
  assumes "target env strUrl = Some (sub, url)" "SearchInCache (wide sub) (m_Cache (vs_dlg s)) = None" "at_rest s" "ready env 1 (vs_dlg s)"
    "length sub < 260" "draws env td" "readable env data td" "serves k W (url ''getinfo'') (url ''get'') (url ''getad'') data" "W True (vs_world s)"
  shows "\<exists>s0. Load3DScanFromUrl env strUrl s = Done s0 \<and>
    open_inv env k W (url ''getinfo'') (url ''get'') (url ''getad'') data td sub (cache_of (vs_dlg s)) s0"
  unfolding Load3DScanFromUrl_miss [OF assms(1-3)]
  using assms by (simp add: open_inv_def traffic_ok_def model_pending_def dialog_inv_def ready_def owns_fields cache_of_def keeps_others_refl at_rest_def)

lemma open_work_0: "open_work s = 0 \<longleftrightarrow> at_rest s"
  by (simp add: open_work_def at_rest_def)

lemma open_inv_rest:
  "open_inv env k W ui um ua data td sub init s \<Longrightarrow> at_rest s \<Longrightarrow>
     shown env td data (vs_dlg s) \<and> m_strSubsid (vs_dlg s) = sub \<and> keeps_others (ve_os env) (wide sub) init (cache_of (vs_dlg s))"
  by (simp add: open_inv_def at_rest_def dialog_inv_def model_pending_def)

lemma opening_shows:
  assumes "target env strUrl = Some (sub, url)" "SearchInCache (wide sub) (m_Cache (vs_dlg s)) = None" "at_rest s" "ready env 1 (vs_dlg s)"
    "length sub < 260" "draws env td" "readable env data td" "serves k W (url ''getinfo'') (url ''get'') (url ''getad'') data" "W True (vs_world s)"
  shows "\<exists>s0. Load3DScanFromUrl env strUrl s = Done s0 \<and> (\<forall>t. viewer_runs env k s0 t \<longrightarrow> \<not> crashes env k t \<and>
    (at_rest t \<longrightarrow> shown env td data (vs_dlg t) \<and> m_strSubsid (vs_dlg t) = sub \<and>
       keeps_others (ve_os env) (wide sub) (cache_of (vs_dlg s)) (cache_of (vs_dlg t))))"
  using opening_starts [OF assms] vopen.runs_inv open_inv_safe open_inv_rest by metis

text \<open>
  C30. However the three downloads of a subscription and their messages interleave, no message and no thread crashes
  the viewer, and when nothing is left to do the dialog shows the downloaded model, is no longer downloading, and the
  cache holds that model's bytes under the subscription or nothing, every other subscription as it was.
\<close>

theorem every_interleaving_shows_the_model:
  assumes "target env strUrl = Some (sub, url)" "SearchInCache (wide sub) (m_Cache (vs_dlg s)) = None" "at_rest s" "ready env 1 (vs_dlg s)"
    "length sub < 260" "draws env td" "readable env data td" "serves k W (url ''getinfo'') (url ''get'') (url ''getad'') data" "W True (vs_world s)"
  shows "\<exists>s0. Load3DScanFromUrl env strUrl s = Done s0 \<and> (\<forall>t. viewer_runs env k s0 t \<longrightarrow> \<not> crashes env k t \<and>
    (at_rest t \<longrightarrow> shown env td data (vs_dlg t) \<and> m_strSubsid (vs_dlg t) = sub \<and>
       keeps_others (ve_os env) (wide sub) (cache_of (vs_dlg s)) (cache_of (vs_dlg t))))"
  by (rule opening_shows [OF assms])

text \<open>
  C31. Opening a subscription never gets stuck: from every state on the way the viewer can get to where all threads are
  done and all messages handled, and it then shows the model.
\<close>

theorem opening_can_always_finish:
  assumes "target env strUrl = Some (sub, url)" "SearchInCache (wide sub) (m_Cache (vs_dlg s)) = None" "at_rest s" "ready env 1 (vs_dlg s)"
    "length sub < 260" "draws env td" "readable env data td" "serves k W (url ''getinfo'') (url ''get'') (url ''getad'') data" "W True (vs_world s)"
    "Load3DScanFromUrl env strUrl s = Done s0" "viewer_runs env k s0 t"
  shows "\<exists>u. viewer_runs env k t u \<and> at_rest u \<and> shown env td data (vs_dlg u)"
proof -
  have i: "open_inv env k W (url ''getinfo'') (url ''get'') (url ''getad'') data td sub (cache_of (vs_dlg s)) s0"
    using opening_starts [OF assms(1-9)] assms(10) by auto
  note it = vopen.runs_inv [OF assms(11) i]
  from vopen.drains [OF it] obtain u where u: "viewer_runs env k t u" "at_rest u" by (auto simp: open_work_0)
  show ?thesis using u open_inv_rest [OF vopen.runs_inv [OF u(1) it] u(2)] by blast
qed


section \<open>Opening from the cache\<close>

lemma load_cached_hit:
  assumes "cache_get (ve_os env) (cache_of v) (wide sub) = Some (Buf m, Buf a, t)"
  shows "load_cached env sub v = Done (True, v\<lparr>m_PointerPass1 := (Some m, of_nat (length m)), m_PointerPass2 := (Some a, of_nat (length a))\<rparr>)"
proof -
  define o0 where "o0 = \<lparr>lo_model = to_buf (fst (m_PointerPass1 v)), lo_modelSize = snd (m_PointerPass1 v),
         lo_ad = to_buf (fst (m_PointerPass2 v)), lo_adSize = snd (m_PointerPass2 v), lo_thumb = Null, lo_thumbSize = 0\<rparr>"
  obtain r where r: "LoadModel (ve_os env) (wide sub) (m_Cache v) (m_fs v) (Some null_out) = Done (True, Some r)" "lo_model r = Buf m" "lo_ad r = Buf a"
    using assms by (auto simp: cache_get_def cache_of_def split: outcome.splits option.splits bool.splits prod.splits)
  have "\<exists>r'. LoadModel (ve_os env) (wide sub) (m_Cache v) (m_fs v) (Some o0) = Done (True, Some r') \<and> lo_model r' = Buf m \<and> lo_ad r' = Buf a \<and>
      lo_modelSize r' = of_nat (length m) \<and> lo_adSize r' = of_nat (length a)"
    using r by (auto simp: LoadModel_def Let_def null_out_def o0_def split: option.splits if_splits)
  then show ?thesis unfolding load_cached_def o0_def [symmetric] by (auto simp: of_buf_def)
qed

lemma on_model_cached_run:
  assumes "draws env td" "owns v" "m_PointerPass1 v = (Some data, of_nat (length data))" "readable env data td" "l \<noteq> 0"
  shows "\<exists>v'. on_model env l v = Done v' \<and> owns v' \<and> m_pModel1 v' = Some td \<and> \<not> m_bDownloading v' \<and> m_bFileOpened v' \<and>
    m_PointerPass2 v' = m_PointerPass2 v \<and> cache_of v' = cache_of v \<and> m_strSubsid v' = m_strSubsid v \<and> m_strAdUrl v' = m_strAdUrl v"
proof -
  from build_run [OF assms(1,2)] obtain d g where b: "build_model env (Done td) (m_gpu v) = Done (Some (td, d), g)"
    "gpu_ok g" "\<forall>i. held_opt (m_pd3dModel1 v) i + thumb_refs v i + held d i \<le> g_refs g i" "names_ok td d" by blast
  define v0 where "v0 = v\<lparr>m_gpu := g\<rparr>"
  have v0: "gpu_ok (m_gpu v0)" "\<And>i. held_opt (m_pd3dModel1 v0) i + thumb_refs v0 i + held d i \<le> g_refs (m_gpu v0) i" "rest_of v0 = rest_of v"
    using b(2,3) thumb_refs_gpu by (simp_all add: v0_def rest_of_def)
  from replace1_run [OF v0(1,2) b(4), of env True] obtain v1 where
    1: "replace1 env True (td, d) v0 = Done v1" "owns v1" "rest_of v1 = rest_of v0" "models_of v1 = (Some td, Some d)" by blast
  define v' where "v' = v1\<lparr>m_bFileOpened := True, m_bHasFilename := False, m_PointerPass1 := (None, snd (m_PointerPass1 v1)), m_bDownloading := False\<rparr>"
  have "owns v' = owns v1" by (intro owns_cong) (simp_all add: v'_def frame_defs)
  moreover have "on_model env l v = Done v'"
    using b(1) 1(1) assms(3-5) by (simp add: on_model_def readable_def v0_def [symmetric] Let_def v'_def)
  moreover have "m_PointerPass2 v' = m_PointerPass2 v" "cache_of v' = cache_of v" "m_strSubsid v' = m_strSubsid v" "m_strAdUrl v' = m_strAdUrl v"
    using 1(3) v0(3) by (simp_all add: v'_def rest_of_def cache_of_def)
  moreover have "m_pModel1 v' = Some td" "\<not> m_bDownloading v'" "m_bFileOpened v'" using 1(4) by (simp_all add: v'_def models_of_def)
  ultimately show ?thesis using 1(2) by blast
qed

lemma on_ad_cached_run:
  assumes "owns v" "l \<noteq> 0"
  shows "\<exists>v'. on_ad env l v = Done v' \<and> owns v' \<and> models_of v' = models_of v \<and> m_bDownloading v' = m_bDownloading v \<and> cache_of v' = cache_of v"
proof -
  define p where "p = fst (m_PointerPass2 v)"
  obtain t g where n: "com_new (ve_tex env (m_gpu v) p) (m_gpu v) = (t, g)" by fastforce
  define v1 where "v1 = v\<lparr>m_gpu := g, m_pAdTex := (if t = None then m_pAdTex v else t)\<rparr>"
  define v2 where "v2 = (case ve_image env p of None \<Rightarrow> v1 | Some (w, h) \<Rightarrow> v1\<lparr>m_iAdWidth1 := w, m_iAdHeight1 := h\<rparr>)"
  have gk: "gpu_ok g" "\<forall>i. g_refs (m_gpu v) i \<le> g_refs g i" using com_new_refs [OF _ n] assms(1) by (auto simp: owns_def)
  define v' where "v' = v2\<lparr>m_PointerPass2 := (None, snd (m_PointerPass2 v2))\<rparr>"
  have f: "m_gpu v' = g" "models_of v' = models_of v" "m_bDownloading v' = m_bDownloading v" "cache_of v' = cache_of v" "\<And>i. thumb_refs v' i = thumb_refs v i"
    by (auto simp: v'_def v2_def v1_def models_of_def cache_of_def thumb_refs_def split: option.splits)
  have "held_opt (m_pd3dModel1 v) i + thumb_refs v i \<le> g_refs g i" for i using assms(1) gk(2) by (auto simp: owns_def intro: order_trans)
  then have "owns v'" using gk(1) f by (simp add: owns_def models_of_def)
  moreover have "on_ad env l v = Done v'"
    unfolding on_ad_def Let_def p_def [symmetric] n prod.case v1_def [symmetric] v2_def [symmetric] using assms(2) by (simp add: v'_def)
  ultimately show ?thesis using f by blast
qed

text \<open>
  C32. A subscription the cache holds with its advertisement is opened without the network: no thread is started, the server is not
  asked, and the two messages posted instead show the cached model and leave cache and files alone.
\<close>

theorem cached_subscription_opens_offline:
  assumes "target env strUrl = Some (sub, url)" "at_rest s" "owns (vs_dlg s)"
    "cache_get (ve_os env) (cache_of (vs_dlg s)) (wide sub) = Some (Buf data, Buf ad, t)" "ad \<noteq> []" "length ad < 2 ^ 32"
    "readable env data td" "draws env td"
  shows "\<exists>s0 v1 v2. Load3DScanFromUrl env strUrl s = Done s0 \<and> vs_threads s0 = [] \<and> vs_world s0 = vs_world s \<and>
    vs_queue s0 = [WM_USER_MODEL_DOWNLOADED 1, WM_USER_AD_DOWNLOADED 1] \<and>
    on_user_msg env (WM_USER_MODEL_DOWNLOADED 1) (vs_dlg s0) = Done v1 \<and> on_user_msg env (WM_USER_AD_DOWNLOADED 1) v1 = Done v2 \<and>
    m_pModel1 v2 = Some td \<and> \<not> m_bDownloading v2 \<and> cache_of v2 = cache_of (vs_dlg s)"
proof -
  from assms(1) obtain u w where u: "wide1000 (replace_scheme strUrl) = Done u" "ve_parse env u = Some w"
    "sub = query_value ''subsid'' (split_query (u_query w))" by (auto simp: target_def Let_def split: outcome.splits)
  define v where "v = (vs_dlg s)\<lparr>m_strSubsid := sub\<rparr>"
  define va where "va = v\<lparr>m_PointerPass1 := (Some data, of_nat (length data)), m_PointerPass2 := (Some ad, of_nat (length ad))\<rparr>"
  have c: "cache_of v = cache_of (vs_dlg s)" by (simp add: v_def cache_of_def)
  have l: "load_cached env sub v = Done (True, va)" unfolding va_def by (rule load_cached_hit) (use assms(4) c in simp)
  have "unat (of_nat (length ad) :: u32) \<noteq> 0" using assms(5,6) by (simp add: unat_of_nat32)
  then have "(of_nat (length ad) :: u32) \<noteq> 0" by (metis unat_0)
  then have o: "Load3DScanFromUrl env strUrl s = Done (s\<lparr>vs_dlg := va, vs_queue := [WM_USER_MODEL_DOWNLOADED 1, WM_USER_AD_DOWNLOADED 1]\<rparr>)"
    using assms(2) l by (simp add: Load3DScanFromUrl_def u(1,2) u(3) [symmetric] v_def [symmetric] PostMessage_def at_rest_def Let_def va_def)
  have "owns va" "m_PointerPass1 va = (Some data, of_nat (length data))" using assms(3) by (simp_all add: va_def v_def owns_fields)
  from on_model_cached_run [OF assms(8) this assms(7), of 1] obtain v1 where
    1: "on_model env 1 va = Done v1" "owns v1" "m_pModel1 v1 = Some td" "\<not> m_bDownloading v1" "cache_of v1 = cache_of va" by auto
  from on_ad_cached_run [OF 1(2), of 1 env] obtain v2 where
    2: "on_ad env 1 v1 = Done v2" "models_of v2 = models_of v1" "m_bDownloading v2 = m_bDownloading v1" "cache_of v2 = cache_of v1" by auto
  have "cache_of va = cache_of v" by (simp add: va_def cache_of_def)
  then show ?thesis using o 1 2 c assms(2) by (simp add: on_user_msg_def models_of_def at_rest_def)
qed

section \<open>The picture of an advertisement\<close>

text \<open>
  The advertisement in \<open>p\<close> is the picture of \<open>w\<close>, where \<open>v\<close> was the state before: a texture of its own, alive and used by neither
  the model nor the history, and its size. A picture that Direct3D cannot read leaves the old texture, one that GDI+ cannot read
  the old size.
\<close>

definition ad_of :: "CModelViewerDlg \<Rightarrow> _" where
  "ad_of v = (m_pAdTex v, m_iAdWidth1 v, m_iAdHeight1 v)"

definition ad_pictured :: "viewer_env \<Rightarrow> bytes option \<Rightarrow> CModelViewerDlg \<Rightarrow> CModelViewerDlg \<Rightarrow> bool" where
  "ad_pictured env p v w \<longleftrightarrow>
     ((\<forall>g. ve_tex env g p) \<longrightarrow> (\<exists>t. m_pAdTex w = Some t \<and> 0 < g_refs (m_gpu w) t \<and> held_opt (m_pd3dModel1 w) t + thumb_refs w t = 0)) \<and>
     ((\<forall>g. \<not> ve_tex env g p) \<longrightarrow> m_pAdTex w = m_pAdTex v) \<and>
     (m_iAdWidth1 w, m_iAdHeight1 w) = (case ve_image env p of None \<Rightarrow> (m_iAdWidth1 v, m_iAdHeight1 v) | Some s \<Rightarrow> s)"

lemma ad_ResetView: "ResetView env v = Done w \<Longrightarrow> ad_of w = ad_of v"
  by (auto simp: ResetView_def Let_def UpdateWorldMatrix_def ad_of_def elim!: obind_DoneE split: option.splits)

lemma ad_OnModelLoaded1: "OnModelLoaded1 env v = Done w \<Longrightarrow> ad_of w = ad_of v"
  by (auto simp: OnModelLoaded1_def elim!: obind_DoneE dest!: ad_ResetView) (auto simp: ad_of_def)

lemma ad_FillTextureList: "FillTextureList v = Done w \<Longrightarrow> ad_of w = ad_of v"
  by (auto simp: FillTextureList_def Let_def ad_of_def elim!: obind_DoneE split: option.splits if_splits)

lemma ad_replace1: "replace1 env b n v = Done w \<Longrightarrow> ad_of w = ad_of v"
  by (auto simp: replace1_def elim!: obind_DoneE dest!: ad_OnModelLoaded1 ad_ResetView ad_FillTextureList) (auto simp: ad_of_def)

lemma ad_FillThumbArray: "FillThumbArray env v = Done w \<Longrightarrow> ad_of w = ad_of v"
  by (auto simp: FillThumbArray_def Let_def ad_of_def elim!: obind_DoneE split: option.splits if_splits)

lemma ad_store_model: "store_model env v = Done w \<Longrightarrow> ad_of w = ad_of v"
  by (auto simp: store_model_def GenerateThumnail_def Let_def elim!: obind_DoneE dest!: ad_FillThumbArray split: option.splits)
     (auto simp: ad_of_def)

text \<open>Loading a model leaves the picture of the advertisement.\<close>

lemma ad_on_model: "on_model env l v = Done w \<Longrightarrow> ad_of w = ad_of v"
  by (auto simp: on_model_def Let_def elim!: obind_DoneE dest!: ad_replace1 ad_store_model split: option.splits if_splits)
     (auto simp: ad_of_def)

text \<open>A new texture is nobody's yet.\<close>

lemma new_texture_pictured:
  assumes "owns v" "com_new (ve_tex env (m_gpu v) p) (m_gpu v) = (t, g)" "m_gpu w = g" "m_pd3dModel1 w = m_pd3dModel1 v"
    "\<And>i. thumb_refs w i = thumb_refs v i" "m_pAdTex w = (if t = None then m_pAdTex v else t)"
    "(m_iAdWidth1 w, m_iAdHeight1 w) = (case ve_image env p of None \<Rightarrow> (m_iAdWidth1 v, m_iAdHeight1 v) | Some s \<Rightarrow> s)"
  shows "ad_pictured env p v w"
proof -
  have n: "g_refs (m_gpu v) (g_next (m_gpu v)) = 0" using assms(1) by (simp add: owns_def gpu_ok_def)
  have "held_opt (m_pd3dModel1 v) i + thumb_refs v i \<le> g_refs (m_gpu v) i" for i using assms(1) by (simp add: owns_def)
  then have "held_opt (m_pd3dModel1 v) (g_next (m_gpu v)) + thumb_refs v (g_next (m_gpu v)) = 0" using n by (metis le_zero_eq)
  then have h: "held_opt (m_pd3dModel1 w) (g_next (m_gpu v)) + thumb_refs w (g_next (m_gpu v)) = 0" by (simp add: assms(4,5))
  have t: "m_pAdTex w = Some (g_next (m_gpu v)) \<and> 0 < g_refs (m_gpu w) (g_next (m_gpu v))" if "ve_tex env (m_gpu v) p"
    using that assms(2,6) unfolding assms(3) by (auto simp: com_new_def)
  have o: "m_pAdTex w = m_pAdTex v" if "\<not> ve_tex env (m_gpu v) p" using that assms(2,6) by (simp add: com_new_def)
  show ?thesis unfolding ad_pictured_def using t o h assms(7) by blast
qed

lemma on_ad_pictured:
  assumes "owns v" "on_ad env l v = Done w"
  shows "ad_pictured env (fst (m_PointerPass2 v)) v w"
proof -
  define p where "p = fst (m_PointerPass2 v)"
  obtain t g where n: "com_new (ve_tex env (m_gpu v) p) (m_gpu v) = (t, g)" by fastforce
  define v1 where "v1 = v\<lparr>m_gpu := g, m_pAdTex := (if t = None then m_pAdTex v else t)\<rparr>"
  define v2 where "v2 = (case ve_image env p of None \<Rightarrow> v1 | Some (w, h) \<Rightarrow> v1\<lparr>m_iAdWidth1 := w, m_iAdHeight1 := h\<rparr>)"
  have w: "m_gpu w = m_gpu v2" "m_pd3dModel1 w = m_pd3dModel1 v2" "ad_of w = ad_of v2" "m_ppThumbnails w = m_ppThumbnails v2" "m_iThumbCount w = m_iThumbCount v2"
    using assms(2) unfolding on_ad_def Let_def p_def [symmetric] n prod.case v1_def [symmetric] v2_def [symmetric]
    by (auto simp: ad_of_def elim!: obind_DoneE split: if_splits)
  have f: "m_gpu v2 = g" "m_pd3dModel1 v2 = m_pd3dModel1 v" "m_pAdTex v2 = (if t = None then m_pAdTex v else t)" "\<And>i. thumb_refs v2 i = thumb_refs v i"
    "(m_iAdWidth1 v2, m_iAdHeight1 v2) = (case ve_image env p of None \<Rightarrow> (m_iAdWidth1 v, m_iAdHeight1 v) | Some s \<Rightarrow> s)"
    by (auto simp: v2_def v1_def thumb_refs_def split: option.splits)
  have tr: "thumb_refs w i = thumb_refs v2 i" for i unfolding thumb_refs_def w(4,5) ..
  show ?thesis unfolding p_def [symmetric]
    using w(1-3) f tr by (intro new_texture_pictured [OF assms(1) n]) (simp_all add: ad_of_def)
qed

text \<open>
  C25. The order of the two messages matters for the cache: an advertisement that arrives before its model is shown (its picture becomes
  a texture of its own, when a texture can be made of it, and its size is taken, when the picture can be read, and both stay when the model
  arrives) but it is not stored: the entry the model then gets has an
  empty advertisement.
\<close>

theorem advertisement_before_model_is_not_cached:
  assumes "draws env td" "readable env data td" "ready env 1 v" "m_PointerPass1 v = (Some data, of_nat (length data))"
    "SearchInCache (wide (m_strSubsid v)) (m_Cache v) = None" "fst (m_PointerPass2 v) = Some ad"
  shows "\<exists>v1 v2. on_user_msg env (WM_USER_AD_DOWNLOADED 0) v = Done v1 \<and> on_user_msg env (WM_USER_MODEL_DOWNLOADED 0) v1 = Done v2 \<and>
    ad_pictured env (Some ad) v v1 \<and> ad_of v2 = ad_of v1 \<and>
    m_pModel1 v2 = Some td \<and> holds_ad env data [] v2 \<and> fst (m_PointerPass2 v2) = None"
proof -
  from on_ad_run [OF assms(3)] obtain v1 where 1: "on_ad env 0 v = Done v1" "ready env 1 v1" "m_PointerPass1 v1 = m_PointerPass1 v"
    "fst (m_PointerPass2 v1) = None" "m_strSubsid v1 = m_strSubsid v"
    "SearchInCache (wide (m_strSubsid v)) (m_Cache v1) = SearchInCache (wide (m_strSubsid v)) (m_Cache v)" by blast
  have ow: "owns v" using assms(3) by (simp add: ready_def)
  have "m_PointerPass1 v1 = (Some data, of_nat (length data))" "SearchInCache (wide (m_strSubsid v1)) (m_Cache v1) = None"
    using 1 assms(4,5) by simp_all
  from on_model_run [OF assms(1) 1(2) this(1) assms(2) [unfolded readable_def] this(2)] obtain v2 where
    2: "on_model env 0 v1 = Done v2" "m_pModel1 v2 = Some td" "holds_ad env data [] v2" "m_PointerPass2 v2 = m_PointerPass2 v1" by blast
  show ?thesis using 1(1,4) 2 on_ad_pictured [OF ow 1(1)] ad_on_model [OF 2(1)] assms(6) by (simp add: on_user_msg_def)
qed

end
