(* ===== verification/Delivery.thy ===== *)
theory Delivery
  imports UploadToolProps ServerSubs ViewerProps
begin

text \<open>
  The whole chain: a model published with the upload tool is shown by the viewer that opens its subscription. The upload tool's clicks
  and thread run the client's calls, the server answers them and keeps the rows, and the viewer's three downloads, in any order,
  meet a server on which these rows stay.
\<close>

section \<open>The addresses\<close>

text \<open>What the viewer builds for a subscription, and what the transport makes of it.\<close>

definition viewer_uri :: "string \<Rightarrow> string \<Rightarrow> string \<Rightarrow> uri" where
  "viewer_uri b api h = \<lparr>u_base = b, u_path = ''/3dscan/'' @ api, u_query = ''subsid='' @ h @ ''&magic=tfzfepg'', u_fragment = []\<rparr>"

lemma encode_literals:
  "encode_query_impl ''magic'' = ''magic''" "encode_query_impl MODEL_API_MAGIC = ''tfzfepg''" "encode_query_impl ''client'' = ''client''"
  "encode_query_impl ''pcwin'' = ''pcwin''" "encode_query_impl ''subsid'' = ''subsid''"
  by code_simp+

lemma service_uri_parts:
  assumes "api \<in> {''upload_model'', ''create_subs''}"
  shows "u_path (service_uri host api) = ''/3dscan/'' @ api" "u_query (service_uri host api) = ''magic=tfzfepg''"
proof -
  have m: "''magic'' @ ''='' @ ''tfzfepg'' = ''magic=tfzfepg''" by simp
  from assms consider "api = ''upload_model''" | "api = ''create_subs''" by blast
  then show "u_path (service_uri host api) = ''/3dscan/'' @ api" "u_query (service_uri host api) = ''magic=tfzfepg''"
    unfolding service_uri_def append_query_def encode_literals m
    by cases (simp_all add: append_path_def append_query_text_def)
qed

lemma sent_post_parts:
  assumes "u_path u = ''/3dscan/'' @ api" "u_query u = ''magic=tfzfepg''" "api \<in> {''upload_model'', ''create_subs''}"
  shows "u_path (sent_post_uri ''pcwin'' u) = ''/3dscan/'' @ api @ ''/3dscan/'' @ api"
    "u_query (sent_post_uri ''pcwin'' u) = ''magic=tfzfepg&client=pcwin&magic=tfzfepg&client=pcwin''"
proof -
  have m: "''client'' @ ''='' @ ''pcwin'' = ''client=pcwin''" by simp
  have p: "append_query ''client'' ''pcwin'' u = u\<lparr>u_query := ''magic=tfzfepg&client=pcwin''\<rparr>"
    unfolding append_query_def encode_literals m by (simp add: append_query_text_def assms(2))
  from assms(3) consider "api = ''upload_model''" | "api = ''create_subs''" by blast
  then show "u_path (sent_post_uri ''pcwin'' u) = ''/3dscan/'' @ api @ ''/3dscan/'' @ api"
    "u_query (sent_post_uri ''pcwin'' u) = ''magic=tfzfepg&client=pcwin&magic=tfzfepg&client=pcwin''"
    unfolding sent_post_uri_def sent_uri_def p append_uri_def
    by cases (simp_all add: append_path_def append_query_text_def assms(1,2) Let_def)
qed

lemma posts_service_uri:
  assumes "api \<in> {''upload_model'', ''create_subs''}"
  shows "posts (u_path (sent_post_uri ''pcwin'' (service_uri host api))) (u_query (sent_post_uri ''pcwin'' (service_uri host api))) api"
proof -
  note u = sent_post_parts [OF service_uri_parts [OF assms, of host] assms]
  from assms consider "api = ''upload_model''" | "api = ''create_subs''" by blast
  then show ?thesis unfolding posts_def u by cases (simp_all add: code_def split_path_def)
qed

lemma asks_viewer_uri:
  assumes "list_all is_alnum h" "h \<noteq> []" "api \<in> {''get'', ''getinfo'', ''getad''}"
  shows "asks (u_path (sent_uri (viewer_uri b api h))) (u_query (sent_uri (viewer_uri b api h))) api h"
proof -
  let ?q = "''subsid='' @ h @ ''&magic=tfzfepg&subsid='' @ h @ ''&magic=tfzfepg''" and ?p = "''/3dscan/'' @ api @ ''/3dscan/'' @ api"
  have h: "\<forall>c\<in>set h. c \<notin> {CHR ''%'', CHR ''&'', CHR '';'', CHR ''=''} \<and> \<not> 127 < code c"
    using assms(1) alnum_plain by (auto simp: list_all_iff)
  from assms(3) consider "api = ''get''" | "api = ''getinfo''" | "api = ''getad''" by blast
  then have u: "u_path (sent_uri (viewer_uri b api h)) = ?p \<and> u_query (sent_uri (viewer_uri b api h)) = ?q"
    by cases (simp_all add: sent_uri_def viewer_uri_def append_uri_def append_path_def append_query_text_def Let_def)
  have d: "decode ?q = Some ?q" by (rule decode_plain) (use h in \<open>auto simp: code_def\<close>)
  from assms(3) consider "api = ''get''" | "api = ''getinfo''" | "api = ''getad''" by blast
  then have p: "decode ?p = Some ?p \<and> split_path ?p = [''3dscan'', api, ''3dscan'', api]" by cases (simp_all add: code_def split_path_def)
  let ?kvs = "[(''subsid'', h), (''magic'', ''tfzfepg''), (''subsid'', h), (''magic'', ''tfzfepg'')]"
  have "query_safe h" using h by (auto simp: query_safe_def)
  then have "query_loop (render_query ?kvs) [] = fold (\<lambda>(k, v). smap_put k v) ?kvs []"
    by (intro query_loop_render) (auto simp: query_safe_def)
  then have q: "split_query ?q = [(''magic'', ''tfzfepg''), (''subsid'', h)]" by (simp add: split_query_def)
  show ?thesis unfolding asks_def conjunct1 [OF u] conjunct2 [OF u] d conjunct1 [OF p] conjunct2 [OF p] prod.case option.case q
    by (simp add: smap_get_def MODEL_API_MAGIC_def)
qed

text \<open>The URL a subscriber gets, and what the viewer takes from it.\<close>

definition subscription_url :: "string \<Rightarrow> string \<Rightarrow> string" where
  "subscription_url host h = ''3dscan://'' @ host @ ''/3dscan/get?subsid='' @ h"

lemma replace_no_colon: "CHR '':'' \<notin> set t \<Longrightarrow> replace_scheme t = t"
proof (induction t)
  case (Cons c t)
  have "take 9 (c # t) \<noteq> ''3dscan://''"
  proof
    assume "take 9 (c # t) = ''3dscan://''"
    then have "CHR '':'' \<in> set (take 9 (c # t))" by simp
    then show False using Cons.prems set_take_subset [of 9 "c # t"] by blast
  qed
  then show ?case using Cons by simp
qed simp

lemma replace_host:
  assumes "CHR ''/'' \<notin> set a" "CHR '':'' \<notin> set t" "t = CHR ''/'' # t'" "t' \<noteq> []" "hd t' \<noteq> CHR ''/''"
  shows "replace_scheme (a @ t) = a @ t"
  using assms(1)
proof (induction a)
  case Nil
  then show ?case using replace_no_colon [OF assms(2)] by simp
next
  case (Cons c a)
  have "take 9 (c # a @ t) \<noteq> ''3dscan://''"
  proof
    assume e: "take 9 (c # a @ t) = ''3dscan://''"
    have n: "(c # a @ t) ! i = ''3dscan://'' ! i" if "i < 9" for i using e that by (metis nth_take)
    have s7: "(c # a @ t) ! 7 = CHR ''/''" and s8: "(c # a @ t) ! 8 = CHR ''/''" using n [of 7] n [of 8] by simp_all
    have "\<not> 7 < length (c # a)" using s7 Cons.prems nth_mem [of 7 "c # a"] nth_append [of "c # a" t 7] by auto
    moreover have "length (c # a) = 7" if "\<not> 7 < length (c # a)"
    proof (rule ccontr)
      assume "length (c # a) \<noteq> 7"
      then have l: "length (c # a) < 7" using that by simp
      have "(c # a @ t) ! length (c # a) = CHR ''/''" using assms(3) nth_append [of "c # a" t "length (c # a)"] by simp
      then have "''3dscan://'' ! length (c # a) = CHR ''/''" using n [of "length (c # a)"] l by simp
      moreover have "\<forall>i<7. ''3dscan://'' ! i \<noteq> CHR ''/''" by (simp add: All_less_Suc eval_nat_numeral)
      ultimately show False using l by blast
    qed
    ultimately have l: "length (c # a) = 7" by blast
    then have "(c # a @ t) ! 8 = t ! 1" using nth_append [of "c # a" t 8] by simp
    also have "\<dots> = hd t'" using assms(3,4) by (simp add: hd_conv_nth)
    finally show False using s8 assms(5) by simp
  qed
  then show ?case using Cons by simp
qed

lemma encode_alnum: "list_all is_alnum h \<Longrightarrow> encode_query_impl h = h"
proof (induction h)
  case (Cons c h)
  then have c: "is_query_character c" "c \<notin> {CHR ''&'', CHR '';'', CHR ''='', CHR ''%'', CHR ''+''}"
    by (auto simp: is_query_character_def is_path_character_def is_unreserved_def is_alnum_def Let_def code_def)
  then show ?case using Cons by (simp add: encode_query_impl_def encode_impl_def)
qed (simp add: encode_query_impl_def encode_impl_def)

lemma target_subscription:
  assumes "list_all is_alnum h" "length h = 8" "CHR ''/'' \<notin> set host" "CHR 0x00 \<notin> set host" "length host < 900"
    and "ve_parse env (''http://'' @ host @ ''/3dscan/get?subsid='' @ h) = Some u" "u_query u = ''subsid='' @ h" "ve_authority env u = host"
  shows "target env (subscription_url host h) = Some (h, \<lambda>api. uri_text (request_uri env u api h))"
    and "api \<in> {''get'', ''getinfo'', ''getad''} \<Longrightarrow> request_uri env u api h = viewer_uri (''http://'' @ host) api h"
proof -
  have h: "\<forall>c\<in>set h. c \<notin> {CHR ''%'', CHR ''&'', CHR '';'', CHR ''=''} \<and> \<not> 127 < code c"
    using assms(1) alnum_plain by (auto simp: list_all_iff)
  have c: "\<forall>c\<in>set h. c \<noteq> CHR '':'' \<and> c \<noteq> CHR 0x00 \<and> c \<noteq> CHR ''/''"
    using assms(1) by (auto simp: list_all_iff is_alnum_def Let_def code_def)
  have r: "replace_scheme (host @ ''/3dscan/get?subsid='' @ h) = host @ ''/3dscan/get?subsid='' @ h"
    by (rule replace_host [OF assms(3), where t' = "''3dscan/get?subsid='' @ h"]) (use c in auto)
  then have R: "replace_scheme (subscription_url host h) = ''http://'' @ host @ ''/3dscan/get?subsid='' @ h"
    by (simp add: subscription_url_def)
  have W: "wide1000 (replace_scheme (subscription_url host h)) = Done (''http://'' @ host @ ''/3dscan/get?subsid='' @ h)"
  proof -
    have "CHR 0x00 \<notin> set h" using c by blast
    then have "CHR 0x00 \<notin> set (''http://'' @ host @ ''/3dscan/get?subsid='' @ h)" using assms(4) by simp
    moreover have "length (''http://'' @ host @ ''/3dscan/get?subsid='' @ h) < 1000" using assms(2,5) by simp
    ultimately show ?thesis unfolding R wide1000_def by (metis c_text_id less_imp_not_less less_irrefl)
  qed
  have "query_safe h" using h by (auto simp: query_safe_def)
  then have "query_loop (render_query [(''subsid'', h)]) [] = fold (\<lambda>(k, v). smap_put k v) [(''subsid'', h)] []"
    by (intro query_loop_render) (auto simp: query_safe_def)
  moreover have "decode (''subsid='' @ h) = Some (''subsid='' @ h)" by (rule decode_plain) (use h in \<open>auto simp: code_def\<close>)
  ultimately have q: "query_value ''subsid'' (split_query (u_query u)) = h"
    by (simp add: assms(7) split_query_def query_value_def smap_get_def)
  show "target env (subscription_url host h) = Some (h, \<lambda>api. uri_text (request_uri env u api h))"
    unfolding target_def W outcome.case assms(6) option.map q Let_def by (rule refl)
  have eh: "encode_query_impl h = h" using encode_alnum [OF assms(1)] .
  have n0: "h \<noteq> []" using assms(2) by auto
  then have "last h \<noteq> CHR ''&''" using h last_in_set [of h] by blast
  with n0 have ne: "h \<noteq> []" "last (''subsid='' @ h) \<noteq> CHR ''&''" by simp_all
  have m: "''magic'' @ ''='' @ ''tfzfepg'' = ''magic=tfzfepg''" "''subsid'' @ ''='' @ h = ''subsid='' @ h" by simp_all
  assume "api \<in> {''get'', ''getinfo'', ''getad''}"
  then consider "api = ''get''" | "api = ''getinfo''" | "api = ''getad''" by blast
  then show "request_uri env u api h = viewer_uri (''http://'' @ host) api h"
    unfolding request_uri_def append_query_def encode_literals eh m
    by cases (use ne in \<open>simp_all add: viewer_uri_def append_query_text_def append_path_def assms(8)\<close>)
qed

section \<open>The viewer's requests at the server\<close>

lemma fetch_run:
  assumes "delivers k env" "HandleGet env (u_path (sent_uri u)) (u_query (sent_uri u)) s = (Ret (st, f), s')"
  shows "make_request_get k u s = (Ret (st, if st = 200 then JObject f else JNull), s')"
proof -
  have "k_send k s \<lparr>rq_post = False, rq_uri = sent_uri u, rq_body = JNull\<rparr> = (Reply st (Body (JObject f)), s')"
    using assms unfolding delivers_def by auto
  then show ?thesis by (simp add: make_request_get_def sent_uri_def [symmetric] finish_request_def abind_run act_basic)
qed

lemma GetModelInfo_fetched:
  assumes "make_request_get k u s = (Ret (st, if st = 200 then JObject f else JNull), s')" "k_parse k t = Some u"
    and "st = 200 \<longrightarrow> (\<exists>t n. smap_get f ''info'' = Some (JString t) \<and> smap_get f ''size'' = Some (JNumber n))"
  shows "\<exists>r. GetModelInfo k (Some t) (Some ''pcwin'') True True s = (Ret r, s')"
  using assms(3) by (auto simp: GetModelInfo_def abind_run client_id_run parse_uri_def assms(1,2) act_basic answer_field_def decode_field_def
    as_string_def as_integer_def json_field_def)

lemma GetAd_fetched:
  assumes "make_request_get k u s = (Ret (st, if st = 200 then JObject f else JNull), s')" "k_parse k t = Some u"
    and "st = 200 \<longrightarrow> (\<exists>t. smap_get f ''ad'' = Some (JString t)) \<and> smap_get f ''url'' = Some (JString a)"
  shows "\<exists>r. GetAd k (Some t) (Some ''pcwin'') True s = (Ret r, s') \<and> (\<forall>d v. r = Got (d, v) \<longrightarrow> v = a)"
  using assms(3) by (auto simp: GetAd_def abind_run client_id_run parse_uri_def assms(1,2) act_basic answer_field_def decode_field_def
    as_string_def json_field_def)

text \<open>The worlds of the three downloads: the rows are there, and until the model was fetched its file without the cached text.\<close>

definition stocked :: "'db env \<Rightarrow> ('db \<Rightarrow> tables) \<Rightarrow> (string \<Rightarrow> string \<Rightarrow> bool) \<Rightarrow> subs_row \<Rightarrow> model_row \<Rightarrow> file_row \<Rightarrow> ad_row \<Rightarrow> bytes \<Rightarrow>
    bool \<Rightarrow> 'db server \<Rightarrow> bool" where
  "stocked env tab eq x m fl ad d b s \<longleftrightarrow> subscribed env tab eq x m fl ad s \<and> (let fpath = ms_root s @ MODEL_FILE_PATH @ f_path fl in
     b \<longrightarrow> ms_fs s fpath = Some d \<and> ms_fs s (fpath @ ''.base64'') = None \<and> v_writable env (fpath @ ''.base64''))"

lemma model_path_no_ad: "root @ MODEL_FILE_PATH @ p \<noteq> root @ AD_FILE_PATH @ q"
  by (simp add: MODEL_FILE_PATH_def AD_FILE_PATH_def)

lemma viewer_served:
  assumes "env_contract env tab eq" "delivers k env" "k_dec k = v_dec env" "list_all is_alnum (s_hash x)" "s_hash x \<noteq> []" "length (a_url ad) < 260"
    and "\<And>api. api \<in> {''get'', ''getinfo'', ''getad''} \<Longrightarrow>
      k_parse k (uri_text (viewer_uri b api (s_hash x))) = Some (viewer_uri b api (s_hash x))"
  shows "serves k (stocked env tab eq x m fl ad d) (uri_text (viewer_uri b ''getinfo'' (s_hash x)))
    (uri_text (viewer_uri b ''get'' (s_hash x))) (uri_text (viewer_uri b ''getad'' (s_hash x))) d"
  unfolding serves_def
proof (intro conjI allI impI)
  note asks = asks_viewer_uri [OF assms(4,5), of _ b]
  fix w
  assume W: "stocked env tab eq x m fl ad d True w"
  then have S: "subscribed env tab eq x m fl ad w" by (simp add: stocked_def)
  have "ms_fs w (ms_root w @ MODEL_FILE_PATH @ f_path fl) = Some d" "ms_fs w ((ms_root w @ MODEL_FILE_PATH @ f_path fl) @ ''.base64'') = None"
    "v_writable env ((ms_root w @ MODEL_FILE_PATH @ f_path fl) @ ''.base64'')" using W by (simp_all add: stocked_def Let_def)
  from model_returns [OF assms(1) S asks refl this] obtain s' where
    1: "HandleGet env (u_path (sent_uri (viewer_uri b ''get'' (s_hash x)))) (u_query (sent_uri (viewer_uri b ''get'' (s_hash x)))) w =
      (Ret (ok_reply ''model'' (JString (v_enc env d))), s')" "same_data w s'" by auto
  have b64: "v_dec env (v_enc env d) = d" using assms(1) by (simp add: env_contract_def)
  have "GetModel k (Some (uri_text (viewer_uri b ''get'' (s_hash x)))) (Some ''pcwin'') True w = (Ret (Got (k_dec k (v_enc env d))), s')"
    by (rule GetModel_ok [OF assms(2) assms(7) _ 1(1)]) simp_all
  moreover have "stocked env tab eq x m fl ad d False s'" using S subscribed_same [OF 1(2)] by (simp add: stocked_def)
  ultimately show "\<exists>w'. GetModel k (Some (uri_text (viewer_uri b ''get'' (s_hash x)))) (Some ''pcwin'') True w = (Ret (Got d), w') \<and>
      stocked env tab eq x m fl ad d False w'" by (auto simp: assms(3) b64)
next
  note asks = asks_viewer_uri [OF assms(4,5), of _ b]
  fix c w
  assume W: "stocked env tab eq x m fl ad d c w"
  then have S: "subscribed env tab eq x m fl ad w" by (simp add: stocked_def)
  {
    from info_returns [OF assms(1) S asks] obtain st f s' where
      1: "HandleGet env (u_path (sent_uri (viewer_uri b ''getinfo'' (s_hash x)))) (u_query (sent_uri (viewer_uri b ''getinfo'' (s_hash x)))) w =
        (Ret (st, f), s')" "same_data w s'" "ms_fs s' = ms_fs w"
        "st = 200 \<longrightarrow> (\<exists>t n. smap_get f ''info'' = Some (JString t) \<and> smap_get f ''size'' = Some (JNumber n))" by blast
    have "stocked env tab eq x m fl ad d c s'" using W subscribed_same [OF 1(2)] 1(2,3) by (simp add: stocked_def same_data_def)
    with GetModelInfo_fetched [OF fetch_run [OF assms(2) 1(1)] assms(7) 1(4)]
    show "\<exists>r w'. GetModelInfo k (Some (uri_text (viewer_uri b ''getinfo'' (s_hash x)))) (Some ''pcwin'') True True w = (Ret r, w') \<and>
      stocked env tab eq x m fl ad d c w'" by auto
  next
    from ad_returns [OF assms(1) S asks] obtain st f s' where
      1: "HandleGet env (u_path (sent_uri (viewer_uri b ''getad'' (s_hash x)))) (u_query (sent_uri (viewer_uri b ''getad'' (s_hash x)))) w =
        (Ret (st, f), s')" "same_data w s'" "\<forall>p. (\<forall>q. p \<noteq> ms_root w @ AD_FILE_PATH @ q) \<longrightarrow> ms_fs s' p = ms_fs w p"
        "st = 200 \<longrightarrow> (\<exists>t. smap_get f ''ad'' = Some (JString t)) \<and> smap_get f ''url'' = Some (JString (c_text (a_url ad)))" by blast
    have "ms_fs s' (ms_root w @ MODEL_FILE_PATH @ p) = ms_fs w (ms_root w @ MODEL_FILE_PATH @ p)" for p using 1(3) model_path_no_ad by blast
    then have "stocked env tab eq x m fl ad d c s'" using W subscribed_same [OF 1(2)] 1(2) by (simp add: stocked_def same_data_def Let_def)
    moreover have "length (c_text (a_url ad)) < 260" using assms(6) length_takeWhile_le [of _ "a_url ad"] by (auto simp: c_text_def intro: le_less_trans)
    ultimately show "\<exists>r w'. GetAd k (Some (uri_text (viewer_uri b ''getad'' (s_hash x)))) (Some ''pcwin'') True w = (Ret r, w') \<and>
      stocked env tab eq x m fl ad d c w' \<and> (\<forall>d u. r = Got (d, u) \<longrightarrow> length u < 260)"
      using GetAd_fetched [OF fetch_run [OF assms(2) 1(1)] assms(7) 1(4)] by fastforce
  }
qed

section \<open>From the upload tool to the viewer\<close>

text \<open>A tool whose fields describe a publication: what its texts, its file and the server must be like for it to succeed.\<close>

definition publication :: "'db env \<Rightarrow> ('db \<Rightarrow> tables) \<Rightarrow> (string \<Rightarrow> string \<Rightarrow> bool) \<Rightarrow> (string \<Rightarrow> bytes option) \<Rightarrow> bytes \<Rightarrow> ad_row \<Rightarrow>
    'db server upload_tool \<Rightarrow> bool" where
  "publication env tab eq disk data ad ts \<longleftrightarrow> (let d = ut_dlg ts; s = ut_world ts; t = tab (ms_db s); user = IDC_EDIT_USER d; pass = IDC_EDIT_PASS d;
       fpath = ms_root s @ MODEL_FILE_PATH @ next_name env s ''.3dscan'' in
     disk (IDC_EDIT_MODEL_FILE d) = Some data \<and>
     uploadable env tab eq s (model_json (v_enc env data) user pass (IDC_EDIT_MODEL_NAME d) (IDC_EDIT_MODEL_DESC d)) user pass (v_enc env data) \<and>
     sql_safe (IDC_EDIT_MODEL_NAME d) \<and> length (IDC_EDIT_MODEL_NAME d) \<le> 32 \<and> sql_safe (IDC_EDIT_MODEL_DESC d) \<and> length (IDC_EDIT_MODEL_DESC d) < 256 \<and>
     sql_safe (IDC_EDIT_OWNER d) \<and> length (IDC_EDIT_OWNER d) < 256 \<and> (\<exists>x\<in>set (t_owners t). eq (o_user x) (IDC_EDIT_OWNER d)) \<and>
     int_key (t_nmodel t) \<and> int_key (t_nsubs t) \<and> hash_free env tab eq s \<and>
     ms_fs s (fpath @ ''.base64'') = None \<and> v_writable env (fpath @ ''.base64'') \<and>
     ad \<in> set (t_ads t) \<and> a_id ad = atoi (IDC_EDIT_AD_ID d) \<and> length (a_url ad) < 260 \<and>
     v_writable env (ms_root s @ AD_FILE_PATH @ c_text (a_path ad) @ ''.base64''))"

lemma tool_publishes:
  assumes "env_contract env tab eq" "delivers k env" "k_enc k = v_enc env" "publication env tab eq disk data ad ts"
    and "\<And>api. api \<in> {''upload_model'', ''create_subs''} \<Longrightarrow>
      k_parse k (uri_text (service_uri (IDC_EDIT_SERVER (ut_dlg ts)) api)) = Some (service_uri (IDC_EDIT_SERVER (ut_dlg ts)) api)"
  shows "\<exists>ts1 ts2 ts3 x m fl. tool_click k disk BtnModelUpload ts = (Ret (), ts1) \<and> tool_step k disk ts1 ts2 \<and>
    tool_click k disk BtnCreateSubs ts2 = (Ret (), ts3) \<and> subs_shown (ut_dlg ts3) \<and> IDC_EDIT_SUBS_ID (ut_dlg ts3) = s_hash x \<and>
    length (s_hash x) = 8 \<and> list_all is_alnum (s_hash x) \<and> stocked env tab eq x m fl ad data True (ut_world ts3)"
proof -
  define d s where "d = ut_dlg ts" and "s = ut_world ts"
  define user pass w a where "user = IDC_EDIT_USER d" and "pass = IDC_EDIT_PASS d" and "w = IDC_EDIT_OWNER d" and "a = atoi (IDC_EDIT_AD_ID d)"
  define n de where "n = IDC_EDIT_MODEL_NAME d" and "de = IDC_EDIT_MODEL_DESC d"
  define fpath where "fpath = ms_root s @ MODEL_FILE_PATH @ next_name env s ''.3dscan''"
  let ?i = "t_nmodel (tab (ms_db s))" and ?j = "model_json (v_enc env data) user pass n de" and ?j2 = "subs_json user pass w (t_nmodel (tab (ms_db s))) a"
  let ?u = "\<lambda>api. service_uri (IDC_EDIT_SERVER d) api"
  note defs = d_def s_def user_def pass_def w_def a_def n_def de_def fpath_def
  have P: "disk (IDC_EDIT_MODEL_FILE d) = Some data" "uploadable env tab eq s ?j user pass (v_enc env data)"
    "sql_safe n" "length n \<le> 32" "sql_safe de" "length de < 256" "sql_safe w" "length w < 256" "\<exists>x\<in>set (t_owners (tab (ms_db s))). eq (o_user x) w"
    "int_key ?i" "int_key (t_nsubs (tab (ms_db s)))" "hash_free env tab eq s" "ms_fs s (fpath @ ''.base64'') = None" "v_writable env (fpath @ ''.base64'')"
    "ad \<in> set (t_ads (tab (ms_db s)))" "a_id ad = a" "length (a_url ad) < 260"
    "v_writable env (ms_root s @ AD_FILE_PATH @ c_text (a_path ad) @ ''.base64'')"
    using assms(4) unfolding publication_def Let_def defs by simp_all
  have U: "sql_safe user" "length user < 256" "sql_safe pass" "length pass < 256" "knows eq (tab (ms_db s)) user pass"
    using P(2) by (simp_all add: uploadable_def fit_text_def json_fields)
  have F: "fit_text ?j ''name'' n" "fit_text ?j ''desc'' de" "fit_text ?j2 ''user'' user" "fit_text ?j2 ''pass'' pass" "fit_text ?j2 ''owner'' w"
    using P(3-8) U(1-4) by (simp_all add: fit_text_def json_fields)
  have ai: "a \<in> ad_ids (tab (ms_db s))" using P(15,16) by (auto simp: ad_ids_def)
  have po: "posts (u_path (sent_post_uri ''pcwin'' (?u ''upload_model''))) (u_query (sent_post_uri ''pcwin'' (?u ''upload_model''))) ''upload_model''"
    "posts (u_path (sent_post_uri ''pcwin'' (?u ''create_subs''))) (u_query (sent_post_uri ''pcwin'' (?u ''create_subs''))) ''create_subs''"
    by (rule posts_service_uri, simp)+
  from publish_up_ok [OF assms(1) P(2) po(1) F(1) P(4) F(2) P(10) fpath_def P(13) F(3,4) U(5) F(5) P(9) json_fields(9,10) P(12) po(2) ai P(11)]
  obtain s1 s2 x m fl where
    R: "HandlePost env (u_path (sent_post_uri ''pcwin'' (?u ''upload_model''))) (u_query (sent_post_uri ''pcwin'' (?u ''upload_model''))) (Body ?j) s =
        (Ret (ok_reply ''model_id'' (JNumber ?i)), s1)"
      "HandlePost env (u_path (sent_post_uri ''pcwin'' (?u ''create_subs''))) (u_query (sent_post_uri ''pcwin'' (?u ''create_subs''))) (Body ?j2) s1 =
        (Ret (ok_reply ''subscription_id'' (JString (s_hash x))), s2)" and
    X: "length (s_hash x) = 8" "list_all is_alnum (s_hash x)" "s_ad x = a" "server_up env tab eq s2" "published (tab (ms_db s2)) x m fl"
      "fpath = ms_root s2 @ MODEL_FILE_PATH @ f_path fl" "ms_fs s2 = (ms_fs s)(fpath \<mapsto> data)" "t_ads (tab (ms_db s2)) = t_ads (tab (ms_db s))" "ms_root s2 = ms_root s"
    by (elim exE conjE) (rule that)
  let ?url = "\<lambda>api. uri_text (?u api)"
  have kp: "k_parse k (?url api) = Some (?u api)" if "api \<in> {''upload_model'', ''create_subs''}" for api using assms(5) [OF that] by (simp add: d_def)
  have up: "UploadModel k (Some (?url ''upload_model'')) (Some ''pcwin'') (Some user) (Some pass) (Some data) (Some n) (Some de) True s = (Ret (Got (Some ?i)), s1)"
    by (rule UploadModel_ok [OF assms(2) kp]) (simp_all add: assms(3) R(1))
  have cs: "CreateSubscription k (Some (?url ''create_subs'')) (Some ''pcwin'') (Some user) (Some pass) (Some w) ?i a (Some 100) s1 = (Ret (Got (s_hash x)), s2)"
    by (rule CreateSubscription_ok [OF assms(2) kp _ alnum_no_nul [OF X(2)]]) (simp_all add: X(1) R(2))
  note fit = sql_safe_fits [OF U(1,2)] sql_safe_fits [OF U(3,4)] sql_safe_fits [OF P(3)] sql_safe_fits [OF P(5,6)] sql_safe_fits [OF P(7,8)]
  have fn: "fits n" using fit(3) P(4) by simp
  define th where "th = UploadModelThread (?url ''upload_model'') user pass data n de"
  define ts1 where "ts1 = ts\<lparr>ut_dlg := d\<lparr>progress_shown := True\<rparr>, ut_threads := ut_threads ts @ [th]\<rparr>"
  have c1: "tool_click k disk BtnModelUpload ts = (Ret (), ts1)"
    using model_click_run [of ts disk data k "?u ''upload_model''"] fit(1,2,4) fn P(1) kp unfolding ts1_def th_def defs by simp
  define ts2 where "ts2 = ts1\<lparr>ut_threads := remove1 th (ut_threads ts1), ut_world := s1, ut_dlg := (ut_dlg ts1)\<lparr>IDC_EDIT_MODEL_ID := show_int ?i\<rparr>\<rparr>"
  have "run_upload k th (ts1\<lparr>ut_threads := remove1 th (ut_threads ts1)\<rparr>) = Some ts2"
    unfolding th_def using model_thread_run [of k "?url ''upload_model''" user pass data n de "ts1\<lparr>ut_threads := remove1 th (ut_threads ts1)\<rparr>" ?i s1] up
    by (simp add: ts2_def ts1_def s_def th_def)
  then have c2: "tool_step k disk ts1 ts2" by (intro tool_step.finished [of th]) (simp_all add: ts1_def)
  have id: "atoi (show_int ?i) = ?i" using P(10) by (intro atoi_show_int) (simp_all add: int_key_def)
  define ts3 where "ts3 = ts2\<lparr>ut_world := s2, ut_dlg := (ut_dlg ts2)\<lparr>subs_shown := True, progress_shown := True, IDC_EDIT_SUBS_ID := s_hash x\<rparr>\<rparr>"
  have d2: "IDC_EDIT_USER (ut_dlg ts2) = user" "IDC_EDIT_PASS (ut_dlg ts2) = pass" "IDC_EDIT_OWNER (ut_dlg ts2) = w" "IDC_EDIT_SERVER (ut_dlg ts2) = IDC_EDIT_SERVER d"
    "atoi (IDC_EDIT_MODEL_ID (ut_dlg ts2)) = ?i" "atoi (IDC_EDIT_AD_ID (ut_dlg ts2)) = a" "ut_world ts2 = s1"
    by (simp_all add: ts2_def ts1_def user_def pass_def w_def a_def id)
  have c3: "tool_click k disk BtnCreateSubs ts2 = (Ret (), ts3)"
    unfolding ts3_def by (rule subs_click_run) (use fit(1,2,5) kp [of "''create_subs''"] cs in \<open>simp_all add: d2\<close>)
  have "stocked env tab eq x m fl ad data True s2"
    using X P(13,14,15,16,18) by (simp add: stocked_def subscribed_def Let_def)
  then show ?thesis using c1 c2 c3 X(1,2) by (intro exI [of _ ts1] exI [of _ ts2] exI [of _ ts3] exI [of _ x] exI [of _ m] exI [of _ fl]) (simp add: ts3_def)
qed

text \<open>
  Tool, server and viewer on one host: the server's parameters keep their contract, the transport brings requests to its handlers, both
  sides use the same base64, and the URI parser takes apart what the tool and the viewer put together.
\<close>

definition connected :: "'db env \<Rightarrow> ('db \<Rightarrow> tables) \<Rightarrow> (string \<Rightarrow> string \<Rightarrow> bool) \<Rightarrow> 'db server cenv \<Rightarrow> viewer_env \<Rightarrow> string \<Rightarrow> string \<Rightarrow> bool" where
  "connected env tab eq k venv server host \<longleftrightarrow> env_contract env tab eq \<and> delivers k env \<and> k_enc k = v_enc env \<and> k_dec k = v_dec env \<and>
     (\<forall>api\<in>{''upload_model'', ''create_subs''}. k_parse k (uri_text (service_uri server api)) = Some (service_uri server api)) \<and>
     (\<forall>h. length h = 8 \<longrightarrow> (\<forall>api\<in>{''get'', ''getinfo'', ''getad''}.
        k_parse k (uri_text (viewer_uri (''http://'' @ host) api h)) = Some (viewer_uri (''http://'' @ host) api h)) \<and>
        (\<exists>u. ve_parse venv (''http://'' @ host @ ''/3dscan/get?subsid='' @ h) = Some u \<and> u_query u = ''subsid='' @ h \<and> ve_authority venv u = host)) \<and>
     CHR ''/'' \<notin> set host \<and> CHR 0x00 \<notin> set host \<and> length host < 900"

lemma delivery_run:
  assumes "connected env tab eq k venv (IDC_EDIT_SERVER (ut_dlg ts)) host" "publication env tab eq disk data ad ts" "readable venv data td" "draws venv td"
  shows "\<exists>ts1 ts2 ts3 h. tool_click k disk BtnModelUpload ts = (Ret (), ts1) \<and> tool_step k disk ts1 ts2 \<and>
    tool_click k disk BtnCreateSubs ts2 = (Ret (), ts3) \<and> IDC_EDIT_SUBS_ID (ut_dlg ts3) = h \<and>
    (\<forall>s. at_rest s \<and> ready venv 1 (vs_dlg s) \<and> SearchInCache (wide h) (m_Cache (vs_dlg s)) = None \<and> vs_world s = ut_world ts3 \<longrightarrow>
      (\<exists>s0. Load3DScanFromUrl venv (subscription_url host h) s = Done s0 \<and>
        (\<forall>t. viewer_runs venv k s0 t \<longrightarrow> \<not> crashes venv k t \<and> (at_rest t \<longrightarrow> shown venv td data (vs_dlg t)))))"
proof -
  have C: "env_contract env tab eq" "delivers k env" "k_enc k = v_enc env" "k_dec k = v_dec env" and
    S: "api \<in> {''upload_model'', ''create_subs''} \<Longrightarrow>
      k_parse k (uri_text (service_uri (IDC_EDIT_SERVER (ut_dlg ts)) api)) = Some (service_uri (IDC_EDIT_SERVER (ut_dlg ts)) api)" and
    V: "length h = 8 \<Longrightarrow> api' \<in> {''get'', ''getinfo'', ''getad''} \<Longrightarrow>
      k_parse k (uri_text (viewer_uri (''http://'' @ host) api' h)) = Some (viewer_uri (''http://'' @ host) api' h)" and
    P: "length h = 8 \<Longrightarrow> \<exists>u. ve_parse venv (''http://'' @ host @ ''/3dscan/get?subsid='' @ h) = Some u \<and> u_query u = ''subsid='' @ h \<and> ve_authority venv u = host" and
    H: "CHR ''/'' \<notin> set host" "CHR 0x00 \<notin> set host" "length host < 900" for api api' h
    using assms(1) unfolding connected_def by blast+
  from tool_publishes [OF C(1-3) assms(2) S] obtain ts1 ts2 ts3 x m fl where
    T: "tool_click k disk BtnModelUpload ts = (Ret (), ts1)" "tool_step k disk ts1 ts2" "tool_click k disk BtnCreateSubs ts2 = (Ret (), ts3)"
      "IDC_EDIT_SUBS_ID (ut_dlg ts3) = s_hash x" and
    X: "length (s_hash x) = 8" "list_all is_alnum (s_hash x)" "stocked env tab eq x m fl ad data True (ut_world ts3)" by auto
  have h: "s_hash x \<noteq> []" "length (s_hash x) < 260" using X(1) by auto
  have au: "length (a_url ad) < 260" using assms(2) by (simp add: publication_def Let_def)
  from P [OF X(1)] obtain u where u: "ve_parse venv (''http://'' @ host @ ''/3dscan/get?subsid='' @ s_hash x) = Some u"
    "u_query u = ''subsid='' @ s_hash x" "ve_authority venv u = host" by blast
  note tg = target_subscription [OF X(2,1) H u]
  have "serves k (stocked env tab eq x m fl ad data) (uri_text (request_uri venv u ''getinfo'' (s_hash x)))
      (uri_text (request_uri venv u ''get'' (s_hash x))) (uri_text (request_uri venv u ''getad'' (s_hash x))) data"
    using viewer_served [OF C(1,2,4) X(2) h(1) au V [OF X(1)], of m fl data] by (simp add: tg(2))
  then have "\<exists>s0. Load3DScanFromUrl venv (subscription_url host (s_hash x)) s = Done s0 \<and>
        (\<forall>t. viewer_runs venv k s0 t \<longrightarrow> \<not> crashes venv k t \<and> (at_rest t \<longrightarrow> shown venv td data (vs_dlg t)))"
    if "at_rest s" "ready venv 1 (vs_dlg s)" "SearchInCache (wide (s_hash x)) (m_Cache (vs_dlg s)) = None" "vs_world s = ut_world ts3" for s
    using opening_shows [OF tg(1) that(3,1,2) h(2) assms(4,3)] X(3) that(4) by fastforce
  then show ?thesis using T by blast
qed

text \<open>
  C7. The chain from the publisher to the subscriber: the clicks of the upload tool with its upload thread, the tool's fields and the
  database as in \<open>publication\<close>, client and server on one host as in \<open>connected\<close>, leave a subscription id in the tool's
  field, and the first viewer that opens the URL with this id, with the server as the tool left it and the subscription not in its
  cache, shows the model of the published file, however its downloads interleave, and does not crash on the way. (A later download of the
  model gets junk after it, C35.)
\<close>

theorem published_with_the_tool_shown_in_the_viewer:
  assumes "connected env tab eq k venv (IDC_EDIT_SERVER (ut_dlg ts)) host" "publication env tab eq disk data ad ts" "readable venv data td" "draws venv td"
  shows "\<exists>ts1 ts2 ts3 h. tool_click k disk BtnModelUpload ts = (Ret (), ts1) \<and> tool_step k disk ts1 ts2 \<and>
    tool_click k disk BtnCreateSubs ts2 = (Ret (), ts3) \<and> IDC_EDIT_SUBS_ID (ut_dlg ts3) = h \<and>
    (\<forall>s. at_rest s \<and> ready venv 1 (vs_dlg s) \<and> SearchInCache (wide h) (m_Cache (vs_dlg s)) = None \<and> vs_world s = ut_world ts3 \<longrightarrow>
      (\<exists>s0. Load3DScanFromUrl venv (subscription_url host h) s = Done s0 \<and>
        (\<forall>t. viewer_runs venv k s0 t \<longrightarrow> \<not> crashes venv k t \<and> (at_rest t \<longrightarrow> shown venv td data (vs_dlg t)))))"
  by (rule delivery_run [OF assms])

end
