(* ===== verification/ViewerGui.thy ===== *)
theory ViewerGui
  imports ViewerRun
begin

text \<open>
  What the user does in the viewer (ModelViewerDlg.cpp, ModelViewer.cpp): starting it, its buttons, keys, wheel and mouse, and the
  frame it draws. Which button of the overlay was pressed and whether the cursor is over one of its windows come from
  outside. Strings are lists of 8-bit characters, which the ANSI code page keeps.
\<close>

section \<open>Start\<close>

text \<open>\<open>D3DXToRadian\<close>, and the float constants 45, 60, 180, 0.1, 10090, 10000, -10, pi and 2 pi.\<close>

definition f_pi :: u32 where "f_pi = 0x40490FDB"
definition f_2pi :: u32 where "f_2pi = 0x40C90FDB"
definition f_m_10 :: u32 where "f_m_10 = 0xC1200000"

definition to_radian :: "u32 \<Rightarrow> u32" where
  "to_radian d = f_mul d (f_div f_pi 0x43340000)"

definition look_from_10 :: "xmath \<Rightarrow> u32 \<Rightarrow> u32 \<Rightarrow> u32 \<Rightarrow> CCamera \<Rightarrow> CCamera" where
  "look_from_10 x fov aspect far c =
     (let c1 = snd (CCamera_Initialize x fov aspect 0x3DCCCCCD far c);
          c2 = snd (CCamera_SetMode x MODE_TARGET c1);
          c3 = snd (CCamera_SetPosition3 x 0 0 f_m_10 True c2)
      in snd (CCamera_SetTarget3 x 0 0 0 True c3))"

definition OnInitDialog :: "viewer_env \<Rightarrow> u32 \<times> u32 \<Rightarrow> CModelViewerDlg \<Rightarrow> CModelViewerDlg outcome" where
  "OnInitDialog env rc v =
     (let x = ve_x env;
          v1 = v\<lparr>m_Camera := look_from_10 x (to_radian 0x42340000) (f_div 0x40800000 0x40400000) 0x461DA800 (m_Camera v),
            m_Viewport := rc,
            m_ThumbCamera := look_from_10 x (to_radian 0x42700000) (f_div f_one f_one) 0x461C4000 (CCamera_new x)\<rparr>
      in obind (SetCacheFolder (Some (wide (''StuffsNet'' @ [CHR 0x5C]))) (m_Cache v1)) (\<lambda>c.
         obind (Initialize (ve_os env) c (m_fs v1)) (\<lambda>(ok, c', fs).
         obind (FillThumbArray env (v1\<lparr>m_Cache := c', m_fs := fs\<rparr>)) (\<lambda>v2. Done (v2\<lparr>m_bInitialized := True\<rparr>)))))"

text \<open>
  What the command line opens: the argument after the program's name, as a URL when \<open>-url\<close> is somewhere among the arguments.
  \<open>WideCharToMultiByte\<close> has 1000 characters of room, the terminator comes on top.
\<close>

datatype launch = Opens_nothing | Opens_file string | Opens_url string

definition parse_command_line :: "string list \<Rightarrow> launch outcome" where
  "parse_command_line pStr =
     (let bIsUrl = (''-url'' \<in> set pStr); bIsFile = (\<not> bIsUrl \<and> 1 < length pStr) in
      if \<not> bIsUrl \<and> \<not> bIsFile then Done Opens_nothing
      else if length pStr < 2 then UB
      else let p = pStr ! 1; open_it = (\<lambda>t. Done (if bIsFile then Opens_file t else Opens_url t)) in
        if 1000 < length p then open_it [] else if length p = 1000 then UB else open_it (c_text p))"

definition InitInstance :: "viewer_env \<Rightarrow> string list \<Rightarrow> 'w viewer_sys \<Rightarrow> 'w viewer_sys outcome" where
  "InitInstance env pStr s = obind (parse_command_line pStr) (\<lambda>a. case a of
      Opens_nothing \<Rightarrow> Done s
    | Opens_file f \<Rightarrow> obind (Load3DScanFile env f (vs_dlg s)) (\<lambda>v. Done (s\<lparr>vs_dlg := v\<rparr>))
    | Opens_url u \<Rightarrow> Load3DScanFromUrl env u s)"

section \<open>Buttons of the overlay\<close>

text \<open>
  A picture of the history: the model and the advertisement of its files. The texture before is not released and
  the subscription's id stays that of the model opened from a URL.
\<close>

definition new_ad_texture :: "viewer_env \<Rightarrow> bytes option \<Rightarrow> CModelViewerDlg \<Rightarrow> CModelViewerDlg" where
  "new_ad_texture env p v = (let (t, g) = com_new (ve_tex env (m_gpu v) p) (m_gpu v)
     in v\<lparr>m_gpu := g, m_pAdTex := (if t = None then m_pAdTex v else t)\<rparr>)"

definition new_ad_size :: "viewer_env \<Rightarrow> bytes option \<Rightarrow> CModelViewerDlg \<Rightarrow> CModelViewerDlg" where
  "new_ad_size env p v = (case ve_image env p of None \<Rightarrow> v | Some (w, h) \<Rightarrow> v\<lparr>m_iAdWidth1 := w, m_iAdHeight1 := h\<rparr>)"

definition history_click :: "viewer_env \<Rightarrow> nat \<Rightarrow> CModelViewerDlg \<Rightarrow> CModelViewerDlg outcome" where
  "history_click env i v =
     (if m_iThumbCount v \<le> int i then Done v
      else obind (Load3DScanFile_w env (m_pstrModelFiles v ! i) v) (\<lambda>v1.
        let ad = LoadFileToMem (ve_os env) (m_fs v1) (m_pstrAdFiles v1 ! i); v2 = new_ad_texture env ad v1
        in obind (deref (GetEntry (GetEntryCount (m_Cache v2) - 1 - int i) (m_Cache v2))) (\<lambda>e.
          Done (new_ad_size env ad (v2\<lparr>m_strAdUrl := ansi (wcs (ce_szAdUrl e))\<rparr>)))))"

definition compare_click :: "viewer_env \<Rightarrow> nat \<Rightarrow> CModelViewerDlg \<Rightarrow> CModelViewerDlg outcome" where
  "compare_click env i v = (if m_iThumbCount v \<le> int i then Done v
     else obind (Load3DScanFile2_w env (m_pstrModelFiles v ! i) v) (\<lambda>v1. Done (v1\<lparr>m_bDualView := True, m_bShowRecentRight := False\<rparr>)))"

text \<open>The link of the share window: the id into \<open>char[MAX_PATH]\<close>, then \<open>sprintf\<close> into another one.\<close>

definition share_prefix :: string where
  "share_prefix = ''http://www.stuffsnet.com/models/''"

definition share_link :: "CModelViewerDlg \<Rightarrow> string outcome" where
  "share_link v = (let id = m_strSubsid v; into = (\<lambda>t. if ModelCache.MAX_PATH \<le> length (share_prefix @ t) then UB else Done (share_prefix @ t)) in
     if ModelCache.MAX_PATH < length id then into [] else if length id = ModelCache.MAX_PATH then UB else into (c_text id))"

text \<open>Indices are \<open>int\<close>, vectors are indexed by \<open>size_t\<close> and the remainder is taken in it.\<close>

definition part_index :: "viewer_env \<Rightarrow> int \<Rightarrow> nat" where
  "part_index env i = nat (i mod 2 ^ ve_size_t env)"

definition show_part :: "viewer_env \<Rightarrow> bool \<Rightarrow> int \<Rightarrow> D3D_MODEL \<Rightarrow> D3D_MODEL outcome" where
  "show_part env b i d = (let k = part_index env i in
     if k < length (d_Parts d) then Done (d\<lparr>d_Parts := (d_Parts d)[k := (d_Parts d ! k)\<lparr>dp_bVisible := b\<rparr>]\<rparr>) else UB)"

definition turn_part :: "viewer_env \<Rightarrow> int \<Rightarrow> int \<Rightarrow> D3D_MODEL \<Rightarrow> (int \<times> D3D_MODEL) outcome" where
  "turn_part env delta cur d = obind (show_part env False cur d) (\<lambda>d1.
     let new = sint (of_nat (part_index env (cur + delta) mod length (d_Parts d1)) :: u32)
     in obind (show_part env True new d1) (\<lambda>d2. Done (new, d2)))"

text \<open>Previous (-1) and next (1), for the first model and, in the dual view, for the second.\<close>

definition turn1 :: "viewer_env \<Rightarrow> int \<Rightarrow> CModelViewerDlg \<Rightarrow> CModelViewerDlg outcome" where
  "turn1 env delta v = (case m_pd3dModel1 v of None \<Rightarrow> Done v
     | Some d \<Rightarrow> if length (d_Parts d) \<le> 1 then Done v
         else obind (turn_part env delta (m_iCurPart1 v) d) (\<lambda>(i, d'). Done (v\<lparr>m_iCurPart1 := i, m_pd3dModel1 := Some d'\<rparr>)))"

definition turn2 :: "viewer_env \<Rightarrow> int \<Rightarrow> CModelViewerDlg \<Rightarrow> CModelViewerDlg outcome" where
  "turn2 env delta v = (case m_pd3dModel2 v of None \<Rightarrow> Done v
     | Some d \<Rightarrow> if \<not> m_bDualView v \<or> length (d_Parts d) \<le> 1 then Done v
         else obind (turn_part env delta (m_iCurPart2 v) d) (\<lambda>(i, d'). Done (v\<lparr>m_iCurPart2 := i, m_pd3dModel2 := Some d'\<rparr>)))"

datatype button = History nat | Compare nat | HideLeft | ShowLeft | HideRight | ShowRight | CloseDual | Prev1 | Next1 | Prev2 | Next2 | SizeInfo

text \<open>A button acts only while its window is shown.\<close>

definition UpdateGui :: "viewer_env \<Rightarrow> button \<Rightarrow> CModelViewerDlg \<Rightarrow> CModelViewerDlg outcome" where
  "UpdateGui env b v = (case b of
      History i \<Rightarrow> if m_bShowRecentLeft v then history_click env i v else Done v
    | Compare i \<Rightarrow> if m_bShowRecentRight v then compare_click env i v else Done v
    | HideLeft \<Rightarrow> Done (v\<lparr>m_bShowRecentLeft := False\<rparr>)
    | ShowLeft \<Rightarrow> Done (v\<lparr>m_bShowRecentLeft := True\<rparr>)
    | HideRight \<Rightarrow> Done (v\<lparr>m_bShowRecentRight := False\<rparr>)
    | ShowRight \<Rightarrow> Done (v\<lparr>m_bShowRecentRight := True\<rparr>)
    | CloseDual \<Rightarrow> Done (v\<lparr>m_bDualView := False\<rparr>)
    | Prev1 \<Rightarrow> turn1 env (- 1) v
    | Next1 \<Rightarrow> turn1 env 1 v
    | Prev2 \<Rightarrow> turn2 env (- 1) v
    | Next2 \<Rightarrow> turn2 env 1 v
    | SizeInfo \<Rightarrow> Done (v\<lparr>m_bShowSize := \<not> m_bShowSize v\<rparr>))"

section \<open>Keys and wheel\<close>

definition f_0_005 :: u32 where "f_0_005 = 0x3BA3D70A"
definition f_0_01 :: u32 where "f_0_01 = 0x3C23D70A"
definition f_5 :: u32 where "f_5 = 0x40A00000"
definition f_10 :: u32 where "f_10 = 0x41200000"

record keys =
  VK_LEFT :: bool
  VK_RIGHT :: bool
  VK_UP :: bool
  VK_DOWN :: bool
  key_W :: bool
  key_S :: bool

text \<open>\<open>SetPosition ( GetPosition () + v )\<close>.\<close>

definition move_camera :: "viewer_env \<Rightarrow> (CCamera \<Rightarrow> float3 \<Rightarrow> float3) \<Rightarrow> CModelViewerDlg \<Rightarrow> CModelViewerDlg" where
  "move_camera env f v = v\<lparr>m_Camera := snd (CCamera_SetPosition (ve_x env) (f (m_Camera v) (ptPos (m_CameraDesc (m_Camera v)))) True (m_Camera v))\<rparr>"

definition add_turn :: "bool \<Rightarrow> bool \<Rightarrow> u32 \<Rightarrow> u32" where
  "add_turn back forth a = (let b = (if back then f_sub a f_0_005 else a) in if forth then f_add b f_0_005 else b)"

definition Update :: "viewer_env \<Rightarrow> keys \<Rightarrow> CModelViewerDlg \<Rightarrow> CModelViewerDlg" where
  "Update env k v =
     (let v1 = v\<lparr>m_fYaw := add_turn (VK_LEFT k) (VK_RIGHT k) (m_fYaw v), m_fPitch := add_turn (VK_UP k) (VK_DOWN k) (m_fPitch v)\<rparr>;
          step = (\<lambda>op c p. op p (v_scale (m_vDirection c) f_0_01));
          v2 = (if key_W k then move_camera env (step v_add) v1 else v1);
          v3 = (if key_S k then move_camera env (step v_sub) v2 else v2)
      in UpdateWorldMatrix env v3)"

definition on_wheel :: "viewer_env \<Rightarrow> bool \<Rightarrow> int \<Rightarrow> CModelViewerDlg \<Rightarrow> CModelViewerDlg" where
  "on_wheel env hovered zDelta v =
     (if hovered then v
      else let fDelta = f_div (f_of_int zDelta) (f_of_int 120);
               fSpeed = (case m_pd3dModel1 v of None \<Rightarrow> f_one
                  | Some d \<Rightarrow> f_div (xm_length (ve_x env) (v_sub (d_ptMax d) (d_ptMin d))) f_10)
           in move_camera env (\<lambda>c p. v_add p (v_scale (v_scale (v_scale (m_vDirection c) fDelta) (f_div f_one f_5)) fSpeed)) v)"

section \<open>The mouse\<close>

text \<open>
  An interaction event of the render dialog. A click reports the address it opens; the start of a drag is forgotten while the
  cursor is over a window of the overlay.
\<close>

definition row_of :: "mat \<Rightarrow> nat \<Rightarrow> float3" where
  "row_of m i = vec3 (m i 1) (m i 2) (m i 3)"

definition on_drag :: "viewer_env \<Rightarrow> INTERACTION_MSG_DATA \<Rightarrow> CModelViewerDlg \<Rightarrow> CModelViewerDlg" where
  "on_drag env imd v =
     (let dx = f_sub (v2_x (ptCursor imd)) (v2_x (s_ptStart v)); dy = f_sub (v2_y (ptCursor imd)) (v2_y (s_ptStart v));
          turn = (\<lambda>v. let w = v\<lparr>m_fPitch := f_sub (m_fPitch v) dy\<rparr>
            in UpdateWorldMatrix env (w\<lparr>m_fYaw := (if IsNegativePitch env w then f_add (m_fYaw w) dx else f_sub (m_fYaw w) dx)\<rparr>));
          zoom = move_camera env (\<lambda>c p. v_add p (v_scale (m_vDirection c) (f_mul (f_neg dy) f_two)));
          pan = (\<lambda>v. let m = m_matView (m_Camera v);
              s = (if m_pd3dModel1 v = None then f_one else f_mul f_one (f_div (xm_length (ve_x env) (m_vModelSize1 v)) f_10))
            in UpdateWorldMatrix env (v\<lparr>m_ptPos1 := v_add (m_ptPos1 v)
                 (v_sub (v_scale (v_scale (row_of m 1) dx) s) (v_scale (v_scale (row_of m 2) dy) s))\<rparr>));
          v1 = (if bLButton (ButtonStatus imd) then turn v else v);
          v2 = (if bRButton (ButtonStatus imd) then zoom v1 else v1);
          v3 = (if bMButton (ButtonStatus imd) then pan v2 else v2)
      in v3\<lparr>s_ptStart := ptCursor imd\<rparr>)"

text \<open>The ray of a click in the model's coordinates.\<close>

definition click_ray :: "viewer_env \<Rightarrow> int \<times> int \<Rightarrow> int \<times> int \<Rightarrow> CModelViewerDlg \<Rightarrow> (float3 \<times> float3) option" where
  "click_ray env rc pt v = (case GetRayFromScreen (ve_x env) pt (f_of_int (fst rc)) (f_of_int (snd rc)) (m_Camera v) of None \<Rightarrow> None
     | Some dir \<Rightarrow> (let inv = xm_inverse (ve_x env) (m_matWorld1 v)
         in Some (xm_coord (ve_x env) inv (ptPos (m_CameraDesc (m_Camera v))), xm_normal (ve_x env) inv dir)))"

definition in_ad :: "int \<times> int \<Rightarrow> int \<times> int \<Rightarrow> CModelViewerDlg \<Rightarrow> bool" where
  "in_ad rc pt v \<longleftrightarrow> 0 \<le> fst pt \<and> fst pt < m_iAdWidth1 v \<and> snd rc - m_iAdHeight1 v \<le> snd pt \<and> snd pt < snd rc"

definition on_click :: "viewer_env \<Rightarrow> int \<times> int \<Rightarrow> INTERACTION_MSG_DATA \<Rightarrow> CModelViewerDlg \<Rightarrow> string option outcome" where
  "on_click env rc imd v =
     (let pt = RenderPortToScreenPixel rc (ptCursor imd) (m_base v) in
      obind (case m_pModel1 v of None \<Rightarrow> Done ()
        | Some td \<Rightarrow> obind (deref (click_ray env rc pt v)) (\<lambda>(pos, dir). obind (deref (m_pd3dModel1 v)) (\<lambda>d.
            obind (IntersectRay (ve_d3d env) pos dir td d) (\<lambda>_. Done ()))))
        (\<lambda>_. Done (if m_pAdTex v \<noteq> None \<and> in_ad rc pt v then Some (m_strAdUrl v) else None)))"

definition on_interaction :: "viewer_env \<Rightarrow> bool \<Rightarrow> int \<times> int \<Rightarrow> INTERACTION_MSG_DATA \<Rightarrow> CModelViewerDlg \<Rightarrow> (CModelViewerDlg \<times> string option) outcome" where
  "on_interaction env hovered rc imd v =
     (if eEvent imd = MOUSE_DRAG_START then Done (v\<lparr>s_ptStart := ptCursor imd\<rparr>, None)
      else if eEvent imd = MOUSE_DRAGGING \<and> \<not> hovered then Done (on_drag env imd v, None)
      else if eEvent imd = MOUSE_LBDOWN \<and> \<not> hovered then obind (on_click env rc imd v) (\<lambda>u. Done (v, u))
      else Done (v, None))"

section \<open>The frame\<close>

text \<open>A model that is drawn: its world matrix, its draw calls, and the matrix of its bounding box when that is shown.\<close>

record drawn_model =
  dr_world :: mat
  dr_calls :: "draw_call list"
  dr_bounding :: "mat option"

record frame =
  fr_view :: mat
  fr_projs :: "mat list"
  fr_models :: "drawn_model list"
  fr_ad :: "nat option"

definition DrawBounding :: "viewer_env \<Rightarrow> (u32 \<Rightarrow> u32 \<Rightarrow> u32 \<Rightarrow> mat) \<Rightarrow> D3D_MODEL \<Rightarrow> CModelViewerDlg \<Rightarrow> mat" where
  "DrawBounding env scaling d v = (let s = v_sub (d_ptMax d) (d_ptMin d)
     in xm_mul (ve_x env) (xm_mul (ve_x env) (scaling (f3_x s) (f3_y s) (f3_z s)) (m_matRot v)) (m_matMove v))"

definition draw_model :: "viewer_env \<Rightarrow> (u32 \<Rightarrow> u32 \<Rightarrow> u32 \<Rightarrow> mat) \<Rightarrow> CModelViewerDlg \<Rightarrow> mat \<Rightarrow> TD_SCAN_MODEL option \<Rightarrow> D3D_MODEL option \<Rightarrow>
    drawn_model list outcome" where
  "draw_model env scaling v world base p = (case p of None \<Rightarrow> Done []
     | Some d \<Rightarrow> obind (deref base) (\<lambda>td. obind (RenderD3DModel (ve_d3d env) td d) (\<lambda>cs.
         Done [\<lparr>dr_world = world, dr_calls = cs, dr_bounding = (if m_bShowSize v then Some (DrawBounding env scaling d v) else None)\<rparr>])))"

definition set_aspect :: "viewer_env \<Rightarrow> u32 \<Rightarrow> CModelViewerDlg \<Rightarrow> CModelViewerDlg" where
  "set_aspect env factor v = v\<lparr>m_Camera := snd (CCamera_SetAspect (ve_x env)
     (f_div (f_mul factor (f_of_int (uint (fst (m_Viewport v))))) (f_of_int (uint (snd (m_Viewport v))))) True (m_Camera v))\<rparr>"

text \<open>In the dual view the projection of half the window is used for both models and the whole window's is restored.\<close>

definition Render :: "viewer_env \<Rightarrow> (u32 \<Rightarrow> u32 \<Rightarrow> u32 \<Rightarrow> mat) \<Rightarrow> CModelViewerDlg \<Rightarrow> (frame \<times> CModelViewerDlg) outcome" where
  "Render env scaling v =
     (let view = m_matView (m_Camera v); proj = (\<lambda>w. m_matProj (m_Camera w));
          first = (\<lambda>w. draw_model env scaling w (m_matWorld1 w) (m_pModel1 w) (m_pd3dModel1 w));
          second = (\<lambda>w. draw_model env scaling w (m_matWorld2 w) (m_pModel2 w) (m_pd3dModel2 w))
      in if m_bDualView v then
           (let v1 = set_aspect env (half f_one) v in obind (first v1) (\<lambda>a. obind (second v1) (\<lambda>b.
              let v2 = set_aspect env f_one v1
              in Done (\<lparr>fr_view = view, fr_projs = [proj v1, proj v2], fr_models = a @ b, fr_ad = None\<rparr>, v2))))
         else
           (let v1 = set_aspect env f_one v in obind (first v1) (\<lambda>a.
              Done (\<lparr>fr_view = view, fr_projs = [proj v1], fr_models = a, fr_ad = m_pAdTex v1\<rparr>, v1))))"

definition OnSize :: "viewer_env \<Rightarrow> int \<times> int \<Rightarrow> int \<Rightarrow> int \<Rightarrow> CModelViewerDlg \<Rightarrow> CModelViewerDlg" where
  "OnSize env rc cx cy v =
     (let v1 = v\<lparr>m_base := SetRange rc 0 0 f_2pi f_pi (m_base v)\<rparr>
      in if x_device (ve_d3d env) \<and> cx \<noteq> 0 \<and> cy \<noteq> 0
         then v1\<lparr>m_Viewport := (of_int cx, of_int cy),
           m_Camera := snd (CCamera_SetAspect (ve_x env) (f_div (f_of_int cx) (f_of_int cy)) True (m_Camera v1))\<rparr>
         else v1)"

section \<open>A user's session\<close>

datatype viewer_input = In_button button | In_keys keys | In_wheel bool int | In_mouse bool "int \<times> int" INTERACTION_MSG_DATA
  | In_size "int \<times> int" int int | In_message user_msg | In_render "u32 \<Rightarrow> u32 \<Rightarrow> u32 \<Rightarrow> mat"

fun run_input :: "viewer_env \<Rightarrow> viewer_input \<Rightarrow> CModelViewerDlg \<Rightarrow> CModelViewerDlg outcome" where
  "run_input env (In_button b) v = UpdateGui env b v"
| "run_input env (In_keys k) v = Done (Update env k v)"
| "run_input env (In_wheel h z) v = Done (on_wheel env h z v)"
| "run_input env (In_mouse h rc imd) v = obind (on_interaction env h rc imd v) (\<lambda>(w, u). Done w)"
| "run_input env (In_size rc cx cy) v = Done (OnSize env rc cx cy v)"
| "run_input env (In_message m) v = on_user_msg env m v"
| "run_input env (In_render sc) v = obind (Render env sc v) (\<lambda>(f, w). Done w)"

fun viewer_session :: "viewer_env \<Rightarrow> viewer_input list \<Rightarrow> CModelViewerDlg \<Rightarrow> CModelViewerDlg outcome" where
  "viewer_session env [] v = Done v"
| "viewer_session env (i # is) v = obind (run_input env i v) (viewer_session env is)"

end
