(* ===== verification/ModelEditor.thy ===== *)
theory ModelEditor
  imports ViewerGui ObjConvert
begin

text \<open>
  The model editor (ModelEditor/ModelEditorDlg.cpp): importing an OBJ, opening and saving 3dscan files, the object inspector, the
  view, and the upload command. Its dialog has the name of the viewer's; what differs from the viewer's members of the same name
  carries the suffix \<open>ed\<close>. Files are texts to bytes; the file dialogs return absolute paths.
\<close>

section \<open>Environment\<close>

record RGBQUAD =
  rgbRed :: byte
  rgbGreen :: byte
  rgbBlue :: byte
  rgbReserved :: byte

text \<open>
  \<open>ee_resolve\<close> is the file a name means while a folder is the current one, \<open>ee_bitmap\<close> what FreeImage makes of a texture's
  bytes (size and pixels, with what is on the stack where \<open>GetPixelColor\<close> refuses), \<open>ee_writable\<close> whether a file can be
  created. \<open>ee_clr\<close> and \<open>ee_corners\<close> are what new objects hold in members that their constructors leave.
\<close>

record editor_env =
  ee_x :: xmath
  ee_d3d :: d3d_env
  ee_lz :: lz4_api
  ee_fuel :: nat
  ee_junk :: "CFileStream \<Rightarrow> nat \<Rightarrow> byte"
  ee_crt :: crt
  ee_resolve :: "string \<Rightarrow> string \<Rightarrow> string"
  ee_clr :: float4_rgba
  ee_corners :: "float3 \<times> float3"
  ee_bitmap :: "bytes \<Rightarrow> (nat \<times> nat \<times> (nat \<Rightarrow> nat \<Rightarrow> RGBQUAD)) option"
  ee_writable :: "string \<Rightarrow> bool"

record CModelEditorDlg =
  ed_base :: CRenderDialog
  ed_pShader :: "nat option"
  ed_Camera :: CCamera
  ed_Viewport :: "u32 \<times> u32"
  ed_bFileOpened :: bool
  ed_bHasFilename :: bool
  ed_strFilename :: string
  ed_pd3dModel1 :: "D3D_MODEL option"
  ed_pModel1 :: "TD_SCAN_MODEL option"
  ed_matWorld :: mat
  ed_ptPos :: float3
  ed_fYaw :: u32
  ed_fPitch :: u32
  ed_clrClear :: float4_rgba
  ed_clrLight :: float4_rgba
  ed_iFileSize :: int
  ed_fUploadProgress :: u32
  ed_ppszTextureNames :: "bytes list option"
  ed_iTextureCount :: int
  ed_bInit :: bool
  ed_ptStart :: VECTOR2
  ed_gpu :: gpu
  ed_fs :: disk
  ed_lostModels :: nat

text \<open>The constructor; the file size, the progress and the shader's pointer hold what the memory held.\<close>

definition CModelEditorDlg_new :: "editor_env \<Rightarrow> CModelEditorDlg \<Rightarrow> CModelEditorDlg" where
  "CModelEditorDlg_new env memory = memory\<lparr>ed_base := CRenderDialog_template (ed_base memory), ed_Camera := CCamera_new (ee_x env),
     ed_bFileOpened := False, ed_bHasFilename := False, ed_strFilename := [], ed_pd3dModel1 := None, ed_pModel1 := None,
     ed_matWorld := xm_identity (ee_x env), ed_fYaw := 0, ed_fPitch := 0, ed_ptPos := zero3,
     ed_clrClear := \<lparr>clr_r = 0x3E4CCCCD, clr_g = 0x3E4CCCCD, clr_b = 0x3E4CCCCD, clr_a = 0\<rparr>,
     ed_clrLight := \<lparr>clr_r = f_one, clr_g = f_one, clr_b = f_one, clr_a = f_one\<rparr>, ed_ppszTextureNames := None, ed_iTextureCount := 0,
     ed_bInit := False, ed_ptStart := \<lparr>v2_x = 0, v2_y = 0\<rparr>, ed_lostModels := 0\<rparr>"

definition OnInitDialog_ed :: "editor_env \<Rightarrow> u32 \<times> u32 \<Rightarrow> CModelEditorDlg \<Rightarrow> CModelEditorDlg" where
  "OnInitDialog_ed env rc e =
     (let (sh, g) = com_new (x_device (ee_d3d env) \<and> x_effect (ee_d3d env) (ed_gpu e)) (ed_gpu e)
      in e\<lparr>ed_Camera := look_from_10 (ee_x env) (to_radian 0x42340000) (f_div 0x40800000 0x40400000) 0x46947000 (ed_Camera e),
        ed_pShader := sh, ed_gpu := g, ed_Viewport := rc, ed_bInit := True\<rparr>)"

section \<open>The open model\<close>

definition FillTextureList_ed :: "CModelEditorDlg \<Rightarrow> CModelEditorDlg outcome" where
  "FillTextureList_ed e =
     (let e1 = (if ed_ppszTextureNames e = None then e else e\<lparr>ed_ppszTextureNames := None, ed_iTextureCount := 0\<rparr>) in
      case ed_pd3dModel1 e of None \<Rightarrow> Done e1
      | Some d \<Rightarrow> obind (deref (ed_pModel1 e)) (\<lambda>td. obind (texture_names td d) (\<lambda>ns.
          Done (e1\<lparr>ed_ppszTextureNames := Some (map c_str ns @ [[]]), ed_iTextureCount := int (length ns) + 1\<rparr>))))"

text \<open>
  A loaded model gets its Direct3D model and replaces the open one, or is freed when there is no device: False. Opening a file
  asks for \<open>m_pd3dModel1\<close> again, which it has just deleted, before it frees the old loaded model; importing does not.
\<close>

definition replace_ed :: "editor_env \<Rightarrow> bool \<Rightarrow> TD_SCAN_MODEL \<Rightarrow> CModelEditorDlg \<Rightarrow> (bool \<times> CModelEditorDlg) outcome" where
  "replace_ed env frees td e =
     obind (CreateFromTDModel (ee_d3d env) td (D3D_MODEL_new zero3 zero3) (ed_gpu e)) (\<lambda>(ok, d, g).
       if \<not> ok then Done (False, e\<lparr>ed_gpu := g\<rparr>)
       else obind (free_d3d (ed_pd3dModel1 e) g) (\<lambda>g'.
         obind (FillTextureList_ed (e\<lparr>ed_gpu := g', ed_pModel1 := Some td, ed_pd3dModel1 := Some d,
           ed_lostModels := ed_lostModels e + (if frees \<or> ed_pModel1 e = None then 0 else 1)\<rparr>)) (\<lambda>e'. Done (True, e'))))"

text \<open>The results of loading and converting are not looked at: a file that cannot be read gives an empty model.\<close>

definition import_disk :: "editor_env \<Rightarrow> string \<Rightarrow> CModelEditorDlg \<Rightarrow> disk" where
  "import_disk env folder e = (\<lambda>n. ed_fs e (ee_resolve env folder n))"

definition import_obj :: "editor_env \<Rightarrow> string \<times> string \<Rightarrow> CModelEditorDlg \<Rightarrow> CModelEditorDlg outcome" where
  "import_obj env dlg e = (case dlg of (folder, path) \<Rightarrow> let fs = import_disk env folder e; (a, b) = ee_corners env in
     obind (LoadObj2 (ee_crt env) fs path (MY_OBJ_new a b)) (\<lambda>(_, obj).
     obind (ConvertObjTo3DModel fs (ee_clr env) obj (TD_SCAN_MODEL_new a b)) (\<lambda>(_, td).
     obind (replace_ed env True td e) (\<lambda>(ok, e'). Done (if ok then e'\<lparr>ed_bFileOpened := True, ed_bHasFilename := False\<rparr> else e')))))"

definition Load3DScanFile_ed :: "editor_env \<Rightarrow> string \<Rightarrow> CModelEditorDlg \<Rightarrow> CModelEditorDlg outcome" where
  "Load3DScanFile_ed env strPathName e =
     (case Load3DScanModelFromFile (ee_lz env) (ee_junk env) (ee_fuel env) (ed_fs e) (Some strPathName) of
        Fail \<Rightarrow> Done e | UB \<Rightarrow> UB | NoFuel \<Rightarrow> NoFuel
      | Done td \<Rightarrow> obind (replace_ed env False td e) (\<lambda>(ok, e').
          Done (if ok then e'\<lparr>ed_strFilename := strPathName, ed_bFileOpened := True, ed_bHasFilename := True\<rparr> else e')))"

section \<open>Average colours\<close>

text \<open>Sums in \<open>uint64_t\<close>, divided by \<open>int\<close> w * h.\<close>

definition average :: "byte list \<Rightarrow> u32" where
  "average cs = f_div (f_of_int (int (sum_list (map unat cs) div length cs))) 0x437F0000"

definition average_colour :: "nat \<times> nat \<times> (nat \<Rightarrow> nat \<Rightarrow> RGBQUAD) \<Rightarrow> float4_rgba outcome" where
  "average_colour bmp = (case bmp of (w, h, px) \<Rightarrow>
     if w * h = 0 \<or> 2 ^ 31 \<le> w * h then UB
     else let cs = concat (map (\<lambda>y. map (\<lambda>x. px x y) [0..<w]) [0..<h]) in
       Done \<lparr>clr_r = average (map rgbRed cs), clr_g = average (map rgbGreen cs), clr_b = average (map rgbBlue cs),
         clr_a = average (map rgbReserved cs)\<rparr>)"

fun average_textures :: "editor_env \<Rightarrow> (bytes \<times> D3DMODEL_TEXTURE_SLOT) list \<Rightarrow> TD_SCAN_MODEL \<Rightarrow> TD_SCAN_MODEL outcome" where
  "average_textures env [] td = Done td"
| "average_textures env ((k, t) # ts) td = obind (texture_base td t) (\<lambda>b.
     if length (ts_pData b) < unat (ts_uiSize b) then UB
     else case ee_bitmap env (take (unat (ts_uiSize b)) (ts_pData b)) of None \<Rightarrow> average_textures env ts td
       | Some bmp \<Rightarrow> obind (average_colour bmp) (\<lambda>c.
           average_textures env ts (td\<lparr>Textures := smap_put (dt_pBase t) (b\<lparr>ts_clrAvgColor := c\<rparr>) (Textures td)\<rparr>)))"

definition CalcTextureAverages :: "editor_env \<Rightarrow> CModelEditorDlg \<Rightarrow> CModelEditorDlg outcome" where
  "CalcTextureAverages env e = (case ed_pd3dModel1 e of None \<Rightarrow> Done e
     | Some d \<Rightarrow> obind (deref (ed_pModel1 e)) (\<lambda>td. obind (average_textures env (d_Textures d) td) (\<lambda>td'.
         Done (e\<lparr>ed_pModel1 := Some td'\<rparr>))))"

section \<open>Saving and uploading\<close>

definition save_file :: "editor_env \<Rightarrow> string \<Rightarrow> CModelEditorDlg \<Rightarrow> CModelEditorDlg outcome" where
  "save_file env name e = obind (Save3DScanModel (ee_lz env) (ee_writable env name) (Some name) (ed_pModel1 e) 0) (\<lambda>(_, d).
     Done (case d of None \<Rightarrow> e | Some d \<Rightarrow> e\<lparr>ed_fs := (ed_fs e)(name \<mapsto> d)\<rparr>))"

text \<open>The name is kept whether or not the file could be written. None: the file dialog was cancelled.\<close>

definition save_under :: "editor_env \<Rightarrow> string option \<Rightarrow> CModelEditorDlg \<Rightarrow> CModelEditorDlg outcome" where
  "save_under env dlg e = (case dlg of None \<Rightarrow> Done e
     | Some name \<Rightarrow> obind (CalcTextureAverages env e) (\<lambda>e1. save_file env name (e1\<lparr>ed_bHasFilename := True, ed_strFilename := name\<rparr>)))"

definition menu_save_as :: "editor_env \<Rightarrow> string option \<Rightarrow> CModelEditorDlg \<Rightarrow> CModelEditorDlg outcome" where
  "menu_save_as env dlg e = (if ed_bFileOpened e \<and> ed_pModel1 e \<noteq> None then save_under env dlg e else Done e)"

definition menu_save :: "editor_env \<Rightarrow> string option \<Rightarrow> CModelEditorDlg \<Rightarrow> CModelEditorDlg outcome" where
  "menu_save env dlg e = (if ed_bFileOpened e \<and> ed_pModel1 e \<noteq> None
     then if \<not> ed_bHasFilename e then save_under env dlg e else save_file env (ed_strFilename e) e else Done e)"

text \<open>
  The file is opened without a check for its size, and read by a thread that then frees everything: the call of the client
  is commented out.
\<close>

definition UploadModelGui :: "CModelEditorDlg \<Rightarrow> CModelEditorDlg outcome" where
  "UploadModelGui e = (if \<not> ed_bFileOpened e then Done e
     else case ed_fs e (ed_strFilename e) of None \<Rightarrow> UB | Some d \<Rightarrow> Done (e\<lparr>ed_iFileSize := sint (of_nat (length d) :: u32)\<rparr>))"

definition upload_progress :: "int \<Rightarrow> CModelEditorDlg \<Rightarrow> CModelEditorDlg" where
  "upload_progress so_far e = (if ed_iFileSize e = 0 then e\<lparr>ed_fUploadProgress := 0\<rparr>
     else let p = f_mul (f_div (f_of_int so_far) (f_of_int (ed_iFileSize e))) f_two
          in e\<lparr>ed_fUploadProgress := (if f_less f_one p then f_one else p)\<rparr>)"

section \<open>The object inspector\<close>

datatype material_edit = Diffuse_Color u32 u32 u32 | Ambient_Color u32 u32 u32 | Glossiness u32 | Specular_Intensity u32 | Transparency u32
  | Reflection u32 | Diffuse_Texture nat | Alpha_Texture nat | Normal_Texture nat | Specular_Texture nat | Reflection_Texture nat

datatype inspector = Part_Visible nat bool | Subset_Visible nat nat bool | Subset_Selected nat nat bool | Material nat nat material_edit

definition new_rgb :: "u32 \<Rightarrow> u32 \<Rightarrow> u32 \<Rightarrow> float4_rgba \<Rightarrow> float4_rgba" where
  "new_rgb r g b c = c\<lparr>clr_r := r, clr_g := g, clr_b := b\<rparr>"

text \<open>A texture is chosen by its position in the list of names.\<close>

definition edit_material :: "bytes list \<Rightarrow> material_edit \<Rightarrow> D3DMODEL_MATERIAL \<Rightarrow> D3DMODEL_MATERIAL" where
  "edit_material names w m = (let has = (\<lambda>k. k < length names) in case w of
      Diffuse_Color r g b \<Rightarrow> m\<lparr>dm_clrDiffuse := new_rgb r g b (dm_clrDiffuse m)\<rparr>
    | Ambient_Color r g b \<Rightarrow> m\<lparr>dm_clrAmbient := new_rgb r g b (dm_clrAmbient m)\<rparr>
    | Glossiness a \<Rightarrow> m\<lparr>dm_fGlossiness := a\<rparr>
    | Specular_Intensity a \<Rightarrow> m\<lparr>dm_fSpecIntensity := a\<rparr>
    | Transparency a \<Rightarrow> m\<lparr>dm_fTransparency := a\<rparr>
    | Reflection a \<Rightarrow> m\<lparr>dm_fReflectionFactor := a\<rparr>
    | Diffuse_Texture k \<Rightarrow> if has k then m\<lparr>dm_iDiffuseTex := int k, dm_sDiffuseTextureName := names ! k\<rparr> else m
    | Alpha_Texture k \<Rightarrow> if has k then m\<lparr>dm_iAlphaTex := int k, dm_sAlphaTextureName := names ! k\<rparr> else m
    | Normal_Texture k \<Rightarrow> if has k then m\<lparr>dm_iNormalTex := int k, dm_sNormalTextureName := names ! k\<rparr> else m
    | Specular_Texture k \<Rightarrow> if has k then m\<lparr>dm_iSpecTex := int k, dm_sSpecularTextureName := names ! k\<rparr> else m
    | Reflection_Texture k \<Rightarrow> if has k then m\<lparr>dm_iReflTex := int k, dm_sReflectionTextureName := names ! k\<rparr> else m)"

text \<open>There is a widget for every part and subset, and for no other index.\<close>

definition at_index :: "nat \<Rightarrow> ('a \<Rightarrow> 'a) \<Rightarrow> 'a list \<Rightarrow> 'a list" where
  "at_index i f xs = (if i < length xs then xs[i := f (xs ! i)] else xs)"

definition at_part :: "nat \<Rightarrow> (D3DMODEL_PART \<Rightarrow> D3DMODEL_PART) \<Rightarrow> D3D_MODEL \<Rightarrow> D3D_MODEL" where
  "at_part i f d = d\<lparr>d_Parts := at_index i f (d_Parts d)\<rparr>"

definition at_subset :: "nat \<Rightarrow> nat \<Rightarrow> (D3DMODEL_SUBSET \<Rightarrow> D3DMODEL_SUBSET) \<Rightarrow> D3D_MODEL \<Rightarrow> D3D_MODEL" where
  "at_subset i j f = at_part i (\<lambda>p. p\<lparr>dp_Subsets := at_index j f (dp_Subsets p)\<rparr>)"

definition inspect_model :: "bytes list \<Rightarrow> inspector \<Rightarrow> D3D_MODEL \<Rightarrow> D3D_MODEL" where
  "inspect_model names w = (case w of
      Part_Visible i b \<Rightarrow> at_part i (\<lambda>p. p\<lparr>dp_bVisible := b\<rparr>)
    | Subset_Visible i j b \<Rightarrow> at_subset i j (\<lambda>s. s\<lparr>ds_bVisible := b\<rparr>)
    | Subset_Selected i j b \<Rightarrow> at_subset i j (\<lambda>s. s\<lparr>ds_bSelected := b\<rparr>)
    | Material i j m \<Rightarrow> at_subset i j (\<lambda>s. s\<lparr>ds_Material := edit_material names m (ds_Material s)\<rparr>))"

definition combo_names :: "CModelEditorDlg \<Rightarrow> bytes list" where
  "combo_names e = (case ed_ppszTextureNames e of None \<Rightarrow> [] | Some ns \<Rightarrow> take (nat (ed_iTextureCount e)) ns)"

definition inspect :: "inspector \<Rightarrow> CModelEditorDlg \<Rightarrow> CModelEditorDlg" where
  "inspect w e = e\<lparr>ed_pd3dModel1 := map_option (inspect_model (combo_names e) w) (ed_pd3dModel1 e)\<rparr>"

section \<open>The view\<close>

definition UpdateWorldMatrix_ed :: "editor_env \<Rightarrow> CModelEditorDlg \<Rightarrow> CModelEditorDlg" where
  "UpdateWorldMatrix_ed env e = (let x = ee_x env; p = ed_ptPos e in
     e\<lparr>ed_matWorld := xm_mul x (xm_mul x (xm_rotY x (ed_fYaw e)) (xm_rotX x (ed_fPitch e))) (xm_trans x (f3_x p) (f3_y p) (f3_z p))\<rparr>)"

definition move_camera_ed :: "editor_env \<Rightarrow> (CCamera \<Rightarrow> float3 \<Rightarrow> float3) \<Rightarrow> CModelEditorDlg \<Rightarrow> CModelEditorDlg" where
  "move_camera_ed env f e = e\<lparr>ed_Camera := snd (CCamera_SetPosition (ee_x env) (f (ed_Camera e) (ptPos (m_CameraDesc (ed_Camera e)))) True (ed_Camera e))\<rparr>"

definition Update_ed :: "editor_env \<Rightarrow> keys \<Rightarrow> CModelEditorDlg \<Rightarrow> CModelEditorDlg" where
  "Update_ed env k e =
     (let e1 = e\<lparr>ed_fYaw := add_turn (VK_LEFT k) (VK_RIGHT k) (ed_fYaw e), ed_fPitch := add_turn (VK_UP k) (VK_DOWN k) (ed_fPitch e)\<rparr>;
          step = (\<lambda>op c p. op p (v_scale (m_vDirection c) f_0_01));
          e2 = (if key_W k then move_camera_ed env (step v_add) e1 else e1);
          e3 = (if key_S k then move_camera_ed env (step v_sub) e2 else e2)
      in UpdateWorldMatrix_ed env e3)"

definition f_12 :: u32 where "f_12 = 0x41400000"

definition on_drag_ed :: "editor_env \<Rightarrow> INTERACTION_MSG_DATA \<Rightarrow> CModelEditorDlg \<Rightarrow> CModelEditorDlg" where
  "on_drag_ed env imd e =
     (let dx = f_sub (v2_x (ptCursor imd)) (v2_x (ed_ptStart e)); dy = f_sub (v2_y (ptCursor imd)) (v2_y (ed_ptStart e));
          turn = (\<lambda>e. UpdateWorldMatrix_ed env (e\<lparr>ed_fYaw := f_sub (ed_fYaw e) dx, ed_fPitch := f_sub (ed_fPitch e) dy\<rparr>));
          zoom = move_camera_ed env (\<lambda>c p. v_add p (v_scale (m_vDirection c) (f_mul (f_neg dy) f_12)));
          pan = (\<lambda>e. let m = m_matView (ed_Camera e)
            in UpdateWorldMatrix_ed env (e\<lparr>ed_ptPos := v_add (ed_ptPos e)
                 (v_sub (v_scale (v_scale (row_of m 1) dx) f_5) (v_scale (v_scale (row_of m 2) dy) f_5))\<rparr>));
          e1 = (if bLButton (ButtonStatus imd) then turn e else e);
          e2 = (if bRButton (ButtonStatus imd) then zoom e1 else e1);
          e3 = (if bMButton (ButtonStatus imd) then pan e2 else e2)
      in e3\<lparr>ed_ptStart := ptCursor imd\<rparr>)"

text \<open>A click selects the subset it hits, or takes the selection back.\<close>

definition pick :: "editor_env \<Rightarrow> int \<times> int \<Rightarrow> INTERACTION_MSG_DATA \<Rightarrow> CModelEditorDlg \<Rightarrow> CModelEditorDlg outcome" where
  "pick env rc imd e = (case ed_pModel1 e of None \<Rightarrow> Done e
     | Some td \<Rightarrow> obind (deref (GetRayFromScreen (ee_x env) (RenderPortToScreenPixel rc (ptCursor imd) (ed_base e))
           (f_of_int (fst rc)) (f_of_int (snd rc)) (ed_Camera e))) (\<lambda>dir.
         obind (deref (ed_pd3dModel1 e)) (\<lambda>d. let inv = xm_inverse (ee_x env) (ed_matWorld e) in
         obind (IntersectRay (ee_d3d env) (xm_coord (ee_x env) inv (ptPos (m_CameraDesc (ed_Camera e)))) (xm_normal (ee_x env) inv dir) td d) (\<lambda>hit.
           case hit of None \<Rightarrow> Done e
           | Some p \<Rightarrow> obind (deref p) (\<lambda>(i, j).
               Done (e\<lparr>ed_pd3dModel1 := Some (at_subset i j (\<lambda>s. s\<lparr>ds_bSelected := \<not> ds_bSelected s\<rparr>) d)\<rparr>))))))"

definition on_interaction_ed :: "editor_env \<Rightarrow> bool \<Rightarrow> int \<times> int \<Rightarrow> INTERACTION_MSG_DATA \<Rightarrow> CModelEditorDlg \<Rightarrow> CModelEditorDlg outcome" where
  "on_interaction_ed env hovered rc imd e =
     (if eEvent imd = MOUSE_DRAG_START then Done (e\<lparr>ed_ptStart := ptCursor imd\<rparr>)
      else if eEvent imd = MOUSE_DRAGGING \<and> \<not> hovered then Done (on_drag_ed env imd e)
      else if eEvent imd = MOUSE_LBDOWN \<and> \<not> hovered then pick env rc imd e
      else Done e)"

definition OnSize_ed :: "editor_env \<Rightarrow> int \<times> int \<Rightarrow> int \<Rightarrow> int \<Rightarrow> CModelEditorDlg \<Rightarrow> CModelEditorDlg" where
  "OnSize_ed env rc cx cy e =
     (let e1 = e\<lparr>ed_base := SetRange rc 0 0 f_2pi f_pi (ed_base e)\<rparr>
      in if ed_bInit e \<and> cx \<noteq> 0 \<and> cy \<noteq> 0
         then e1\<lparr>ed_Viewport := (of_int cx, of_int cy),
           ed_Camera := snd (CCamera_SetAspect (ee_x env) (f_div (f_of_int cx) (f_of_int cy)) True (ed_Camera e1))\<rparr>
         else e1)"

record editor_frame =
  ef_clear :: float4_rgba
  ef_view :: mat
  ef_proj :: mat
  ef_world :: mat
  ef_light :: float4_rgba
  ef_calls :: "draw_call list"

definition Render_ed :: "editor_env \<Rightarrow> CModelEditorDlg \<Rightarrow> editor_frame outcome" where
  "Render_ed env e = obind (deref (ed_pShader e)) (\<lambda>_.
     obind (case ed_pd3dModel1 e of None \<Rightarrow> Done [] | Some d \<Rightarrow> obind (deref (ed_pModel1 e)) (\<lambda>td. RenderD3DModel (ee_d3d env) td d)) (\<lambda>cs.
       Done \<lparr>ef_clear = (ed_clrClear e)\<lparr>clr_a := 0\<rparr>, ef_view = m_matView (ed_Camera e), ef_proj = m_matProj (ed_Camera e),
         ef_world = ed_matWorld e, ef_light = ed_clrLight e, ef_calls = cs\<rparr>))"

section \<open>A session\<close>

datatype editor_input = Ed_import string string | Ed_open string | Ed_save "string option" | Ed_save_as "string option" | Ed_upload
  | Ed_inspect inspector | Ed_background u32 u32 u32 | Ed_light u32 u32 u32 | Ed_keys keys | Ed_mouse bool "int \<times> int" INTERACTION_MSG_DATA
  | Ed_size "int \<times> int" int int | Ed_progress int | Ed_render

definition editor_input_step :: "editor_env \<Rightarrow> editor_input \<Rightarrow> CModelEditorDlg \<Rightarrow> CModelEditorDlg outcome" where
  "editor_input_step env i e = (case i of
      Ed_import folder path \<Rightarrow> import_obj env (folder, path) e
    | Ed_open path \<Rightarrow> Load3DScanFile_ed env path e
    | Ed_save dlg \<Rightarrow> menu_save env dlg e
    | Ed_save_as dlg \<Rightarrow> menu_save_as env dlg e
    | Ed_upload \<Rightarrow> UploadModelGui e
    | Ed_inspect w \<Rightarrow> Done (inspect w e)
    | Ed_background r g b \<Rightarrow> Done (e\<lparr>ed_clrClear := new_rgb r g b (ed_clrClear e)\<rparr>)
    | Ed_light r g b \<Rightarrow> Done (e\<lparr>ed_clrLight := new_rgb r g b (ed_clrLight e)\<rparr>)
    | Ed_keys k \<Rightarrow> Done (Update_ed env k e)
    | Ed_mouse h rc imd \<Rightarrow> on_interaction_ed env h rc imd e
    | Ed_size rc cx cy \<Rightarrow> Done (OnSize_ed env rc cx cy e)
    | Ed_progress n \<Rightarrow> Done (upload_progress n e)
    | Ed_render \<Rightarrow> obind (Render_ed env e) (\<lambda>_. Done e))"

fun editor_session :: "editor_env \<Rightarrow> editor_input list \<Rightarrow> CModelEditorDlg \<Rightarrow> CModelEditorDlg outcome" where
  "editor_session env [] e = Done e"
| "editor_session env (i # is) e = obind (editor_input_step env i e) (editor_session env is)"

end
