(* ===== verification/CameraProps.thy ===== *)
theory CameraProps
  imports Camera
begin

text \<open>
  What the camera keeps: a trace of setter calls (\<open>camera_op\<close>, \<open>camera_run\<close>) keeps the matrices and the frustum those of
  the description; the two visibility tests agree; the lens setters do nothing to an orthographic camera.
\<close>

section \<open>Traces of setter calls\<close>

datatype camera_op =
    Op_Mode CAMERA_MODE | Op_ProjectionType PROJECTION_TYPE | Op_ProjectionCenter PROJECTION_CENTER | Op_Camera CAMERA_DESC
  | Op_Aspect u32 bool | Op_FovX u32 bool | Op_FovY u32 bool | Op_ViewRange u32 u32 bool | Op_Near u32 bool | Op_Far u32 bool
  | Op_Position float3 bool | Op_Target float3 bool | Op_Orientation u32 u32 u32 bool | Op_Yaw u32 bool | Op_Pitch u32 bool
  | Op_Roll u32 bool | Op_Distance u32 bool

fun camera_step :: "xmath \<Rightarrow> camera_op \<Rightarrow> CCamera \<Rightarrow> bool \<times> CCamera" where
  "camera_step x (Op_Mode m) c = CCamera_SetMode x m c"
| "camera_step x (Op_ProjectionType t) c = CCamera_SetProjectionType x t c"
| "camera_step x (Op_ProjectionCenter t) c = CCamera_SetProjectionCenter x t c"
| "camera_step x (Op_Camera d) c = CCamera_SetCamera x d c"
| "camera_step x (Op_Aspect a b) c = CCamera_SetAspect x a b c"
| "camera_step x (Op_FovX a b) c = CCamera_SetFovX x a b c"
| "camera_step x (Op_FovY a b) c = CCamera_SetFovY x a b c"
| "camera_step x (Op_ViewRange n f b) c = CCamera_SetViewRange x n f b c"
| "camera_step x (Op_Near n b) c = CCamera_SetNear x n b c"
| "camera_step x (Op_Far f b) c = CCamera_SetFar x f b c"
| "camera_step x (Op_Position p b) c = CCamera_SetPosition x p b c"
| "camera_step x (Op_Target p b) c = CCamera_SetTarget x p b c"
| "camera_step x (Op_Orientation y p r b) c = CCamera_SetOrientation x y p r b c"
| "camera_step x (Op_Yaw a b) c = CCamera_SetYaw x a b c"
| "camera_step x (Op_Pitch a b) c = CCamera_SetPitch x a b c"
| "camera_step x (Op_Roll a b) c = CCamera_SetRoll x a b c"
| "camera_step x (Op_Distance a b) c = CCamera_SetDistance x a b c"

fun camera_run :: "xmath \<Rightarrow> camera_op list \<Rightarrow> CCamera \<Rightarrow> CCamera" where
  "camera_run x [] c = c"
| "camera_run x (p # ps) c = camera_run x ps (snd (camera_step x p c))"

text \<open>Calls that let the camera update itself: \<open>SetNear\<close> and \<open>SetFar\<close> always do.\<close>

fun updates :: "camera_op \<Rightarrow> bool" where
  "updates (Op_Aspect a b) = b"
| "updates (Op_FovX a b) = b"
| "updates (Op_FovY a b) = b"
| "updates (Op_ViewRange n f b) = b"
| "updates (Op_Position p b) = b"
| "updates (Op_Target p b) = b"
| "updates (Op_Orientation y p r b) = b"
| "updates (Op_Yaw a b) = b"
| "updates (Op_Pitch a b) = b"
| "updates (Op_Roll a b) = b"
| "updates (Op_Distance a b) = b"
| "updates _ = True"

definition in_sync :: "xmath \<Rightarrow> CCamera \<Rightarrow> bool" where
  "in_sync x c \<longleftrightarrow> m_bInit c \<and> m_matView c = view_of x (m_CameraDesc c) \<and> m_matProj c = proj_of x (m_CameraDesc c) \<and>
     m_Frustum c = frustum_of x (m_CameraDesc c)"

section \<open>The updates\<close>

lemma update_view [simp]:
  assumes "m_bInit c"
  shows "m_bInit (snd (UpdateViewMatrix x c))" "m_CameraDesc (snd (UpdateViewMatrix x c)) = m_CameraDesc c"
    "m_matView (snd (UpdateViewMatrix x c)) = view_of x (m_CameraDesc c)" "m_matProj (snd (UpdateViewMatrix x c)) = m_matProj c"
    "m_Frustum (snd (UpdateViewMatrix x c)) = frustum_of x (m_CameraDesc c)"
  using assms by (simp_all add: UpdateViewMatrix_def UpdateFrustum_def Let_def)

lemma update_proj [simp]:
  assumes "m_bInit c"
  shows "m_bInit (snd (UpdateProjectionMatrix x c))" "m_CameraDesc (snd (UpdateProjectionMatrix x c)) = m_CameraDesc c"
    "m_matProj (snd (UpdateProjectionMatrix x c)) = proj_of x (m_CameraDesc c)" "m_matView (snd (UpdateProjectionMatrix x c)) = m_matView c"
    "m_Frustum (snd (UpdateProjectionMatrix x c)) = frustum_of x (m_CameraDesc c)"
  using assms by (simp_all add: UpdateProjectionMatrix_def UpdateFrustum_def Let_def)

lemma or_bit: "w OR 1 \<noteq> (0 :: u32)" "w OR 2 \<noteq> (0 :: u32)"
  by (simp_all add: or_eq_0_iff)

lemma update_both:
  assumes "m_bInit c"
  shows "in_sync x (snd (UpdateMatrixes x f c))" "m_CameraDesc (snd (UpdateMatrixes x f c)) = m_CameraDesc c"
  using assms by (simp_all add: UpdateMatrixes_def Let_def or_bit in_sync_def)

lemma set_desc_simps [simp]:
  "m_bInit (set_desc f c) = m_bInit c" "m_CameraDesc (set_desc f c) = f (m_CameraDesc c)" "m_matView (set_desc f c) = m_matView c"
  "m_matProj (set_desc f c) = m_matProj c" "m_Frustum (set_desc f c) = m_Frustum c"
  by (simp_all add: set_desc_def)

lemma then_view_sync:
  "m_bInit c \<Longrightarrow> m_matProj c = proj_of x (m_CameraDesc c) \<Longrightarrow> in_sync x (snd (then_view x True c))"
  by (simp add: then_view_def in_sync_def)

lemma then_proj_sync:
  "m_bInit c \<Longrightarrow> m_matView c = view_of x (m_CameraDesc c) \<Longrightarrow> in_sync x (snd (then_proj x True c))"
  by (simp add: then_proj_def in_sync_def)

text \<open>The lens does not enter the view, nor position and orientation the projection.\<close>

lemma view_lens [simp]:
  "view_of x (d\<lparr>fNear := a\<rparr>) = view_of x d" "view_of x (d\<lparr>fFar := a\<rparr>) = view_of x d" "view_of x (d\<lparr>fAspect := a\<rparr>) = view_of x d"
  "view_of x (d\<lparr>fFovX := a\<rparr>) = view_of x d" "view_of x (d\<lparr>fFovY := a\<rparr>) = view_of x d" "view_of x (d\<lparr>fLeft := a\<rparr>) = view_of x d"
  "view_of x (d\<lparr>fRight := a\<rparr>) = view_of x d" "view_of x (d\<lparr>fTop := a\<rparr>) = view_of x d" "view_of x (d\<lparr>fBottom := a\<rparr>) = view_of x d"
  by (simp_all add: view_of_def free_dir_def split: CAMERA_MODE.splits)

lemma view_lenses [simp]: "view_of x (vertical_lens x d) = view_of x d" "view_of x (horizontal_lens x d) = view_of x d"
  by (simp_all add: vertical_lens_def horizontal_lens_def Let_def)

lemma proj_pose [simp]:
  "proj_of x (d\<lparr>ptPos := p\<rparr>) = proj_of x d" "proj_of x (d\<lparr>ptTarget := p\<rparr>) = proj_of x d" "proj_of x (d\<lparr>fYaw := a\<rparr>) = proj_of x d"
  "proj_of x (d\<lparr>fPitch := a\<rparr>) = proj_of x d" "proj_of x (d\<lparr>fRoll := a\<rparr>) = proj_of x d"
  by (simp_all add: proj_of_def split: PROJECTION_TYPE.splits PROJECTION_CENTER.splits)

lemma aim_keeps [simp]:
  "m_bInit (aim x c) = m_bInit c" "m_matProj (aim x c) = m_matProj c" "proj_of x (m_CameraDesc (aim x c)) = proj_of x (m_CameraDesc c)"
  by (simp_all add: aim_def Let_def)

section \<open>Every setter keeps the camera in sync\<close>

lemma sync_modes:
  assumes "m_bInit c"
  shows "in_sync x (snd (CCamera_SetMode x m c))" "in_sync x (snd (CCamera_SetProjectionType x t c))"
    "in_sync x (snd (CCamera_SetProjectionCenter x k c))"
  using assms by (simp_all add: CCamera_SetMode_def CCamera_SetProjectionType_def CCamera_SetProjectionCenter_def update_both)

lemma sync_SetCamera: "in_sync x (snd (CCamera_SetCamera x d c))"
  by (simp add: CCamera_SetCamera_def update_both)

lemma sync_lens_setter:
  assumes "in_sync x c" "\<And>d. view_of x (f d) = view_of x d"
  shows "in_sync x (snd (lens_setter f x True c))"
  using assms
  by (auto simp: lens_setter_def Let_def in_sync_def [of x c] intro!: then_proj_sync split: PROJECTION_CENTER.splits)

lemma sync_lens:
  assumes "in_sync x c"
  shows "in_sync x (snd (CCamera_SetAspect x a True c))" "in_sync x (snd (CCamera_SetFovX x a True c))"
    "in_sync x (snd (CCamera_SetFovY x a True c))" "in_sync x (snd (CCamera_SetViewRange x n f True c))"
  subgoal using assms by (auto simp: CCamera_SetAspect_def Let_def in_sync_def [of x c] intro!: then_proj_sync
    split: PROJECTION_CENTER.splits)
  subgoal unfolding CCamera_SetFovX_def by (rule sync_lens_setter [OF assms]) simp
  subgoal unfolding CCamera_SetFovY_def by (rule sync_lens_setter [OF assms]) simp
  subgoal using assms by (auto simp: CCamera_SetViewRange_def Let_def in_sync_def [of x c] intro!: then_proj_sync
    split: PROJECTION_CENTER.splits)
  done

lemma sync_pose:
  assumes "in_sync x c"
  shows "in_sync x (snd (CCamera_SetPosition x p True c))" "in_sync x (snd (CCamera_SetTarget x p True c))"
    "in_sync x (snd (CCamera_SetOrientation x y i r True c))" "in_sync x (snd (CCamera_SetDistance x a True c))"
  subgoal using assms by (auto simp: CCamera_SetPosition_def Let_def in_sync_def [of x c] intro!: then_view_sync)
  subgoal using assms by (auto simp: CCamera_SetTarget_def in_sync_def [of x c] intro!: then_view_sync)
  subgoal using assms by (auto simp: CCamera_SetOrientation_def Let_def in_sync_def [of x c] intro!: then_view_sync split: CAMERA_MODE.splits)
  subgoal using assms
    by (auto simp: CCamera_SetDistance_def Let_def in_sync_def [of x c] intro!: then_view_sync split: CAMERA_MODE.splits)
       (auto simp: in_sync_def view_of_def frustum_of_def free_dir_def set_desc_def)
  done

lemma sync_step: "in_sync x c \<Longrightarrow> updates p \<Longrightarrow> in_sync x (snd (camera_step x p c))"
  by (cases p) (auto simp: sync_lens sync_pose sync_SetCamera CCamera_SetNear_def CCamera_SetFar_def CCamera_SetYaw_def
    CCamera_SetPitch_def CCamera_SetRoll_def intro: sync_modes simp: in_sync_def [of x c])

lemma sync_run: "in_sync x c \<Longrightarrow> \<forall>p\<in>set ps. updates p \<Longrightarrow> in_sync x (camera_run x ps c)"
  by (induction ps arbitrary: c) (simp_all add: sync_step)

lemma started_init: "m_bInit (snd (started x c))"
  by (simp add: started_def)

section \<open>Lens setters of an orthographic camera\<close>

fun is_lens :: "camera_op \<Rightarrow> bool" where
  "is_lens (Op_FovX a b) = True"
| "is_lens (Op_FovY a b) = True"
| "is_lens (Op_ViewRange n f b) = True"
| "is_lens (Op_Near n b) = True"
| "is_lens (Op_Far f b) = True"
| "is_lens _ = False"

fun camera_rets :: "xmath \<Rightarrow> camera_op list \<Rightarrow> CCamera \<Rightarrow> bool list" where
  "camera_rets x [] c = []"
| "camera_rets x (p # ps) c = fst (camera_step x p c) # camera_rets x ps (snd (camera_step x p c))"

definition plain_ortho :: "CCamera \<Rightarrow> bool" where
  "plain_ortho c \<longleftrightarrow> m_bInit c \<and> eProjectionType (m_CameraDesc c) = PROJECTION_ORTHO \<and> eProjectionCenter (m_CameraDesc c) = CENTER_CENTERED"

lemma ortho_then_proj:
  "plain_ortho c \<Longrightarrow> fst (then_proj x b c) \<and> m_CameraDesc (snd (then_proj x b c)) = m_CameraDesc c \<and> plain_ortho (snd (then_proj x b c))"
  by (simp add: then_proj_def plain_ortho_def)

lemma ortho_step:
  assumes "plain_ortho c" "is_lens p"
  shows "fst (camera_step x p c) \<and> m_CameraDesc (snd (camera_step x p c)) = m_CameraDesc c \<and> plain_ortho (snd (camera_step x p c))"
proof -
  have "\<exists>b. camera_step x p c = then_proj x b c" using assms
    by (cases p) (auto simp: plain_ortho_def CCamera_SetNear_def CCamera_SetFar_def CCamera_SetFovX_def CCamera_SetFovY_def lens_setter_def
      CCamera_SetViewRange_def center_is_ortho_def)
  then show ?thesis using ortho_then_proj [OF assms(1)] by auto
qed

lemma ortho_run:
  "plain_ortho c \<Longrightarrow> \<forall>p\<in>set ps. is_lens p \<Longrightarrow>
    list_all (\<lambda>r. r) (camera_rets x ps c) \<and> m_CameraDesc (camera_run x ps c) = m_CameraDesc c"
proof (induction ps arbitrary: c)
  case (Cons p ps)
  then have "is_lens p" "\<forall>p\<in>set ps. is_lens p" by simp_all
  then show ?case using ortho_step [OF Cons.prems(1), of p x] Cons.IH [of "snd (camera_step x p c)"] by simp
qed simp

lemma InitializeOrtho_plain: "plain_ortho (snd (CCamera_InitializeOrtho x w h near far c))"
  by (simp add: CCamera_InitializeOrtho_def started_def plain_ortho_def Let_def)

section \<open>The two visibility tests\<close>

lemma f_less_minus_zero: "f_less w (f_neg 0) = f_less w 0"
  by (simp add: f_less_def f_key_def f_neg_def f_nan_def bit_sign)

lemma in_sync_head: "in_sync x c \<Longrightarrow> ptHead (m_Frustum c) = ptPos (m_CameraDesc c)"
  by (simp add: in_sync_def frustum_of_def Let_def)

lemma outcode_bits: "(if a then (1::u32) else 0) OR (if b then 2 else 0) OR (if c then 4 else 0) OR (if d then 8 else 0) = 0 \<longleftrightarrow>
    \<not> a \<and> \<not> b \<and> \<not> c \<and> \<not> d"
  by auto

lemma outcode_run:
  assumes "in_sync x c" "xm_coord x mat p = p"
  shows "GetOutCode p c = 0 \<longleftrightarrow> SphereInFrustum x mat p 0 c"
proof -
  have "m_bInit c" using assms(1) by (simp add: in_sync_def)
  then show ?thesis
    by (auto simp: GetOutCode_def SphereInFrustum_def Let_def outcode_bits PointToSurfaceDist_def assms(2) in_sync_head [OF assms(1)]
        f_less_minus_zero)
qed

section \<open>Properties\<close>

text \<open>
  C19. Once an initialised camera has been given its mode, any sequence of setter calls that are not told to skip the update
  leaves the view matrix, the projection matrix and the frustum those of the camera's description.
\<close>

theorem camera_matrices_follow_description:
  assumes "m_bInit c" "\<forall>p\<in>set ps. updates p"
    "c' = camera_run x ps (snd (CCamera_SetMode x mode c))"
  shows "m_matView c' = view_of x (m_CameraDesc c') \<and> m_matProj c' = proj_of x (m_CameraDesc c') \<and>
    m_Frustum c' = frustum_of x (m_CameraDesc c')"
  using sync_run [OF sync_modes(1) [OF assms(1)] assms(2), of x mode] by (simp add: in_sync_def assms(3))

text \<open>
  C20. The two visibility tests agree: after any such sequence of calls, the outcode of a point is 0 exactly when the sphere of
  radius 0 about it, under a world transform that leaves the point where it is, is in the frustum; though one test
  measures from the camera's position and the other from the frustum's head.
\<close>

theorem visibility_tests_agree:
  assumes "m_bInit c" "\<forall>p\<in>set ps. updates p" "xm_coord x matWorld p = p"
    "c' = camera_run x ps (snd (CCamera_SetMode x mode c))"
  shows "GetOutCode p c' = 0 \<longleftrightarrow> SphereInFrustum x matWorld p 0 c'"
  using outcode_run [OF sync_run [OF sync_modes(1) [OF assms(1)] assms(2)] assms(3)] assms(4) by simp

text \<open>
  An orthographic camera ignores its lens setters and does not say so: whatever sequence of near, far, range and field of
  view is set on it, every call returns TRUE and the description stays as \<open>InitializeOrtho\<close> left it.
\<close>

theorem ortho_camera_ignores_lens:
  assumes "\<forall>p\<in>set ps. is_lens p" "c = snd (CCamera_InitializeOrtho x w h near far (CCamera_new x))"
  shows "list_all (\<lambda>r. r) (camera_rets x ps c) \<and> m_CameraDesc (camera_run x ps c) = m_CameraDesc c"
  using ortho_run [OF InitializeOrtho_plain assms(1)] assms(2) by simp

section \<open>Witnesses\<close>

text \<open>A library of matrices that are all the zero matrix and of functions that return their argument.\<close>

definition w_xm :: xmath where
  "w_xm = \<lparr>xm_tan = (\<lambda>a. a), xm_atan = (\<lambda>a. a), xm_atan2 = (\<lambda>a b. a), xm_sqrt = (\<lambda>a. a), xm_round = (\<lambda>a. a), xm_length = f3_x,
     xm_normalize = (\<lambda>v. v), xm_coord = (\<lambda>m v. v), xm_normal = (\<lambda>m v. v), xm_identity = (\<lambda>i j. 0), xm_inverse = (\<lambda>m. m),
     xm_mul = (\<lambda>m n. m), xm_rotX = (\<lambda>a i j. a), xm_rotY = (\<lambda>a i j. a), xm_rotZ = (\<lambda>a i j. a), xm_ypr = (\<lambda>a b c i j. a),
     xm_trans = (\<lambda>a b c i j. a), xm_lookat = (\<lambda>p q u i j. f3_x p), xm_perspFov = (\<lambda>a b c d i j. d),
     xm_perspOff = (\<lambda>a b c d e f i j. f), xm_ortho = (\<lambda>a b c d i j. d), xm_orthoOff = (\<lambda>a b c d e f i j. f)\<rparr>"

definition w_camera :: CCamera where
  "w_camera = snd (CCamera_Initialize w_xm f_one f_one f_one f_1000 (CCamera_new w_xm))"

definition w_ops :: "camera_op list" where
  "w_ops = [Op_Position zero3 True, Op_Near f_two False]"

lemma w_camera_init: "m_bInit w_camera"
  by (simp add: w_camera_def CCamera_Initialize_def started_init Let_def)

lemma camera_matrices_follow_description_witness:
  "let c = camera_run w_xm w_ops (snd (CCamera_SetMode w_xm MODE_TARGET w_camera)) in
   m_matView c = view_of w_xm (m_CameraDesc c) \<and> m_matProj c = proj_of w_xm (m_CameraDesc c) \<and>
   m_Frustum c = frustum_of w_xm (m_CameraDesc c)"
  unfolding Let_def by (rule camera_matrices_follow_description [OF w_camera_init _ refl]) (simp add: w_ops_def)

lemma visibility_tests_agree_witness:
  "let c = camera_run w_xm w_ops (snd (CCamera_SetMode w_xm MODE_FREE w_camera)) in
   GetOutCode zero3 c = 0 \<longleftrightarrow> SphereInFrustum w_xm (xm_identity w_xm) zero3 0 c"
  unfolding Let_def by (rule visibility_tests_agree [OF w_camera_init _ _ refl]) (simp_all add: w_ops_def w_xm_def)

lemma ortho_camera_ignores_lens_witness:
  "let c = snd (CCamera_InitializeOrtho w_xm f_two f_two f_one f_1000 (CCamera_new w_xm)) in
   list_all (\<lambda>r. r) (camera_rets w_xm [Op_ViewRange f_two f_1000 True, Op_FovX f_one True] c) \<and>
   m_CameraDesc (camera_run w_xm [Op_ViewRange f_two f_1000 True, Op_FovX f_one True] c) = m_CameraDesc c"
  unfolding Let_def by (rule ortho_camera_ignores_lens [OF _ refl]) simp

end
