(* ===== verification/ViewerGuiProps.thy ===== *)
theory ViewerGuiProps
  imports ViewerProps ViewerGui CameraProps
begin

text \<open>
  What the viewer keeps under everything the user does: cameras whose matrices follow their description, the page turning of
  model parts, the history as a picture of the cache, and the bounds of the share link.
\<close>

section \<open>The cameras\<close>

definition cameras_ok :: "viewer_env \<Rightarrow> CModelViewerDlg \<Rightarrow> bool" where
  "cameras_ok env v \<longleftrightarrow> in_sync (ve_x env) (m_Camera v) \<and> in_sync (ve_x env) (m_ThumbCamera v)"

lemma cameras_cong: "m_Camera w = m_Camera v \<Longrightarrow> m_ThumbCamera w = m_ThumbCamera v \<Longrightarrow> cameras_ok env w = cameras_ok env v"
  by (simp add: cameras_ok_def)

lemma cameras_distance:
  "cameras_ok env v \<Longrightarrow> in_sync (ve_x env) (snd (CCamera_SetDistance (ve_x env) z True (m_Camera v)))"
  "cameras_ok env v \<Longrightarrow> in_sync (ve_x env) (snd (CCamera_SetDistance (ve_x env) z True (m_ThumbCamera v)))"
  by (simp_all add: cameras_ok_def sync_pose)

lemma cameras_UpdateWorldMatrix [simp]: "cameras_ok env (UpdateWorldMatrix env v) = cameras_ok env v"
  by (rule cameras_cong) simp_all

lemma cameras_move: "cameras_ok env v \<Longrightarrow> cameras_ok env (move_camera env f v)"
  by (simp add: move_camera_def cameras_ok_def sync_pose)

lemma cameras_aspect: "cameras_ok env v \<Longrightarrow> cameras_ok env (set_aspect env a v)"
  by (simp add: set_aspect_def cameras_ok_def sync_lens)

lemma cameras_ResetView: "ResetView env v = Done w \<Longrightarrow> cameras_ok env v \<Longrightarrow> cameras_ok env w"
  by (auto simp: ResetView_def Let_def elim!: obind_DoneE split: option.splits) (simp add: cameras_ok_def cameras_distance sync_pose)

lemma cameras_OnModelLoaded1: "OnModelLoaded1 env v = Done w \<Longrightarrow> cameras_ok env v \<Longrightarrow> cameras_ok env w"
  by (auto simp: OnModelLoaded1_def cameras_ok_def elim!: obind_DoneE dest!: cameras_ResetView)

lemma cameras_OnModelLoaded2: "OnModelLoaded2 env v = Done w \<Longrightarrow> cameras_ok env v \<Longrightarrow> cameras_ok env w"
  by (auto simp: OnModelLoaded2_def cameras_ok_def elim!: obind_DoneE)

lemma cameras_FillTextureList: "FillTextureList v = Done w \<Longrightarrow> cameras_ok env v \<Longrightarrow> cameras_ok env w"
  by (auto simp: FillTextureList_def Let_def cameras_ok_def elim!: obind_DoneE split: option.splits if_splits)

lemma cameras_replace1: "replace1 env b n v = Done w \<Longrightarrow> cameras_ok env v \<Longrightarrow> cameras_ok env w"
  by (auto simp: replace1_def elim!: obind_DoneE dest!: cameras_OnModelLoaded1 cameras_ResetView cameras_FillTextureList [of _ _ env])
     (auto simp: cameras_ok_def)

lemma cameras_FillThumbArray: "FillThumbArray env v = Done w \<Longrightarrow> cameras_ok env v \<Longrightarrow> cameras_ok env w"
  by (auto simp: FillThumbArray_def Let_def cameras_ok_def elim!: obind_DoneE split: option.splits if_splits)

lemma cameras_GenerateThumnail: "GenerateThumnail env v = Done (w, t) \<Longrightarrow> cameras_ok env v \<Longrightarrow> cameras_ok env w"
  by (auto simp: GenerateThumnail_def Let_def elim!: obind_DoneE split: option.splits) (simp add: cameras_ok_def sync_pose)

lemma cameras_store_model: "store_model env v = Done w \<Longrightarrow> cameras_ok env v \<Longrightarrow> cameras_ok env w"
  by (auto simp: store_model_def elim!: obind_DoneE dest!: cameras_GenerateThumnail cameras_FillThumbArray) (auto simp: cameras_ok_def)

lemma cameras_on_model: "on_model env l v = Done w \<Longrightarrow> cameras_ok env v \<Longrightarrow> cameras_ok env w"
  by (auto simp: on_model_def Let_def elim!: obind_DoneE dest!: cameras_replace1 cameras_store_model split: option.splits if_splits)
     (auto simp: cameras_ok_def)

lemma cameras_on_ad: "on_ad env l v = Done w \<Longrightarrow> cameras_ok env v \<Longrightarrow> cameras_ok env w"
  by (auto simp: on_ad_def Let_def cameras_ok_def elim!: obind_DoneE split: option.splits if_splits prod.splits)

lemma cameras_on_user_msg: "on_user_msg env m v = Done w \<Longrightarrow> cameras_ok env v \<Longrightarrow> cameras_ok env w"
  by (cases m) (auto simp: on_user_msg_def on_progress_def on_info_def Let_def cameras_ok_def
    dest: cameras_on_model [unfolded cameras_ok_def] cameras_on_ad [unfolded cameras_ok_def])

lemma cameras_Load3DScanFile: "Load3DScanFile env p v = Done w \<Longrightarrow> cameras_ok env v \<Longrightarrow> cameras_ok env w"
  by (auto simp: Load3DScanFile_def Let_def elim!: obind_DoneE dest!: cameras_replace1 split: option.splits) (auto simp: cameras_ok_def)

lemma cameras_Load3DScanFile2: "Load3DScanFile2 env p v = Done w \<Longrightarrow> cameras_ok env v \<Longrightarrow> cameras_ok env w"
  by (auto simp: Load3DScanFile2_def Let_def elim!: obind_DoneE split: option.splits
      dest!: cameras_OnModelLoaded2 cameras_ResetView cameras_FillTextureList [of _ _ env]) (auto simp: cameras_ok_def)

lemma cameras_ad: "cameras_ok env (new_ad_texture env p v) = cameras_ok env v" "cameras_ok env (new_ad_size env p v) = cameras_ok env v"
  by (auto simp: new_ad_texture_def new_ad_size_def cameras_ok_def split: option.splits prod.splits)

lemma cameras_history_click: "history_click env i v = Done w \<Longrightarrow> cameras_ok env v \<Longrightarrow> cameras_ok env w"
  by (auto simp: history_click_def Load3DScanFile_w_def Let_def cameras_ad elim!: obind_DoneE dest!: cameras_Load3DScanFile split: if_splits)
     (simp add: cameras_ad cameras_cong [of "_\<lparr>m_strAdUrl := _\<rparr>" "new_ad_texture _ _ _"])

lemma cameras_compare_click: "compare_click env i v = Done w \<Longrightarrow> cameras_ok env v \<Longrightarrow> cameras_ok env w"
  by (auto simp: compare_click_def Load3DScanFile2_w_def elim!: obind_DoneE dest!: cameras_Load3DScanFile2 split: if_splits) (auto simp: cameras_ok_def)

lemma cameras_turns: "turn1 env k v = Done w \<Longrightarrow> cameras_ok env v \<Longrightarrow> cameras_ok env w" "turn2 env k v = Done w \<Longrightarrow> cameras_ok env v \<Longrightarrow> cameras_ok env w"
  by (auto simp: turn1_def turn2_def cameras_ok_def elim!: obind_DoneE split: option.splits if_splits)

lemma cameras_UpdateGui: "UpdateGui env b v = Done w \<Longrightarrow> cameras_ok env v \<Longrightarrow> cameras_ok env w"
  by (cases b) (auto simp: UpdateGui_def cameras_ok_def split: if_splits
    dest: cameras_history_click [unfolded cameras_ok_def] cameras_compare_click [unfolded cameras_ok_def] cameras_turns [unfolded cameras_ok_def])

lemma cameras_Update: "cameras_ok env v \<Longrightarrow> cameras_ok env (Update env k v)"
  by (simp add: Update_def Let_def cameras_move cameras_cong [of "v\<lparr>m_fYaw := _, m_fPitch := _\<rparr>" v])

lemma cameras_on_wheel: "cameras_ok env v \<Longrightarrow> cameras_ok env (on_wheel env h z v)"
  by (simp add: on_wheel_def Let_def cameras_move)

lemma cameras_fields:
  "cameras_ok env (w\<lparr>m_fPitch := p\<rparr>) = cameras_ok env w" "cameras_ok env (w\<lparr>m_fYaw := p\<rparr>) = cameras_ok env w"
  "cameras_ok env (w\<lparr>m_ptPos1 := q\<rparr>) = cameras_ok env w" "cameras_ok env (w\<lparr>s_ptStart := r\<rparr>) = cameras_ok env w"
  by (simp_all add: cameras_ok_def)

lemma cameras_on_drag: "cameras_ok env v \<Longrightarrow> cameras_ok env (on_drag env imd v)"
  by (simp add: on_drag_def Let_def cameras_fields cameras_move)

lemma cameras_on_interaction: "on_interaction env h rc imd v = Done (w, u) \<Longrightarrow> cameras_ok env v \<Longrightarrow> cameras_ok env w"
  by (auto simp: on_interaction_def elim!: obind_DoneE split: if_splits intro: cameras_on_drag) (simp add: cameras_ok_def)

lemma cameras_Render: "Render env sc v = Done (f, w) \<Longrightarrow> cameras_ok env v \<Longrightarrow> cameras_ok env w"
  by (auto simp: Render_def Let_def elim!: obind_DoneE split: if_splits intro!: cameras_aspect)

lemma cameras_OnSize: "cameras_ok env v \<Longrightarrow> cameras_ok env (OnSize env rc cx cy v)"
  by (simp add: OnSize_def Let_def cameras_ok_def sync_lens)

lemma cameras_input: "run_input env i v = Done w \<Longrightarrow> cameras_ok env v \<Longrightarrow> cameras_ok env w"
  by (cases i) (auto elim!: obind_DoneE intro: cameras_UpdateGui cameras_Update cameras_on_wheel cameras_on_interaction cameras_OnSize
    cameras_on_user_msg cameras_Render)

lemma cameras_session: "viewer_session env is v = Done w \<Longrightarrow> cameras_ok env v \<Longrightarrow> cameras_ok env w"
  by (induction "is" arbitrary: v) (auto elim!: obind_DoneE dest: cameras_input)

lemma look_from_sync: "in_sync x (look_from_10 x fov a far c)"
proof -
  define c2 where "c2 = snd (CCamera_SetMode x MODE_TARGET (snd (CCamera_Initialize x fov a 0x3DCCCCCD far c)))"
  have "m_bInit (snd (CCamera_Initialize x fov a 0x3DCCCCCD far c))" by (simp add: CCamera_Initialize_def Let_def started_init)
  then have 2: "in_sync x c2" unfolding c2_def by (rule sync_modes)
  have 3: "in_sync x (snd (CCamera_SetPosition3 x p q r True c2))" for p q r using 2 by (simp add: CCamera_SetPosition3_def sync_pose)
  have "in_sync x (snd (CCamera_SetTarget3 x 0 0 0 True e))" if "in_sync x e" for e using that by (simp add: CCamera_SetTarget3_def sync_pose)
  from this [OF 3] show ?thesis by (simp add: look_from_10_def Let_def c2_def)
qed

lemma cameras_OnInitDialog: "OnInitDialog env rc v = Done w \<Longrightarrow> cameras_ok env w"
  by (auto simp: OnInitDialog_def Let_def elim!: obind_DoneE dest!: cameras_FillThumbArray)
     (auto simp: cameras_ok_def look_from_sync)


text \<open>
  C21. From the moment the dialog is initialised, whatever the user and the downloads do, the view, projection and frustum of both
  cameras (the window's and the thumbnails') are those of their descriptions.
\<close>

theorem viewer_cameras_follow_their_descriptions:
  assumes "OnInitDialog env rc v = Done v1" "viewer_session env is v1 = Done v2" "c \<in> {m_Camera v2, m_ThumbCamera v2}"
  shows "m_bInit c \<and> m_matView c = view_of (ve_x env) (m_CameraDesc c) \<and> m_matProj c = proj_of (ve_x env) (m_CameraDesc c) \<and>
    m_Frustum c = frustum_of (ve_x env) (m_CameraDesc c)"
  using cameras_session [OF assms(2) cameras_OnInitDialog [OF assms(1)]] assms(3) by (auto simp: cameras_ok_def in_sync_def)

section \<open>Turning the pages of a model\<close>

text \<open>The indices that are shown.\<close>

definition shown_parts :: "D3D_MODEL \<Rightarrow> nat set" where
  "shown_parts d = {j. j < length (d_Parts d) \<and> dp_bVisible (d_Parts d ! j)}"

lemma part_index_small: "j < 2 ^ 32 \<Longrightarrow> 32 \<le> ve_size_t env \<Longrightarrow> part_index env (int j) = j"
proof -
  assume j: "j < 2 ^ 32" and b: "32 \<le> ve_size_t env"
  have "(2::nat) ^ 32 \<le> 2 ^ ve_size_t env" using b by (rule power_increasing) simp
  then have "int j < 2 ^ ve_size_t env" using j by (metis less_le_trans of_nat_less_numeral_power_cancel_iff of_nat_less_iff of_nat_numeral of_nat_power)
  then show ?thesis by (simp add: part_index_def)
qed

lemma show_part_run:
  assumes "j < length (d_Parts d)" "length (d_Parts d) < 2 ^ 31" "32 \<le> ve_size_t env"
  shows "\<exists>d'. show_part env b (int j) d = Done d' \<and> length (d_Parts d') = length (d_Parts d) \<and>
    shown_parts d' = (if b then insert j (shown_parts d) else shown_parts d - {j})"
proof -
  have "part_index env (int j) = j" using assms by (intro part_index_small) simp_all
  then show ?thesis using assms(1) by (auto simp: show_part_def Let_def shown_parts_def nth_list_update split: if_splits)
qed

lemma turn_part_run:
  assumes "cur < length (d_Parts d)" "length (d_Parts d) < 2 ^ 31" "32 \<le> ve_size_t env"
    "j = part_index env (int cur + delta) mod length (d_Parts d)"
  shows "\<exists>d'. turn_part env delta (int cur) d = Done (int j, d') \<and> length (d_Parts d') = length (d_Parts d) \<and>
    shown_parts d' = insert j (shown_parts d - {cur})"
proof -
  obtain d1 where 1: "show_part env False (int cur) d = Done d1" "length (d_Parts d1) = length (d_Parts d)" "shown_parts d1 = shown_parts d - {cur}"
    using show_part_run [OF assms(1-3), of False] by auto
  have j: "j < length (d_Parts d1)" using assms(1,4) 1(2) by (cases "length (d_Parts d)") simp_all
  have "sint (of_nat j :: u32) = int j" using j assms(2) 1(2) by (simp add: signed_of_nat signed_take_bit_int_eq_self)
  moreover obtain d2 where 2: "show_part env True (int j) d1 = Done d2" "length (d_Parts d2) = length (d_Parts d1)" "shown_parts d2 = insert j (shown_parts d1)"
    using show_part_run [OF j, of env True] assms(2,3) 1(2) by auto
  ultimately show ?thesis using 1 2 assms(4) by (simp add: turn_part_def Let_def)
qed

lemma next_index: "cur < n \<Longrightarrow> n < 2 ^ 31 \<Longrightarrow> 32 \<le> ve_size_t env \<Longrightarrow> part_index env (int cur + 1) mod n = (cur + 1) mod n"
  using part_index_small [of "cur + 1" env] by (simp add: add.commute)


lemma session_snoc: "viewer_session env (is @ [i]) v = obind (viewer_session env is v) (run_input env i)"
proof (induction "is" arbitrary: v)
  case Nil
  show ?case by (cases "run_input env i v") simp_all
next
  case (Cons a "is")
  show ?case by (cases "run_input env a v") (simp_all add: Cons.IH)
qed

text \<open>
  C23. The button for the next part walks through the parts in a circle: after a model is loaded with all its parts visible, pressing it \<open>k\<close>
  times leads to part \<open>k mod n\<close>. On the first round it hides one part after the other, so that the parts from \<open>k\<close> on are visible;
  from the press on that reaches the last part, exactly the current part is.
\<close>

theorem next_button_turns_the_pages:
  assumes "m_pd3dModel1 v = Some d" "1 < length (d_Parts d)" "length (d_Parts d) < 2 ^ 31" "32 \<le> ve_size_t env"
    "shown_parts d = {0..<length (d_Parts d)}" "m_iCurPart1 v = 0"
  shows "\<exists>w d'. viewer_session env (replicate k (In_button Next1)) v = Done w \<and> m_pd3dModel1 w = Some d' \<and>
    length (d_Parts d') = length (d_Parts d) \<and> m_iCurPart1 w = int (k mod length (d_Parts d)) \<and>
    shown_parts d' = (if k < length (d_Parts d) then {k..<length (d_Parts d)} else {k mod length (d_Parts d)})"
proof (induction k)
  case 0
  have "d_Parts d \<noteq> []" using assms(2) by auto
  then show ?case using assms by simp
next
  case (Suc k)
  let ?n = "length (d_Parts d)"
  obtain w d' where w: "viewer_session env (replicate k (In_button Next1)) v = Done w" "m_pd3dModel1 w = Some d'" "length (d_Parts d') = ?n"
    "m_iCurPart1 w = int (k mod ?n)" "shown_parts d' = (if k < ?n then {k..<?n} else {k mod ?n})" using Suc by blast
  have c: "k mod ?n < length (d_Parts d')" using assms(2) w(3) mod_less_divisor [of ?n k] by linarith
  have j: "part_index env (int (k mod ?n) + 1) mod length (d_Parts d') = (k mod ?n + 1) mod ?n"
    using next_index [of "k mod ?n" ?n env] c assms(3,4) w(3) by simp
  from turn_part_run [OF c _ assms(4) j [symmetric]] obtain d2 where
    t: "turn_part env 1 (int (k mod ?n)) d' = Done (int ((k mod ?n + 1) mod ?n), d2)" "length (d_Parts d2) = ?n"
      "shown_parts d2 = insert ((k mod ?n + 1) mod ?n) (shown_parts d' - {k mod ?n})"
    using assms(3) w(3) by auto
  have m: "(k mod ?n + 1) mod ?n = Suc k mod ?n" by (simp add: mod_Suc_eq)
  have sh: "shown_parts d2 = (if Suc k < ?n then {Suc k..<?n} else {Suc k mod ?n})"
  proof (cases "Suc k < ?n")
    case True
    then show ?thesis using t(3) w(5) m by auto
  next
    case False
    then show ?thesis using t(3) w(5) m assms(2) by (cases "k < ?n") (auto simp: not_less less_Suc_eq_le)
  qed
  have "run_input env (In_button Next1) w = Done (w\<lparr>m_iCurPart1 := int (Suc k mod ?n), m_pd3dModel1 := Some d2\<rparr>)"
    using t(1) w(2-4) assms(2) m by (simp add: UpdateGui_def turn1_def)
  then show ?case using w(1) t(2) sh by (simp add: session_snoc replicate_app_Cons_same [symmetric] flip: replicate_append_same)
qed

lemma pred_mod: "0 < n \<Longrightarrow> 0 < m \<Longrightarrow> (m - 1) mod n = n - 1 \<longleftrightarrow> n dvd (m :: nat)"
  using mod_Suc [of "m - 1" n] by (auto simp: dvd_eq_mod_eq_0 split: if_splits)

text \<open>
  C40. The button for the previous part wraps in \<open>size_t\<close>: from the first part it goes to part \<open>(2^b - 1) mod n\<close>, which is the last part
  only when the number of parts divides \<open>2^b\<close> (with three parts it stays at the first).
\<close>

theorem previous_from_first_wraps_in_size_t:
  assumes "m_pd3dModel1 v = Some d" "1 < length (d_Parts d)" "length (d_Parts d) < 2 ^ 31" "32 \<le> ve_size_t env" "m_iCurPart1 v = 0"
  shows "\<exists>w. UpdateGui env Prev1 v = Done w \<and> m_iCurPart1 w = int ((2 ^ ve_size_t env - 1) mod length (d_Parts d)) \<and>
    (m_iCurPart1 w = int (length (d_Parts d)) - 1 \<longleftrightarrow> length (d_Parts d) dvd 2 ^ ve_size_t env)"
proof -
  let ?n = "length (d_Parts d)"
  have "(- 1 :: int) mod 2 ^ ve_size_t env = 2 ^ ve_size_t env - 1" by (simp add: zmod_minus1)
  then have p: "part_index env (int 0 + - 1) = 2 ^ ve_size_t env - 1" by (simp add: part_index_def nat_diff_distrib nat_power_eq)
  have 0: "0 < ?n" using assms(2) by linarith
  from turn_part_run [OF 0 assms(3,4) refl, of "- 1"] obtain d' where
    t: "turn_part env (- 1) 0 d = Done (int ((2 ^ ve_size_t env - 1) mod ?n), d')" unfolding p by auto
  have "int m = int ?n - 1 \<longleftrightarrow> m = ?n - 1" for m using 0 by linarith
  then have "int ((2 ^ ve_size_t env - 1) mod ?n) = int ?n - 1 \<longleftrightarrow> ?n dvd 2 ^ ve_size_t env"
    using pred_mod [OF 0, of "2 ^ ve_size_t env"] by simp
  then show ?thesis using t assms(1,2,5) by (simp add: UpdateGui_def turn1_def)
qed


section \<open>The history\<close>

text \<open>The pictures of the history are the entries of the cache, the newest first.\<close>

definition history_ok :: "CModelViewerDlg \<Rightarrow> bool" where
  "history_ok v \<longleftrightarrow> m_iThumbCount v = int (length (m_CacheTable (m_Cache v))) \<and>
     m_pstrModelFiles v = map (\<lambda>e. wcs (ce_szModelFile e)) (rev (m_CacheTable (m_Cache v))) \<and>
     m_pstrAdFiles v = map (\<lambda>e. wcs (ce_szAdFile e)) (rev (m_CacheTable (m_Cache v)))"

definition history_of :: "CModelViewerDlg \<Rightarrow> _" where
  "history_of v = (m_iThumbCount v, m_pstrModelFiles v, m_pstrAdFiles v, m_lostModels v)"

lemma history_ResetView: "ResetView env v = Done w \<Longrightarrow> history_of w = history_of v"
  by (auto simp: ResetView_def Let_def UpdateWorldMatrix_def history_of_def elim!: obind_DoneE split: option.splits)

lemma history_OnModelLoaded1: "OnModelLoaded1 env v = Done w \<Longrightarrow> history_of w = history_of v"
  by (auto simp: OnModelLoaded1_def elim!: obind_DoneE dest!: history_ResetView) (auto simp: history_of_def)

lemma history_FillTextureList: "FillTextureList v = Done w \<Longrightarrow> history_of w = history_of v"
  by (auto simp: FillTextureList_def Let_def history_of_def elim!: obind_DoneE split: option.splits if_splits)

lemma history_replace1:
  "replace1 env b n v = Done w \<Longrightarrow> history_of w = (m_iThumbCount v, m_pstrModelFiles v, m_pstrAdFiles v,
     m_lostModels v + (if b \<or> m_pModel1 v = None then 0 else 1))"
  by (auto simp: replace1_def elim!: obind_DoneE dest!: history_OnModelLoaded1 history_ResetView history_FillTextureList)
     (auto simp: history_of_def)

lemma FillThumbArray_history:
  assumes "FillThumbArray env v = Done w" "length (m_CacheTable (m_Cache v)) < 2 ^ 31"
  shows "history_ok w"
proof -
  define first where "first = (case m_ppThumbnails v of None \<Rightarrow> Done v
       | Some ps \<Rightarrow> obind (com_release_all (take (nat (m_iThumbCount v)) ps) (m_gpu v)) (\<lambda>g.
           Done (v\<lparr>m_gpu := g, m_ppThumbnails := None, m_iTextureCount := 0\<rparr>)))"
  obtain v1 where v1: "first = Done v1"
    using assms(1) unfolding FillThumbArray_def first_def [symmetric] by (elim obind_DoneE)
  then have c: "m_Cache v1 = m_Cache v" by (auto simp: first_def elim!: obind_DoneE split: option.splits)
  show ?thesis
    using assms(1) entry_count [OF assms(2)] history_rev [OF assms(2)] unfolding FillThumbArray_def first_def [symmetric] v1 obind.simps c Let_def
    by (auto simp: history_ok_def c elim!: obind_DoneE split: if_splits)
qed

lemma owns_ad_texture:
  assumes "owns v"
  shows "owns (new_ad_texture env p v)" "owns (new_ad_size env p v)"
proof -
  obtain t g where n: "com_new (ve_tex env (m_gpu v) p) (m_gpu v) = (t, g)" by fastforce
  have "gpu_ok g" "\<forall>i. g_refs (m_gpu v) i \<le> g_refs g i" using com_new_refs [OF _ n] assms by (auto simp: owns_def)
  moreover have "thumb_refs (v\<lparr>m_gpu := g, m_pAdTex := q\<rparr>) i = thumb_refs v i" for q i by (simp add: thumb_refs_def split: option.split)
  ultimately show "owns (new_ad_texture env p v)" using assms by (auto simp: new_ad_texture_def n owns_def intro: order_trans)
  show "owns (new_ad_size env p v)"
    using assms by (auto simp: new_ad_size_def owns_def thumb_refs_def split: option.split option.splits prod.splits)
qed

lemma ad_fields:
  "m_Cache (new_ad_texture env p v) = m_Cache v" "m_Cache (new_ad_size env p v) = m_Cache v"
  "models_of (new_ad_texture env p v) = models_of v" "models_of (new_ad_size env p v) = models_of v"
  "history_of (new_ad_texture env p v) = history_of v" "history_of (new_ad_size env p v) = history_of v"
  "m_strSubsid (new_ad_texture env p v) = m_strSubsid v" "m_strSubsid (new_ad_size env p v) = m_strSubsid v"
  "m_strAdUrl (new_ad_size env p v) = m_strAdUrl v"
  by (auto simp: new_ad_texture_def new_ad_size_def models_of_def history_of_def split: option.split prod.split)

lemma ad_url_fields:
  "history_of (v\<lparr>m_strAdUrl := u\<rparr>) = history_of v" "models_of (v\<lparr>m_strAdUrl := u\<rparr>) = models_of v"
  by (simp_all add: history_of_def models_of_def)

lemma history_ok_cong: "history_of w = (m_iThumbCount v, m_pstrModelFiles v, m_pstrAdFiles v, n) \<Longrightarrow> m_Cache w = m_Cache v \<Longrightarrow> history_ok w = history_ok v"
  by (simp add: history_ok_def history_of_def)

lemma ad_pictured_from: "ad_of v' = ad_of v \<Longrightarrow> ad_pictured env p v' w = ad_pictured env p v w"
proof -
  assume "ad_of v' = ad_of v"
  then have e: "m_pAdTex v' = m_pAdTex v" "m_iAdWidth1 v' = m_iAdWidth1 v" "m_iAdHeight1 v' = m_iAdHeight1 v" by (simp_all add: ad_of_def)
  show ?thesis unfolding ad_pictured_def e ..
qed

lemma click_pictured:
  assumes "owns v"
  shows "ad_pictured env p v (new_ad_size env p ((new_ad_texture env p v)\<lparr>m_strAdUrl := u\<rparr>))"
proof -
  obtain t g where n: "com_new (ve_tex env (m_gpu v) p) (m_gpu v) = (t, g)" by fastforce
  show ?thesis
    by (rule new_texture_pictured [OF assms n])
      (auto simp: new_ad_size_def new_ad_texture_def n thumb_refs_def split: option.split prod.split)
qed

text \<open>
  C22. A picture of the history opens the entry it stands for: the model of its file is loaded, the picture of its advertisement file becomes a
  texture of its own with its size taken, and the address is that of the entry. A picture of which no texture can be made leaves the old texture, one
  that cannot be read the old size, under the new address. The subscription's id, and with it the link that is shared, stays that of the subscription opened
  before; a model that was open is not freed, one more is lost with every click.
\<close>

theorem history_click_opens_its_entry:
  assumes "history_ok v" "owns v" "length (m_CacheTable (m_Cache v)) < 2 ^ 31" "i < length (m_CacheTable (m_Cache v))"
    "e = rev (m_CacheTable (m_Cache v)) ! i" "length (wcs (ce_szModelFile e)) < 260"
    "Load3DScanModelFromFile (ve_lz env) (ve_junkf env) (ve_fuel env) (file_at env (m_fs v)) (Some (c_text (ansi (wcs (ce_szModelFile e))))) = Done td"
    "draws env td"
  shows "\<exists>w. history_click env i v = Done w \<and> m_pModel1 w = Some td \<and> m_strAdUrl w = ansi (wcs (ce_szAdUrl e)) \<and>
    ad_pictured env (LoadFileToMem (ve_os env) (m_fs v) (wcs (ce_szAdFile e))) v w \<and>
    share_link w = share_link v \<and> m_lostModels w = m_lostModels v + (if m_pModel1 v = None then 0 else 1) \<and> owns w \<and> history_ok w"
proof -
  let ?n = "length (m_CacheTable (m_Cache v))" and ?f = "wcs (ce_szModelFile e)"
  have f: "m_pstrModelFiles v ! i = ?f" "m_iThumbCount v = int ?n" using assms(1,4,5) by (simp_all add: history_ok_def)
  have p: "ansi_path ?f = Done (c_text (ansi ?f))" using assms(6) by (simp add: ansi_path_def ModelCache.MAX_PATH_def)
  from build_run [OF assms(8,2)] obtain d g where b: "build_model env (Done td) (m_gpu v) = Done (Some (td, d), g)" "gpu_ok g"
    "\<forall>i. held_opt (m_pd3dModel1 v) i + thumb_refs v i + held d i \<le> g_refs g i" "names_ok td d" by blast
  define v0 where "v0 = v\<lparr>m_gpu := g\<rparr>"
  have v0: "gpu_ok (m_gpu v0)" "\<And>i. held_opt (m_pd3dModel1 v0) i + thumb_refs v0 i + held d i \<le> g_refs (m_gpu v0) i" "rest_of v0 = rest_of v"
    using b(2,3) thumb_refs_gpu by (simp_all add: v0_def rest_of_def)
  from replace1_run [OF v0(1,2) b(4), of env False] obtain v1 where
    1: "replace1 env False (td, d) v0 = Done v1" "owns v1" "rest_of v1 = rest_of v" "models_of v1 = (Some td, Some d)" using v0(3) by auto
  have h1: "history_of v1 = (m_iThumbCount v, m_pstrModelFiles v, m_pstrAdFiles v, m_lostModels v + (if m_pModel1 v = None then 0 else 1))"
    using history_replace1 [OF 1(1)] by (simp add: v0_def)
  define v2 where "v2 = v1\<lparr>m_strFilename := c_text (ansi ?f), m_bFileOpened := True, m_bHasFilename := True\<rparr>"
  have l: "Load3DScanFile_w env ?f v = Done v2"
    using b(1) 1(1) by (simp add: Load3DScanFile_w_def p Load3DScanFile_def assms(7) v0_def [symmetric] Let_def v2_def)
  have v2: "owns v2" "rest_of v2 = rest_of v" "models_of v2 = (Some td, Some d)" "history_of v2 = history_of v1"
    using 1 owns_cong [of v2 v1] by (simp_all add: v2_def frame_defs history_of_def)
  have c2: "m_Cache v2 = m_Cache v" "m_strSubsid v2 = m_strSubsid v" using v2(2) by (simp_all add: rest_of_def)
  define ad where "ad = LoadFileToMem (ve_os env) (m_fs v2) (m_pstrAdFiles v2 ! i)"
  have ad: "ad = LoadFileToMem (ve_os env) (m_fs v) (wcs (ce_szAdFile e))"
    using v2(2,4) h1 assms(1,4,5) by (simp add: ad_def rest_of_def history_of_def history_ok_def)
  have ge: "GetEntry (GetEntryCount (m_Cache v) - 1 - int i) (m_Cache v) = Some e"
  proof -
    have "nat (int ?n - 1 - int i) = ?n - Suc i" using assms(4) by linarith
    then show ?thesis using assms(4,5) by (simp add: GetEntry_def entry_count [OF assms(3)] rev_nth)
  qed
  define w where "w = new_ad_size env ad ((new_ad_texture env ad v2)\<lparr>m_strAdUrl := ansi (wcs (ce_szAdUrl e))\<rparr>)"
  have run: "history_click env i v = Done w"
    using assms(4) l ge by (simp add: history_click_def f ad_fields c2 Let_def deref_def ad_def [symmetric] w_def)
  have ow: "owns w" unfolding w_def by (intro owns_ad_texture) (simp add: owns_fields owns_ad_texture v2(1))
  have hw: "history_of w = history_of v1" "m_Cache w = m_Cache v" "models_of w = (Some td, Some d)" "m_strSubsid w = m_strSubsid v"
    "m_strAdUrl w = ansi (wcs (ce_szAdUrl e))"
    using v2(3,4) c2 by (simp_all add: w_def ad_fields ad_url_fields)
  have a2: "ad_of v2 = ad_of v" using ad_replace1 [OF 1(1)] by (simp add: v2_def v0_def ad_of_def)
  then have "ad_pictured env ad v w" using click_pictured [OF v2(1), of env ad "ansi (wcs (ce_szAdUrl e))"]
    by (simp add: w_def ad_pictured_from [OF a2])
  moreover have "history_ok w" using history_ok_cong [of w v] hw(1,2) h1 assms(1) by simp
  ultimately show ?thesis using run ow hw h1 unfolding ad by (simp add: models_of_def history_of_def share_link_def)
qed

section \<open>The share link and the dual view\<close>

text \<open>
  The link to share fits its buffer for ids of up to 227 characters; longer ones, which an opened URL may carry, overrun
  \<open>char[MAX_PATH]\<close>, and beyond 260 characters the id is dropped.
\<close>

theorem share_link_fits_short_ids:
  assumes "c_text (m_strSubsid v) = m_strSubsid v"
  shows "share_link v = (if length (m_strSubsid v) < 228 then Done (''http://www.stuffsnet.com/models/'' @ m_strSubsid v)
    else if length (m_strSubsid v) \<le> 260 then UB else Done ''http://www.stuffsnet.com/models/'')"
  using assms by (auto simp: share_link_def Let_def share_prefix_def ModelCache.MAX_PATH_def)

lemma aspect_twice:
  assumes "in_sync x c" "eProjectionType (m_CameraDesc c) = PROJECTION_PERSPECTIVE" "eProjectionCenter (m_CameraDesc c) = CENTER_CENTERED"
  shows "snd (CCamera_SetAspect x a True (snd (CCamera_SetAspect x b True c))) = snd (CCamera_SetAspect x a True c)"
  using assms by (simp add: CCamera_SetAspect_def Let_def in_sync_def then_proj_def UpdateProjectionMatrix_def UpdateFrustum_def set_desc_def
    vertical_lens_def)

lemma draw_model_aspect: "draw_model env sc (set_aspect env a v) m base p = draw_model env sc v m base p"
  by (simp add: draw_model_def set_aspect_def DrawBounding_def Let_def split: option.split)

lemma set_aspect_fields [simp]:
  "m_pModel1 (set_aspect env a v) = m_pModel1 v" "m_pd3dModel1 (set_aspect env a v) = m_pd3dModel1 v" "m_matWorld1 (set_aspect env a v) = m_matWorld1 v"
  "m_pModel2 (set_aspect env a v) = m_pModel2 v" "m_pd3dModel2 (set_aspect env a v) = m_pd3dModel2 v" "m_matWorld2 (set_aspect env a v) = m_matWorld2 v"
  by (simp_all add: set_aspect_def)

text \<open>
  C24. The dual view draws the models the single view draws, followed by the second model, with the projection narrowed to half the
  window, and leaves the camera and the last projection as the single view does: the narrow one does not stay. The advertisement is
  drawn in the single view only.
\<close>

theorem dual_view_extends_single_view:
  assumes "cameras_ok env v" "eProjectionType (m_CameraDesc (m_Camera v)) = PROJECTION_PERSPECTIVE"
    "eProjectionCenter (m_CameraDesc (m_Camera v)) = CENTER_CENTERED" "Render env sc (v\<lparr>m_bDualView := True\<rparr>) = Done (f2, w2)"
  shows "\<exists>f1 w1 second. Render env sc (v\<lparr>m_bDualView := False\<rparr>) = Done (f1, w1) \<and> m_Camera w2 = m_Camera w1 \<and>
    draw_model env sc v (m_matWorld2 v) (m_pModel2 v) (m_pd3dModel2 v) = Done second \<and>
    fr_models f2 = fr_models f1 @ second \<and> fr_view f2 = fr_view f1 \<and> fr_ad f1 = m_pAdTex v \<and> fr_ad f2 = None \<and>
    fr_projs f1 = [m_matProj (m_Camera w1)] \<and> fr_projs f2 = [m_matProj (m_Camera (set_aspect env (half f_one) v)), m_matProj (m_Camera w1)]"
proof -
  let ?d = "v\<lparr>m_bDualView := True\<rparr>" and ?s = "v\<lparr>m_bDualView := False\<rparr>"
  have dm: "draw_model env sc ?d m b p = draw_model env sc v m b p" "draw_model env sc ?s m b p = draw_model env sc v m b p" for m b p
    by (simp_all add: draw_model_def DrawBounding_def Let_def split: option.split)
  have cam: "m_Camera (set_aspect env f_one (set_aspect env (half f_one) ?d)) = m_Camera (set_aspect env f_one ?s)"
    using aspect_twice [of "ve_x env" "m_Camera v"] assms(1-3) by (simp add: set_aspect_def cameras_ok_def)
  from assms(4) obtain a b where a: "draw_model env sc v (m_matWorld1 v) (m_pModel1 v) (m_pd3dModel1 v) = Done a"
    "draw_model env sc v (m_matWorld2 v) (m_pModel2 v) (m_pd3dModel2 v) = Done b"
    "f2 = \<lparr>fr_view = m_matView (m_Camera v), fr_projs = [m_matProj (m_Camera (set_aspect env (half f_one) ?d)),
       m_matProj (m_Camera (set_aspect env f_one (set_aspect env (half f_one) ?d)))], fr_models = a @ b, fr_ad = None\<rparr>"
    "w2 = set_aspect env f_one (set_aspect env (half f_one) ?d)"
    by (auto simp: Render_def Let_def draw_model_aspect dm elim!: obind_DoneE)
  have h: "m_Camera (set_aspect env x ?d) = m_Camera (set_aspect env x v)" "m_pAdTex (set_aspect env x ?s) = m_pAdTex v" for x
    by (simp_all add: set_aspect_def)
  show ?thesis using a cam by (simp add: Render_def Let_def draw_model_aspect dm h)
qed

end
