(* ===== verification/D3DObj.thy ===== *)
theory D3DObj
  imports D3DProps
begin

text \<open>
  The converter and the Direct3D side together: what drawing and picking do with a model that came from an
  OBJ file, and with a 3dscan file whose triangles share vertices.
\<close>

section \<open>Converted models\<close>

lemma batch_own_vertices:
  assumes "batch_ok obj b" "convert_subset obj b = Done s"
  shows "own_vertices s"
proof -
  obtain hasN hasUv where b: "\<forall>f\<in>set (Faces b). face_ok obj hasN hasUv f" "bHasNormal b = Some hasN" "bHasUv b = Some hasUv"
    "triangles (Faces b) \<le> 19000000" "text_fits (sMatName b)"
    using assms(1) by (auto simp: batch_ok_def)
  have s: "s = subset_of obj hasN hasUv b" using convert_subset_Done [OF b(1,4,2,3)] assms(2) by simp
  have "unat (of_nat (triangles (Faces b)) :: u32) = triangles (Faces b)" "unat (of_nat (3 * triangles (Faces b)) :: u32) = 3 * triangles (Faces b)"
    by (rule unat_of_nat32, use b(4) in simp)+
  then show ?thesis using subset_of_ok [OF b(4,5)] b(4) unfolding own_vertices_def s by (simp add: subset_of_def Let_def unat_of_nat32)
qed

lemma convert_subsets_own:
  "\<forall>b\<in>set bs. Faces b \<noteq> [] \<longrightarrow> batch_ok obj b \<Longrightarrow> convert_subsets obj bs = Done ss \<Longrightarrow> \<forall>s\<in>set ss. own_vertices s"
proof (induction bs arbitrary: ss)
  case (Cons b bs)
  show ?case
  proof (cases "Faces b = []")
    case False
    then obtain s ss' where "convert_subset obj b = Done s" "convert_subsets obj bs = Done ss'" "ss = s # ss'"
      using Cons.prems(2) by (auto elim!: obind_DoneE)
    then show ?thesis using Cons.IH [of ss'] Cons.prems(1) False batch_own_vertices [of obj b s] by simp
  qed (use Cons in simp)
qed simp

lemma convert_parts_own:
  "\<forall>p\<in>set ps. obj_part_ok obj p \<Longrightarrow> convert_parts obj ps = Done qs \<Longrightarrow> \<forall>q\<in>set qs. \<forall>s\<in>set (mp_Subsets q). own_vertices s"
proof (induction ps arbitrary: qs)
  case (Cons p ps)
  obtain ss rest where r: "convert_subsets obj (subSets p) = Done ss" "convert_parts obj ps = Done rest"
    "qs = (if ss = [] then rest else \<lparr>mp_sName = text_bytes (op_sName p), mp_Subsets = ss\<rparr> # rest)"
    using Cons.prems(2) by (auto elim!: obind_DoneE)
  have "\<forall>s\<in>set ss. own_vertices s" using Cons.prems(1) r(1) by (intro convert_subsets_own) (simp_all add: obj_part_ok_def)
  then show ?case using Cons.IH [OF _ r(2)] Cons.prems(1) r(3) by auto
qed simp

lemma converted_unshared:
  assumes "obj_ok obj" "textures_fit fs" "ConvertObjTo3DModel fs cl obj (TD_SCAN_MODEL_new a b) = Done (obj', m)"
  shows "unshared m"
proof -
  have "convert_parts obj (subParts obj) = Done (Parts m)" using convert_run_parts [OF assms(1,2), of cl a b] assms(3) by auto
  then show ?thesis using convert_parts_own [of "subParts obj" obj "Parts m"] assms(1)
    by (auto simp: obj_ok_def list_all_iff unshared_def)
qed

section \<open>Shared vertices\<close>

text \<open>The ray test never looks at the indices: it gives the same hits whatever the index buffer says the triangles are.\<close>

lemma picking_ignores_indices: "tri_hits x pos dir who (b\<lparr>pIB := ib\<rparr>) i n = tri_hits x pos dir who b i n"
proof (induction n arbitrary: i)
  case (Suc n)
  have "vertex_at (b\<lparr>pIB := ib\<rparr>) k = vertex_at b k" for k by (simp add: vertex_at_def Let_def)
  then show ?case by (simp add: Suc.IH)
qed simp


text \<open>Every read of the ray test ends or runs out of the buffer.\<close>

lemma tri_hits_cases: "tri_hits x pos dir who s i n = UB \<or> (\<exists>hs. tri_hits x pos dir who s i n = Done hs)"
proof (induction n arbitrary: i)
  case (Suc n)
  have v: "vertex_at s k = UB \<or> (\<exists>p. vertex_at s k = Done p)" for k by (auto simp: vertex_at_def Let_def)
  show ?case using v [of "3 * i"] v [of "3 * i + 1"] v [of "3 * i + 2"] Suc.IH [of "i + 1"] by auto
qed simp

lemma vertex_at_past:
  assumes "subset_ok s" "unat (ss_uiVertCount s) \<le> i"
  shows "vertex_at s i = UB"
proof -
  have "unat (ss_uiVertCount s) * unat (GetVertexSize (ss_uiVertexFmt s)) \<le> i * unat (GetVertexSize (ss_uiVertexFmt s))"
    using assms(2) by (rule mult_le_mono1)
  moreover have "length (pVB s) = unat (ss_uiVertCount s) * unat (GetVertexSize (ss_uiVertexFmt s))"
    using assms(1) by (simp add: subset_ok_def mult.commute)
  ultimately have "\<not> i * unat (GetVertexSize (ss_uiVertexFmt s)) + 12 \<le> length (pVB s)" by linarith
  then show ?thesis unfolding vertex_at_def vertex_stride Let_def by simp
qed

lemma tri_hits_past:
  assumes "subset_ok s" "unat (ss_uiVertCount s) < 3 * (i + n)" "0 < n"
  shows "tri_hits x pos dir who s i n = UB"
  using assms(2,3)
proof (induction n arbitrary: i)
  case (Suc n)
  have v: "vertex_at s k = UB \<or> (\<exists>p. vertex_at s k = Done p)" for k by (auto simp: vertex_at_def Let_def)
  show ?case
  proof (cases "unat (ss_uiVertCount s) \<le> 3 * i + 2")
    case True
    then have "vertex_at s (3 * i + 2) = UB" by (rule vertex_at_past [OF assms(1)])
    then show ?thesis using v [of "3 * i"] v [of "3 * i + 1"] by auto
  next
    case False
    then have "0 < n" using Suc.prems by (cases n) simp_all
    then have "tri_hits x pos dir who s (i + 1) n = UB" using Suc.prems by (intro Suc.IH) simp_all
    then show ?thesis using v [of "3 * i"] v [of "3 * i + 1"] v [of "3 * i + 2"] by auto
  qed
qed simp

lemma hit_list_past:
  assumes "mirrors td d sh" "k < length (Parts td)" "j < length (mp_Subsets (Parts td ! k))"
    "subset_ok (mp_Subsets (Parts td ! k) ! j)"
    "unat (ss_uiVertCount (mp_Subsets (Parts td ! k) ! j)) < 3 * unat (ss_uiTriCount (mp_Subsets (Parts td ! k) ! j))"
  shows "hit_list x pos dir td d = UB"
proof -
  let ?f = "\<lambda>k. \<lambda>(j, s). obind (subset_base td s) (\<lambda>b. tri_hits x pos dir (k, j) b 0 (unat (ss_uiTriCount b)))"
  let ?g = "\<lambda>(k, p). obind (omap (?f k) (enumerate 0 (dp_Subsets p))) (\<lambda>hss. Done (concat hss))"
  have f: "?f k js = UB \<or> (\<exists>hs. ?f k js = Done hs)" for k js
    using tri_hits_cases by (cases js) (auto simp: subset_base_def split: prod.splits)
  have g: "?g kp = UB \<or> (\<exists>hs. ?g kp = Done hs)" for kp
    using omap_UB [of "enumerate 0 (dp_Subsets (snd kp))" "?f (fst kp)"] f by (cases kp) auto
  have "subset_base td (dp_Subsets (d_Parts d ! k) ! j) = Done (mp_Subsets (Parts td ! k) ! j)"
    using mirrors_nth(4) [OF assms(1-3)] assms(2,3) by (auto simp: subset_view_def subset_base_def)
  moreover have "0 < unat (ss_uiTriCount (mp_Subsets (Parts td ! k) ! j))" using assms(5) by simp
  ultimately have "?f k (j, dp_Subsets (d_Parts d ! k) ! j) = UB" using tri_hits_past [OF assms(4)] assms(5) by simp
  moreover have "(j, dp_Subsets (d_Parts d ! k) ! j) \<in> set (enumerate 0 (dp_Subsets (d_Parts d ! k)))"
    using mirrors_nth(3) [OF assms(1,2)] assms(3) by (simp add: in_set_enumerate_eq)
  ultimately have "omap (?f k) (enumerate 0 (dp_Subsets (d_Parts d ! k))) = UB"
    using omap_UB_iff [of "enumerate 0 (dp_Subsets (d_Parts d ! k))" "?f k"] f by blast
  then have "?g (k, d_Parts d ! k) = UB" by simp
  moreover have "(k, d_Parts d ! k) \<in> set (enumerate 0 (d_Parts d))"
    using mirrors_nth(1) [OF assms(1)] assms(2) by (simp add: in_set_enumerate_eq)
  ultimately have "omap ?g (enumerate 0 (d_Parts d)) = UB" using omap_UB_iff [of "enumerate 0 (d_Parts d)" ?g] g by blast
  then show ?thesis by (simp add: hit_list_def)
qed

section \<open>Properties\<close>

text \<open>
  An OBJ without a material library is converted into a well-formed model that crashes whatever draws it:
  no subset has its material in the model, so the renderer calls through a null pointer at the first one.
\<close>

theorem obj_without_materials_crashes_renderer:
  assumes "obj_ok obj" "obj_Materials obj = []" "textures_fit fs" "x_device x" "\<forall>h. x_effect x h" "gpu_ok g"
  shows "\<exists>obj' m d g'. ConvertObjTo3DModel fs cl obj (TD_SCAN_MODEL_new a b) = Done (obj', m) \<and> model_ok m \<and>
    CreateFromTDModel x m (D3D_MODEL_new p q) g = Done (True, d, g') \<and> RenderD3DModel x m d = UB"
proof -
  obtain m ps where m: "ConvertObjTo3DModel fs cl obj (TD_SCAN_MODEL_new a b) =
      Done (obj\<lparr>obj_Materials := map strip_maps (obj_Materials obj)\<rparr>, m)" "model_ok m"
    "Materials m = Materials (convert_materials (obj_Materials obj) ((TD_SCAN_MODEL_new a b)\<lparr>Parts := ps\<rparr>))"
    using convert_run_parts [OF assms(1,3), of cl a b] by blast
  have e: "Materials m = []" using m(3) assms(2) by (simp add: convert_materials_def TD_SCAN_MODEL_new_def)
  obtain d g1 where c: "CreateFromTDModel x m (D3D_MODEL_new p q) g = Done (True, d, g1)" "created x m g d g1"
    using create_run [OF model_ok_maps [OF m(2)] assms(4,6), of p q] by blast
  have "Parts m \<noteq> [] \<and> (\<forall>p\<in>set (Parts m). mp_Subsets p \<noteq> [])" using m(2) by (simp add: model_ok_def part_ok_def)
  then obtain q s where "q \<in> set (Parts m)" "s \<in> set (mp_Subsets q)" by (metis list.set_intros(1) neq_Nil_conv)
  moreover have "shader_of d n = None" for n using created_unknown [OF c(2)] by (simp add: e)
  ultimately have "RenderD3DModel x m d = UB" using render_UB_iff [OF created_mirrors [OF c(2)], of x] by blast
  then show ?thesis using m(1,2) c(1) by blast
qed

text \<open>
  Clicking on a model with shared vertices reads past its vertex buffer: the ray test takes three vertices per
  triangle from the buffer and ignores the indices, so one subset with fewer vertices than that makes it overrun, for
  every ray, although the file is well formed and draws correctly.
\<close>

theorem picking_shared_vertices_overruns:
  assumes "maps_ok td" "x_device x" "gpu_ok g" "k < length (Parts td)" "j < length (mp_Subsets (Parts td ! k))"
    "subset_ok (mp_Subsets (Parts td ! k) ! j)"
    "unat (ss_uiVertCount (mp_Subsets (Parts td ! k) ! j)) < 3 * unat (ss_uiTriCount (mp_Subsets (Parts td ! k) ! j))"
  shows "\<exists>d g'. CreateFromTDModel x td (D3D_MODEL_new a b) g = Done (True, d, g') \<and> IntersectRay x pos dir td d = UB"
proof -
  obtain d g1 where c: "CreateFromTDModel x td (D3D_MODEL_new a b) g = Done (True, d, g1)" "created x td g d g1"
    using create_run [OF assms(1-3), of a b] by blast
  have "hit_list x pos dir td d = UB" by (rule hit_list_past [OF created_mirrors [OF c(2)] assms(4-7)])
  then show ?thesis using c(1) by (simp add: IntersectRay_def)
qed

end
