(* ===== verification/ModelEditorProps.thy ===== *)
theory ModelEditorProps
  imports ModelEditor ViewerGuiProps ScanProps D3DObj
begin

text \<open>
  The editor keeps its models, its device objects, its list of textures and its camera consistent whatever the user does, and what an
  imported OBJ becomes when it is edited, saved and opened again.
\<close>

section \<open>Models that are loaded or converted\<close>

lemma smap_put_mem: "smap_inv m \<Longrightarrow> k \<in> fst ` set m \<Longrightarrow> smap_put k v m = map (\<lambda>(k', v'). (k', if k' = k then v else v')) m"
proof (induction m)
  case (Cons a m)
  obtain k' v' where a: "a = (k', v')" by (cases a)
  have i: "\<forall>x\<in>set m. k' < fst x" "smap_inv m" using Cons.prems(1) by (auto simp: smap_inv_def a)
  have "map (\<lambda>(k', v'). (k', if k' = k then v else v')) m = m" if "k = k'"
    using i(1) that by (intro map_idI) auto
  then show ?case using Cons i by (auto simp: a)
qed simp

lemma convert_materials_maps:
  assumes "smap_inv (Materials m)" "\<forall>km\<in>set (Materials m). mm_sName (snd km) = fst km"
  shows "smap_inv (Materials (convert_materials ms m)) \<and> (\<forall>km\<in>set (Materials (convert_materials ms m)). mm_sName (snd km) = fst km) \<and>
    Textures (convert_materials ms m) = Textures m"
  using assms
proof (induction ms arbitrary: m)
  case (Cons a ms)
  let ?x = "convert_material (strip_maps a)"
  let ?m = "if material_used (mm_sName ?x) (Parts m) then m\<lparr>Materials := smap_put (mm_sName ?x) ?x (Materials m)\<rparr> else m"
  have "smap_inv (Materials ?m)" "\<forall>km\<in>set (Materials ?m). mm_sName (snd km) = fst km"
    using Cons.prems set_smap_put_subset [of "mm_sName ?x" ?x "Materials m"] by (auto simp: smap_put_inv)
  moreover have "convert_materials (a # ms) m = convert_materials ms ?m" by (simp add: convert_materials_def Let_def)
  ultimately show ?case using Cons.IH [of ?m] by simp
qed (simp add: convert_materials_def)

lemma add_textures_maps:
  "add_textures fs cl ts m = Done m' \<Longrightarrow> maps_ok m \<Longrightarrow> maps_ok m'"
proof (induction ts arbitrary: m)
  case (Cons t ts)
  obtain r m1 where 1: "LoadAndAddToTextures fs cl t m = Done (r, m1)" "add_textures fs cl ts m1 = Done m'"
    using Cons.prems(1) by (auto elim!: obind_DoneE)
  have "maps_ok m1" using 1(1) Cons.prems(2) set_smap_put_subset [of "text_bytes t" _ "Textures m"]
    by (fastforce simp: LoadAndAddToTextures_def maps_ok_def smap_put_inv split: if_splits option.splits)
  then show ?case using Cons.IH [OF 1(2)] by simp
qed simp

lemma converted_maps:
  assumes "ConvertObjTo3DModel fs cl obj (TD_SCAN_MODEL_new a b) = Done (obj', td)"
  shows "maps_ok td"
proof -
  obtain ps where "add_textures fs cl (concat (map (material_textures \<circ> snd) (Materials (convert_materials (obj_Materials obj)
      ((TD_SCAN_MODEL_new a b)\<lparr>Parts := ps\<rparr>))))) (convert_materials (obj_Materials obj) ((TD_SCAN_MODEL_new a b)\<lparr>Parts := ps\<rparr>)) = Done td"
    using assms by (auto simp: ConvertObjTo3DModel_def Let_def elim!: obind_DoneE)
  then show ?thesis
    by (rule add_textures_maps) (use convert_materials_maps [of "(TD_SCAN_MODEL_new a b)\<lparr>Parts := ps\<rparr>" "obj_Materials obj"] in
      \<open>simp add: maps_ok_def TD_SCAN_MODEL_new_def smap.inv_empty\<close>)
qed

lemma loaded_maps: "Load3DScanModelFromFile lz junk fuel fs n = Done td \<Longrightarrow> maps_ok td"
  by (auto simp: Load3DScanModelFromFile_def maps_ok_def loaded_ok_def split: prod.splits bool.splits dest!: Load_Done)

section \<open>Average colours\<close>

text \<open>What saving makes of a texture, and of a model.\<close>

definition averaged_slot :: "editor_env \<Rightarrow> TD_MODEL_TEXTURE_SLOT \<Rightarrow> TD_MODEL_TEXTURE_SLOT" where
  "averaged_slot env b = (case ee_bitmap env (take (unat (ts_uiSize b)) (ts_pData b)) of None \<Rightarrow> b
     | Some bmp \<Rightarrow> (case average_colour bmp of Done c \<Rightarrow> b\<lparr>ts_clrAvgColor := c\<rparr> | _ \<Rightarrow> b))"

definition averaged :: "editor_env \<Rightarrow> TD_SCAN_MODEL \<Rightarrow> TD_SCAN_MODEL" where
  "averaged env td = td\<lparr>Textures := map (\<lambda>(k, b). (k, averaged_slot env b)) (Textures td)\<rparr>"

definition bitmaps_ok :: "editor_env \<Rightarrow> bool" where
  "bitmaps_ok env \<longleftrightarrow> (\<forall>d w h px. ee_bitmap env d = Some (w, h, px) \<longrightarrow> 0 < w * h \<and> w * h < 2 ^ 31)"

lemma average_colour_run: "bitmaps_ok env \<Longrightarrow> ee_bitmap env d = Some bmp \<Longrightarrow> \<exists>c. average_colour bmp = Done c"
  by (cases bmp) (fastforce simp: bitmaps_ok_def average_colour_def Let_def)

lemma averaged_slot_fields [simp]:
  "ts_sName (averaged_slot env b) = ts_sName b" "ts_pData (averaged_slot env b) = ts_pData b" "ts_uiSize (averaged_slot env b) = ts_uiSize b"
  by (simp_all add: averaged_slot_def split: option.split outcome.split)

lemma averaged_fields [simp]:
  "Parts (averaged env td) = Parts td" "Materials (averaged env td) = Materials td" "map fst (Textures (averaged env td)) = map fst (Textures td)"
  by (simp_all add: averaged_def comp_def case_prod_beta)

lemma averaged_model_ok: "model_ok td \<Longrightarrow> model_ok (averaged env td)"
  by (auto simp: model_ok_def averaged_def smap_inv_def comp_def case_prod_beta texture_ok_def)

text \<open>One more slot that is averaged, among slots some of which are.\<close>

definition averaged_at :: "editor_env \<Rightarrow> bytes set \<Rightarrow> TD_SCAN_MODEL \<Rightarrow> TD_SCAN_MODEL" where
  "averaged_at env ks td = td\<lparr>Textures := map (\<lambda>(k, b). (k, if k \<in> ks then averaged_slot env b else b)) (Textures td)\<rparr>"

lemma averaged_at_inv: "maps_ok td \<Longrightarrow> maps_ok (averaged_at env ks td)"
  by (auto simp: maps_ok_def averaged_at_def smap_inv_def comp_def case_prod_beta)

lemma average_textures_run:
  assumes "bitmaps_ok env" "maps_ok td" "\<forall>kt\<in>set (Textures td). length (ts_pData (snd kt)) = unat (ts_uiSize (snd kt))"
    "\<forall>t\<in>set ts. dt_pBase (snd t) = fst t \<and> fst t \<in> fst ` set (Textures td)" "distinct (map fst ts)"
  shows "average_textures env ts td = Done (averaged_at env (fst ` set ts) td)"
  using assms(2-)
proof (induction ts arbitrary: td)
  case Nil
  then show ?case by (simp add: averaged_at_def)
next
  case (Cons a ts)
  obtain k t where a: "a = (k, t)" by (cases a)
  have t: "dt_pBase t = k" "k \<in> fst ` set (Textures td)" "k \<notin> fst ` set ts" using Cons.prems(3,4) by (auto simp: a)
  then obtain b where b: "(k, b) \<in> set (Textures td)" by auto
  have i: "smap_inv (Textures td)" using Cons.prems(1) by (simp add: maps_ok_def)
  have g: "smap_get (Textures td) k = Some b" by (rule smap_get_mem [OF i b])
  have l: "length (ts_pData b) = unat (ts_uiSize b)" using Cons.prems(2) b by force
  define td1 where "td1 = averaged_at env {k} td"
  have put: "td\<lparr>Textures := smap_put k (averaged_slot env b) (Textures td)\<rparr> = td1"
  proof -
    have "(if k' = k then averaged_slot env b else v') = (if k' = k then averaged_slot env v' else v')" if "(k', v') \<in> set (Textures td)" for k' v'
      using smap_get_mem [OF i that] g by auto
    then have "map (\<lambda>(k', v'). (k', if k' = k then averaged_slot env b else v')) (Textures td) =
        map (\<lambda>(k', v'). (k', if k' \<in> {k} then averaged_slot env v' else v')) (Textures td)"
      by (intro map_cong refl) auto
    then show ?thesis by (simp add: td1_def averaged_at_def smap_put_mem [OF i t(2)])
  qed
  have step: "average_textures env (a # ts) td = average_textures env ts td1"
  proof (cases "ee_bitmap env (take (unat (ts_uiSize b)) (ts_pData b))")
    case None
    then have "averaged_slot env b = b" by (simp add: averaged_slot_def)
    moreover have "smap_put k b (Textures td) = Textures td"
    proof -
      have "(if k' = k then b else v') = v'" if "(k', v') \<in> set (Textures td)" for k' v' using smap_get_mem [OF i that] g by auto
      then show ?thesis unfolding smap_put_mem [OF i t(2)] by (intro map_idI) auto
    qed
    ultimately have "td1 = td" using put by simp
    then show ?thesis using None l g t(1) by (simp add: a texture_base_def)
  next
    case (Some bmp)
    then obtain c where c: "average_colour bmp = Done c" using average_colour_run [OF assms(1)] by blast
    then have "averaged_slot env b = b\<lparr>ts_clrAvgColor := c\<rparr>" using Some by (simp add: averaged_slot_def)
    then show ?thesis using Some c l g t(1) put by (simp add: a texture_base_def)
  qed
  have keys: "fst ` set (Textures td1) = fst ` set (Textures td)" by (force simp: td1_def averaged_at_def)
  have sz: "\<forall>kt\<in>set (Textures td1). length (ts_pData (snd kt)) = unat (ts_uiSize (snd kt))"
    using Cons.prems(2) by (auto simp: td1_def averaged_at_def)
  have "average_textures env ts td1 = Done (averaged_at env (fst ` set ts) td1)"
    by (rule Cons.IH) (use Cons.prems averaged_at_inv [OF Cons.prems(1)] sz keys in \<open>simp_all add: td1_def\<close>)
  moreover have "averaged_at env (fst ` set ts) td1 = averaged_at env (fst ` set (a # ts)) td"
  proof -
    have "map ((\<lambda>(k, b). (k, if k \<in> fst ` set ts then averaged_slot env b else b)) \<circ> (\<lambda>(k', b). (k', if k' \<in> {k} then averaged_slot env b else b)))
        (Textures td) = map (\<lambda>(k', b). (k', if k' \<in> fst ` set (a # ts) then averaged_slot env b else b)) (Textures td)"
      using t(3) by (intro map_cong refl) (auto simp: a)
    then show ?thesis by (simp add: td1_def averaged_at_def)
  qed
  ultimately show ?case using step by simp
qed

lemma averaged_at_all: "fst ` set (Textures td) \<subseteq> ks \<Longrightarrow> averaged_at env ks td = averaged env td"
proof -
  assume "fst ` set (Textures td) \<subseteq> ks"
  then have "map (\<lambda>(k, b). (k, if k \<in> ks then averaged_slot env b else b)) (Textures td) = map (\<lambda>(k, b). (k, averaged_slot env b)) (Textures td)"
    by (intro map_cong refl) auto
  then show ?thesis by (simp add: averaged_at_def averaged_def)
qed

text \<open>Without conditions on the pictures: whatever is averaged, keys and names stay.\<close>

lemma average_textures_keys:
  "average_textures env ts td = Done td' \<Longrightarrow> maps_ok td \<Longrightarrow> maps_ok td' \<and> map fst (Textures td') = map fst (Textures td)"
proof (induction env ts td rule: average_textures.induct)
  case (2 env k t ts td)
  from 2(3) obtain b where b: "texture_base td t = Done b" by (auto elim!: obind_DoneE)
  have m: "(dt_pBase t, b) \<in> set (Textures td)" using b by (auto simp: texture_base_def smap_get_def split: option.splits dest: map_of_SomeD)
  have i: "smap_inv (Textures td)" "\<forall>kt\<in>set (Textures td). ts_sName (snd kt) = fst kt" using 2(4) by (simp_all add: maps_ok_def)
  have "maps_ok (td\<lparr>Textures := smap_put (dt_pBase t) (b\<lparr>ts_clrAvgColor := c\<rparr>) (Textures td)\<rparr>) \<and>
    map fst (smap_put (dt_pBase t) (b\<lparr>ts_clrAvgColor := c\<rparr>) (Textures td)) = map fst (Textures td)" for c
  proof -
    have "dt_pBase t \<in> fst ` set (Textures td)" using m by force
    note p = smap_put_mem [OF i(1) this, of "b\<lparr>ts_clrAvgColor := c\<rparr>"]
    have "map fst (smap_put (dt_pBase t) (b\<lparr>ts_clrAvgColor := c\<rparr>) (Textures td)) = map fst (Textures td)"
      unfolding p by (simp add: comp_def case_prod_beta)
    moreover have "ts_sName b = dt_pBase t" using i(2) m by force
    moreover have "\<forall>kt\<in>set (smap_put (dt_pBase t) (b\<lparr>ts_clrAvgColor := c\<rparr>) (Textures td)). ts_sName (snd kt) = fst kt"
      using set_smap_put_subset [of "dt_pBase t" "b\<lparr>ts_clrAvgColor := c\<rparr>" "Textures td"] i(2) m by fastforce
    ultimately show ?thesis using 2(4) smap_put_inv [OF i(1)] by (simp add: maps_ok_def)
  qed
  then show ?case using 2 b by (auto split: option.splits if_splits elim!: obind_DoneE)
qed simp

section \<open>The invariant\<close>

text \<open>
  The camera's matrices follow its description; every object of the device that the shader and the model hold is alive; there is a
  loaded model exactly when there is a Direct3D model, whose textures are those of the loaded model and are the ones the inspector lists.
\<close>

definition texture_list_of :: "TD_SCAN_MODEL \<Rightarrow> bytes list" where
  "texture_list_of td = map c_str (map fst (Textures td)) @ [[]]"

definition models_ok :: "CModelEditorDlg \<Rightarrow> bool" where
  "models_ok e \<longleftrightarrow> (case (ed_pModel1 e, ed_pd3dModel1 e) of
      (None, None) \<Rightarrow> \<not> ed_bFileOpened e
    | (Some td, Some d) \<Rightarrow> names_ok td d \<and> combo_names e = texture_list_of td
    | _ \<Rightarrow> False)"

definition refs_ok :: "CModelEditorDlg \<Rightarrow> bool" where
  "refs_ok e \<longleftrightarrow> gpu_ok (ed_gpu e) \<and>
     (\<forall>i. held_opt (ed_pd3dModel1 e) i + count_list [ed_pShader e] (Some i) \<le> g_refs (ed_gpu e) i)"

definition editor_ok :: "editor_env \<Rightarrow> CModelEditorDlg \<Rightarrow> bool" where
  "editor_ok env e \<longleftrightarrow> in_sync (ee_x env) (ed_Camera e) \<and> refs_ok e \<and> models_ok e"

lemma combo_names_cong: "ed_ppszTextureNames e' = ed_ppszTextureNames e \<Longrightarrow> ed_iTextureCount e' = ed_iTextureCount e \<Longrightarrow> combo_names e' = combo_names e"
  by (simp add: combo_names_def split: option.split)

lemma combo_names_fields [simp]:
  "combo_names (e\<lparr>ed_bFileOpened := b\<rparr>) = combo_names e" "combo_names (e\<lparr>ed_bHasFilename := b\<rparr>) = combo_names e"
  "combo_names (e\<lparr>ed_strFilename := n\<rparr>) = combo_names e" "combo_names (e\<lparr>ed_pModel1 := m\<rparr>) = combo_names e"
  "combo_names (e\<lparr>ed_pd3dModel1 := d\<rparr>) = combo_names e" "combo_names (e\<lparr>ed_fs := f\<rparr>) = combo_names e"
  by (rule combo_names_cong; simp)+

lemma models_ok_cong:
  "ed_pModel1 e' = ed_pModel1 e \<Longrightarrow> ed_pd3dModel1 e' = ed_pd3dModel1 e \<Longrightarrow> ed_bFileOpened e' = ed_bFileOpened e \<Longrightarrow>
     ed_ppszTextureNames e' = ed_ppszTextureNames e \<Longrightarrow> ed_iTextureCount e' = ed_iTextureCount e \<Longrightarrow> models_ok e' = models_ok e"
  using combo_names_cong [of e' e] by (simp add: models_ok_def split: option.split)

lemma refs_ok_cong:
  "ed_gpu e' = ed_gpu e \<Longrightarrow> (\<And>i. held_opt (ed_pd3dModel1 e') i = held_opt (ed_pd3dModel1 e) i) \<Longrightarrow> ed_pShader e' = ed_pShader e \<Longrightarrow> refs_ok e' = refs_ok e"
  by (simp add: refs_ok_def)

lemma models_okE:
  assumes "models_ok e" "ed_pModel1 e = Some td"
  obtains d where "ed_pd3dModel1 e = Some d" "names_ok td d" "combo_names e = texture_list_of td"
  using assms by (auto simp: models_ok_def split: option.splits)

lemma models_ok_d3d: "models_ok e \<Longrightarrow> ed_pd3dModel1 e = Some d \<Longrightarrow> \<exists>td. ed_pModel1 e = Some td \<and> names_ok td d"
  by (auto simp: models_ok_def split: option.splits)

section \<open>Opening and importing\<close>

lemma FillTextureList_ed_run:
  assumes "ed_pd3dModel1 e = Some d" "ed_pModel1 e = Some td" "names_ok td d"
  shows "\<exists>ns n. FillTextureList_ed e = Done (e\<lparr>ed_ppszTextureNames := Some ns, ed_iTextureCount := n\<rparr>) \<and> ns = texture_list_of td \<and> n = int (length ns)"
proof -
  have "texture_names td d = Done (map fst (Textures td))" using assms(3) by (intro texture_names_keys) (simp_all add: names_ok_def)
  then show ?thesis using assms(1,2) by (simp add: FillTextureList_ed_def deref_def texture_list_of_def Let_def)
qed

lemma replace_ed_run:
  assumes "refs_ok e" "maps_ok td" "x_device (ee_d3d env)"
  shows "\<exists>d g e'. replace_ed env b td e = Done (True, e') \<and> created (ee_d3d env) td (ed_gpu e) d g \<and> ed_pd3dModel1 e' = Some d \<and> ed_pModel1 e' = Some td \<and>
    ed_fs e' = ed_fs e \<and> ed_Camera e' = ed_Camera e \<and> ed_bFileOpened e' = ed_bFileOpened e \<and> refs_ok e' \<and> names_ok td d \<and> combo_names e' = texture_list_of td \<and>
    ed_pShader e' = ed_pShader e"
proof -
  have g0: "gpu_ok (ed_gpu e)" using assms(1) by (simp add: refs_ok_def)
  from create_run [OF assms(2,3) g0, of zero3 zero3] obtain d g where
    c: "CreateFromTDModel (ee_d3d env) td (D3D_MODEL_new zero3 zero3) (ed_gpu e) = Done (True, d, g)" "created (ee_d3d env) td (ed_gpu e) d g" by blast
  have r: "gpu_ok g" "g_refs g i = g_refs (ed_gpu e) i + held d i" for i using c(2) by (simp_all add: created_def)
  have le: "held_opt (ed_pd3dModel1 e) i + count_list [ed_pShader e] (Some i) + held d i \<le> g_refs g i" for i
    using assms(1) r(2) [of i] by (simp add: refs_ok_def)
  have "held_opt (ed_pd3dModel1 e) i \<le> g_refs g i" for i using le [of i] by linarith
  from free_d3d_run [OF this] obtain g' where f: "free_d3d (ed_pd3dModel1 e) g = Done g'" "g_next g' = g_next g"
    "\<forall>i. g_refs g' i = g_refs g i - held_opt (ed_pd3dModel1 e) i" by blast
  have n: "names_ok td d" by (rule created_names [OF c(2) assms(2)])
  let ?e = "e\<lparr>ed_gpu := g', ed_pModel1 := Some td, ed_pd3dModel1 := Some d,
    ed_lostModels := ed_lostModels e + (if b \<or> ed_pModel1 e = None then 0 else 1)\<rparr>"
  from FillTextureList_ed_run [of ?e d td] n obtain ns k where
    t: "FillTextureList_ed ?e = Done (?e\<lparr>ed_ppszTextureNames := Some ns, ed_iTextureCount := k\<rparr>)" "ns = texture_list_of td" "k = int (length ns)" by auto
  have "gpu_ok g'" using r(1) f(2,3) by (simp add: gpu_ok_def)
  moreover have "held d i + count_list [ed_pShader e] (Some i) \<le> g_refs g' i" for i using le [of i] f(3) by simp
  ultimately have "refs_ok (?e\<lparr>ed_ppszTextureNames := Some ns, ed_iTextureCount := k\<rparr>)" by (simp add: refs_ok_def held_opt_def)
  moreover have "combo_names (?e\<lparr>ed_ppszTextureNames := Some ns, ed_iTextureCount := k\<rparr>) = texture_list_of td"
    using t(2,3) by (simp add: combo_names_def)
  ultimately show ?thesis using c n f(1) t(1)
    by (intro exI [of _ d] exI [of _ g] exI [of _ "?e\<lparr>ed_ppszTextureNames := Some ns, ed_iTextureCount := k\<rparr>"]) (simp add: replace_ed_def)
qed

lemma replace_ed_no_device: "\<not> x_device (ee_d3d env) \<Longrightarrow> replace_ed env b td e = Done (False, e)"
  by (simp add: replace_ed_def CreateFromTDModel_def)

lemma editor_ok_cong:
  "ed_Camera e' = ed_Camera e \<Longrightarrow> ed_gpu e' = ed_gpu e \<Longrightarrow> ed_pShader e' = ed_pShader e \<Longrightarrow> ed_pModel1 e' = ed_pModel1 e \<Longrightarrow>
     ed_pd3dModel1 e' = ed_pd3dModel1 e \<Longrightarrow> ed_bFileOpened e' = ed_bFileOpened e \<Longrightarrow> ed_ppszTextureNames e' = ed_ppszTextureNames e \<Longrightarrow>
     ed_iTextureCount e' = ed_iTextureCount e \<Longrightarrow> editor_ok env e' = editor_ok env e"
  using models_ok_cong [of e' e] refs_ok_cong [of e' e] by (simp add: editor_ok_def)

lemma editor_ok_fields [simp]:
  "editor_ok env (e\<lparr>ed_fs := fs\<rparr>) = editor_ok env e" "editor_ok env (e\<lparr>ed_bHasFilename := b\<rparr>) = editor_ok env e"
  "editor_ok env (e\<lparr>ed_strFilename := n\<rparr>) = editor_ok env e" "editor_ok env (e\<lparr>ed_clrClear := c\<rparr>) = editor_ok env e"
  "editor_ok env (e\<lparr>ed_clrLight := c\<rparr>) = editor_ok env e" "editor_ok env (e\<lparr>ed_iFileSize := i\<rparr>) = editor_ok env e"
  "editor_ok env (e\<lparr>ed_ptStart := p\<rparr>) = editor_ok env e"
  by (rule editor_ok_cong; simp)+

lemma replace_ed_ok:
  assumes "replace_ed env b td e = Done (ok, e')" "editor_ok env e" "maps_ok td"
  shows "editor_ok env (if ok then e'\<lparr>ed_bFileOpened := True, ed_bHasFilename := h\<rparr> else e')"
proof (cases "x_device (ee_d3d env)")
  case True
  from replace_ed_run [OF _ assms(3) True, of e b] assms(1,2) obtain d where
    "ok" "ed_pd3dModel1 e' = Some d" "ed_pModel1 e' = Some td" "ed_Camera e' = ed_Camera e" "refs_ok e'" "names_ok td d" "combo_names e' = texture_list_of td"
    by (auto simp: editor_ok_def)
  then show ?thesis using assms(2) by (simp add: editor_ok_def models_ok_def refs_ok_def)
next
  case False
  then show ?thesis using assms(1,2) by (simp add: replace_ed_no_device)
qed

lemma import_ok: "import_obj env dlg e = Done e' \<Longrightarrow> editor_ok env e \<Longrightarrow> editor_ok env e'"
proof -
  assume "import_obj env dlg e = Done e'" "editor_ok env e"
  then obtain fs r obj obj' td ok e1 a b where "ConvertObjTo3DModel fs (ee_clr env) obj (TD_SCAN_MODEL_new a b) = Done (obj', td)"
    "replace_ed env True td e = Done (ok, e1)" "e' = (if ok then e1\<lparr>ed_bFileOpened := True, ed_bHasFilename := False\<rparr> else e1)"
    by (auto simp: import_obj_def Let_def case_prod_beta elim!: obind_DoneE)
  then show "editor_ok env e'"
    using replace_ed_ok [of env True td e ok e1 False] converted_maps [of fs "ee_clr env" obj a b] \<open>editor_ok env e\<close> by simp
qed

lemma open_ok: "Load3DScanFile_ed env p e = Done e' \<Longrightarrow> editor_ok env e \<Longrightarrow> editor_ok env e'"
proof -
  assume o: "Load3DScanFile_ed env p e = Done e'" "editor_ok env e"
  show "editor_ok env e'"
  proof (cases "Load3DScanModelFromFile (ee_lz env) (ee_junk env) (ee_fuel env) (ed_fs e) (Some p)")
    case (Done td)
    from o(1) obtain ok e1 where r: "replace_ed env False td e = Done (ok, e1)"
      "e' = (if ok then e1\<lparr>ed_strFilename := p, ed_bFileOpened := True, ed_bHasFilename := True\<rparr> else e1)"
      by (auto simp: Load3DScanFile_ed_def Done elim!: obind_DoneE)
    have "editor_ok env (e1\<lparr>ed_strFilename := p, ed_bFileOpened := True, ed_bHasFilename := True\<rparr>) =
        editor_ok env (e1\<lparr>ed_bFileOpened := True, ed_bHasFilename := True\<rparr>)" by (rule editor_ok_cong) simp_all
    then show ?thesis using replace_ed_ok [OF r(1) o(2) loaded_maps [OF Done], of True] r(2) by (simp split: if_splits)
  qed (use o in \<open>auto simp: Load3DScanFile_ed_def\<close>)
qed

section \<open>The other commands\<close>

lemma calc_ok:
  assumes "CalcTextureAverages env e = Done e'" "editor_ok env e"
  shows "editor_ok env e' \<and> ed_fs e' = ed_fs e \<and> ed_bFileOpened e' = ed_bFileOpened e"
proof (cases "ed_pd3dModel1 e")
  case (Some d)
  then obtain td where td: "ed_pModel1 e = Some td" "names_ok td d" using assms(2) models_ok_d3d by (auto simp: editor_ok_def)
  then obtain td' where a: "average_textures env (d_Textures d) td = Done td'" "e' = e\<lparr>ed_pModel1 := Some td'\<rparr>"
    using assms(1) by (auto simp: CalcTextureAverages_def Some deref_def elim!: obind_DoneE)
  have "maps_ok td'" "map fst (Textures td') = map fst (Textures td)"
    using average_textures_keys [OF a(1)] td(2) by (simp_all add: names_ok_def)
  then show ?thesis using assms(2) td by (simp add: editor_ok_def refs_ok_def models_ok_def a(2) Some names_ok_def texture_list_of_def)
qed (use assms in \<open>simp add: CalcTextureAverages_def\<close>)

lemma save_file_ok: "save_file env n e = Done e' \<Longrightarrow> editor_ok env e \<Longrightarrow> editor_ok env e'"
  by (auto simp: save_file_def elim!: obind_DoneE split: option.splits)

lemma save_under_ok: "save_under env dlg e = Done e' \<Longrightarrow> editor_ok env e \<Longrightarrow> editor_ok env e'"
  by (auto simp: save_under_def elim!: obind_DoneE split: option.splits dest!: calc_ok save_file_ok)

lemma save_ok: "menu_save env dlg e = Done e' \<Longrightarrow> editor_ok env e \<Longrightarrow> editor_ok env e'" "menu_save_as env dlg e = Done e' \<Longrightarrow> editor_ok env e \<Longrightarrow> editor_ok env e'"
  by (auto simp: menu_save_def menu_save_as_def split: if_splits dest: save_under_ok save_file_ok)

text \<open>The inspector and a click change flags and materials of subsets; materials and textures of the model stay.\<close>

lemma at_part_fields [simp]: "d_Materials (at_part i f d) = d_Materials d" "d_Textures (at_part i f d) = d_Textures d"
  by (simp_all add: at_part_def)

lemma at_subset_fields [simp]: "d_Materials (at_subset i j f d) = d_Materials d" "d_Textures (at_subset i j f d) = d_Textures d"
  by (simp_all add: at_subset_def)

lemma inspect_fields [simp]: "d_Materials (inspect_model ns w d) = d_Materials d" "d_Textures (inspect_model ns w d) = d_Textures d"
  by (cases w; simp add: inspect_model_def)+

lemma edited_ok:
  assumes "editor_ok env e" "ed_pd3dModel1 e = Some d" "d_Materials d' = d_Materials d" "d_Textures d' = d_Textures d"
  shows "editor_ok env (e\<lparr>ed_pd3dModel1 := Some d'\<rparr>)"
proof -
  have "held d' i = held d i" for i using assms(3,4) by (simp add: held_def)
  moreover have "names_ok td d' = names_ok td d" for td using assms(4) by (simp add: names_ok_def)
  ultimately show ?thesis using assms(1,2) by (simp add: editor_ok_def refs_ok_def models_ok_def held_opt_def split: option.splits)
qed

lemma inspect_ok: "editor_ok env e \<Longrightarrow> editor_ok env (inspect w e)"
proof (cases "ed_pd3dModel1 e")
  case None
  then have "inspect w e = e" by (simp add: inspect_def)
  then show "editor_ok env e \<Longrightarrow> editor_ok env (inspect w e)" by simp
next
  case (Some d)
  then show "editor_ok env e \<Longrightarrow> editor_ok env (inspect w e)" using edited_ok [of env e d "inspect_model (combo_names e) w d"] by (simp add: inspect_def)
qed

lemma pick_ok: "pick env rc imd e = Done e' \<Longrightarrow> editor_ok env e \<Longrightarrow> editor_ok env e'"
proof -
  assume p: "pick env rc imd e = Done e'" "editor_ok env e"
  show "editor_ok env e'"
  proof (cases "ed_pd3dModel1 e")
    case None
    then show ?thesis using p by (auto simp: pick_def deref_def Let_def elim!: obind_DoneE split: option.splits)
  next
    case (Some d)
    then show ?thesis using p edited_ok [OF p(2) Some at_subset_fields]
      by (auto simp: pick_def Let_def deref_def elim!: obind_DoneE split: option.splits)
  qed
qed

text \<open>What only moves the view.\<close>

definition view_only :: "(CModelEditorDlg \<Rightarrow> CModelEditorDlg) \<Rightarrow> bool" where
  "view_only f \<longleftrightarrow> (\<forall>e. let e' = f e in ed_gpu e' = ed_gpu e \<and> ed_pShader e' = ed_pShader e \<and> ed_pModel1 e' = ed_pModel1 e \<and>
     ed_pd3dModel1 e' = ed_pd3dModel1 e \<and> ed_bFileOpened e' = ed_bFileOpened e \<and> ed_ppszTextureNames e' = ed_ppszTextureNames e \<and>
     ed_iTextureCount e' = ed_iTextureCount e \<and> ed_fs e' = ed_fs e)"

lemma view_only_moves:
  "view_only (Update_ed env k)" "view_only (on_drag_ed env imd)" "view_only (OnSize_ed env rc cx cy)" "view_only (upload_progress n)"
  by (simp_all add: view_only_def Let_def Update_ed_def on_drag_ed_def OnSize_ed_def upload_progress_def UpdateWorldMatrix_ed_def move_camera_ed_def)

lemma view_only_ok: "view_only f \<Longrightarrow> editor_ok env e \<Longrightarrow> in_sync (ee_x env) (ed_Camera (f e)) \<Longrightarrow> editor_ok env (f e)"
  using models_ok_cong [of "f e" e] refs_ok_cong [of "f e" e] by (simp add: view_only_def Let_def editor_ok_def)

lemma moved_sync:
  assumes "in_sync (ee_x env) (ed_Camera e)"
  shows "in_sync (ee_x env) (ed_Camera (Update_ed env k e))" "in_sync (ee_x env) (ed_Camera (on_drag_ed env imd e))"
    "in_sync (ee_x env) (ed_Camera (OnSize_ed env rc cx cy e))" "in_sync (ee_x env) (ed_Camera (upload_progress n e))"
  using assms by (simp_all add: Update_ed_def on_drag_ed_def OnSize_ed_def upload_progress_def UpdateWorldMatrix_ed_def move_camera_ed_def Let_def sync_pose sync_lens)

lemma moves_ok:
  assumes "editor_ok env e"
  shows "editor_ok env (Update_ed env k e)" "editor_ok env (on_drag_ed env imd e)" "editor_ok env (OnSize_ed env rc cx cy e)"
    "editor_ok env (upload_progress n e)"
  by (rule view_only_ok [OF _ assms]; use assms in \<open>simp add: view_only_moves moved_sync editor_ok_def\<close>)+

lemma interaction_ok: "on_interaction_ed env h rc imd e = Done e' \<Longrightarrow> editor_ok env e \<Longrightarrow> editor_ok env e'"
proof -
  assume "on_interaction_ed env h rc imd e = Done e'" "editor_ok env e"
  then show "editor_ok env e'" by (auto simp: on_interaction_ed_def moves_ok pick_ok split: if_splits)
qed

lemma input_ok: "editor_input_step env i e = Done e' \<Longrightarrow> editor_ok env e \<Longrightarrow> editor_ok env e'"
proof -
  show "editor_input_step env i e = Done e' \<Longrightarrow> editor_ok env e \<Longrightarrow> editor_ok env e'"
    by (cases i) (auto simp: editor_input_step_def UploadModelGui_def inspect_ok moves_ok elim!: obind_DoneE split: if_splits option.splits
      dest: import_ok open_ok save_ok interaction_ok)
qed

lemma session_ok: "editor_session env is e = Done e' \<Longrightarrow> editor_ok env e \<Longrightarrow> editor_ok env e'"
  by (induction "is" arbitrary: e) (auto elim!: obind_DoneE dest: input_ok)

lemma started_ok:
  assumes "gpu_ok (ed_gpu memory)"
  shows "editor_ok env (OnInitDialog_ed env rc (CModelEditorDlg_new env memory))"
proof -
  obtain p g where n: "com_new (x_device (ee_d3d env) \<and> x_effect (ee_d3d env) (ed_gpu memory)) (ed_gpu memory) = (p, g)" by fastforce
  have "gpu_ok g" "\<forall>i. g_refs g i = g_refs (ed_gpu memory) i + count_list [p] (Some i)" using com_new_refs [OF assms n] by simp_all
  then show ?thesis by (simp add: OnInitDialog_ed_def CModelEditorDlg_new_def n editor_ok_def refs_ok_def models_ok_def held_opt_def look_from_sync)
qed

text \<open>
  C9. Whatever the user does in the editor after it has started, the camera's matrices follow its description, what the open model and
  the shader hold of the device is alive, a model is there exactly when a Direct3D model is, both have the same textures, and the
  inspector offers these textures and the empty name.
\<close>

theorem editor_stays_consistent:
  assumes "gpu_ok (ed_gpu memory)" "editor_session env is (OnInitDialog_ed env rc (CModelEditorDlg_new env memory)) = Done e"
  shows "m_matView (ed_Camera e) = view_of (ee_x env) (m_CameraDesc (ed_Camera e)) \<and>
    m_matProj (ed_Camera e) = proj_of (ee_x env) (m_CameraDesc (ed_Camera e)) \<and>
    (\<forall>i. held_opt (ed_pd3dModel1 e) i + count_list [ed_pShader e] (Some i) \<le> g_refs (ed_gpu e) i) \<and>
    (case (ed_pModel1 e, ed_pd3dModel1 e) of (None, None) \<Rightarrow> \<not> ed_bFileOpened e
     | (Some td, Some d) \<Rightarrow> map fst (d_Textures d) = map fst (Textures td) \<and> combo_names e = texture_list_of td
     | _ \<Rightarrow> False)"
  using session_ok [OF assms(2) started_ok [OF assms(1)]]
  by (simp add: editor_ok_def in_sync_def refs_ok_def models_ok_def names_ok_def split: option.splits)

section \<open>From OBJ to file and back\<close>

text \<open>
  What a model becomes when it is saved and loaded, and the inputs between the commands of the file menu and the upload: the
  inspector, the colours, keys, every mouse event with the clicks that pick, sizes, the progress bar and drawn frames.
\<close>

definition saved_model :: "editor_env \<Rightarrow> TD_SCAN_MODEL \<Rightarrow> TD_SCAN_MODEL" where
  "saved_model env td = (let m = averaged env td in m\<lparr>ptMin := fst (model_box m), ptMax := snd (model_box m)\<rparr>)"

definition saved_bytes :: "editor_env \<Rightarrow> TD_SCAN_MODEL \<Rightarrow> bytes" where
  "saved_bytes env td = model_img (ee_lz env) 0 (averaged env td)"

definition is_edit :: "editor_input \<Rightarrow> bool" where
  "is_edit i \<longleftrightarrow> (case i of Ed_import _ _ \<Rightarrow> False | Ed_open _ \<Rightarrow> False | Ed_save _ \<Rightarrow> False | Ed_save_as _ \<Rightarrow> False | Ed_upload \<Rightarrow> False | _ \<Rightarrow> True)"

text \<open>The device draws and picks: there is one, effects load, and a hit has a finite distance.\<close>

definition device_works :: "d3d_env \<Rightarrow> bool" where
  "device_works x \<longleftrightarrow> x_device x \<and> (\<forall>h. x_effect x h) \<and> hits_finite x"

text \<open>The model is open, and its Direct3D model can be drawn and picked in.\<close>

definition in_view :: "TD_SCAN_MODEL \<Rightarrow> CModelEditorDlg \<Rightarrow> bool" where
  "in_view td e \<longleftrightarrow> ed_pModel1 e = Some td \<and> ed_pShader e \<noteq> None \<and> (\<exists>d. ed_pd3dModel1 e = Some d \<and> placed td d \<and> shaded d)"

lemma at_index_map: "(\<And>x. g (f x) = g x) \<Longrightarrow> map g (at_index i f xs) = map g xs"
  by (simp add: at_index_def map_update list_update_same_conv)

lemma shape_at_subset:
  "(\<And>s. ds_pBase (f s) = ds_pBase s \<and> dm_pShader (ds_Material (f s)) = dm_pShader (ds_Material s)) \<Longrightarrow> shape (at_subset i j f d) = shape d"
  by (simp add: shape_def at_subset_def at_part_def at_index_map)

lemma shape_inspect: "shape (inspect_model names w d) = shape d"
proof -
  have m: "dm_pShader (edit_material names a m) = dm_pShader m" for a m by (cases a) (simp_all add: edit_material_def Let_def)
  have p: "shape (at_part i (\<lambda>p. p\<lparr>dp_bVisible := b\<rparr>) d) = shape d" for i b by (simp add: shape_def at_part_def at_index_map)
  show ?thesis by (cases w) (simp_all add: inspect_model_def p shape_at_subset m)
qed

lemma in_view_shape:
  "in_view td e \<Longrightarrow> ed_pd3dModel1 e = Some d \<Longrightarrow> shape d' = shape d \<Longrightarrow> in_view td (e\<lparr>ed_pd3dModel1 := Some d'\<rparr>)"
  by (auto simp: in_view_def placed_def shaded_shape)

lemma in_view_moves:
  "view_only f \<Longrightarrow> in_view td e \<Longrightarrow> in_view td (f e) \<and> ed_fs (f e) = ed_fs e \<and> ed_bFileOpened (f e) = ed_bFileOpened e"
  by (simp add: view_only_def in_view_def Let_def)

lemma pick_run:
  assumes "in_view td e" "m_bInit (ed_Camera e)" "unshared td" "hits_finite (ee_d3d env)"
  shows "\<exists>e'. pick env rc imd e = Done e' \<and> in_view td e' \<and> ed_fs e' = ed_fs e \<and> ed_bFileOpened e' = ed_bFileOpened e"
proof -
  obtain d where d: "ed_pModel1 e = Some td" "ed_pd3dModel1 e = Some d" "placed td d" using assms(1) by (auto simp: in_view_def)
  obtain dir where r: "GetRayFromScreen (ee_x env) (RenderPortToScreenPixel rc (ptCursor imd) (ed_base e))
      (f_of_int (fst rc)) (f_of_int (snd rc)) (ed_Camera e) = Some dir" using assms(2) by (simp add: GetRayFromScreen_def Let_def)
  let ?inv = "xm_inverse (ee_x env) (ed_matWorld e)"
  obtain h where h: "IntersectRay (ee_d3d env) (xm_coord (ee_x env) ?inv (ptPos (m_CameraDesc (ed_Camera e)))) (xm_normal (ee_x env) ?inv dir) td d = Done h"
    "h \<noteq> Some None" using placed_pick [OF d(3) assms(3,4)] by blast
  have p: "pick env rc imd e = (case h of None \<Rightarrow> Done e
      | Some p \<Rightarrow> obind (deref p) (\<lambda>(i, j). Done (e\<lparr>ed_pd3dModel1 := Some (at_subset i j (\<lambda>s. s\<lparr>ds_bSelected := \<not> ds_bSelected s\<rparr>) d)\<rparr>)))"
    unfolding pick_def Let_def d(1,2) r h(1) option.case deref_def obind.simps by (rule refl)
  have v: "in_view td (e\<lparr>ed_pd3dModel1 := Some (at_subset i j (\<lambda>s. s\<lparr>ds_bSelected := \<not> ds_bSelected s\<rparr>) d)\<rparr>)" for i j
    by (rule in_view_shape [OF assms(1) d(2)]) (simp add: shape_at_subset)
  show ?thesis using v h(2) assms(1) unfolding p by (auto simp: deref_def split: option.split)
qed

lemma frame_run: "in_view td e \<Longrightarrow> \<exists>f. Render_ed env e = Done f"
proof -
  assume "in_view td e"
  then obtain d where d: "ed_pd3dModel1 e = Some d" "ed_pModel1 e = Some td" "ed_pShader e \<noteq> None" "placed td d" "shaded d"
    by (auto simp: in_view_def)
  then obtain cs where "RenderD3DModel (ee_d3d env) td d = Done cs" using placed_render by blast
  with d show "\<exists>f. Render_ed env e = Done f" by (auto simp: Render_ed_def deref_def)
qed

lemma edit_run:
  assumes "is_edit i" "in_view td e" "m_bInit (ed_Camera e)" "unshared td" "device_works (ee_d3d env)"
  shows "\<exists>e'. editor_input_step env i e = Done e' \<and> in_view td e' \<and> ed_fs e' = ed_fs e \<and> ed_bFileOpened e' = ed_bFileOpened e"
proof (cases i)
  case (Ed_inspect w)
  obtain d where d: "ed_pd3dModel1 e = Some d" using assms(2) by (auto simp: in_view_def)
  then have "inspect w e = e\<lparr>ed_pd3dModel1 := Some (inspect_model (combo_names e) w d)\<rparr>" by (simp add: inspect_def)
  then show ?thesis using in_view_shape [OF assms(2) d shape_inspect] by (simp add: editor_input_step_def Ed_inspect)
next
  case (Ed_mouse h rc imd)
  have "\<exists>e'. on_interaction_ed env h rc imd e = Done e' \<and> in_view td e' \<and> ed_fs e' = ed_fs e \<and> ed_bFileOpened e' = ed_bFileOpened e"
    using pick_run [OF assms(2,3,4)] assms(5) in_view_moves [OF view_only_moves(2) assms(2)] assms(2)
    by (auto simp: on_interaction_ed_def device_works_def in_view_def)
  then show ?thesis by (simp add: editor_input_step_def Ed_mouse)
next
  case Ed_render
  obtain f where "Render_ed env e = Done f" using frame_run [OF assms(2)] by blast
  then show ?thesis using assms(2) by (simp add: editor_input_step_def Ed_render)
qed (use assms(1,2) in_view_moves [OF view_only_moves(1) assms(2)] in_view_moves [OF view_only_moves(3) assms(2)] in_view_moves [OF view_only_moves(4) assms(2)] in
  \<open>auto simp: is_edit_def editor_input_step_def in_view_def\<close>)

lemma edits_run:
  assumes "\<forall>i\<in>set is. is_edit i" "in_view td e" "editor_ok env e" "unshared td" "device_works (ee_d3d env)"
  shows "\<exists>e'. editor_session env is e = Done e' \<and> in_view td e' \<and> ed_fs e' = ed_fs e \<and> ed_bFileOpened e' = ed_bFileOpened e"
  using assms(1-3)
proof (induction "is" arbitrary: e)
  case (Cons i "is")
  have "m_bInit (ed_Camera e)" using Cons.prems(3) by (simp add: editor_ok_def in_sync_def)
  then obtain e1 where 1: "editor_input_step env i e = Done e1" "in_view td e1" "ed_fs e1 = ed_fs e" "ed_bFileOpened e1 = ed_bFileOpened e"
    using edit_run [of i td e env] Cons.prems(1,2) assms(4,5) by auto
  have "editor_ok env e1" by (rule input_ok [OF 1(1) Cons.prems(3)])
  then show ?case using Cons.IH [of e1] Cons.prems(1) 1 by simp
qed simp

lemma calc_run:
  assumes "models_ok e" "ed_pModel1 e = Some td" "model_ok td" "bitmaps_ok env"
  shows "CalcTextureAverages env e = Done (e\<lparr>ed_pModel1 := Some (averaged env td)\<rparr>)"
proof -
  obtain d where d: "ed_pd3dModel1 e = Some d" "names_ok td d" using assms(1,2) by (rule models_okE)
  have k: "map fst (d_Textures d) = map fst (Textures td)" "\<forall>t\<in>set (d_Textures d). dt_pBase (snd t) = fst t" "maps_ok td"
    using d(2) by (simp_all add: names_ok_def)
  have "distinct (map fst (Textures td))" using k(3) by (simp add: maps_ok_def smap_inv_def strict_sorted_iff)
  moreover have "\<forall>kt\<in>set (Textures td). length (ts_pData (snd kt)) = unat (ts_uiSize (snd kt))"
    using assms(3) by (simp add: model_ok_def texture_ok_def)
  moreover have "fst ` set (d_Textures d) = fst ` set (Textures td)" using k(1) by (metis list.set_map)
  ultimately have "average_textures env (d_Textures d) td = Done (averaged env td)"
    using average_textures_run [OF assms(4) k(3), of "d_Textures d"] averaged_at_all [of td "fst ` set (d_Textures d)" env] k(1,2) by auto
  then show ?thesis using d(1) assms(2) by (simp add: CalcTextureAverages_def deref_def)
qed

lemma save_as_run:
  assumes "models_ok e" "ed_pModel1 e = Some td" "ed_bFileOpened e" "model_ok td" "bitmaps_ok env" "ee_writable env name"
    and "length (saved_bytes env td) < 2 ^ 31"
  shows "\<exists>e'. menu_save_as env (Some name) e = Done e' \<and> ed_pModel1 e' = Some (averaged env td) \<and> ed_fs e' = (ed_fs e)(name \<mapsto> saved_bytes env td)"
proof -
  have "save_model (ee_lz env) 0 (averaged env td) = Done (saved_bytes env td)"
    using save_model_img [OF model_ok_buffers [OF averaged_model_ok [OF assms(4)]]] assms(7) by (simp add: saved_bytes_def)
  then show ?thesis using assms(1-6) calc_run [OF assms(1,2,4,5)]
    by (simp add: menu_save_as_def save_under_def save_file_def Save3DScanModel_def)
qed

lemma reopen_run:
  assumes "refs_ok e" "x_device (ee_d3d env)" "lz4_contract (ee_lz env)" "model_ok td" "ed_fs e name = Some (saved_bytes env td)"
    "length (saved_bytes env td) < 2 ^ 31" "model_fuel td \<le> ee_fuel env"
  shows "\<exists>e' d g. Load3DScanFile_ed env name e = Done e' \<and> ed_pModel1 e' = Some (saved_model env td) \<and> ed_pd3dModel1 e' = Some d \<and>
    created (ee_d3d env) (saved_model env td) (ed_gpu e) d g"
proof -
  let ?m = "averaged env td"
  have ok: "model_ok ?m" by (rule averaged_model_ok [OF assms(4)])
  have "length (Textures ?m) = length (Textures td)" by (simp add: averaged_def)
  then have f: "model_fuel ?m \<le> ee_fuel env" using assms(7) by (simp add: model_fuel_def)
  have l: "Load3DScanModelFromFile (ee_lz env) (ee_junk env) (ee_fuel env) (ed_fs e) (Some name) = Done (saved_model env td)"
    using load_file_run [OF assms(3) ok _ f, of 0 "ed_fs e" name] assms(5,6) by (simp add: saved_bytes_def saved_model_def Let_def)
  from replace_ed_run [OF assms(1) loaded_maps [OF l] assms(2), of False] obtain d g e' where
    "replace_ed env False (saved_model env td) e = Done (True, e')" "created (ee_d3d env) (saved_model env td) (ed_gpu e) d g"
    "ed_pd3dModel1 e' = Some d" "ed_pModel1 e' = Some (saved_model env td)" by blast
  then show ?thesis using l by (auto simp: Load3DScanFile_ed_def)
qed

lemma import_run:
  assumes "editor_ok env e" "x_device (ee_d3d env)"
    and "LoadObj2 (ee_crt env) (import_disk env folder e) path (MY_OBJ_new (fst (ee_corners env)) (snd (ee_corners env))) = Done (r, obj)"
    and "ConvertObjTo3DModel (import_disk env folder e) (ee_clr env) obj (TD_SCAN_MODEL_new (fst (ee_corners env)) (snd (ee_corners env))) = Done (obj', td)"
  shows "\<exists>e' d g. import_obj env (folder, path) e = Done e' \<and> ed_pModel1 e' = Some td \<and> ed_fs e' = ed_fs e \<and> ed_bFileOpened e' \<and> editor_ok env e' \<and>
    ed_pShader e' = ed_pShader e \<and> ed_pd3dModel1 e' = Some d \<and> created (ee_d3d env) td (ed_gpu e) d g"
proof -
  have "refs_ok e" using assms(1) by (simp add: editor_ok_def)
  from replace_ed_run [OF this converted_maps [OF assms(4)] assms(2), of True] obtain d g e1 where
    1: "replace_ed env True td e = Done (True, e1)" "ed_pModel1 e1 = Some td" "ed_fs e1 = ed_fs e" "ed_pShader e1 = ed_pShader e"
      "ed_pd3dModel1 e1 = Some d" "created (ee_d3d env) td (ed_gpu e) d g" by blast
  have i: "import_obj env (folder, path) e = Done (e1\<lparr>ed_bFileOpened := True, ed_bHasFilename := False\<rparr>)"
    by (simp add: import_obj_def Let_def case_prod_beta assms(3,4) 1(1))
  show ?thesis using import_ok [OF i assms(1)] 1 i by auto
qed

text \<open>
  An import that can be worked with: the files are read, the OBJ is \<open>obj_ok\<close>, the result is below 2 GB, and every material its faces
  use is in its library.
\<close>

definition obj_imports :: "editor_env \<Rightarrow> string \<Rightarrow> string \<Rightarrow> CModelEditorDlg \<Rightarrow> TD_SCAN_MODEL \<Rightarrow> bool" where
  "obj_imports env folder path e td \<longleftrightarrow> (let fs = import_disk env folder e; (a, b) = ee_corners env in
     textures_fit fs \<and> length (saved_bytes env td) < 2 ^ 31 \<and> materials_known td \<and>
     (\<exists>r obj obj'. LoadObj2 (ee_crt env) fs path (MY_OBJ_new a b) = Done (r, obj) \<and> obj_ok obj \<and>
       ConvertObjTo3DModel fs (ee_clr env) obj (TD_SCAN_MODEL_new a b) = Done (obj', td)))"

lemma imported_in_view:
  assumes "editor_ok env e" "ed_pShader e \<noteq> None" "device_works (ee_d3d env)" "obj_imports env folder path e td"
  shows "\<exists>e'. import_obj env (folder, path) e = Done e' \<and> in_view td e' \<and> ed_fs e' = ed_fs e \<and> ed_bFileOpened e' \<and> editor_ok env e'"
    and "unshared td" "model_ok td"
proof -
  obtain r obj obj' where I: "LoadObj2 (ee_crt env) (import_disk env folder e) path (MY_OBJ_new (fst (ee_corners env)) (snd (ee_corners env))) = Done (r, obj)"
    "obj_ok obj" "textures_fit (import_disk env folder e)" "materials_known td"
    "ConvertObjTo3DModel (import_disk env folder e) (ee_clr env) obj (TD_SCAN_MODEL_new (fst (ee_corners env)) (snd (ee_corners env))) = Done (obj', td)"
    using assms(4) by (auto simp: obj_imports_def Let_def case_prod_beta)
  show "unshared td" by (rule converted_unshared [OF I(2,3,5)])
  show "model_ok td" using convert_run_ok [OF I(2,3), of "ee_clr env" "fst (ee_corners env)" "snd (ee_corners env)"] I(5) by auto
  have x: "x_device (ee_d3d env)" "\<forall>h. x_effect (ee_d3d env) h" using assms(3) by (simp_all add: device_works_def)
  from import_run [OF assms(1) x(1) I(1,5)] obtain e' d g where
    1: "import_obj env (folder, path) e = Done e'" "ed_pModel1 e' = Some td" "ed_fs e' = ed_fs e" "ed_bFileOpened e'" "editor_ok env e'"
      "ed_pShader e' = ed_pShader e" "ed_pd3dModel1 e' = Some d" "created (ee_d3d env) td (ed_gpu e) d g" by blast
  note m = created_mirrors [OF 1(8)] created_known [OF 1(8) x(2)]
  have "\<forall>p\<in>set (Parts td). \<forall>s\<in>set (mp_Subsets p). shader_of d (ss_sMatName s) \<noteq> None"
    using I(4) m(2) by (auto simp: materials_known_def)
  then have "in_view td e'" using mirrors_placed [OF m(1)] mirrors_shaded [OF m(1)] 1 assms(2) by (simp add: in_view_def)
  then show "\<exists>e'. import_obj env (folder, path) e = Done e' \<and> in_view td e' \<and> ed_fs e' = ed_fs e \<and> ed_bFileOpened e' \<and> editor_ok env e'"
    using 1 by blast
qed

lemma edit_and_save_run:
  assumes "editor_ok env e" "ed_pShader e \<noteq> None" "device_works (ee_d3d env)" "obj_imports env folder path e td" "bitmaps_ok env" "ee_writable env name"
    and "\<forall>i\<in>set is. is_edit i"
  shows "\<exists>e1 e2 e3. import_obj env (folder, path) e = Done e1 \<and> editor_session env is e1 = Done e2 \<and> menu_save_as env (Some name) e2 = Done e3 \<and>
    ed_fs e3 = (ed_fs e)(name \<mapsto> saved_bytes env td) \<and> editor_ok env e3 \<and> model_ok td"
proof -
  note I = imported_in_view [OF assms(1-4)]
  from I(1) obtain e1 where
    1: "import_obj env (folder, path) e = Done e1" "in_view td e1" "ed_fs e1 = ed_fs e" "ed_bFileOpened e1" "editor_ok env e1" by blast
  from edits_run [OF assms(7) 1(2,5) I(2) assms(3)] obtain e2 where
    2: "editor_session env is e1 = Done e2" "in_view td e2" "ed_fs e2 = ed_fs e" "ed_bFileOpened e2" using 1 by auto
  have ok: "editor_ok env e2" by (rule session_ok [OF 2(1) 1(5)])
  then have "models_ok e2" "ed_pModel1 e2 = Some td" using 2(2) by (simp_all add: editor_ok_def in_view_def)
  moreover have "length (saved_bytes env td) < 2 ^ 31" using assms(4) by (simp add: obj_imports_def Let_def case_prod_beta)
  ultimately obtain e3 where 3: "menu_save_as env (Some name) e2 = Done e3" "ed_fs e3 = (ed_fs e)(name \<mapsto> saved_bytes env td)"
    using save_as_run [of e2 td env name] I(3) assms(5,6) 2(3,4) by auto
  show ?thesis using 1 2 3 save_ok(2) [OF 3(1) ok] I(3) by blast
qed

text \<open>
  C8. An OBJ whose faces have two or more corners with indices in range, whose names fit the file's fields and whose materials are in its
  library, and whose texture files and result are below 2 GB, is imported, edited in any way in the inspector and the view, with
  clicks that pick and frames drawn in any order between the edits, saved under a new name and opened again: on a device that draws nothing
  of this is undefined, and what is opened is the converted model with the average colours of its textures and the box of its vertices,
  the same for every edit. The inspector's changes are in the Direct3D model only and are lost.
\<close>

theorem edited_obj_is_saved_without_the_edits:
  assumes "editor_ok env e" "ed_pShader e \<noteq> None" "device_works (ee_d3d env)" "obj_imports env folder path e td" "bitmaps_ok env" "ee_writable env name"
    and "\<forall>i\<in>set is. is_edit i" "lz4_contract (ee_lz env)" "model_fuel td \<le> ee_fuel env"
  shows "\<exists>e1 e2 e3 e4. import_obj env (folder, path) e = Done e1 \<and> editor_session env is e1 = Done e2 \<and> menu_save_as env (Some name) e2 = Done e3 \<and>
    ed_fs e3 = (ed_fs e)(name \<mapsto> saved_bytes env td) \<and> Load3DScanFile_ed env name e3 = Done e4 \<and> ed_pModel1 e4 = Some (saved_model env td) \<and>
    (\<exists>d g. ed_pd3dModel1 e4 = Some d \<and> created (ee_d3d env) (saved_model env td) (ed_gpu e3) d g)"
proof -
  from edit_and_save_run [OF assms(1-7)] obtain e1 e2 e3 where
    E: "import_obj env (folder, path) e = Done e1" "editor_session env is e1 = Done e2" "menu_save_as env (Some name) e2 = Done e3"
      "ed_fs e3 = (ed_fs e)(name \<mapsto> saved_bytes env td)" "editor_ok env e3" "model_ok td" by blast
  have "refs_ok e3" "ed_fs e3 name = Some (saved_bytes env td)" using E(4,5) by (simp_all add: editor_ok_def)
  moreover have "x_device (ee_d3d env)" "length (saved_bytes env td) < 2 ^ 31"
    using assms(3,4) by (simp_all add: device_works_def obj_imports_def Let_def case_prod_beta)
  ultimately show ?thesis using reopen_run [OF _ _ assms(8) E(6) _ _ assms(9)] E by blast
qed

text \<open>Uploading right after an import follows the NULL that \<open>fopen\<close> gives for the empty name.\<close>

lemma upload_after_import_crashes:
  "ed_bFileOpened e \<Longrightarrow> ed_fs e (ed_strFilename e) = None \<Longrightarrow> UploadModelGui e = UB"
  by (simp add: UploadModelGui_def)

end
