(* ===== verification/EditorDelivery.thy ===== *)
theory EditorDelivery
  imports Delivery ModelEditorProps
begin

text \<open>
  The chain from its beginning: an OBJ file that is imported and saved in the editor, published with the upload tool and shown in
  the viewer.
\<close>

lemma saved_readable:
  assumes "lz4_contract (ee_lz eenv)" "ve_lz venv = ee_lz eenv" "model_ok td" "length (saved_bytes eenv td) < 2 ^ 31" "model_fuel td \<le> ve_fuel venv"
  shows "readable venv (saved_bytes eenv td) (saved_model eenv td)"
proof -
  let ?m = "averaged eenv td"
  have ok: "model_ok ?m" by (rule averaged_model_ok [OF assms(3)])
  have s: "save_model (ee_lz eenv) 0 ?m = Done (saved_bytes eenv td)"
    using save_model_img [OF model_ok_buffers [OF ok]] assms(4) by (simp add: saved_bytes_def)
  have "length (Textures ?m) = length (Textures td)" by (simp add: averaged_def)
  then have "model_fuel ?m \<le> ve_fuel venv" using assms(5) by (simp add: model_fuel_def)
  from save_load_run [OF assms(1) ok s _ this] assms(2,4) show ?thesis
    by (simp add: readable_def saved_model_def saved_bytes_def Let_def)
qed

lemma saved_draws:
  assumes "model_ok td" "materials_known td" "x_device (ve_d3d venv)" "\<forall>h. x_effect (ve_d3d venv) h" "\<forall>h. x_passes (ve_d3d venv) h = n"
  shows "draws venv (saved_model eenv td)"
proof -
  have "maps_ok (averaged eenv td)" by (rule model_ok_maps [OF averaged_model_ok [OF assms(1)]])
  then show ?thesis using assms(2-) by (auto simp: draws_def saved_model_def Let_def maps_ok_def materials_known_def)
qed

text \<open>
  C6. From an OBJ file to the subscriber's screen: an OBJ as in \<open>obj_imports\<close> (faces of two or more corners with indices in range, names that
  fit, materials in its library, texture files and result below 2 GB) is imported in the editor on a device that draws, edited in any way, saved,
  uploaded with the tool from the file that was saved, and subscribed to, the tool's fields and the database as in \<open>publication\<close>, client and
  server on one host as in \<open>connected\<close>; the first viewer that opens the subscription, with the server as the tool left it and
  the subscription not in its cache, shows the converted model, with the average colours of its textures and the box of its vertices,
  whatever the order of its downloads. (A later download of the model gets junk after it, C35.)
\<close>

theorem imported_obj_is_shown_in_the_viewer:
  assumes "editor_ok eenv e" "ed_pShader e \<noteq> None" "device_works (ee_d3d eenv)" "obj_imports eenv folder path e td" "bitmaps_ok eenv" "ee_writable eenv name"
    and "\<forall>i\<in>set is. is_edit i" "lz4_contract (ee_lz eenv)"
    and "connected env tab eq k venv (IDC_EDIT_SERVER (ut_dlg ts)) host"
    and "publication env tab eq ((ed_fs e)(name \<mapsto> saved_bytes eenv td)) (saved_bytes eenv td) ad ts"
    and "ve_lz venv = ee_lz eenv" "model_fuel td \<le> ve_fuel venv" "x_device (ve_d3d venv)" "\<forall>h. x_effect (ve_d3d venv) h" "\<forall>h. x_passes (ve_d3d venv) h = n"
  shows "\<exists>e1 e2 e3 ts1 ts2 ts3 h. import_obj eenv (folder, path) e = Done e1 \<and> editor_session eenv is e1 = Done e2 \<and>
    menu_save_as eenv (Some name) e2 = Done e3 \<and> tool_click k (ed_fs e3) BtnModelUpload ts = (Ret (), ts1) \<and> tool_step k (ed_fs e3) ts1 ts2 \<and>
    tool_click k (ed_fs e3) BtnCreateSubs ts2 = (Ret (), ts3) \<and> IDC_EDIT_SUBS_ID (ut_dlg ts3) = h \<and>
    (\<forall>s. at_rest s \<and> ready venv 1 (vs_dlg s) \<and> SearchInCache (wide h) (m_Cache (vs_dlg s)) = None \<and> vs_world s = ut_world ts3 \<longrightarrow>
      (\<exists>s0. Load3DScanFromUrl venv (subscription_url host h) s = Done s0 \<and>
        (\<forall>t. viewer_runs venv k s0 t \<longrightarrow> \<not> crashes venv k t \<and>
          (at_rest t \<longrightarrow> shown venv (saved_model eenv td) (saved_bytes eenv td) (vs_dlg t)))))"
proof -
  from edit_and_save_run [OF assms(1-7)] obtain e1 e2 e3 where
    E: "import_obj eenv (folder, path) e = Done e1" "editor_session eenv is e1 = Done e2" "menu_save_as eenv (Some name) e2 = Done e3"
      "ed_fs e3 = (ed_fs e)(name \<mapsto> saved_bytes eenv td)" "model_ok td" by blast
  have I: "materials_known td" "length (saved_bytes eenv td) < 2 ^ 31" using assms(4) by (simp_all add: obj_imports_def Let_def case_prod_beta)
  note dr = saved_draws [OF E(5) I(1) assms(13-15), of eenv]
  from delivery_run [OF assms(9,10) saved_readable [OF assms(8,11) E(5) I(2) assms(12)] dr] show ?thesis
    using E(1-3) unfolding E(4) [symmetric] by blast
qed

end
