(* ===== verification/ServerSafety.thy ===== *)
theory ServerSafety
  imports ServerGet
begin

text \<open>
  What holds of every request, whatever the database answers: a GET request changes neither the database nor a
  file that exists, and with a database that is up and no field of exactly 256 characters no request runs
  into undefined behaviour; with one it does.
\<close>

section \<open>GET requests keep the data\<close>

definition data_kept :: "'db server \<Rightarrow> 'db server \<Rightarrow> bool" where
  "data_kept s s' \<longleftrightarrow> ms_db s' = ms_db s \<and> ms_fs s \<subseteq>\<^sub>m ms_fs s' \<and> ms_root s' = ms_root s \<and> ms_driver s' = ms_driver s"

lemma data_kept_refl: "reflp data_kept"
  by (simp add: reflp_def data_kept_def)

lemma data_kept_trans: "transp data_kept"
  unfolding transp_def data_kept_def using map_le_trans by auto

lemmas kept = data_kept_refl data_kept_trans

lemma keeps_set [keeps_intro]:
  "keeps data_kept (set_field k v)" "keeps data_kept (set_http n)" "keeps data_kept (set_err msg c h)" "keeps data_kept (set_ok k v)"
  by (simp_all add: keeps_def act data_kept_def)

lemma keeps_whenever [keeps_intro]: "keeps data_kept m \<Longrightarrow> keeps data_kept (whenever c m)"
  by (simp add: whenever_def keeps_pure(1) [OF data_kept_refl])

lemma keeps_conn [keeps_intro]:
  "keeps R m \<Longrightarrow> keeps R m' \<Longrightarrow> keeps R m'' \<Longrightarrow> keeps R (case c of Connected \<Rightarrow> m | ConnNull \<Rightarrow> m' | ConnThrows \<Rightarrow> m'')"
  by (cases c) simp_all

lemma keeps_db_open [keeps_intro]: "keeps data_kept (db_open env)"
  unfolding db_open_def by (intro keeps_intro kept)

lemma keeps_run_query [keeps_intro]: "keeps data_kept (run_query env txt)"
  unfolding run_query_def by (intro keeps_intro kept)

lemma keeps_last_int [keeps_intro]: "keeps data_kept (last_int col rows i)"
  by (induction rows arbitrary: i) (auto intro!: keeps_intro kept)

lemma keeps_blob [keeps_intro]: "keeps data_kept (blob_text col r)"
  unfolding blob_text_def by (intro keeps_intro kept)

lemma keeps_select_int [keeps_intro]: "keeps data_kept (select_int env txt col msg c h)"
  unfolding select_int_def by (intro keeps_intro kept)

lemma keeps_find [keeps_intro]: "keeps data_kept (find_subs env params col)" "keeps data_kept (find_file env i)"
  unfolding find_subs_def find_file_def by (intro keeps_intro kept)+

lemma keeps_for_rows [keeps_intro]: "(\<And>r. keeps data_kept (f r)) \<Longrightarrow> keeps data_kept (for_rows f rows)"
  by (induction rows) (auto intro!: keeps_intro kept)

lemma keeps_serve_base64 [keeps_intro]: "keeps data_kept (serve_base64 env path key msg)"
  unfolding keeps_def data_kept_def
  by (auto simp: serve_base64_def act read_file_def write_file_def map_le_def split: option.splits)

lemma keeps_serve [keeps_intro]:
  "keeps data_kept (serve_model env r)" "keeps data_kept (serve_ad env r)" "keeps data_kept (serve_info env r)"
  unfolding serve_model_def serve_ad_def serve_info_def read_file_def Let_def by (intro keeps_intro kept)+

lemma keeps_model_rows [keeps_intro]: "(\<And>r. keeps data_kept (f r)) \<Longrightarrow> keeps data_kept (model_rows env f i)"
  unfolding model_rows_def by (intro keeps_intro kept)

lemma keeps_get_handlers [keeps_intro]:
  "keeps data_kept (OnGetModel env params)" "keeps data_kept (OnGetAd env params)" "keeps data_kept (OnGetInfo env params)"
  unfolding OnGetModel_def OnGetAd_def OnGetInfo_def by (intro keeps_intro kept)+

lemma keeps_get_method [keeps_intro]: "keeps data_kept (get_method env path kv)"
  unfolding get_method_def Let_def by (intro keeps_intro kept)

lemma keeps_catch [keeps_intro]: "keeps R m \<Longrightarrow> keeps R (catch_http m)"
  unfolding keeps_def catch_http_def
proof
  fix s assume m: "\<forall>s. R s (snd (m s))"
  obtain r s' where ms: "m s = (r, s')" by (cases "m s")
  have "R s s'" using m ms by (metis snd_conv)
  then show "R s (snd (case m s of (Throw HttpException, s') \<Rightarrow> (Ret (), s') | (r, s') \<Rightarrow> (r, s')))"
    by (simp add: ms split: res.splits exn.splits)
qed

lemma keeps_frame [keeps_intro]: "keeps data_kept start_answer" "keeps data_kept reply"
  by (simp_all add: keeps_def data_kept_def start_answer_def reply_def act as_integer_def split: json.splits)

lemma keeps_HandleGet: "keeps data_kept (HandleGet env path query)"
  unfolding HandleGet_def by (intro keeps_intro kept)

text \<open>
  C37. No GET request, answered or not, changes the database or a file that exists: the only effect is the
  base64 file written beside a model or an advertisement that has none.
\<close>

theorem get_keeps_data:
  "ms_db (snd (HandleGet env path query s)) = ms_db s \<and> ms_fs s \<subseteq>\<^sub>m ms_fs (snd (HandleGet env path query s))"
  using keeps_HandleGet [of env path query] by (simp add: keeps_def data_kept_def)

section \<open>No undefined behaviour\<close>

text \<open>\<open>calm P Q m\<close>: started in \<open>P\<close>, \<open>m\<close> does not crash, stays in \<open>P\<close>, and a value it returns satisfies \<open>Q\<close>.\<close>

definition calm :: "('s \<Rightarrow> bool) \<Rightarrow> ('a \<Rightarrow> bool) \<Rightarrow> ('s, 'a) act \<Rightarrow> bool" where
  "calm P Q m \<longleftrightarrow> (\<forall>s. P s \<longrightarrow> (case m s of (r, s') \<Rightarrow> P s' \<and> r \<noteq> Crash \<and> (\<forall>a. r = Ret a \<longrightarrow> Q a)))"

named_theorems calm_intro \<open>composition rules for \<open>calm\<close>\<close>

lemma calm_pure [calm_intro]: "Q a \<Longrightarrow> calm P Q (ret a)" "calm P Q (raise e)" "calm P Q hang" "calm P (\<lambda>_. True) (gets f)"
  by (simp_all add: calm_def act)

lemma calm_modify [calm_intro]: "(\<And>s. P s \<Longrightarrow> P (f s)) \<Longrightarrow> calm P (\<lambda>_. True) (modify f)"
  by (simp add: calm_def act)

lemma calm_abind [calm_intro]:
  assumes "calm P Q m" "\<And>a. Q a \<Longrightarrow> calm P R (f a)"
  shows "calm P R (abind m f)"
  unfolding calm_def
proof (intro allI impI)
  fix s assume "P s"
  obtain r s' where m: "m s = (r, s')" by (cases "m s")
  then have 1: "P s'" "r \<noteq> Crash" "\<And>a. r = Ret a \<Longrightarrow> Q a" using assms(1) \<open>P s\<close> by (auto simp: calm_def split: prod.splits)
  show "case abind m f s of (r, s') \<Rightarrow> P s' \<and> r \<noteq> Crash \<and> (\<forall>a. r = Ret a \<longrightarrow> R a)"
  proof (cases r)
    case (Ret a)
    then show ?thesis using assms(2) [OF 1(3) [OF Ret]] 1(1) by (simp add: calm_def abind_run m)
  qed (use 1 in \<open>simp_all add: abind_run m\<close>)
qed

lemma calm_aseq [calm_intro]: "calm P (\<lambda>_. True) m \<Longrightarrow> calm P R n \<Longrightarrow> calm P R (aseq m n)"
  unfolding aseq_def by (rule calm_abind)

lemma calm_if [calm_intro]: "(c \<Longrightarrow> calm P Q m) \<Longrightarrow> (\<not> c \<Longrightarrow> calm P Q n) \<Longrightarrow> calm P Q (if c then m else n)"
  by simp

lemma calm_option [calm_intro]:
  "(x = None \<Longrightarrow> calm P Q m) \<Longrightarrow> (\<And>a. x = Some a \<Longrightarrow> calm P Q (n a)) \<Longrightarrow> calm P Q (case x of None \<Rightarrow> m | Some a \<Rightarrow> n a)"
  by (cases x) simp_all

lemma calm_whenever [calm_intro]: "(c \<Longrightarrow> calm P (\<lambda>_. True) m) \<Longrightarrow> calm P (\<lambda>_. True) (whenever c m)"
  by (simp add: whenever_def calm_pure)

lemma calm_weaken: "calm P Q m \<Longrightarrow> (\<And>a. Q a \<Longrightarrow> R a) \<Longrightarrow> calm P R m"
  by (auto simp: calm_def split: prod.splits)

text \<open>
  The environment: \<open>getInt\<close> gives a 32-bit integer, UUIDs have 36 characters, decoded data is below 2 GB, and a
  statement does not end the connection. The server: there is a driver, the database accepts the connection, and the files under the
  root folder can be created; the last is what the handlers never check (C27).
\<close>

definition calm_env :: "'db env \<Rightarrow> bool" where
  "calm_env env \<longleftrightarrow>
     (\<forall>db txt rows r col i. sql_query (v_sql env) db txt = Some rows \<and> r \<in> set rows \<and> row_int r col = Some i \<longrightarrow> int32 i) \<and>
     (\<forall>n. length (v_uuid env n) = 36) \<and> (\<forall>t. int32 (int (length (v_dec env t)))) \<and>
     (\<forall>db txt. sql_connect (v_sql env) (snd (sql_update (v_sql env) db txt)) = sql_connect (v_sql env) db)"

definition linked :: "'db env \<Rightarrow> 'db server \<Rightarrow> bool" where
  "linked env s \<longleftrightarrow> ms_driver s \<and> sql_connect (v_sql env) (ms_db s) = Connected"

definition working :: "'db env \<Rightarrow> 'db server \<Rightarrow> bool" where
  "working env s \<longleftrightarrow> linked env s \<and> (\<forall>p. v_writable env (ms_root s @ p))"

lemmas working_defs = working_def linked_def

lemma calm_set [calm_intro]:
  "calm (working env) (\<lambda>_. True) (set_field k v)" "calm (working env) (\<lambda>_. True) (set_err msg c h)" "calm (working env) (\<lambda>_. True) (set_ok k v)"
  by (simp_all add: calm_def act working_defs)

lemma calm_db_open [calm_intro]: "calm (working env) (\<lambda>_. True) (db_open env)"
  by (simp add: calm_def act db_open_def working_defs)

lemma calm_run_query [calm_intro]:
  "length txt < 5000 \<Longrightarrow> calm_env env \<Longrightarrow>
     calm (working env) (\<lambda>rows. \<forall>r\<in>set rows. \<forall>col i. row_int r col = Some i \<longrightarrow> int32 i) (run_query env txt)"
  unfolding calm_def run_query_def calm_env_def by (auto simp: act split: option.splits)

lemma calm_run_update [calm_intro]:
  assumes "length txt < 5000" "calm_env env"
  shows "calm (working env) (\<lambda>_. True) (run_update env txt)"
  unfolding calm_def
proof (intro allI impI)
  fix s assume "working env s"
  obtain k db' where u: "sql_update (v_sql env) (ms_db s) txt = (k, db')" by (cases "sql_update (v_sql env) (ms_db s) txt")
  have "sql_connect (v_sql env) (snd (sql_update (v_sql env) (ms_db s) txt)) = sql_connect (v_sql env) (ms_db s)"
    using assms(2) unfolding calm_env_def by blast
  then have "sql_connect (v_sql env) db' = Connected" using \<open>working env s\<close> u by (simp add: working_defs)
  then show "case run_update env txt s of (r, s') \<Rightarrow> working env s' \<and> r \<noteq> Crash \<and> (\<forall>a. r = Ret a \<longrightarrow> True)"
    using \<open>working env s\<close> assms(1) by (cases k) (simp_all add: run_update_def act u working_defs)
qed

lemma calm_last_int [calm_intro]:
  "\<forall>r\<in>set rows. \<forall>col i. row_int r col = Some i \<longrightarrow> int32 i \<Longrightarrow> int32 i \<Longrightarrow> calm P int32 (last_int col rows i)"
  by (induction rows arbitrary: i) (auto intro!: calm_intro)

lemma int32_neg1: "int32 (- 1)"
  by (simp add: int32_def)

lemma calm_select_int [calm_intro]:
  "length txt < 5000 \<Longrightarrow> calm_env env \<Longrightarrow> calm (working env) int32 (select_int env txt col msg c h)"
  unfolding select_int_def by ((rule calm_intro int32_neg1 | assumption)+)

lemma calm_blob [calm_intro]: "calm P (\<lambda>_. True) (blob_text col r)"
  unfolding blob_text_def by (intro calm_intro TrueI)

lemma calm_for_rows [calm_intro]: "(\<And>r. calm P (\<lambda>_. True) (f r)) \<Longrightarrow> calm P (\<lambda>_. True) (for_rows f rows)"
  by (induction rows) (auto intro!: calm_intro)

text \<open>
  Parameters none of whose texts has exactly 256 characters, the data of an upload and the client id (which no
  handler reads) aside, and whose numbers have 32 bits.
\<close>

definition fields_fit :: "fields \<Rightarrow> bool" where
  "fields_fit m \<longleftrightarrow> (\<forall>k t. smap_get m k = Some (JString t) \<and> k \<notin> {''model'', ''ad'', ''clientid''} \<longrightarrow> length t \<noteq> 256) \<and>
     (\<forall>k i. smap_get m k = Some (JNumber i) \<longrightarrow> int32 i)"

lemma calm_text_at [calm_intro]:
  "fields_fit m \<Longrightarrow> k \<notin> {''model'', ''ad'', ''clientid''} \<Longrightarrow> calm P (\<lambda>t. length t \<noteq> 256) (text_at m k)"
  by (auto simp: calm_def text_at_run fields_fit_def split: option.splits json.splits)

lemma calm_data_at: "calm P (\<lambda>_. True) (text_at m k)"
  by (auto simp: calm_def text_at_run split: option.splits json.splits)

lemma calm_int_at [calm_intro]: "fields_fit m \<Longrightarrow> calm P int32 (int_at m k)"
  by (auto simp: calm_def int_at_run fields_fit_def split: option.splits json.splits)

lemma calm_ansi [calm_intro]: "length w \<noteq> 256 \<Longrightarrow> calm P (\<lambda>t. length t \<le> 255) (ansi256 w)"
  using length_c_text [of w] by (simp add: calm_def ansi256_def act)

lemma calm_read [calm_intro]: "calm P (\<lambda>_. True) (read_file p)"
  by (simp add: calm_def file_run)

lemma calm_write [calm_intro]: "v_writable env p \<Longrightarrow> calm (working env) (\<lambda>_. True) (write_file env p d)"
  by (simp add: calm_def file_run working_defs)

lemma calm_root: "calm (working env) (\<lambda>root. \<forall>p. v_writable env (root @ p)) (gets ms_root)"
  by (simp add: calm_def act working_def)


lemma calm_find_subs [calm_intro]:
  "fields_fit m \<Longrightarrow> calm_env env \<Longrightarrow> calm (working env) int32 (find_subs env m col)"
  unfolding find_subs_def by (rule calm_intro | assumption | simp)+

lemma calm_find_file [calm_intro]: "int32 i \<Longrightarrow> calm_env env \<Longrightarrow> calm (working env) int32 (find_file env i)"
  unfolding find_file_def by (rule calm_intro length_id_queries | assumption)+

lemma calm_serve_base64:
  "v_writable env (path @ ''.base64'') \<Longrightarrow> calm (working env) (\<lambda>_. True) (serve_base64 env path key msg)"
  unfolding serve_base64_def by (rule calm_intro | assumption)+

lemma calm_serve_model [calm_intro]: "calm (working env) (\<lambda>_. True) (serve_model env r)"
  unfolding serve_model_def by (intro calm_abind [OF calm_blob] calm_abind [OF calm_root] calm_serve_base64) simp

lemma calm_serve_ad [calm_intro]: "calm (working env) (\<lambda>_. True) (serve_ad env r)"
  unfolding serve_ad_def
  by (intro calm_abind [OF calm_blob] calm_aseq calm_set calm_abind [OF calm_root] calm_serve_base64) simp

lemma calm_serve_info [calm_intro]: "calm_env env \<Longrightarrow> calm (working env) (\<lambda>_. True) (serve_info env r)"
  unfolding serve_info_def Let_def by (rule calm_intro | assumption | rule TrueI)+

lemma calm_model_rows [calm_intro]:
  "(\<And>r. calm (working env) (\<lambda>_. True) (f r)) \<Longrightarrow> int32 i \<Longrightarrow> calm_env env \<Longrightarrow> calm (working env) (\<lambda>_. True) (model_rows env f i)"
  unfolding model_rows_def by (rule calm_intro length_id_queries | assumption)+

lemma calm_OnGetModel [calm_intro]: "fields_fit m \<Longrightarrow> calm_env env \<Longrightarrow> calm (working env) (\<lambda>_. True) (OnGetModel env m)"
  unfolding OnGetModel_def by (rule calm_intro int32_neg1 | assumption)+

lemma calm_OnGetInfo [calm_intro]: "fields_fit m \<Longrightarrow> calm_env env \<Longrightarrow> calm (working env) (\<lambda>_. True) (OnGetInfo env m)"
  unfolding OnGetInfo_def by (rule calm_intro int32_neg1 | assumption)+

lemma calm_OnGetAd [calm_intro]: "fields_fit m \<Longrightarrow> calm_env env \<Longrightarrow> calm (working env) (\<lambda>_. True) (OnGetAd env m)"
  unfolding OnGetAd_def by (rule calm_intro int32_neg1 length_id_queries | assumption)+

lemma calm_catch [calm_intro]: "calm P (\<lambda>_. True) m \<Longrightarrow> calm P (\<lambda>_. True) (catch_http m)"
  by (auto simp: calm_def catch_http_def split: prod.splits res.splits exn.splits)

lemma calm_frame [calm_intro]: "calm (working env) (\<lambda>_. True) start_answer" "calm P (\<lambda>_. True) reply"
  by (simp_all add: calm_def working_defs start_answer_def reply_def act as_integer_def split: json.splits)

lemma get_get_params:
  "smap_get (get_params kv) k = (if k = ''subsid'' \<or> k = ''clientid'' then map_option JString (smap_get kv k) else None)"
  by (cases "smap_get kv ''subsid''"; cases "smap_get kv ''clientid''")
    (auto simp: get_params_def copy_param_def smap_get_def smap_put_get)

lemma fields_fit_get:
  assumes "\<And>t. smap_get kv ''subsid'' = Some t \<Longrightarrow> length t \<noteq> 256"
  shows "fields_fit (get_params kv)"
  unfolding fields_fit_def get_get_params
proof (intro conjI allI impI)
  fix k t
  assume *: "(if k = ''subsid'' \<or> k = ''clientid'' then map_option JString (smap_get kv k) else None) = Some (JString t) \<and>
    k \<notin> {''model'', ''ad'', ''clientid''}"
  have "k = ''subsid''"
  proof (rule ccontr)
    assume "k \<noteq> ''subsid''"
    moreover have "k \<noteq> ''clientid''" using * by blast
    ultimately show False using * by simp
  qed
  then show "length t \<noteq> 256" using * by (cases "smap_get kv ''subsid''") (simp_all add: assms)
next
  fix k i
  assume *: "(if k = ''subsid'' \<or> k = ''clientid'' then map_option JString (smap_get kv k) else None) = Some (JNumber i)"
  then show "int32 i" by (cases "smap_get kv k"; cases "k = ''subsid'' \<or> k = ''clientid''") simp_all
qed

lemma calm_get_method [calm_intro]:
  "fields_fit (get_params kv) \<Longrightarrow> calm_env env \<Longrightarrow> calm (working env) (\<lambda>_. True) (get_method env path kv)"
  unfolding get_method_def Let_def by (rule calm_intro | assumption)+

section \<open>Uploads and subscriptions\<close>

lemma calm_login [calm_intro]: "fields_fit m \<Longrightarrow> calm_env env \<Longrightarrow> calm (working env) int32 (login env m)"
  unfolding login_def by (rule calm_intro | assumption | simp)+

lemma calm_find_owner [calm_intro]: "fields_fit m \<Longrightarrow> calm_env env \<Longrightarrow> calm (working env) int32 (find_owner env m)"
  unfolding find_owner_def by (rule calm_intro | assumption | simp)+

lemma calm_row_exists [calm_intro]: "length txt < 5000 \<Longrightarrow> calm_env env \<Longrightarrow> calm (working env) (\<lambda>_. True) (row_exists env txt)"
  unfolding row_exists_def by (rule calm_intro TrueI | assumption)+

text \<open>A stored file has a name of at most 43 characters and a 32-bit size.\<close>

definition stored :: "string \<times> int \<Rightarrow> bool" where
  "stored p \<longleftrightarrow> length (fst p) \<le> 43 \<and> int32 (snd p)"

lemma calm_store_file [calm_intro]:
  assumes "length ext \<le> 7" "calm_env env"
  shows "calm (working env) stored (store_file env dir ext t)"
  using assms by (simp add: calm_def store_file_def write_file_def act working_defs stored_def calm_env_def)

lemma calm_stored [calm_intro]:
  "(\<And>n z. length n \<le> 43 \<Longrightarrow> int32 z \<Longrightarrow> calm P Q (f n z)) \<Longrightarrow> stored p \<Longrightarrow> calm P Q (case p of (n, z) \<Rightarrow> f n z)"
  by (cases p) (simp add: stored_def)

lemma calm_upload_file [calm_intro]: "calm_env env \<Longrightarrow> calm (working env) int32 (upload_file env m)"
  unfolding upload_file_def
  by (rule calm_data_at [of "working env"] calm_intro length_inserts int32_neg1 | assumption | simp)+

lemma calm_upload_model_row [calm_intro]:
  "fields_fit m \<Longrightarrow> int32 i \<Longrightarrow> calm_env env \<Longrightarrow> calm (working env) (\<lambda>_. True) (upload_model_row env m i)"
  unfolding upload_model_row_def by (rule calm_intro length_inserts | assumption | simp)+

lemma calm_OnUploadModel [calm_intro]: "fields_fit m \<Longrightarrow> calm_env env \<Longrightarrow> calm (working env) (\<lambda>_. True) (OnUploadModel env m)"
  unfolding OnUploadModel_def by (rule calm_intro int32_neg1 | assumption)+

lemma calm_upload_ad_row [calm_intro]:
  "length u \<le> 255 \<Longrightarrow> int32 i \<Longrightarrow> calm_env env \<Longrightarrow> calm (working env) (\<lambda>_. True) (upload_ad_row env m u i)"
  unfolding upload_ad_row_def
  by (rule calm_data_at [of "working env"] calm_intro length_inserts | assumption | simp)+

lemma calm_OnUploadAd [calm_intro]: "fields_fit m \<Longrightarrow> calm_env env \<Longrightarrow> calm (working env) (\<lambda>_. True) (OnUploadAd env m)"
  unfolding OnUploadAd_def by (rule calm_intro | assumption | simp)+

lemma calm_pick_hash [calm_intro]: "calm_env env \<Longrightarrow> calm (working env) (\<lambda>h. length h = 8) (pick_hash env seed j n)"
proof (induction n arbitrary: j)
  case (Suc n)
  have l: "length (hash_at env seed j) = 8" by (simp add: hash_at_def)
  have q: "length (q_subs (hash_at env seed j)) < 5000" by (simp add: l)
  show ?case
    unfolding pick_hash.simps using Suc
    by (intro calm_abind [OF calm_run_query [OF q Suc.prems]] calm_if) (simp_all add: calm_pure l)
qed (simp add: calm_pure)

lemma calm_insert_subs [calm_intro]:
  "int32 w \<Longrightarrow> int32 m \<Longrightarrow> int32 a \<Longrightarrow> calm_env env \<Longrightarrow> calm (working env) (\<lambda>_. True) (insert_subs env w m a)"
  unfolding insert_subs_def by (rule calm_intro length_inserts | assumption | simp add: working_defs)+

lemma calm_ad_exists:
  "length txt < 5000 \<Longrightarrow> calm_env env \<Longrightarrow> calm (working env) (\<lambda>_. True) (abind (row_exists env txt) (\<lambda>b. ret (b \<or> c)))"
  by (rule calm_abind [OF calm_row_exists]) (simp_all add: calm_pure)

lemma calm_OnCreateSubscription [calm_intro]:
  "fields_fit m \<Longrightarrow> calm_env env \<Longrightarrow> calm (working env) (\<lambda>_. True) (OnCreateSubscription env m)"
  unfolding OnCreateSubscription_def
  by (rule calm_ad_exists calm_intro int32_neg1 length_id_queries TrueI | assumption)+

text \<open>A body whose fields fit their buffers.\<close>

definition body_fits :: "body \<Rightarrow> bool" where
  "body_fits b \<longleftrightarrow> (\<forall>j. b = Body j \<longrightarrow>
     (\<forall>k t. json_field j k = JString t \<and> k \<notin> {''model'', ''ad'', ''clientid''} \<longrightarrow> length t \<noteq> 256) \<and>
     (\<forall>k i. json_field j k = JNumber i \<longrightarrow> int32 i))"

lemma fields_fit_post: "body_fits (Body j) \<Longrightarrow> fields_fit (copy_fields j ks)"
  by (auto simp: body_fits_def fields_fit_def get_copy_fields split: if_splits)

lemma calm_post_method [calm_intro]:
  "body_fits (Body j) \<Longrightarrow> calm_env env \<Longrightarrow> calm (working env) (\<lambda>_. True) (post_method env path j)"
  unfolding post_method_def Let_def by (rule calm_intro fields_fit_post | assumption)+

lemma calm_HandlePost:
  assumes "calm_env env" "body_fits b"
  shows "calm (working env) (\<lambda>_. True) (HandlePost env path query b)"
  using assms(2) unfolding HandlePost_def
  by (cases b) (auto intro!: calm_intro assms(1))

lemma calm_HandleGet:
  assumes "calm_env env" "\<And>q t. decode query = Some q \<Longrightarrow> smap_get (split_query q) ''subsid'' = Some t \<Longrightarrow> length t \<noteq> 256"
  shows "calm (working env) (\<lambda>_. True) (HandleGet env path query)"
  unfolding HandleGet_def using assms(2)
  by (auto intro!: calm_intro assms(1) fields_fit_get)

lemma calm_not_crash: "calm P Q m \<Longrightarrow> P s \<Longrightarrow> fst (m s) \<noteq> Crash"
  by (cases "m s") (auto simp: calm_def)

text \<open>
  C36. With a database that accepts connections and a root folder in which files can be created, no request of either kind runs into undefined
  behaviour or an abort, whatever the database answers: every statement fits its buffer of 5000 bytes and every field its
  buffer of 256, as long as no field has exactly 256 characters. (Uploads are below 2 GB and numbers have 32 bits.)
\<close>

theorem requests_never_crash:
  assumes "calm_env env" "working env s" "body_fits b"
    and "\<And>q t. decode query = Some q \<Longrightarrow> smap_get (split_query q) ''subsid'' = Some t \<Longrightarrow> length t \<noteq> 256"
  shows "fst (HandleGet env path query s) \<noteq> Crash \<and> fst (HandlePost env path query b s) \<noteq> Crash"
proof
  have "calm (working env) (\<lambda>_. True) (HandleGet env path query)" using assms(1,4) by (rule calm_HandleGet)
  then show "fst (HandleGet env path query s) \<noteq> Crash" using assms(2) by (rule calm_not_crash)
  show "fst (HandlePost env path query b s) \<noteq> Crash" using calm_HandlePost [OF assms(1,3)] assms(2) by (rule calm_not_crash)
qed

text \<open>
  A GET request with a subscription id of exactly 256 characters writes the terminating zero past the end of
  a buffer.
\<close>

theorem id_of_256_crashes:
  assumes "linked env s" "asks path query meth h" "meth \<in> {''get'', ''getad'', ''getinfo''}" "length h = 256"
  shows "fst (HandleGet env path query s) = Crash"
proof -
  obtain params where h: "smap_get params ''subsid'' = Some (JString h)"
    and H: "meth = ''get'' \<Longrightarrow> HandleGet env path query s = aseq (catch_http (OnGetModel env params)) reply (started s)"
      "meth = ''getad'' \<Longrightarrow> HandleGet env path query s = aseq (catch_http (OnGetAd env params)) reply (started s)"
      "meth = ''getinfo'' \<Longrightarrow> HandleGet env path query s = aseq (catch_http (OnGetInfo env params)) reply (started s)"
    using HandleGet_asks [OF assms(2)] by metis
  have up: "db_open env (started s) = (Ret (), started s)" using assms(1) by (simp add: linked_def db_open_ok)
  have F: "find_subs env params col (started s) = (Crash, started s)" for col
    using h assms(4) by (simp add: find_subs_def abind_run text_at_run ansi256_def act_basic)
  have "OnGetModel env params (started s) = (Crash, started s)" "OnGetAd env params (started s) = (Crash, started s)"
    "OnGetInfo env params (started s) = (Crash, started s)"
    by (simp_all add: OnGetModel_def OnGetAd_def OnGetInfo_def aseq_run abind_run up F)
  then show ?thesis using assms(3) H by (auto simp: aseq_run abind_run catch_http_def)
qed

end
