(* ===== verification/ServerWitness.thy ===== *)
theory ServerWitness
  imports ServerPost ServerSafety
begin

text \<open>
  A small database that answers exactly the statements the server writes, by cutting them at their quotes; it
  meets the contract for every content of its tables. On it the properties of the server are applied to
  concrete requests.
\<close>

section \<open>A database for the contract\<close>

definition pieces :: "string \<Rightarrow> string list" where
  "pieces = split_on (CHR 0x27)"

lemma split_on_none: "d \<notin> set a \<Longrightarrow> split_on d a = [a]"
  by (induction a) auto

lemma split_on_at: "d \<notin> set a \<Longrightarrow> split_on d (a @ d # b) = a # split_on d b"
  by (induction a) (auto split: list.splits)

lemma pieces_simps:
  "CHR 0x27 \<notin> set a \<Longrightarrow> pieces a = [a]" "CHR 0x27 \<notin> set a \<Longrightarrow> pieces (a @ CHR 0x27 # b) = a # pieces b"
  by (simp_all add: pieces_def split_on_none split_on_at)

definition strip :: "string \<Rightarrow> string \<Rightarrow> string option" where
  "strip p t = (if take (length p) t = p then Some (drop (length p) t) else None)"

lemma strip_append [simp]: "strip p (p @ t) = Some t"
  by (simp add: strip_def)

lemma no_quote_show [simp]: "CHR 0x27 \<notin> set (show_int i)" "CHR '','' \<notin> set (show_int i)"
  using show_int_chars [of "CHR 0x27" i] show_int_chars [of "CHR '',''" i] by (auto simp: code_def)

definition file_sqlrow :: "file_row \<Rightarrow> sqlrow" where
  "file_sqlrow f = \<lparr>row_int = (\<lambda>_. None), row_blob = (\<lambda>_. Some (Some (f_path f)))\<rparr>"

definition ad_sqlrow :: "ad_row \<Rightarrow> sqlrow" where
  "ad_sqlrow a = \<lparr>row_int = (\<lambda>_. None),
     row_blob = (\<lambda>c. Some (Some (if c = ''AdUrl'' then a_url a else a_path a)))\<rparr>"

definition int_sqlrow :: "int \<Rightarrow> sqlrow" where
  "int_sqlrow i = \<lparr>row_int = (\<lambda>_. Some i), row_blob = (\<lambda>_. None)\<rparr>"

definition subs_sqlrow :: "subs_row \<Rightarrow> sqlrow" where
  "subs_sqlrow s = \<lparr>row_int = (\<lambda>c. Some (if c = ''AdId'' then s_ad s else s_model s)), row_blob = (\<lambda>_. None)\<rparr>"

definition lit_query :: "tables \<times> int \<Rightarrow> string \<Rightarrow> sqlrow list option" where
  "lit_query db txt = (let t = fst db in case pieces txt of
      [a] \<Rightarrow> (if a = q_last then Some [int_sqlrow (snd db)] else
        case strip ''SELECT * FROM tbl_model_desc WHERE id='' a of
          Some i \<Rightarrow> Some (map (int_sqlrow \<circ> m_pc) [m \<leftarrow> t_models t. show_int (m_id m) = i])
        | None \<Rightarrow> (case strip ''SELECT * FROM tbl_file_address WHERE id='' a of
          Some i \<Rightarrow> Some (map file_sqlrow [f \<leftarrow> t_files t. show_int (f_id f) = i])
        | None \<Rightarrow> (case strip ''SELECT * FROM tbl_advertisement WHERE id='' a of
          Some i \<Rightarrow> Some (map ad_sqlrow [x \<leftarrow> t_ads t. show_int (a_id x) = i])
        | None \<Rightarrow> None)))
    | [a, h, _] \<Rightarrow>
        (if a = ''SELECT * FROM tbl_subscription WHERE HashId='' then Some (map subs_sqlrow [s \<leftarrow> t_subs t. s_hash s = h])
         else if a = ''SELECT * FROM tbl_owner_desc WHERE Username='' then Some (map (int_sqlrow \<circ> o_id) [w \<leftarrow> t_owners t. o_user w = h])
         else if a = ''SELECT * FROM tbl_model_desc WHERE id='' then Some (map (int_sqlrow \<circ> m_pc) [m \<leftarrow> t_models t. show_int (m_id m) = h])
         else if a = ''SELECT * FROM tbl_advertisement WHERE id='' then Some (map ad_sqlrow [x \<leftarrow> t_ads t. show_int (a_id x) = h])
         else None)
    | [a, u, b, p, _] \<Rightarrow> Some (map (int_sqlrow \<circ> o_id) [w \<leftarrow> t_owners t. o_user w = u \<and> o_pass w = p])
    | _ \<Rightarrow> None)"

definition two_ints :: "string \<Rightarrow> int \<times> int" where
  "two_ints a = (case split_on (CHR '','') a of x # y # _ \<Rightarrow> (read_int x, read_int (tl y)) | _ \<Rightarrow> (0, 0))"

definition mid_int :: "string \<Rightarrow> int" where
  "mid_int a = (case split_on (CHR '','') a of _ # x # _ \<Rightarrow> read_int x | _ \<Rightarrow> 0)"

definition lit_update :: "tables \<times> int \<Rightarrow> string \<Rightarrow> nat option \<times> (tables \<times> int)" where
  "lit_update db txt = (let t = fst db in case pieces txt of
      [a, p, b, q, c] \<Rightarrow>
        (if a = ''INSERT INTO tbl_file_address (FilePathName, Base64FilePathName, Size) VALUES('' then
           (Some 1, add_file p q (mid_int (take (length c - 2) c)) t, t_nfile t)
         else if a = ''INSERT INTO tbl_advertisement (FilePathName, OwnerId, AdUrl) VALUES('' then
           (Some 1, add_ad (mid_int b) p q t, t_nad t)
         else case strip ''INSERT INTO tbl_model_desc (PCFileId, MobileFileId, ModelName, ModelDesc) VALUES('' a of
           Some r \<Rightarrow> (let (i, j) = two_ints r in (Some 1, add_model i j p q t, t_nmodel t))
         | None \<Rightarrow> (case strip ''INSERT INTO tbl_subscription (OwnerId, ModelId, AdId, HashId) VALUES('' a of
           Some r \<Rightarrow> (let (w, m) = two_ints r; x = read_int p in
             if subs_refs t w m x then (Some 1, add_subs w m x q t, t_nsubs t) else (None, db))
         | None \<Rightarrow> (None, db)))
    | _ \<Rightarrow> (None, db))"

definition lit_sql :: "(tables \<times> int) sql" where
  "lit_sql = \<lparr>sql_connect = (\<lambda>_. Connected), sql_query = lit_query, sql_update = lit_update\<rparr>"

lemma list_all2_map_same: "(\<And>x. R (f x) x) \<Longrightarrow> list_all2 R (map f xs) xs"
  by (simp add: list_all2_conv_all_nth)

lemma sqlrows_read:
  "reads_file (file_sqlrow f) f" "reads_ad (ad_sqlrow a) a" "reads_model (int_sqlrow (m_pc m)) m"
  "reads_owner (int_sqlrow (o_id w)) w" "reads_subs (subs_sqlrow s) s" "reads_id (int_sqlrow i) i"
  by (simp_all add: reads_file_def file_sqlrow_def reads_ad_def ad_sqlrow_def reads_model_def int_sqlrow_def
      reads_owner_def reads_subs_def subs_sqlrow_def reads_id_def)

lemma pieces_queries:
  "sql_safe h \<Longrightarrow> pieces (q_subs h) = [''SELECT * FROM tbl_subscription WHERE HashId='', h, []]"
  "sql_safe h \<Longrightarrow> pieces (q_owner h) = [''SELECT * FROM tbl_owner_desc WHERE Username='', h, []]"
  "sql_safe h \<Longrightarrow> sql_safe p \<Longrightarrow> pieces (q_login h p) = [''SELECT * FROM tbl_owner_desc WHERE Username='', h, '' AND Password='', p, []]"
  "pieces (q_model_quoted i) = [''SELECT * FROM tbl_model_desc WHERE id='', show_int i, []]"
  "pieces (q_ad_quoted i) = [''SELECT * FROM tbl_advertisement WHERE id='', show_int i, []]"
  "pieces (q_model i) = [''SELECT * FROM tbl_model_desc WHERE id='' @ show_int i]"
  "pieces (q_file i) = [''SELECT * FROM tbl_file_address WHERE id='' @ show_int i]"
  "pieces (q_ad i) = [''SELECT * FROM tbl_advertisement WHERE id='' @ show_int i]"
  "pieces q_last = [q_last]"
proof -
  show "pieces (q_model i) = [''SELECT * FROM tbl_model_desc WHERE id='' @ show_int i]"
    unfolding pieces_def q_model_def by (rule split_on_none) simp
  show "pieces (q_file i) = [''SELECT * FROM tbl_file_address WHERE id='' @ show_int i]"
    unfolding pieces_def q_file_def by (rule split_on_none) simp
  show "pieces (q_ad i) = [''SELECT * FROM tbl_advertisement WHERE id='' @ show_int i]"
    unfolding pieces_def q_ad_def by (rule split_on_none) simp
  show "pieces q_last = [q_last]"
    unfolding pieces_def q_last_def by (rule split_on_none) simp
qed (simp_all add: q_subs_def q_owner_def q_login_def q_model_quoted_def q_ad_quoted_def quoted_def pieces_def
      split_on_none split_on_at sql_safe_no_quote)

lemma strip_select:
  "strip ''SELECT * FROM tbl_model_desc WHERE id='' (''SELECT * FROM tbl_file_address WHERE id='' @ t) = None"
  "strip ''SELECT * FROM tbl_model_desc WHERE id='' (''SELECT * FROM tbl_advertisement WHERE id='' @ t) = None"
  "strip ''SELECT * FROM tbl_file_address WHERE id='' (''SELECT * FROM tbl_advertisement WHERE id='' @ t) = None"
  "''SELECT * FROM tbl_model_desc WHERE id='' @ t \<noteq> q_last" "''SELECT * FROM tbl_file_address WHERE id='' @ t \<noteq> q_last"
  "''SELECT * FROM tbl_advertisement WHERE id='' @ t \<noteq> q_last"
  by (simp_all add: strip_def q_last_def)

lemma lit_queries:
  "sql_safe h \<Longrightarrow> lit_query db (q_subs h) = Some (map subs_sqlrow [s \<leftarrow> t_subs (fst db). s_hash s = h])"
  "sql_safe h \<Longrightarrow> lit_query db (q_owner h) = Some (map (int_sqlrow \<circ> o_id) [w \<leftarrow> t_owners (fst db). o_user w = h])"
  "sql_safe h \<Longrightarrow> sql_safe p \<Longrightarrow> lit_query db (q_login h p) =
     Some (map (int_sqlrow \<circ> o_id) [w \<leftarrow> t_owners (fst db). o_user w = h \<and> o_pass w = p])"
  "lit_query db (q_model_quoted i) = Some (map (int_sqlrow \<circ> m_pc) [m \<leftarrow> t_models (fst db). m_id m = i])"
  "lit_query db (q_ad_quoted i) = Some (map ad_sqlrow [a \<leftarrow> t_ads (fst db). a_id a = i])"
  "lit_query db (q_model i) = Some (map (int_sqlrow \<circ> m_pc) [m \<leftarrow> t_models (fst db). m_id m = i])"
  "lit_query db (q_file i) = Some (map file_sqlrow [f \<leftarrow> t_files (fst db). f_id f = i])"
  "lit_query db (q_ad i) = Some (map ad_sqlrow [a \<leftarrow> t_ads (fst db). a_id a = i])"
  "lit_query db q_last = Some [int_sqlrow (snd db)]"
  unfolding lit_query_def Let_def
  by (simp_all only: pieces_queries list.case strip_append strip_select option.case if_False if_True simp_thms show_int_inj
      list.inject char.inject not_Cons_self2)

lemma pieces5:
  assumes "CHR 0x27 \<notin> set a" "CHR 0x27 \<notin> set p" "CHR 0x27 \<notin> set b" "CHR 0x27 \<notin> set q" "CHR 0x27 \<notin> set c"
  shows "pieces (a @ CHR 0x27 # p @ CHR 0x27 # b @ CHR 0x27 # q @ CHR 0x27 # c) = [a, p, b, q, c]"
  using assms by (simp add: pieces_simps)

lemma pieces_inserts:
  "sql_safe p \<Longrightarrow> sql_safe q \<Longrightarrow> pieces (i_file p q n) =
    [''INSERT INTO tbl_file_address (FilePathName, Base64FilePathName, Size) VALUES('', p, '','', q, '','' @ show_int n @ '');'']"
  "sql_safe p \<Longrightarrow> sql_safe q \<Longrightarrow> pieces (i_ad p n q) =
    [''INSERT INTO tbl_advertisement (FilePathName, OwnerId, AdUrl) VALUES('', p, '','' @ show_int n @ '','', q, '');'']"
  "sql_safe p \<Longrightarrow> sql_safe q \<Longrightarrow> pieces (i_model i j p q) =
    [''INSERT INTO tbl_model_desc (PCFileId, MobileFileId, ModelName, ModelDesc) VALUES('' @ (show_int i @ '', '' @ show_int j @ '', ''),
      p, '', '', q, '')'']"
  "sql_safe q \<Longrightarrow> pieces (i_subs i j a q) =
    [''INSERT INTO tbl_subscription (OwnerId, ModelId, AdId, HashId) VALUES('' @ (show_int i @ '', '' @ show_int j @ '', ''),
      show_int a, '', '', q, '')'']"
proof -
  assume s: "sql_safe q"
  have "i_subs i j a q = (''INSERT INTO tbl_subscription (OwnerId, ModelId, AdId, HashId) VALUES('' @ (show_int i @ '', '' @ show_int j @ '', ''))
     @ CHR 0x27 # show_int a @ CHR 0x27 # '', '' @ CHR 0x27 # q @ CHR 0x27 # '')''"
    by (simp add: i_subs_def quoted_def)
  then show "pieces (i_subs i j a q) =
    [''INSERT INTO tbl_subscription (OwnerId, ModelId, AdId, HashId) VALUES('' @ (show_int i @ '', '' @ show_int j @ '', ''),
      show_int a, '', '', q, '')'']"
    by (simp only:) (rule pieces5; simp add: sql_safe_no_quote [OF s])
  assume p: "sql_safe p"
  have "i_file p q n = ''INSERT INTO tbl_file_address (FilePathName, Base64FilePathName, Size) VALUES(''
     @ CHR 0x27 # p @ CHR 0x27 # '','' @ CHR 0x27 # q @ CHR 0x27 # ('','' @ show_int n @ '');'')"
    by (simp add: i_file_def quoted_def)
  then show "pieces (i_file p q n) =
    [''INSERT INTO tbl_file_address (FilePathName, Base64FilePathName, Size) VALUES('', p, '','', q, '','' @ show_int n @ '');'']"
    by (simp only:) (rule pieces5; simp add: sql_safe_no_quote [OF s] sql_safe_no_quote [OF p])
  have "i_ad p n q = ''INSERT INTO tbl_advertisement (FilePathName, OwnerId, AdUrl) VALUES(''
     @ CHR 0x27 # p @ CHR 0x27 # ('','' @ show_int n @ '','') @ CHR 0x27 # q @ CHR 0x27 # '');''"
    by (simp add: i_ad_def quoted_def)
  then show "pieces (i_ad p n q) =
    [''INSERT INTO tbl_advertisement (FilePathName, OwnerId, AdUrl) VALUES('', p, '','' @ show_int n @ '','', q, '');'']"
    by (simp only:) (rule pieces5; simp add: sql_safe_no_quote [OF s] sql_safe_no_quote [OF p])
  have "i_model i j p q = (''INSERT INTO tbl_model_desc (PCFileId, MobileFileId, ModelName, ModelDesc) VALUES('' @ (show_int i @ '', '' @ show_int j @ '', ''))
     @ CHR 0x27 # p @ CHR 0x27 # '', '' @ CHR 0x27 # q @ CHR 0x27 # '')''"
    by (simp add: i_model_def quoted_def)
  then show "pieces (i_model i j p q) =
    [''INSERT INTO tbl_model_desc (PCFileId, MobileFileId, ModelName, ModelDesc) VALUES('' @ (show_int i @ '', '' @ show_int j @ '', ''),
      p, '', '', q, '')'']"
    by (simp only:) (rule pieces5; simp add: sql_safe_no_quote [OF s] sql_safe_no_quote [OF p])
qed

lemma two_ints_show: "two_ints (show_int i @ '', '' @ show_int j @ '', '') = (i, j)"
proof -
  have "split_on (CHR '','') (show_int i @ CHR '','' # ('' '' @ show_int j) @ CHR '','' # '' '') = [show_int i, '' '' @ show_int j, '' '']"
    by (simp add: split_on_at split_on_none)
  then show ?thesis by (simp add: two_ints_def read_show_int)
qed

lemma mid_int_show: "mid_int ('','' @ show_int i) = i" "mid_int ('','' @ show_int i @ '','') = i"
  by (simp_all add: mid_int_def split_on_none split_on_at read_show_int)

lemma lit_updates:
  "sql_safe p \<Longrightarrow> sql_safe q \<Longrightarrow> lit_update db (i_file p q n) = (Some 1, add_file p q n (fst db), t_nfile (fst db))"
  "sql_safe p \<Longrightarrow> sql_safe q \<Longrightarrow> lit_update db (i_ad p n q) = (Some 1, add_ad n p q (fst db), t_nad (fst db))"
  "sql_safe p \<Longrightarrow> sql_safe q \<Longrightarrow> lit_update db (i_model i j p q) = (Some 1, add_model i j p q (fst db), t_nmodel (fst db))"
  "sql_safe q \<Longrightarrow> lit_update db (i_subs i j a q) =
     (if subs_refs (fst db) i j a then (Some 1, add_subs i j a q (fst db), t_nsubs (fst db)) else (None, db))"
proof -
  let ?f = "''INSERT INTO tbl_file_address (FilePathName, Base64FilePathName, Size) VALUES(''"
  let ?a = "''INSERT INTO tbl_advertisement (FilePathName, OwnerId, AdUrl) VALUES(''"
  let ?m = "''INSERT INTO tbl_model_desc (PCFileId, MobileFileId, ModelName, ModelDesc) VALUES(''"
  let ?s = "''INSERT INTO tbl_subscription (OwnerId, ModelId, AdId, HashId) VALUES(''"
  have d: "?a \<noteq> ?f" "?m @ t \<noteq> ?f" "?m @ t \<noteq> ?a" "?s @ t \<noteq> ?f" "?s @ t \<noteq> ?a" "strip ?m (?s @ t) = None" for t
    by (simp_all add: strip_def)
  show "lit_update db (i_subs i j a q) =
     (if subs_refs (fst db) i j a then (Some 1, add_subs i j a q (fst db), t_nsubs (fst db)) else (None, db))" if "sql_safe q"
    unfolding lit_update_def Let_def pieces_inserts(4) [OF that]
    by (simp only: list.case d if_False option.case strip_append two_ints_show prod.case read_show_int)
  show "lit_update db (i_file p q n) = (Some 1, add_file p q n (fst db), t_nfile (fst db))" if "sql_safe p" "sql_safe q"
    unfolding lit_update_def Let_def pieces_inserts(1) [OF that]
    using mid_int_show(1) [of n] by simp
  show "lit_update db (i_ad p n q) = (Some 1, add_ad n p q (fst db), t_nad (fst db))" if "sql_safe p" "sql_safe q"
    unfolding lit_update_def Let_def pieces_inserts(2) [OF that]
    by (simp only: list.case d if_False if_True mid_int_show simp_thms)
  show "lit_update db (i_model i j p q) = (Some 1, add_model i j p q (fst db), t_nmodel (fst db))" if "sql_safe p" "sql_safe q"
    unfolding lit_update_def Let_def pieces_inserts(3) [OF that]
    by (simp only: list.case d if_False option.case strip_append two_ints_show prod.case)
qed

lemma lit_sql_simps [simp]:
  "sql_connect lit_sql db = Connected" "sql_query lit_sql = lit_query" "sql_update lit_sql = lit_update"
  by (simp_all add: lit_sql_def)

lemma lit_select_contract: "select_contract lit_sql fst (=)"
  unfolding select_contract_def selects_def lit_sql_simps
  by (simp add: lit_queries list_all2_map_same sqlrows_read)

lemma lit_insert_contract: "insert_contract lit_sql fst (=)"
  unfolding insert_contract_def inserts_def fails_def selects_def lit_sql_simps
  by (simp add: lit_updates lit_queries sqlrows_read same_rows_def)

section \<open>A server\<close>

text \<open>Two hexadecimal digits a byte stand for base64.\<close>

definition hex_enc :: "bytes \<Rightarrow> string" where
  "hex_enc d = concat (map (\<lambda>b. [hex_digit (unat b div 16), hex_digit (unat b mod 16)]) d)"

fun hex_dec :: "string \<Rightarrow> bytes" where
  "hex_dec (a # b # r) = of_nat (16 * the (hex_value a) + the (hex_value b)) # hex_dec r"
| "hex_dec _ = []"

lemma unat_byte: "unat (b :: byte) < 256"
  using unsigned_less [of b] by simp

lemma hex_dec_enc: "hex_dec (hex_enc d) = d"
proof (induction d)
  case (Cons b d)
  have "unat b div 16 < 16" "unat b mod 16 < 16" using unat_byte [of b] by (simp_all add: less_mult_imp_div_less)
  then have "hex_value (hex_digit (unat b div 16)) = Some (unat b div 16)" "hex_value (hex_digit (unat b mod 16)) = Some (unat b mod 16)"
    by (simp_all add: hex_value_digit)
  then show ?case using Cons by (simp add: hex_enc_def)
qed (simp add: hex_enc_def)

lemma hex_enc_nul: "CHR 0x00 \<notin> set (hex_enc d)"
proof -
  have z: "code (CHR 0x00) = 0" by (simp add: code_def)
  have "code (hex_digit n) \<noteq> 0" if "n < 16" for n using that by (simp add: hex_digit_def code_char_of)
  then have "hex_digit n \<noteq> CHR 0x00" if "n < 16" for n using that z by metis
  moreover have "unat b div 16 < 16" for b :: byte using unat_byte [of b] by (simp add: less_mult_imp_div_less)
  ultimately have "CHR 0x00 \<noteq> hex_digit (unat b div 16)" "CHR 0x00 \<noteq> hex_digit (unat b mod 16)" for b :: byte
    by (metis mod_less_divisor zero_less_numeral)+
  then show ?thesis by (induction d) (simp_all add: hex_enc_def)
qed

definition w_env :: "(tables \<times> int) env" where
  "w_env = \<lparr>v_sql = lit_sql, v_enc = hex_enc, v_dec = hex_dec, v_req = (\<lambda>n. 2 * n),
     v_uuid = (\<lambda>n. ''0123456789abcdef0123456789abcdef0123''), v_rand = (\<lambda>seed i. seed + i), v_tick = (\<lambda>n. n),
     v_wjunk = (\<lambda>_. CHR ''?''), v_bjunk = (\<lambda>_. 0), v_wchar = (\<lambda>_ _. CHR ''?''), v_writable = (\<lambda>_. True), v_fuel = 5\<rparr>"

definition w_tables :: tables where
  "w_tables = \<lparr>t_files = [\<lparr>f_id = 1, f_path = ''m.3dscan'', f_base64 = ''m.3dscan.base64'', f_size = 3\<rparr>],
     t_ads = [\<lparr>a_id = 1, a_owner = 1, a_path = ''a.png'', a_url = ''http://shop''\<rparr>],
     t_models = [\<lparr>m_id = 1, m_pc = 1, m_mobile = 1, m_name = ''vase'', m_desc = ''a vase''\<rparr>],
     t_owners = [\<lparr>o_id = 1, o_name = ''Ann'', o_user = ''ann'', o_pass = ''pw''\<rparr>],
     t_subs = [\<lparr>s_id = 1, s_owner = 1, s_model = 1, s_ad = 1, s_hash = ''AbCdEfGh'', s_status = - 1\<rparr>],
     t_nfile = 2, t_nad = 2, t_nmodel = 2, t_nsubs = 2\<rparr>"

definition w_server :: "(string \<Rightarrow> bytes option) \<Rightarrow> (tables \<times> int) server" where
  "w_server fs = \<lparr>ms_root = ''C:/'', ms_driver = True, ms_db = (w_tables, 0), ms_fs = fs, ms_uuids = 0, ms_seeds = 0,
     ms_answer = [], ms_http = 0\<rparr>"

lemma w_env_simps [simp]:
  "v_sql w_env = lit_sql" "v_enc w_env = hex_enc" "v_dec w_env = hex_dec" "v_writable w_env p" "v_fuel w_env = 5"
  "v_uuid w_env n = ''0123456789abcdef0123456789abcdef0123''" "v_tick w_env n = n"
  by (simp_all add: w_env_def)

lemma w_server_simps [simp]:
  "ms_root (w_server fs) = ''C:/''" "ms_driver (w_server fs)" "ms_db (w_server fs) = (w_tables, 0)" "ms_fs (w_server fs) = fs"
  "ms_uuids (w_server fs) = 0" "ms_seeds (w_server fs) = 0"
  by (simp_all add: w_server_def)

lemma w_contract: "env_contract w_env fst (=)"
  unfolding env_contract_def w_env_simps
  by (simp add: lit_select_contract lit_insert_contract hex_dec_enc hex_enc_nul sql_safe_def code_def identity_equivp)

lemma w_up: "server_up w_env fst (=) (w_server fs)"
  by (simp add: server_up_def db_ok_def keys_below_def w_tables_def file_ids_def model_ids_def ad_ids_def owner_ids_def)

definition w_sub :: subs_row where
  "w_sub = \<lparr>s_id = 1, s_owner = 1, s_model = 1, s_ad = 1, s_hash = ''AbCdEfGh'', s_status = - 1\<rparr>"
definition w_mod :: model_row where
  "w_mod = \<lparr>m_id = 1, m_pc = 1, m_mobile = 1, m_name = ''vase'', m_desc = ''a vase''\<rparr>"
definition w_file :: file_row where
  "w_file = \<lparr>f_id = 1, f_path = ''m.3dscan'', f_base64 = ''m.3dscan.base64'', f_size = 3\<rparr>"

lemma w_published: "published w_tables w_sub w_mod w_file"
  by (simp add: published_def w_tables_def w_sub_def w_mod_def w_file_def sql_safe_def code_def)

lemma w_asks: "asks ''/3dscan/get'' ''magic=tfzfepg&subsid=AbCdEfGh'' ''get'' ''AbCdEfGh''"
  using asks_url [of "''AbCdEfGh''"] by (simp add: is_alnum_def code_def)

definition w_path :: string where "w_path = ''C:/Models//m.3dscan''"

text \<open>The same request twice: the second answer has two letters of junk.\<close>

lemma get_model_returns_file_witness:
  "\<exists>s' s''. HandleGet w_env ''/3dscan/get'' ''magic=tfzfepg&subsid=AbCdEfGh'' (w_server [w_path \<mapsto> [1]]) =
       (Ret (ok_reply ''model'' (JString ''01'')), s') \<and>
     HandleGet w_env ''/3dscan/get'' ''magic=tfzfepg&subsid=AbCdEfGh'' s' = (Ret (ok_reply ''model'' (JString ''01??'')), s'')"
proof -
  have e: "hex_enc [1] = ''01''" "text_again w_env [1] = ''01??''" by code_simp+
  obtain s' where s': "HandleGet w_env ''/3dscan/get'' ''magic=tfzfepg&subsid=AbCdEfGh'' (w_server [w_path \<mapsto> [1]]) =
      (Ret (ok_reply ''model'' (JString (hex_enc [1]))), s')"
    and n: "\<forall>n. let t = ((\<lambda>t. snd (HandleGet w_env ''/3dscan/get'' ''magic=tfzfepg&subsid=AbCdEfGh'' t)) ^^ n) s' in
      fst (HandleGet w_env ''/3dscan/get'' ''magic=tfzfepg&subsid=AbCdEfGh'' t) = Ret (ok_reply ''model'' (JString (text_again w_env [1])))"
    using get_model_returns_file [OF w_contract w_up [of "[w_path \<mapsto> [1]]"], of w_sub w_mod w_file
      "''/3dscan/get''" "''magic=tfzfepg&subsid=AbCdEfGh''" w_path "[1]"] w_published w_asks
    unfolding Let_def by (auto simp: w_path_def w_sub_def w_file_def MODEL_FILE_PATH_def)
  show ?thesis using s' n [rule_format, of 0] unfolding e Let_def by (metis funpow_0 prod.collapse)
qed

lemma get_model_again_appends_junk_witness:
  "\<exists>s'. HandleGet w_env ''/3dscan/get'' ''magic=tfzfepg&subsid=AbCdEfGh''
      (w_server [w_path @ ''.base64'' \<mapsto> wide_bytes (hex_enc [1])]) = (Ret (ok_reply ''model'' (JString ''01??'')), s')"
proof -
  have "text_again w_env [1] = ''01??''" by code_simp
  then show ?thesis
    using get_model_again_appends_junk [OF w_contract w_up [of "[w_path @ ''.base64'' \<mapsto> wide_bytes (hex_enc [1])]"], of w_sub w_mod w_file
      "''/3dscan/get''" "''magic=tfzfepg&subsid=AbCdEfGh''" w_path "[1]"] w_published w_asks
    by (auto simp: w_path_def w_sub_def w_file_def MODEL_FILE_PATH_def)
qed

lemma asks_info: "asks ''/3dscan/getinfo'' ''magic=tfzfepg&subsid=AbCdEfGh'' ''getinfo'' ''AbCdEfGh''"
  "asks ''/3dscan/getad'' ''magic=tfzfepg&subsid=nobody'' ''getad'' ''nobody''"
  by code_simp+

lemma get_info_misses_model_witness:
  "\<exists>s'. HandleGet w_env ''/3dscan/getinfo'' ''magic=tfzfepg&subsid=AbCdEfGh'' (w_server [w_path \<mapsto> [1, 2, 3]]) =
     (Ret (err_reply 404 4 ''Could not open model file!''), s')"
  using get_info_misses_model [OF w_contract w_up [of "[w_path \<mapsto> [1, 2, 3]]"], of w_sub w_mod w_file
      "''/3dscan/getinfo''" "''magic=tfzfepg&subsid=AbCdEfGh''" w_path "[1, 2, 3]"] w_published asks_info(1)
  by (auto simp: w_path_def w_sub_def w_file_def MODEL_FILE_PATH_def)

lemma unknown_subscription_not_found_witness:
  "\<exists>s'. HandleGet w_env ''/3dscan/getad'' ''magic=tfzfepg&subsid=nobody'' (w_server Map.empty) =
     (Ret (err_reply 404 1 ''Subscription id not found!''), s')"
  using unknown_subscription_not_found [OF w_contract w_up [of Map.empty] _ _ _ asks_info(2)]
  by (auto simp: w_tables_def sql_safe_def code_def)

lemma unknown_client_rejected_witness:
  "\<exists>s'. HandleGet w_env ''/3dscan/get'' ''subsid=AbCdEfGh'' (w_server Map.empty) =
     (Ret (err_reply 400 6 ''Request from unknown client!''), s')"
proof -
  have "decode ''/3dscan/get'' = Some ''/3dscan/get''" "decode ''subsid=AbCdEfGh'' = Some ''subsid=AbCdEfGh''"
    "split_path ''/3dscan/get'' \<noteq> []" "smap_get (split_query ''subsid=AbCdEfGh'') ''magic'' \<noteq> Some ''tfzfepg''"
    by code_simp+
  then show ?thesis using unknown_client_rejected [of "''/3dscan/get''" "''/3dscan/get''"] by blast
qed

text \<open>A database that finds nothing and takes every insertion.\<close>

definition calm_w_env :: "unit env" where
  "calm_w_env = \<lparr>v_sql = \<lparr>sql_connect = (\<lambda>_. Connected), sql_query = (\<lambda>_ _. Some []), sql_update = (\<lambda>_ _. (Some 1, ()))\<rparr>,
     v_enc = hex_enc, v_dec = (\<lambda>t. take 1000 (hex_dec t)), v_req = (\<lambda>n. 2 * n),
     v_uuid = (\<lambda>n. ''0123456789abcdef0123456789abcdef0123''), v_rand = (\<lambda>seed i. seed + i), v_tick = (\<lambda>n. n),
     v_wjunk = (\<lambda>_. CHR ''?''), v_bjunk = (\<lambda>_. 0), v_wchar = (\<lambda>_ _. CHR ''?''), v_writable = (\<lambda>_. True), v_fuel = 5\<rparr>"

definition calm_w_server :: "unit server" where
  "calm_w_server = \<lparr>ms_root = ''C:/'', ms_driver = True, ms_db = (), ms_fs = Map.empty, ms_uuids = 0, ms_seeds = 0,
     ms_answer = [], ms_http = 0\<rparr>"

lemma requests_never_crash_witness:
  "fst (HandleGet calm_w_env ''/3dscan/get'' ''magic=tfzfepg'' calm_w_server) \<noteq> Crash"
proof -
  have l: "min (length t) 1000 < 2147483648" for t :: bytes by (simp add: min_def)
  have e: "calm_env calm_w_env" "working calm_w_env calm_w_server"
    using l by (simp_all add: calm_env_def calm_w_env_def int32_def working_defs calm_w_server_def)
  have b: "body_fits (Body JNull)" by (simp add: body_fits_def json_field_def)
  have q: "decode ''magic=tfzfepg'' = Some ''magic=tfzfepg''" "smap_get (split_query ''magic=tfzfepg'') ''subsid'' = None"
    by code_simp+
  have p: "length t \<noteq> 256" if "decode ''magic=tfzfepg'' = Some r" "smap_get (split_query r) ''subsid'' = Some t" for r t
    using that q by (metis option.distinct(1) option.inject)
  show ?thesis by (rule requests_never_crash [OF e b p, THEN conjunct1])
qed

lemma id_of_256_crashes_witness:
  "fst (HandleGet w_env ''/3dscan/get'' (''magic=tfzfepg&subsid='' @ replicate 256 (CHR ''A'')) (w_server Map.empty)) = Crash"
proof -
  have "list_all is_alnum (replicate 256 (CHR ''A''))" by (simp add: list_all_iff is_alnum_def code_def)
  note a = asks_url [OF this]
  have l: "linked w_env (w_server Map.empty)" by (simp add: linked_def)
  show ?thesis by (rule id_of_256_crashes [OF l a]) simp_all
qed

definition w_upload :: json where
  "w_upload = JObject [(''user'', JString ''ann''), (''pass'', JString ''pw''), (''name'', JString ''vase''),
     (''desc'', JString ''a vase''), (''model'', JString (hex_enc [1, 2, 3]))]"

definition w_upload_short :: json where
  "w_upload_short = JObject [(''user'', JString ''ann''), (''pass'', JString ''pw''), (''name'', JString ''vase''),
     (''model'', JString (hex_enc [1, 2, 3]))]"

definition w_upload_bad :: json where
  "w_upload_bad = JObject [(''user'', JString ''ann''), (''pass'', JString ''wp'')]"

definition w_subscribe :: "int \<Rightarrow> int \<Rightarrow> json" where
  "w_subscribe m a = JObject [(''user'', JString ''ann''), (''pass'', JString ''pw''), (''owner'', JString ''ann''),
     (''model_id'', JNumber m), (''ad_id'', JNumber a)]"

lemmas w_bodies = w_upload_def w_upload_short_def w_upload_bad_def w_subscribe_def

lemma w_posts: "posts ''/3dscan/upload_model'' [] ''upload_model''" "posts ''/3dscan/create_subs'' [] ''create_subs''"
  by code_simp+

lemma w_fit:
  "fit_text w_upload ''user'' ''ann''" "fit_text w_upload ''pass'' ''pw''" "fit_text w_upload ''name'' ''vase''"
  "fit_text w_upload ''desc'' ''a vase''" "json_field w_upload ''model'' = JString (hex_enc [1, 2, 3])"
  "fit_text w_upload_short ''user'' ''ann''" "fit_text w_upload_short ''pass'' ''pw''" "fit_text w_upload_short ''name'' ''vase''"
  "json_field w_upload_short ''desc'' = JNull" "json_field w_upload_short ''model'' = JString (hex_enc [1, 2, 3])"
  "fit_text w_upload_bad ''user'' ''ann''" "fit_text w_upload_bad ''pass'' ''wp''"
  "fit_text (w_subscribe m a) ''user'' ''ann''" "fit_text (w_subscribe m a) ''pass'' ''pw''" "fit_text (w_subscribe m a) ''owner'' ''ann''"
  "json_field (w_subscribe m a) ''model_id'' = JNumber m" "json_field (w_subscribe m a) ''ad_id'' = JNumber a"
  by (simp_all add: fit_text_def w_bodies json_field_def smap_get_def sql_safe_def code_def)

lemma w_knows: "knows (=) w_tables ''ann'' ''pw''" "\<not> knows (=) w_tables ''ann'' ''wp''"
  "\<exists>x\<in>set (t_owners w_tables). o_user x = ''ann''"
  by (simp_all add: knows_def w_tables_def)

lemma w_uploadable:
  "uploadable w_env fst (=) (w_server fs) w_upload ''ann'' ''pw'' (hex_enc [1, 2, 3])"
  "uploadable w_env fst (=) (w_server fs) w_upload_short ''ann'' ''pw'' (hex_enc [1, 2, 3])"
  using w_up [of fs] w_knows(1) by (simp_all add: uploadable_def w_fit hex_dec_enc int32_def int_key_def) (simp_all add: w_tables_def)

lemma upload_model_stores_witness:
  "\<exists>s'. HandlePost w_env ''/3dscan/upload_model'' [] (Body w_upload) (w_server Map.empty) =
     (Ret (ok_reply ''model_id'' (JNumber 2)), s')"
  using upload_model_stores [OF w_contract w_uploadable(1) [of Map.empty] w_posts(1) w_fit(3) _ w_fit(4)]
  by (auto simp: int_key_def w_tables_def)

lemma upload_without_desc_leaves_file_witness:
  "\<exists>s'. HandlePost w_env ''/3dscan/upload_model'' [] (Body w_upload_short) (w_server Map.empty) = (Throw JsonException, s')"
  using upload_without_desc_leaves_file [OF w_contract w_uploadable(2) [of Map.empty] w_posts(1) w_fit(8,9)] by auto

text \<open>The same upload when no file can be created.\<close>

lemma unwritable_folder_crashes_witness:
  "fst (HandlePost (w_env\<lparr>v_writable := \<lambda>_. False\<rparr>) ''/3dscan/upload_model'' [] (Body w_upload) (w_server Map.empty)) = Crash"
proof -
  have c: "env_contract (w_env\<lparr>v_writable := \<lambda>_. False\<rparr>) fst (=)" using w_contract by (simp add: env_contract_def)
  have u: "server_up (w_env\<lparr>v_writable := \<lambda>_. False\<rparr>) fst (=) (w_server Map.empty)" using w_up [of Map.empty] by (simp add: server_up_def)
  show ?thesis by (rule unwritable_folder_crashes [OF c u w_fit(1,2) _ w_fit(5) w_posts(1)]) (simp_all add: w_knows)
qed

lemma wrong_password_changes_nothing_witness:
  "\<exists>s'. HandlePost w_env ''/3dscan/upload_model'' [] (Body w_upload_bad) (w_server Map.empty) =
     (Ret (err_reply 403 9 ''Invalid username or password!''), s')"
  using wrong_password_changes_nothing [OF w_contract w_up [of Map.empty] _ w_fit(11,12) w_posts(1)] w_knows(2) by auto

lemma w_subscribes: "subscribes fst (=) (w_server fs) (w_subscribe 1 a) ''ann'' 1 a"
proof -
  have "1 \<in> model_ids w_tables" by (simp add: model_ids_def w_tables_def)
  then show ?thesis
    unfolding subscribes_def
    by (intro conjI exI [of _ "''ann''"] exI [of _ "''pw''"]) (simp_all add: w_knows w_fit)
qed

lemma w_hash_free: "hash_free w_env fst (=) (w_server fs)"
proof -
  have "hash_at w_env 0 0 \<noteq> ''AbCdEfGh''" by code_simp
  then have "unused (=) w_tables (hash_at w_env 0 0)" by (auto simp: unused_def w_tables_def)
  then show ?thesis unfolding hash_free_def by (intro exI [of _ 0]) simp
qed

lemma create_subscription_adds_row_witness:
  "\<exists>s' h. HandlePost w_env ''/3dscan/create_subs'' [] (Body (w_subscribe 1 1)) (w_server Map.empty) =
     (Ret (ok_reply ''subscription_id'' (JString h)), s') \<and> length h = 8"
  using create_subscription_adds_row [OF w_contract w_up [of Map.empty] w_subscribes [of Map.empty 1] w_posts(2) _ _ w_hash_free]
  by (auto simp: ad_ids_def int_key_def w_tables_def)

lemma subscription_without_ad_fails_witness:
  "\<exists>s'. HandlePost w_env ''/3dscan/create_subs'' [] (Body (w_subscribe 1 (- 1))) (w_server Map.empty) = (Throw SqlException, s')"
  using subscription_without_ad_fails [OF w_contract w_up [of Map.empty] w_subscribes [of Map.empty "- 1"] w_posts(2) w_hash_free]
  by auto

lemma published_model_is_served_witness:
  "\<exists>s1 s2 s3 h.
    HandlePost w_env ''/3dscan/upload_model'' [] (Body w_upload) (w_server Map.empty) = (Ret (ok_reply ''model_id'' (JNumber 2)), s1) \<and>
    HandlePost w_env ''/3dscan/create_subs'' [] (Body (w_subscribe 2 1)) s1 = (Ret (ok_reply ''subscription_id'' (JString h)), s2) \<and>
    HandleGet w_env ''/3dscan/get'' (''magic=tfzfepg&subsid='' @ h) s2 = (Ret (ok_reply ''model'' (JString (hex_enc [1, 2, 3]))), s3)"
proof -
  have n: "t_nmodel w_tables = 2" "t_nsubs w_tables = 2" "1 \<in> ad_ids w_tables" by (simp_all add: w_tables_def ad_ids_def)
  have "\<exists>s1 s2 s3 h.
    HandlePost w_env ''/3dscan/upload_model'' [] (Body w_upload) (w_server Map.empty) =
      (Ret (ok_reply ''model_id'' (JNumber (t_nmodel (fst (ms_db (w_server Map.empty)))))), s1) \<and>
    HandlePost w_env ''/3dscan/create_subs'' [] (Body (w_subscribe 2 1)) s1 = (Ret (ok_reply ''subscription_id'' (JString h)), s2) \<and>
    HandleGet w_env ''/3dscan/get'' (''magic=tfzfepg&subsid='' @ h) s2 = (Ret (ok_reply ''model'' (JString (v_enc w_env [1, 2, 3]))), s3)"
    by (rule published_model_is_served [OF w_contract _ w_posts(1) w_fit(3) _ w_fit(4) _ refl _ _ w_fit(13,14) _ w_fit(15) _ _ _
          w_hash_free w_posts(2) _ _ asks_url])
      (simp_all add: w_knows w_fit n(1,2) int_key_def, (rule w_uploadable n)+)
  then show ?thesis by (simp add: n(1))
qed

end
