(* ===== verification/ServerReply.thy ===== *)
theory ServerReply
  imports ServerSafety
begin

text \<open>
  The form of every answer the handlers send: an error message, an error code and an HTTP status that agree, and the
  field with the result beside a success.
\<close>

definition reply_table :: "(nat \<times> int) set" where
  "reply_table = {(200, MS_ERROR_OK), (503, MS_ERROR_UNKNOWN), (400, MS_ERROR_UNKNOWN_CLIENT), (400, MS_ERROR_UNKNOWN_METHOD),
     (404, MS_ERROR_SUBSCRIPTION_NOT_FOUND), (404, MS_ERROR_MODEL_NOT_FOUND), (404, MS_ERROR_FILE_ADDRESS_NOT_FOUND),
     (404, MS_ERROR_COULD_NOT_OPEN_FILE), (404, MS_ERROR_AD_NOT_FOUND), (500, MS_ERROR_DB), (403, MS_ERROR_INVALID_USER_PASS)}"

definition payload_keys :: "string set" where
  "payload_keys = {''model'', ''ad'', ''info'', ''model_id'', ''ad_id'', ''subscription_id''}"

text \<open>Status and code are a row of the table, and a success has its payload.\<close>

definition reply_wf :: "nat \<Rightarrow> fields \<Rightarrow> bool" where
  "reply_wf h m \<longleftrightarrow> (\<exists>t c. smap_get m ''error_message'' = Some (JString t) \<and> smap_get m ''error_code'' = Some (JNumber c) \<and>
     (h, c) \<in> reply_table \<and> (h = 200 \<longrightarrow> t = ''Success'' \<and> (\<exists>k\<in>payload_keys. smap_get m k \<noteq> None)))"

definition wf_kept :: "'db server \<Rightarrow> 'db server \<Rightarrow> bool" where
  "wf_kept s s' \<longleftrightarrow> (reply_wf (ms_http s) (ms_answer s) \<longrightarrow> reply_wf (ms_http s') (ms_answer s'))"

lemma wf_kept_rel: "reflp wf_kept" "transp wf_kept"
  by (simp_all add: reflp_def transp_def wf_kept_def)

lemma wf_kept_same: "ms_http s' = ms_http s \<Longrightarrow> ms_answer s' = ms_answer s \<Longrightarrow> wf_kept s s'"
  by (simp add: wf_kept_def)

lemma get_put: "smap_get (smap_put k v m) x = (if x = k then Some v else smap_get m x)"
  by (simp add: smap_get_def smap_put_get)

lemma reply_wf_put:
  assumes "k \<noteq> ''error_message''" "k \<noteq> ''error_code''" "reply_wf h m"
  shows "reply_wf h (smap_put k v m)"
proof -
  obtain t c where w: "smap_get m ''error_message'' = Some (JString t)" "smap_get m ''error_code'' = Some (JNumber c)" "(h, c) \<in> reply_table"
    "h = 200 \<longrightarrow> t = ''Success'' \<and> (\<exists>k\<in>payload_keys. smap_get m k \<noteq> None)"
    using assms(3) unfolding reply_wf_def by (elim exE conjE) (rule that)
  have "\<exists>x\<in>payload_keys. smap_get (smap_put k v m) x \<noteq> None" if "\<exists>x\<in>payload_keys. smap_get m x \<noteq> None"
    using that by (auto simp: get_put)
  then show ?thesis
    unfolding reply_wf_def using assms(1,2) w by (intro exI [of _ t] exI [of _ c]) (simp add: get_put)
qed

lemma err_wf: "(h, c) \<in> reply_table \<Longrightarrow> h \<noteq> 200 \<Longrightarrow> keeps wf_kept (set_err msg c h)"
  by (simp add: keeps_def wf_kept_def reply_wf_def act get_put)

lemma reply_wf_ok:
  assumes "k \<in> payload_keys"
  shows "reply_wf 200 (smap_put k v (smap_put ''error_code'' (JNumber MS_ERROR_OK) (smap_put ''error_message'' (JString ''Success'') m)))"
proof -
  have "''error_message'' \<noteq> k \<and> ''error_code'' \<noteq> k" using assms by (auto simp: payload_keys_def)
  then show ?thesis
    unfolding reply_wf_def using assms
    by (intro exI [of _ "''Success''"] exI [of _ MS_ERROR_OK] conjI impI bexI [of _ k]) (simp_all add: get_put reply_table_def)
qed

lemma ok_wf: "k \<in> payload_keys \<Longrightarrow> keeps wf_kept (set_ok k v)"
  using reply_wf_ok by (simp add: keeps_def wf_kept_def act MS_ERROR_OK_def)

lemma field_wf: "k \<noteq> ''error_message'' \<Longrightarrow> k \<noteq> ''error_code'' \<Longrightarrow> keeps wf_kept (set_field k v)"
  by (simp add: keeps_def wf_kept_def act reply_wf_put)

named_theorems wf_intro \<open>steps that keep the form of the answer\<close>

lemma rows_of_table:
  "(404, MS_ERROR_SUBSCRIPTION_NOT_FOUND) \<in> reply_table" "(404, MS_ERROR_MODEL_NOT_FOUND) \<in> reply_table"
  "(404, MS_ERROR_FILE_ADDRESS_NOT_FOUND) \<in> reply_table" "(404, MS_ERROR_COULD_NOT_OPEN_FILE) \<in> reply_table"
  "(404, MS_ERROR_AD_NOT_FOUND) \<in> reply_table" "(500, MS_ERROR_DB) \<in> reply_table"
  "(403, MS_ERROR_INVALID_USER_PASS) \<in> reply_table" "(400, MS_ERROR_UNKNOWN_CLIENT) \<in> reply_table"
  "(400, MS_ERROR_UNKNOWN_METHOD) \<in> reply_table"
  by (simp_all add: reply_table_def)

lemma keys_of_payload:
  "''model'' \<in> payload_keys" "''ad'' \<in> payload_keys" "''info'' \<in> payload_keys" "''model_id'' \<in> payload_keys"
  "''ad_id'' \<in> payload_keys" "''subscription_id'' \<in> payload_keys"
  by (simp_all add: payload_keys_def)

lemmas set_wf [wf_intro] = rows_of_table [THEN err_wf] keys_of_payload [THEN ok_wf]

lemma http_not_ok [wf_intro]: "(404::nat) \<noteq> 200" "(500::nat) \<noteq> 200" "(403::nat) \<noteq> 200" "(400::nat) \<noteq> 200"
  by simp_all

lemma plain_fields_wf [wf_intro]: "keeps wf_kept (set_field ''url'' v)" "keeps wf_kept (set_field ''size'' v)"
  by (simp_all add: field_wf)

lemma wf_whenever [wf_intro]: "keeps wf_kept m \<Longrightarrow> keeps wf_kept (whenever c m)"
  by (simp add: whenever_def keeps_pure(1) [OF wf_kept_rel(1)])

lemma wf_db [wf_intro]: "keeps wf_kept (db_open env)" "keeps wf_kept (run_query env txt)" "keeps wf_kept (run_update env txt)"
proof -
  show "keeps wf_kept (db_open env)" unfolding db_open_def by (intro wf_intro keeps_intro wf_kept_rel wf_whenever)
  show "keeps wf_kept (run_query env txt)" unfolding run_query_def by (intro wf_intro keeps_intro wf_kept_rel)
  show "keeps wf_kept (run_update env txt)"
    by (auto simp: keeps_def run_update_def act wf_kept_same split: option.splits prod.splits)
qed

lemma wf_rows [wf_intro]:
  "keeps wf_kept (last_int col rows i)" "keeps wf_kept (blob_text col r)"
  "(\<And>r. keeps wf_kept (f r)) \<Longrightarrow> keeps wf_kept (for_rows f rows)"
proof -
  show "keeps wf_kept (last_int col rows i)" by (induction rows arbitrary: i) (auto intro!: wf_intro keeps_intro wf_kept_rel)
  show "keeps wf_kept (blob_text col r)" unfolding blob_text_def by (intro wf_intro keeps_intro wf_kept_rel)
  show "keeps wf_kept (for_rows f rows)" if "\<And>r. keeps wf_kept (f r)"
    using that by (induction rows) (auto intro!: wf_intro keeps_intro wf_kept_rel)
qed

lemma wf_files [wf_intro]: "keeps wf_kept (read_file p)" "keeps wf_kept (write_file env p d)"
  by (auto simp: keeps_def read_file_def write_file_def act wf_kept_same)

lemma wf_modify [wf_intro]:
  "keeps wf_kept (modify (\<lambda>s. s\<lparr>ms_uuids := Suc (ms_uuids s)\<rparr>))" "keeps wf_kept (modify (\<lambda>s. s\<lparr>ms_seeds := Suc (ms_seeds s)\<rparr>))"
  by (simp_all add: keeps_def act wf_kept_same)

section \<open>The handlers\<close>

lemma wf_select [wf_intro]:
  "(h, c) \<in> reply_table \<Longrightarrow> h \<noteq> 200 \<Longrightarrow> keeps wf_kept (select_int env txt col msg c h)"
  unfolding select_int_def by (intro wf_intro keeps_intro wf_kept_rel err_wf)

lemma wf_find [wf_intro]:
  "keeps wf_kept (find_subs env m col)" "keeps wf_kept (find_file env i)" "keeps wf_kept (login env m)" "keeps wf_kept (find_owner env m)"
  "keeps wf_kept (row_exists env txt)"
  unfolding find_subs_def find_file_def login_def find_owner_def row_exists_def by (intro wf_intro keeps_intro wf_kept_rel rows_of_table)+

lemma wf_base64: "key \<in> payload_keys \<Longrightarrow> keeps wf_kept (serve_base64 env path key msg)"
  unfolding serve_base64_def by (intro wf_intro keeps_intro wf_kept_rel ok_wf)

lemma wf_serve [wf_intro]:
  "keeps wf_kept (serve_model env r)" "keeps wf_kept (serve_ad env r)" "keeps wf_kept (serve_info env r)"
  unfolding serve_model_def serve_ad_def serve_info_def Let_def by (intro wf_intro keeps_intro wf_kept_rel wf_base64 keys_of_payload)+

lemma wf_model_rows [wf_intro]: "(\<And>r. keeps wf_kept (f r)) \<Longrightarrow> keeps wf_kept (model_rows env f i)"
  unfolding model_rows_def by (intro wf_intro keeps_intro wf_kept_rel)

lemma wf_gets [wf_intro]:
  "keeps wf_kept (OnGetModel env m)" "keeps wf_kept (OnGetAd env m)" "keeps wf_kept (OnGetInfo env m)"
  unfolding OnGetModel_def OnGetAd_def OnGetInfo_def by (intro wf_intro keeps_intro wf_kept_rel)+

lemma wf_pair [wf_intro]: "(\<And>n z. keeps R (f n z)) \<Longrightarrow> keeps R (case p of (n, z) \<Rightarrow> f n z)"
  by (cases p) simp

lemma wf_store [wf_intro]: "keeps wf_kept (store_file env dir ext t)"
  unfolding store_file_def by (intro wf_intro keeps_intro wf_kept_rel)

lemma wf_upload_parts [wf_intro]:
  "keeps wf_kept (upload_file env m)" "keeps wf_kept (upload_model_row env m i)" "keeps wf_kept (upload_ad_row env m u i)"
  unfolding upload_file_def upload_model_row_def upload_ad_row_def by (intro wf_intro keeps_intro wf_kept_rel rows_of_table)+

lemma wf_pick [wf_intro]: "keeps wf_kept (pick_hash env seed j n)"
  by (induction n arbitrary: j) (auto intro!: wf_intro keeps_intro wf_kept_rel)

lemma wf_insert [wf_intro]: "keeps wf_kept (insert_subs env w m a)"
  unfolding insert_subs_def by (intro wf_intro keeps_intro wf_kept_rel rows_of_table)

lemma wf_posts [wf_intro]:
  "keeps wf_kept (OnUploadModel env m)" "keeps wf_kept (OnUploadAd env m)" "keeps wf_kept (OnCreateSubscription env m)"
  unfolding OnUploadModel_def OnUploadAd_def OnCreateSubscription_def by (intro wf_intro keeps_intro wf_kept_rel)+

lemma wf_methods [wf_intro]: "keeps wf_kept (get_method env path kv)" "keeps wf_kept (post_method env path j)"
  unfolding get_method_def post_method_def Let_def by (intro wf_intro keeps_intro wf_kept_rel)+

section \<open>Replies\<close>

lemma wf_body:
  "keeps R m \<Longrightarrow> keeps R m' \<Longrightarrow> (\<And>j. keeps R (f j)) \<Longrightarrow>
     keeps R (case b of BodyHttpError \<Rightarrow> m | BodyJsonError \<Rightarrow> m' | Body j \<Rightarrow> f j)"
  by (cases b) simp_all

lemma framed_reply_wf:
  assumes "keeps wf_kept m" "fst (aseq start_answer (aseq (catch_http m) reply) s) = Ret (h, a)"
  shows "reply_wf h a"
proof -
  obtain s1 where s1: "start_answer s = (Ret (), s1)" and w1: "reply_wf (ms_http s1) (ms_answer s1)"
    by (simp add: start_answer_def act reply_wf_def reply_table_def smap_get_def)
  obtain r s2 where s2: "catch_http m s1 = (r, s2)" by (cases "catch_http m s1")
  have "keeps wf_kept (catch_http m)" using assms(1) by (rule keeps_catch)
  then have "wf_kept s1 (snd (catch_http m s1))" unfolding keeps_def by blast
  then have w2: "reply_wf (ms_http s2) (ms_answer s2)" using w1 by (simp add: wf_kept_def s2)
  have r: "r = Ret ()" using assms(2) by (cases r) (simp_all add: aseq_def abind_run s1 s2)
  have "fst (reply s2) = Ret (h, a)" using assms(2) by (simp add: aseq_def abind_run s1 s2 r)
  then have "h = ms_http s2 \<and> a = ms_answer s2"
    by (auto simp: reply_def act as_integer_def split: json.splits)
  then show ?thesis using w2 by simp
qed

text \<open>
  C38. Every reply that \<open>HandleGet\<close> or \<open>HandlePost\<close> sends itself has an error message, and an error code and an HTTP status
  from one row of \<open>reply_table\<close>, the statuses the handlers give the codes of GlobalDefines.h; it is a 200 exactly
  when the code is 0, and then the message is \<open>Success\<close> and one of the fields \<open>payload_keys\<close> is there. A request whose handling throws
  is not answered by the handlers but by the listener of cpprest, whose reply has no such object: it is outside this statement.
\<close>

theorem replies_well_formed:
  assumes "fst (HandleGet env path query s) = Ret (h, m) \<or> fst (HandlePost env path query b s) = Ret (h, m)"
  shows "reply_wf h m \<and> (h = 200 \<longleftrightarrow> json_field (JObject m) ''error_code'' = JNumber 0)"
proof -
  have g: "keeps wf_kept (case decode path of None \<Rightarrow> raise UriException | Some p \<Rightarrow>
      (case decode query of None \<Rightarrow> raise UriException | Some q \<Rightarrow> get_method env (split_path p) (split_query q)))"
    by (intro wf_intro keeps_intro wf_kept_rel)
  have p: "keeps wf_kept (case decode path of None \<Rightarrow> raise UriException | Some p \<Rightarrow>
      (case decode query of None \<Rightarrow> raise UriException | Some q \<Rightarrow>
      (case b of BodyHttpError \<Rightarrow> raise HttpException | BodyJsonError \<Rightarrow> raise JsonException
       | Body j \<Rightarrow> post_method env (split_path p) j)))"
    by (intro wf_intro keeps_intro wf_kept_rel wf_body)
  have w: "reply_wf h m"
    using assms framed_reply_wf [OF g] framed_reply_wf [OF p] unfolding HandleGet_def HandlePost_def by blast
  then show ?thesis
    by (auto simp: reply_wf_def reply_table_def json_field_def server_consts)
qed

end
