(* ===== verification/PublishWitness.thy ===== *)
theory PublishWitness
  imports Publish ServerWitness ServerReply
begin

text \<open>
  A client whose transport calls the handlers of the small server of \<^theory_text>\<open>ServerWitness\<close>, and the
  properties of client and server on it.
\<close>

definition w_exchange :: "(tables \<times> int) server \<Rightarrow> http_req \<Rightarrow> transport \<times> (tables \<times> int) server" where
  "w_exchange s rq = (case (if rq_post rq
       then HandlePost w_env (u_path (rq_uri rq)) (u_query (rq_uri rq)) (Body (rq_body rq)) s
       else HandleGet w_env (u_path (rq_uri rq)) (u_query (rq_uri rq)) s) of
      (Ret (h, m), s') \<Rightarrow> (Reply h (Body (JObject m)), s')
    | (Throw e, s') \<Rightarrow> (Reply 500 BodyHttpError, s')
    | (_, s') \<Rightarrow> (NoReply, s'))"

definition w_get_url :: "string \<Rightarrow> string" where
  "w_get_url h = ''http://w/3dscan/get?magic=tfzfepg&subsid='' @ h"

definition w_post_uri :: "string \<Rightarrow> uri" where
  "w_post_uri meth = \<lparr>u_base = ''http://w'', u_path = ''/3dscan/'' @ meth, u_query = [], u_fragment = []\<rparr>"

definition w_parse :: "string \<Rightarrow> uri option" where
  "w_parse t = (if take 41 t = w_get_url [] then Some (model_uri ''http://w'' (drop 41 t))
     else if take 16 t = ''http://w/3dscan/'' then Some (w_post_uri (drop 16 t)) else None)"

definition w_client :: "(tables \<times> int) server cenv" where
  "w_client = \<lparr>k_parse = w_parse, k_send = w_exchange, k_enc = hex_enc, k_dec = hex_dec, k_status = 0\<rparr>"

definition deaf_client :: "unit cenv" where
  "deaf_client = \<lparr>k_parse = w_parse, k_send = (\<lambda>w rq. (NoReply, w)), k_enc = hex_enc, k_dec = hex_dec, k_status = 200\<rparr>"

lemma w_parse_urls:
  "w_parse (w_get_url h) = Some (model_uri ''http://w'' h)"
  "w_parse ''http://w/3dscan/upload_model'' = Some (w_post_uri ''upload_model'')"
  "w_parse ''http://w/3dscan/create_subs'' = Some (w_post_uri ''create_subs'')"
  by (simp_all add: w_parse_def w_get_url_def)

lemma w_delivers: "delivers w_client w_env"
  by (simp add: delivers_def w_client_def w_exchange_def)

lemma w_sent_posts:
  "posts (u_path (sent_post_uri ''me'' (w_post_uri ''upload_model''))) (u_query (sent_post_uri ''me'' (w_post_uri ''upload_model''))) ''upload_model''"
  "posts (u_path (sent_post_uri ''me'' (w_post_uri ''create_subs''))) (u_query (sent_post_uri ''me'' (w_post_uri ''create_subs''))) ''create_subs''"
  by code_simp+

lemma w_sent_body:
  "uploadable w_env fst (=) (w_server fs) (model_json (v_enc w_env [1, 2, 3]) ''ann'' ''pw'' ''vase'' ''a vase'') ''ann'' ''pw''
     (v_enc w_env [1, 2, 3])"
proof -
  have "c_text (hex_enc [1, 2, 3]) = hex_enc [1, 2, 3]" by code_simp
  then show ?thesis
    using w_up [of fs] w_knows(1) w_uploadable(1) [of fs]
    by (simp add: uploadable_def fit_text_def json_fields sql_safe_def code_def)
qed

lemma client_gets_what_was_uploaded_witness:
  "\<exists>s1 s2 s3 h.
    UploadModel w_client (Some ''http://w/3dscan/upload_model'') (Some ''me'') (Some ''ann'') (Some ''pw'') (Some [1, 2, 3])
      (Some ''vase'') (Some ''a vase'') True (w_server Map.empty) = (Ret (Got (Some 2)), s1) \<and>
    CreateSubscription w_client (Some ''http://w/3dscan/create_subs'') (Some ''me'') (Some ''ann'') (Some ''pw'') (Some ''ann'')
      2 1 (Some 9) s1 = (Ret (Got h), s2) \<and>
    GetModel w_client (Some (w_get_url h)) (Some ''me'') True s2 = (Ret (Got [1, 2, 3]), s3)"
proof -
  have n: "t_nmodel w_tables = 2" "t_nsubs w_tables = 2" "1 \<in> ad_ids w_tables" by (simp_all add: w_tables_def ad_ids_def)
  have p: "k_parse w_client (w_get_url h) = Some (model_uri ''http://w'' h)"
    "k_parse w_client ''http://w/3dscan/upload_model'' = Some (w_post_uri ''upload_model'')"
    "k_parse w_client ''http://w/3dscan/create_subs'' = Some (w_post_uri ''create_subs'')" for h
    by (simp_all add: w_client_def w_parse_urls)
  have t: "sql_safe ''vase''" "sql_safe ''a vase''" "sql_safe ''ann''" by (simp_all add: sql_safe_def code_def)
  have k: "k_enc w_client = v_enc w_env" "k_dec w_client = v_dec w_env" by (simp_all add: w_client_def)
  have "\<exists>s1 s2 s3 h.
    UploadModel w_client (Some ''http://w/3dscan/upload_model'') (Some ''me'') (Some ''ann'') (Some ''pw'') (Some [1, 2, 3])
      (Some ''vase'') (Some ''a vase'') True (w_server Map.empty) =
      (Ret (Got (Some (t_nmodel (fst (ms_db (w_server Map.empty)))))), s1) \<and>
    CreateSubscription w_client (Some ''http://w/3dscan/create_subs'') (Some ''me'') (Some ''ann'') (Some ''pw'') (Some ''ann'')
      (t_nmodel (fst (ms_db (w_server Map.empty)))) 1 (Some 9) s1 = (Ret (Got h), s2) \<and>
    GetModel w_client (Some (w_get_url h)) (Some ''me'') True s2 = (Ret (Got [1, 2, 3]), s3)"
    by (rule client_gets_what_was_uploaded [OF w_contract w_delivers k _ _ w_sent_body p(2) w_sent_posts(1) t(1) _ t(2) _ _ refl _ _
          p(3) w_sent_posts(2) t(3) _ _ _ _ w_hash_free p(1)])
      (simp_all add: w_knows n int_key_def)
  then show ?thesis by (simp add: n(1))
qed

lemma downloads_ignore_client_id_witness:
  "GetModel w_client (Some (w_get_url ''AbCdEfGh'')) (Some ''me'') True = GetModel w_client (Some (w_get_url ''AbCdEfGh'')) (Some ''you'') True"
  using downloads_ignore_client_id [of "''me''" "''you''" w_client "Some (w_get_url ''AbCdEfGh'')" True] by simp

lemma lost_request_is_failure_witness:
  "fst (GetModel deaf_client (Some (w_get_url ''AbCdEfGh'')) (Some ''me'') True ()) = Ret Nulled"
proof -
  have "k_parse deaf_client (w_get_url ''AbCdEfGh'') = Some (model_uri ''http://w'' ''AbCdEfGh'')"
    by (simp add: deaf_client_def w_parse_urls)
  from lost_request_is_failure [OF _ this, of "''me''" "()"] show ?thesis by (simp add: deaf_client_def)
qed

lemma replies_well_formed_witness:
  "reply_wf 400 [(''error_code'', JNumber 7), (''error_message'', JString ''Bad method name!'')]"
proof -
  have d: "decode ''/3dscan/put'' = Some ''/3dscan/put''" "split_path ''/3dscan/put'' = [''3dscan'', ''put'']"
    "decode ''magic=tfzfepg'' = Some ''magic=tfzfepg''" "split_query ''magic=tfzfepg'' = [(''magic'', MODEL_API_MAGIC)]"
    by code_simp+
  have "fst (HandleGet w_env ''/3dscan/put'' ''magic=tfzfepg'' (w_server Map.empty)) =
      Ret (400, [(''error_code'', JNumber 7), (''error_message'', JString ''Bad method name!'')])"
    unfolding HandleGet_def d option.case get_method_def
    by (simp add: act start_answer_def catch_http_def reply_def json_field_def as_integer_def server_consts smap_get_def)
  then show ?thesis using replies_well_formed by blast
qed

end
