(* ===== verification/ObjWitness.thy ===== *)
theory ObjWitness
  imports ObjConvert ScanWitness
begin

text \<open>
  A square as an OBJ file, loaded and converted, and the properties of the OBJ loader and the converter on it.
\<close>

definition w_vertex :: "u32 \<Rightarrow> u32 \<Rightarrow> float3" where
  "w_vertex x y = \<lparr>f3_x = x, f3_y = y, f3_z = 0\<rparr>"

definition w_face :: MY_FACE where
  "w_face = \<lparr>VertIndex = [0, 1, 2, 3], NormalIndex = [- 1, - 1, - 1, - 1], UvIndex = [- 1, - 1, - 1, - 1]\<rparr>"

definition w_batch :: MY_DRAW_BATCH where
  "w_batch = \<lparr>Faces = [w_face], sMatName = ''m'', bHasNormal = Some False, bHasUv = Some False\<rparr>"

definition w_obj :: MY_OBJ where
  "w_obj = (MY_OBJ_new (w_vertex 0 0) (w_vertex 0 0))\<lparr>
     subParts := [\<lparr>op_sName = ''All'', subSets = [MY_DRAW_BATCH_new]\<rparr>, \<lparr>op_sName = ''p'', subSets = [w_batch]\<rparr>],
     Vertices := [w_vertex 0 0, w_vertex 0x3F800000 0, w_vertex 0x3F800000 0x3F800000, w_vertex 0 0x3F800000],
     obj_Materials := [MY_MTL_new\<lparr>mtl_sName := ''m'', mtl_sMapKd := ''C:/tex/Wood.PNG'' @ [CHR 0x0A]\<rparr>]\<rparr>"

lemma w_face_ok: "face_ok w_obj False False w_face"
  by (simp add: face_ok_def w_face_def w_obj_def MY_OBJ_new_def below_def)

lemma w_batch_ok: "batch_ok w_obj w_batch"
proof -
  have "triangles [w_face] = 2" by (simp add: triangles_def w_face_def)
  then show ?thesis using w_face_ok by (auto simp: batch_ok_def w_batch_def text_fits_def)
qed

lemma w_wood: "ToLower (RemovePath (''C:/tex/Wood.PNG'' @ [CHR 0x0A])) = ''wood.png''" "ToLower (RemovePath []) = []"
  by code_simp+

lemma w_obj_ok: "obj_ok w_obj"
proof -
  have p: "subParts w_obj = [\<lparr>op_sName = ''All'', subSets = [MY_DRAW_BATCH_new]\<rparr>, \<lparr>op_sName = ''p'', subSets = [w_batch]\<rparr>]"
    by (simp add: w_obj_def)
  have m: "list_all mtl_ok (obj_Materials w_obj)"
    using w_wood by (simp add: w_obj_def mtl_ok_def MY_MTL_new_def text_fits_def)
  have "has_faces w_obj" by (simp add: has_faces_def p w_batch_def)
  then show ?thesis
    using w_batch_ok m by (simp add: obj_ok_def p obj_part_ok_def text_fits_def MY_DRAW_BATCH_new_def)
qed

lemma converted_fan_witness:
  "\<exists>s. convert_subset w_obj w_batch = Done s \<and> unat (ss_uiTriCount s) = 2 \<and>
     dec_float3 (drop (4 * unat (GetVertexSize (ss_uiVertexFmt s))) (pVB s)) = mirror (w_vertex 0x3F800000 0x3F800000)"
proof -
  have T: "triangles (Faces w_batch) = 2" by (simp add: triangles_def w_batch_def w_face_def)
  have c: "corners (Faces w_batch) ! 4 = (w_face, 2)"
    by (simp add: corners_def fan_def w_batch_def w_face_def upt_rec nth_Cons')
  have v: "Vertices w_obj ! nat (VertIndex w_face ! 2) = w_vertex 0x3F800000 0x3F800000"
    by (simp add: w_obj_def w_face_def nth_Cons')
  have b: "\<forall>f\<in>set (Faces w_batch). face_ok w_obj False False f" "triangles (Faces w_batch) \<le> 19000000"
    "bHasNormal w_batch = Some False" "bHasUv w_batch = Some False"
    using w_face_ok T by (simp_all add: w_batch_def)
  obtain s where s: "convert_subset w_obj w_batch = Done s" "unat (ss_uiTriCount s) = 2"
    "\<forall>i<6. dec_float3 (drop (i * unat (GetVertexSize (ss_uiVertexFmt s))) (pVB s)) =
       (case corners (Faces w_batch) ! i of (f, k) \<Rightarrow> mirror (Vertices w_obj ! nat (VertIndex f ! k)))"
    using converted_fan [OF b] unfolding T by auto
  have "(4::nat) < 6" by simp
  then show ?thesis using s c v by (metis prod.case)
qed

lemma converted_model_saves_and_loads_witness:
  "\<exists>obj' m. ConvertObjTo3DModel (\<lambda>_. None) w_black w_obj (TD_SCAN_MODEL_new (w_vertex 0 0) (w_vertex 0 0)) = Done (obj', m)"
proof -
  have "textures_fit (\<lambda>_. None)" by (simp add: textures_fit_def)
  from converted_model_saves_and_loads [OF w_obj_ok this rle_contract] show ?thesis by blast
qed

lemma face_line_roundtrip_witness:
  "face_line (load_line (''f 1/4/7 2/5/8 3/6/9'' @ [CHR 0x0A]) ''old text'') MY_DRAW_BATCH_new =
     Done (add_face [(0, 3, 6), (1, 4, 7), (2, 5, 8)] (MY_DRAW_BATCH_new\<lparr>bHasNormal := Some True, bHasUv := Some True\<rparr>))"
proof -
  have t: "face_text True True [(1, 4, 7), (2, 5, 8), (3, 6, 9)] = ''f 1/4/7 2/5/8 3/6/9'' @ [CHR 0x0A]"
    by code_simp
  show ?thesis
    using face_line_roundtrip [of "[(1, 4, 7), (2, 5, 8), (3, 6, 9)]" True True "''old text''" MY_DRAW_BATCH_new]
    unfolding t by (simp add: fits_int_def)
qed

lemma normals_without_uv_crash_witness:
  "\<exists>b'. face_line (load_line (face_text True False [(1, 0, 1), (2, 0, 2), (3, 0, 3)]) []) MY_DRAW_BATCH_new = Done b' \<and>
     convert_subset w_obj b' = UB"
  using normals_without_uv_crash [of "[(1, 0, 1), (2, 0, 2), (3, 0, 3)]" "[]" MY_DRAW_BATCH_new w_obj] by (auto simp: fits_int_def)

text \<open>Two spaces make the loader read a vertex twice; a negative index is not seen at all.\<close>

lemma double_space_repeats_vertex:
  "face_line (load_line (''f  1 2 3'' @ [CHR 0x0A]) []) MY_DRAW_BATCH_new =
     Done (add_face [(0, - 1, - 1), (0, - 1, - 1), (1, - 1, - 1)] (MY_DRAW_BATCH_new\<lparr>bHasNormal := Some False, bHasUv := Some False\<rparr>))"
  by code_simp

lemma negative_indices_ignored:
  "face_line (load_line (''f -1 -2 -3'' @ [CHR 0x0A]) []) MY_DRAW_BATCH_new = Done (add_face [] MY_DRAW_BATCH_new)"
  by code_simp

end
