(* ===== verification/D3DWitness.thy ===== *)
theory D3DWitness
  imports D3DObj ObjWitness
begin

text \<open>
  Concrete inputs for the Direct3D properties: a device that creates everything, shaders of one pass and a ray test
  that hits every triangle; the small model of the scan file, whose triangle uses one vertex three times, and the same
  model with three vertices.
\<close>

definition w_d3d :: d3d_env where
  "w_d3d = \<lparr>x_device = True, x_effect = (\<lambda>_. True), x_texture = (\<lambda>_ _. True), x_passes = (\<lambda>_. 1),
     x_tri = (\<lambda>_ _ _ _ _. Some 0x3F800000), x_junk = (\<lambda>_. 0)\<rparr>"

definition w_gpu :: gpu where
  "w_gpu = \<lparr>g_next = 0, g_refs = (\<lambda>_. 0)\<rparr>"

definition w_own :: TD_SCAN_MODEL where
  "w_own = w_model\<lparr>Parts := [\<lparr>mp_sName = [0x50], mp_Subsets = [w_subset\<lparr>pVB := replicate 36 0, pIB := [0, 1, 2], ss_uiVertCount := 3\<rparr>]\<rparr>]\<rparr>"

lemma w_d3d_simps [simp]: "x_device w_d3d" "x_effect w_d3d h" "x_passes w_d3d i = 1"
  by (simp_all add: w_d3d_def)

lemma w_gpu_ok: "gpu_ok w_gpu"
  by (simp add: gpu_ok_def w_gpu_def)

lemma w_maps: "maps_ok w_model" "maps_ok w_own"
  using model_ok_maps [OF w_model_ok] by (simp_all add: maps_ok_def w_own_def)

lemma w_known: "materials_known w_model"
  by (simp add: materials_known_def w_model_def w_subset_def)

lemma w_own_unshared: "unshared w_own"
proof -
  have "unat ([0, 1, 2 :: u32] ! i) = i" if "i < 3" for i
    using that by (auto simp: numeral_3_eq_3 less_Suc_eq)
  then show ?thesis
    by (simp add: unshared_def own_vertices_def w_own_def w_model_def w_subset_def subset_ok_def name_ok_def GetVertexSize_def flag_defs)
qed

lemma w_own_hit: "hit_at w_d3d p v w_own (0, 0) 0x3F800000"
proof -
  have "(0::nat) < 1" by simp
  then show ?thesis by (simp add: hit_at_def w_own_def w_model_def w_subset_def w_d3d_def Let_def)
qed

lemma created_model_is_released_witness:
  "\<exists>d g1 d' g2. CreateFromTDModel w_d3d w_model (D3D_MODEL_new (w_vertex 0 0) (w_vertex 0 0)) w_gpu = Done (True, d, g1) \<and>
    FreeD3DModel d g1 = Done (d', g2) \<and> g_refs g2 = (\<lambda>_. 0)"
  using created_model_is_released [OF w_maps(1) w_d3d_simps(1) w_gpu_ok, of "w_vertex 0 0" "w_vertex 0 0"]
  by (auto simp: w_gpu_def)

lemma created_model_draws_every_subset_witness:
  "\<exists>d g' cs. CreateFromTDModel w_d3d w_model (D3D_MODEL_new (w_vertex 0 0) (w_vertex 0 0)) w_gpu = Done (True, d, g') \<and>
    RenderD3DModel w_d3d w_model d = Done cs \<and> map call_buffers cs = [sub_buffers w_subset]"
  using created_model_draws_every_subset [OF w_maps(1) w_known w_d3d_simps(1) _ _ w_gpu_ok, of 1 "w_vertex 0 0" "w_vertex 0 0"]
  by (simp add: w_model_def)

lemma unknown_material_crashes_renderer_witness:
  "\<exists>d g'. CreateFromTDModel w_d3d (w_model\<lparr>Materials := []\<rparr>) (D3D_MODEL_new (w_vertex 0 0) (w_vertex 0 0)) w_gpu = Done (True, d, g') \<and>
    RenderD3DModel w_d3d (w_model\<lparr>Materials := []\<rparr>) d = UB"
proof -
  have m: "maps_ok (w_model\<lparr>Materials := []\<rparr>)" using w_maps(1) by (simp add: maps_ok_def smap_inv_def)
  have "\<not> materials_known (w_model\<lparr>Materials := []\<rparr>)" by (simp add: materials_known_def w_model_def)
  then show ?thesis
    using unknown_material_crashes_renderer [OF m w_d3d_simps(1) _ w_gpu_ok, of "w_vertex 0 0" "w_vertex 0 0"] by simp
qed

lemma picking_finds_nearest_witness:
  "\<exists>d g' r. CreateFromTDModel w_d3d w_own (D3D_MODEL_new (w_vertex 0 0) (w_vertex 0 0)) w_gpu = Done (True, d, g') \<and>
    IntersectRay w_d3d (w_vertex 0 0) (w_vertex 0 0) w_own d = Done r \<and> r \<noteq> None"
  using picking_finds_nearest [OF w_maps(2) w_own_unshared w_d3d_simps(1) w_gpu_ok, of "w_vertex 0 0" "w_vertex 0 0" "w_vertex 0 0" "w_vertex 0 0"]
    w_own_hit by blast

lemma obj_without_materials_crashes_renderer_witness:
  "\<exists>obj' m d g'. ConvertObjTo3DModel (\<lambda>_. None) w_black (w_obj\<lparr>obj_Materials := []\<rparr>) (TD_SCAN_MODEL_new (w_vertex 0 0) (w_vertex 0 0)) = Done (obj', m) \<and>
    CreateFromTDModel w_d3d m (D3D_MODEL_new (w_vertex 0 0) (w_vertex 0 0)) w_gpu = Done (True, d, g') \<and> RenderD3DModel w_d3d m d = UB"
proof -
  have f: "face_ok (w_obj\<lparr>obj_Materials := []\<rparr>) n u = face_ok w_obj n u" for n u
    by (rule ext) (simp add: face_ok_def)
  have b: "batch_ok (w_obj\<lparr>obj_Materials := []\<rparr>) = batch_ok w_obj" by (rule ext) (simp add: batch_ok_def f)
  have "obj_part_ok (w_obj\<lparr>obj_Materials := []\<rparr>) = obj_part_ok w_obj" by (rule ext) (simp add: obj_part_ok_def b)
  then have "obj_ok (w_obj\<lparr>obj_Materials := []\<rparr>)" using w_obj_ok by (simp add: obj_ok_def has_faces_def)
  moreover have "textures_fit (\<lambda>_. None)" by (simp add: textures_fit_def)
  ultimately show ?thesis
    using obj_without_materials_crashes_renderer [of "w_obj\<lparr>obj_Materials := []\<rparr>" "\<lambda>_. None" w_d3d w_gpu w_black "w_vertex 0 0" "w_vertex 0 0"
      "w_vertex 0 0" "w_vertex 0 0"] w_gpu_ok by auto
qed

lemma picking_shared_vertices_overruns_witness:
  "\<exists>d g'. CreateFromTDModel w_d3d w_model (D3D_MODEL_new (w_vertex 0 0) (w_vertex 0 0)) w_gpu = Done (True, d, g') \<and>
    IntersectRay w_d3d (w_vertex 0 0) (w_vertex 0 0) w_model d = UB"
proof -
  have "subset_ok w_subset" using w_model_ok by (simp add: model_ok_def part_ok_def w_model_def)
  then show ?thesis
    by (intro picking_shared_vertices_overruns [OF w_maps(1) w_d3d_simps(1) w_gpu_ok, of 0 0])
       (simp_all add: w_model_def, simp_all add: w_subset_def)
qed

end
