(* ===== verification/ViewerWitness.thy ===== *)
theory ViewerWitness
  imports ViewerGuiProps D3DWitness ModelCacheWitness
begin

text \<open>
  A concrete viewer for its properties: the device, matrices, Windows and codec of the other witnesses, a URL parser that finds the
  subscription A everywhere, a server that answers every request with the same model, and a dialog over an empty cache.
\<close>

definition wv_uri :: uri where
  "wv_uri = \<lparr>u_base = ''http://w'', u_path = ''/'', u_query = ''subsid=A'', u_fragment = []\<rparr>"

definition wv_env :: viewer_env where
  "wv_env = \<lparr>ve_x = w_xm, ve_d3d = w_d3d, ve_os = w_os, ve_lz = rle_lz, ve_fuel = 1, ve_junkm = (\<lambda>_ _. 0), ve_junkf = (\<lambda>_ _. 0),
     ve_tex = (\<lambda>_ _. True), ve_image = (\<lambda>p. if p = Some [5] then Some (30, 40) else None), ve_png = (\<lambda>_ _ _. Some [9]), ve_parse = (\<lambda>_. Some wv_uri),
     ve_authority = (\<lambda>_. ''w''), ve_size_t = 32\<rparr>"

definition wv_data :: bytes where
  "wv_data = model_img rle_lz 0 w_model"

definition wv_mat :: mat where "wv_mat = (\<lambda>i j. 0)"

definition wv_dialog :: CModelViewerDlg where
  "wv_dialog = \<lparr>m_base = CRenderDialog_new (pixel (0, 0)) \<lparr>bLButton = False, bRButton = False, bMButton = False\<rparr>, m_Camera = CCamera_new w_xm,
     m_ThumbCamera = CCamera_new w_xm, m_Viewport = (800, 600), m_bFileOpened = False, m_bHasFilename = False, m_strFilename = [],
     m_pd3dModel1 = None, m_pModel1 = None, m_pd3dModel2 = None, m_pModel2 = None, m_matWorld1 = wv_mat, m_matWorld2 = wv_mat,
     m_matChecker1 = wv_mat, m_matChecker2 = wv_mat, m_ptCheckerPos = zero3, m_fYaw = 0, m_fPitch = 0, m_pAdTex = None, m_strAdUrl = [],
     m_iAdWidth1 = 0, m_iAdHeight1 = 0, m_bDownloading = False, m_fDownloadProgress = 0, m_PointerPass0 = (None, 0), m_PointerPass1 = (None, 0),
     m_PointerPass2 = (None, 0), m_Cache = w_cache, m_ppszTextureNames = None, m_iTextureCount = 0, m_iFileSize = 0, m_strSubsid = [],
     m_bShowRecentLeft = False, m_bShowRecentRight = False, m_bInitialized = False, m_bDualView = False, m_ppThumbnails = None,
     m_iThumbCount = 0, m_pstrModelFiles = [], m_pstrAdFiles = [], m_iCurPart1 = 0, m_iCurPart2 = 0, m_vModelSize1 = zero3,
     m_vModelSize2 = zero3, m_ptModelCenter1 = zero3, m_ptModelCenter2 = zero3, m_matCenter1 = wv_mat, m_matCenter2 = wv_mat,
     m_matRot = wv_mat, m_ptPos1 = zero3, m_matMove = wv_mat, m_bShowSize = False, s_ptStart = pixel (0, 0), m_gpu = w_gpu, m_fs = w_fs,
     m_lostModels = 0\<rparr>"

definition wv_answer :: json where
  "wv_answer = JObject [(''ad'', JString ''x''), (''error_message'', JString []), (''info'', JString ''x''), (''model'', JString ''x''),
     (''size'', JNumber 7), (''url'', JString ''u'')]"

definition wv_client :: "unit cenv" where
  "wv_client = \<lparr>k_parse = (\<lambda>_. Some wv_uri), k_send = (\<lambda>w rq. (Reply 200 (Body wv_answer), w)), k_enc = (\<lambda>_. ''x''), k_dec = (\<lambda>_. wv_data),
     k_status = 0\<rparr>"

definition wv_sys :: "unit viewer_sys" where
  "wv_sys = \<lparr>vs_dlg = wv_dialog, vs_queue = [], vs_threads = [], vs_world = ()\<rparr>"

definition wv_url :: "string \<Rightarrow> string" where
  "wv_url api = uri_text (request_uri wv_env wv_uri api ''A'')"

lemma wv_target: "target wv_env ''3dscan://w/?subsid=A'' = Some (''A'', wv_url)"
proof -
  have "query_value ''subsid'' (split_query (u_query wv_uri)) = ''A''" "wide1000 (replace_scheme ''3dscan://w/?subsid=A'') = Done ''http://w/?subsid=A''"
    by code_simp+
  moreover have "ve_parse wv_env t = Some wv_uri" for t by (simp add: wv_env_def)
  ultimately show ?thesis by (simp add: target_def wv_url_def [abs_def] Let_def)
qed

lemma wv_draws: "draws wv_env w_loaded"
  using w_maps(1) w_known by (simp add: draws_def wv_env_def w_d3d_def maps_ok_def materials_known_def w_loaded_def)

lemma wv_readable: "readable wv_env wv_data w_loaded"
  using save_load_run [OF rle_contract w_model_ok w_model_save w_model_size w_model_fuel, of "\<lambda>_ _. 0"]
  by (simp add: readable_def wv_env_def wv_data_def w_loaded_def)

lemma wv_owns: "owns wv_dialog"
  by (simp add: owns_def wv_dialog_def held_opt_def thumb_refs_def w_gpu_ok)

lemma wv_ready: "ready wv_env 1 wv_dialog"
  using wv_owns w_inv by (simp add: ready_def wv_env_def) (simp add: wv_dialog_def w_cache_def)

lemma wv_miss: "SearchInCache (wide ''A'') (m_Cache wv_dialog) = None"
  by (simp add: wv_dialog_def SearchInCache_def w_cache_def)

lemma wv_serves: "serves wv_client (\<lambda>_ _. True) a b c wv_data"
proof -
  have f: "answer_field ''info'' (200, wv_answer)" "answer_field ''model'' (200, wv_answer)" "answer_field ''ad'' (200, wv_answer)"
    "json_field wv_answer ''info'' = JString ''x''" "json_field wv_answer ''model'' = JString ''x''" "json_field wv_answer ''ad'' = JString ''x''"
    "json_field wv_answer ''size'' = JNumber 7" "json_field wv_answer ''url'' = JString ''u''"
    by code_simp+
  have r: "make_request_get wv_client u w = (Ret (200, wv_answer), w)" for u w
    by (simp add: make_request_get_def finish_request_def wv_client_def abind_def ret_def)
  have d: "decode_field wv_client key wv_answer w = (Ret wv_data, w)" if "json_field wv_answer key = JString ''x''" for key w
    using that by (simp add: decode_field_def as_string_def abind_def ret_def wv_client_def)
  have p: "parse_uri wv_client u w = (Ret wv_uri, w)" "client_id1000 ''pcwin'' w = (Ret ''pcwin'', w)" for u w
    by (simp_all add: parse_uri_def wv_client_def ret_def client_id1000_def)
  show ?thesis
    by (simp add: serves_def GetModelInfo_def GetModel_def GetAd_def abind_def p r d f as_integer_def as_string_def ret_def)
qed

section \<open>Opening a subscription\<close>

lemma wv_sys_fields: "vs_dlg wv_sys = wv_dialog" "at_rest wv_sys" "vs_world wv_sys = ()"
  by (simp_all add: wv_sys_def at_rest_def)

lemma every_interleaving_shows_the_model_witness:
  "\<exists>s0. Load3DScanFromUrl wv_env ''3dscan://w/?subsid=A'' wv_sys = Done s0 \<and>
    (\<forall>t. viewer_runs wv_env wv_client s0 t \<longrightarrow> \<not> crashes wv_env wv_client t \<and>
      (at_rest t \<longrightarrow> shown wv_env w_loaded wv_data (vs_dlg t) \<and> m_strSubsid (vs_dlg t) = ''A'' \<and>
        keeps_others (ve_os wv_env) (wide ''A'') (cache_of (vs_dlg wv_sys)) (cache_of (vs_dlg t))))"
  by (rule every_interleaving_shows_the_model [OF wv_target _ _ _ _ wv_draws wv_readable wv_serves])
     (simp_all add: wv_sys_fields wv_miss wv_ready [simplified])

lemma opening_can_always_finish_witness:
  "\<exists>s0 u. Load3DScanFromUrl wv_env ''3dscan://w/?subsid=A'' wv_sys = Done s0 \<and> viewer_runs wv_env wv_client s0 u \<and> at_rest u \<and>
    m_pModel1 (vs_dlg u) = Some w_loaded"
proof -
  have m: "SearchInCache (wide ''A'') (m_Cache (vs_dlg wv_sys)) = None" by (simp add: wv_sys_fields wv_miss)
  obtain s0 where s0: "Load3DScanFromUrl wv_env ''3dscan://w/?subsid=A'' wv_sys = Done s0"
    using Load3DScanFromUrl_miss [OF wv_target m wv_sys_fields(2)] by blast
  have "\<exists>u. viewer_runs wv_env wv_client s0 u \<and> at_rest u \<and> shown wv_env w_loaded wv_data (vs_dlg u)"
    by (rule opening_can_always_finish [OF wv_target m wv_sys_fields(2) _ _ wv_draws wv_readable wv_serves _ s0])
       (simp_all add: wv_sys_fields wv_ready [simplified])
  then show ?thesis using s0 by (auto simp: shown_def)
qed

lemma cached_subscription_opens_offline_witness:
  "\<exists>c fs s0 v1 v2. Load3DScanFromUrl wv_env ''3dscan://w/?subsid=A'' (wv_sys\<lparr>vs_dlg := wv_dialog\<lparr>m_Cache := c, m_fs := fs\<rparr>\<rparr>) = Done s0 \<and>
    vs_threads s0 = [] \<and> on_user_msg wv_env (WM_USER_MODEL_DOWNLOADED 1) (vs_dlg s0) = Done v1 \<and>
    on_user_msg wv_env (WM_USER_AD_DOWNLOADED 1) v1 = Done v2 \<and> m_pModel1 v2 = Some w_loaded"
proof -
  obtain c fs where a: "AddModelToCache w_os (wide ''A'') (Some wv_data) (Some [5]) [] None w_cache w_fs = Done (True, c, fs)"
    using w_add [of "wide ''A''" "[]" wv_data "Some [5]" None] by (auto simp: wide_def wcs_def ModelCache.MAX_PATH_def)
  let ?v = "wv_dialog\<lparr>m_Cache := c, m_fs := fs\<rparr>"
  let ?s = "wv_sys\<lparr>vs_dlg := ?v\<rparr>"
  have g: "cache_get (ve_os wv_env) (cache_of (vs_dlg ?s)) (wide ''A'') = Some (Buf wv_data, Buf [5], Buf [])"
    using add_model_get [OF w_inv a] by (simp add: cache_of_def wv_env_def)
  have o: "owns (vs_dlg ?s)" using wv_owns owns_cong [of ?v wv_dialog] by (simp add: frame_defs)
  have "\<exists>s0 v1 v2. Load3DScanFromUrl wv_env ''3dscan://w/?subsid=A'' ?s = Done s0 \<and> vs_threads s0 = [] \<and> vs_world s0 = vs_world ?s \<and>
    vs_queue s0 = [WM_USER_MODEL_DOWNLOADED 1, WM_USER_AD_DOWNLOADED 1] \<and>
    on_user_msg wv_env (WM_USER_MODEL_DOWNLOADED 1) (vs_dlg s0) = Done v1 \<and> on_user_msg wv_env (WM_USER_AD_DOWNLOADED 1) v1 = Done v2 \<and>
    m_pModel1 v2 = Some w_loaded \<and> \<not> m_bDownloading v2 \<and> cache_of v2 = cache_of (vs_dlg ?s)"
    by (rule cached_subscription_opens_offline [OF wv_target _ o g _ _ wv_readable wv_draws]) (simp_all add: at_rest_def wv_sys_def)
  then show ?thesis by blast
qed

lemma wv_pictured: "ad_pictured wv_env (Some [5]) v w \<Longrightarrow> m_pAdTex w \<noteq> None \<and> m_iAdWidth1 w = 30 \<and> m_iAdHeight1 w = 40"
  by (auto simp: ad_pictured_def wv_env_def)

lemma advertisement_before_model_is_not_cached_witness:
  "\<exists>v1 v2. on_user_msg wv_env (WM_USER_AD_DOWNLOADED 0)
      (wv_dialog\<lparr>m_strSubsid := ''A'', m_PointerPass1 := (Some wv_data, of_nat (length wv_data)), m_PointerPass2 := (Some [5], 1)\<rparr>) = Done v1 \<and>
    on_user_msg wv_env (WM_USER_MODEL_DOWNLOADED 0) v1 = Done v2 \<and> m_pAdTex v2 \<noteq> None \<and> m_iAdWidth1 v2 = 30 \<and> m_iAdHeight1 v2 = 40 \<and>
    m_pModel1 v2 = Some w_loaded \<and> holds_ad wv_env wv_data [] v2"
proof -
  let ?v = "wv_dialog\<lparr>m_strSubsid := ''A'', m_PointerPass1 := (Some wv_data, of_nat (length wv_data)), m_PointerPass2 := (Some [5], 1)\<rparr>"
  have r: "ready wv_env 1 ?v" using wv_ready by (simp add: ready_def owns_fields)
  have "\<exists>v1 v2. on_user_msg wv_env (WM_USER_AD_DOWNLOADED 0) ?v = Done v1 \<and> on_user_msg wv_env (WM_USER_MODEL_DOWNLOADED 0) v1 = Done v2 \<and>
    ad_pictured wv_env (Some [5]) ?v v1 \<and> ad_of v2 = ad_of v1 \<and>
    m_pModel1 v2 = Some w_loaded \<and> holds_ad wv_env wv_data [] v2 \<and> fst (m_PointerPass2 v2) = None"
    by (rule advertisement_before_model_is_not_cached [OF wv_draws wv_readable r]) (simp_all add: wv_miss)
  then obtain v1 v2 where u: "on_user_msg wv_env (WM_USER_AD_DOWNLOADED 0) ?v = Done v1" "on_user_msg wv_env (WM_USER_MODEL_DOWNLOADED 0) v1 = Done v2"
    "ad_pictured wv_env (Some [5]) ?v v1" "ad_of v2 = ad_of v1" "m_pModel1 v2 = Some w_loaded" "holds_ad wv_env wv_data [] v2" by blast
  have "m_pAdTex v1 \<noteq> None \<and> m_iAdWidth1 v1 = 30 \<and> m_iAdHeight1 v1 = 40" using wv_pictured [OF u(3)] by blast
  then show ?thesis using u by (auto simp: ad_of_def)
qed

section \<open>The user's actions\<close>

definition wv_keys :: keys where
  "wv_keys = \<lparr>VK_LEFT = True, VK_RIGHT = False, VK_UP = False, VK_DOWN = False, key_W = True, key_S = False\<rparr>"

lemma viewer_cameras_follow_their_descriptions_witness:
  "\<exists>v1 v2. OnInitDialog wv_env (800, 600) wv_dialog = Done v1 \<and> viewer_session wv_env [In_keys wv_keys, In_wheel False 120] v1 = Done v2 \<and>
    m_matView (m_Camera v2) = view_of w_xm (m_CameraDesc (m_Camera v2))"
proof -
  let ?x = "ve_x wv_env"
  define v0 where "v0 = wv_dialog\<lparr>m_Camera := look_from_10 ?x (to_radian 0x42340000) (f_div 0x40800000 0x40400000) 0x461DA800 (m_Camera wv_dialog),
    m_Viewport := (800, 600), m_ThumbCamera := look_from_10 ?x (to_radian 0x42700000) (f_div f_one f_one) 0x461C4000 (CCamera_new ?x)\<rparr>"
  define s where "s = wide (''StuffsNet'' @ [CHR 0x5C])"
  have l: "length (wcs s) < ModelCache.MAX_PATH" using wcs_wide [of "''StuffsNet'' @ [CHR 0x5C]"] by (simp add: s_def ModelCache.MAX_PATH_def)
  let ?v = "v0\<lparr>m_Cache := w_cache\<lparr>m_szCacheFolder := wcs s\<rparr>, m_fs := w_fs\<rparr>"
  have "owns ?v" using wv_owns owns_cong [of ?v wv_dialog] by (simp add: frame_defs v0_def)
  moreover have "length (m_CacheTable (m_Cache ?v)) < 2 ^ 31" by (simp add: w_cache_def)
  ultimately obtain w where w: "FillThumbArray wv_env ?v = Done w" using FillThumbArray_run by blast
  have "SetCacheFolder (Some s) w_cache = Done (w_cache\<lparr>m_szCacheFolder := wcs s\<rparr>)" using l by (simp add: SetCacheFolder_def)
  moreover have "Initialize (ve_os wv_env) (w_cache\<lparr>m_szCacheFolder := wcs s\<rparr>) w_fs = Done (False, w_cache\<lparr>m_szCacheFolder := wcs s\<rparr>, w_fs)"
    by (simp add: Initialize_def w_cache_def)
  moreover have "m_Cache v0 = w_cache" "m_fs v0 = w_fs" by (simp_all add: v0_def wv_dialog_def)
  ultimately have i: "OnInitDialog wv_env (800, 600) wv_dialog = Done (w\<lparr>m_bInitialized := True\<rparr>)"
    using w unfolding OnInitDialog_def Let_def v0_def [symmetric] s_def [symmetric] by simp
  have s: "viewer_session wv_env [In_keys wv_keys, In_wheel False 120] (w\<lparr>m_bInitialized := True\<rparr>) =
      Done (on_wheel wv_env False 120 (Update wv_env wv_keys (w\<lparr>m_bInitialized := True\<rparr>)))" by simp
  have "?x = w_xm" by (simp add: wv_env_def)
  then show ?thesis using viewer_cameras_follow_their_descriptions [OF i s, OF insertI1] i s by auto
qed

definition wv_three :: D3D_MODEL where
  "wv_three = (D3D_MODEL_new zero3 zero3)\<lparr>d_Parts := replicate 3 \<lparr>dp_pBase = 0, dp_bVisible = True, dp_bSelected = False, dp_Subsets = []\<rparr>\<rparr>"

lemma wv_three_parts: "length (d_Parts wv_three) = 3" "shown_parts wv_three = {0..<3}"
  by (auto simp: wv_three_def shown_parts_def)

lemma next_button_turns_the_pages_witness:
  "(\<exists>w d. viewer_session wv_env (replicate 4 (In_button Next1)) (wv_dialog\<lparr>m_pd3dModel1 := Some wv_three\<rparr>) = Done w \<and>
    m_pd3dModel1 w = Some d \<and> m_iCurPart1 w = 1 \<and> shown_parts d = {1})"
proof -
  have s: "ve_size_t wv_env = 32" "m_iCurPart1 wv_dialog = 0" by (simp_all add: wv_env_def wv_dialog_def)
  from next_button_turns_the_pages [of "wv_dialog\<lparr>m_pd3dModel1 := Some wv_three\<rparr>" wv_three wv_env 4] show ?thesis
    by (simp add: wv_three_parts s) blast
qed

lemma previous_from_first_wraps_in_size_t_witness:
  "\<exists>w. UpdateGui wv_env Prev1 (wv_dialog\<lparr>m_pd3dModel1 := Some wv_three\<rparr>) = Done w \<and> m_iCurPart1 w = 0"
proof -
  have s: "ve_size_t wv_env = 32" "m_iCurPart1 wv_dialog = 0" by (simp_all add: wv_env_def wv_dialog_def)
  from previous_from_first_wraps_in_size_t [of "wv_dialog\<lparr>m_pd3dModel1 := Some wv_three\<rparr>" wv_three wv_env] show ?thesis
    by (simp add: wv_three_parts s) blast
qed

text \<open>A cache of one entry whose files are m, a and t.\<close>

definition wv_entry :: CACHE_ENTRY where
  "wv_entry = \<lparr>ce_szSibscriptionId = wide ''A'', ce_DateTime = [], ce_dwHash = 0, ce_szModelFile = wide ''m'', ce_szAdFile = wide ''a'',
     ce_szThumbFile = wide ''t'', ce_szAdUrl = wide ''u''\<rparr>"

definition wv_history :: CModelViewerDlg where
  "wv_history = wv_dialog\<lparr>m_Cache := w_cache\<lparr>m_CacheTable := [wv_entry]\<rparr>, m_fs := \<lparr>fs_files = [wide ''m'' \<mapsto> wv_data, wide ''a'' \<mapsto> [5]], fs_dirs = []\<rparr>,
     m_iThumbCount := 1, m_pstrModelFiles := [wide ''m''], m_pstrAdFiles := [wide ''a''], m_strSubsid := ''B''\<rparr>"

lemma wv_names: "wcs (wide ''m'') = wide ''m''" "wcs (wide ''a'') = wide ''a''" "wcs (wide ''u'') = wide ''u''" "c_text (ansi (wide ''m'')) = ''m''"
  "ansi (wide ''u'') = ''u''"
  by code_simp+

lemma wv_from_file:
  "fs ''m'' = Some wv_data \<Longrightarrow> Load3DScanModelFromFile rle_lz (\<lambda>_ _. 0) 1 fs (Some ''m'') = Done w_loaded"
  using w_load by (simp add: Load3DScanModelFromFile_def CFileStream_Open_def CFileStream_new_def w_stream_def wv_data_def)

lemma history_click_opens_its_entry_witness:
  "\<exists>w. history_click wv_env 0 wv_history = Done w \<and> m_pModel1 w = Some w_loaded \<and> m_strAdUrl w = ''u'' \<and>
    m_pAdTex w \<noteq> None \<and> m_iAdWidth1 w = 30 \<and> m_iAdHeight1 w = 40 \<and> share_link w = Done ''http://www.stuffsnet.com/models/B''"
proof -
  have h: "history_ok wv_history" by (simp add: history_ok_def wv_history_def wv_entry_def wv_names)
  have o: "owns wv_history" using wv_owns by (simp add: owns_def wv_history_def thumb_refs_def wv_dialog_def)
  have t: "m_CacheTable (m_Cache wv_history) = [wv_entry]" "wcs (ce_szModelFile wv_entry) = wide ''m''" "wcs (ce_szAdUrl wv_entry) = wide ''u''"
    by (simp_all add: wv_history_def wv_entry_def wv_names)
  have f: "file_at wv_env (m_fs wv_history) ''m'' = Some wv_data"
    by (simp add: file_at_def wv_env_def wv_history_def open_existing_def w_os_def wide_def)
  have l: "Load3DScanModelFromFile (ve_lz wv_env) (ve_junkf wv_env) (ve_fuel wv_env) (file_at wv_env (m_fs wv_history))
      (Some (c_text (ansi (wcs (ce_szModelFile wv_entry))))) = Done w_loaded"
    using wv_from_file [of "file_at wv_env (m_fs wv_history)", OF f] by (simp add: t wv_names wv_env_def)
  have len: "length (wide ''m'') < 260" by (simp add: wide_def)
  have "share_link wv_history = Done ''http://www.stuffsnet.com/models/B''"
  proof -
    have "m_strSubsid wv_history = ''B''" by (simp add: wv_history_def)
    moreover have "c_text ''B'' = ''B''" by code_simp
    ultimately show ?thesis by (simp add: share_link_def share_prefix_def ModelCache.MAX_PATH_def Let_def)
  qed
  moreover have "LoadFileToMem (ve_os wv_env) (m_fs wv_history) (wcs (ce_szAdFile wv_entry)) = Some [5]"
    by (simp add: LoadFileToMem_def wv_env_def wv_history_def wv_entry_def wv_names open_existing_def) (simp add: w_os_def)
  moreover note history_click_opens_its_entry [OF h o _ _ _ _ l wv_draws, of 0] wv_pictured
  ultimately show ?thesis by (simp add: t wv_names len) blast
qed

lemma share_link_fits_short_ids_witness:
  "share_link (wv_dialog\<lparr>m_strSubsid := ''A''\<rparr>) = Done ''http://www.stuffsnet.com/models/A''"
proof -
  have "c_text ''A'' = ''A''" by code_simp
  then show ?thesis using share_link_fits_short_ids [of "wv_dialog\<lparr>m_strSubsid := ''A''\<rparr>"] by simp
qed

text \<open>The dialogs' cameras are perspective and centred; placing them keeps that.\<close>

definition lens_of :: "CCamera \<Rightarrow> bool \<times> PROJECTION_TYPE \<times> PROJECTION_CENTER" where
  "lens_of c = (m_bInit c, eProjectionType (m_CameraDesc c), eProjectionCenter (m_CameraDesc c))"

lemma lens_of_aim [simp]: "lens_of (aim x c) = lens_of c"
  by (simp add: lens_of_def aim_def Let_def)

lemma lens_of_view: "m_bInit c \<Longrightarrow> lens_of (snd (then_view x True c)) = lens_of c"
  by (simp add: lens_of_def then_view_def)

lemma lens_of_set: "(\<And>d. eProjectionType (f d) = eProjectionType d \<and> eProjectionCenter (f d) = eProjectionCenter d) \<Longrightarrow> lens_of (set_desc f c) = lens_of c"
  by (simp add: lens_of_def)

lemma lens_of_placed:
  assumes "m_bInit c"
  shows "lens_of (snd (CCamera_SetMode x MODE_TARGET c)) = lens_of c" "lens_of (snd (CCamera_SetTarget3 x p q r True c)) = lens_of c"
    "lens_of (snd (CCamera_SetPosition3 x p q r True c)) = lens_of c"
proof -
  have i: "m_bInit (aim x (set_desc f c))" for f using assms by simp
  show "lens_of (snd (CCamera_SetMode x MODE_TARGET c)) = lens_of c"
    using assms update_both [of "set_desc (\<lambda>d. d\<lparr>eMode := MODE_TARGET\<rparr>) c" x both_flags] by (simp add: CCamera_SetMode_def lens_of_def in_sync_def)
  show "lens_of (snd (CCamera_SetTarget3 x p q r True c)) = lens_of c"
    using assms lens_of_view [OF i] by (simp add: CCamera_SetTarget3_def CCamera_SetTarget_def lens_of_set)
  show "lens_of (snd (CCamera_SetPosition3 x p q r True c)) = lens_of c"
  proof (cases "eMode (m_CameraDesc c) = MODE_TARGET")
    case True
    then show ?thesis using assms lens_of_view [OF i] by (simp add: CCamera_SetPosition3_def CCamera_SetPosition_def Let_def lens_of_set)
  next
    case False
    then show ?thesis using assms by (simp add: CCamera_SetPosition3_def CCamera_SetPosition_def Let_def then_view_def lens_of_def)
  qed
qed

lemma look_from_10_lens:
  "eProjectionType (m_CameraDesc (look_from_10 x fov a far c)) = PROJECTION_PERSPECTIVE \<and>
   eProjectionCenter (m_CameraDesc (look_from_10 x fov a far c)) = CENTER_CENTERED"
proof -
  let ?c1 = "snd (CCamera_Initialize x fov a 0x3DCCCCCD far c)"
  have 1: "lens_of ?c1 = (True, PROJECTION_PERSPECTIVE, CENTER_CENTERED)"
    by (simp add: CCamera_Initialize_def Let_def started_def lens_of_def)
  let ?c2 = "snd (CCamera_SetMode x MODE_TARGET ?c1)" let ?c3 = "snd (CCamera_SetPosition3 x 0 0 f_m_10 True ?c2)"
  have 2: "lens_of ?c2 = (True, PROJECTION_PERSPECTIVE, CENTER_CENTERED)" using lens_of_placed(1) [of ?c1] 1 by (simp add: lens_of_def)
  have 3: "lens_of ?c3 = (True, PROJECTION_PERSPECTIVE, CENTER_CENTERED)" using lens_of_placed(3) [of ?c2] 2 by (simp add: lens_of_def)
  have "lens_of (snd (CCamera_SetTarget3 x 0 0 0 True ?c3)) = (True, PROJECTION_PERSPECTIVE, CENTER_CENTERED)"
    using lens_of_placed(2) [of ?c3] 3 by (simp add: lens_of_def)
  then show ?thesis by (simp add: look_from_10_def Let_def lens_of_def)
qed

lemma dual_view_extends_single_view_witness:
  "\<exists>f1 w1 f2 w2. Render wv_env (\<lambda>_ _ _. wv_mat) (wv_dialog\<lparr>m_Camera := look_from_10 w_xm 0 f_one f_two (CCamera_new w_xm),
      m_ThumbCamera := look_from_10 w_xm 0 f_one f_two (CCamera_new w_xm), m_bDualView := True\<rparr>) = Done (f2, w2) \<and>
    Render wv_env (\<lambda>_ _ _. wv_mat) (wv_dialog\<lparr>m_Camera := look_from_10 w_xm 0 f_one f_two (CCamera_new w_xm),
      m_ThumbCamera := look_from_10 w_xm 0 f_one f_two (CCamera_new w_xm), m_bDualView := False\<rparr>) = Done (f1, w1) \<and>
    m_Camera w2 = m_Camera w1 \<and> fr_ad f2 = None"
proof -
  let ?c = "look_from_10 w_xm 0 f_one f_two (CCamera_new w_xm)"
  define v where "v = wv_dialog\<lparr>m_Camera := ?c, m_ThumbCamera := ?c\<rparr>"
  have ok: "cameras_ok wv_env v" by (simp add: v_def cameras_ok_def wv_env_def look_from_sync)
  have d: "eProjectionType (m_CameraDesc ?c) = PROJECTION_PERSPECTIVE" "eProjectionCenter (m_CameraDesc ?c) = CENTER_CENTERED"
    using look_from_10_lens [of w_xm 0 f_one f_two "CCamera_new w_xm"] by simp_all
  have n: "m_pd3dModel1 v = None" "m_pd3dModel2 v = None" by (simp_all add: v_def wv_dialog_def)
  have "\<exists>f2 w2. Render wv_env (\<lambda>_ _ _. wv_mat) (v\<lparr>m_bDualView := True\<rparr>) = Done (f2, w2)"
    by (simp add: Render_def Let_def draw_model_def n)
  then obtain f2 w2 where r: "Render wv_env (\<lambda>_ _ _. wv_mat) (v\<lparr>m_bDualView := True\<rparr>) = Done (f2, w2)" by blast
  have c: "eProjectionType (m_CameraDesc (m_Camera v)) = PROJECTION_PERSPECTIVE" "eProjectionCenter (m_CameraDesc (m_Camera v)) = CENTER_CENTERED"
    using d by (simp_all add: v_def)
  from dual_view_extends_single_view [OF ok c r] r show ?thesis unfolding v_def by auto
qed

end
