(* ===== verification/DeliveryWitness.thy ===== *)
theory DeliveryWitness
  imports Delivery PublishWitness ViewerWitness
begin

text \<open>
  The small server, the client and the viewer of the other witnesses joined: the tool publishes the model of
  \<^theory_text>\<open>ViewerWitness\<close> and the viewer shows it.
\<close>

text \<open>A parser for the addresses of host w, the client that uses it and the viewer that does.\<close>

definition wd_parse :: "string \<Rightarrow> uri option" where
  "wd_parse t = (if take 8 t = ''http://w'' then
     Some \<lparr>u_base = ''http://w'', u_path = takeWhile (\<lambda>c. c \<noteq> CHR ''?'') (drop 8 t), u_query = tl (dropWhile (\<lambda>c. c \<noteq> CHR ''?'') (drop 8 t)), u_fragment = []\<rparr>
   else None)"

definition wd_client :: "(tables \<times> int) server cenv" where
  "wd_client = w_client\<lparr>k_parse := wd_parse\<rparr>"

definition wd_viewer :: viewer_env where
  "wd_viewer = wv_env\<lparr>ve_parse := wd_parse\<rparr>"

definition wd_tool :: "(tables \<times> int) server upload_tool" where
  "wd_tool = \<lparr>ut_dlg = \<lparr>IDC_EDIT_SERVER = ''w'', IDC_EDIT_USER = ''ann'', IDC_EDIT_PASS = ''pw'', IDC_EDIT_OWNER = ''ann'', IDC_EDIT_MODEL_NAME = ''vase'',
     IDC_EDIT_MODEL_DESC = ''a vase'', IDC_EDIT_MODEL_FILE = ''vase.3dscan'', IDC_EDIT_MODEL_ID = [], IDC_EDIT_AD_FILE = [], IDC_EDIT_AD_URL = [],
     IDC_EDIT_AD_ID = ''1'', IDC_EDIT_SUBS_ID = [], subs_shown = False, progress_shown = False, message_boxes = []\<rparr>,
     ut_threads = [], ut_world = w_server Map.empty\<rparr>"

definition wd_disk :: "string \<Rightarrow> bytes option" where
  "wd_disk = [''vase.3dscan'' \<mapsto> wv_data]"

definition wd_ad :: ad_row where
  "wd_ad = \<lparr>a_id = 1, a_owner = 1, a_path = ''a.png'', a_url = ''http://shop''\<rparr>"

lemma wd_delivers: "delivers wd_client w_env"
  by (simp add: delivers_def wd_client_def w_client_def w_exchange_def)

lemma wd_codec: "k_enc wd_client = v_enc w_env" "k_dec wd_client = v_dec w_env" "k_parse wd_client = wd_parse"
  by (simp_all add: wd_client_def w_client_def)

lemma wd_parses_service:
  "api \<in> {''upload_model'', ''create_subs''} \<Longrightarrow> wd_parse (uri_text (service_uri ''w'' api)) = Some (service_uri ''w'' api)"
proof -
  have "wd_parse (uri_text (service_uri ''w'' ''upload_model'')) = Some (service_uri ''w'' ''upload_model'')"
    "wd_parse (uri_text (service_uri ''w'' ''create_subs'')) = Some (service_uri ''w'' ''create_subs'')"
    by code_simp+
  then show "api \<in> {''upload_model'', ''create_subs''} \<Longrightarrow> ?thesis" by blast
qed

lemma wd_parses_viewer:
  assumes "api \<in> {''get'', ''getinfo'', ''getad''}"
  shows "wd_parse (uri_text (viewer_uri ''http://w'' api h)) = Some (viewer_uri ''http://w'' api h)"
proof -
  from assms consider "api = ''get''" | "api = ''getinfo''" | "api = ''getad''" by blast
  then show ?thesis by cases (simp_all add: wd_parse_def viewer_uri_def uri_text_def)
qed

lemma wd_connected: "connected w_env fst (=) wd_client wd_viewer ''w'' ''w''"
proof -
  have p: "\<exists>u. ve_parse wd_viewer (''http://'' @ ''w'' @ ''/3dscan/get?subsid='' @ h) = Some u \<and> u_query u = ''subsid='' @ h \<and> ve_authority wd_viewer u = ''w''" for h
    by (simp add: wd_viewer_def wd_parse_def wv_env_def)
  have b: "''http://'' @ ''w'' = ''http://w''" by simp
  show ?thesis unfolding connected_def b wd_codec(3)
    by (intro conjI ballI allI impI w_contract wd_delivers wd_codec(1,2) wd_parses_service wd_parses_viewer p; simp)
qed

lemma wd_publication_of:
  assumes "int32 (int (length data))" "disk name = Some data"
  shows "publication w_env fst (=) disk data wd_ad (wd_tool\<lparr>ut_dlg := (ut_dlg wd_tool)\<lparr>IDC_EDIT_MODEL_FILE := name\<rparr>\<rparr>)"
proof -
  have t: "c_text (hex_enc data) = hex_enc data" by (rule c_text_id [OF hex_enc_nul])
  have u: "uploadable w_env fst (=) (w_server Map.empty) (model_json (v_enc w_env data) ''ann'' ''pw'' ''vase'' ''a vase'') ''ann'' ''pw'' (v_enc w_env data)"
    using w_up [of Map.empty] w_knows(1) w_uploadable(1) [of Map.empty]
    by (simp add: uploadable_def fit_text_def json_fields sql_safe_def code_def t assms(1) hex_dec_enc)
  have s: "sql_safe ''vase''" "sql_safe ''a vase''" "sql_safe ''ann''" by (simp_all add: sql_safe_def code_def)
  have k: "int_key (t_nmodel w_tables)" "int_key (t_nsubs w_tables)" "wd_ad \<in> set (t_ads w_tables)"
    by (simp_all add: w_tables_def int_key_def wd_ad_def)
  have a: "a_id wd_ad = atoi ''1''" "length (a_url wd_ad) < 260" by (code_simp, simp add: wd_ad_def)
  show ?thesis unfolding publication_def Let_def
    using u s k a assms(2) w_hash_free w_knows(3) by (simp add: wd_tool_def w_server_def)
qed

lemma wd_publication: "publication w_env fst (=) wd_disk wv_data wd_ad wd_tool"
proof -
  have "int32 (int (length wv_data))" using w_model_size by (simp add: wv_data_def int32_def)
  from wd_publication_of [OF this, of wd_disk "''vase.3dscan''"] show ?thesis by (simp add: wd_disk_def wd_tool_def)
qed

lemma published_with_the_tool_shown_in_the_viewer_witness:
  "\<exists>ts1 ts2 ts3 h. tool_click wd_client wd_disk BtnModelUpload wd_tool = (Ret (), ts1) \<and> tool_step wd_client wd_disk ts1 ts2 \<and>
    tool_click wd_client wd_disk BtnCreateSubs ts2 = (Ret (), ts3) \<and> IDC_EDIT_SUBS_ID (ut_dlg ts3) = h \<and>
    (\<exists>s0. Load3DScanFromUrl wd_viewer (subscription_url ''w'' h) \<lparr>vs_dlg = wv_dialog, vs_queue = [], vs_threads = [], vs_world = ut_world ts3\<rparr> = Done s0 \<and>
      (\<forall>t. viewer_runs wd_viewer wd_client s0 t \<longrightarrow> \<not> crashes wd_viewer wd_client t \<and>
        (at_rest t \<longrightarrow> shown wd_viewer w_loaded wv_data (vs_dlg t))))"
proof -
  have v: "readable wd_viewer wv_data w_loaded" "draws wd_viewer w_loaded" "ready wd_viewer 1 wv_dialog"
    using wv_readable wv_draws wv_ready by (simp_all add: readable_def draws_def ready_def wd_viewer_def)
  have d: "IDC_EDIT_SERVER (ut_dlg wd_tool) = ''w''" by (simp add: wd_tool_def)
  have "\<exists>ts1 ts2 ts3 h. tool_click wd_client wd_disk BtnModelUpload wd_tool = (Ret (), ts1) \<and> tool_step wd_client wd_disk ts1 ts2 \<and>
    tool_click wd_client wd_disk BtnCreateSubs ts2 = (Ret (), ts3) \<and> IDC_EDIT_SUBS_ID (ut_dlg ts3) = h \<and>
    (\<forall>s. at_rest s \<and> ready wd_viewer 1 (vs_dlg s) \<and> SearchInCache (wide h) (m_Cache (vs_dlg s)) = None \<and> vs_world s = ut_world ts3 \<longrightarrow>
      (\<exists>s0. Load3DScanFromUrl wd_viewer (subscription_url ''w'' h) s = Done s0 \<and>
        (\<forall>t. viewer_runs wd_viewer wd_client s0 t \<longrightarrow> \<not> crashes wd_viewer wd_client t \<and> (at_rest t \<longrightarrow> shown wd_viewer w_loaded wv_data (vs_dlg t)))))"
    by (rule published_with_the_tool_shown_in_the_viewer [OF _ wd_publication v(1,2)]) (simp add: d wd_connected)
  then obtain ts1 ts2 ts3 h where t: "tool_click wd_client wd_disk BtnModelUpload wd_tool = (Ret (), ts1)" "tool_step wd_client wd_disk ts1 ts2"
    "tool_click wd_client wd_disk BtnCreateSubs ts2 = (Ret (), ts3)" "IDC_EDIT_SUBS_ID (ut_dlg ts3) = h" and
    s: "\<forall>s. at_rest s \<and> ready wd_viewer 1 (vs_dlg s) \<and> SearchInCache (wide h) (m_Cache (vs_dlg s)) = None \<and> vs_world s = ut_world ts3 \<longrightarrow>
      (\<exists>s0. Load3DScanFromUrl wd_viewer (subscription_url ''w'' h) s = Done s0 \<and>
        (\<forall>t. viewer_runs wd_viewer wd_client s0 t \<longrightarrow> \<not> crashes wd_viewer wd_client t \<and> (at_rest t \<longrightarrow> shown wd_viewer w_loaded wv_data (vs_dlg t))))"
    by (elim exE conjE) (rule that)
  let ?s = "\<lparr>vs_dlg = wv_dialog, vs_queue = [], vs_threads = [], vs_world = ut_world ts3\<rparr>"
  have "at_rest ?s \<and> ready wd_viewer 1 (vs_dlg ?s) \<and> SearchInCache (wide h) (m_Cache (vs_dlg ?s)) = None \<and> vs_world ?s = ut_world ts3"
    using v(3) by (simp add: at_rest_def) (simp add: wv_dialog_def SearchInCache_def w_cache_def)
  with s have "\<exists>s0. Load3DScanFromUrl wd_viewer (subscription_url ''w'' h) ?s = Done s0 \<and>
    (\<forall>t. viewer_runs wd_viewer wd_client s0 t \<longrightarrow> \<not> crashes wd_viewer wd_client t \<and> (at_rest t \<longrightarrow> shown wd_viewer w_loaded wv_data (vs_dlg t)))"
    by blast
  with t show ?thesis by blast
qed

end
