(* ===== verification/ModelEditorWitness.thy ===== *)
theory ModelEditorWitness
  imports EditorDelivery DeliveryWitness
begin

text \<open>
  An editor with a triangle as an OBJ file, its material library and a texture, on the host of the other witnesses.
\<close>

definition we_line :: "string \<Rightarrow> string" where
  "we_line t = t @ [CHR 0x0A]"

definition we_scanf :: "string \<Rightarrow> (u32 \<times> string) option" where
  "we_scanf t = (case dropWhile (\<lambda>c. c = CHR '' '') t of [] \<Rightarrow> None
     | c # r \<Rightarrow> if c = CHR ''0'' then Some (0, r) else if c = CHR ''1'' then Some (0x3F800000, r) else None)"

definition we_files :: disk where
  "we_files = [''o.obj'' \<mapsto> text_bytes (concat (map we_line [''mtllib m.mtl'', ''usemtl red'', ''v 0 0 0'', ''v 1 0 0'', ''v 0 1 0'', ''f 1 2 3''])),
     ''m.mtl'' \<mapsto> text_bytes (concat (map we_line [''newmtl red'', ''map_Kd t.png''])), ''t.png'' \<mapsto> [7]]"

definition we_env :: editor_env where
  "we_env = \<lparr>ee_x = w_xm, ee_d3d = w_d3d, ee_lz = rle_lz, ee_fuel = 1, ee_junk = (\<lambda>_ _. 0),
     ee_crt = \<lparr>c_scanf = we_scanf, c_atof = (\<lambda>_. 0), c_junk = (\<lambda>_ _. 0), c_stack = []\<rparr>, ee_resolve = (\<lambda>folder n. n), ee_clr = w_black,
     ee_corners = (zero3, zero3), ee_bitmap = (\<lambda>d. Some (1, 1, \<lambda>x y. \<lparr>rgbRed = 255, rgbGreen = 0, rgbBlue = 0, rgbReserved = 255\<rparr>)),
     ee_writable = (\<lambda>_. True)\<rparr>"

definition we_batch :: MY_DRAW_BATCH where
  "we_batch = \<lparr>Faces = [\<lparr>VertIndex = [0, 1, 2], NormalIndex = [- 1, - 1, - 1], UvIndex = [- 1, - 1, - 1]\<rparr>], sMatName = ''red'',
     bHasNormal = Some False, bHasUv = Some False\<rparr>"

definition we_obj :: MY_OBJ where
  "we_obj = \<lparr>subParts = [\<lparr>op_sName = ''All'', subSets = [MY_DRAW_BATCH_new, we_batch]\<rparr>],
     Vertices = [vec3 0 0 0, vec3 f_one 0 0, vec3 0 f_one 0], Normals = [], UVs = [], sMtrlFilename = ''m.mtl'',
     obj_Materials = [MY_MTL_new\<lparr>mtl_sName := ''red'', mtl_fTr := 0, mtl_sMapKd := we_line ''t.png''\<rparr>],
     obj_ptMin = zero3, obj_ptMax = vec3 f_one f_one 0\<rparr>"

lemma we_loads: "LoadObj2 (ee_crt we_env) we_files ''o.obj'' (MY_OBJ_new zero3 zero3) = Done (1, we_obj)"
proof -
  have "LoadObj2 (ee_crt we_env) we_files ''o.obj'' (MY_OBJ_new zero3 zero3) =
    Done (1, \<lparr>subParts = [\<lparr>op_sName = ''All'', subSets = [MY_DRAW_BATCH_new, we_batch]\<rparr>],
     Vertices = [vec3 0 0 0, vec3 f_one 0 0, vec3 0 f_one 0], Normals = [], UVs = [], sMtrlFilename = ''m.mtl'',
     obj_Materials = [MY_MTL_new\<lparr>mtl_sName := ''red'', mtl_fTr := 0, mtl_sMapKd := we_line ''t.png''\<rparr>],
     obj_ptMin = zero3, obj_ptMax = vec3 f_one f_one 0\<rparr>)"
    by code_simp
  then show ?thesis by (simp only: we_obj_def)
qed

lemma we_obj_ok: "obj_ok we_obj"
proof -
  have "triangles (Faces we_batch) = 1" by (simp add: triangles_def we_batch_def)
  moreover have "face_ok we_obj False False \<lparr>VertIndex = [0, 1, 2], NormalIndex = [- 1, - 1, - 1], UvIndex = [- 1, - 1, - 1]\<rparr>"
    by (simp add: face_ok_def we_obj_def below_def)
  ultimately have b: "batch_ok we_obj we_batch" by (auto simp: batch_ok_def we_batch_def text_fits_def)
  have "ToLower (RemovePath (we_line ''t.png'')) = ''t.png''" "ToLower (RemovePath []) = []" by code_simp+
  then have m: "list_all mtl_ok (obj_Materials we_obj)" by (simp add: we_obj_def mtl_ok_def MY_MTL_new_def text_fits_def)
  have p: "subParts we_obj = [\<lparr>op_sName = ''All'', subSets = [MY_DRAW_BATCH_new, we_batch]\<rparr>]" by (simp add: we_obj_def)
  have "has_faces we_obj" by (simp add: has_faces_def p we_batch_def)
  then show ?thesis using b m by (simp add: obj_ok_def p obj_part_ok_def text_fits_def MY_DRAW_BATCH_new_def)
qed


definition we_subset :: TD_MODEL_SUBSET where
  "we_subset = subset_of we_obj False False we_batch"

definition we_material :: TD_MODEL_MATERIAL where
  "we_material = convert_material (strip_maps (MY_MTL_new\<lparr>mtl_sName := ''red'', mtl_fTr := 0, mtl_sMapKd := we_line ''t.png''\<rparr>))"

definition we_td :: TD_SCAN_MODEL where
  "we_td = \<lparr>Parts = [\<lparr>mp_sName = text_bytes ''All'', mp_Subsets = [we_subset]\<rparr>], Materials = [(text_bytes ''red'', we_material)],
     Textures = [(text_bytes ''t.png'', \<lparr>ts_sName = text_bytes ''t.png'', ts_uiSize = 1, ts_pData = [7], ts_eFormat = 0, ts_clrAvgColor = w_black\<rparr>)],
     ptMin = zero3, ptMax = zero3\<rparr>"

lemma we_subset_run: "convert_subset we_obj we_batch = Done we_subset" "ss_sMatName we_subset = text_bytes ''red''"
  "length (pVB we_subset) = 36" "length (pIB we_subset) = 3"
proof -
  have t: "triangles (Faces we_batch) = 1" by (simp add: triangles_def we_batch_def)
  have f: "\<forall>f\<in>set (Faces we_batch). face_ok we_obj False False f" "bHasNormal we_batch = Some False" "bHasUv we_batch = Some False"
    by (simp_all add: face_ok_def we_obj_def below_def we_batch_def)
  show "convert_subset we_obj we_batch = Done we_subset" using convert_subset_Done [OF f(1) _ f(2,3)] t by (simp add: we_subset_def)
  show "ss_sMatName we_subset = text_bytes ''red''" by (simp add: we_subset_def subset_of_def Let_def we_batch_def)
  have "GetVertexSize (subset_format False False) = 12" by code_simp
  then show "length (pVB we_subset) = 36" by (simp add: we_subset_def subset_of_def Let_def length_batch_bytes t)
  show "length (pIB we_subset) = 3" by (simp add: we_subset_def subset_of_def Let_def t)
qed

lemma we_converts: "ConvertObjTo3DModel we_files w_black we_obj (TD_SCAN_MODEL_new zero3 zero3) =
  Done (we_obj\<lparr>obj_Materials := map strip_maps (obj_Materials we_obj)\<rparr>, we_td)"
proof -
  have n: "ToLower (RemovePath (we_line ''t.png'')) = ''t.png''" "ToLower (RemovePath []) = []" by code_simp+
  have b: "Faces we_batch \<noteq> []" "Faces MY_DRAW_BATCH_new = []" by (simp_all add: we_batch_def MY_DRAW_BATCH_new_def)
  have p: "convert_parts we_obj (subParts we_obj) = Done [\<lparr>mp_sName = text_bytes ''All'', mp_Subsets = [we_subset]\<rparr>]"
  proof -
    have "subParts we_obj = [\<lparr>op_sName = ''All'', subSets = [MY_DRAW_BATCH_new, we_batch]\<rparr>]" by (simp add: we_obj_def)
    then show ?thesis using we_subset_run(1) b by simp
  qed
  have m: "mm_sName we_material = text_bytes ''red''" "material_textures we_material = [''t.png'', [], [], [], []]"
    using n by (simp_all add: we_material_def convert_material_def strip_maps_def material_textures_def tex_name_def text_bytes_text MY_MTL_new_def)
  have c: "convert_materials (obj_Materials we_obj) ((TD_SCAN_MODEL_new zero3 zero3)\<lparr>Parts := [\<lparr>mp_sName = text_bytes ''All'', mp_Subsets = [we_subset]\<rparr>]\<rparr>) =
    we_td\<lparr>Textures := []\<rparr>"
    using m(1) we_subset_run(2) by (simp add: convert_materials_def we_obj_def we_material_def [symmetric] material_used_def Let_def TD_SCAN_MODEL_new_def we_td_def)
  have "we_files ''t.png'' = Some [7]" by (simp add: we_files_def)
  then have a: "add_textures we_files w_black [''t.png'', [], [], [], []] (we_td\<lparr>Textures := []\<rparr>) = Done we_td"
    by (simp add: LoadAndAddToTextures_def smap_get_def we_td_def)
  have t: "concat (map (material_textures \<circ> snd) (Materials (we_td\<lparr>Textures := []\<rparr>))) = [''t.png'', [], [], [], []]"
    using m(2) by (simp add: we_td_def)
  have e: "(TD_SCAN_MODEL_new zero3 zero3)\<lparr>Parts := Parts (TD_SCAN_MODEL_new zero3 zero3) @ ps\<rparr> = (TD_SCAN_MODEL_new zero3 zero3)\<lparr>Parts := ps\<rparr>" for ps
    by (simp add: TD_SCAN_MODEL_new_def)
  show ?thesis unfolding ConvertObjTo3DModel_def p obind.simps Let_def e c t a by (rule refl)
qed

lemma we_small: "length (saved_bytes we_env we_td) < 2 ^ 31" "model_fuel we_td = 1" "materials_known we_td"
proof -
  show "model_fuel we_td = 1" "materials_known we_td" by (simp_all add: model_fuel_def we_td_def materials_known_def we_subset_run(2))
  have l: "ee_lz we_env = rle_lz" by (simp add: we_env_def)
  have z: "length (compress_HC rle_lz src cap) \<le> length src + 1" for src cap by (simp add: rle_lz_def)
  have "length (subset_vb_bytes we_subset) \<le> 36" "length (subset_ib_bytes we_subset) \<le> 12"
    by (simp_all add: subset_vb_bytes_def subset_ib_bytes_def we_subset_run(3,4))
  moreover have "length (subset_comp rle_lz 0 we_subset) \<le> length (subset_vb_bytes we_subset @ subset_ib_bytes we_subset) + 1"
    using z [of "subset_vb_bytes we_subset @ subset_ib_bytes we_subset"] by (simp add: subset_comp_def compress_block_def)
  ultimately have s: "length (subset_payload rle_lz 0 we_subset) \<le> 49" by (simp add: subset_payload_def)
  have t: "length (texture_payload rle_lz 0 b) \<le> length (ts_pData b) + 1" for b
  proof -
    have "length (compress_HC rle_lz (take n xs) cap) \<le> length xs + 1" for n xs cap by (rule order_trans [OF z]) simp
    then show ?thesis by (auto simp: texture_payload_def texture_comp_def compress_block_def min_def)
  qed
  let ?b = "averaged_slot we_env \<lparr>ts_sName = text_bytes ''t.png'', ts_uiSize = 1, ts_pData = [7], ts_eFormat = 0, ts_clrAvgColor = w_black\<rparr>"
  have "length (model_img rle_lz 0 (averaged we_env we_td)) \<le> 2000"
    using s t [of ?b] by (simp add: model_img_def Let_def length_part_img length_subset_img length_materials_img length_texture_img averaged_def we_td_def)
  moreover have "ee_lz we_env = rle_lz" by (simp add: we_env_def)
  ultimately show "length (saved_bytes we_env we_td) < 2 ^ 31" by (simp add: saved_bytes_def)
qed

section \<open>The editor\<close>

definition we_memory :: CModelEditorDlg where
  "we_memory = \<lparr>ed_base = CRenderDialog_new (pixel (0, 0)) \<lparr>bLButton = False, bRButton = False, bMButton = False\<rparr>, ed_pShader = None,
     ed_Camera = CCamera_new w_xm, ed_Viewport = (0, 0), ed_bFileOpened = False, ed_bHasFilename = False, ed_strFilename = [],
     ed_pd3dModel1 = None, ed_pModel1 = None, ed_matWorld = wv_mat, ed_ptPos = zero3, ed_fYaw = 0, ed_fPitch = 0, ed_clrClear = w_black,
     ed_clrLight = w_black, ed_iFileSize = 0, ed_fUploadProgress = 0, ed_ppszTextureNames = None, ed_iTextureCount = 0, ed_bInit = False,
     ed_ptStart = pixel (0, 0), ed_gpu = w_gpu, ed_fs = we_files, ed_lostModels = 0\<rparr>"

definition we_editor :: CModelEditorDlg where
  "we_editor = OnInitDialog_ed we_env (800, 600) (CModelEditorDlg_new we_env we_memory)"

definition we_edits :: "editor_input list" where
  "we_edits = [Ed_render, Ed_inspect (Material 0 0 (Diffuse_Color f_one 0 0)), Ed_inspect (Material 0 0 (Normal_Texture 0)), Ed_keys wv_keys,
     Ed_mouse False (800, 600) \<lparr>eEvent = MOUSE_LBDOWN, ButtonStatus = \<lparr>bLButton = True, bRButton = False, bMButton = False\<rparr>,
       ptCursor = pixel (400, 300), nData = None\<rparr>, Ed_render]"

lemma we_editor_ok: "editor_ok we_env we_editor"
  unfolding we_editor_def by (rule started_ok) (simp add: we_memory_def w_gpu_ok)

lemma we_editor_fs: "ed_fs we_editor = we_files"
  by (simp add: we_editor_def OnInitDialog_ed_def CModelEditorDlg_new_def we_memory_def split: prod.split)

lemma we_hypotheses:
  "x_device (ee_d3d we_env)" "bitmaps_ok we_env" "lz4_contract (ee_lz we_env)" "ee_writable we_env name" "textures_fit (import_disk we_env folder we_editor)"
  "\<forall>i\<in>set we_edits. is_edit i"
  "LoadObj2 (ee_crt we_env) (import_disk we_env folder we_editor) ''o.obj'' (MY_OBJ_new (fst (ee_corners we_env)) (snd (ee_corners we_env))) = Done (1, we_obj)"
  "ConvertObjTo3DModel (import_disk we_env folder we_editor) (ee_clr we_env) we_obj (TD_SCAN_MODEL_new (fst (ee_corners we_env)) (snd (ee_corners we_env))) =
     Done (we_obj\<lparr>obj_Materials := map strip_maps (obj_Materials we_obj)\<rparr>, we_td)"
proof -
  have d: "import_disk we_env folder we_editor = we_files" by (simp add: import_disk_def we_env_def we_editor_fs)
  have c: "ee_corners we_env = (zero3, zero3)" "ee_clr we_env = w_black" by (simp_all add: we_env_def)
  show "LoadObj2 (ee_crt we_env) (import_disk we_env folder we_editor) ''o.obj'' (MY_OBJ_new (fst (ee_corners we_env)) (snd (ee_corners we_env))) = Done (1, we_obj)"
    unfolding d c by (simp only: fst_conv snd_conv we_loads)
  show "ConvertObjTo3DModel (import_disk we_env folder we_editor) (ee_clr we_env) we_obj (TD_SCAN_MODEL_new (fst (ee_corners we_env)) (snd (ee_corners we_env))) =
     Done (we_obj\<lparr>obj_Materials := map strip_maps (obj_Materials we_obj)\<rparr>, we_td)"
    unfolding d c by (simp only: fst_conv snd_conv we_converts)
  have "length b \<le> 0x7E000000" if "we_files n = Some b" for n b
    using that by (auto simp: we_files_def text_bytes_def we_line_def split: if_splits)
  then show "textures_fit (import_disk we_env folder we_editor)" unfolding d textures_fit_def by blast
  show "x_device (ee_d3d we_env)" "bitmaps_ok we_env" "lz4_contract (ee_lz we_env)" "ee_writable we_env name"
    by (simp_all add: we_env_def w_d3d_def bitmaps_ok_def rle_contract)
  show "\<forall>i\<in>set we_edits. is_edit i" by (simp add: we_edits_def is_edit_def)
qed

lemma we_draws: "device_works (ee_d3d we_env)" "ed_pShader we_editor \<noteq> None"
proof -
  have "f_less 0x3F800000 FLT_MAX" by code_simp
  then show "device_works (ee_d3d we_env)" by (auto simp: device_works_def hits_finite_def we_env_def w_d3d_def)
  show "ed_pShader we_editor \<noteq> None"
    by (simp add: we_editor_def OnInitDialog_ed_def we_env_def com_new_def)
qed

lemma we_imports: "obj_imports we_env folder ''o.obj'' we_editor we_td"
  unfolding obj_imports_def Let_def case_prod_beta using we_hypotheses(5,7,8) we_obj_ok we_small(1,3) by blast

lemma editor_stays_consistent_witness:
  "\<exists>e. editor_session we_env [Ed_import ''c'' ''o.obj''] we_editor = Done e \<and> combo_names e = [text_bytes ''t.png'', []] \<and>
    m_matView (ed_Camera e) = view_of w_xm (m_CameraDesc (ed_Camera e))"
proof -
  have g: "gpu_ok (ed_gpu we_memory)" by (simp add: we_memory_def w_gpu_ok)
  obtain e where e: "import_obj we_env (''c'', ''o.obj'') we_editor = Done e" "ed_pModel1 e = Some we_td" "ed_bFileOpened e"
    using import_run [OF we_editor_ok we_hypotheses(1,7,8), of "''c''"] by blast
  then have s: "editor_session we_env [Ed_import ''c'' ''o.obj''] we_editor = Done e" by (simp add: editor_input_step_def)
  from editor_stays_consistent [OF g s [unfolded we_editor_def]] e(2) obtain d where
    c: "m_matView (ed_Camera e) = view_of (ee_x we_env) (m_CameraDesc (ed_Camera e))" "combo_names e = texture_list_of we_td" by (auto split: option.splits)
  have "c_str (text_bytes ''t.png'') = text_bytes ''t.png''" by code_simp
  then have "texture_list_of we_td = [text_bytes ''t.png'', []]" by (simp add: texture_list_of_def we_td_def)
  moreover have "ee_x we_env = w_xm" by (simp add: we_env_def)
  ultimately show ?thesis using s c by auto
qed

lemma edited_obj_is_saved_without_the_edits_witness:
  "\<exists>e1 e2 e3 e4. import_obj we_env (''c'', ''o.obj'') we_editor = Done e1 \<and> editor_session we_env we_edits e1 = Done e2 \<and>
    menu_save_as we_env (Some ''red.3dscan'') e2 = Done e3 \<and> Load3DScanFile_ed we_env ''red.3dscan'' e3 = Done e4 \<and>
    ed_pModel1 e4 = Some (saved_model we_env we_td)"
proof -
  have "model_fuel we_td \<le> ee_fuel we_env" by (simp add: we_small(2) we_env_def)
  from edited_obj_is_saved_without_the_edits [OF we_editor_ok we_draws(2,1) we_imports we_hypotheses(2,4,6,3) this]
  show ?thesis by blast
qed

section \<open>The whole chain\<close>

definition we_tool :: "(tables \<times> int) server upload_tool" where
  "we_tool = wd_tool\<lparr>ut_dlg := (ut_dlg wd_tool)\<lparr>IDC_EDIT_MODEL_FILE := ''red.3dscan''\<rparr>\<rparr>"

lemma we_publication:
  "publication w_env fst (=) (we_files(''red.3dscan'' \<mapsto> saved_bytes we_env we_td)) (saved_bytes we_env we_td) wd_ad we_tool"
proof -
  have "int32 (int (length (saved_bytes we_env we_td)))" using we_small(1) by (simp add: int32_def)
  from wd_publication_of [OF this, of "we_files(''red.3dscan'' \<mapsto> saved_bytes we_env we_td)" "''red.3dscan''"] show ?thesis by (simp add: we_tool_def)
qed

lemma imported_obj_is_shown_in_the_viewer_witness:
  "\<exists>e1 e2 e3 ts1 ts2 ts3 h. import_obj we_env (''c'', ''o.obj'') we_editor = Done e1 \<and> editor_session we_env we_edits e1 = Done e2 \<and>
    menu_save_as we_env (Some ''red.3dscan'') e2 = Done e3 \<and> tool_click wd_client (ed_fs e3) BtnModelUpload we_tool = (Ret (), ts1) \<and>
    tool_step wd_client (ed_fs e3) ts1 ts2 \<and> tool_click wd_client (ed_fs e3) BtnCreateSubs ts2 = (Ret (), ts3) \<and> IDC_EDIT_SUBS_ID (ut_dlg ts3) = h \<and>
    (\<exists>s0. Load3DScanFromUrl wd_viewer (subscription_url ''w'' h) \<lparr>vs_dlg = wv_dialog, vs_queue = [], vs_threads = [], vs_world = ut_world ts3\<rparr> = Done s0)"
proof -
  have c: "connected w_env fst (=) wd_client wd_viewer (IDC_EDIT_SERVER (ut_dlg we_tool)) ''w''" using wd_connected by (simp add: we_tool_def wd_tool_def)
  have v: "ve_lz wd_viewer = ee_lz we_env" "model_fuel we_td \<le> ve_fuel wd_viewer" "x_device (ve_d3d wd_viewer)" "\<forall>h. x_effect (ve_d3d wd_viewer) h"
    "\<forall>h. x_passes (ve_d3d wd_viewer) h = 1"
    by (simp_all add: wd_viewer_def wv_env_def we_env_def we_small(2) w_d3d_def)
  have r: "ready wd_viewer 1 wv_dialog" using wv_ready by (simp add: ready_def wd_viewer_def)
  from imported_obj_is_shown_in_the_viewer [where folder = "''c''", OF we_editor_ok we_draws(2,1) we_imports we_hypotheses(2,4,6,3)
      c, unfolded we_editor_fs, OF we_publication v]
  obtain e1 e2 e3 ts1 ts2 ts3 h where
    T: "import_obj we_env (''c'', ''o.obj'') we_editor = Done e1" "editor_session we_env we_edits e1 = Done e2" "menu_save_as we_env (Some ''red.3dscan'') e2 = Done e3"
      "tool_click wd_client (ed_fs e3) BtnModelUpload we_tool = (Ret (), ts1)" "tool_step wd_client (ed_fs e3) ts1 ts2"
      "tool_click wd_client (ed_fs e3) BtnCreateSubs ts2 = (Ret (), ts3)" "IDC_EDIT_SUBS_ID (ut_dlg ts3) = h" and
    S: "\<forall>s. at_rest s \<and> ready wd_viewer 1 (vs_dlg s) \<and> SearchInCache (wide h) (m_Cache (vs_dlg s)) = None \<and> vs_world s = ut_world ts3 \<longrightarrow>
      (\<exists>s0. Load3DScanFromUrl wd_viewer (subscription_url ''w'' h) s = Done s0 \<and>
        (\<forall>t. viewer_runs wd_viewer wd_client s0 t \<longrightarrow> \<not> crashes wd_viewer wd_client t \<and>
          (at_rest t \<longrightarrow> shown wd_viewer (saved_model we_env we_td) (saved_bytes we_env we_td) (vs_dlg t))))"
    by (elim exE conjE) (rule that)
  let ?s = "\<lparr>vs_dlg = wv_dialog, vs_queue = [], vs_threads = [], vs_world = ut_world ts3\<rparr>"
  have "at_rest ?s \<and> ready wd_viewer 1 (vs_dlg ?s) \<and> SearchInCache (wide h) (m_Cache (vs_dlg ?s)) = None \<and> vs_world ?s = ut_world ts3"
    using r by (simp add: at_rest_def) (simp add: wv_dialog_def SearchInCache_def w_cache_def)
  with S show ?thesis using T by blast
qed

end
