(* ===== verification/Spec2Isabelle.thy ===== *)
theory Spec2Isabelle
  imports ScanWitness ModelCacheWitness ModelEditorWitness
begin

text \<open>
  ModelPublishSuite publishes scanned 3D models: an editor or upload tool turns a Wavefront OBJ file into a model and
  a 3dscan file, uploads it to a web service that keeps files on disk and rows in MySQL, and a viewer fetches the
  model by a subscription id, keeps it in a cache on disk and loads it from memory.

  The parts and the theories that model them, in the order in which they depend on each other
  (paths under src/Source).

  \<^item> \<^theory_text>\<open>Prelude\<close>, \<^theory_text>\<open>CText\<close>, \<^theory_text>\<open>Float32\<close>, \<^theory_text>\<open>StdMap\<close>: bytes, little-endian
    integers, C strings and the C library on text, the float operations the code does, \<open>std::map\<close> as an ordered list
    (locale \<open>key_map\<close>), and \<open>outcome\<close>: a value, the error return of the code, undefined behaviour, or a loop out of fuel.

  \<^item> \<^theory_text>\<open>ScanFormat\<close>, \<^theory_text>\<open>ScanModel\<close>: the packed structs of ClientSide/Common/3DScanFmt.h with their bytes
    (locale \<open>file_struct\<close>, one interpretation per struct) and the model of 3DScanModel.h.
    \<^theory_text>\<open>ScanStream\<close>: CFileStream.cpp and CMemStream.cpp, interpretations of the locale \<open>byte_stream\<close>
    the loader is written against.
    \<^theory_text>\<open>ScanSave\<close>, \<^theory_text>\<open>ScanLoad\<close>: C3DScanFile.cpp, with LZ4 as a parameter (\<open>lz4_contract\<close> is what lz4.h
    documents).
    \<^theory_text>\<open>ScanImage\<close>: the file as one byte list without seeks, which the saver is shown to write;
    \<^theory_text>\<open>ScanRoundtrip\<close>: loading that image, by each kind of record and then for the whole file, on any
    \<open>byte_stream\<close>; \<^theory_text>\<open>ScanProps\<close>: what holds of every model that is loaded and of every memory stream,
    and the inputs that go wrong.

  \<^item> \<^theory_text>\<open>ObjLoader\<close>: ClientSide/Common/ObjLoader.cpp. \<open>obj_state\<close> is the loop's state, with \<open>cur_subset\<close> as a pair of
    indices; the line buffer is passed along because the scans for a separator run past the terminator.
    \<^theory_text>\<open>Obj2Model\<close>: Obj2Model.cpp. \<^theory_text>\<open>ObjFaces\<close>: what the loader reads from printed faces;
    \<^theory_text>\<open>ObjConvert\<close>: the converter does not fail on an OBJ that is \<open>obj_ok\<close> (faces of two or more corners with indices in
    range, names that fit), each subset is the fan triangulation of its faces, and the converted model is one that is saved and loaded unchanged.

  \<^item> \<^theory_text>\<open>ModelCache\<close>: ClientSide/ModelViewer/CModelCache.cpp on an explicit file system; the Windows calls that decide
    names and failures are the parameter \<open>win_os\<close>. \<^theory_text>\<open>ModelCacheProps\<close>: the cache as a write-once store (locale
    \<open>write_once\<close>) and where it breaks; \<^theory_text>\<open>CacheRun\<close>: sessions of AddModelToCache and AddAdToCache (locale \<open>ad_store\<close>),
    what LoadModel gives after them and what a reopened cache has kept.

  \<^item> \<^theory_text>\<open>Uri\<close>, \<^theory_text>\<open>Web\<close>: the parts of the bundled cpprest (uri.cpp, uri_builder.cpp, json.h) that requests
    pass through, and \<open>act\<close>, code that changes a state and returns, throws, crashes or hangs.
    \<^theory_text>\<open>Database\<close>: the tables of SerrverSide/Database/dbCreateTables.sql as lists of rows, the statements of the server
    as the text it prints, and what a database must answer to them (\<open>select_contract\<close>, \<open>insert_contract\<close>).
    \<^theory_text>\<open>Server\<close>: SerrverSide/ModelPublishServer/CModelPublishServer.cpp and the start-up of ModelPublishServer.cpp. The
    state \<open>server\<close> holds the static members, database, disk and the answer in progress; \<open>OnGetModel\<close> to
    \<open>OnCreateSubscription\<close> are the handlers, \<open>HandleGet\<close> and \<open>HandlePost\<close> the dispatch.
    \<^theory_text>\<open>ServerLemmas\<close> runs the pieces under the contract \<open>env_contract\<close>; \<^theory_text>\<open>ServerGet\<close> and \<^theory_text>\<open>ServerPost\<close> give
    the effect of requests; \<^theory_text>\<open>ServerSafety\<close> and \<^theory_text>\<open>ServerReply\<close> what holds of every request whatever the database
    answers: GET keeps the data, no crash (when files can be created: \<open>working\<close>; an upload that cannot create its file does crash),
    the form of the replies the handlers send.

  \<^item> \<^theory_text>\<open>WebClient\<close>: ClientSide/Common/CModelWebServiceClient.cpp; transport, URI parser and base64 are parameters.
    \<^theory_text>\<open>Publish\<close>: client and server together, the transport handing each request to the handlers.

  \<^item> \<^theory_text>\<open>FloatArith\<close>: the operations on \<open>float\<close> that graphics code does, on bit patterns, and \<open>xmath\<close>, the D3DX and
    C library functions it calls, a parameter.
    \<^theory_text>\<open>D3DModel\<close>: ClientSide/Common/D3DModel.h and CD3DModelUtils.cpp, with Direct3D objects as numbers that have a
    reference count (\<open>gpu\<close>). \<^theory_text>\<open>D3DProps\<close>, \<^theory_text>\<open>D3DObj\<close>: creation, drawing, release and picking, and the models of OBJ files;
    \<open>hit_at\<close> takes a triangle as the renderer draws it, through the index buffer, \<open>unshared\<close> says when the ray test sees the same.
    \<^theory_text>\<open>Camera\<close>: tlCCamera.cpp; \<^theory_text>\<open>CameraProps\<close>: the matrices follow the description.
    \<^theory_text>\<open>RenderDialog\<close>: CRenderDialog.cpp, the mouse events of a view; its properties start from the template constructor, the one
    the programs use, over memory with any content.

  \<^item> \<^theory_text>\<open>Viewer\<close>: ClientSide/ModelViewer/ModelViewerDlg.cpp, the dialog's members, loading and view.
    \<^theory_text>\<open>ViewerRun\<close>: \<open>Load3DScanFromUrl\<close>, the download threads, their messages and every interleaving of them
    (\<open>viewer_step\<close>). \<^theory_text>\<open>ViewerGui\<close>: start (ModelViewer.cpp), buttons, keys, mouse and the frame.
    \<^theory_text>\<open>ViewerProps\<close>: an invariant of all interleavings and a measure (locale \<open>draining\<close>), opening from the cache.
    \<^theory_text>\<open>ViewerGuiProps\<close>: what sessions of a user (\<open>viewer_session\<close>: actions and messages; the
    downloads are \<open>viewer_step\<close>s) keep and what buttons do.

  \<^item> \<^theory_text>\<open>UploadTool\<close>, \<^theory_text>\<open>UploadToolProps\<close>: ClientSide/UploadTool/UploadToolDlg.cpp, its fields, buttons and upload threads
    (\<open>tool_step\<close>). \<^theory_text>\<open>ServerSubs\<close>: what the three GET requests of a viewer find once a model has its subscription;
    \<^theory_text>\<open>Delivery\<close>: the chain from the clicks in the upload tool to the model on the viewer's screen (\<open>connected\<close>: the three
    programs on one host), for the first viewer that downloads it: the server's stored text is read back with junk after it.

  \<^item> \<^theory_text>\<open>ModelEditor\<close>: ClientSide/ModelEditor/ModelEditorDlg.cpp; the user's actions are \<open>editor_input\<close>s.
    \<^theory_text>\<open>ModelEditorProps\<close>: the invariant of a session, and import, edits, saving and opening together, the
    edits being everything between the commands of the menu, with picking clicks and drawn frames (\<open>is_edit\<close>).
    \<^theory_text>\<open>EditorDelivery\<close>: from the OBJ file in the editor to the viewer.

  \<^theory_text>\<open>ScanWitness\<close>, \<^theory_text>\<open>ModelCacheWitness\<close>, \<^theory_text>\<open>ServerWitness\<close>, \<^theory_text>\<open>PublishWitness\<close>, \<^theory_text>\<open>ObjWitness\<close>,
  \<^theory_text>\<open>D3DWitness\<close>, \<^theory_text>\<open>ViewerWitness\<close>, \<^theory_text>\<open>DeliveryWitness\<close> and \<^theory_text>\<open>ModelEditorWitness\<close> apply the properties to concrete inputs: a codec that meets the
  LZ4 contract, a small database that answers exactly the statements of the server, a client wired to that server, a square as an OBJ, a
  device, a dialog whose three downloads are served, an upload tool, server and viewer joined, and an OBJ file with its
  material library and texture that is read as text.

  Conventions. A \<open>float\<close> is its 32 bits. A 32-bit integer is a word where it can wrap (sizes, offsets, counts) and an
  integer where the code compares ids. Text is a list of one-byte characters on the web and OBJ side and in the
  viewer, a list of 16-bit words in the cache, and bytes in the model; the conversions between wide and ANSI text are the identity on it,
  so text outside the code page is not covered. Requests, cache calls and window messages run one at a time; a download
  thread touches the dialog only in its callback, which is one step: that the callback of the advertisement writes \<open>m_strAdUrl\<close> while the
  window's thread may be reading it is a data race of the program that these steps do not show.

  Fuel. The loader follows offsets from the file, so its loops may not end. \<open>model_fuel\<close> is the longest chain of
  a model and is enough for its file; a cyclic file exhausts every fuel. The server draws subscription ids until one is unused; its fuel \<open>v_fuel\<close> counts the draws, and the
  properties assume a draw within it that is free. All other loops are structural or have a measure.

  Memory. Allocations succeed. Reading uninitialised memory is a parameter where the code goes on with what it finds (short
  reads, the wide buffers of the server, floats that were not scanned) and undefined behaviour where a C string or a flag is read from it.

  Not modelled. The class that registers the URL protocol is in no project; it writes a few registry keys. The Direct3D device and its
  views wrap the graphics API; the overlay is laid out by imgui, and of it the effect of each button is modelled. CD3DMesh.cpp is in no
  project. The standalone viewer under ClientSide/3DModelViewer has older copies of the same classes. Third-party code (LZ4, FreeImage,
  imgui, miniz, the rest of cpprest, MySQL, D3DX, GDI+) appears as parameters, with contracts where the program depends on it. The
  conversion of decimal text to float is the C runtime's and a parameter.
\<close>

end
